(* ===== verification/Prelude.thy ===== *)
theory Prelude
  imports Main "HOL-Library.Signed_Division"
begin

text \<open>
  Shared vocabulary of the development.

  \<^item> An asynchronous function of the program that reads and writes the database becomes an
    operation \<open>'w \<Rightarrow> (err + 'a) \<times> 'w\<close>: it returns a value or the error it throws, and in both
    cases the state it leaves behind. An error thrown after some rows were written keeps those
    rows, as in the program; only \<open>transaction\<close> (\<open>prisma.$transaction\<close>) rolls back.
  \<^item> A table is the list of its rows in insertion order; \<open>find_row\<close>, \<open>upd_rows\<close> and
    \<open>del_rows\<close> are the row operations the program uses of its database client.
  \<^item> \<open>preserves\<close> and its rules carry every invariant of the development through a handler.
\<close>

named_theorems op_simps \<open>unfolding equations of the operation combinators\<close>
named_theorems preserves_intros \<open>an operation keeps an invariant of the state\<close>

section \<open>Operations with state and errors\<close>

datatype err =
    AppError string int string
  | DbError string
  | PlainError string

fun err_message :: "err \<Rightarrow> string" where
  "err_message (AppError m s c) = m"
| "err_message (DbError m) = m"
| "err_message (PlainError m) = m"

text \<open>\<open>new AppError(m)\<close>, \<open>NotFoundError\<close> and \<open>ForbiddenError\<close>.\<close>

abbreviation app_error :: "string \<Rightarrow> err" where
  "app_error m \<equiv> AppError m 400 ''bad_request''"

abbreviation not_found_error :: "string \<Rightarrow> err" where
  "not_found_error m \<equiv> AppError m 404 ''not_found''"

abbreviation forbidden_error :: "string \<Rightarrow> err" where
  "forbidden_error m \<equiv> AppError m 403 ''forbidden''"

type_synonym ('w, 'a) op = "'w \<Rightarrow> (err + 'a) \<times> 'w"

definition ret :: "'a \<Rightarrow> ('w, 'a) op" where
  "ret x w = (Inr x, w)"

definition throw :: "err \<Rightarrow> ('w, 'a) op" where
  "throw e w = (Inl e, w)"

definition bnd :: "('w, 'a) op \<Rightarrow> ('a \<Rightarrow> ('w, 'b) op) \<Rightarrow> ('w, 'b) op" where
  "bnd m f w = (case m w of (Inl e, w') \<Rightarrow> (Inl e, w') | (Inr x, w') \<Rightarrow> f x w')"

definition andthen :: "('w, 'a) op \<Rightarrow> ('w, 'b) op \<Rightarrow> ('w, 'b) op" where
  "andthen m k = bnd m (\<lambda>_. k)"

definition gets :: "('w \<Rightarrow> 'a) \<Rightarrow> ('w, 'a) op" where
  "gets f w = (Inr (f w), w)"

definition modify :: "('w \<Rightarrow> 'w) \<Rightarrow> ('w, unit) op" where
  "modify f w = (Inr (), f w)"

text \<open>\<open>if (c) throw e\<close>.\<close>
definition throw_if :: "bool \<Rightarrow> err \<Rightarrow> ('w, unit) op" where
  "throw_if c e = (if c then throw e else ret ())"

text \<open>\<open>if (c) await m\<close>.\<close>
definition do_when :: "bool \<Rightarrow> ('w, unit) op \<Rightarrow> ('w, unit) op" where
  "do_when c m = (if c then m else ret ())"

text \<open>\<open>try { m } catch (e) { h(e) }\<close>: the writes of \<open>m\<close> stay.\<close>
definition catch_op :: "('w, 'a) op \<Rightarrow> (err \<Rightarrow> ('w, 'a) op) \<Rightarrow> ('w, 'a) op" where
  "catch_op m h w = (case m w of (Inl e, w') \<Rightarrow> h e w' | (Inr x, w') \<Rightarrow> (Inr x, w'))"

text \<open>\<open>m.catch(() => undefined)\<close> on an operation whose value is not used.\<close>
definition swallow :: "('w, 'a) op \<Rightarrow> ('w, unit) op" where
  "swallow m = catch_op (andthen m (ret ())) (\<lambda>_. ret ())"

text \<open>\<open>try { m } catch (err) { ... }\<close> where the rest needs the error as a value.\<close>
definition attempt :: "('w, 'a) op \<Rightarrow> ('w, err + 'a) op" where
  "attempt m = catch_op (bnd m (\<lambda>x. ret (Inr x))) (\<lambda>e. ret (Inl e))"

text \<open>\<open>prisma.$transaction(m)\<close>: an error undoes the writes of \<open>m\<close>.\<close>
definition transaction :: "('w, 'a) op \<Rightarrow> ('w, 'a) op" where
  "transaction m w = (case m w of (Inl e, w') \<Rightarrow> (Inl e, w) | (Inr x, w') \<Rightarrow> (Inr x, w'))"

definition or_throw :: "'a option \<Rightarrow> err \<Rightarrow> ('w, 'a) op" where
  "or_throw x e = (case x of None \<Rightarrow> throw e | Some y \<Rightarrow> ret y)"

text \<open>\<open>for (const x of xs) await f(x)\<close>.\<close>
fun for_each :: "'a list \<Rightarrow> ('a \<Rightarrow> ('w, unit) op) \<Rightarrow> ('w, unit) op" where
  "for_each [] f = ret ()"
| "for_each (x # xs) f = andthen (f x) (for_each xs f)"

text \<open>A loop that threads an accumulator.\<close>
fun fold_op :: "('a \<Rightarrow> 'b \<Rightarrow> ('w, 'b) op) \<Rightarrow> 'a list \<Rightarrow> 'b \<Rightarrow> ('w, 'b) op" where
  "fold_op f [] acc = ret acc"
| "fold_op f (x # xs) acc = bnd (f x acc) (fold_op f xs)"

lemmas op_defs [op_simps] =
  ret_def throw_def bnd_def andthen_def gets_def modify_def throw_if_def do_when_def
  catch_op_def swallow_def transaction_def or_throw_def

lemma bnd_ret [simp]: "bnd (ret x) f = f x"
  by (simp add: fun_eq_iff op_simps)

lemma bnd_gets [simp]: "bnd (gets g) f w = f (g w) w"
  by (simp add: op_simps)

lemma bnd_throw [simp]: "bnd (throw e) f = throw e"
  by (simp add: fun_eq_iff op_simps)

lemma bnd_assoc: "bnd (bnd m f) g = bnd m (\<lambda>x. bnd (f x) g)"
  by (auto simp: fun_eq_iff bnd_def split: prod.splits sum.splits)

lemma andthen_ret [simp]: "andthen (ret x) k = k"
  by (simp add: andthen_def)

lemma andthen_throw [simp]: "andthen (throw e) k = throw e"
  by (simp add: andthen_def)

lemma andthen_modify [simp]: "andthen (modify f) k w = k (f w)"
  by (simp add: op_simps)

lemma throw_if_simps [simp]: "throw_if True e = throw e" "throw_if False e = ret ()"
  by (simp_all add: throw_if_def)

lemma do_when_simps [simp]: "do_when True m = m" "do_when False m = ret ()"
  by (simp_all add: do_when_def)

lemma or_throw_simps [simp]: "or_throw None e = throw e" "or_throw (Some x) e = ret x"
  by (simp_all add: or_throw_def)

lemma bnd_throw_if: "bnd (throw_if c e) f = (if c then throw e else f ())"
  by (simp add: throw_if_def)

lemma andthen_throw_if: "andthen (throw_if c e) k = (if c then throw e else k)"
  by (simp add: throw_if_def)

lemma throw_app [simp]: "throw e w = (Inl e, w)"
  by (simp add: throw_def)

lemma ret_app [simp]: "ret x w = (Inr x, w)"
  by (simp add: ret_def)

lemma gets_app [simp]: "gets f w = (Inr (f w), w)"
  by (simp add: gets_def)

lemma modify_app [simp]: "modify f w = (Inr (), f w)"
  by (simp add: modify_def)

lemma andthen_gets [simp]: "andthen (gets f) k = k"
  by (simp add: fun_eq_iff op_simps)

text \<open>An operation that cannot fail, and the value it returns.\<close>

definition never_throws :: "('w, 'a) op \<Rightarrow> bool" where
  "never_throws m \<longleftrightarrow> (\<forall>w. \<exists>x w'. m w = (Inr x, w'))"

lemma never_throwsE:
  assumes "never_throws m" obtains x w' where "m w = (Inr x, w')"
  using assms unfolding never_throws_def by blast

lemma andthen_never_throws:
  "never_throws m \<Longrightarrow> andthen m k w = k (snd (m w))"
  by (erule never_throwsE [of m w]) (simp add: op_simps)

lemma attempt_run: "attempt m w = (case m w of (Inl e, w') \<Rightarrow> (Inr (Inl e), w') | (Inr x, w') \<Rightarrow> (Inr (Inr x), w'))"
  by (simp add: attempt_def op_simps split: prod.splits sum.splits)

lemma never_throws_attempt: "never_throws (attempt m)"
  by (auto simp: never_throws_def attempt_run split: prod.splits sum.splits)

lemma never_throws_swallow: "never_throws (swallow m)"
  unfolding never_throws_def
  by (auto simp: op_simps split: prod.splits sum.splits)

section \<open>Preservation of an invariant\<close>

definition preserves :: "('w \<Rightarrow> bool) \<Rightarrow> ('w, 'a) op \<Rightarrow> bool" where
  "preserves I m \<longleftrightarrow> (\<forall>w. I w \<longrightarrow> I (snd (m w)))"

lemma preservesI: "(\<And>w. I w \<Longrightarrow> I (snd (m w))) \<Longrightarrow> preserves I m"
  by (simp add: preserves_def)

lemma preservesD: "preserves I m \<Longrightarrow> I w \<Longrightarrow> I (snd (m w))"
  by (simp add: preserves_def)

lemma preserves_ret [preserves_intros]: "preserves I (ret x)"
  by (simp add: preserves_def)

lemma preserves_throw [preserves_intros]: "preserves I (throw e)"
  by (simp add: preserves_def)

lemma preserves_gets [preserves_intros]: "preserves I (gets f)"
  by (simp add: preserves_def)

lemma preserves_throw_if [preserves_intros]: "preserves I (throw_if c e)"
  by (simp add: throw_if_def preserves_ret preserves_throw)

lemma preserves_or_throw [preserves_intros]: "preserves I (or_throw x e)"
  by (cases x) (simp_all add: preserves_ret preserves_throw)

lemma preserves_modify: "(\<And>w. I w \<Longrightarrow> I (f w)) \<Longrightarrow> preserves I (modify f)"
  by (simp add: preserves_def)

lemma preserves_bnd [preserves_intros]:
  assumes "preserves I m" and "\<And>x. preserves I (f x)"
  shows "preserves I (bnd m f)"
proof (rule preservesI)
  fix w assume "I w"
  with assms(1) have m: "I (snd (m w))" by (rule preservesD)
  show "I (snd (bnd m f w))"
  proof (cases "m w")
    case (Pair r w')
    with m have "I w'" by simp
    with assms(2) show ?thesis
      by (cases r) (auto simp: bnd_def Pair dest: preservesD)
  qed
qed

lemma preserves_andthen [preserves_intros]:
  "preserves I m \<Longrightarrow> preserves I k \<Longrightarrow> preserves I (andthen m k)"
  by (simp add: andthen_def preserves_bnd)

lemma preserves_when [preserves_intros]: "preserves I m \<Longrightarrow> preserves I (do_when c m)"
  by (simp add: do_when_def preserves_ret)

lemma preserves_if [preserves_intros]:
  "preserves I m \<Longrightarrow> preserves I k \<Longrightarrow> preserves I (if c then m else k)"
  by simp

lemma preserves_catch [preserves_intros]:
  assumes "preserves I m" and "\<And>e. preserves I (h e)"
  shows "preserves I (catch_op m h)"
proof (rule preservesI)
  fix w assume "I w"
  with assms(1) have m: "I (snd (m w))" by (rule preservesD)
  show "I (snd (catch_op m h w))"
  proof (cases "m w")
    case (Pair r w')
    with m have "I w'" by simp
    with assms(2) show ?thesis
      by (cases r) (auto simp: catch_op_def Pair dest: preservesD)
  qed
qed

lemma preserves_swallow [preserves_intros]: "preserves I m \<Longrightarrow> preserves I (swallow m)"
  unfolding swallow_def by (intro preserves_intros)

lemma preserves_attempt [preserves_intros]: "preserves I m \<Longrightarrow> preserves I (attempt m)"
  unfolding attempt_def by (intro preserves_intros)

lemma preserves_sum:
  "(\<And>e. preserves I (h e)) \<Longrightarrow> (\<And>x. preserves I (f x)) \<Longrightarrow> preserves I (case y of Inl e \<Rightarrow> h e | Inr x \<Rightarrow> f x)"
  by (cases y) simp_all

lemma preserves_transaction [preserves_intros]:
  "preserves I m \<Longrightarrow> preserves I (transaction m)"
  by (auto simp: preserves_def transaction_def split: prod.splits sum.splits)

lemma preserves_for_each [preserves_intros]:
  "(\<And>x. preserves I (f x)) \<Longrightarrow> preserves I (for_each xs f)"
  by (induction xs) (simp_all add: preserves_ret preserves_andthen)

lemma preserves_fold_op [preserves_intros]:
  "(\<And>x acc. preserves I (f x acc)) \<Longrightarrow> preserves I (fold_op f xs acc)"
  by (induction xs arbitrary: acc) (simp_all add: preserves_ret preserves_bnd)

lemma preserves_option [preserves_intros]:
  "preserves I m \<Longrightarrow> (\<And>x. preserves I (f x)) \<Longrightarrow> preserves I (case y of None \<Rightarrow> m | Some x \<Rightarrow> f x)"
  by (cases y) simp_all

lemma preserves_let [preserves_intros]: "(\<And>x. preserves I (f x)) \<Longrightarrow> preserves I (let x = y in f x)"
  by simp

lemma preserves_prod [preserves_intros]:
  "(\<And>a b. preserves I (f a b)) \<Longrightarrow> preserves I (case p of (a, b) \<Rightarrow> f a b)"
  by (cases p) simp

lemma preserves_list [preserves_intros]:
  "preserves I m \<Longrightarrow> (\<And>x xs. preserves I (f x xs)) \<Longrightarrow>
   preserves I (case ys of [] \<Rightarrow> m | x # xs \<Rightarrow> f x xs)"
  by (cases ys) simp_all

section \<open>Runs that succeed\<close>

text \<open>
  What a successful run of each combinator means; \<open>inr_iffs\<close> takes a handler apart into the runs of
  its steps.
\<close>

named_theorems inr_iffs \<open>when an operation returns a value\<close>

lemma bnd_inr [inr_iffs]:
  "bnd m f w = (Inr x, w') \<longleftrightarrow> (\<exists>y w1. m w = (Inr y, w1) \<and> f y w1 = (Inr x, w'))"
  by (auto simp: bnd_def split: prod.splits sum.splits)

lemma andthen_inr [inr_iffs]:
  "andthen m k w = (Inr x, w') \<longleftrightarrow> (\<exists>y w1. m w = (Inr y, w1) \<and> k w1 = (Inr x, w'))"
  by (simp add: andthen_def bnd_inr)

lemma throw_if_inr [inr_iffs]: "throw_if c e w = (Inr u, w') \<longleftrightarrow> \<not> c \<and> w' = w"
  by (cases c) auto

lemma ret_inr [inr_iffs]: "ret x w = (Inr y, w') \<longleftrightarrow> y = x \<and> w' = w"
  by auto

lemma gets_inr [inr_iffs]: "gets f w = (Inr y, w') \<longleftrightarrow> y = f w \<and> w' = w"
  by auto

lemma modify_inr [inr_iffs]: "modify f w = (Inr u, w') \<longleftrightarrow> w' = f w"
  by auto

lemma throw_inr [inr_iffs]: "throw e w = (Inr y, w') \<longleftrightarrow> False"
  by auto

lemma or_throw_inr [inr_iffs]: "or_throw x e w = (Inr y, w') \<longleftrightarrow> x = Some y \<and> w' = w"
  by (cases x) auto

lemma do_when_inr [inr_iffs]: "do_when c m w = (Inr u, w') \<longleftrightarrow> (if c then m w = (Inr (), w') else w' = w)"
  by (cases c) auto

lemma transaction_inr [inr_iffs]: "transaction m w = (Inr x, w') \<longleftrightarrow> m w = (Inr x, w')"
  by (auto simp: transaction_def split: prod.splits sum.splits)

text \<open>An operation that only reads.\<close>

definition reads :: "('w, 'a) op \<Rightarrow> bool" where
  "reads m \<longleftrightarrow> (\<forall>w. snd (m w) = w)"

named_theorems reads_intros \<open>operations that only read\<close>

lemma readsD: "m w = (x, w') \<Longrightarrow> reads m \<Longrightarrow> w' = w"
  unfolding reads_def by (metis snd_conv)

lemma reads_basic [reads_intros]:
  "reads (ret x)" "reads (throw e)" "reads (gets f)" "reads (throw_if c e)" "reads (or_throw y e)"
  by (auto simp: reads_def throw_if_def or_throw_def split: option.splits)

lemma reads_bnd [reads_intros]:
  assumes "reads m" and "\<And>x. reads (f x)" shows "reads (bnd m f)"
  unfolding reads_def
proof
  fix w
  obtain r w1 where m: "m w = (r, w1)" by (cases "m w")
  then have "w1 = w" using assms(1) by (rule readsD)
  with m show "snd (bnd m f w) = w" using assms(2) by (cases r) (auto simp: bnd_def reads_def)
qed

lemma reads_andthen [reads_intros]: "reads m \<Longrightarrow> reads k \<Longrightarrow> reads (andthen m k)"
  by (simp add: andthen_def reads_bnd)

lemma reads_if [reads_intros]: "reads m \<Longrightarrow> reads k \<Longrightarrow> reads (if c then m else k)"
  by simp

lemma reads_option [reads_intros]:
  "reads m \<Longrightarrow> (\<And>x. reads (f x)) \<Longrightarrow> reads (case y of None \<Rightarrow> m | Some x \<Rightarrow> f x)"
  by (cases y) simp_all

lemma reads_let [reads_intros]: "(\<And>x. reads (f x)) \<Longrightarrow> reads (let x = y in f x)"
  by simp

lemma reads_prod [reads_intros]: "(\<And>a b. reads (f a b)) \<Longrightarrow> reads (case p of (a, b) \<Rightarrow> f a b)"
  by (cases p) simp

lemma reads_for_each [reads_intros]: "(\<And>x. reads (f x)) \<Longrightarrow> reads (for_each xs f)"
  by (induction xs) (simp_all add: reads_basic reads_andthen)

lemma reads_fold_op [reads_intros]: "(\<And>x acc. reads (f x acc)) \<Longrightarrow> reads (fold_op f xs acc)"
  by (induction xs arbitrary: acc) (simp_all add: reads_basic reads_bnd)

lemma preserves_reads: "reads m \<Longrightarrow> preserves I m"
  by (simp add: preserves_def reads_def)

lemma for_each_checks:
  "for_each xs (\<lambda>x. throw_if (c x) e) w = (Inr u, w') \<longleftrightarrow> (\<forall>x \<in> set xs. \<not> c x) \<and> w' = w"
  by (induction xs arbitrary: w) (auto simp: inr_iffs)

section \<open>Tables\<close>

definition find_row :: "('r \<Rightarrow> 'k) \<Rightarrow> 'k \<Rightarrow> 'r list \<Rightarrow> 'r option" where
  "find_row key k rows = find (\<lambda>r. key r = k) rows"

definition upd_rows :: "('r \<Rightarrow> bool) \<Rightarrow> ('r \<Rightarrow> 'r) \<Rightarrow> 'r list \<Rightarrow> 'r list" where
  "upd_rows p f rows = map (\<lambda>r. if p r then f r else r) rows"

definition del_rows :: "('r \<Rightarrow> bool) \<Rightarrow> 'r list \<Rightarrow> 'r list" where
  "del_rows p rows = filter (\<lambda>r. \<not> p r) rows"

lemma find_row_Nil [simp]: "find_row key k [] = None"
  by (simp add: find_row_def)

lemma find_row_Cons [simp]:
  "find_row key k (r # rows) = (if key r = k then Some r else find_row key k rows)"
  by (simp add: find_row_def)

lemma upd_rows_Nil [simp]: "upd_rows p f [] = []"
  by (simp add: upd_rows_def)

lemma upd_rows_Cons [simp]: "upd_rows p f (r # rows) = (if p r then f r else r) # upd_rows p f rows"
  by (simp add: upd_rows_def)

lemma del_rows_simps [simp]:
  "del_rows p [] = []" "del_rows p (r # rows) = (if p r then del_rows p rows else r # del_rows p rows)"
  by (simp_all add: del_rows_def)

lemma length_upd_rows [simp]: "length (upd_rows p f rows) = length rows"
  by (simp add: upd_rows_def)

lemma find_row_append:
  "find_row key k (xs @ ys) = (case find_row key k xs of None \<Rightarrow> find_row key k ys | Some r \<Rightarrow> Some r)"
  by (induction xs) simp_all

lemma find_row_key: "find_row key k rows = Some r \<Longrightarrow> key r = k"
  by (induction rows) (auto split: if_splits)

lemma find_row_in: "find_row key k rows = Some r \<Longrightarrow> r \<in> set rows"
  by (induction rows) (auto split: if_splits)

lemma find_row_None: "find_row key k rows = None \<longleftrightarrow> k \<notin> key ` set rows"
  by (induction rows) auto

lemma find_row_distinct:
  "distinct (map key rows) \<Longrightarrow> r \<in> set rows \<Longrightarrow> find_row key (key r) rows = Some r"
  by (induction rows) force+

lemma find_row_upd:
  assumes "\<And>r. key (f r) = key r"
  shows "find_row key k (upd_rows p f rows) =
    map_option (\<lambda>r. if p r then f r else r) (find_row key k rows)"
  using assms by (induction rows) auto

lemma find_row_del:
  "find_row key k (del_rows (\<lambda>r. key r = j) rows) = (if k = j then None else find_row key k rows)"
  by (induction rows) auto

lemma map_key_upd_rows [simp]:
  "(\<And>r. key (f r) = key r) \<Longrightarrow> map key (upd_rows p f rows) = map key rows"
  by (induction rows) auto

lemma set_upd_rows: "set (upd_rows p f rows) = (\<lambda>r. if p r then f r else r) ` set rows"
  by (simp add: upd_rows_def)

text \<open>Updating the row with one id keeps a second key unique when no other row has the new key.\<close>
lemma distinct_upd_rows:
  assumes "distinct (map key rows)" and "distinct (map key2 rows)"
    and "\<And>r s. r \<in> set rows \<Longrightarrow> s \<in> set rows \<Longrightarrow> key r = k \<Longrightarrow> key s \<noteq> k \<Longrightarrow> key2 (f r) \<noteq> key2 s"
  shows "distinct (map key2 (upd_rows (\<lambda>r. key r = k) f rows))"
  using assms
proof (induction rows)
  case Nil
  then show ?case by simp
next
  case (Cons r rows)
  have tail: "distinct (map key2 (upd_rows (\<lambda>r. key r = k) f rows))"
    using Cons.prems by (intro Cons.IH) simp_all
  have other: "key s \<noteq> key r \<and> key2 s \<noteq> key2 r" if "s \<in> set rows" for s
    using Cons.prems(1,2) that by (auto simp: image_def)
  have "key2 (if key r = k then f r else r) \<noteq> key2 (if key s = k then f s else s)" if "s \<in> set rows" for s
    using other [OF that] Cons.prems(3) [of r s] Cons.prems(3) [of s r] that by (auto dest: sym)
  then have "key2 (if key r = k then f r else r) \<notin> key2 ` set (upd_rows (\<lambda>r. key r = k) f rows)"
    unfolding set_upd_rows by blast
  then show ?case using tail by simp
qed

lemma set_del_rows: "set (del_rows p rows) = {r \<in> set rows. \<not> p r}"
  by (auto simp: del_rows_def)

text \<open>\<open>upsert\<close> in a table with one key.\<close>
fun put_row :: "'k \<Rightarrow> 'v \<Rightarrow> ('k \<times> 'v) list \<Rightarrow> ('k \<times> 'v) list" where
  "put_row k v [] = [(k, v)]"
| "put_row k v ((j, u) # rows) = (if j = k then (k, v) # rows else (j, u) # put_row k v rows)"

lemma map_of_put_row: "map_of (put_row k v rows) j = (if j = k then Some v else map_of rows j)"
  by (induction k v rows rule: put_row.induct) auto

section \<open>Text helpers\<close>

text \<open>
  JavaScript strings are lists of characters; the operations below are those of the code on
  the ASCII range. A string is falsy when it is empty, so \<open>a || b\<close> on nullable strings is
  \<open>str_or\<close>.
\<close>

definition is_space :: "char \<Rightarrow> bool" where
  "is_space c \<longleftrightarrow> c \<in> {CHR '' '', CHR 0x09, CHR 0x0A, CHR 0x0B, CHR 0x0C, CHR 0x0D}"

definition str_trim :: "string \<Rightarrow> string" where
  "str_trim s = rev (dropWhile is_space (rev (dropWhile is_space s)))"

definition is_digit :: "char \<Rightarrow> bool" where
  "is_digit c \<longleftrightarrow> c \<in> set ''0123456789''"

definition is_lower :: "char \<Rightarrow> bool" where
  "is_lower c \<longleftrightarrow> c \<in> set ''abcdefghijklmnopqrstuvwxyz''"

definition is_upper :: "char \<Rightarrow> bool" where
  "is_upper c \<longleftrightarrow> c \<in> set ''ABCDEFGHIJKLMNOPQRSTUVWXYZ''"

definition char_lower :: "char \<Rightarrow> char" where
  "char_lower c = (case map_of (zip ''ABCDEFGHIJKLMNOPQRSTUVWXYZ'' ''abcdefghijklmnopqrstuvwxyz'') c of
     None \<Rightarrow> c | Some d \<Rightarrow> d)"

definition char_upper :: "char \<Rightarrow> char" where
  "char_upper c = (case map_of (zip ''abcdefghijklmnopqrstuvwxyz'' ''ABCDEFGHIJKLMNOPQRSTUVWXYZ'') c of
     None \<Rightarrow> c | Some d \<Rightarrow> d)"

abbreviation to_lower :: "string \<Rightarrow> string" where
  "to_lower s \<equiv> map char_lower s"

abbreviation to_upper :: "string \<Rightarrow> string" where
  "to_upper s \<equiv> map char_upper s"

definition str_or :: "string option \<Rightarrow> 'a \<Rightarrow> (string \<Rightarrow> 'a) \<Rightarrow> 'a" where
  "str_or s d f = (case s of None \<Rightarrow> d | Some t \<Rightarrow> if t = [] then d else f t)"

text \<open>A nullable string counts as present when it is neither null nor empty.\<close>
definition truthy :: "string option \<Rightarrow> bool" where
  "truthy s \<longleftrightarrow> (case s of None \<Rightarrow> False | Some t \<Rightarrow> t \<noteq> [])"

text \<open>\<open>s || null\<close>.\<close>
definition nonempty :: "string \<Rightarrow> string option" where
  "nonempty s = (if s = [] then None else Some s)"

text \<open>\<open>s?.trim() || null\<close>.\<close>
definition trim_or_null :: "string option \<Rightarrow> string option" where
  "trim_or_null s = (case s of None \<Rightarrow> None | Some t \<Rightarrow> nonempty (str_trim t))"

definition opt_or :: "'a option \<Rightarrow> 'a option \<Rightarrow> 'a option" where
  "opt_or x y = (case x of None \<Rightarrow> y | Some a \<Rightarrow> Some a)"

definition opt_default :: "'a option \<Rightarrow> 'a \<Rightarrow> 'a" where
  "opt_default x d = (case x of None \<Rightarrow> d | Some a \<Rightarrow> a)"

lemma opt_simps [simp]:
  "opt_or None y = y" "opt_or (Some a) y = Some a"
  "opt_default None d = d" "opt_default (Some a) d = a"
  "truthy None = False" "truthy (Some t) = (t \<noteq> [])"
  by (simp_all add: opt_or_def opt_default_def truthy_def)

text \<open>Decimal digits of a number, as in a template string.\<close>

definition digit_char :: "nat \<Rightarrow> char" where
  "digit_char k = ''0123456789'' ! k"

function show_nat :: "nat \<Rightarrow> string" where
  "show_nat n = (if n < 10 then [digit_char n] else show_nat (n div 10) @ [digit_char (n mod 10)])"
  by auto
termination
  by (relation "measure id") auto

declare show_nat.simps [simp del]

definition show_int :: "int \<Rightarrow> string" where
  "show_int i = (if i < 0 then CHR ''-'' # show_nat (nat (- i)) else show_nat (nat i))"

lemma digit_char: "k < 10 \<Longrightarrow> is_digit (digit_char k)"
  unfolding is_digit_def digit_char_def by (rule nth_mem) simp

lemma show_nat_digits: "c \<in> set (show_nat n) \<Longrightarrow> is_digit c"
proof (induction n rule: less_induct)
  case (less n)
  show ?case
  proof (cases "n < 10")
    case True
    with less.prems show ?thesis by (simp add: show_nat.simps [of n] digit_char)
  next
    case False
    then show ?thesis
      using less.prems less.IH [of "n div 10"] by (auto simp: show_nat.simps [of n] digit_char)
  qed
qed

text \<open>\<open>text.includes(s)\<close>.\<close>
fun contains :: "string \<Rightarrow> string \<Rightarrow> bool" where
  "contains n [] = (n = [])"
| "contains n (c # cs) = (take (length n) (c # cs) = n \<or> contains n cs)"

text \<open>\<open>text.split(sep)\<close> and \<open>parts.join(sep)\<close> for a separator of one character.\<close>
fun split_on :: "char \<Rightarrow> string \<Rightarrow> string list" where
  "split_on s [] = [[]]"
| "split_on s (c # cs) = (if c = s then [] # split_on s cs
     else (case split_on s cs of [] \<Rightarrow> [[c]] | l # ls \<Rightarrow> (c # l) # ls))"

fun join_with :: "string \<Rightarrow> string list \<Rightarrow> string" where
  "join_with s [] = []"
| "join_with s [x] = x"
| "join_with s (x # y # ys) = x @ s @ join_with s (y # ys)"

lemma contains_append: "contains n b \<Longrightarrow> contains n (a @ b)"
  by (induction a) auto

lemma contains_prefix: "contains n (n @ b)"
proof (cases "n @ b")
  case Nil
  then show ?thesis by simp
next
  case (Cons c cs)
  have "take (length n) (c # cs) = n" using Cons [symmetric] by simp
  then show ?thesis using Cons by simp
qed

lemma split_on_nonempty [simp]: "split_on s cs \<noteq> []"
  by (induction cs) (auto split: list.splits)

lemma split_on_single: "s \<notin> set cs \<Longrightarrow> split_on s cs = [cs]"
  by (induction cs) auto

lemma split_on_append:
  "split_on s (a @ s # b) = split_on s a @ split_on s b"
proof (induction a)
  case Nil
  then show ?case by simp
next
  case (Cons c a)
  then show ?case
    by (cases "split_on s a") (auto split: list.splits)
qed

lemma join_split: "join_with [s] (split_on s cs) = cs"
proof (induction cs)
  case Nil
  then show ?case by simp
next
  case (Cons c cs)
  show ?case
  proof (cases "split_on s cs")
    case Nil
    then show ?thesis by simp
  next
    case (Cons l ls)
    then show ?thesis using Cons.IH by (cases ls) auto
  qed
qed

section \<open>Integers\<close>

text \<open>BigInt division truncates towards zero: \<open>sdiv\<close> of the library.\<close>

lemma sdiv_nonneg: "0 \<le> (a::int) \<Longrightarrow> 0 < b \<Longrightarrow> a sdiv b = a div b"
  by (cases "a = 0") (simp_all add: signed_divide_int_def sgn_if)

lemma sdiv_100_bounds:
  assumes "0 \<le> (a::int)" and "0 \<le> p" and "p \<le> 100"
  shows "0 \<le> (a * p) sdiv 100" and "(a * p) sdiv 100 \<le> a"
proof -
  have nn: "0 \<le> a * p" using assms by simp
  then show "0 \<le> (a * p) sdiv 100" by (simp add: sdiv_nonneg)
  have "a * p \<le> a * 100" using assms by (simp add: mult_left_mono)
  then show "(a * p) sdiv 100 \<le> a" using nn by (simp add: sdiv_nonneg)
qed

text \<open>\<open>Math.min(hi, Math.max(lo, x))\<close>.\<close>
definition clamp :: "int \<Rightarrow> int \<Rightarrow> int \<Rightarrow> int" where
  "clamp lo hi x = min hi (max lo x)"

lemma clamp_bounds: "lo \<le> hi \<Longrightarrow> lo \<le> clamp lo hi x \<and> clamp lo hi x \<le> hi"
  by (auto simp: clamp_def)

end
