(* ===== verification/Bytes.thy ===== *)
theory Bytes
  imports Prelude Complex_Main
begin

text \<open>
  \<open>packages/core/src/util/bytes.ts\<close> and the rounding functions of JavaScript. Numbers that the
  code computes with \<open>number\<close> and that need not be whole are \<open>rat\<close>: the exact value, with no NaN and no
  infinities; theory \<open>Doubles\<close> adds the rounding of a double where it decides the result.
\<close>

definition js_ceil :: "rat \<Rightarrow> int" where
  "js_ceil x = \<lceil>x\<rceil>"

text \<open>\<open>Math.round\<close>: to the nearest integer, halves upwards.\<close>
definition js_round :: "rat \<Rightarrow> int" where
  "js_round x = \<lfloor>x + 1 / 2\<rfloor>"

text \<open>\<open>Number(x.toFixed(digits))\<close>; of two nearest decimals the larger is taken.\<close>
definition to_fixed :: "nat \<Rightarrow> rat \<Rightarrow> rat" where
  "to_fixed digits x = of_int \<lfloor>x * 10 ^ digits + 1 / 2\<rfloor> / 10 ^ digits"

definition GB :: int where
  "GB = 1073741824"

definition DAY_MS :: int where
  "DAY_MS = 86400000"

definition gbToBytes :: "rat \<Rightarrow> int" where
  "gbToBytes gb = js_round (gb * of_int GB)"

definition bytesToGb :: "int \<Rightarrow> rat" where
  "bytesToGb b = to_fixed 2 (of_int b / of_int GB)"

definition daysFromNow :: "int \<Rightarrow> rat \<Rightarrow> int" where
  "daysFromNow tm days = tm + \<lfloor>days * of_int DAY_MS\<rfloor>"

lemma js_round_of_int [simp]: "js_round (of_int n) = n"
  by (simp add: js_round_def floor_eq_iff)

lemma js_ceil_of_int [simp]: "js_ceil (of_int n) = n"
  by (simp add: js_ceil_def)

lemma js_ceil_mono: "x \<le> y \<Longrightarrow> js_ceil x \<le> js_ceil y"
  by (simp add: js_ceil_def ceiling_mono)

lemma js_round_mono: "x \<le> y \<Longrightarrow> js_round x \<le> js_round y"
  by (simp add: js_round_def floor_mono)

lemma gbToBytes_of_int: "gbToBytes (of_int n) = n * GB"
  using js_round_of_int [of "n * GB"] by (simp add: gbToBytes_def)

lemma gbToBytes_nonneg: "0 \<le> gb \<Longrightarrow> 0 \<le> gbToBytes gb"
  by (simp add: gbToBytes_def js_round_def GB_def)

lemma gbToBytes_mono: "x \<le> y \<Longrightarrow> gbToBytes x \<le> gbToBytes y"
  unfolding gbToBytes_def by (rule js_round_mono) (simp add: GB_def)

text \<open>A size entered in whole hundredths of a gigabyte survives the trip through bytes.\<close>

lemma bytesToGb_gbToBytes:
  "bytesToGb (gbToBytes (of_int k / 100)) = of_int k / 100"
proof -
  let ?g = "of_int k / 100 * of_int GB :: rat"
  let ?b = "gbToBytes (of_int k / 100)"
  have lo: "?g - 1 / 2 < of_int ?b" and hi: "of_int ?b \<le> ?g + 1 / 2"
    unfolding gbToBytes_def js_round_def by linarith+
  let ?y = "of_int ?b / of_int GB * 10 ^ 2 + 1 / 2 :: rat"
  have "\<lfloor>?y\<rfloor> = k"
    using lo hi unfolding GB_def by (simp add: floor_eq_iff field_simps)
  then show ?thesis by (simp add: bytesToGb_def to_fixed_def)
qed

end
