(* ===== verification/Schema.thy ===== *)
theory Schema
  imports Prelude Complex_Main
begin

text \<open>
  The data of the program: one record per table of \<open>packages/db/prisma/schema.prisma\<close> with the
  columns the modelled code reads or writes, the typed settings groups, the replies of the services
  outside the repository, and the state \<open>world\<close> that the operations pass along.

  Identifiers made by the database (\<open>cuid()\<close>) are opaque; a counter draws them, so only their
  freshness is used. Times are milliseconds (\<open>Date.getTime()\<close>); \<open>clock\<close> is \<open>Date.now()\<close> during
  one operation. Money is \<open>bigint\<close>, hence \<open>int\<close>. Static Persian message texts are given in English.
\<close>

type_synonym uid = nat
type_synonym time = int

section \<open>Rows\<close>

datatype admin_role = OWNER | ADMIN
datatype order_status = O_PENDING | O_PAID | O_FULFILLED | O_CANCELED | O_EXPIRED
datatype payment_kind = K_ORDER | K_TOPUP
datatype payment_method = USDT | CARD | ZARINPAL | WALLET | MANUAL
datatype payment_status = P_PENDING | P_REVIEW | P_CONFIRMED | P_REJECTED | P_EXPIRED
datatype wallet_tx_kind = W_TOPUP | W_PURCHASE | W_REFUND | W_ADJUST
datatype customer_status = CU_ACTIVE | CU_BLOCKED
datatype client_status = C_ACTIVE | C_DISABLED | C_EXPIRED | C_LIMITED

text \<open>What a ledger row refers to: \<open>refType\<close> and \<open>refId\<close>.\<close>
datatype ref_type = R_client | R_payment | R_order | R_manual | R_admin | R_other string

record admin =
  adm_id :: uid
  adm_username :: string
  adm_role :: admin_role
  adm_displayName :: "string option"
  adm_isActive :: bool
  adm_credit :: int
  adm_trafficQuota :: "int option"
  adm_clientLimit :: "int option"
  adm_expiresAt :: "time option"
  adm_telegramId :: "string option"
  adm_pricePerGB :: "int option"
  adm_pricePerDay :: "int option"
  adm_createdAt :: time
  adm_passwordHash :: string
  adm_totpEnabled :: bool
  adm_totpSecret :: "string option"
  adm_createdById :: "uid option"
  adm_lastLoginAt :: "time option"
  adm_lastLoginIp :: "string option"

record admin_session =
  ads_id :: uid
  ads_adminId :: uid
  ads_tokenHash :: string
  ads_ip :: "string option"
  ads_expiresAt :: time
  ads_createdAt :: time

record client =
  cli_id :: uid
  cli_adminId :: uid
  cli_name :: string
  cli_tag :: "string option"
  cli_serviceId :: "uid option"
  cli_uuid :: string
  cli_subToken :: string
  cli_trafficLimit :: int
  cli_usedUp :: int
  cli_usedDown :: int
  cli_expiresAt :: "time option"
  cli_ipLimit :: int
  cli_status :: client_status
  cli_note :: "string option"
  cli_telegramId :: "string option"
  cli_phone :: "string option"
  cli_lastOnlineAt :: "time option"
  cli_customerId :: "uid option"
  cli_createdAt :: time

record client_server =
  cs_id :: uid
  cs_clientId :: uid
  cs_serverId :: uid
  cs_inboundId :: int
  cs_remoteEmail :: string
  cs_up :: int
  cs_down :: int
  cs_enabled :: bool
  cs_lastError :: "string option"

text \<open>One provisioning target: \<open>ClientTarget\<close>.\<close>
record target =
  t_serverId :: uid
  t_inboundId :: int

text \<open>One client entry of an inbound's stored settings: its id and its flow, if it is a string.\<close>
type_synonym inbound_client = "string \<times> string option"

record inbound =
  ib_id :: int
  ib_remark :: string
  ib_port :: int
  ib_protocol :: string
  ib_enable :: bool
  ib_clients :: "inbound_client list"
  ib_network :: "string option"
  ib_security :: "string option"

record server =
  srv_id :: uid
  srv_name :: string
  srv_isActive :: bool
  srv_inbounds :: "inbound list"

record server_access =
  acc_adminId :: uid
  acc_serverId :: uid
  acc_inboundIds :: "int list"

record service =
  svc_id :: uid
  svc_ownerId :: uid
  svc_name :: string
  svc_description :: "string option"
  svc_targets :: "target list"
  svc_adminIds :: "uid list"
  svc_isActive :: bool
  svc_sortOrder :: int
  svc_createdAt :: time

record wallet_tx =
  wtx_id :: uid
  wtx_adminId :: uid
  wtx_kind :: wallet_tx_kind
  wtx_amount :: int
  wtx_balanceAfter :: int
  wtx_refType :: "ref_type option"
  wtx_refId :: "uid option"
  wtx_note :: "string option"
  wtx_byAdminId :: "uid option"
  wtx_createdAt :: time

record customer =
  cus_id :: uid
  cus_adminId :: uid
  cus_name :: "string option"
  cus_email :: "string option"
  cus_phone :: "string option"
  cus_telegramId :: "string option"
  cus_passwordHash :: string
  cus_credit :: int
  cus_status :: customer_status
  cus_lastLoginAt :: "time option"
  cus_lastLoginIp :: "string option"
  cus_createdAt :: time

record customer_session =
  ses_id :: uid
  ses_customerId :: uid
  ses_tokenHash :: string
  ses_ip :: "string option"
  ses_expiresAt :: time
  ses_createdAt :: time

record customer_wallet_tx =
  cwt_id :: uid
  cwt_customerId :: uid
  cwt_kind :: wallet_tx_kind
  cwt_amount :: int
  cwt_balanceAfter :: int
  cwt_refType :: "ref_type option"
  cwt_refId :: "uid option"
  cwt_note :: "string option"
  cwt_byAdminId :: "uid option"
  cwt_createdAt :: time

record store_settings =
  sto_id :: uid
  sto_adminId :: uid
  sto_enabled :: bool
  sto_slug :: string
  sto_usdtEnabled :: bool
  sto_usdtAddress :: "string option"
  sto_usdtNetwork :: string
  sto_usdtRate :: int
  sto_usdtAutoVerify :: bool
  sto_cardEnabled :: bool
  sto_cardNumber :: "string option"
  sto_cardHolder :: "string option"
  sto_cardBank :: "string option"
  sto_zarinpalEnabled :: bool
  sto_zarinpalMerchant :: "string option"
  sto_zarinpalSandbox :: bool
  sto_requireTelegram :: bool
  sto_requirePhone :: bool
  sto_paymentTtlMin :: int
  sto_accountsEnabled :: bool
  sto_guestCheckout :: bool
  sto_walletEnabled :: bool
  sto_minTopup :: int
  sto_topupBonusPct :: int
  sto_requireEmail :: bool

text \<open>
  A stored plan target: the server/inbound pair and the service it was resolved from.
  Rows of the JSON column that are not well-formed targets are \<open>None\<close>.
\<close>
record plan_target =
  pt_target :: "target option"
  pt_serviceId :: "uid option"

record plan =
  pln_id :: uid
  pln_adminId :: uid
  pln_name :: string
  pln_description :: "string option"
  pln_badge :: "string option"
  pln_trafficGB :: int
  pln_days :: int
  pln_ipLimit :: int
  pln_price :: int
  pln_oldPrice :: "int option"
  pln_targets :: "plan_target list"
  pln_isActive :: bool
  pln_sortOrder :: int
  pln_sold :: int
  pln_createdAt :: time

record discount =
  dis_id :: uid
  dis_adminId :: uid
  dis_code :: string
  dis_percent :: int
  dis_amount :: int
  dis_maxUses :: "int option"
  dis_uses :: int
  dis_expiresAt :: "time option"
  dis_isActive :: bool
  dis_createdAt :: time

text \<open>\<open>PlanSnapshot\<close> of \<open>payments.ts\<close>: what an order sells.\<close>
record plan_snapshot =
  snap_name :: string
  snap_trafficGB :: int
  snap_days :: int
  snap_ipLimit :: int
  snap_targets :: "target list"

record order =
  ord_id :: uid
  ord_token :: string
  ord_adminId :: uid
  ord_planId :: "uid option"
  ord_clientId :: "uid option"
  ord_customerId :: "uid option"
  ord_renewClientId :: "uid option"
  ord_status :: order_status
  ord_listPrice :: int
  ord_discountCode :: "string option"
  ord_discountAmount :: int
  ord_amount :: int
  ord_customerName :: "string option"
  ord_customerTelegramId :: "string option"
  ord_customerPhone :: "string option"
  ord_customerEmail :: "string option"
  ord_error :: "string option"
  ord_note :: "string option"
  ord_ip :: "string option"
  ord_planSnapshot :: plan_snapshot
  ord_createdAt :: time
  ord_paidAt :: "time option"
  ord_fulfilledAt :: "time option"

text \<open>The wallet snapshot of a crypto payment: \<open>CryptoQuote\<close> of \<open>cryptoAssets.ts\<close>.\<close>
record crypto_quote =
  cq_assetId :: string
  cq_symbol :: string
  cq_network :: string
  cq_address :: string
  cq_memo :: "string option"
  cq_label :: "string option"
  cq_rateIrt :: rat
  cq_amount :: rat
  cq_decimals :: int
  cq_source :: string
  cq_auto :: bool
  cq_stale :: bool
  cq_at :: time

text \<open>The parts of \<open>Payment.meta\<close> that the code reads back.\<close>
record pay_meta =
  meta_crypto :: "crypto_quote option"
  meta_verify :: "string option"
  meta_tries :: int
  meta_amountSeen :: "rat option"
  meta_startUrl :: "string option"

record payment =
  pay_id :: uid
  pay_kind :: payment_kind
  pay_method :: payment_method
  pay_status :: payment_status
  pay_orderId :: "uid option"
  pay_adminId :: uid
  pay_customerId :: "uid option"
  pay_amount :: int
  pay_amountUsdt :: "rat option"
  pay_txid :: "string option"
  pay_receiptRef :: "string option"
  pay_receiptFile :: "string option"
  pay_cardPan :: "string option"
  pay_authority :: "string option"
  pay_refId :: "string option"
  pay_reviewedById :: "uid option"
  pay_reviewedAt :: "time option"
  pay_reviewNote :: "string option"
  pay_error :: "string option"
  pay_expiresAt :: "time option"
  pay_meta :: pay_meta
  pay_createdAt :: time
  pay_updatedAt :: time

text \<open>Values of the JSON objects written to the audit log and to webhook payloads.\<close>
datatype json =
    JNull | JBool bool | JInt int | JStr string | JId uid | JRat rat
  | JObj "(string \<times> json) list"

type_synonym json_obj = "(string \<times> json) list"

record audit_row =
  aud_at :: time
  aud_adminId :: "uid option"
  aud_action :: string
  aud_target :: json
  aud_meta :: json_obj
  aud_ip :: "string option"

text \<open>The parts of a notification's dedupe key, in the order the code joins them with colons.\<close>
type_synonym dedupe_key = "json list"

record notification_row =
  ntf_at :: time
  ntf_kind :: string
  ntf_targetId :: json
  ntf_adminId :: "uid option"
  ntf_dedupeKey :: dedupe_key
  ntf_ok :: bool
  ntf_error :: "string option"

record webhook =
  whk_id :: uid
  whk_adminId :: uid
  whk_url :: string
  whk_secret :: string
  whk_events :: "string list"
  whk_isActive :: bool
  whk_lastStatus :: "int option"
  whk_lastError :: "string option"
  whk_lastFiredAt :: "time option"
  whk_failCount :: int

record webhook_delivery =
  whd_id :: uid
  whd_webhookId :: uid
  whd_event :: string
  whd_payload :: json_obj
  whd_status :: "int option"
  whd_error :: "string option"
  whd_attempts :: nat
  whd_nextAt :: time
  whd_doneAt :: "time option"
  whd_createdAt :: time

section \<open>Settings groups\<close>

text \<open>
  Each group is one key of the Setting table, parsed by its schema; a missing or malformed value
  is the group's defaults. The values below are the parsed ones.
\<close>

record pricing_settings =
  billingEnabled :: bool
  pricePerGB :: int
  pricePerDay :: int
  chargeOnRenew :: bool
  creditLimit :: int
  lowBalance :: int

record refund_settings =
  refundEnabled :: bool
  refundPercent :: int
  refundMin :: int

record telegram_settings =
  tg_enabled :: bool
  tg_botToken :: string
  tg_chatId :: string
  tg_notifyExpiry :: bool
  tg_notifyTraffic :: bool
  tg_notifyLogins :: bool
  tg_notifyClientsDirect :: bool

record pending_start =
  ps_clientId :: uid
  ps_days :: int
  ps_armedAt :: time

text \<open>What kinds of client a reseller may create, and what a service may be used for: \<open>clientTypes.ts\<close>.\<close>
datatype client_kind = LIMITED | UNLIMITED
datatype service_kind = SK_BOTH | SK_ONLY client_kind

record kind_access =
  ka_limited :: bool
  ka_unlimited :: bool
  ka_unlimitedMax :: int
  ka_limitedMaxGB :: int

record client_type_settings =
  ct_default :: kind_access
  ct_admins :: "(uid \<times> kind_access) list"
  ct_services :: "(uid \<times> service_kind) list"

record security_settings =
  sec_lockEnabled :: bool
  sec_maxFailures :: int
  sec_windowMin :: int
  sec_lockMin :: int
  sec_perIp :: bool
  sec_notifyLock :: bool
  sec_revokeOnPasswordChange :: bool

record auto_renew_rule =
  ar_everyDays :: int
  ar_maxCycles :: int
  ar_cycles :: int
  ar_extendExpiry :: bool
  ar_nextAt :: time
  ar_lastAt :: "time option"

datatype rate_mode = RM_USDT | RM_MARKET | RM_FIXED

record crypto_asset =
  ca_id :: string
  ca_symbol :: string
  ca_network :: string
  ca_address :: string
  ca_memo :: string
  ca_label :: string
  ca_enabled :: bool
  ca_rateMode :: rate_mode
  ca_fixedRate :: rat
  ca_marginPct :: rat
  ca_decimals :: int

record coin_cache_row =
  cc_rate :: rat
  cc_at :: "time option"
  cc_source :: string

datatype fx_source = NOBITEX | WALLEX | BITPIN | TETHERLAND | RAMZINEX | CUSTOM

record fx_settings =
  fx_auto :: bool
  fx_sources :: "fx_source list"
  fx_marginPct :: rat
  fx_roundTo :: int
  fx_ttlMin :: int
  fx_minRate :: int
  fx_maxRate :: int
  fx_customUrl :: string
  fx_customPath :: string
  fx_customIrr :: bool
  fx_cacheRate :: int
  fx_cacheAt :: "time option"
  fx_cacheSource :: string
  fx_lastError :: string

datatype bank_provider = BP_NONE | BP_HAMRAHBANK | BP_CUSTOM
datatype card_mode = CM_MANUAL | CM_SMS | CM_BANK
datatype deposit_source = DS_SMS | DS_BANK | DS_MANUAL
datatype deposit_status = D_MATCHED | D_UNMATCHED | D_AMBIGUOUS | D_DUPLICATE | D_IGNORED

record deposit =
  dep_id :: uid
  dep_at :: time
  dep_amount :: int
  dep_refId :: string
  dep_last4 :: string
  dep_sender :: string
  dep_raw :: string
  dep_source :: deposit_source
  dep_status :: deposit_status
  dep_paymentId :: "uid option"
  dep_note :: string

record card_settings =
  card_mode :: card_mode
  card_autoConfirm :: bool
  card_uniqueAmount :: bool
  card_windowMin :: int
  card_toleranceIrt :: int
  card_requireLast4 :: bool
  card_smsToken :: string
  card_senders :: "string list"
  card_lastError :: string
  card_deposits :: "deposit list"
  card_bankProvider :: bank_provider
  card_bankApiUrl :: string
  card_bankPollMin :: int
  card_bankLastSyncAt :: "time option"

text \<open>A plan that sells a reseller account, and the accounts sold: \<open>panelPlans.ts\<close>.\<close>
record panel_plan_link =
  pp_planId :: uid
  pp_enabled :: bool
  pp_gb :: int
  pp_days :: int
  pp_clients :: int
  pp_prefix :: string
  pp_grantAccess :: bool
  pp_topUp :: bool

record panel_account =
  pa_adminId :: uid
  pa_username :: string
  pa_sellerId :: uid
  pa_planId :: "uid option"
  pa_buyerRef :: string
  pa_orderId :: uid
  pa_createdAt :: time
  pa_lastOrderId :: uid
  pa_lastAt :: time
  pa_renewals :: int

record panel_handoff =
  ho_orderId :: uid
  ho_sellerId :: uid
  ho_adminId :: uid
  ho_username :: string
  ho_password :: string
  ho_renewal :: bool
  ho_delivered :: "string list"
  ho_createdAt :: time

text \<open>Packages a reseller buys for its own account: \<open>resellerPlans.ts\<close>.\<close>
record reseller_plan =
  rp_id :: uid
  rp_name :: string
  rp_description :: string
  rp_gb :: int
  rp_days :: int
  rp_clients :: int
  rp_price :: int
  rp_isActive :: bool
  rp_sortOrder :: int
  rp_adminIds :: "uid list"

record reseller_plan_settings =
  rps_enabled :: bool
  rps_plans :: "reseller_plan list"

text \<open>Outgoing mail and the login codes it carries: \<open>mailer.ts\<close>.\<close>
record mail_settings =
  mail_enabled :: bool
  mail_host :: string
  mail_user :: string
  mail_from :: string
  mail_to :: string
  mail_loginCode :: bool
  mail_ttlMin :: int

record login_code =
  lc_hash :: string
  lc_exp :: time
  lc_tries :: int

section \<open>Remote panels\<close>

text \<open>
  A remote panel is outside the repository. What the code does to it is the list of calls made so
  far; what it answers (the message of the error it raises, if any) is a function of that history
  and of the call, so that a panel may keep any state of its own.
\<close>

record provision_input =
  pi_uuid :: string
  pi_email :: string
  pi_totalBytes :: int
  pi_expiryTimeMs :: int
  pi_limitIp :: int
  pi_limitHwid :: int
  pi_enable :: bool
  pi_subId :: string
  pi_flow :: string
  pi_tgId :: string

datatype panel_call =
    PanelAdd uid "int list" string provision_input
  | PanelUpdate uid "int list" string provision_input
  | PanelDelete uid "int list" string string string
  | PanelReset uid int string
  | PanelClearIps uid string
  | PanelClearDevices uid string

section \<open>The state\<close>

text \<open>
  JSON that arrives from outside, after \<open>JSON.parse\<close>, and the reply of an HTTP request: a transport
  error, or a status with the parsed body (or the parser's error). A missing property is \<open>None\<close>
  where the model reads it.
\<close>

datatype jval = VNull | VBool bool | VNum rat | VStr string | VArr "jval list" | VObj "(string \<times> jval) list"

datatype http_reply = HttpFail string | HttpReply int "string + jval"

text \<open>
  Services outside the repository, as functions of what is sent to them: the Telegram API (the
  error of a message to a chat, if any), the HTTP endpoint of a webhook (status or transport
  error), the remote panels, the JSON services (payment gateway, block explorers, price sources) by
  address and time, hashing and encryption, and the random sources (functions of the number of the
  draw).
\<close>

record services =
  ext_telegram :: "string \<Rightarrow> string option"
  ext_http_post :: "string \<Rightarrow> string \<Rightarrow> json_obj \<Rightarrow> string + int"
  ext_mail :: "string \<Rightarrow> bool"
  ext_panel :: "panel_call list \<Rightarrow> panel_call \<Rightarrow> string option"
  ext_http_get :: "time \<Rightarrow> string \<Rightarrow> http_reply"
  ext_http_json :: "time \<Rightarrow> string \<Rightarrow> jval \<Rightarrow> http_reply"
  ext_sha256_bytes :: "nat list \<Rightarrow> nat list"
  ext_hash_password :: "string \<Rightarrow> string"
  ext_verify_password :: "string \<Rightarrow> string \<Rightarrow> bool"
  ext_hmac_sha1 :: "nat list \<Rightarrow> nat list \<Rightarrow> nat list"
  ext_stringify :: "jval \<Rightarrow> string"
  ext_parse_date :: "string \<Rightarrow> time option"
  ext_random_int :: "nat \<Rightarrow> nat \<Rightarrow> nat"
  ext_sha256 :: "string \<Rightarrow> string"
  ext_sha1 :: "json list \<Rightarrow> string"
  ext_encrypt :: "string \<Rightarrow> string"
  ext_decrypt :: "string \<Rightarrow> string option"
  ext_random_token :: "nat \<Rightarrow> nat \<Rightarrow> string"
  ext_random_uuid :: "nat \<Rightarrow> string"
  ext_random_bytes :: "nat \<Rightarrow> nat \<Rightarrow> nat list"

record world =
  clock :: time
  next_id :: uid
  env_public_url :: string
  svcs :: services
  admins :: "admin list"
  clients :: "client list"
  client_servers :: "client_server list"
  servers :: "server list"
  server_accesses :: "server_access list"
  service_rows :: "service list"
  wallet_txs :: "wallet_tx list"
  customers :: "customer list"
  customer_sessions :: "customer_session list"
  customer_wallet_txs :: "customer_wallet_tx list"
  stores :: "store_settings list"
  plans :: "plan list"
  discounts :: "discount list"
  orders :: "order list"
  payments :: "payment list"
  audit_log :: "audit_row list"
  notification_log :: "notification_row list"
  webhooks :: "webhook list"
  webhook_deliveries :: "webhook_delivery list"
  hook_count_cache :: "(time \<times> nat) option"
  pricing :: pricing_settings
  refund_cfg :: refund_settings
  telegram_cfg :: telegram_settings
  pending_starts :: "pending_start list"
  admin_sessions :: "admin_session list"
  panel_log :: "panel_call list"
  hwid_rows :: "(uid \<times> int) list"
  auto_renew_rows :: "(uid \<times> auto_renew_rule) list"
  client_usage :: "(uid \<times> int \<times> int) list"
  client_types :: client_type_settings
  security_cfg :: security_settings
  crypto_cfg :: "(uid \<times> crypto_asset list) list"
  coin_cache :: "(string \<times> coin_cache_row) list"
  fx_cfg :: "(uid \<times> fx_settings) list"
  card_cfg :: "(uid \<times> card_settings) list"
  panel_links :: "(uid \<times> panel_plan_link) list"
  panel_accounts :: "(dedupe_key \<times> panel_account) list"
  panel_handoffs :: "(uid \<times> panel_handoff) list"
  feature_on :: "string \<Rightarrow> bool"
  sms_hooks :: "(string \<times> uid option) list"
  reseller_plan_cfg :: reseller_plan_settings
  mail_cfg :: mail_settings
  login_codes :: "(string \<times> login_code) list"
  env_owner_username :: "string option"
  env_owner_password :: "string option"
  owner_ensured :: bool

definition find_admin :: "uid \<Rightarrow> world \<Rightarrow> admin option" where
  "find_admin i w = find_row adm_id i (admins w)"

definition find_client :: "uid \<Rightarrow> world \<Rightarrow> client option" where
  "find_client i w = find_row cli_id i (clients w)"

definition find_customer :: "uid \<Rightarrow> world \<Rightarrow> customer option" where
  "find_customer i w = find_row cus_id i (customers w)"

definition find_order :: "uid \<Rightarrow> world \<Rightarrow> order option" where
  "find_order i w = find_row ord_id i (orders w)"

definition find_payment :: "uid \<Rightarrow> world \<Rightarrow> payment option" where
  "find_payment i w = find_row pay_id i (payments w)"

definition find_plan :: "uid \<Rightarrow> world \<Rightarrow> plan option" where
  "find_plan i w = find_row pln_id i (plans w)"

definition find_store :: "uid \<Rightarrow> world \<Rightarrow> store_settings option" where
  "find_store adminId w = find_row sto_adminId adminId (stores w)"

definition find_server :: "uid \<Rightarrow> world \<Rightarrow> server option" where
  "find_server i w = find_row srv_id i (servers w)"

text \<open>A fresh identifier, as \<open>@default(cuid())\<close>.\<close>
definition new_id :: "(world, uid) op" where
  "new_id w = (Inr (next_id w), w\<lparr>next_id := Suc (next_id w)\<rparr>)"

text \<open>\<open>randomToken(n)\<close> and \<open>randomUUID()\<close>: the next draw of the random source.\<close>
definition randomToken :: "nat \<Rightarrow> (world, string) op" where
  "randomToken n = bnd new_id (\<lambda>k. gets (\<lambda>w. ext_random_token (svcs w) k n))"

definition randomUUID :: "(world, string) op" where
  "randomUUID = bnd new_id (\<lambda>k. gets (\<lambda>w. ext_random_uuid (svcs w) k))"

text \<open>\<open>randomInt(0, n)\<close>.\<close>
definition randomInt :: "nat \<Rightarrow> (world, nat) op" where
  "randomInt n = bnd new_id (\<lambda>k. gets (\<lambda>w. ext_random_int (svcs w) k n))"

text \<open>\<open>update({ where: { id } })\<close> on a row that is not there throws (Prisma error P2025).\<close>
definition record_not_found :: err where
  "record_not_found = DbError ''P2025: record not found''"

definition unique_violation :: err where
  "unique_violation = DbError ''P2002: unique constraint failed''"

definition now :: "(world, time) op" where
  "now = gets clock"

end
