(* ===== verification/Events.thy ===== *)
theory Events
  imports Schema
begin

text \<open>
  The event plumbing every handler uses: \<open>webhooks.ts\<close> (queueing and delivering events),
  \<open>notifications.ts\<close> (Telegram messages, once per dedupe key) and \<open>audit.ts\<close>.
  Message texts are not modelled; which message goes out, under which key and to whom, is.
\<close>

section \<open>Webhooks: \<open>webhooks.ts\<close>\<close>

definition MAX_ATTEMPTS :: nat where
  "MAX_ATTEMPTS = 6"

definition anyHooks :: "(world, bool) op" where
  "anyHooks w =
    (case hook_count_cache w of
       Some (tm, n) \<Rightarrow>
         if clock w - tm < 30000 then (Inr (0 < n), w)
         else (let k = length (filter whk_isActive (webhooks w))
               in (Inr (0 < k), w\<lparr>hook_count_cache := Some (clock w, k)\<rparr>))
     | None \<Rightarrow>
         (let k = length (filter whk_isActive (webhooks w))
          in (Inr (0 < k), w\<lparr>hook_count_cache := Some (clock w, k)\<rparr>)))"

definition invalidateWebhookCache :: "(world, unit) op" where
  "invalidateWebhookCache = modify (\<lambda>w. w\<lparr>hook_count_cache := None\<rparr>)"

fun status_name :: "client_status \<Rightarrow> string" where
  "status_name C_ACTIVE = ''ACTIVE''"
| "status_name C_DISABLED = ''DISABLED''"
| "status_name C_EXPIRED = ''EXPIRED''"
| "status_name C_LIMITED = ''LIMITED''"

definition opt_json :: "('a \<Rightarrow> json) \<Rightarrow> 'a option \<Rightarrow> json" where
  "opt_json f x = (case x of None \<Rightarrow> JNull | Some a \<Rightarrow> f a)"

text \<open>A field that is left out when its value is \<open>undefined\<close>.\<close>
definition opt_field :: "string \<Rightarrow> ('a \<Rightarrow> json) \<Rightarrow> 'a option \<Rightarrow> json_obj" where
  "opt_field k f x = (case x of None \<Rightarrow> [] | Some a \<Rightarrow> [(k, f a)])"

definition client_json :: "client \<Rightarrow> json" where
  "client_json c = JObj
    [(''id'', JId (cli_id c)), (''name'', JStr (cli_name c)), (''uuid'', JStr (cli_uuid c)),
     (''status'', JStr (status_name (cli_status c))), (''trafficLimit'', JInt (cli_trafficLimit c)),
     (''usedUp'', JInt (cli_usedUp c)), (''usedDown'', JInt (cli_usedDown c)),
     (''expiresAt'', opt_json JInt (cli_expiresAt c)), (''ipLimit'', JInt (cli_ipLimit c)),
     (''note'', opt_json JStr (cli_note c)), (''adminId'', JId (cli_adminId c)),
     (''createdAt'', JInt (cli_createdAt c))]"

definition enrich :: "string \<Rightarrow> json option \<Rightarrow> world \<Rightarrow> json_obj" where
  "enrich event tgt w =
    (if take 7 event = ''client.'' then
       (case tgt of
          Some (JId i) \<Rightarrow> (case find_client i w of Some c \<Rightarrow> [(''client'', client_json c)] | None \<Rightarrow> [])
        | _ \<Rightarrow> [])
     else [])"

definition is_owner_id :: "uid \<Rightarrow> world \<Rightarrow> bool" where
  "is_owner_id i w = (case find_admin i w of Some a \<Rightarrow> adm_role a = OWNER | None \<Rightarrow> False)"

definition hook_matches :: "world \<Rightarrow> uid option \<Rightarrow> string \<Rightarrow> webhook \<Rightarrow> bool" where
  "hook_matches w adminId event h \<longleftrightarrow>
    whk_isActive h \<and> (is_owner_id (whk_adminId h) w \<or> adminId = Some (whk_adminId h)) \<and>
    (whk_events h = [] \<or> event \<in> set (whk_events h))"

definition new_delivery :: "string \<Rightarrow> json_obj \<Rightarrow> time \<Rightarrow> webhook \<Rightarrow> uid \<Rightarrow> webhook_delivery" where
  "new_delivery event body tm h i =
    \<lparr>whd_id = i, whd_webhookId = whk_id h, whd_event = event, whd_payload = body, whd_status = None,
     whd_error = None, whd_attempts = 0, whd_nextAt = tm, whd_doneAt = None, whd_createdAt = tm\<rparr>"

definition queue_deliveries :: "string \<Rightarrow> json_obj \<Rightarrow> webhook list \<Rightarrow> world \<Rightarrow> world" where
  "queue_deliveries event body hs w = w\<lparr>
     webhook_deliveries := webhook_deliveries w @
       map2 (new_delivery event body (clock w)) hs [next_id w ..< next_id w + length hs],
     next_id := next_id w + length hs\<rparr>"

text \<open>\<open>emitEvent\<close>: queues the event for every active hook of an owner or of the event's admin.\<close>
definition emitEvent :: "uid option \<Rightarrow> string \<Rightarrow> json_obj \<Rightarrow> (world, unit) op" where
  "emitEvent adminId event payload =
    bnd anyHooks (\<lambda>any.
      if \<not> any then ret ()
      else modify (\<lambda>w.
        let hs = filter (hook_matches w adminId event) (webhooks w) in
        if hs = [] then w
        else
          let body = [(''event'', JStr event), (''at'', JInt (clock w)), (''adminId'', opt_json JId adminId)]
                @ payload @ enrich event (map_of payload ''target'') w
          in queue_deliveries event body hs w))"

text \<open>One delivery attempt: \<open>deliver\<close>; \<open>res.ok\<close> is a status from 200 to 299.\<close>
definition deliver :: "services \<Rightarrow> webhook \<Rightarrow> string \<Rightarrow> json_obj \<Rightarrow> int option \<times> string option" where
  "deliver x h event payload =
    (case ext_http_post x (whk_url h) event payload of
       Inr st \<Rightarrow> (Some st, if 200 \<le> st \<and> st < 300 then None else Some ''HTTP error'')
     | Inl e \<Rightarrow> (None, Some e))"

text \<open>What one round does to a due delivery (the body of the loop of \<open>dispatchWebhooks\<close>).\<close>

definition delivery_success :: "int option \<Rightarrow> bool" where
  "delivery_success st \<longleftrightarrow> (case st of Some s \<Rightarrow> 200 \<le> s \<and> s < 300 | None \<Rightarrow> False)"

definition after_attempt :: "time \<Rightarrow> int option \<Rightarrow> string option \<Rightarrow> webhook_delivery \<Rightarrow> webhook_delivery" where
  "after_attempt tm st er d =
    (let k = Suc (whd_attempts d); success = delivery_success st;
         giveUp = (\<not> success \<and> MAX_ATTEMPTS \<le> k)
     in d\<lparr>whd_attempts := k, whd_status := st, whd_error := er,
          whd_doneAt := (if success \<or> giveUp then Some tm else None),
          whd_nextAt := tm + min 60 (2 ^ k) * 60000\<rparr>)"

definition hook_after :: "time \<Rightarrow> int option \<Rightarrow> string option \<Rightarrow> webhook \<Rightarrow> webhook" where
  "hook_after tm st er h = h\<lparr>whk_lastStatus := st, whk_lastError := er, whk_lastFiredAt := Some tm,
     whk_failCount := (if delivery_success st then 0 else whk_failCount h + 1)\<rparr>"

definition dispatch_one :: "webhook_delivery \<Rightarrow> webhook \<Rightarrow> world \<Rightarrow> world" where
  "dispatch_one d h w =
    (if \<not> whk_isActive h then
       w\<lparr>webhook_deliveries := upd_rows (\<lambda>r. whd_id r = whd_id d)
           (\<lambda>r. r\<lparr>whd_doneAt := Some (clock w), whd_error := Some ''webhook disabled''\<rparr>)
           (webhook_deliveries w)\<rparr>
     else
       (let (st, er) = deliver (svcs w) h (whd_event d) (whd_payload d) in
        w\<lparr>webhook_deliveries := upd_rows (\<lambda>r. whd_id r = whd_id d) (\<lambda>_. after_attempt (clock w) st er d)
            (webhook_deliveries w),
          webhooks := upd_rows (\<lambda>r. whk_id r = whk_id h) (hook_after (clock w) st er) (webhooks w)\<rparr>))"

definition is_due :: "time \<Rightarrow> webhook_delivery \<Rightarrow> bool" where
  "is_due tm d \<longleftrightarrow> whd_doneAt d = None \<and> whd_nextAt d \<le> tm \<and> whd_attempts d < MAX_ATTEMPTS"

definition due_deliveries :: "nat \<Rightarrow> world \<Rightarrow> (webhook_delivery \<times> webhook) list" where
  "due_deliveries limit w =
    List.map_filter (\<lambda>d. map_option (Pair d) (find_row whk_id (whd_webhookId d) (webhooks w)))
      (take limit (sort_key whd_nextAt (filter (is_due (clock w)) (webhook_deliveries w))))"

text \<open>\<open>dispatchWebhooks\<close>: the due rows are read once, with their hooks, then sent in order.\<close>
definition dispatchWebhooks :: "nat \<Rightarrow> (world, nat) op" where
  "dispatchWebhooks limit =
    bnd (gets (due_deliveries limit)) (\<lambda>due.
    andthen (for_each due (\<lambda>(d, h). modify (dispatch_one d h)))
    (andthen (modify (\<lambda>w. w\<lparr>webhook_deliveries :=
        del_rows (\<lambda>r. case whd_doneAt r of Some t \<Rightarrow> t < clock w - 14 * 86400000 | None \<Rightarrow> False)
          (webhook_deliveries w)\<rparr>))
    (ret (length due))))"

section \<open>Notifications: \<open>notifications.ts\<close>\<close>

record recipients =
  rc_adminId :: "uid option"
  rc_clientTelegramId :: "string option"
  rc_ownerOnly :: bool

definition to_admin :: "uid option \<Rightarrow> recipients" where
  "to_admin a = \<lparr>rc_adminId = a, rc_clientTelegramId = None, rc_ownerOnly = False\<rparr>"

definition to_owner :: recipients where
  "to_owner = \<lparr>rc_adminId = None, rc_clientTelegramId = None, rc_ownerOnly = True\<rparr>"

text \<open>Chats in insertion order, without repetition (a JavaScript \<open>Set\<close>).\<close>
definition add_chat :: "string option \<Rightarrow> string list \<Rightarrow> string list" where
  "add_chat c xs = (case c of None \<Rightarrow> xs | Some x \<Rightarrow> if x = [] \<or> x \<in> set xs then xs else xs @ [x])"

definition recipientsFor :: "world \<Rightarrow> recipients \<Rightarrow> string list" where
  "recipientsFor w r =
    (let s = telegram_cfg w;
         ids1 = add_chat (Some (tg_chatId s)) [];
         ids2 = (if rc_ownerOnly r then ids1 else
                  (case rc_adminId r of
                     None \<Rightarrow> ids1
                   | Some a \<Rightarrow> (case find_admin a w of
                       Some adm \<Rightarrow> if adm_isActive adm then add_chat (adm_telegramId adm) ids1 else ids1
                     | None \<Rightarrow> ids1)))
     in if \<not> rc_ownerOnly r \<and> tg_notifyClientsDirect s then add_chat (rc_clientTelegramId r) ids2 else ids2)"

text \<open>The send loop: whether one chat accepted the message, and the last error seen.\<close>
fun send_all :: "services \<Rightarrow> string list \<Rightarrow> bool \<Rightarrow> string option \<Rightarrow> bool \<times> string option" where
  "send_all x [] okay er = (okay, er)"
| "send_all x (c # cs) okay er =
    (case ext_telegram x c of None \<Rightarrow> send_all x cs True er | Some e \<Rightarrow> send_all x cs okay (Some e))"

definition already_notified :: "dedupe_key \<Rightarrow> world \<Rightarrow> bool" where
  "already_notified k w \<longleftrightarrow> (\<exists>r \<in> set (notification_log w). ntf_dedupeKey r = k)"

definition notify :: "string \<Rightarrow> dedupe_key \<Rightarrow> json \<Rightarrow> recipients \<Rightarrow> (world, bool) op" where
  "notify kind key tgt r w =
    (if \<not> tg_enabled (telegram_cfg w) \<or> tg_botToken (telegram_cfg w) = [] then (Inr False, w)
     else if already_notified key w then (Inr False, w)
     else
       (let chats = recipientsFor w r;
            (okay, er) = send_all (svcs w) chats False (if chats = [] then Some ''no recipients'' else None);
            row = \<lparr>ntf_at = clock w, ntf_kind = kind, ntf_targetId = tgt, ntf_adminId = rc_adminId r,
                   ntf_dedupeKey = key, ntf_ok = okay, ntf_error = (if okay then None else er)\<rparr>
        in (Inr okay, w\<lparr>notification_log := notification_log w @ [row]\<rparr>)))"

text \<open>\<open>await notify(...)\<close> where the code drops the result.\<close>
definition notify_void :: "string \<Rightarrow> dedupe_key \<Rightarrow> json \<Rightarrow> recipients \<Rightarrow> (world, unit) op" where
  "notify_void kind key tgt r = andthen (notify kind key tgt r) (ret ())"

text \<open>
  \<open>toISOString().slice(0, 10)\<close> and \<open>.slice(0, 7)\<close> as numbers: the day since the epoch and
  \<open>12 * year + month\<close> of the proleptic Gregorian calendar.
\<close>

definition iso_day :: "time \<Rightarrow> int" where
  "iso_day t = t div 86400000"

definition iso_month :: "time \<Rightarrow> int" where
  "iso_month t =
    (let z = iso_day t + 719468;
         era = z div 146097; doe = z mod 146097;
         yoe = (doe - doe div 1460 + doe div 36524 - doe div 146096) div 365;
         doy = doe - (365 * yoe + yoe div 4 - yoe div 100);
         mp = (5 * doy + 2) div 153;
         m = (if mp < 10 then mp + 3 else mp - 9);
         y = yoe + era * 400 + (if m \<le> 2 then 1 else 0)
     in 12 * y + m)"

definition onClientStatusChanged :: "uid \<Rightarrow> client_status \<Rightarrow> (world, unit) op" where
  "onClientStatusChanged clientId status =
    (if status \<noteq> C_EXPIRED \<and> status \<noteq> C_LIMITED then ret () else
     bnd (gets (find_client clientId)) (\<lambda>found.
     case found of
       None \<Rightarrow> ret ()
     | Some c \<Rightarrow>
        (let event = (if status = C_EXPIRED then ''client.expired'' else ''client.limited'') in
         andthen (emitEvent (Some (cli_adminId c)) event [(''target'', JId (cli_id c))])
         (bnd (gets telegram_cfg) (\<lambda>s.
          if (status = C_EXPIRED \<and> \<not> tg_notifyExpiry s) \<or> (status = C_LIMITED \<and> \<not> tg_notifyTraffic s)
          then ret ()
          else bnd (gets clock) (\<lambda>tm.
            let key = (if status = C_EXPIRED
                       then [JStr ''client.expired'', JId (cli_id c), JInt (opt_default (cli_expiresAt c) 0)]
                       else [JStr ''client.limited'', JId (cli_id c), JInt (cli_trafficLimit c), JInt (iso_month tm)])
            in notify_void event key (JId (cli_id c))
                 \<lparr>rc_adminId = Some (cli_adminId c), rc_clientTelegramId = cli_telegramId c, rc_ownerOnly = False\<rparr>))))))"

definition onAuditEvent :: "uid option \<Rightarrow> string \<Rightarrow> json \<Rightarrow> (world, unit) op" where
  "onAuditEvent adminId action tgt =
    (if action \<noteq> ''auth.login'' \<and> action \<noteq> ''auth.login_failed'' then ret () else
     bnd (gets telegram_cfg) (\<lambda>s.
     if \<not> tg_notifyLogins s then ret () else
     bnd (gets clock) (\<lambda>tm.
       let bucket = tm div (if action = ''auth.login'' then 1 else 600000)
       in notify_void action [JStr action, tgt, JInt bucket] (opt_json JId adminId) to_owner)))"

subsection \<open>Scheduled reminders\<close>

record reminder_count =
  rem_expiry :: nat
  rem_traffic :: nat
  rem_admins :: nat

text \<open>\<open>Math.ceil((expiresAt - now) / DAY)\<close>.\<close>
definition days_left :: "time \<Rightarrow> time \<Rightarrow> int" where
  "days_left tm t = - ((tm - t) div 86400000)"

definition remind_clients :: "int list \<Rightarrow> client list \<Rightarrow> nat \<Rightarrow> (world, nat) op" where
  "remind_clients thresholds = fold_op (\<lambda>c n.
     bnd (gets clock) (\<lambda>tm.
       let ex = opt_default (cli_expiresAt c) 0 in
       case find (\<lambda>x. days_left tm ex \<le> x) thresholds of
         None \<Rightarrow> ret n
       | Some t \<Rightarrow> bnd (notify ''client.expiring'' [JStr ''client.expiring'', JInt t, JId (cli_id c), JInt ex]
             (JId (cli_id c))
             \<lparr>rc_adminId = Some (cli_adminId c), rc_clientTelegramId = cli_telegramId c, rc_ownerOnly = False\<rparr>)
           (\<lambda>okay. ret (if okay then Suc n else n))))"

definition remind_admins :: "int list \<Rightarrow> admin list \<Rightarrow> nat \<Rightarrow> (world, nat) op" where
  "remind_admins thresholds = fold_op (\<lambda>a n.
     bnd (gets clock) (\<lambda>tm.
       let ex = opt_default (adm_expiresAt a) 0 in
       case find (\<lambda>x. days_left tm ex \<le> x) thresholds of
         None \<Rightarrow> ret n
       | Some t \<Rightarrow> bnd (notify ''admin.expiring'' [JStr ''admin.expiring'', JInt t, JId (adm_id a), JInt ex]
             (JId (adm_id a)) (to_admin (Some (adm_id a))))
           (\<lambda>okay. ret (if okay then Suc n else n))))"

text \<open>\<open>(used / limit) * 100 >= x\<close>, over the integers.\<close>
definition usage_reaches :: "client \<Rightarrow> int \<Rightarrow> bool" where
  "usage_reaches c x \<longleftrightarrow> (cli_usedUp c + cli_usedDown c) * 100 \<ge> x * cli_trafficLimit c"

definition remind_traffic :: "int list \<Rightarrow> client list \<Rightarrow> nat \<Rightarrow> (world, nat) op" where
  "remind_traffic thresholds = fold_op (\<lambda>c n.
     bnd (gets clock) (\<lambda>tm.
       case find (usage_reaches c) thresholds of
         None \<Rightarrow> ret n
       | Some t \<Rightarrow> bnd (notify ''client.traffic''
             [JStr ''client.traffic'', JInt t, JId (cli_id c), JInt (cli_trafficLimit c), JInt (iso_month tm)]
             (JId (cli_id c))
             \<lparr>rc_adminId = Some (cli_adminId c), rc_clientTelegramId = cli_telegramId c, rc_ownerOnly = False\<rparr>)
           (\<lambda>okay. ret (if okay then Suc n else n))))"

definition expiring_within :: "time \<Rightarrow> int \<Rightarrow> time option \<Rightarrow> bool" where
  "expiring_within tm maxDays t \<longleftrightarrow>
    (case t of None \<Rightarrow> False | Some x \<Rightarrow> tm < x \<and> x \<le> tm + maxDays * 86400000)"

text \<open>
  \<open>runReminders\<close>; the two threshold lists are the monitoring settings
  \<open>expiryReminderDays\<close> and \<open>trafficReminderPct\<close>.
\<close>
definition runReminders :: "int list \<Rightarrow> int list \<Rightarrow> (world, reminder_count) op" where
  "runReminders expiryReminderDays trafficReminderPct =
    bnd (gets telegram_cfg) (\<lambda>s.
    if \<not> tg_enabled s \<or> tg_botToken s = [] then ret \<lparr>rem_expiry = 0, rem_traffic = 0, rem_admins = 0\<rparr> else
    bnd (if tg_notifyExpiry s \<and> expiryReminderDays \<noteq> [] then
           (let th = sort expiryReminderDays; maxDays = last th in
            bnd (gets (\<lambda>w. filter (\<lambda>c. cli_status c = C_ACTIVE \<and> expiring_within (clock w) maxDays (cli_expiresAt c)) (clients w)))
              (\<lambda>cs. bnd (remind_clients th cs 0) (\<lambda>n1.
            bnd (gets (\<lambda>w. filter (\<lambda>a. adm_isActive a \<and> adm_role a = ADMIN \<and> expiring_within (clock w) maxDays (adm_expiresAt a)) (admins w)))
              (\<lambda>as. bnd (remind_admins th as 0) (\<lambda>n2. ret (n1, n2))))))
         else ret (0, 0)) (\<lambda>(n1, n2).
    bnd (if tg_notifyTraffic s \<and> trafficReminderPct \<noteq> [] then
           (let th = rev (sort trafficReminderPct) in
            bnd (gets (\<lambda>w. filter (\<lambda>c. cli_status c = C_ACTIVE \<and> 0 < cli_trafficLimit c) (clients w)))
              (\<lambda>cs. remind_traffic th cs 0))
         else ret 0) (\<lambda>n3.
    ret \<lparr>rem_expiry = n1, rem_traffic = n3, rem_admins = n2\<rparr>)))"

section \<open>Audit: \<open>audit.ts\<close>\<close>

definition audit :: "uid option \<Rightarrow> string \<Rightarrow> json \<Rightarrow> json_obj \<Rightarrow> string option \<Rightarrow> (world, unit) op" where
  "audit adminId action tgt meta ip =
    andthen (modify (\<lambda>w. w\<lparr>audit_log := audit_log w @
       [\<lparr>aud_at = clock w, aud_adminId = adminId, aud_action = action, aud_target = tgt, aud_meta = meta, aud_ip = ip\<rparr>]\<rparr>))
    (andthen (emitEvent adminId action [(''target'', tgt), (''meta'', JObj meta), (''ip'', opt_json JStr ip)])
    (onAuditEvent adminId action tgt))"


section \<open>What the event plumbing leaves alone\<close>

text \<open>\<open>w'\<close> differs from \<open>w\<close> in the event tables and the identifier counter at most.\<close>

definition events_only :: "world \<Rightarrow> world \<Rightarrow> bool" where
  "events_only w w' \<longleftrightarrow> next_id w \<le> next_id w' \<and>
     w'\<lparr>audit_log := audit_log w, notification_log := notification_log w,
       webhook_deliveries := webhook_deliveries w, hook_count_cache := hook_count_cache w,
       next_id := next_id w\<rparr> = w"

lemma events_only_refl [simp]: "events_only w w"
  by (simp add: events_only_def)

lemma events_only_trans:
  assumes "events_only u v" and "events_only v w" shows "events_only u w"
proof -
  let ?r = "\<lambda>x y. y\<lparr>audit_log := audit_log x, notification_log := notification_log x,
     webhook_deliveries := webhook_deliveries x, hook_count_cache := hook_count_cache x, next_id := next_id x\<rparr>"
  have 1: "?r u v = u" and 2: "?r v w = v" using assms by (simp_all only: events_only_def)
  have "?r u w = ?r u (?r v w)" by simp
  also have "\<dots> = u" by (simp only: 2 1)
  finally show ?thesis using assms by (simp add: events_only_def)
qed

lemma events_only_frame:
  assumes "events_only w w'"
  shows "clock w' = clock w" "env_public_url w' = env_public_url w" "svcs w' = svcs w" "admins w' = admins w"
    "clients w' = clients w" "client_servers w' = client_servers w" "servers w' = servers w"
    "server_accesses w' = server_accesses w" "service_rows w' = service_rows w" "wallet_txs w' = wallet_txs w"
    "customers w' = customers w" "customer_sessions w' = customer_sessions w"
    "customer_wallet_txs w' = customer_wallet_txs w" "stores w' = stores w" "plans w' = plans w"
    "discounts w' = discounts w" "orders w' = orders w" "payments w' = payments w" "webhooks w' = webhooks w"
    "pricing w' = pricing w" "refund_cfg w' = refund_cfg w" "telegram_cfg w' = telegram_cfg w"
    "pending_starts w' = pending_starts w" "next_id w \<le> next_id w'"
    "admin_sessions w' = admin_sessions w"
    "panel_log w' = panel_log w"
    "hwid_rows w' = hwid_rows w"
    "auto_renew_rows w' = auto_renew_rows w"
    "client_usage w' = client_usage w"
    "client_types w' = client_types w"
    "security_cfg w' = security_cfg w"
    "crypto_cfg w' = crypto_cfg w"
    "coin_cache w' = coin_cache w"
    "fx_cfg w' = fx_cfg w"
    "card_cfg w' = card_cfg w"
    "panel_links w' = panel_links w"
    "panel_accounts w' = panel_accounts w"
    "panel_handoffs w' = panel_handoffs w"
    "feature_on w' = feature_on w"
proof -
  let ?v = "w'\<lparr>audit_log := audit_log w, notification_log := notification_log w,
     webhook_deliveries := webhook_deliveries w, hook_count_cache := hook_count_cache w, next_id := next_id w\<rparr>"
  have eq: "?v = w" and le: "next_id w \<le> next_id w'" using assms by (simp_all add: events_only_def)
  have f: "f ?v = f w" for f :: "world \<Rightarrow> 'c" by (simp only: eq)
  show "clock w' = clock w" using f [of clock] by simp
  show "env_public_url w' = env_public_url w" using f [of env_public_url] by simp
  show "svcs w' = svcs w" using f [of svcs] by simp
  show "admins w' = admins w" using f [of admins] by simp
  show "clients w' = clients w" using f [of clients] by simp
  show "client_servers w' = client_servers w" using f [of client_servers] by simp
  show "servers w' = servers w" using f [of servers] by simp
  show "server_accesses w' = server_accesses w" using f [of server_accesses] by simp
  show "service_rows w' = service_rows w" using f [of service_rows] by simp
  show "wallet_txs w' = wallet_txs w" using f [of wallet_txs] by simp
  show "customers w' = customers w" using f [of customers] by simp
  show "customer_sessions w' = customer_sessions w" using f [of customer_sessions] by simp
  show "customer_wallet_txs w' = customer_wallet_txs w" using f [of customer_wallet_txs] by simp
  show "stores w' = stores w" using f [of stores] by simp
  show "plans w' = plans w" using f [of plans] by simp
  show "discounts w' = discounts w" using f [of discounts] by simp
  show "orders w' = orders w" using f [of orders] by simp
  show "payments w' = payments w" using f [of payments] by simp
  show "webhooks w' = webhooks w" using f [of webhooks] by simp
  show "pricing w' = pricing w" using f [of pricing] by simp
  show "refund_cfg w' = refund_cfg w" using f [of refund_cfg] by simp
  show "telegram_cfg w' = telegram_cfg w" using f [of telegram_cfg] by simp
  show "pending_starts w' = pending_starts w" using f [of pending_starts] by simp
  show "next_id w \<le> next_id w'" by (rule le)
  show "admin_sessions w' = admin_sessions w" using f [of admin_sessions] by simp
  show "panel_log w' = panel_log w" using f [of panel_log] by simp
  show "hwid_rows w' = hwid_rows w" using f [of hwid_rows] by simp
  show "auto_renew_rows w' = auto_renew_rows w" using f [of auto_renew_rows] by simp
  show "client_usage w' = client_usage w" using f [of client_usage] by simp
  show "client_types w' = client_types w" using f [of client_types] by simp
  show "security_cfg w' = security_cfg w" using f [of security_cfg] by simp
  show "crypto_cfg w' = crypto_cfg w" using f [of crypto_cfg] by simp
  show "coin_cache w' = coin_cache w" using f [of coin_cache] by simp
  show "fx_cfg w' = fx_cfg w" using f [of fx_cfg] by simp
  show "card_cfg w' = card_cfg w" using f [of card_cfg] by simp
  show "panel_links w' = panel_links w" using f [of panel_links] by simp
  show "panel_accounts w' = panel_accounts w" using f [of panel_accounts] by simp
  show "panel_handoffs w' = panel_handoffs w" using f [of panel_handoffs] by simp
  show "feature_on w' = feature_on w" using f [of feature_on] by simp
qed

lemmas eo_clock = events_only_frame(1)
lemmas eo_env_public_url = events_only_frame(2)
lemmas eo_svcs = events_only_frame(3)
lemmas eo_admins = events_only_frame(4)
lemmas eo_clients = events_only_frame(5)
lemmas eo_client_servers = events_only_frame(6)
lemmas eo_servers = events_only_frame(7)
lemmas eo_server_accesses = events_only_frame(8)
lemmas eo_service_rows = events_only_frame(9)
lemmas eo_wallet_txs = events_only_frame(10)
lemmas eo_customers = events_only_frame(11)
lemmas eo_customer_sessions = events_only_frame(12)
lemmas eo_customer_wallet_txs = events_only_frame(13)
lemmas eo_stores = events_only_frame(14)
lemmas eo_plans = events_only_frame(15)
lemmas eo_discounts = events_only_frame(16)
lemmas eo_orders = events_only_frame(17)
lemmas eo_payments = events_only_frame(18)
lemmas eo_webhooks = events_only_frame(19)
lemmas eo_pricing = events_only_frame(20)
lemmas eo_refund_cfg = events_only_frame(21)
lemmas eo_telegram_cfg = events_only_frame(22)
lemmas eo_pending_starts = events_only_frame(23)
lemmas eo_next_id = events_only_frame(24)
lemmas eo_admin_sessions = events_only_frame(25)
lemmas eo_panel_log = events_only_frame(26)
lemmas eo_hwid_rows = events_only_frame(27)
lemmas eo_auto_renew_rows = events_only_frame(28)
lemmas eo_client_usage = events_only_frame(29)
lemmas eo_client_types = events_only_frame(30)
lemmas eo_security_cfg = events_only_frame(31)
lemmas eo_crypto_cfg = events_only_frame(32)
lemmas eo_coin_cache = events_only_frame(33)
lemmas eo_fx_cfg = events_only_frame(34)
lemmas eo_card_cfg = events_only_frame(35)
lemmas eo_panel_links = events_only_frame(36)
lemmas eo_panel_accounts = events_only_frame(37)
lemmas eo_panel_handoffs = events_only_frame(38)
lemmas eo_feature_on = events_only_frame(39)

lemma anyHooks_events: "anyHooks w = (Inr x, w') \<Longrightarrow> events_only w w'"
  by (auto simp: events_only_def anyHooks_def Let_def split: option.splits if_splits)

lemma anyHooks_never_throws: "never_throws anyHooks"
  by (auto simp: never_throws_def anyHooks_def Let_def split: option.splits)

lemma queue_deliveries_events: "events_only w (queue_deliveries e b hs w)"
  by (simp add: events_only_def queue_deliveries_def)

lemma emitEvent_events: "\<exists>w'. emitEvent a e p w = (Inr (), w') \<and> events_only w w'"
proof -
  obtain x w1 where h: "anyHooks w = (Inr x, w1)"
    using anyHooks_never_throws by (rule never_throwsE)
  then have e: "events_only w w1" by (rule anyHooks_events)
  show ?thesis
    by (auto simp: emitEvent_def bnd_def h Let_def e intro: events_only_trans [OF e queue_deliveries_events])
qed

lemma notify_events: "\<exists>x w'. notify k key t r w = (Inr x, w') \<and> events_only w w'"
  by (auto simp: events_only_def notify_def Let_def split: prod.splits)

lemma notify_void_events: "\<exists>w'. notify_void k key t r w = (Inr (), w') \<and> events_only w w'"
  using notify_events [of k key t r w] by (auto simp: notify_void_def op_simps)

lemma onAuditEvent_events: "\<exists>w'. onAuditEvent a act t w = (Inr (), w') \<and> events_only w w'"
  using notify_void_events by (auto simp: onAuditEvent_def Let_def)

lemma audit_events: "\<exists>w'. audit a act t m ip w = (Inr (), w') \<and> events_only w w'"
proof -
  let ?w1 = "w\<lparr>audit_log := audit_log w @ [\<lparr>aud_at = clock w, aud_adminId = a, aud_action = act,
     aud_target = t, aud_meta = m, aud_ip = ip\<rparr>]\<rparr>"
  have 1: "events_only w ?w1"
    by (simp add: events_only_def)
  obtain w2 where 2: "emitEvent a act [(''target'', t), (''meta'', JObj m), (''ip'', opt_json JStr ip)] ?w1 = (Inr (), w2)"
    "events_only ?w1 w2" using emitEvent_events by blast
  obtain w3 where 3: "onAuditEvent a act t w2 = (Inr (), w3)" "events_only w2 w3"
    using onAuditEvent_events by blast
  have "audit a act t m ip w = (Inr (), w3)"
    by (simp add: audit_def andthen_def bnd_def 2(1) 3(1))
  moreover have "events_only w w3"
    by (rule events_only_trans [OF 1 events_only_trans [OF 2(2) 3(2)]])
  ultimately show ?thesis by blast
qed

text \<open>
  An operation that only touches the event tables and cannot fail: \<open>quiet\<close>. A handler's proof
  steps over it with \<open>andthen_quiet\<close> and keeps what \<open>events_only_frame\<close> says.
\<close>

definition quiet :: "(world, 'a) op \<Rightarrow> bool" where
  "quiet m \<longleftrightarrow> (\<forall>w. \<exists>x w'. m w = (Inr x, w') \<and> events_only w w')"

named_theorems quiet_intros \<open>operations that only touch the event tables\<close>

lemma quiet_emitEvent [quiet_intros]: "quiet (emitEvent a e p)"
  using emitEvent_events unfolding quiet_def by blast

lemma quiet_notify [quiet_intros]: "quiet (notify k key t r)"
  using notify_events unfolding quiet_def by blast

lemma quiet_notify_void [quiet_intros]: "quiet (notify_void k key t r)"
  using notify_void_events unfolding quiet_def by blast

lemma quiet_audit [quiet_intros]: "quiet (audit a act t m ip)"
  using audit_events unfolding quiet_def by blast

lemma quiet_ret [quiet_intros]: "quiet (ret x)"
  unfolding quiet_def by simp

lemma quiet_gets [quiet_intros]: "quiet (gets f)"
  unfolding quiet_def by simp

lemma quiet_bnd [quiet_intros]:
  assumes "quiet m" and "\<And>x. quiet (f x)" shows "quiet (bnd m f)"
proof (unfold quiet_def, intro allI)
  fix w
  obtain x w1 where 1: "m w = (Inr x, w1)" "events_only w w1"
    using assms(1) unfolding quiet_def by blast
  obtain y w2 where 2: "f x w1 = (Inr y, w2)" "events_only w1 w2"
    using assms(2) unfolding quiet_def by blast
  show "\<exists>y w'. bnd m f w = (Inr y, w') \<and> events_only w w'"
    using 1 2 events_only_trans by (auto simp: bnd_def)
qed

lemma quiet_andthen [quiet_intros]: "quiet m \<Longrightarrow> quiet k \<Longrightarrow> quiet (andthen m k)"
  by (simp add: andthen_def quiet_bnd)

lemma quiet_do_when [quiet_intros]: "quiet m \<Longrightarrow> quiet (do_when c m)"
  by (simp add: do_when_def quiet_ret)

lemma quiet_if [quiet_intros]: "quiet m \<Longrightarrow> quiet k \<Longrightarrow> quiet (if c then m else k)"
  by simp

lemma quiet_onClientStatusChanged [quiet_intros]: "quiet (onClientStatusChanged i s)"
  unfolding onClientStatusChanged_def
  by (auto simp: Let_def intro!: quiet_intros split: option.split)

lemma quietD: "quiet m \<Longrightarrow> \<exists>x w'. m w = (Inr x, w') \<and> events_only w w'"
  unfolding quiet_def by blast

lemma quiet_never_throws: "quiet m \<Longrightarrow> never_throws m"
  unfolding quiet_def never_throws_def by blast

lemma andthen_quiet: "quiet m \<Longrightarrow> andthen m k w = k (snd (m w))"
  by (rule andthen_never_throws [OF quiet_never_throws])

lemma quiet_snd: "quiet m \<Longrightarrow> events_only w (snd (m w))"
  using quietD [of m w] by auto

lemma preserves_quiet:
  assumes "quiet m" and "\<And>w w'. I w \<Longrightarrow> events_only w w' \<Longrightarrow> I w'"
  shows "preserves I m"
  by (rule preservesI) (use assms quiet_snd in blast)

text \<open>An invariant that the event tables do not matter to, hence kept by every quiet operation.\<close>

definition events_stable :: "(world \<Rightarrow> bool) \<Rightarrow> bool" where
  "events_stable I \<longleftrightarrow> (\<forall>w w'. I w \<longrightarrow> events_only w w' \<longrightarrow> I w')"

lemma preserves_stable: "events_stable I \<Longrightarrow> quiet m \<Longrightarrow> preserves I m"
  unfolding events_stable_def by (blast intro: preserves_quiet)

lemmas events_preserves [preserves_intros] =
  preserves_stable [OF _ quiet_emitEvent] preserves_stable [OF _ quiet_notify]
  preserves_stable [OF _ quiet_notify_void] preserves_stable [OF _ quiet_audit]
  preserves_stable [OF _ quiet_onClientStatusChanged]

section \<open>One message per dedupe key\<close>

definition keys_distinct :: "world \<Rightarrow> bool" where
  "keys_distinct w \<longleftrightarrow> distinct (map ntf_dedupeKey (notification_log w))"

lemma notify_keys_distinct: "preserves keys_distinct (notify k key t r)"
  by (rule preservesI) (auto simp: notify_def keys_distinct_def already_notified_def Let_def split: prod.splits)

lemma notify_logged:
  "notify k key t r w = (x, w') \<Longrightarrow> already_notified key w \<Longrightarrow> x = Inr False \<and> w' = w"
  by (auto simp: notify_def split: if_splits)

lemma notify_then_logged:
  assumes "tg_enabled (telegram_cfg w)" and "tg_botToken (telegram_cfg w) \<noteq> []"
  shows "already_notified key (snd (notify k key t r w))"
  using assms by (auto simp: notify_def already_notified_def Let_def split: prod.splits)

section \<open>Delivery of queued events\<close>

lemma after_attempt_attempts [simp]: "whd_attempts (after_attempt tm st er d) = Suc (whd_attempts d)"
  by (simp add: after_attempt_def Let_def)

lemma after_attempt_id [simp]: "whd_id (after_attempt tm st er d) = whd_id d"
  by (simp add: after_attempt_def Let_def)

lemma after_attempt_done:
  "whd_doneAt (after_attempt tm st er d) =
   (if delivery_success st \<or> MAX_ATTEMPTS \<le> Suc (whd_attempts d) then Some tm else None)"
  by (auto simp: after_attempt_def Let_def)

lemma after_attempt_next:
  "tm + 120000 \<le> whd_nextAt (after_attempt tm st er d) \<and>
   whd_nextAt (after_attempt tm st er d) \<le> tm + 3600000"
proof -
  have "(2::int) \<le> 2 ^ Suc (whd_attempts d)" using one_le_power [of "2::int" "whd_attempts d"] by simp
  then show ?thesis by (simp add: after_attempt_def Let_def min_def)
qed

text \<open>Repeated rounds over one row, each with the reply it got.\<close>

fun attempt_run :: "(time \<times> int option \<times> string option) list \<Rightarrow> webhook_delivery \<Rightarrow> webhook_delivery" where
  "attempt_run [] d = d"
| "attempt_run ((tm, st, er) # rs) d =
    (if is_due tm d then attempt_run rs (after_attempt tm st er d) else attempt_run rs d)"

lemma attempt_run_bound:
  "whd_attempts d \<le> MAX_ATTEMPTS \<Longrightarrow> whd_attempts (attempt_run rs d) \<le> MAX_ATTEMPTS"
  by (induction rs d rule: attempt_run.induct) (auto simp: is_due_def)

lemma attempt_run_done: "whd_doneAt d \<noteq> None \<Longrightarrow> attempt_run rs d = d"
  by (induction rs d rule: attempt_run.induct) (auto simp: is_due_def)

text \<open>Rounds that are all due: after as many as are left, the row is done.\<close>

lemma attempt_run_liveness:
  assumes "MAX_ATTEMPTS \<le> whd_attempts d + length rs" and "whd_attempts d < MAX_ATTEMPTS"
    and "\<forall>tm \<in> fst ` set rs. whd_nextAt d \<le> tm"
    and "sorted_wrt (\<lambda>a b. fst a + 3600000 \<le> fst b) rs" and "whd_doneAt d = None"
  shows "whd_doneAt (attempt_run rs d) \<noteq> None"
  using assms
proof (induction rs d rule: attempt_run.induct)
  case (1 d)
  then show ?case by simp
next
  case (2 tm st er rs d)
  let ?d = "after_attempt tm st er d"
  from "2.prems" have due: "is_due tm d" by (simp add: is_due_def)
  show ?case
  proof (cases "whd_doneAt ?d = None")
    case False
    then show ?thesis using due by (simp add: attempt_run_done)
  next
    case True
    then have lt: "whd_attempts ?d < MAX_ATTEMPTS"
      by (auto simp: after_attempt_done split: if_splits)
    have "\<forall>u \<in> fst ` set rs. whd_nextAt ?d \<le> u"
      using "2.prems"(4) after_attempt_next [of tm st er d] by fastforce
    with "2.IH"(1) [OF due] "2.prems" True lt have "whd_doneAt (attempt_run rs ?d) \<noteq> None" by simp
    with due show ?thesis by simp
  qed
qed

end
