(* ===== verification/Demo.thy ===== *)
theory Demo
  imports Schema
begin

text \<open>
  A small concrete state on which the properties of the other theories are applied: an owner (2), a
  reseller (3) who has 500, the prices 10 per gigabyte and 1 per day, and services that answer.
\<close>

definition demo_admin :: "uid \<Rightarrow> admin_role \<Rightarrow> int \<Rightarrow> admin" where
  "demo_admin i role credit = \<lparr>adm_id = i, adm_username = ''demo'', adm_role = role, adm_displayName = None,
     adm_isActive = True, adm_credit = credit, adm_trafficQuota = None, adm_clientLimit = None, adm_expiresAt = None,
     adm_telegramId = None, adm_pricePerGB = None, adm_pricePerDay = None, adm_createdAt = 0,
     adm_passwordHash = ''hpw'', adm_totpEnabled = False, adm_totpSecret = None, adm_createdById = None,
     adm_lastLoginAt = None, adm_lastLoginIp = None\<rparr>"

definition demo_services :: services where
  "demo_services = \<lparr>ext_telegram = (\<lambda>_. None), ext_http_post = (\<lambda>_ _ _. Inr 200), ext_mail = (\<lambda>_. True),
     ext_panel = (\<lambda>_ _. None),
     ext_http_get = (\<lambda>_ _. HttpFail ''offline''), ext_http_json = (\<lambda>_ _ _. HttpFail ''offline''),
     ext_sha256_bytes = (\<lambda>_. replicate 32 0),
     ext_hash_password = (\<lambda>p. ''h'' @ p), ext_verify_password = (\<lambda>p h. h = ''h'' @ p),
     ext_hmac_sha1 = (\<lambda>k m. replicate 20 (sum_list k)), ext_stringify = (\<lambda>_. ''{}''),
     ext_parse_date = (\<lambda>_. None), ext_random_int = (\<lambda>k n. k mod n), ext_sha256 = (\<lambda>s. s), ext_sha1 = (\<lambda>_. ''0123456789''),
     ext_encrypt = (\<lambda>s. s), ext_decrypt = Some, ext_random_token = (\<lambda>k n. ''tok''),
     ext_random_uuid = (\<lambda>k. ''uuid''), ext_random_bytes = (\<lambda>k n. replicate n 0)\<rparr>"

definition demo_kinds :: client_type_settings where
  "demo_kinds = \<lparr>ct_default = \<lparr>ka_limited = True, ka_unlimited = False, ka_unlimitedMax = 0, ka_limitedMaxGB = 0\<rparr>,
     ct_admins = [], ct_services = []\<rparr>"

definition demo_security :: security_settings where
  "demo_security = \<lparr>sec_lockEnabled = True, sec_maxFailures = 8, sec_windowMin = 15, sec_lockMin = 15,
     sec_perIp = True, sec_notifyLock = True, sec_revokeOnPasswordChange = True\<rparr>"

definition demo_pricing :: pricing_settings where
  "demo_pricing = \<lparr>billingEnabled = True, pricePerGB = 10, pricePerDay = 1, chargeOnRenew = True,
     creditLimit = 100, lowBalance = 0\<rparr>"

definition demo_refund :: refund_settings where
  "demo_refund = \<lparr>refundEnabled = True, refundPercent = 50, refundMin = 0\<rparr>"

definition demo_telegram :: telegram_settings where
  "demo_telegram = \<lparr>tg_enabled = False, tg_botToken = [], tg_chatId = [], tg_notifyExpiry = True,
     tg_notifyTraffic = True, tg_notifyLogins = False, tg_notifyClientsDirect = False\<rparr>"

definition demo_mail :: mail_settings where
  "demo_mail = \<lparr>mail_enabled = True, mail_host = ''smtp'', mail_user = ''u'', mail_from = [], mail_to = [],
     mail_loginCode = True, mail_ttlMin = 5\<rparr>"

definition demo_world :: world where
  "demo_world = \<lparr>clock = 1000, next_id = 100, env_public_url = ''u'', svcs = demo_services,
     admins = [demo_admin 2 OWNER 0, demo_admin 3 ADMIN 500], clients = [], client_servers = [], servers = [],
     server_accesses = [], service_rows = [], wallet_txs = [], customers = [], customer_sessions = [],
     customer_wallet_txs = [], stores = [], plans = [], discounts = [], orders = [], payments = [], audit_log = [],
     notification_log = [], webhooks = [], webhook_deliveries = [], hook_count_cache = None,
     pricing = demo_pricing, refund_cfg = demo_refund, telegram_cfg = demo_telegram, pending_starts = [], admin_sessions = [], panel_log = [],
     hwid_rows = [], auto_renew_rows = [], client_usage = [], client_types = demo_kinds, security_cfg = demo_security,
     crypto_cfg = [], coin_cache = [], fx_cfg = [], card_cfg = [], panel_links = [], panel_accounts = [],
     panel_handoffs = [], feature_on = (\<lambda>_. True),
     sms_hooks = [], reseller_plan_cfg = \<lparr>rps_enabled = True, rps_plans = []\<rparr>, mail_cfg = demo_mail, login_codes = [], env_owner_username = None, env_owner_password = None, owner_ensured = True\<rparr>"

lemma demo_admin_sel [simp]:
  "adm_id (demo_admin i role c) = i" "adm_role (demo_admin i role c) = role" "adm_credit (demo_admin i role c) = c"
  "adm_isActive (demo_admin i role c) = True" "adm_trafficQuota (demo_admin i role c) = None"
  "adm_clientLimit (demo_admin i role c) = None" "adm_expiresAt (demo_admin i role c) = None"
  "adm_pricePerGB (demo_admin i role c) = None" "adm_pricePerDay (demo_admin i role c) = None"
  "adm_telegramId (demo_admin i role c) = None"
  by (simp_all add: demo_admin_def)

lemma demo_settings_sel [simp]:
  "billingEnabled demo_pricing = True" "pricePerGB demo_pricing = 10" "pricePerDay demo_pricing = 1"
  "chargeOnRenew demo_pricing = True" "creditLimit demo_pricing = 100" "lowBalance demo_pricing = 0"
  "refundEnabled demo_refund = True" "refundPercent demo_refund = 50" "refundMin demo_refund = 0"
  "tg_enabled demo_telegram = False"
  by (simp_all add: demo_pricing_def demo_refund_def demo_telegram_def)

lemma demo_world_sel [simp]:
  "clock demo_world = 1000" "next_id demo_world = 100" "svcs demo_world = demo_services"
  "admins demo_world = [demo_admin 2 OWNER 0, demo_admin 3 ADMIN 500]" "clients demo_world = []"
  "client_servers demo_world = []" "servers demo_world = []" "server_accesses demo_world = []"
  "service_rows demo_world = []" "wallet_txs demo_world = []" "customers demo_world = []"
  "customer_sessions demo_world = []" "customer_wallet_txs demo_world = []" "stores demo_world = []"
  "plans demo_world = []" "discounts demo_world = []" "orders demo_world = []" "payments demo_world = []"
  "audit_log demo_world = []" "notification_log demo_world = []" "webhooks demo_world = []"
  "webhook_deliveries demo_world = []" "hook_count_cache demo_world = None"
  "pricing demo_world = demo_pricing" "refund_cfg demo_world = demo_refund"
  "telegram_cfg demo_world = demo_telegram" "pending_starts demo_world = []" "env_public_url demo_world = ''u''"
  "admin_sessions demo_world = []" "panel_log demo_world = []" "hwid_rows demo_world = []"
  "auto_renew_rows demo_world = []" "client_usage demo_world = []" "client_types demo_world = demo_kinds"
  "security_cfg demo_world = demo_security" "crypto_cfg demo_world = []" "coin_cache demo_world = []"
  "fx_cfg demo_world = []" "card_cfg demo_world = []" "panel_links demo_world = []"
  "panel_accounts demo_world = []" "panel_handoffs demo_world = []" "mail_cfg demo_world = demo_mail"
  "login_codes demo_world = []" "owner_ensured demo_world = True"
  by (simp_all add: demo_world_def)

lemma demo_find_admin [simp]:
  "find_admin 2 demo_world = Some (demo_admin 2 OWNER 0)" "find_admin 3 demo_world = Some (demo_admin 3 ADMIN 500)"
  by (simp_all add: find_admin_def)

end
