(* ===== verification/Text.thy ===== *)
theory Text
  imports Prelude
begin

text \<open>
  Lemmas on the text operations of the prelude: trimming, searching, and splitting into lines.
\<close>

lemma contains_iff: "contains n s \<longleftrightarrow> (\<exists>a b. s = a @ n @ b)"
proof
  show "contains n s \<Longrightarrow> \<exists>a b. s = a @ n @ b"
  proof (induction s)
    case Nil
    then show ?case by simp
  next
    case (Cons c cs)
    show ?case
    proof (cases "take (length n) (c # cs) = n")
      case True
      have "c # cs = [] @ n @ drop (length n) (c # cs)"
        using append_take_drop_id [of "length n" "c # cs"] True by simp
      then show ?thesis by blast
    next
      case False
      with Cons obtain a b where "cs = a @ n @ b" by auto
      then have "c # cs = (c # a) @ n @ b" by simp
      then show ?thesis by blast
    qed
  qed
  show "\<exists>a b. s = a @ n @ b \<Longrightarrow> contains n s"
    using contains_append contains_prefix by blast
qed

lemma contains_infix: "contains n s \<Longrightarrow> contains n (a @ s @ b)"
  unfolding contains_iff by (metis append_assoc)

lemma str_trim_infix: "\<exists>a b. s = a @ str_trim s @ b"
proof -
  let ?x = "dropWhile is_space s"
  have 1: "s = takeWhile is_space s @ ?x" by simp
  have "rev ?x = takeWhile is_space (rev ?x) @ dropWhile is_space (rev ?x)" by simp
  then have 2: "?x = rev (dropWhile is_space (rev ?x)) @ rev (takeWhile is_space (rev ?x))"
    by (metis rev_append rev_rev_ident)
  show ?thesis unfolding str_trim_def using 1 2 by metis
qed

lemma contains_str_trim: "contains n (str_trim s) \<Longrightarrow> contains n s"
  using str_trim_infix [of s] contains_infix by metis

lemma str_trim_idem [simp]: "str_trim (str_trim s) = str_trim s"
proof -
  let ?x = "dropWhile is_space s"
  let ?y = "rev (dropWhile is_space (rev ?x))"
  have y: "str_trim s = ?y" by (simp add: str_trim_def)
  have hd: "dropWhile is_space ?y = ?y"
  proof (cases "?y = []")
    case True
    show ?thesis unfolding True by (rule dropWhile.simps(1))
  next
    case False
    have "rev ?x = takeWhile is_space (rev ?x) @ dropWhile is_space (rev ?x)" by simp
    then have x: "?x = ?y @ rev (takeWhile is_space (rev ?x))" by (metis rev_append rev_rev_ident)
    have "hd ?x = hd ?y" by (metis x False hd_append2)
    moreover have "?x \<noteq> []" using False by (metis dropWhile.simps(1) rev.simps(1))
    ultimately have "hd ?x = hd ?y \<and> \<not> is_space (hd ?x)" using hd_dropWhile by blast
    then have "\<not> is_space (hd ?y)" by metis
    with False show ?thesis by (cases ?y) simp_all
  qed
  have "str_trim ?y = rev (dropWhile is_space (rev ?y))" by (simp add: str_trim_def hd)
  also have "\<dots> = ?y" by simp
  finally show ?thesis by (simp add: y)
qed

lemma str_trim_Nil [simp]: "str_trim [] = []"
  by (simp add: str_trim_def)

lemma split_on_first:
  "split_on s cs = l # ls \<Longrightarrow> \<exists>rest. cs = l @ rest \<and> (rest = [] \<or> hd rest = s)"
proof (induction cs arbitrary: l ls)
  case Nil
  then show ?case by simp
next
  case (Cons c cs)
  show ?case
  proof (cases "c = s")
    case True
    with Cons.prems show ?thesis by auto
  next
    case False
    obtain l' ls' where e: "split_on s cs = l' # ls'" by (cases "split_on s cs") auto
    with Cons.IH obtain rest where "cs = l' @ rest" "rest = [] \<or> hd rest = s" by blast
    then show ?thesis using Cons.prems False e by auto
  qed
qed

lemma split_on_free: "l \<in> set (split_on s cs) \<Longrightarrow> s \<notin> set l"
  by (induction cs arbitrary: l) (auto split: if_splits list.splits)

text \<open>A needle without line breaks is in the text exactly when it is in one of its lines.\<close>

lemma contains_line:
  assumes "n \<noteq> []" and "s \<notin> set n"
  shows "contains n cs \<longleftrightarrow> (\<exists>l \<in> set (split_on s cs). contains n l)"
proof (induction cs)
  case Nil
  then show ?case by simp
next
  case (Cons c cs)
  show ?case
  proof (cases "c = s")
    case True
    have "take (length n) (c # cs) \<noteq> n"
      using assms True by (cases n) auto
    then show ?thesis using Cons.IH True assms(1) by simp
  next
    case False
    obtain l ls where e: "split_on s cs = l # ls" by (cases "split_on s cs") auto
    then obtain rest where r: "cs = l @ rest" "rest = [] \<or> hd rest = s" using split_on_first by blast
    have "take (length n) (c # cs) = n \<longleftrightarrow> take (length n) (c # l) = n"
    proof
      assume t: "take (length n) (c # cs) = n"
      show "take (length n) (c # l) = n"
      proof (cases "length n \<le> length (c # l)")
        case True
        then show ?thesis using t r(1) by (cases "length n") simp_all
      next
        case False
        have le: "length n \<le> length (c # cs)" using t by (metis length_take min.cobounded1)
        show ?thesis
        proof (cases rest)
          case Nil
          with r(1) le False show ?thesis by simp
        next
          case (Cons a list)
          then have cs: "c # cs = (c # l) @ s # list" using r by simp
          obtain m where m: "length n - length (c # l) = Suc m" using False by (cases "length n - length (c # l)") auto
          have "n = take (length n) ((c # l) @ s # list)" using t cs by simp
          also have "\<dots> = (c # l) @ take (length n - length (c # l)) (s # list)"
            using False by (simp only: take_append) simp
          also have "\<dots> = (c # l) @ s # take m list" by (simp only: m take_Suc_Cons)
          finally have "s \<in> set ((c # l) @ s # take m list) \<and> n = (c # l) @ s # take m list" by simp
          then have "s \<in> set n" by metis
          with assms(2) show ?thesis by simp
        qed
      qed
    next
      assume t: "take (length n) (c # l) = n"
      then have "length n \<le> length (c # l)" by (metis length_take min.cobounded1)
      then show "take (length n) (c # cs) = n" using t r(1) by (cases "length n") simp_all
    qed
    then show ?thesis using Cons.IH False e by auto
  qed
qed

lemma split_join:
  "ls \<noteq> [] \<Longrightarrow> \<forall>l \<in> set ls. s \<notin> set l \<Longrightarrow> split_on s (join_with [s] ls) = ls"
proof (induction ls rule: list_nonempty_induct)
  case (single x)
  then show ?case by (simp add: split_on_single)
next
  case (cons x xs)
  then obtain y ys where xs: "xs = y # ys" by (cases xs) auto
  then show ?case using cons split_on_append [of s x "join_with [s] xs"] by (simp add: split_on_single)
qed

end
