(* ===== verification/ClientSettings.thy ===== *)
theory ClientSettings
  imports Bytes Events Demo Text
begin

text \<open>
  What the Setting table keeps per client, and who may create which client: \<open>pendingStart.ts\<close>
  (a period that starts at the first connection), \<open>hwidLimit.ts\<close> (the device limit) and
  \<open>clientTypes.ts\<close> (the kinds of client a reseller may sell).
\<close>

section \<open>Delayed start: \<open>pendingStart.ts\<close>\<close>

text \<open>The marker of the operator note, in English.\<close>
definition NOTE_TAG :: string where
  "NOTE_TAG = ''starts at first connection''"

text \<open>A stored value with a positive number of days is a pending start; \<open>parse\<close> drops any other.\<close>
definition parse_pending :: "pending_start \<Rightarrow> pending_start option" where
  "parse_pending p = (if ps_days p \<le> 0 then None else Some p)"

definition setPendingStart :: "uid \<Rightarrow> int \<Rightarrow> (world, unit) op" where
  "setPendingStart clientId days = modify (\<lambda>w. w\<lparr>pending_starts :=
     filter (\<lambda>p. ps_clientId p \<noteq> clientId) (pending_starts w) @
     [\<lparr>ps_clientId = clientId, ps_days = max 1 (min 3650 days), ps_armedAt = clock w\<rparr>]\<rparr>)"

definition getPendingStart :: "uid \<Rightarrow> world \<Rightarrow> pending_start option" where
  "getPendingStart clientId w =
    (case find_row ps_clientId clientId (pending_starts w) of None \<Rightarrow> None | Some p \<Rightarrow> parse_pending p)"

definition pendingStarts :: "uid list \<Rightarrow> world \<Rightarrow> (uid \<times> pending_start) list" where
  "pendingStarts clientIds w =
    List.map_filter (\<lambda>p. map_option (Pair (ps_clientId p)) (parse_pending p))
      (filter (\<lambda>p. ps_clientId p \<in> set clientIds) (pending_starts w))"

definition clearPendingStart :: "uid \<Rightarrow> (world, unit) op" where
  "clearPendingStart clientId = modify (\<lambda>w. w\<lparr>pending_starts := del_rows (\<lambda>p. ps_clientId p = clientId) (pending_starts w)\<rparr>)"

text \<open>The value 3x-ui expects: a negative duration.\<close>
definition pendingExpiryMs :: "pending_start option \<Rightarrow> int option" where
  "pendingExpiryMs p = map_option (\<lambda>p. - \<bar>ps_days p\<bar> * DAY_MS) p"

definition withoutPendingNote :: "string option \<Rightarrow> string option" where
  "withoutPendingNote note =
    (case note of
       None \<Rightarrow> None
     | Some n \<Rightarrow>
        nonempty (str_trim (join_with [CHR 0x0A]
          (filter (\<lambda>line. \<not> contains NOTE_TAG line) (split_on (CHR 0x0A) n)))))"

definition withPendingNote :: "string option \<Rightarrow> int \<Rightarrow> string" where
  "withPendingNote note days =
    (let base = withoutPendingNote (trim_or_null note);
         tag = NOTE_TAG @ '' ('' @ show_int days @ '' days)''
     in case base of None \<Rightarrow> tag | Some b \<Rightarrow> b @ [CHR 0x0A] @ tag)"

text \<open>One row of the worker's pass, and the pass.\<close>

definition activate_one :: "pending_start \<Rightarrow> nat \<Rightarrow> (world, nat) op" where
  "activate_one row n =
    bnd (gets (\<lambda>w. (find_client (ps_clientId row) w, clock w))) (\<lambda>(found, tm).
      case (found, parse_pending row) of
        (Some c, Some p) \<Rightarrow>
          if cli_expiresAt c \<noteq> None then andthen (clearPendingStart (ps_clientId row)) (ret n)
          else if cli_usedUp c + cli_usedDown c \<le> 0 \<and> cli_lastOnlineAt c = None then ret n
          else andthen (modify (\<lambda>w. w\<lparr>clients := upd_rows (\<lambda>r. cli_id r = cli_id c)
                   (\<lambda>r. r\<lparr>cli_expiresAt := Some (opt_default (cli_lastOnlineAt c) tm + ps_days p * DAY_MS),
                           cli_note := withoutPendingNote (cli_note c)\<rparr>) (clients w)\<rparr>))
               (andthen (clearPendingStart (ps_clientId row)) (ret (Suc n)))
      | _ \<Rightarrow> andthen (clearPendingStart (ps_clientId row)) (ret n))"

definition activatePendingStarts :: "int \<Rightarrow> (world, nat) op" where
  "activatePendingStarts limit =
    bnd (gets (\<lambda>w. take (nat (max 1 limit)) (pending_starts w))) (\<lambda>rows. fold_op activate_one rows 0)"

section \<open>Device limit: \<open>hwidLimit.ts\<close>\<close>

definition HWID_MAX :: int where
  "HWID_MAX = 100"

definition clampHwid :: "rat \<Rightarrow> int" where
  "clampHwid n = (let v = \<lfloor>n\<rfloor> in if 0 < v then min HWID_MAX v else 0)"

definition getHwidLimit :: "uid \<Rightarrow> world \<Rightarrow> int" where
  "getHwidLimit clientId w = (case map_of (hwid_rows w) clientId of None \<Rightarrow> 0 | Some l \<Rightarrow> clampHwid (of_int l))"

definition hwidLimits :: "uid list \<Rightarrow> world \<Rightarrow> (uid \<times> int) list" where
  "hwidLimits clientIds w = filter (\<lambda>(i, l). 0 < l)
     (map (\<lambda>(i, l). (i, clampHwid (of_int l))) (filter (\<lambda>(i, l). i \<in> set clientIds) (hwid_rows w)))"

definition writeHwidLimit :: "uid \<Rightarrow> rat \<Rightarrow> (world, int) op" where
  "writeHwidLimit clientId limit =
    (let v = clampHwid limit; others = (\<lambda>w. filter (\<lambda>(i, l). i \<noteq> clientId) (hwid_rows w)) in
     if v = 0 then andthen (modify (\<lambda>w. w\<lparr>hwid_rows := others w\<rparr>)) (ret 0)
     else andthen (modify (\<lambda>w. w\<lparr>hwid_rows := others w @ [(clientId, v)]\<rparr>)) (ret v))"

section \<open>Client types: \<open>clientTypes.ts\<close>\<close>

definition kindFromGB :: "rat \<Rightarrow> client_kind" where
  "kindFromGB gb = (if 0 < gb then LIMITED else UNLIMITED)"

definition kindFromBytes :: "int \<Rightarrow> client_kind" where
  "kindFromBytes b = (if 0 < b then LIMITED else UNLIMITED)"

definition kindsOf :: "client_type_settings \<Rightarrow> admin \<Rightarrow> kind_access" where
  "kindsOf s actor =
    (if adm_role actor = OWNER
     then \<lparr>ka_limited = True, ka_unlimited = True, ka_unlimitedMax = 0, ka_limitedMaxGB = 0\<rparr>
     else (case map_of (ct_admins s) (adm_id actor) of Some row \<Rightarrow> row | None \<Rightarrow> ct_default s))"

definition serviceKindOf :: "client_type_settings \<Rightarrow> uid \<Rightarrow> service_kind" where
  "serviceKindOf s serviceId = opt_default (map_of (ct_services s) serviceId) SK_BOTH"

definition serviceAllowsKind :: "client_type_settings \<Rightarrow> uid \<Rightarrow> client_kind \<Rightarrow> bool" where
  "serviceAllowsKind s serviceId k \<longleftrightarrow> serviceKindOf s serviceId \<in> {SK_BOTH, SK_ONLY k}"

definition in_scope :: "admin \<Rightarrow> client \<Rightarrow> bool" where
  "in_scope actor c \<longleftrightarrow> adm_role actor = OWNER \<or> cli_adminId c = adm_id actor"

definition countUnlimitedClients :: "admin \<Rightarrow> uid option \<Rightarrow> world \<Rightarrow> int" where
  "countUnlimitedClients actor exclude w =
    int (length (filter (\<lambda>c. in_scope actor c \<and> cli_trafficLimit c = 0 \<and> Some (cli_id c) \<noteq> exclude) (clients w)))"

text \<open>The guard of every creation and of every change of size.\<close>
definition assertClientKind :: "admin \<Rightarrow> client_kind \<Rightarrow> uid option \<Rightarrow> rat \<Rightarrow> uid option \<Rightarrow> (world, unit) op" where
  "assertClientKind actor kind serviceId trafficGB exclude =
    bnd (gets (\<lambda>w. (client_types w, countUnlimitedClients actor exclude w))) (\<lambda>(s, used).
      let allowed = kindsOf s actor in
      andthen (throw_if (kind = LIMITED \<and> \<not> ka_limited allowed) (forbidden_error ''limited clients not allowed''))
      (andthen (throw_if (kind = UNLIMITED \<and> \<not> ka_unlimited allowed) (forbidden_error ''unlimited clients not allowed''))
      (andthen (throw_if (kind = LIMITED \<and> 0 < ka_limitedMaxGB allowed \<and> of_int (ka_limitedMaxGB allowed) < trafficGB)
                 (forbidden_error ''traffic of one client is capped''))
      (andthen (throw_if (kind = UNLIMITED \<and> 0 < ka_unlimitedMax allowed \<and> ka_unlimitedMax allowed \<le> used)
                 (forbidden_error ''no unlimited client left''))
      (case serviceId of
         None \<Rightarrow> ret ()
       | Some sid \<Rightarrow> throw_if (\<not> serviceAllowsKind s sid kind) (AppError ''wrong kind for this service'' 400 ''service_kind''))))))"

text \<open>A patch of one reseller's row, over the row or the defaults; \<open>clampInt\<close> floors at zero.\<close>

record kind_patch =
  kp_limited :: "bool option"
  kp_unlimited :: "bool option"
  kp_unlimitedMax :: "rat option"
  kp_limitedMaxGB :: "rat option"

definition clampInt :: "rat option \<Rightarrow> int \<Rightarrow> int" where
  "clampInt v fallback = (case v of None \<Rightarrow> fallback | Some x \<Rightarrow> max 0 \<lfloor>x\<rfloor>)"

definition patch_kind :: "kind_patch \<Rightarrow> kind_access \<Rightarrow> kind_access" where
  "patch_kind p prev =
    \<lparr>ka_limited = opt_default (kp_limited p) (ka_limited prev),
     ka_unlimited = opt_default (kp_unlimited p) (ka_unlimited prev),
     ka_unlimitedMax = clampInt (kp_unlimitedMax p) (ka_unlimitedMax prev),
     ka_limitedMaxGB = clampInt (kp_limitedMaxGB p) (ka_limitedMaxGB prev)\<rparr>"

definition patch_admins :: "kind_access \<Rightarrow> (uid \<times> kind_patch) list \<Rightarrow> (uid \<times> kind_access) list \<Rightarrow> (uid \<times> kind_access) list" where
  "patch_admins dflt ps rows =
    fold (\<lambda>(i, p) acc. put_row i (patch_kind p (opt_default (map_of acc i) dflt)) acc) ps rows"

definition saveClientTypes ::
  "kind_patch \<Rightarrow> (uid \<times> kind_patch) list \<Rightarrow> (uid \<times> service_kind) list \<Rightarrow> (world, client_type_settings) op" where
  "saveClientTypes dflt ps svs =
    bnd (gets client_types) (\<lambda>cur.
      let next = \<lparr>ct_default = patch_kind dflt (ct_default cur),
                  ct_admins = patch_admins (ct_default cur) ps (ct_admins cur),
                  ct_services = fold (\<lambda>(i, k) acc. put_row i k acc) svs (ct_services cur)\<rparr>
      in andthen (modify (\<lambda>w. w\<lparr>client_types := next\<rparr>)) (ret next))"

section \<open>The operator note\<close>

lemma no_break_NOTE_TAG: "CHR 0x0A \<notin> set NOTE_TAG" and NOTE_TAG_nonempty: "NOTE_TAG \<noteq> []"
  by (simp_all add: NOTE_TAG_def)

lemma no_break_show_int: "CHR 0x0A \<notin> set (show_int d)"
proof
  assume "CHR 0x0A \<in> set (show_int d)"
  then have "is_digit (CHR 0x0A)" by (auto simp: show_int_def split: if_splits dest: show_nat_digits)
  then show False by (simp add: is_digit_def)
qed

text \<open>What \<open>withoutPendingNote\<close> leaves has no marker and is trimmed.\<close>

lemma withoutPendingNote_clean:
  assumes "withoutPendingNote note = Some b"
  shows "\<not> contains NOTE_TAG b" and "str_trim b = b" and "b \<noteq> []"
proof -
  let ?nl = "CHR 0x0A"
  obtain n where n: "note = Some n" using assms by (cases "note") (auto simp: withoutPendingNote_def)
  let ?ls = "filter (\<lambda>line. \<not> contains NOTE_TAG line) (split_on ?nl n)"
  have b: "b = str_trim (join_with [?nl] ?ls)" and ne: "str_trim (join_with [?nl] ?ls) \<noteq> []"
    using assms by (auto simp: n withoutPendingNote_def nonempty_def split: if_splits)
  have "?ls \<noteq> []" using ne by (cases "?ls = []") (auto simp: str_trim_Nil)
  then have "split_on ?nl (join_with [?nl] ?ls) = ?ls"
    by (rule split_join) (auto dest: split_on_free)
  then have "\<not> contains NOTE_TAG (join_with [?nl] ?ls)"
    using contains_line [OF NOTE_TAG_nonempty no_break_NOTE_TAG, of "join_with [?nl] ?ls"] by simp
  then show "\<not> contains NOTE_TAG b" unfolding b using contains_str_trim by blast
  show "str_trim b = b" unfolding b by (rule str_trim_idem)
  show "b \<noteq> []" using b ne by simp
qed

text \<open>
  The marker of a delayed start goes on and off the operator note without loss (round trip).
  Whatever the note was, and whether or not it already carried a marker, taking the marker off the
  note that \<open>withPendingNote\<close> builds gives the operator's own text back.
\<close>
theorem pending_note_roundtrip:
  "withoutPendingNote (Some (withPendingNote note days)) = withoutPendingNote (trim_or_null note)"
proof -
  let ?nl = "CHR 0x0A" and ?keep = "filter (\<lambda>line. \<not> contains NOTE_TAG line)"
  define tag where "tag = NOTE_TAG @ '' ('' @ show_int days @ '' days)''"
  have sp: "split_on ?nl tag = [tag]"
    by (rule split_on_single) (use no_break_NOTE_TAG no_break_show_int in \<open>simp add: tag_def\<close>)
  have in_tag: "contains NOTE_TAG tag" unfolding tag_def by (rule contains_prefix)
  have w: "withPendingNote note days =
      (case withoutPendingNote (trim_or_null note) of None \<Rightarrow> tag | Some b \<Rightarrow> b @ ?nl # tag)"
    by (simp add: withPendingNote_def tag_def Let_def split: option.split)
  show ?thesis
  proof (cases "withoutPendingNote (trim_or_null note)")
    case None
    then show ?thesis by (simp add: w withoutPendingNote_def sp in_tag nonempty_def)
  next
    case (Some b)
    note clean = withoutPendingNote_clean [OF Some]
    have "\<forall>l \<in> set (split_on ?nl b). \<not> contains NOTE_TAG l"
      using clean(1) contains_line [OF NOTE_TAG_nonempty no_break_NOTE_TAG, of b] by blast
    then have keep: "?keep (split_on ?nl b) = split_on ?nl b" by (simp add: filter_id_conv)
    have "?keep (split_on ?nl (b @ ?nl # tag)) = split_on ?nl b"
      using split_on_append [of ?nl b tag] sp keep in_tag by simp
    then have "withoutPendingNote (Some (b @ ?nl # tag)) = nonempty (str_trim (join_with [?nl] (split_on ?nl b)))"
      by (simp only: withoutPendingNote_def option.case)
    also have "\<dots> = Some b" using clean(2,3) by (simp add: join_split nonempty_def)
    finally show ?thesis by (simp add: w Some)
  qed
qed

section \<open>Activation\<close>

lemma getPendingStart_clear: "getPendingStart i (snd (clearPendingStart i w)) = None"
  by (simp add: clearPendingStart_def getPendingStart_def find_row_del)

text \<open>
  Activation of a delayed start (functional). For a pending row of an existing client without an
  expiry that has been seen online or has used traffic, the worker writes the expiry that many days
  after the first connection (now, when only traffic is known), takes the marker off the note,
  counts it, and stops tracking: the row is gone, so no later pass moves the expiry again. Other
  clients are untouched.
\<close>
theorem activation_spec:
  assumes "find_client (ps_clientId row) w = Some c" and "0 < ps_days row" and "cli_expiresAt c = None"
    and "0 < cli_usedUp c + cli_usedDown c \<or> cli_lastOnlineAt c \<noteq> None"
    and "(x, w') = activate_one row n w"
  shows "x = Inr (Suc n) \<and>
    find_client (ps_clientId row) w' = Some (c\<lparr>
      cli_expiresAt := Some (opt_default (cli_lastOnlineAt c) (clock w) + ps_days row * DAY_MS),
      cli_note := withoutPendingNote (cli_note c)\<rparr>) \<and>
    getPendingStart (ps_clientId row) w' = None \<and>
    (\<forall>j. j \<noteq> ps_clientId row \<longrightarrow> find_client j w' = find_client j w \<and> getPendingStart j w' = getPendingStart j w)"
proof -
  let ?i = "ps_clientId row"
  have id: "cli_id c = ?i" using assms(1) unfolding find_client_def by (rule find_row_key)
  have used: "\<not> (cli_usedUp c + cli_usedDown c \<le> 0 \<and> cli_lastOnlineAt c = None)" using assms(4) by auto
  have pp: "parse_pending row = Some row" using assms(2) by (simp add: parse_pending_def)
  let ?f = "\<lambda>r. r\<lparr>cli_expiresAt := Some (opt_default (cli_lastOnlineAt c) (clock w) + ps_days row * DAY_MS),
     cli_note := withoutPendingNote (cli_note c)\<rparr>"
  let ?w1 = "w\<lparr>clients := upd_rows (\<lambda>r. cli_id r = ?i) ?f (clients w)\<rparr>"
  have run: "x = Inr (Suc n)" "w' = snd (clearPendingStart ?i ?w1)"
    using assms(5) used
    by (simp_all add: activate_one_def op_simps assms(1,3) pp id clearPendingStart_def)
  have f: "find_client j w' = map_option (\<lambda>r. if cli_id r = ?i then ?f r else r) (find_client j w)" for j
    by (simp add: run(2) clearPendingStart_def find_client_def find_row_upd)
  have other: "find_client j w' = find_client j w" if "j \<noteq> ?i" for j
    using that find_row_key [of cli_id j "clients w"]
    by (cases "find_client j w") (auto simp: f find_client_def [of j w])
  have p: "getPendingStart j w' = getPendingStart j w" if "j \<noteq> ?i" for j
    using that by (simp add: run(2) clearPendingStart_def getPendingStart_def find_row_del)
  have me: "find_client ?i w' = Some (?f c)" by (simp add: f assms(1) id)
  have gone: "getPendingStart ?i w' = None" unfolding run(2) by (rule getPendingStart_clear)
  show ?thesis using run(1) me gone other p by blast
qed

definition demo_client :: "uid \<Rightarrow> client" where
  "demo_client i = \<lparr>cli_id = i, cli_adminId = 3, cli_name = ''ali'', cli_tag = None, cli_serviceId = None,
     cli_uuid = ''u'', cli_subToken = ''s'', cli_trafficLimit = 50 * GB, cli_usedUp = 0, cli_usedDown = 0,
     cli_expiresAt = None, cli_ipLimit = 0, cli_status = C_ACTIVE, cli_note = None, cli_telegramId = None,
     cli_phone = None, cli_lastOnlineAt = None, cli_customerId = None, cli_createdAt = 0\<rparr>"

lemma demo_client_sel [simp]:
  "cli_id (demo_client i) = i" "cli_adminId (demo_client i) = 3" "cli_trafficLimit (demo_client i) = 50 * GB"
  "cli_usedUp (demo_client i) = 0" "cli_usedDown (demo_client i) = 0" "cli_expiresAt (demo_client i) = None"
  "cli_status (demo_client i) = C_ACTIVE" "cli_lastOnlineAt (demo_client i) = None" "cli_note (demo_client i) = None"
  by (simp_all add: demo_client_def)

lemma activation_spec_witness:
  "\<exists>w'. activate_one \<lparr>ps_clientId = 7, ps_days = 30, ps_armedAt = 0\<rparr> 0
      (demo_world\<lparr>clients := [(demo_client 7)\<lparr>cli_usedUp := 5\<rparr>]\<rparr>) = (Inr 1, w') \<and>
    map_option cli_expiresAt (find_client 7 w') = Some (Some (1000 + 30 * DAY_MS))"
proof -
  let ?r = "\<lparr>ps_clientId = 7, ps_days = 30, ps_armedAt = 0\<rparr>"
  let ?c = "(demo_client 7)\<lparr>cli_usedUp := 5\<rparr>"
  let ?w = "demo_world\<lparr>clients := [?c]\<rparr>"
  obtain x w' where e: "activate_one ?r 0 ?w = (x, w')" by (cases "activate_one ?r 0 ?w")
  show ?thesis
    using activation_spec [of ?r ?w ?c x w' 0] e by (auto simp: find_client_def)
qed

end
