(* ===== verification/Grouped.thy ===== *)
theory Grouped
  imports Prelude "HOL-Library.Multiset"
begin

text \<open>
  Grouping rows by a key with a JavaScript \<open>Map\<close>, which keeps its keys in the order of their first
  insertion. Four operations of the program group this way; \<open>group_by_eq\<close> says once what they get.
\<close>

fun add_to_group :: "'k \<Rightarrow> 'a \<Rightarrow> ('k \<times> 'a list) list \<Rightarrow> ('k \<times> 'a list) list" where
  "add_to_group k x [] = [(k, [x])]"
| "add_to_group k x ((j, ys) # gs) = (if j = k then (j, ys @ [x]) # gs else (j, ys) # add_to_group k x gs)"

definition group_by :: "('a \<Rightarrow> 'k) \<Rightarrow> 'a list \<Rightarrow> ('k \<times> 'a list) list" where
  "group_by key xs = fold (\<lambda>x gs. add_to_group (key x) x gs) xs []"

lemma find_SomeD: "find P xs = Some x \<Longrightarrow> x \<in> set xs \<and> P x"
  by (induction xs) (auto split: if_splits)

text \<open>The distinct elements in the order of their first occurrence: \<open>[...new Set(xs)]\<close>.\<close>
fun uniq :: "'a list \<Rightarrow> 'a list" where
  "uniq [] = []"
| "uniq (x # xs) = x # filter (\<lambda>y. y \<noteq> x) (uniq xs)"

lemma set_uniq [simp]: "set (uniq xs) = set xs"
  by (induction xs) auto

lemma distinct_uniq [simp]: "distinct (uniq xs)"
  by (induction xs) auto

lemma uniq_append1: "uniq (xs @ [x]) = (if x \<in> set xs then uniq xs else uniq xs @ [x])"
  by (induction xs) auto

lemma add_to_group_map:
  "distinct ks \<Longrightarrow> add_to_group k x (map (\<lambda>k. (k, f k)) ks) =
    (if k \<in> set ks then map (\<lambda>j. (j, if j = k then f k @ [x] else f j)) ks
     else map (\<lambda>k. (k, f k)) ks @ [(k, [x])])"
  by (induction ks) auto

lemma group_by_eq: "group_by key xs = map (\<lambda>k. (k, filter (\<lambda>x. key x = k) xs)) (uniq (map key xs))"
proof (induction xs rule: rev_induct)
  case Nil
  then show ?case by (simp add: group_by_def)
next
  case (snoc x xs)
  have "group_by key (xs @ [x]) = add_to_group (key x) x (group_by key xs)"
    by (simp add: group_by_def)
  also have "\<dots> = map (\<lambda>k. (k, filter (\<lambda>x. key x = k) (xs @ [x]))) (uniq (map key (xs @ [x])))"
  proof (cases "key x \<in> set (map key xs)")
    case True
    then show ?thesis
      unfolding snoc.IH add_to_group_map [OF distinct_uniq] map_append list.map uniq_append1 by auto
  next
    case False
    then have "filter (\<lambda>y. key y = key x) xs = []" unfolding filter_empty_conv set_map by (metis image_eqI)
    with False show ?thesis
      unfolding snoc.IH add_to_group_map [OF distinct_uniq] map_append list.map uniq_append1 by auto
  qed
  finally show ?case .
qed

lemma group_by_keys: "distinct (map fst (group_by key xs))" "set (map fst (group_by key xs)) = key ` set xs"
  by (simp_all add: group_by_eq comp_def)

lemma group_by_member:
  assumes "(k, ys) \<in> set (group_by key xs)"
  shows "ys = filter (\<lambda>x. key x = k) xs" and "ys \<noteq> []"
  using assms by (auto simp: group_by_eq filter_empty_conv)

lemma group_by_lookup: "x \<in> set xs \<Longrightarrow> (key x, filter (\<lambda>y. key y = key x) xs) \<in> set (group_by key xs)"
  by (simp add: group_by_eq)

text \<open>Nothing is lost and nothing is counted twice.\<close>

lemma mset_filter_keys:
  "distinct ks \<Longrightarrow> (\<forall>x \<in> set xs. key x \<in> set ks) \<Longrightarrow>
   mset (concat (map (\<lambda>k. filter (\<lambda>x. key x = k) xs) ks)) = mset xs"
proof (induction xs)
  case Nil
  then show ?case by (induction ks) auto
next
  case (Cons x xs)
  have "mset (concat (map (\<lambda>k. filter (\<lambda>y. key y = k) (x # xs)) ks)) =
    mset (concat (map (\<lambda>k. filter (\<lambda>y. key y = k) xs) ks)) + (if key x \<in> set ks then {#x#} else {#})"
    if "distinct ks" for ks
    using that by (induction ks) auto
  with Cons show ?case by simp
qed

lemma group_by_mset: "mset (concat (map snd (group_by key xs))) = mset xs"
proof -
  have "mset (concat (map (\<lambda>k. filter (\<lambda>x. key x = k) xs) (uniq (map key xs)))) = mset xs"
    by (rule mset_filter_keys) simp_all
  then show ?thesis by (simp add: group_by_eq comp_def)
qed

end
