(* ===== verification/Servers.thy ===== *)
theory Servers
  imports ClientSettings Grouped "HOL-Library.List_Lexorder" "HOL-Library.Char_ord"
begin

text \<open>
  \<open>servers.ts\<close> (what is stored of the remote panels, and what their reports do to a client),
  \<open>resolveFlow\<close> of \<open>subscription/links.ts\<close> and \<open>services.ts\<close> (the owner's bundles of inbounds).
  Names are ordered by character codes.
\<close>

section \<open>Calls of a remote panel\<close>

definition panel_do :: "panel_call \<Rightarrow> (world, unit) op" where
  "panel_do c w =
    (let w' = w\<lparr>panel_log := panel_log w @ [c]\<rparr> in
     case ext_panel (svcs w) (panel_log w) c of None \<Rightarrow> (Inr (), w') | Some m \<Rightarrow> (Inl (PlainError m), w'))"

definition links_of :: "world \<Rightarrow> uid \<Rightarrow> client_server list" where
  "links_of w clientId = filter (\<lambda>l. cs_clientId l = clientId) (client_servers w)"

definition upd_links :: "uid list \<Rightarrow> (client_server \<Rightarrow> client_server) \<Rightarrow> (world, unit) op" where
  "upd_links ids f = modify (\<lambda>w. w\<lparr>client_servers := upd_rows (\<lambda>l. cs_id l \<in> set ids) f (client_servers w)\<rparr>)"

definition upd_client :: "uid \<Rightarrow> (client \<Rightarrow> client) \<Rightarrow> (world, unit) op" where
  "upd_client i f = modify (\<lambda>w. w\<lparr>clients := upd_rows (\<lambda>c. cli_id c = i) f (clients w)\<rparr>)"

definition find_inbound :: "server \<Rightarrow> int \<Rightarrow> inbound option" where
  "find_inbound s i = find_row ib_id i (srv_inbounds s)"

definition resolveFlow :: "inbound \<Rightarrow> string \<Rightarrow> string" where
  "resolveFlow ib uuid =
    (case find (\<lambda>(i, f). i = uuid) (ib_clients ib) of
       Some (_, Some f) \<Rightarrow> f
     | _ \<Rightarrow> (case find (\<lambda>(i, f). f \<noteq> None) (ib_clients ib) of
         Some (_, Some f) \<Rightarrow> f
       | _ \<Rightarrow> if ib_protocol ib = ''vless'' \<and> ib_security ib = Some ''reality'' \<and>
                str_or (ib_network ib) ''tcp'' id = ''tcp''
              then ''xtls-rprx-vision'' else []))"

section \<open>Status of a client\<close>

definition derived_status :: "time \<Rightarrow> client \<Rightarrow> int \<Rightarrow> client_status" where
  "derived_status tm c used =
    (if cli_status c = C_DISABLED then C_DISABLED
     else if (case cli_expiresAt c of Some t \<Rightarrow> t < tm | None \<Rightarrow> False) then C_EXPIRED
     else if 0 < cli_trafficLimit c \<and> cli_trafficLimit c \<le> used then C_LIMITED
     else C_ACTIVE)"

definition recomputeClient :: "uid \<Rightarrow> (world, unit) op" where
  "recomputeClient clientId =
    bnd (gets (\<lambda>w. (find_client clientId w, links_of w clientId, clock w))) (\<lambda>(found, links, tm).
      case found of
        None \<Rightarrow> ret ()
      | Some c \<Rightarrow>
          let up = sum_list (map cs_up links); down = sum_list (map cs_down links);
              status = derived_status tm c (up + down) in
          andthen (upd_client clientId (\<lambda>r. r\<lparr>cli_usedUp := up, cli_usedDown := down, cli_status := status\<rparr>))
          (do_when (status \<noteq> cli_status c) (onClientStatusChanged clientId status)))"

definition enforceClientStatuses :: "(world, nat) op" where
  "enforceClientStatuses =
    bnd (gets (\<lambda>w. take 500 (map cli_id (filter (\<lambda>c. cli_status c = C_ACTIVE \<and>
        (case cli_expiresAt c of Some t \<Rightarrow> t < clock w | None \<Rightarrow> False)) (clients w))))) (\<lambda>ids.
      if ids = [] then ret 0
      else andthen (modify (\<lambda>w. w\<lparr>clients := upd_rows (\<lambda>c. cli_id c \<in> set ids) (\<lambda>c. c\<lparr>cli_status := C_EXPIRED\<rparr>) (clients w)\<rparr>))
        (andthen (for_each ids (\<lambda>i. onClientStatusChanged i C_EXPIRED)) (ret (length ids))))"

section \<open>Usage reported by a panel\<close>

record panel_stat =
  st_email :: string
  st_up :: rat
  st_down :: rat
  st_enable :: bool
  st_inboundId :: int

text \<open>Of several rows with the same email the largest is kept, under its inbound.\<close>
definition add_stat :: "int \<Rightarrow> panel_stat \<Rightarrow> (string \<times> panel_stat) list \<Rightarrow> (string \<times> panel_stat) list" where
  "add_stat ib s stats =
    (let s' = s\<lparr>st_inboundId := (if st_inboundId s = 0 then ib else st_inboundId s)\<rparr> in
     case map_of stats (st_email s) of
       Some prev \<Rightarrow> if st_up prev + st_down prev < st_up s + st_down s then put_row (st_email s) s' stats else stats
     | None \<Rightarrow> put_row (st_email s) s' stats)"

definition stats_of :: "(int \<times> panel_stat list) list \<Rightarrow> (string \<times> panel_stat) list" where
  "stats_of ibs = fold (\<lambda>(ib, ss) acc. fold (add_stat ib) ss acc) ibs []"

text \<open>The difference to the last counter; a smaller counter was reset on the panel.\<close>
definition usage_delta :: "int \<Rightarrow> int \<Rightarrow> int" where
  "usage_delta new old = (if old \<le> new then new - old else new)"

record usage_acc =
  ua_usage :: "(uid \<times> int \<times> int) list"
  ua_touched :: "uid list"
  ua_online :: "uid list"

definition apply_group ::
  "(string \<times> panel_stat) list \<Rightarrow> string list \<Rightarrow> client_server list \<Rightarrow> usage_acc \<Rightarrow> (world, usage_acc) op" where
  "apply_group stats onlines grp acc =
    (let sorted = sort_key cs_inboundId grp; email = cs_remoteEmail (hd sorted); ids = map cs_id sorted in
     case map_of stats email of
       None \<Rightarrow> andthen (upd_links ids (\<lambda>l. l\<lparr>cs_lastError := Some ''not found on the panel''\<rparr>)) (ret acc)
     | Some s \<Rightarrow>
        let primary = (case find (\<lambda>l. cs_inboundId l = st_inboundId s) sorted of Some l \<Rightarrow> l | None \<Rightarrow> hd sorted);
            up = max 0 (js_round (st_up s)); down = max 0 (js_round (st_down s));
            dUp = usage_delta up (cs_up primary); dDown = usage_delta down (cs_down primary) in
        andthen (upd_links [cs_id primary] (\<lambda>l. l\<lparr>cs_up := up, cs_down := down, cs_enabled := st_enable s, cs_lastError := None\<rparr>))
        (andthen (upd_links (filter (\<lambda>i. i \<noteq> cs_id primary) ids)
            (\<lambda>l. l\<lparr>cs_up := 0, cs_down := 0, cs_enabled := st_enable s, cs_lastError := None\<rparr>))
        (ret \<lparr>ua_usage = (if 0 < dUp + dDown then ua_usage acc @ [(cs_clientId primary, dUp, dDown)] else ua_usage acc),
              ua_touched = ua_touched acc @ [cs_clientId primary],
              ua_online = (if email \<in> set onlines then ua_online acc @ [cs_clientId primary] else ua_online acc)\<rparr>)))"

definition applyClientStats :: "uid \<Rightarrow> (int \<times> panel_stat list) list \<Rightarrow> string list \<Rightarrow> (world, unit) op" where
  "applyClientStats serverId ibs onlines =
    bnd (gets (\<lambda>w. (filter (\<lambda>l. cs_serverId l = serverId) (client_servers w), clock w))) (\<lambda>(links, tm).
      if links = [] then ret () else
      bnd (fold_op (\<lambda>(k, group) acc. apply_group (stats_of ibs) onlines group acc)
             (group_by (\<lambda>l. (cs_clientId l, cs_remoteEmail l)) links)
             \<lparr>ua_usage = [], ua_touched = [], ua_online = []\<rparr>) (\<lambda>acc.
      andthen (modify (\<lambda>w. w\<lparr>client_usage := client_usage w @ ua_usage acc\<rparr>))
      (andthen (modify (\<lambda>w. w\<lparr>clients := upd_rows (\<lambda>c. cli_id c \<in> set (ua_online acc))
          (\<lambda>c. c\<lparr>cli_lastOnlineAt := Some tm\<rparr>) (clients w)\<rparr>))
      (for_each (uniq (ua_touched acc)) recomputeClient))))"

section \<open>Who may use which server\<close>

definition access_rows :: "admin \<Rightarrow> world \<Rightarrow> server_access list" where
  "access_rows actor w = filter (\<lambda>a. acc_adminId a = adm_id actor) (server_accesses w)"

definition listServersFor :: "admin \<Rightarrow> world \<Rightarrow> server list" where
  "listServersFor actor w =
    (let rows = (if adm_role actor = OWNER then servers w
                 else filter (\<lambda>s. \<exists>a \<in> set (access_rows actor w). acc_serverId a = srv_id s) (servers w))
     in sort_key (\<lambda>s. \<not> srv_isActive s) (sort_key srv_name rows))"

definition allowedInboundsFor :: "admin \<Rightarrow> server \<Rightarrow> world \<Rightarrow> inbound list" where
  "allowedInboundsFor actor s w =
    (if adm_role actor = OWNER then srv_inbounds s
     else (case find_row acc_serverId (srv_id s) (access_rows actor w) of
         None \<Rightarrow> []
       | Some a \<Rightarrow> if acc_inboundIds a = [] then srv_inbounds s
           else filter (\<lambda>i. ib_id i \<in> set (acc_inboundIds a)) (srv_inbounds s)))"

definition deleteServer :: "uid \<Rightarrow> (world, unit) op" where
  "deleteServer i = bnd (gets (find_server i)) (\<lambda>found. bnd (or_throw found record_not_found) (\<lambda>_.
     modify (\<lambda>w. w\<lparr>servers := del_rows (\<lambda>s. srv_id s = i) (servers w),
       client_servers := del_rows (\<lambda>l. cs_serverId l = i) (client_servers w),
       server_accesses := del_rows (\<lambda>a. acc_serverId a = i) (server_accesses w)\<rparr>)))"

section \<open>Services: \<open>services.ts\<close>\<close>

text \<open>The inbounds an access list opens; no list means the owner.\<close>
definition canUse :: "server_access list option \<Rightarrow> target \<Rightarrow> bool" where
  "canUse access t =
    (case access of
       None \<Rightarrow> True
     | Some rows \<Rightarrow> (case find_row acc_serverId (t_serverId t) rows of
         None \<Rightarrow> False
       | Some a \<Rightarrow> acc_inboundIds a = [] \<or> t_inboundId t \<in> set (acc_inboundIds a)))"

definition accessOf :: "admin \<Rightarrow> world \<Rightarrow> server_access list option" where
  "accessOf actor w = (if adm_role actor = OWNER then None else Some (access_rows actor w))"

record service_target =
  sti_target :: target
  sti_serverName :: "string option"
  sti_enabled :: bool

definition service_visible :: "admin \<Rightarrow> bool \<Rightarrow> service \<Rightarrow> bool" where
  "service_visible actor activeOnly s \<longleftrightarrow>
    (if adm_role actor = OWNER then activeOnly \<longrightarrow> svc_isActive s
     else svc_isActive s \<and> (svc_adminIds s = [] \<or> adm_id actor \<in> set (svc_adminIds s)))"

definition target_info :: "world \<Rightarrow> target \<Rightarrow> service_target" where
  "target_info w t =
    (let srv = find (\<lambda>s. srv_id s = t_serverId t) (filter srv_isActive (servers w));
         ib = (case srv of None \<Rightarrow> None | Some s \<Rightarrow> find_inbound s (t_inboundId t))
     in \<lparr>sti_target = t, sti_serverName = map_option srv_name srv,
         sti_enabled = (case ib of Some i \<Rightarrow> ib_enable i | None \<Rightarrow> False)\<rparr>)"

definition listServices :: "admin \<Rightarrow> bool \<Rightarrow> world \<Rightarrow> (service \<times> service_target list) list" where
  "listServices actor activeOnly w =
    (let items = sort_key svc_sortOrder (sort_key svc_createdAt (filter (service_visible actor activeOnly) (service_rows w)));
         infos = map (\<lambda>s. (s, map (target_info w) (filter (canUse (accessOf actor w)) (svc_targets s)))) items
     in filter (\<lambda>(s, ts). adm_role actor = OWNER \<or> ts \<noteq> []) infos)"

definition find_service :: "uid \<Rightarrow> world \<Rightarrow> service option" where
  "find_service i w = find_row svc_id i (service_rows w)"

definition service_not_found :: err where
  "service_not_found = not_found_error ''service not found''"

definition getServiceForActor :: "admin \<Rightarrow> uid \<Rightarrow> (world, service) op" where
  "getServiceForActor actor i =
    bnd (gets (find_service i)) (\<lambda>found. bnd (or_throw found service_not_found) (\<lambda>s.
      if adm_role actor = OWNER then ret s else
      andthen (throw_if (\<not> svc_isActive s) (app_error ''service is not active''))
      (andthen (throw_if (svc_adminIds s \<noteq> [] \<and> adm_id actor \<notin> set (svc_adminIds s)) (forbidden_error ''no access to this service''))
      (ret s))))"

definition resolveServiceTargets :: "admin \<Rightarrow> uid \<Rightarrow> (world, target list) op" where
  "resolveServiceTargets actor serviceId =
    bnd (getServiceForActor actor serviceId) (\<lambda>s. bnd (gets (accessOf actor)) (\<lambda>access.
      let targets = filter (canUse access) (svc_targets s) in
      andthen (throw_if (targets = []) (app_error ''no inbound of the service is accessible'')) (ret targets)))"

text \<open>Shared by \<open>services.ts\<close> and \<open>plans.ts\<close>: every target must exist; duplicates are dropped.\<close>
definition validateTargets :: "admin \<Rightarrow> target list \<Rightarrow> (world, target list) op" where
  "validateTargets actor targets =
    andthen (throw_if (targets = []) (app_error ''select at least one inbound''))
    (bnd (gets (listServersFor actor)) (\<lambda>srvs.
      fold_op (\<lambda>t out.
        case find_row srv_id (t_serverId t) srvs of
          None \<Rightarrow> throw (app_error ''server is not available'')
        | Some s \<Rightarrow>
            if find_inbound s (t_inboundId t) = None then throw (app_error ''inbound does not exist'')
            else ret (if t \<in> set out then out else out @ [t])) targets []))"

record service_input =
  sin_name :: string
  sin_description :: "string option"
  sin_targets :: "target list"
  sin_adminIds :: "uid list"
  sin_isActive :: bool
  sin_sortOrder :: rat

definition service_row :: "uid \<Rightarrow> uid \<Rightarrow> time \<Rightarrow> target list \<Rightarrow> service_input \<Rightarrow> service" where
  "service_row i ownerId tm targets inp =
    \<lparr>svc_id = i, svc_ownerId = ownerId, svc_name = str_trim (sin_name inp),
     svc_description = trim_or_null (sin_description inp), svc_targets = targets,
     svc_adminIds = uniq (sin_adminIds inp), svc_isActive = sin_isActive inp,
     svc_sortOrder = js_round (sin_sortOrder inp), svc_createdAt = tm\<rparr>"

definition name_required :: "string \<Rightarrow> (world, unit) op" where
  "name_required n = throw_if (str_trim n = []) (app_error ''name is required'')"

definition createService :: "admin \<Rightarrow> service_input \<Rightarrow> (world, service) op" where
  "createService actor inp =
    andthen (throw_if (adm_role actor \<noteq> OWNER) (forbidden_error ''owner only''))
    (bnd (validateTargets actor (sin_targets inp)) (\<lambda>targets.
    andthen (name_required (sin_name inp))
    (bnd new_id (\<lambda>k. bnd now (\<lambda>tm.
      let s = service_row k (adm_id actor) tm targets inp in
      andthen (modify (\<lambda>w. w\<lparr>service_rows := service_rows w @ [s]\<rparr>))
      (andthen (audit (Some (adm_id actor)) ''service.create'' (JId k)
          [(''name'', JStr (svc_name s)), (''targets'', JInt (int (length targets)))] None)
      (ret s)))))))"

text \<open>A patch: a field of \<open>Partial<ServiceInput>\<close> that is undefined is \<open>None\<close>.\<close>
record service_patch =
  spa_name :: "string option"
  spa_description :: "string option option"
  spa_targets :: "target list option"
  spa_adminIds :: "uid list option"
  spa_isActive :: "bool option"
  spa_sortOrder :: "rat option"

definition patch_fields :: "service_patch \<Rightarrow> json_obj" where
  "patch_fields p = opt_field ''name'' (\<lambda>_. JNull) (spa_name p) @ opt_field ''description'' (\<lambda>_. JNull) (spa_description p)
    @ opt_field ''targets'' (\<lambda>_. JNull) (spa_targets p) @ opt_field ''adminIds'' (\<lambda>_. JNull) (spa_adminIds p)
    @ opt_field ''isActive'' (\<lambda>_. JNull) (spa_isActive p) @ opt_field ''sortOrder'' (\<lambda>_. JNull) (spa_sortOrder p)"

definition updateService :: "admin \<Rightarrow> uid \<Rightarrow> service_patch \<Rightarrow> (world, service) op" where
  "updateService actor i p =
    andthen (throw_if (adm_role actor \<noteq> OWNER) (forbidden_error ''owner only''))
    (bnd (gets (find_service i)) (\<lambda>found. bnd (or_throw found service_not_found) (\<lambda>cur.
      let inp = \<lparr>sin_name = opt_default (spa_name p) (svc_name cur),
                 sin_description = opt_default (spa_description p) (svc_description cur),
                 sin_targets = opt_default (spa_targets p) (svc_targets cur),
                 sin_adminIds = opt_default (spa_adminIds p) (svc_adminIds cur),
                 sin_isActive = opt_default (spa_isActive p) (svc_isActive cur),
                 sin_sortOrder = opt_default (spa_sortOrder p) (of_int (svc_sortOrder cur))\<rparr> in
      bnd (if spa_targets p = None then ret (svc_targets cur) else validateTargets actor (sin_targets inp)) (\<lambda>targets.
      andthen (name_required (sin_name inp))
      (let s = service_row (svc_id cur) (svc_ownerId cur) (svc_createdAt cur) targets inp in
       andthen (modify (\<lambda>w. w\<lparr>service_rows := upd_rows (\<lambda>r. svc_id r = svc_id cur) (\<lambda>_. s) (service_rows w)\<rparr>))
       (andthen (audit (Some (adm_id actor)) ''service.update'' (JId (svc_id cur)) [(''fields'', JObj (patch_fields p))] None)
       (ret s)))))))"

definition deleteService :: "admin \<Rightarrow> uid \<Rightarrow> (world, unit) op" where
  "deleteService actor i =
    andthen (throw_if (adm_role actor \<noteq> OWNER) (forbidden_error ''owner only''))
    (bnd (gets (find_service i)) (\<lambda>found. bnd (or_throw found service_not_found) (\<lambda>cur.
      andthen (modify (\<lambda>w. w\<lparr>service_rows := del_rows (\<lambda>r. svc_id r = svc_id cur) (service_rows w)\<rparr>))
      (audit (Some (adm_id actor)) ''service.delete'' (JId (svc_id cur)) [(''name'', JStr (svc_name cur))] None))))"

section \<open>Properties of the status\<close>

lemma find_client_upd:
  assumes "\<And>c. cli_id (f c) = cli_id c"
  shows "find_client j (snd (upd_client i f w)) =
    map_option (\<lambda>c. if cli_id c = i then f c else c) (find_client j w)"
  by (simp add: upd_client_def find_client_def find_row_upd assms)

lemma find_client_id: "find_client i w = Some c \<Longrightarrow> cli_id c = i"
  unfolding find_client_def by (rule find_row_key)

lemma find_client_events: "events_only w w' \<Longrightarrow> find_client j w' = find_client j w"
  by (simp add: find_client_def eo_clients)

definition total_used :: "world \<Rightarrow> uid \<Rightarrow> int \<times> int" where
  "total_used w i = (sum_list (map cs_up (links_of w i)), sum_list (map cs_down (links_of w i)))"

text \<open>
  The status of a client after \<open>recomputeClient\<close> (functional). Its usage becomes the sum over its
  links on all servers; its status is DISABLED if an operator disabled it, else EXPIRED when the
  expiry has passed, else LIMITED when a positive traffic limit is used up, else ACTIVE. In
  particular it is ACTIVE only when neither bound is reached. No other client and no link changes,
  and when the status stays the same nothing is announced: the update is the only effect.
\<close>
theorem recompute_spec:
  assumes "find_client i w = Some c" and "(x, w') = recomputeClient i w"
    and "total_used w i = (up, down)"
  shows "x = Inr () \<and>
    find_client i w' = Some (c\<lparr>cli_usedUp := up, cli_usedDown := down, cli_status := derived_status (clock w) c (up + down)\<rparr>) \<and>
    (\<forall>j. j \<noteq> i \<longrightarrow> find_client j w' = find_client j w) \<and> client_servers w' = client_servers w \<and>
    (derived_status (clock w) c (up + down) = C_ACTIVE \<longleftrightarrow>
      cli_status c \<noteq> C_DISABLED \<and> (\<forall>t. cli_expiresAt c = Some t \<longrightarrow> clock w \<le> t) \<and>
      (0 < cli_trafficLimit c \<longrightarrow> up + down < cli_trafficLimit c)) \<and>
    (derived_status (clock w) c (up + down) = cli_status c \<longrightarrow> notification_log w' = notification_log w \<and>
      webhook_deliveries w' = webhook_deliveries w)"
proof -
  let ?s = "derived_status (clock w) c (up + down)"
  let ?f = "\<lambda>r. r\<lparr>cli_usedUp := up, cli_usedDown := down, cli_status := ?s\<rparr>"
  let ?w1 = "snd (upd_client i ?f w)"
  have sums: "sum_list (map cs_up (links_of w i)) = up" "sum_list (map cs_down (links_of w i)) = down"
    using assms(3) by (simp_all add: total_used_def)
  have "recomputeClient i w = do_when (?s \<noteq> cli_status c) (onClientStatusChanged i ?s) ?w1"
    by (simp add: recomputeClient_def assms(1) sums Let_def upd_client_def)
  with assms(2) have run: "(x, w') = do_when (?s \<noteq> cli_status c) (onClientStatusChanged i ?s) ?w1" by simp
  have "quiet (do_when (?s \<noteq> cli_status c) (onClientStatusChanged i ?s))" by (intro quiet_intros)
  from quietD [OF this, of ?w1] run have x: "x = Inr ()" and ev: "events_only ?w1 w'" by auto
  have find: "find_client j w' = map_option (\<lambda>c. if cli_id c = i then ?f c else c) (find_client j w)" for j
    using find_client_upd [of ?f j i w] by (simp add: find_client_events [OF ev])
  have me: "find_client i w' = Some (?f c)" by (simp add: find assms(1) find_client_id [OF assms(1)])
  have others: "\<forall>j. j \<noteq> i \<longrightarrow> find_client j w' = find_client j w"
  proof (intro allI impI)
    fix j assume "j \<noteq> i"
    then show "find_client j w' = find_client j w"
      using find_client_id [of j w] by (cases "find_client j w") (auto simp: find)
  qed
  have links: "client_servers w' = client_servers w" by (simp add: eo_client_servers [OF ev] upd_client_def)
  have act: "?s = C_ACTIVE \<longleftrightarrow> cli_status c \<noteq> C_DISABLED \<and> (\<forall>t. cli_expiresAt c = Some t \<longrightarrow> clock w \<le> t) \<and>
      (0 < cli_trafficLimit c \<longrightarrow> up + down < cli_trafficLimit c)"
    by (auto simp: derived_status_def split: option.splits if_splits)
  have silent: "?s = cli_status c \<longrightarrow> notification_log w' = notification_log w \<and> webhook_deliveries w' = webhook_deliveries w"
  proof
    assume "?s = cli_status c"
    with run have "w' = ?w1" by simp
    then show "notification_log w' = notification_log w \<and> webhook_deliveries w' = webhook_deliveries w"
      by (simp add: upd_client_def)
  qed
  show ?thesis using x me others links act silent by blast
qed

lemma recompute_spec_witness:
  "\<exists>w'. recomputeClient 7 (demo_world\<lparr>clients := [demo_client 7], client_servers :=
      [\<lparr>cs_id = 1, cs_clientId = 7, cs_serverId = 5, cs_inboundId = 1, cs_remoteEmail = ''ali'', cs_up = 50 * GB,
        cs_down = 0, cs_enabled = True, cs_lastError = None\<rparr>]\<rparr>) = (Inr (), w') \<and>
    map_option cli_status (find_client 7 w') = Some C_LIMITED"
proof -
  let ?l = "\<lparr>cs_id = 1, cs_clientId = 7, cs_serverId = 5, cs_inboundId = 1, cs_remoteEmail = ''ali'', cs_up = 50 * GB,
        cs_down = 0, cs_enabled = True, cs_lastError = None\<rparr>"
  let ?w = "demo_world\<lparr>clients := [demo_client 7], client_servers := [?l]\<rparr>"
  obtain x w' where e: "recomputeClient 7 ?w = (x, w')" by (cases "recomputeClient 7 ?w")
  have f: "find_client 7 ?w = Some (demo_client 7)" by (simp add: find_client_def)
  have u: "total_used ?w 7 = (50 * GB, 0)" by (simp add: total_used_def links_of_def)
  have s: "derived_status 1000 (demo_client 7) (50 * GB) = C_LIMITED" by (simp add: derived_status_def GB_def)
  show ?thesis using recompute_spec [OF f e [symmetric] u] s e by simp
qed

section \<open>Properties of the usage counters\<close>

lemma sum_once:
  "distinct (map key rows) \<Longrightarrow> r \<in> set rows \<Longrightarrow>
   sum_list (map (\<lambda>x. if key x = key r then (v::int) else 0) rows) = v"
proof (induction rows)
  case Nil
  then show ?case by simp
next
  case (Cons x xs)
  have z: "sum_list (map (\<lambda>x. if key x = k then v else 0) xs) = 0" if "k \<notin> key ` set xs" for k
    using that by (induction xs) auto
  show ?case
  proof (cases "key x = key r")
    case True
    then show ?thesis using Cons.prems z [of "key r"] by simp
  next
    case False
    then show ?thesis using Cons by auto
  qed
qed

lemma usage_delta_bounds: "0 \<le> new \<Longrightarrow> 0 \<le> old \<Longrightarrow> 0 \<le> usage_delta new old \<and> usage_delta new old \<le> new"
  by (simp add: usage_delta_def)

definition in_group :: "uid \<Rightarrow> uid \<Rightarrow> string \<Rightarrow> client_server \<Rightarrow> bool" where
  "in_group srv i e l \<longleftrightarrow> cs_serverId l = srv \<and> cs_clientId l = i \<and> cs_remoteEmail l = e"

text \<open>
  A remote client's usage counts once, however many inbounds it is attached to (invariant of
  \<open>applyClientStats\<close>). After its group of links is processed against a report for its email, the
  counters of the group add up to exactly what the panel reported, so \<open>recomputeClient\<close> does not
  multiply it; links outside the group keep theirs; and a recorded usage sample is never negative
  and never more than the reported counter.
\<close>
theorem usage_counts_once:
  assumes "distinct (map cs_id (client_servers w))"
    and "grp = filter (in_group srv i e) (client_servers w)" and "grp \<noteq> []"
    and "map_of stats e = Some st" and "\<forall>l \<in> set grp. 0 \<le> cs_up l \<and> 0 \<le> cs_down l"
    and "(x, w') = apply_group stats onlines grp acc w"
  shows "sum_list (map cs_up (filter (in_group srv i e) (client_servers w'))) = max 0 (js_round (st_up st)) \<and>
    sum_list (map cs_down (filter (in_group srv i e) (client_servers w'))) = max 0 (js_round (st_down st)) \<and>
    filter (\<lambda>l. \<not> in_group srv i e l) (client_servers w') = filter (\<lambda>l. \<not> in_group srv i e l) (client_servers w) \<and>
    (\<exists>acc' dU dD. x = Inr acc' \<and> set (ua_usage acc') \<subseteq> set (ua_usage acc) \<union> {(i, dU, dD)} \<and>
      0 \<le> dU \<and> dU \<le> max 0 (js_round (st_up st)) \<and> 0 \<le> dD \<and> dD \<le> max 0 (js_round (st_down st)))"
proof -
  let ?sorted = "sort_key cs_inboundId grp" and ?rows = "client_servers w"
  let ?up = "max 0 (js_round (st_up st))" and ?down = "max 0 (js_round (st_down st))"
  have ne: "?sorted \<noteq> []" using assms(3) by (metis length_0_conv length_sort)
  define p where "p = (case find (\<lambda>l. cs_inboundId l = st_inboundId st) ?sorted of Some l \<Rightarrow> l | None \<Rightarrow> hd ?sorted)"
  have p: "p \<in> set grp"
  proof (cases "find (\<lambda>l. cs_inboundId l = st_inboundId st) ?sorted")
    case None
    then have "p = hd ?sorted" by (simp add: p_def)
    then show ?thesis using hd_in_set [OF ne] by simp
  next
    case (Some l)
    then have "l \<in> set ?sorted" using find_SomeD by fastforce
    then show ?thesis using Some by (simp add: p_def)
  qed
  have mem: "in_group srv i e l" if "l \<in> set grp" for l using that assms(2) by simp
  have email: "cs_remoteEmail (hd ?sorted) = e"
    using mem [of "hd ?sorted"] hd_in_set [OF ne] by (simp add: in_group_def)
  define g :: "client_server \<Rightarrow> client_server" where "g = (\<lambda>l. if cs_id l = cs_id p then l\<lparr>cs_up := ?up, cs_down := ?down, cs_enabled := st_enable st, cs_lastError := None\<rparr>
      else if cs_id l \<in> cs_id ` set grp then l\<lparr>cs_up := 0, cs_down := 0, cs_enabled := st_enable st, cs_lastError := None\<rparr> else l)"
  let ?dU = "usage_delta ?up (cs_up p)" and ?dD = "usage_delta ?down (cs_down p)"
  let ?acc = "\<lparr>ua_usage = (if 0 < ?dU + ?dD then ua_usage acc @ [(cs_clientId p, ?dU, ?dD)] else ua_usage acc),
      ua_touched = ua_touched acc @ [cs_clientId p],
      ua_online = (if e \<in> set onlines then ua_online acc @ [cs_clientId p] else ua_online acc)\<rparr>"
  have run: "x = Inr ?acc" "client_servers w' = map g ?rows"
    using assms(6)
    by (auto simp: apply_group_def Let_def email assms(4) p_def [symmetric] upd_links_def upd_rows_def g_def)
  have gid: "cs_id (g l) = cs_id l" "in_group srv i e (g l) = in_group srv i e l" for l
    by (simp_all add: g_def in_group_def)
  have ids: "distinct (map cs_id grp)" using assms(1,2) by (simp add: distinct_map_filter)
  have same_id: "l \<in> set grp" if lr: "l \<in> set ?rows" and lg: "cs_id l \<in> cs_id ` set grp" for l
  proof -
    obtain m where m: "m \<in> set grp" "cs_id l = cs_id m" using lg by blast
    then have "m \<in> set ?rows" using assms(2) by simp
    then have "l = m" using assms(1) lr m(2) by (auto simp: distinct_map dest: inj_onD)
    with m show ?thesis by simp
  qed
  have flt: "filter (in_group srv i e) (map g ?rows) = map g grp"
    using gid(2) by (simp add: filter_map comp_def assms(2))
  have ups: "map (cs_up \<circ> g) grp = map (\<lambda>l. if cs_id l = cs_id p then ?up else 0) grp"
    and downs: "map (cs_down \<circ> g) grp = map (\<lambda>l. if cs_id l = cs_id p then ?down else 0) grp"
    by (auto simp: g_def)
  have sums: "sum_list (map cs_up (filter (in_group srv i e) (client_servers w'))) = ?up"
    "sum_list (map cs_down (filter (in_group srv i e) (client_servers w'))) = ?down"
    unfolding run(2) flt map_map ups downs by (rule sum_once [OF ids p])+
  have rest: "g l = l" if lr: "l \<in> set ?rows" and out: "\<not> in_group srv i e l" for l
  proof -
    have "cs_id l \<notin> cs_id ` set grp" using same_id [OF lr] mem out by blast
    then show ?thesis using p by (auto simp: g_def)
  qed
  have "filter (\<lambda>l. \<not> in_group srv i e l) (map g ?rows) = map g (filter (\<lambda>l. \<not> in_group srv i e l) ?rows)"
    using gid(2) by (simp add: filter_map comp_def)
  also have "\<dots> = filter (\<lambda>l. \<not> in_group srv i e l) ?rows"
    using rest by (intro map_idI) simp
  finally have other: "filter (\<lambda>l. \<not> in_group srv i e l) (client_servers w') = filter (\<lambda>l. \<not> in_group srv i e l) ?rows"
    by (simp add: run(2))
  have "cs_clientId p = i" using mem [OF p] by (simp add: in_group_def)
  then have "set (ua_usage ?acc) \<subseteq> set (ua_usage acc) \<union> {(i, ?dU, ?dD)}" by auto
  moreover have "0 \<le> ?dU \<and> ?dU \<le> ?up" "0 \<le> ?dD \<and> ?dD \<le> ?down"
    using usage_delta_bounds assms(5) p by simp_all
  ultimately show ?thesis using sums other run(1) by blast
qed

lemma usage_counts_once_witness:
  "\<exists>x w'. apply_group [(''ali'', \<lparr>st_email = ''ali'', st_up = 9, st_down = 4, st_enable = True, st_inboundId = 2\<rparr>)] []
      [\<lparr>cs_id = 8, cs_clientId = 7, cs_serverId = 5, cs_inboundId = 2, cs_remoteEmail = ''ali'', cs_up = 6, cs_down = 0,
        cs_enabled = True, cs_lastError = None\<rparr>] \<lparr>ua_usage = [], ua_touched = [], ua_online = []\<rparr>
      (demo_world\<lparr>client_servers := [\<lparr>cs_id = 8, cs_clientId = 7, cs_serverId = 5, cs_inboundId = 2,
         cs_remoteEmail = ''ali'', cs_up = 6, cs_down = 0, cs_enabled = True, cs_lastError = None\<rparr>]\<rparr>) = (x, w') \<and>
    sum_list (map cs_up (filter (in_group 5 7 ''ali'') (client_servers w'))) = 9"
proof -
  let ?l = "\<lparr>cs_id = 8, cs_clientId = 7, cs_serverId = 5, cs_inboundId = 2, cs_remoteEmail = ''ali'', cs_up = 6, cs_down = 0,
        cs_enabled = True, cs_lastError = None\<rparr>"
  let ?s = "\<lparr>st_email = ''ali'', st_up = 9, st_down = 4, st_enable = True, st_inboundId = 2\<rparr>"
  let ?acc = "\<lparr>ua_usage = [], ua_touched = [], ua_online = []\<rparr>"
  let ?w = "demo_world\<lparr>client_servers := [?l]\<rparr>"
  obtain x w' where e: "apply_group [(''ali'', ?s)] [] [?l] ?acc ?w = (x, w')"
    by (cases "apply_group [(''ali'', ?s)] [] [?l] ?acc ?w")
  have r: "js_round 9 = 9" using js_round_of_int [of 9] by simp
  have "sum_list (map cs_up (filter (in_group 5 7 ''ali'') (client_servers w'))) = max 0 (js_round (st_up ?s))"
    using usage_counts_once [of ?w "[?l]" 5 7 "''ali''" "[(''ali'', ?s)]" ?s x w' "[]" ?acc] e
    by (simp add: in_group_def)
  then show ?thesis using e r by simp
qed

end
