(* ===== verification/Naming.thy ===== *)
theory Naming
  imports Schema
begin

text \<open>
  \<open>packages/core/src/util/naming.ts\<close>: how a client is named on the remote panel. Letters and digits
  are those of ASCII.
\<close>

text \<open>The characters of \<open>UNSAFE\<close>.\<close>
definition unsafe_char :: "char \<Rightarrow> bool" where
  "unsafe_char c \<longleftrightarrow> c \<in> {CHR 0x22, CHR 0x27, CHR 0x60, CHR 0x5C, CHR 0x3C, CHR 0x3E, CHR 0x7B, CHR 0x7D, CHR 0x7F}
     \<or> of_char c < (0x20 :: nat)"

text \<open>\<open>replace(/\s+/g, " ")\<close>.\<close>
function squeeze :: "string \<Rightarrow> string" where
  "squeeze [] = []"
| "squeeze (c # cs) = (if is_space c then CHR '' '' # squeeze (dropWhile is_space cs) else c # squeeze cs)"
  by pat_completeness auto
termination
  by (relation "measure length") (auto simp: le_imp_less_Suc length_dropWhile_le)

definition sanitizeConfigName :: "string option \<Rightarrow> string \<Rightarrow> string" where
  "sanitizeConfigName name fallback =
    (let clean = take 64 (str_trim (squeeze (filter (\<lambda>c. \<not> unsafe_char c) (opt_default name []))))
     in if clean = [] then fallback else clean)"

definition HANDLE_ALPHABET :: string where
  "HANDLE_ALPHABET = ''abcdefghjkmnpqrstuvwxyz23456789''"

definition is_alnum :: "char \<Rightarrow> bool" where
  "is_alnum c \<longleftrightarrow> is_digit c \<or> is_lower c \<or> is_upper c"

text \<open>The handle made of the drawn bytes.\<close>
definition config_name_of :: "string \<Rightarrow> nat \<Rightarrow> nat list \<Rightarrow> string" where
  "config_name_of prefix n bytes =
    (let base = to_lower (take 12 (filter is_alnum prefix));
         handle = map (\<lambda>i. HANDLE_ALPHABET ! ((if i < length bytes then bytes ! i else 0) mod length HANDLE_ALPHABET)) [0 ..< n]
     in if base = [] then handle else base @ ''-'' @ handle)"

definition randomConfigName :: "string \<Rightarrow> int \<Rightarrow> (world, string) op" where
  "randomConfigName prefix len =
    (let n = nat (max 4 (min 24 len)) in
     bnd new_id (\<lambda>k. gets (\<lambda>w. config_name_of prefix n (ext_random_bytes (svcs w) k n))))"

definition configLabel :: "string \<Rightarrow> string option \<Rightarrow> string" where
  "configLabel cname ctag =
    (let name = sanitizeConfigName (Some cname) ''client''; tag = sanitizeConfigName ctag [] in
     if tag = [] then name
     else if is_alnum (last tag) then tag @ ''-'' @ name else tag @ name)"

definition remoteSubId :: "services \<Rightarrow> string \<Rightarrow> uid \<Rightarrow> int \<Rightarrow> string \<Rightarrow> string" where
  "remoteSubId x subToken serverId inboundId salt =
    take 8 subToken @ take 8 (ext_sha1 x [JStr subToken, JId serverId, JInt inboundId, JStr salt])"

lemma set_squeeze: "set (squeeze cs) \<subseteq> insert (CHR '' '') (set cs)"
proof (induction cs rule: squeeze.induct)
  case 1
  then show ?case by simp
next
  case (2 c cs)
  have "set (dropWhile is_space cs) \<subseteq> set cs" by (auto dest: set_dropWhileD)
  with 2 show ?case by auto
qed

lemma set_str_trim: "set (str_trim s) \<subseteq> set s"
  unfolding str_trim_def by (auto dest!: set_dropWhileD)

lemma sanitizeConfigName_safe:
  assumes "\<forall>c \<in> set fallback. \<not> unsafe_char c"
  shows "\<forall>c \<in> set (sanitizeConfigName name fallback). \<not> unsafe_char c"
proof -
  let ?f = "filter (\<lambda>c. \<not> unsafe_char c) (opt_default name [])"
  have sp: "\<not> unsafe_char (CHR '' '')" by (simp add: unsafe_char_def)
  have "set (take 64 (str_trim (squeeze ?f))) \<subseteq> set (str_trim (squeeze ?f))" by (rule set_take_subset)
  also have "\<dots> \<subseteq> set (squeeze ?f)" by (rule set_str_trim)
  also have "\<dots> \<subseteq> insert (CHR '' '') (set ?f)" by (rule set_squeeze)
  finally have sub: "set (take 64 (str_trim (squeeze ?f))) \<subseteq> insert (CHR '' '') (set ?f)" .
  have "\<not> unsafe_char c" if "c \<in> set (take 64 (str_trim (squeeze ?f)))" for c
  proof (cases "c \<in> set ?f")
    case True
    then show ?thesis by (simp only: set_filter mem_Collect_eq not_False_eq_True)
  next
    case False
    with subsetD [OF sub that] have "c = CHR '' ''" by (simp only: insert_iff simp_thms)
    then show ?thesis by (simp only: sp simp_thms)
  qed
  with assms show ?thesis unfolding sanitizeConfigName_def Let_def by (simp only: split: if_split) blast
qed

lemma sanitizeConfigName_length:
  "length fallback \<le> 64 \<Longrightarrow> length (sanitizeConfigName name fallback) \<le> 64"
  by (simp add: sanitizeConfigName_def Let_def)

lemma sanitizeConfigName_nonempty: "fallback \<noteq> [] \<Longrightarrow> sanitizeConfigName name fallback \<noteq> []"
  by (simp add: sanitizeConfigName_def Let_def)

end
