(* ===== verification/ClientPanels.thy ===== *)
theory ClientPanels
  imports Servers Naming
begin

text \<open>
  \<open>clients/grouping.ts\<close> and \<open>clients/panelSync.ts\<close>: from picked inbounds and stored links to the
  remote clients they stand for, and the calls that create and update those.
\<close>

section \<open>Grouping: \<open>clients/grouping.ts\<close>\<close>

text \<open>A target of a request; a missing server or a non-numeric inbound is \<open>None\<close>.\<close>
type_synonym raw_target = "uid option \<times> int option"

fun valid_target :: "raw_target \<Rightarrow> target option" where
  "valid_target (Some s, Some i) = Some \<lparr>t_serverId = s, t_inboundId = i\<rparr>"
| "valid_target _ = None"

definition normalizeTargets :: "raw_target list \<Rightarrow> target list" where
  "normalizeTargets xs = sort_key t_serverId (sort_key t_inboundId (uniq (List.map_filter valid_target xs)))"

record panel_group =
  pg_server :: server
  pg_protocol :: string
  pg_flow :: string
  pg_inboundIds :: "int list"

text \<open>The server of a target and the shape its inbound asks for.\<close>
definition target_shape :: "server list \<Rightarrow> string \<Rightarrow> target \<Rightarrow> (server \<times> string \<times> string \<times> int) option" where
  "target_shape srvs uuid t =
    (case find_row srv_id (t_serverId t) srvs of
       None \<Rightarrow> None
     | Some s \<Rightarrow> (case find_inbound s (t_inboundId t) of
         None \<Rightarrow> Some (s, ''vless'', [], t_inboundId t)
       | Some ib \<Rightarrow> Some (s, ib_protocol ib, resolveFlow ib uuid, t_inboundId t)))"

definition groupTargets :: "target list \<Rightarrow> server list \<Rightarrow> string \<Rightarrow> panel_group list" where
  "groupTargets targets srvs uuid =
    map (\<lambda>((i, protocol, flow), items).
        \<lparr>pg_server = fst (hd items), pg_protocol = protocol, pg_flow = flow,
         pg_inboundIds = sort (map (\<lambda>(s, p, f, ib). ib) items)\<rparr>)
      (group_by (\<lambda>(s, p, f, ib). (srv_id s, p, f)) (List.map_filter (target_shape srvs uuid) targets))"

record link_group =
  lg_serverId :: uid
  lg_remoteEmail :: string
  lg_inboundIds :: "int list"
  lg_linkIds :: "uid list"

definition groupLinks :: "client_server list \<Rightarrow> link_group list" where
  "groupLinks links =
    map (\<lambda>((s, e), ls). \<lparr>lg_serverId = s, lg_remoteEmail = e, lg_inboundIds = map cs_inboundId ls, lg_linkIds = map cs_id ls\<rparr>)
      (group_by (\<lambda>l. (cs_serverId l, cs_remoteEmail l)) (sort_key cs_inboundId links))"

definition provisionInput :: "client \<Rightarrow> string \<Rightarrow> string \<Rightarrow> string \<Rightarrow> int option \<Rightarrow> int \<Rightarrow> provision_input" where
  "provisionInput c email flow subId override hwid =
    \<lparr>pi_uuid = cli_uuid c, pi_email = email, pi_totalBytes = cli_trafficLimit c,
     pi_expiryTimeMs = (case override of Some ms \<Rightarrow> ms | None \<Rightarrow> opt_default (cli_expiresAt c) 0),
     pi_limitIp = cli_ipLimit c, pi_limitHwid = hwid, pi_enable = (cli_status c \<noteq> C_DISABLED),
     pi_subId = subId, pi_flow = flow, pi_tgId = opt_default (cli_telegramId c) []\<rparr>"

section \<open>Provisioning: \<open>clients/panelSync.ts\<close>\<close>

text \<open>The regular expressions that read a panel's error message, on ASCII texts.\<close>

definition ci_contains :: "string \<Rightarrow> string \<Rightarrow> bool" where
  "ci_contains n s \<longleftrightarrow> contains n (to_lower s)"

definition COLLISION :: "string \<Rightarrow> bool" where
  "COLLISION m \<longleftrightarrow> ci_contains ''in use'' m \<or> ci_contains ''already'' m \<or> ci_contains ''exist'' m \<or> ci_contains ''duplicate'' m"

text \<open>\<open>/sub\s*id/i\<close>.\<close>
fun sub_id_at :: "string \<Rightarrow> bool" where
  "sub_id_at [] = False"
| "sub_id_at (c # cs) = ((take 3 (c # cs) = ''sub'' \<and> take 2 (dropWhile is_space (drop 3 (c # cs))) = ''id'') \<or> sub_id_at cs)"

definition names_sub_id :: "string \<Rightarrow> bool" where
  "names_sub_id m \<longleftrightarrow> sub_id_at (to_lower m)"

definition names_email :: "string \<Rightarrow> bool" where
  "names_email m \<longleftrightarrow> ci_contains ''email'' m \<or> ci_contains ''e-mail'' m"

definition missing :: "string \<Rightarrow> bool" where
  "missing m \<longleftrightarrow> ci_contains ''not found'' m"

definition PANEL_ATTEMPTS :: nat where
  "PANEL_ATTEMPTS = 4"

text \<open>The salt of the n-th attempt.\<close>
definition salt_of :: "nat \<Rightarrow> string" where
  "salt_of k = (if k = 0 then [] else ''r'' @ show_nat k)"

definition add_call :: "services \<Rightarrow> panel_group \<Rightarrow> client \<Rightarrow> string \<Rightarrow> nat \<Rightarrow> int option \<Rightarrow> int \<Rightarrow> panel_call" where
  "add_call x g c email k override hwid =
    (let s = pg_server g; subId = remoteSubId x (cli_subToken c) (srv_id s) (hd (pg_inboundIds g)) (salt_of k)
     in PanelAdd (srv_id s) (pg_inboundIds g) (pg_protocol g) (provisionInput c email (pg_flow g) subId override hwid))"

text \<open>The loop of \<open>addToPanel\<close> from attempt \<open>k\<close> on, with \<open>n\<close> attempts left.\<close>
fun add_attempts ::
  "nat \<Rightarrow> nat \<Rightarrow> panel_group \<Rightarrow> client \<Rightarrow> string \<Rightarrow> int option \<Rightarrow> int \<Rightarrow> string \<Rightarrow> err \<Rightarrow> (world, string) op" where
  "add_attempts 0 k g c baseEmail override hwid email lst = throw lst"
| "add_attempts (Suc n) k g c baseEmail override hwid email lst =
    bnd (gets svcs) (\<lambda>x.
      catch_op (andthen (panel_do (add_call x g c email k override hwid)) (ret email)) (\<lambda>e.
        let m = err_message e in
        if \<not> COLLISION m then throw e
        else if names_sub_id m then add_attempts n (Suc k) g c baseEmail override hwid email e
        else if names_email m then
          add_attempts n (Suc k) g c baseEmail override hwid (baseEmail @ ''-'' @ show_nat (k + 2)) e
        else throw e))"

definition addToPanel :: "panel_group \<Rightarrow> client \<Rightarrow> string \<Rightarrow> int option \<Rightarrow> int \<Rightarrow> (world, string) op" where
  "addToPanel g c baseEmail override hwid =
    add_attempts PANEL_ATTEMPTS 0 g c baseEmail override hwid baseEmail (app_error ''creating the config failed'')"

definition update_call ::
  "services \<Rightarrow> server \<Rightarrow> link_group \<Rightarrow> client \<Rightarrow> string \<Rightarrow> string \<Rightarrow> nat \<Rightarrow> int option \<Rightarrow> int \<Rightarrow> panel_call" where
  "update_call x s g c protocol flow k override hwid =
    (let subId = remoteSubId x (cli_subToken c) (srv_id s) (hd (lg_inboundIds g)) (salt_of k)
     in PanelUpdate (srv_id s) (lg_inboundIds g) protocol (provisionInput c (lg_remoteEmail g) flow subId override hwid))"

fun update_attempts ::
  "nat \<Rightarrow> nat \<Rightarrow> server \<Rightarrow> link_group \<Rightarrow> client \<Rightarrow> string \<Rightarrow> string \<Rightarrow> int option \<Rightarrow> int \<Rightarrow> err \<Rightarrow> (world, unit) op" where
  "update_attempts 0 k s g c protocol flow override hwid lst = throw lst"
| "update_attempts (Suc n) k s g c protocol flow override hwid lst =
    bnd (gets svcs) (\<lambda>x.
      catch_op (panel_do (update_call x s g c protocol flow k override hwid)) (\<lambda>e.
        if COLLISION (err_message e) \<and> names_sub_id (err_message e)
        then update_attempts n (Suc k) s g c protocol flow override hwid e
        else throw e))"

definition updateOnPanel ::
  "server \<Rightarrow> link_group \<Rightarrow> client \<Rightarrow> string \<Rightarrow> string \<Rightarrow> int option \<Rightarrow> int \<Rightarrow> (world, unit) op" where
  "updateOnPanel s g c protocol flow override hwid =
    update_attempts PANEL_ATTEMPTS 0 s g c protocol flow override hwid (app_error ''updating the config failed'')"

text \<open>A client with its links, as \<open>getClientForActor\<close> returns it.\<close>
type_synonym client_full = "client \<times> client_server list"

definition servers_in :: "uid list \<Rightarrow> world \<Rightarrow> server list" where
  "servers_in ids w = filter (\<lambda>s. srv_id s \<in> set ids) (servers w)"

text \<open>Protocol and flow of the first inbound of a group.\<close>
definition protocol_of :: "inbound option \<Rightarrow> string" where
  "protocol_of ib = (case ib of Some i \<Rightarrow> ib_protocol i | None \<Rightarrow> ''vless'')"

definition flow_of :: "inbound option \<Rightarrow> string \<Rightarrow> string" where
  "flow_of ib uuid = (case ib of Some i \<Rightarrow> resolveFlow i uuid | None \<Rightarrow> [])"

definition panel_error :: "server \<Rightarrow> err \<Rightarrow> string" where
  "panel_error s e = srv_name s @ '': '' @ err_message e"

definition push_group ::
  "server list \<Rightarrow> client \<Rightarrow> int option \<Rightarrow> int \<Rightarrow> link_group \<Rightarrow> string list \<Rightarrow> (world, string list) op" where
  "push_group srvs c override hwid g errors =
    (case find_row srv_id (lg_serverId g) srvs of
       None \<Rightarrow> ret errors
     | Some s \<Rightarrow>
        let ib = find_inbound s (hd (lg_inboundIds g)) in
        catch_op
          (andthen (updateOnPanel s g c (protocol_of ib) (flow_of ib (cli_uuid c)) override hwid)
          (andthen (upd_links (lg_linkIds g) (\<lambda>l. l\<lparr>cs_lastError := None\<rparr>)) (ret errors)))
          (\<lambda>e. andthen (upd_links (lg_linkIds g) (\<lambda>l. l\<lparr>cs_lastError := Some (take 300 (err_message e))\<rparr>))
                 (ret (errors @ [panel_error s e]))))"

definition pushClient :: "client_full \<Rightarrow> (world, string list) op" where
  "pushClient full =
    (case full of (c, links) \<Rightarrow>
      bnd (gets (\<lambda>w. (pendingExpiryMs (getPendingStart (cli_id c) w), getHwidLimit (cli_id c) w,
                      servers_in (map cs_serverId links) w))) (\<lambda>(override, hwid, srvs).
      fold_op (push_group srvs c override hwid) (groupLinks links) []))"

section \<open>Properties of grouping\<close>

text \<open>Sorting by one key after another.\<close>

lemma sorted_two_keys:
  "sorted (map f ys) \<Longrightarrow> (\<forall>k. sorted_wrt R (filter (\<lambda>y. f y = k) ys)) \<Longrightarrow>
   sorted_wrt (\<lambda>a b. f a < f b \<or> f a = f b \<and> R a b) ys"
proof (induction ys)
  case Nil
  then show ?case by simp
next
  case (Cons y ys)
  have R: "R y z" if "z \<in> set ys" "f z = f y" for z
    using spec [OF Cons.prems(2), of "f y"] that by auto
  have "sorted_wrt R (filter (\<lambda>y. f y = k) ys)" for k
    using spec [OF Cons.prems(2), of k] by (auto split: if_splits)
  with Cons have "sorted_wrt (\<lambda>a b. f a < f b \<or> f a = f b \<and> R a b) ys" by simp
  then show ?case using Cons.prems(1) R by (auto simp: order_le_less)
qed

lemma sort_two_keys:
  "sorted_wrt (\<lambda>a b. f a < f b \<or> f a = f b \<and> g a \<le> g b) (sort_key f (sort_key g xs))"
proof (rule sorted_two_keys)
  show "sorted (map f (sort_key f (sort_key g xs)))" by simp
  show "\<forall>k. sorted_wrt (\<lambda>a b. g a \<le> g b) (filter (\<lambda>y. f y = k) (sort_key f (sort_key g xs)))"
  proof
    fix k
    have "filter (\<lambda>y. f y = k) (sort_key f (sort_key g xs)) = filter (\<lambda>y. f y = k) (sort_key g xs)"
      by (rule sort_key_stable)
    also have "\<dots> = sort_key g (filter (\<lambda>y. f y = k) xs)" by (simp add: filter_sort)
    finally show "sorted_wrt (\<lambda>a b. g a \<le> g b) (filter (\<lambda>y. f y = k) (sort_key f (sort_key g xs)))"
      using sorted_sort_key [of g "filter (\<lambda>y. f y = k) xs"] by (simp add: sorted_map)
  qed
qed

lemma sort_two_keys_id:
  assumes "sorted_wrt (\<lambda>a b. f a < f b \<or> f a = f b \<and> g a \<le> g b) ys"
  shows "sort_key f (sort_key g ys) = ys"
proof (rule properties_for_sort_key)
  show "mset ys = mset (sort_key g ys)" by simp
  show "sorted (map f ys)" using assms by (auto simp: sorted_map elim!: sorted_wrt_mono_rel [rotated])
  fix k assume "k \<in> set ys"
  have "sorted_wrt (\<lambda>a b. f a < f b \<or> f a = f b \<and> g a \<le> g b) (filter (\<lambda>x. f k = f x) ys)"
    using assms by (rule sorted_wrt_filter)
  then have "sorted (map g (filter (\<lambda>x. f k = f x) ys))"
    unfolding sorted_map by (rule sorted_wrt_mono_rel [rotated]) auto
  then show "filter (\<lambda>x. f k = f x) ys = filter (\<lambda>x. f k = f x) (sort_key g ys)"
    by (simp add: filter_sort sort_key_id_if_sorted)
qed

lemma uniq_id: "distinct xs \<Longrightarrow> uniq xs = xs"
  by (induction xs) (auto simp: filter_id_conv)

lemma sorted_wrt_distinct: "sorted_wrt P xs \<Longrightarrow> distinct xs \<Longrightarrow> sorted_wrt (\<lambda>a b. P a b \<and> a \<noteq> b) xs"
  by (induction xs) auto

definition raw_of :: "target \<Rightarrow> raw_target" where
  "raw_of t = (Some (t_serverId t), Some (t_inboundId t))"

lemma valid_target_iff: "valid_target r = Some t \<longleftrightarrow> r = raw_of t"
  by (cases r rule: valid_target.cases; cases t) (auto simp: raw_of_def)

lemma valid_raw_of [simp]: "valid_target (raw_of t) = Some t"
  by (simp add: valid_target_iff)

lemma map_filter_Cons:
  "List.map_filter f (x # xs) = (case f x of None \<Rightarrow> List.map_filter f xs | Some y \<Rightarrow> y # List.map_filter f xs)"
  by (simp add: List.map_filter_def split: option.split)

lemma map_filter_Nil: "List.map_filter f [] = []"
  by (simp add: List.map_filter_def)

lemma set_map_filter: "set (List.map_filter f xs) = {y. \<exists>x \<in> set xs. f x = Some y}"
  by (induction xs) (auto simp: map_filter_Nil map_filter_Cons split: option.splits)

text \<open>
  \<open>normalizeTargets\<close> gives each requested inbound once, in a fixed order (functional). The result
  has no duplicates, contains exactly the well-formed targets, is ordered by server and then by
  inbound, and therefore normalising again changes nothing: the email suffixes stay stable.
\<close>
theorem normalizeTargets_spec:
  "distinct (normalizeTargets xs) \<and> set (normalizeTargets xs) = {t. raw_of t \<in> set xs} \<and>
   sorted_wrt (\<lambda>a b. t_serverId a < t_serverId b \<or> t_serverId a = t_serverId b \<and> t_inboundId a < t_inboundId b) (normalizeTargets xs) \<and>
   normalizeTargets (map raw_of (normalizeTargets xs)) = normalizeTargets xs"
proof (intro conjI)
  let ?ys = "normalizeTargets xs"
  have lex: "sorted_wrt (\<lambda>a b. t_serverId a < t_serverId b \<or> t_serverId a = t_serverId b \<and> t_inboundId a \<le> t_inboundId b) ?ys"
    unfolding normalizeTargets_def by (rule sort_two_keys)
  show d: "distinct ?ys" by (simp add: normalizeTargets_def)
  show "set ?ys = {t. raw_of t \<in> set xs}" by (auto simp: normalizeTargets_def set_map_filter valid_target_iff)
  show "sorted_wrt (\<lambda>a b. t_serverId a < t_serverId b \<or> t_serverId a = t_serverId b \<and> t_inboundId a < t_inboundId b) ?ys"
    by (rule sorted_wrt_mono_rel [OF _ sorted_wrt_distinct [OF lex d]]) (auto intro: target.equality)
  have "List.map_filter valid_target (map raw_of zs) = zs" for zs
    by (induction zs) (simp_all add: map_filter_Nil map_filter_Cons)
  then show "normalizeTargets (map raw_of ?ys) = ?ys"
    using uniq_id [OF d] sort_two_keys_id [OF lex] by (simp add: normalizeTargets_def [of "map raw_of ?ys"])
qed

text \<open>
  \<open>groupLinks\<close> splits the stored links into remote clients (functional). Every link is in exactly
  one group, there is one group for each email of a server, and the group carries all inbounds of
  that email in ascending order. An update that sends \<open>lg_inboundIds\<close> therefore never detaches an
  inbound of the client.
\<close>
theorem groupLinks_spec:
  "mset (concat (map lg_linkIds (groupLinks links))) = mset (map cs_id links) \<and>
   distinct (map (\<lambda>g. (lg_serverId g, lg_remoteEmail g)) (groupLinks links)) \<and>
   (\<lambda>g. (lg_serverId g, lg_remoteEmail g)) ` set (groupLinks links) = (\<lambda>l. (cs_serverId l, cs_remoteEmail l)) ` set links \<and>
   (\<forall>g \<in> set (groupLinks links). lg_linkIds g \<noteq> [] \<and>
      lg_inboundIds g = sort (map cs_inboundId (filter (\<lambda>l. cs_serverId l = lg_serverId g \<and> cs_remoteEmail l = lg_remoteEmail g) links)))"
proof (intro conjI)
  let ?key = "\<lambda>l. (cs_serverId l, cs_remoteEmail l)"
  let ?ls = "sort_key cs_inboundId links"
  let ?gs = "group_by ?key ?ls"
  have ids: "map lg_linkIds (groupLinks links) = map (map cs_id) (map snd ?gs)"
    by (simp add: groupLinks_def comp_def case_prod_beta)
  have "mset (concat (map lg_linkIds (groupLinks links))) = image_mset cs_id (mset (concat (map snd ?gs)))"
    unfolding ids map_concat [symmetric] mset_map by (rule refl)
  then show "mset (concat (map lg_linkIds (groupLinks links))) = mset (map cs_id links)"
    by (simp add: group_by_mset)
  have keys: "map (\<lambda>g. (lg_serverId g, lg_remoteEmail g)) (groupLinks links) = map fst ?gs"
    by (simp add: groupLinks_def comp_def case_prod_beta)
  then show "distinct (map (\<lambda>g. (lg_serverId g, lg_remoteEmail g)) (groupLinks links))"
    using group_by_keys(1) by simp
  have "set (map (\<lambda>g. (lg_serverId g, lg_remoteEmail g)) (groupLinks links)) = ?key ` set links"
    unfolding keys group_by_keys(2) by simp
  then show "(\<lambda>g. (lg_serverId g, lg_remoteEmail g)) ` set (groupLinks links) = ?key ` set links" by simp
  show "\<forall>g \<in> set (groupLinks links). lg_linkIds g \<noteq> [] \<and>
      lg_inboundIds g = sort (map cs_inboundId (filter (\<lambda>l. cs_serverId l = lg_serverId g \<and> cs_remoteEmail l = lg_remoteEmail g) links))"
  proof
    fix g assume "g \<in> set (groupLinks links)"
    then obtain s e ls where g: "((s, e), ls) \<in> set ?gs"
      "g = \<lparr>lg_serverId = s, lg_remoteEmail = e, lg_inboundIds = map cs_inboundId ls, lg_linkIds = map cs_id ls\<rparr>"
      by (auto simp: groupLinks_def)
    have ls: "ls = filter (\<lambda>l. ?key l = (s, e)) ?ls" "ls \<noteq> []" using group_by_member [OF g(1)] by simp_all
    have "map cs_inboundId ls = map cs_inboundId (sort_key cs_inboundId (filter (\<lambda>l. ?key l = (s, e)) links))"
      by (simp add: ls(1) filter_sort)
    also have "\<dots> = sort (map cs_inboundId (filter (\<lambda>l. ?key l = (s, e)) links))"
      by (rule properties_for_sort [symmetric]) simp_all
    finally show "lg_linkIds g \<noteq> [] \<and> lg_inboundIds g = sort (map cs_inboundId (filter
        (\<lambda>l. cs_serverId l = lg_serverId g \<and> cs_remoteEmail l = lg_remoteEmail g) links))"
      using ls(2) by (simp add: g(2))
  qed
qed

lemma groupLinks_spec_witness:
  "mset (concat (map lg_linkIds (groupLinks
     [\<lparr>cs_id = 9, cs_clientId = 7, cs_serverId = 5, cs_inboundId = 2, cs_remoteEmail = ''ali'', cs_up = 0, cs_down = 0, cs_enabled = True, cs_lastError = None\<rparr>,
      \<lparr>cs_id = 8, cs_clientId = 7, cs_serverId = 5, cs_inboundId = 1, cs_remoteEmail = ''ali'', cs_up = 0, cs_down = 0, cs_enabled = True, cs_lastError = None\<rparr>])))
    = {#8, 9#}"
  using groupLinks_spec [of "[\<lparr>cs_id = 9, cs_clientId = 7, cs_serverId = 5, cs_inboundId = 2, cs_remoteEmail = ''ali'', cs_up = 0, cs_down = 0, cs_enabled = True, cs_lastError = None\<rparr>,
      \<lparr>cs_id = 8, cs_clientId = 7, cs_serverId = 5, cs_inboundId = 1, cs_remoteEmail = ''ali'', cs_up = 0, cs_down = 0, cs_enabled = True, cs_lastError = None\<rparr>]"]
  by (simp add: add_mset_commute)

section \<open>Properties of provisioning\<close>

text \<open>How many of the calls the panels accept, after a history of calls.\<close>
fun accepted :: "services \<Rightarrow> panel_call list \<Rightarrow> panel_call list \<Rightarrow> nat" where
  "accepted x hist [] = 0"
| "accepted x hist (c # cs) = (if ext_panel x hist c = None then 1 else 0) + accepted x (hist @ [c]) cs"

lemma panel_do_eq:
  "panel_do c w = (case ext_panel (svcs w) (panel_log w) c of
     None \<Rightarrow> (Inr (), w\<lparr>panel_log := panel_log w @ [c]\<rparr>)
   | Some m \<Rightarrow> (Inl (PlainError m), w\<lparr>panel_log := panel_log w @ [c]\<rparr>))"
  by (simp add: panel_do_def Let_def)

lemma add_attempts_log:
  "add_attempts n k g c b ov hw email lst w = (x, w') \<Longrightarrow>
   \<exists>calls. w' = w\<lparr>panel_log := panel_log w @ calls\<rparr> \<and> length calls \<le> n \<and>
     (\<forall>call \<in> set calls. \<exists>e j. call = add_call (svcs w) g c e j ov hw) \<and>
     (case x of
        Inr e \<Rightarrow> accepted (svcs w) (panel_log w) calls = 1 \<and> calls \<noteq> [] \<and> (\<exists>j. last calls = add_call (svcs w) g c e j ov hw)
      | Inl e \<Rightarrow> accepted (svcs w) (panel_log w) calls = 0)"
proof (induction n arbitrary: k email lst w)
  case 0
  then show ?case by (auto intro: exI [of _ "[]"])
next
  case (Suc n)
  let ?call = "add_call (svcs w) g c email k ov hw"
  let ?w = "w\<lparr>panel_log := panel_log w @ [?call]\<rparr>"
  show ?case
  proof (cases "ext_panel (svcs w) (panel_log w) ?call")
    case None
    then have "x = Inr email" "w' = ?w"
      using Suc.prems by (auto simp: catch_op_def andthen_def bnd_def panel_do_eq)
    then show ?thesis using None by (intro exI [of _ "[?call]"]) auto
  next
    case (Some m)
    have more: ?thesis if rec: "add_attempts n (Suc k) g c b ov hw email' (PlainError m) ?w = (x, w')" for email'
    proof -
      have sv: "svcs ?w = svcs w" "panel_log ?w = panel_log w @ [?call]" by simp_all
      obtain calls where cs: "w' = ?w\<lparr>panel_log := panel_log ?w @ calls\<rparr>" "length calls \<le> n"
        "\<forall>call \<in> set calls. \<exists>e j. call = add_call (svcs w) g c e j ov hw"
        "case x of
          Inr e \<Rightarrow> accepted (svcs w) (panel_log w @ [?call]) calls = 1 \<and> calls \<noteq> [] \<and>
            (\<exists>j. last calls = add_call (svcs w) g c e j ov hw)
        | Inl e \<Rightarrow> accepted (svcs w) (panel_log w @ [?call]) calls = 0"
        using Suc.IH [OF rec] unfolding sv by blast
      have "w' = w\<lparr>panel_log := panel_log w @ ?call # calls\<rparr>" using cs(1) by simp
      then show ?thesis
        using Some cs(2-4) by (intro exI [of _ "?call # calls"]) (auto split: sum.splits)
    qed
    show ?thesis
    proof (cases "COLLISION m \<and> (names_sub_id m \<or> names_email m)")
      case True
      then show ?thesis
        using Suc.prems Some more by (auto simp: catch_op_def andthen_def bnd_def panel_do_eq Let_def split: if_splits)
    next
      case False
      then have "x = Inl (PlainError m)" "w' = ?w"
        using Suc.prems Some by (auto simp: catch_op_def andthen_def bnd_def panel_do_eq Let_def split: if_splits)
      then show ?thesis using Some by (intro exI [of _ "[?call]"]) auto
    qed
  qed
qed

text \<open>
  Provisioning a group makes one remote client or none, with at most four calls (termination and
  safety). Whatever the panel answers, \<open>addToPanel\<close> ends after at most four calls, all of them on the
  group's server, inbounds and protocol and with the client's identity. When it returns an email the
  panel accepted exactly one call, the last one, and it was made under that email; when it fails the
  panel accepted none, so a retry never leaves a second copy behind.
\<close>
theorem addToPanel_once:
  assumes "addToPanel g c baseEmail override hwid w = (x, w')"
  shows "\<exists>calls. w' = w\<lparr>panel_log := panel_log w @ calls\<rparr> \<and> length calls \<le> 4 \<and>
    (\<forall>call \<in> set calls. \<exists>inp. call = PanelAdd (srv_id (pg_server g)) (pg_inboundIds g) (pg_protocol g) inp \<and>
       pi_uuid inp = cli_uuid c \<and> pi_totalBytes inp = cli_trafficLimit c) \<and>
    (case x of
       Inr email \<Rightarrow> accepted (svcs w) (panel_log w) calls = 1 \<and>
         (\<exists>pre inp. calls = pre @ [PanelAdd (srv_id (pg_server g)) (pg_inboundIds g) (pg_protocol g) inp] \<and> pi_email inp = email)
     | Inl e \<Rightarrow> accepted (svcs w) (panel_log w) calls = 0)"
proof -
  obtain calls where cs: "w' = w\<lparr>panel_log := panel_log w @ calls\<rparr>" "length calls \<le> PANEL_ATTEMPTS"
    "\<forall>call \<in> set calls. \<exists>e j. call = add_call (svcs w) g c e j override hwid"
    "case x of
      Inr e \<Rightarrow> accepted (svcs w) (panel_log w) calls = 1 \<and> calls \<noteq> [] \<and>
        (\<exists>j. last calls = add_call (svcs w) g c e j override hwid)
    | Inl e \<Rightarrow> accepted (svcs w) (panel_log w) calls = 0"
    using add_attempts_log assms unfolding addToPanel_def by blast
  have shape: "\<exists>inp. add_call x g c e j override hwid = PanelAdd (srv_id (pg_server g)) (pg_inboundIds g) (pg_protocol g) inp \<and>
      pi_uuid inp = cli_uuid c \<and> pi_totalBytes inp = cli_trafficLimit c \<and> pi_email inp = e" for x e j
    by (simp add: add_call_def Let_def provisionInput_def)
  have all: "\<exists>inp. call = PanelAdd (srv_id (pg_server g)) (pg_inboundIds g) (pg_protocol g) inp \<and>
      pi_uuid inp = cli_uuid c \<and> pi_totalBytes inp = cli_trafficLimit c" if "call \<in> set calls" for call
    using cs(3) that shape by metis
  have result: "case x of
       Inr email \<Rightarrow> accepted (svcs w) (panel_log w) calls = 1 \<and>
         (\<exists>pre inp. calls = pre @ [PanelAdd (srv_id (pg_server g)) (pg_inboundIds g) (pg_protocol g) inp] \<and> pi_email inp = email)
     | Inl e \<Rightarrow> accepted (svcs w) (panel_log w) calls = 0"
  proof (cases x)
    case (Inl e)
    then show ?thesis using cs(4) by simp
  next
    case (Inr email)
    then obtain j where "calls \<noteq> []" "last calls = add_call (svcs w) g c email j override hwid"
      and a: "accepted (svcs w) (panel_log w) calls = 1" using cs(4) by auto
    then have cl: "calls = butlast calls @ [add_call (svcs w) g c email j override hwid]" by (metis append_butlast_last_id)
    obtain inp where inp: "add_call (svcs w) g c email j override hwid =
        PanelAdd (srv_id (pg_server g)) (pg_inboundIds g) (pg_protocol g) inp" "pi_email inp = email"
      using shape [of "svcs w" email j] by blast
    have "calls = butlast calls @ [PanelAdd (srv_id (pg_server g)) (pg_inboundIds g) (pg_protocol g) inp]"
      using cl unfolding inp(1) .
    with inp(2) a show ?thesis unfolding Inr sum.case by blast
  qed
  have len: "length calls \<le> 4" using cs(2) by (simp add: PANEL_ATTEMPTS_def)
  show ?thesis using cs(1) len all result by blast
qed

lemma addToPanel_once_witness:
  "\<exists>x w'. addToPanel \<lparr>pg_server = \<lparr>srv_id = 5, srv_name = ''s'', srv_isActive = True, srv_inbounds = []\<rparr>,
      pg_protocol = ''vless'', pg_flow = [], pg_inboundIds = [2]\<rparr> (demo_client 7) ''ali'' None 0 demo_world = (x, w') \<and>
    length (panel_log w') \<le> 4"
proof -
  let ?g = "\<lparr>pg_server = \<lparr>srv_id = 5, srv_name = ''s'', srv_isActive = True, srv_inbounds = []\<rparr>,
      pg_protocol = ''vless'', pg_flow = [], pg_inboundIds = [2]\<rparr>"
  obtain x w' where e: "addToPanel ?g (demo_client 7) ''ali'' None 0 demo_world = (x, w')"
    by (cases "addToPanel ?g (demo_client 7) ''ali'' None 0 demo_world")
  show ?thesis using addToPanel_once [OF e] e by auto
qed

end
