(* ===== verification/Ledger.thy ===== *)
theory Ledger
  imports Prelude
begin

text \<open>
  The interface of a wallet with a ledger. The program has two: the reseller wallet
  (\<open>Admin.credit\<close> with \<open>WalletTx\<close>) and the storefront customer wallet (\<open>Customer.credit\<close> with
  \<open>CustomerWalletTx\<close>). What a provider promises of each of its operations is that it either leaves
  every account alone or moves one account and appends the row that records the move.
\<close>

type_synonym entry = "int \<times> int"

definition total :: "entry list \<Rightarrow> int" where
  "total es = sum_list (map fst es)"

text \<open>Every row's \<open>balanceAfter\<close> is the balance the moves up to it lead to, from \<open>b\<close> on.\<close>
fun running :: "int \<Rightarrow> entry list \<Rightarrow> bool" where
  "running b [] = True"
| "running b ((a, c) # es) = (c = b + a \<and> running c es)"

lemma total_simps [simp]:
  "total [] = 0" "total ((a, c) # es) = a + total es" "total (es @ fs) = total es + total fs"
  by (simp_all add: total_def)

lemma running_append:
  "running b (es @ fs) \<longleftrightarrow> running b es \<and> running (b + total es) fs"
  by (induction es arbitrary: b) (auto simp: algebra_simps)

lemma running_last: "running b es \<Longrightarrow> es \<noteq> [] \<Longrightarrow> snd (last es) = b + total es"
  by (induction b es rule: running.induct) auto

locale ledger =
  fixes bal :: "'w \<Rightarrow> 'k \<Rightarrow> int option"
    and rows :: "'w \<Rightarrow> 'k \<Rightarrow> entry list"
    and step :: "'w \<Rightarrow> 'w \<Rightarrow> bool"
  assumes step_law: "step w w' \<Longrightarrow>
    (\<forall>k. bal w' k = bal w k \<and> rows w' k = rows w k) \<or>
    (\<exists>k b a. bal w k = Some b \<and> (\<forall>j. bal w' j = (if j = k then Some (b + a) else bal w j)) \<and>
       (\<forall>j. rows w' j = (if j = k then rows w k @ [(a, b + a)] else rows w j)))"
begin

lemma step_cases:
  assumes "step w w'"
  obtains (same) "\<And>k. bal w' k = bal w k" "\<And>k. rows w' k = rows w k"
  | (moved) k b a where "bal w k = Some b" "\<And>j. bal w' j = (if j = k then Some (b + a) else bal w j)"
      "\<And>j. rows w' j = (if j = k then rows w k @ [(a, b + a)] else rows w j)"
  using step_law [OF assms] by blast

lemma step_accounts: "step w w' \<Longrightarrow> (bal w' k = None) = (bal w k = None)"
  by (erule step_cases) auto

text \<open>The rows explain every balance: it is the account's start plus its moves, and every row says so.\<close>
definition explained :: "('k \<Rightarrow> int) \<Rightarrow> 'w \<Rightarrow> bool" where
  "explained start w \<longleftrightarrow> (\<forall>k b. bal w k = Some b \<longrightarrow>
     b = start k + total (rows w k) \<and> running (start k) (rows w k))"

lemma step_explained:
  assumes "step w w'" and "explained start w" shows "explained start w'"
  using assms(1)
proof (cases rule: step_cases)
  case same
  then show ?thesis using assms(2) by (simp add: explained_def)
next
  case (moved k b a)
  have "b = start k + total (rows w k)" "running (start k) (rows w k)"
    using assms(2) moved(1) by (auto simp: explained_def)
  note at = this
  show ?thesis
    unfolding explained_def
  proof (intro allI impI)
    fix j c assume "bal w' j = Some c"
    then show "c = start j + total (rows w' j) \<and> running (start j) (rows w' j)"
      using assms(2) at by (cases "j = k") (simp_all add: moved(2,3) explained_def running_append)
  qed
qed

lemma steps_explained: "step\<^sup>*\<^sup>* w w' \<Longrightarrow> explained start w \<Longrightarrow> explained start w'"
  by (induction rule: rtranclp_induct) (auto intro: step_explained)

lemma explained_last:
  assumes "explained start w" and "bal w k = Some b" and "rows w k \<noteq> []"
  shows "b = snd (last (rows w k))"
proof -
  have "b = start k + total (rows w k)" "running (start k) (rows w k)"
    using assms(1,2) by (auto simp: explained_def)
  then show ?thesis using running_last [OF _ assms(3)] by simp
qed

end

end
