(* ===== verification/Wallet.thy ===== *)
theory Wallet
  imports Events Bytes Ledger Demo
begin

text \<open>
  The reseller wallet: \<open>packages/core/src/services/wallet.ts\<close>. A wallet is the column
  \<open>Admin.credit\<close> together with the ledger table \<open>WalletTx\<close>; \<open>chargeWallet\<close> is the only function
  that moves money, and the quote functions say in advance what it will do.
\<close>

section \<open>Prices and quotes\<close>

text \<open>\<open>PricingActor\<close>: the actor, and his own prices when the caller already has the row.\<close>
record pricing_actor =
  pa_id :: uid
  pa_role :: admin_role
  pa_own :: "(int option \<times> int option) option"

definition actor_of :: "admin \<Rightarrow> pricing_actor" where
  "actor_of a = \<lparr>pa_id = adm_id a, pa_role = adm_role a, pa_own = Some (adm_pricePerGB a, adm_pricePerDay a)\<rparr>"

record unit_prices =
  up_perGB :: int
  up_perDay :: int
  up_enabled :: bool

definition unitPricesFor :: "world \<Rightarrow> pricing_actor \<Rightarrow> unit_prices" where
  "unitPricesFor w actor =
    (let p = pricing w;
         own = (case pa_own actor of
                  Some o' \<Rightarrow> Some o'
                | None \<Rightarrow> map_option (\<lambda>a. (adm_pricePerGB a, adm_pricePerDay a)) (find_admin (pa_id actor) w));
         perGB = (case own of Some (Some g, _) \<Rightarrow> g | _ \<Rightarrow> pricePerGB p);
         perDay = (case own of Some (_, Some d) \<Rightarrow> d | _ \<Rightarrow> pricePerDay p)
     in \<lparr>up_perGB = perGB, up_perDay = perDay, up_enabled = billingEnabled p\<rparr>)"

definition billable :: "rat \<Rightarrow> int" where
  "billable x = max 0 (js_ceil x)"

definition quoteClientCost :: "world \<Rightarrow> pricing_actor \<Rightarrow> rat \<Rightarrow> rat \<Rightarrow> int" where
  "quoteClientCost w actor trafficGB days =
    (if pa_role actor = OWNER then 0
     else let u = unitPricesFor w actor in
       if \<not> up_enabled u then 0
       else billable trafficGB * up_perGB u + billable days * up_perDay u)"

definition walletBalance :: "world \<Rightarrow> uid \<Rightarrow> int" where
  "walletBalance w adminId = (case find_admin adminId w of Some a \<Rightarrow> adm_credit a | None \<Rightarrow> 0)"

definition insufficient_credit :: err where
  "insufficient_credit = AppError ''insufficient credit'' 402 ''insufficient_credit''"

definition assertAffordable :: "uid \<Rightarrow> admin_role \<Rightarrow> int \<Rightarrow> (world, unit) op" where
  "assertAffordable i role cost =
    (if cost \<le> 0 \<or> role = OWNER then ret ()
     else bnd (gets (\<lambda>w. (pricing w, walletBalance w i))) (\<lambda>(p, bal).
       throw_if (bal - cost < - creditLimit p) insufficient_credit))"

section \<open>Limits\<close>

record reseller_limits =
  rl_trafficQuota :: "int option"
  rl_allocated :: int
  rl_remaining :: "int option"
  rl_clientLimit :: "int option"
  rl_clients :: int
  rl_clientsRemaining :: "int option"
  rl_expiresAt :: "time option"
  rl_expired :: bool

definition clients_of :: "world \<Rightarrow> uid \<Rightarrow> client list" where
  "clients_of w a = filter (\<lambda>c. cli_adminId c = a) (clients w)"

definition expired_at :: "time \<Rightarrow> time option \<Rightarrow> bool" where
  "expired_at tm e = (case e of None \<Rightarrow> False | Some t \<Rightarrow> t < tm)"

definition resellerLimits :: "world \<Rightarrow> uid \<Rightarrow> reseller_limits option" where
  "resellerLimits w adminId =
    (case find_admin adminId w of
       None \<Rightarrow> None
     | Some a \<Rightarrow>
        if adm_role a = OWNER then None
        else
          (let allocated = sum_list (map cli_trafficLimit (clients_of w adminId));
               n = int (length (clients_of w adminId))
           in Some \<lparr>rl_trafficQuota = adm_trafficQuota a, rl_allocated = allocated,
                rl_remaining = map_option (\<lambda>q. q - allocated) (adm_trafficQuota a),
                rl_clientLimit = adm_clientLimit a, rl_clients = n,
                rl_clientsRemaining = map_option (\<lambda>l. max 0 (l - n)) (adm_clientLimit a),
                rl_expiresAt = adm_expiresAt a, rl_expired = expired_at (clock w) (adm_expiresAt a)\<rparr>))"

record quote_input =
  qi_trafficGB :: rat
  qi_days :: rat
  qi_renew :: bool
  qi_quotaGB :: "rat option"
  qi_unlimited :: bool

text \<open>The reasons a request would be rejected; the code renders each as a Persian sentence.\<close>
datatype blocker = B_expired | B_credit int | B_clients | B_unlimited | B_quota

record wallet_quote =
  wq_billingEnabled :: bool
  wq_renew :: bool
  wq_chargeOnRenew :: bool
  wq_perGB :: int
  wq_perDay :: int
  wq_trafficGB :: int
  wq_days :: int
  wq_cost :: int
  wq_balance :: int
  wq_after :: int
  wq_creditLimit :: int
  wq_affordable :: bool
  wq_limits :: "reseller_limits option"
  wq_blockers :: "blocker list"

definition quote_blockers :: "reseller_limits option \<Rightarrow> bool \<Rightarrow> int \<Rightarrow> quote_input \<Rightarrow> blocker list" where
  "quote_blockers limits affordable shortage inp =
    (case limits of Some l \<Rightarrow> if rl_expired l then [B_expired] else [] | None \<Rightarrow> [])
    @ (if affordable then [] else [B_credit shortage])
    @ (case limits of Some l \<Rightarrow>
         if \<not> qi_renew inp \<and> rl_clientsRemaining l = Some 0 then [B_clients] else [] | None \<Rightarrow> [])
    @ (case limits of
         None \<Rightarrow> []
       | Some l \<Rightarrow>
          if rl_trafficQuota l = None then []
          else if qi_unlimited inp then [B_unlimited]
          else
            (let need = js_round (max 0 (opt_default (qi_quotaGB inp) (qi_trafficGB inp)) * of_int GB)
             in case rl_remaining l of Some r \<Rightarrow> if r < need then [B_quota] else [] | None \<Rightarrow> []))"

definition quoteForActor :: "world \<Rightarrow> pricing_actor \<Rightarrow> quote_input \<Rightarrow> wallet_quote" where
  "quoteForActor w actor inp =
    (let owner = (pa_role actor = OWNER); p = pricing w; u = unitPricesFor w actor;
         balance = (if owner then 0 else walletBalance w (pa_id actor));
         limits = (if owner then None else resellerLimits w (pa_id actor));
         gb = billable (qi_trafficGB inp); days = billable (qi_days inp);
         cost = (if owner \<or> \<not> up_enabled u then 0 else gb * up_perGB u + days * up_perDay u);
         after = balance - cost;
         affordable = (cost \<le> 0 \<or> - creditLimit p \<le> after)
     in \<lparr>wq_billingEnabled = up_enabled u, wq_renew = qi_renew inp, wq_chargeOnRenew = chargeOnRenew p,
         wq_perGB = up_perGB u, wq_perDay = up_perDay u, wq_trafficGB = gb, wq_days = days, wq_cost = cost,
         wq_balance = balance, wq_after = after, wq_creditLimit = creditLimit p, wq_affordable = affordable,
         wq_limits = limits,
         wq_blockers = (if owner then [] else quote_blockers limits affordable (- (after + creditLimit p)) inp)\<rparr>)"

section \<open>Moving money\<close>

definition lowBalanceAlert :: "uid \<Rightarrow> int \<Rightarrow> int \<Rightarrow> (world, unit) op" where
  "lowBalanceAlert adminId before after =
    bnd (gets (\<lambda>w. (lowBalance (pricing w), find_admin adminId w, clock w))) (\<lambda>(limit, found, tm).
      if limit \<le> 0 \<or> limit < after \<or> before \<le> limit then ret ()
      else case found of
        None \<Rightarrow> ret ()
      | Some a \<Rightarrow> if adm_role a = OWNER then ret ()
          else notify_void ''wallet.low_balance''
                 [JStr ''wallet.low'', JId adminId, JInt limit, JInt (iso_day tm)] (JId adminId) (to_admin (Some adminId)))"

record adjust_opts =
  ao_refType :: "ref_type option"
  ao_refId :: "uid option"
  ao_note :: "string option"
  ao_byAdminId :: "uid option"
  ao_allowNegative :: bool

definition set_credit :: "uid \<Rightarrow> int \<Rightarrow> world \<Rightarrow> world" where
  "set_credit i c w = w\<lparr>admins := upd_rows (\<lambda>a. adm_id a = i) (\<lambda>a. a\<lparr>adm_credit := c\<rparr>) (admins w)\<rparr>"

definition make_tx :: "uid \<Rightarrow> time \<Rightarrow> uid \<Rightarrow> wallet_tx_kind \<Rightarrow> int \<Rightarrow> int \<Rightarrow> adjust_opts \<Rightarrow> wallet_tx" where
  "make_tx i tm adminId kind amount next opts =
    \<lparr>wtx_id = i, wtx_adminId = adminId, wtx_kind = kind, wtx_amount = amount, wtx_balanceAfter = next,
     wtx_refType = ao_refType opts, wtx_refId = ao_refId opts, wtx_note = ao_note opts,
     wtx_byAdminId = ao_byAdminId opts, wtx_createdAt = tm\<rparr>"

definition reseller_not_found :: err where
  "reseller_not_found = AppError ''reseller not found'' 404 ''not_found''"

text \<open>The transaction of \<open>chargeWallet\<close>; \<open>limit\<close> is the credit limit when it applies.\<close>
definition move_credit :: "uid \<Rightarrow> int \<Rightarrow> wallet_tx_kind \<Rightarrow> adjust_opts \<Rightarrow> int option \<Rightarrow> (world, wallet_tx) op" where
  "move_credit i amount kind opts limit =
    transaction (bnd (gets (find_admin i)) (\<lambda>found. bnd (or_throw found reseller_not_found) (\<lambda>a.
      let next = adm_credit a + amount in
      andthen (throw_if (case limit of Some l \<Rightarrow> next < - l | None \<Rightarrow> False) insufficient_credit)
      (andthen (modify (set_credit i next))
      (bnd new_id (\<lambda>k. bnd now (\<lambda>tm.
        let row = make_tx k tm i kind amount next opts in
        andthen (modify (\<lambda>w. w\<lparr>wallet_txs := wallet_txs w @ [row]\<rparr>)) (ret row))))))))"

definition chargeWallet ::
  "uid \<Rightarrow> admin_role \<Rightarrow> int \<Rightarrow> wallet_tx_kind \<Rightarrow> adjust_opts \<Rightarrow> (world, wallet_tx option) op" where
  "chargeWallet i role amount kind opts =
    (if role = OWNER \<and> kind = W_PURCHASE then ret None
     else if amount = 0 then ret None
     else bnd (gets (\<lambda>w. if amount < 0 \<and> \<not> ao_allowNegative opts then Some (creditLimit (pricing w)) else None))
       (\<lambda>limit. bnd (move_credit i amount kind opts limit) (\<lambda>row.
        andthen (do_when (amount < 0) (lowBalanceAlert i (wtx_balanceAfter row - amount) (wtx_balanceAfter row)))
        (ret (Some row)))))"

definition forbidden :: err where
  "forbidden = AppError ''access denied'' 403 ''forbidden''"

definition adjustCredit :: "admin \<Rightarrow> uid \<Rightarrow> int \<Rightarrow> string option \<Rightarrow> (world, wallet_tx option) op" where
  "adjustCredit actor adminId amount note =
    andthen (throw_if (adm_role actor \<noteq> OWNER) forbidden)
    (andthen (throw_if (amount = 0) (AppError ''amount cannot be zero'' 400 ''bad_request''))
    (bnd (gets (find_admin adminId)) (\<lambda>found. bnd (or_throw found reseller_not_found) (\<lambda>t.
      bnd (chargeWallet (adm_id t) ADMIN amount W_ADJUST
            \<lparr>ao_refType = Some R_manual, ao_refId = None, ao_note = note, ao_byAdminId = Some (adm_id actor),
             ao_allowNegative = True\<rparr>) (\<lambda>tx.
      andthen (audit (Some (adm_id actor)) ''wallet.adjust'' (JId adminId)
                ((''amount'', JInt amount) # opt_field ''note'' JStr note) None)
      (ret tx))))))"

section \<open>Views\<close>

definition page :: "int \<Rightarrow> int option \<Rightarrow> int option \<Rightarrow> 'a list \<Rightarrow> 'a list" where
  "page dflt tk sk xs = take (nat (clamp 1 200 (opt_default tk dflt))) (drop (nat (max 0 (opt_default sk 0))) xs)"

definition listWalletTxs :: "world \<Rightarrow> uid \<Rightarrow> int option \<Rightarrow> int option \<Rightarrow> wallet_tx list \<times> nat" where
  "listWalletTxs w adminId tk sk =
    (let rows = sort_key (\<lambda>t. - wtx_createdAt t) (filter (\<lambda>t. wtx_adminId t = adminId) (wallet_txs w))
     in (page 50 tk sk rows, length rows))"

definition spent_since :: "world \<Rightarrow> time \<Rightarrow> uid \<Rightarrow> int" where
  "spent_since w since adminId =
    - sum_list (map wtx_amount (filter (\<lambda>t. wtx_adminId t = adminId \<and> wtx_kind t = W_PURCHASE \<and> since \<le> wtx_createdAt t)
        (wallet_txs w)))"

record wallet_overview =
  wo_balance :: int
  wo_unit :: unit_prices
  wo_recent :: "wallet_tx list"
  wo_pendingTopups :: nat
  wo_spent30d :: int
  wo_creditLimit :: int
  wo_lowBalance :: int
  wo_chargeOnRenew :: bool
  wo_limits :: "reseller_limits option"

definition walletOverview :: "world \<Rightarrow> admin \<Rightarrow> wallet_overview" where
  "walletOverview w actor =
    \<lparr>wo_balance = walletBalance w (adm_id actor),
     wo_unit = unitPricesFor w (actor_of actor),
     wo_recent = fst (listWalletTxs w (adm_id actor) (Some 20) None),
     wo_pendingTopups = length (filter (\<lambda>p. pay_adminId p = adm_id actor \<and> pay_kind p = K_TOPUP \<and>
        pay_status p \<in> {P_PENDING, P_REVIEW}) (payments w)),
     wo_spent30d = spent_since w (clock w - 30 * 86400000) (adm_id actor),
     wo_creditLimit = creditLimit (pricing w), wo_lowBalance = lowBalance (pricing w),
     wo_chargeOnRenew = chargeOnRenew (pricing w),
     wo_limits = (if adm_role actor = OWNER then None else resellerLimits w (adm_id actor))\<rparr>"

record reseller_balance =
  rb_id :: uid
  rb_username :: string
  rb_displayName :: "string option"
  rb_isActive :: bool
  rb_balance :: int
  rb_pricePerGB :: "int option"
  rb_pricePerDay :: "int option"
  rb_clients :: nat
  rb_spent30d :: int

text \<open>\<open>order\<close> is the database's collation on user names.\<close>
definition resellerBalances :: "(admin list \<Rightarrow> admin list) \<Rightarrow> world \<Rightarrow> reseller_balance list" where
  "resellerBalances by_username w =
    map (\<lambda>a. \<lparr>rb_id = adm_id a, rb_username = adm_username a, rb_displayName = adm_displayName a,
              rb_isActive = adm_isActive a, rb_balance = adm_credit a, rb_pricePerGB = adm_pricePerGB a,
              rb_pricePerDay = adm_pricePerDay a, rb_clients = length (clients_of w (adm_id a)),
              rb_spent30d = spent_since w (clock w - 30 * 24 * 3600 * 1000) (adm_id a)\<rparr>)
        (by_username (filter (\<lambda>a. adm_role a = ADMIN) (admins w)))"

text \<open>A field of the patch: \<open>None\<close> is undefined (keep), \<open>Some None\<close> is null (clear).\<close>
definition patch_price :: "rat option option \<Rightarrow> int option \<Rightarrow> int option" where
  "patch_price x old = (case x of None \<Rightarrow> old | Some None \<Rightarrow> None | Some (Some v) \<Rightarrow> Some (max 0 (js_round v)))"

definition setResellerPricing :: "admin \<Rightarrow> uid \<Rightarrow> rat option option \<Rightarrow> rat option option \<Rightarrow> (world, admin) op" where
  "setResellerPricing actor adminId gb day =
    andthen (throw_if (adm_role actor \<noteq> OWNER) forbidden)
    (bnd (gets (find_admin adminId)) (\<lambda>found. bnd (or_throw found record_not_found) (\<lambda>a.
      let f = (\<lambda>r. r\<lparr>adm_pricePerGB := patch_price gb (adm_pricePerGB r),
                     adm_pricePerDay := patch_price day (adm_pricePerDay r)\<rparr>) in
      andthen (modify (\<lambda>w. w\<lparr>admins := upd_rows (\<lambda>r. adm_id r = adminId) f (admins w)\<rparr>))
      (andthen (audit (Some (adm_id actor)) ''wallet.pricing'' (JId adminId)
         (opt_field ''pricePerGB'' (opt_json JRat) gb @ opt_field ''pricePerDay'' (opt_json JRat) day) None)
      (ret (f a))))))"

section \<open>How \<open>chargeWallet\<close> behaves\<close>

lemma find_admin_set_credit:
  "find_admin k (set_credit i c w) =
    map_option (\<lambda>a. if adm_id a = i then a\<lparr>adm_credit := c\<rparr> else a) (find_admin k w)"
  by (simp add: find_admin_def set_credit_def find_row_upd)

lemma find_admin_id: "find_admin i w = Some a \<Longrightarrow> adm_id a = i"
  unfolding find_admin_def by (rule find_row_key)

lemma set_credit_frame [simp]:
  "clock (set_credit i c w) = clock w" "wallet_txs (set_credit i c w) = wallet_txs w"
  "next_id (set_credit i c w) = next_id w" "pricing (set_credit i c w) = pricing w"
  by (simp_all add: set_credit_def)

definition moved :: "uid \<Rightarrow> int \<Rightarrow> wallet_tx \<Rightarrow> world \<Rightarrow> world" where
  "moved i next row w = (set_credit i next w)\<lparr>next_id := Suc (next_id w), wallet_txs := wallet_txs w @ [row]\<rparr>"

lemma move_credit_eq:
  "move_credit i amount kind opts limit w =
    (case find_admin i w of
       None \<Rightarrow> (Inl reseller_not_found, w)
     | Some a \<Rightarrow>
        if (case limit of Some l \<Rightarrow> adm_credit a + amount < - l | None \<Rightarrow> False) then (Inl insufficient_credit, w)
        else let row = make_tx (next_id w) (clock w) i kind amount (adm_credit a + amount) opts
             in (Inr row, moved i (adm_credit a + amount) row w))"
  by (auto simp: move_credit_def transaction_def bnd_def andthen_def throw_if_def or_throw_def new_id_def now_def
      moved_def Let_def split: option.splits)

lemma quiet_lowBalanceAlert [quiet_intros]: "quiet (lowBalanceAlert i b a)"
  unfolding lowBalanceAlert_def by (auto intro!: quiet_intros split: option.split)

lemma chargeWallet_skip:
  "role = OWNER \<and> kind = W_PURCHASE \<or> amount = 0 \<Longrightarrow> chargeWallet i role amount kind opts w = (Inr None, w)"
  by (auto simp: chargeWallet_def)

text \<open>The limit that applies to a charge.\<close>
definition limit_for :: "int \<Rightarrow> adjust_opts \<Rightarrow> world \<Rightarrow> int option" where
  "limit_for amount opts w = (if amount < 0 \<and> \<not> ao_allowNegative opts then Some (creditLimit (pricing w)) else None)"

lemma chargeWallet_run:
  assumes "\<not> (role = OWNER \<and> kind = W_PURCHASE)" and "amount \<noteq> 0"
  shows "chargeWallet i role amount kind opts w =
    (case move_credit i amount kind opts (limit_for amount opts w) w of
       (Inl e, w1) \<Rightarrow> (Inl e, w1)
     | (Inr row, w1) \<Rightarrow>
        (Inr (Some row), snd (do_when (amount < 0) (lowBalanceAlert i (wtx_balanceAfter row - amount) (wtx_balanceAfter row)) w1)))"
  using assms
  by (auto simp: chargeWallet_def limit_for_def bnd_def andthen_quiet quiet_do_when quiet_lowBalanceAlert
      split: prod.splits sum.splits)

lemma chargeWallet_cases:
  obtains (skip) "chargeWallet i role amount kind opts w = (Inr None, w)"
  | (fail) e where "chargeWallet i role amount kind opts w = (Inl e, w)"
  | (charged) a row w' where "find_admin i w = Some a"
      "row = make_tx (next_id w) (clock w) i kind amount (adm_credit a + amount) opts"
      "chargeWallet i role amount kind opts w = (Inr (Some row), w')"
      "events_only (moved i (adm_credit a + amount) row w) w'"
      "\<And>l. limit_for amount opts w = Some l \<Longrightarrow> - l \<le> adm_credit a + amount"
proof (cases "role = OWNER \<and> kind = W_PURCHASE \<or> amount = 0")
  case True
  then show ?thesis using chargeWallet_skip skip by blast
next
  case False
  then have run: "\<not> (role = OWNER \<and> kind = W_PURCHASE)" "amount \<noteq> 0" by auto
  let ?lim = "limit_for amount opts w"
  show ?thesis
  proof (cases "find_admin i w")
    case None
    then show ?thesis using fail by (simp add: chargeWallet_run [OF run] move_credit_eq)
  next
    case (Some a)
    let ?row = "make_tx (next_id w) (clock w) i kind amount (adm_credit a + amount) opts"
    show ?thesis
    proof (cases "case ?lim of Some l \<Rightarrow> adm_credit a + amount < - l | None \<Rightarrow> False")
      case True
      then show ?thesis using fail Some by (simp add: chargeWallet_run [OF run] move_credit_eq)
    next
      case False
      show ?thesis
      proof (rule charged [OF Some refl])
        show "chargeWallet i role amount kind opts w = (Inr (Some ?row),
            snd (do_when (amount < 0) (lowBalanceAlert i (wtx_balanceAfter ?row - amount) (wtx_balanceAfter ?row))
              (moved i (adm_credit a + amount) ?row w)))"
          using False Some by (simp add: chargeWallet_run [OF run] move_credit_eq Let_def)
        show "events_only (moved i (adm_credit a + amount) ?row w) (snd (do_when (amount < 0)
            (lowBalanceAlert i (wtx_balanceAfter ?row - amount) (wtx_balanceAfter ?row)) (moved i (adm_credit a + amount) ?row w)))"
          by (intro quiet_snd quiet_intros)
        show "- l \<le> adm_credit a + amount" if "?lim = Some l" for l
          using False that by simp
      qed
    qed
  qed
qed

text \<open>Crediting an existing account always goes through.\<close>

lemma chargeWallet_credit:
  assumes "find_admin i w = Some a" and "0 < amount" and "role = ADMIN \<or> kind \<noteq> W_PURCHASE"
  obtains row w' where "chargeWallet i role amount kind opts w = (Inr (Some row), w')"
    "row = make_tx (next_id w) (clock w) i kind amount (adm_credit a + amount) opts"
    "events_only (moved i (adm_credit a + amount) row w) w'"
proof -
  have run: "\<not> (role = OWNER \<and> kind = W_PURCHASE)" "amount \<noteq> 0" using assms(2,3) by auto
  have lim: "limit_for amount opts w = None" using assms(2) by (simp add: limit_for_def)
  let ?row = "make_tx (next_id w) (clock w) i kind amount (adm_credit a + amount) opts"
  have "chargeWallet i role amount kind opts w = (Inr (Some ?row), moved i (adm_credit a + amount) ?row w)"
    using assms(2) by (simp add: chargeWallet_run [OF run] move_credit_eq lim assms(1) Let_def)
  then show thesis using that events_only_refl by blast
qed

section \<open>The reseller wallet is a ledger\<close>

definition admin_balance :: "world \<Rightarrow> uid \<Rightarrow> int option" where
  "admin_balance w i = map_option adm_credit (find_admin i w)"

definition admin_rows :: "world \<Rightarrow> uid \<Rightarrow> entry list" where
  "admin_rows w i = map (\<lambda>t. (wtx_amount t, wtx_balanceAfter t)) (filter (\<lambda>t. wtx_adminId t = i) (wallet_txs w))"

definition charge_step :: "world \<Rightarrow> world \<Rightarrow> bool" where
  "charge_step w w' \<longleftrightarrow> (\<exists>i role amount kind opts. w' = snd (chargeWallet i role amount kind opts w))"

lemma admin_ledger_frame:
  "admins w' = admins w \<Longrightarrow> wallet_txs w' = wallet_txs w \<Longrightarrow>
   admin_balance w' = admin_balance w \<and> admin_rows w' = admin_rows w"
  by (simp add: admin_balance_def admin_rows_def find_admin_def fun_eq_iff)

lemma admin_balance_moved:
  "find_admin i w = Some a \<Longrightarrow>
   admin_balance (moved i c row w) j = (if j = i then Some c else admin_balance w j)"
  using find_row_key [of adm_id j "admins w"]
  by (cases "find_admin j w")
     (auto simp: moved_def admin_balance_def find_admin_def set_credit_def find_row_upd dest: find_row_key)

lemma admin_rows_moved:
  "admin_rows (moved i c row w) j =
   (if j = wtx_adminId row then admin_rows w j @ [(wtx_amount row, wtx_balanceAfter row)] else admin_rows w j)"
  by (simp add: moved_def admin_rows_def set_credit_def)

lemma charge_step_law:
  assumes "charge_step w w'"
  shows "(\<forall>k. admin_balance w' k = admin_balance w k \<and> admin_rows w' k = admin_rows w k) \<or>
    (\<exists>k b a. admin_balance w k = Some b \<and>
       (\<forall>j. admin_balance w' j = (if j = k then Some (b + a) else admin_balance w j)) \<and>
       (\<forall>j. admin_rows w' j = (if j = k then admin_rows w k @ [(a, b + a)] else admin_rows w j)))"
proof -
  obtain i role amount kind opts where w': "w' = snd (chargeWallet i role amount kind opts w)"
    using assms unfolding charge_step_def by blast
  show ?thesis
  proof (cases rule: chargeWallet_cases [of i role amount kind opts w])
    case skip
    then show ?thesis by (simp add: w')
  next
    case (fail e)
    then show ?thesis by (simp add: w')
  next
    case (charged a row w'')
    let ?m = "moved i (adm_credit a + amount) row w"
    have w'': "w' = w''" by (simp add: w' charged(3))
    have same: "admin_balance w' = admin_balance ?m" "admin_rows w' = admin_rows ?m"
      using admin_ledger_frame [OF eo_admins [OF charged(4)] eo_wallet_txs [OF charged(4)]]
      by (simp_all add: w'')
    have b: "admin_balance w i = Some (adm_credit a)" by (simp add: admin_balance_def charged(1))
    have "(\<forall>j. admin_balance w' j = (if j = i then Some (adm_credit a + amount) else admin_balance w j)) \<and>
       (\<forall>j. admin_rows w' j = (if j = i then admin_rows w i @ [(amount, adm_credit a + amount)] else admin_rows w j))"
      by (auto simp: same admin_balance_moved [OF charged(1)] admin_rows_moved charged(2) make_tx_def)
    with b show ?thesis by blast
  qed
qed

interpretation aw: ledger admin_balance admin_rows charge_step
  by unfold_locales (rule charge_step_law)

text \<open>
  The ledger explains every balance: from an account's base on, each row's \<open>balanceAfter\<close> is the
  balance after it, and the last one is the balance.
\<close>
definition wallet_ok :: "(uid \<Rightarrow> int) \<Rightarrow> world \<Rightarrow> bool" where
  "wallet_ok base w \<longleftrightarrow> (\<forall>i b. admin_balance w i = Some b \<longrightarrow>
     b = base i + total (admin_rows w i) \<and> running (base i) (admin_rows w i))"

lemma wallet_ok_explained: "wallet_ok base w = aw.explained base w"
  by (simp add: wallet_ok_def aw.explained_def)

lemma wallet_ok_charge_step:
  assumes "wallet_ok base w" and "charge_step w w'" shows "wallet_ok base w'"
  using assms aw.step_explained by (simp add: wallet_ok_explained)

lemma wallet_ok_frame:
  "admins w' = admins w \<Longrightarrow> wallet_txs w' = wallet_txs w \<Longrightarrow> wallet_ok base w' = wallet_ok base w"
  using admin_ledger_frame [of w' w] by (simp add: wallet_ok_def)

lemma wallet_ok_events: "wallet_ok base w \<Longrightarrow> events_only w w' \<Longrightarrow> wallet_ok base w'"
  by (simp add: wallet_ok_frame [OF eo_admins eo_wallet_txs])

lemma wallet_ok_stable [preserves_intros]: "events_stable (wallet_ok base)"
  unfolding events_stable_def by (blast intro: wallet_ok_events)

lemma wallet_ok_chargeWallet [preserves_intros]:
  "preserves (wallet_ok base) (chargeWallet i role amount kind opts)"
proof (rule preservesI)
  fix w assume "wallet_ok base w"
  moreover have "charge_step w (snd (chargeWallet i role amount kind opts w))"
    unfolding charge_step_def by blast
  ultimately show "wallet_ok base (snd (chargeWallet i role amount kind opts w))"
    by (rule wallet_ok_charge_step)
qed

lemma wallet_ok_adjustCredit: "preserves (wallet_ok base) (adjustCredit actor i amount note)"
  unfolding adjustCredit_def by (intro preserves_intros)

section \<open>Properties\<close>

lemma chargeWallet_debit:
  assumes "find_admin i w = Some a" and "amount < 0" and "role = ADMIN \<or> kind \<noteq> W_PURCHASE"
  shows "(if \<not> ao_allowNegative opts \<and> adm_credit a + amount < - creditLimit (pricing w)
     then chargeWallet i role amount kind opts w = (Inl insufficient_credit, w)
     else \<exists>row w'. chargeWallet i role amount kind opts w = (Inr (Some row), w') \<and>
        admin_balance w' i = Some (adm_credit a + amount) \<and>
        admin_rows w' i = admin_rows w i @ [(amount, adm_credit a + amount)] \<and>
        (\<forall>j. j \<noteq> i \<longrightarrow> admin_balance w' j = admin_balance w j \<and> admin_rows w' j = admin_rows w j) \<and>
        events_only (moved i (adm_credit a + amount) row w) w')"
proof -
  have run: "\<not> (role = OWNER \<and> kind = W_PURCHASE)" "amount \<noteq> 0" using assms(2,3) by auto
  show ?thesis
  proof (cases "\<not> ao_allowNegative opts \<and> adm_credit a + amount < - creditLimit (pricing w)")
    case True
    then show ?thesis
      using assms(1,2) by (simp add: chargeWallet_run [OF run] move_credit_eq limit_for_def)
  next
    case False
    show ?thesis
    proof (cases rule: chargeWallet_cases [of i role amount kind opts w])
      case skip
      then show ?thesis using assms(1,2) False
        by (simp add: chargeWallet_run [OF run] move_credit_eq limit_for_def Let_def split: if_splits)
    next
      case (fail e)
      then show ?thesis using assms(1,2) False
        by (auto simp: chargeWallet_run [OF run] move_credit_eq limit_for_def Let_def split: if_splits)
    next
      case (charged a' row w')
      have a': "a' = a" using charged(1) assms(1) by simp
      have fr: "admin_balance w' = admin_balance (moved i (adm_credit a + amount) row w)"
        "admin_rows w' = admin_rows (moved i (adm_credit a + amount) row w)"
        using admin_ledger_frame [OF eo_admins [OF charged(4)] eo_wallet_txs [OF charged(4)]] a' by simp_all
      have "wtx_adminId row = i" "wtx_amount row = amount" "wtx_balanceAfter row = adm_credit a + amount"
        by (simp_all add: charged(2) make_tx_def a')
      then show ?thesis
        using False charged(3,4) a' by (auto simp: fr admin_balance_moved [OF assms(1)] admin_rows_moved)
    qed
  qed
qed

text \<open>
  C13: What a debit does (functional, every branch). A debit of an existing reseller is refused with
  \<open>insufficient_credit\<close>, leaving the whole state as it was, exactly when it would take the balance
  under minus the credit limit (and the caller did not allow that). Otherwise the balance drops by
  the amount, one ledger row with that amount and the new balance is appended, no other account
  changes, and a low-balance message is the only other effect.
\<close>
theorem debit_spec:
  assumes "find_admin i w = Some a" and "amount < 0" and "role = ADMIN \<or> kind \<noteq> W_PURCHASE"
  shows "(if \<not> ao_allowNegative opts \<and> adm_credit a + amount < - creditLimit (pricing w)
     then chargeWallet i role amount kind opts w = (Inl insufficient_credit, w)
     else \<exists>row w'. chargeWallet i role amount kind opts w = (Inr (Some row), w') \<and>
        admin_balance w' i = Some (adm_credit a + amount) \<and>
        admin_rows w' i = admin_rows w i @ [(amount, adm_credit a + amount)] \<and>
        (\<forall>j. j \<noteq> i \<longrightarrow> admin_balance w' j = admin_balance w j \<and> admin_rows w' j = admin_rows w j) \<and>
        events_only (moved i (adm_credit a + amount) row w) w')"
  by (rule chargeWallet_debit [OF assms])

definition plain_opts :: adjust_opts where
  "plain_opts = \<lparr>ao_refType = None, ao_refId = None, ao_note = None, ao_byAdminId = None, ao_allowNegative = False\<rparr>"

lemma plain_opts_sel [simp]: "ao_allowNegative plain_opts = False"
  by (simp add: plain_opts_def)

lemma debit_spec_witness:
  "(\<exists>row w'. chargeWallet 3 ADMIN (- 600) W_PURCHASE plain_opts demo_world = (Inr (Some row), w') \<and>
      admin_balance w' 3 = Some (- 100)) \<and>
   chargeWallet 3 ADMIN (- 601) W_PURCHASE plain_opts demo_world = (Inl insufficient_credit, demo_world)"
  using debit_spec [of 3 demo_world "demo_admin 3 ADMIN 500" "- 600" ADMIN W_PURCHASE plain_opts]
    debit_spec [of 3 demo_world "demo_admin 3 ADMIN 500" "- 601" ADMIN W_PURCHASE plain_opts]
  by auto

text \<open>
  C4: The reseller ledger explains every balance (invariant). Whatever sequence of wallet moves runs,
  every balance stays its base plus the sum of its ledger rows, and each row's \<open>balanceAfter\<close> is the
  running balance.
\<close>
theorem charges_keep_ledger:
  assumes "wallet_ok base w" and "charge_step\<^sup>*\<^sup>* w w'"
  shows "wallet_ok base w' \<and>
    (\<forall>i. admin_rows w' i \<noteq> [] \<longrightarrow> admin_balance w' i \<noteq> None \<longrightarrow> admin_balance w' i = Some (snd (last (admin_rows w' i))))"
proof -
  have ok: "aw.explained base w'" using assms aw.steps_explained by (simp add: wallet_ok_explained)
  then have "admin_balance w' i = Some (snd (last (admin_rows w' i)))"
    if "admin_rows w' i \<noteq> []" and "admin_balance w' i = Some b" for i b
    using aw.explained_last [OF ok that(2,1)] that(2) by simp
  with ok show ?thesis by (auto simp: wallet_ok_explained)
qed

lemma charges_keep_ledger_witness:
  "wallet_ok (\<lambda>i. if i = 3 then 500 else 0) (snd (chargeWallet 3 ADMIN (- 600) W_PURCHASE plain_opts demo_world))"
proof -
  have "wallet_ok (\<lambda>i. if i = 3 then 500 else 0) demo_world"
    by (auto simp: wallet_ok_def admin_balance_def admin_rows_def find_admin_def split: if_splits)
  moreover have "charge_step\<^sup>*\<^sup>* demo_world (snd (chargeWallet 3 ADMIN (- 600) W_PURCHASE plain_opts demo_world))"
    by (rule r_into_rtranclp) (unfold charge_step_def, blast)
  ultimately show ?thesis using charges_keep_ledger by blast
qed

text \<open>
  C14: The quote is what the purchase does (equivalence of \<open>quoteForActor\<close> with the charging path).
  For a reseller the quoted cost is \<open>quoteClientCost\<close>; it is marked affordable exactly when
  \<open>assertAffordable\<close> accepts it; and when it is not zero, exactly then does charging it succeed, with
  the quoted balance as the result.
\<close>
theorem quote_matches_charge:
  assumes "pa_role actor = ADMIN" and "find_admin (pa_id actor) w = Some a"
    and "q = quoteForActor w actor inp" and "\<not> ao_allowNegative opts"
  shows "wq_cost q = quoteClientCost w actor (qi_trafficGB inp) (qi_days inp) \<and>
    (wq_affordable q \<longleftrightarrow> fst (assertAffordable (pa_id actor) ADMIN (wq_cost q) w) = Inr ()) \<and>
    (0 < wq_cost q \<longrightarrow> (wq_affordable q \<longleftrightarrow>
      (\<exists>row w'. chargeWallet (pa_id actor) ADMIN (- wq_cost q) W_PURCHASE opts w = (Inr (Some row), w') \<and>
         admin_balance w' (pa_id actor) = Some (wq_after q))))"
proof (intro conjI impI)
  show "wq_cost q = quoteClientCost w actor (qi_trafficGB inp) (qi_days inp)"
    by (simp add: assms(1,3) quoteForActor_def quoteClientCost_def Let_def)
  have bal: "wq_balance q = adm_credit a" and after: "wq_after q = adm_credit a - wq_cost q"
    by (simp_all add: assms(1,2,3) quoteForActor_def Let_def walletBalance_def)
  have aff: "wq_affordable q \<longleftrightarrow> wq_cost q \<le> 0 \<or> - creditLimit (pricing w) \<le> wq_after q"
    by (simp add: assms(3) quoteForActor_def Let_def)
  show "wq_affordable q \<longleftrightarrow> fst (assertAffordable (pa_id actor) ADMIN (wq_cost q) w) = Inr ()"
    by (auto simp: aff after assertAffordable_def walletBalance_def assms(2) throw_if_def bnd_def)
  assume pos: "0 < wq_cost q"
  show "wq_affordable q \<longleftrightarrow>
      (\<exists>row w'. chargeWallet (pa_id actor) ADMIN (- wq_cost q) W_PURCHASE opts w = (Inr (Some row), w') \<and>
         admin_balance w' (pa_id actor) = Some (wq_after q))"
  proof -
    have run: "\<not> (ADMIN = OWNER \<and> W_PURCHASE = W_PURCHASE)" "- wq_cost q \<noteq> 0" using pos by auto
    have lim: "limit_for (- wq_cost q) opts w = Some (creditLimit (pricing w))"
      using pos assms(4) by (simp add: limit_for_def)
    show ?thesis
    proof (cases rule: chargeWallet_cases [of "pa_id actor" ADMIN "- wq_cost q" W_PURCHASE opts w])
      case skip
      then show ?thesis
        by (simp add: chargeWallet_run [OF run] move_credit_eq assms(2) lim Let_def split: if_splits)
    next
      case (fail e)
      then have "adm_credit a - wq_cost q < - creditLimit (pricing w)"
        by (simp add: chargeWallet_run [OF run] move_credit_eq assms(2) lim Let_def split: if_splits)
      with fail pos show ?thesis by (simp add: aff after)
    next
      case (charged a' row w')
      have "admin_balance w' (pa_id actor) = Some (wq_after q)"
        using admin_ledger_frame [OF eo_admins [OF charged(4)] eo_wallet_txs [OF charged(4)]] charged(1) assms(2)
        by (simp add: admin_balance_moved [OF assms(2)] after)
      moreover have "- creditLimit (pricing w) \<le> wq_after q"
        using charged(5) [OF lim] charged(1) assms(2) by (simp add: after)
      ultimately show ?thesis using charged(3) by (simp add: aff)
    qed
  qed
qed

lemma quote_matches_charge_witness:
  "wq_affordable (quoteForActor demo_world (actor_of (demo_admin 3 ADMIN 500))
      \<lparr>qi_trafficGB = 50, qi_days = 30, qi_renew = False, qi_quotaGB = None, qi_unlimited = False\<rparr>) \<and>
   (\<exists>row w'. chargeWallet 3 ADMIN (- 530) W_PURCHASE plain_opts demo_world = (Inr (Some row), w') \<and>
     admin_balance w' 3 = Some (- 30))"
proof -
  let ?i = "\<lparr>qi_trafficGB = 50, qi_days = 30, qi_renew = False, qi_quotaGB = None, qi_unlimited = False\<rparr>"
  let ?a = "actor_of (demo_admin 3 ADMIN 500)"
  let ?q = "quoteForActor demo_world ?a ?i"
  have a: "pa_id ?a = 3" "pa_role ?a = ADMIN" by (simp_all add: actor_of_def)
  have c: "wq_cost ?q = 530" "wq_after ?q = - 30" "wq_affordable ?q"
    by (simp_all add: quoteForActor_def actor_of_def unitPricesFor_def billable_def js_ceil_def walletBalance_def Let_def)
  show ?thesis
    using quote_matches_charge [of ?a demo_world "demo_admin 3 ADMIN 500" ?q ?i plain_opts]
    unfolding a c using c(3) by simp
qed

end
