(* ===== verification/Clients.thy ===== *)
theory Clients
  imports ClientPanels Wallet
begin

text \<open>
  The life of a client: \<open>clients/access.ts\<close> (who may touch it, and the guards of a reseller's
  account), \<open>clients/crud.ts\<close> (create, update, reset, delete, list) and \<open>clients/targets.ts\<close>
  (attaching and detaching inbounds).
\<close>

section \<open>Access: \<open>clients/access.ts\<close>\<close>

definition client_not_found :: err where
  "client_not_found = not_found_error ''client not found''"

definition getClientForActor :: "admin \<Rightarrow> uid \<Rightarrow> (world, client_full) op" where
  "getClientForActor actor i =
    bnd (gets (\<lambda>w. (find_client i w, links_of w i))) (\<lambda>(found, links).
      case found of
        None \<Rightarrow> throw client_not_found
      | Some c \<Rightarrow> if in_scope actor c then ret (c, links) else throw client_not_found)"

definition subscriptionUrl :: "world \<Rightarrow> client \<Rightarrow> string" where
  "subscriptionUrl w c =
    rev (dropWhile (\<lambda>ch. ch = CHR ''/'') (rev (env_public_url w))) @ ''/sub/'' @ cli_subToken c"

definition other_clients :: "world \<Rightarrow> uid \<Rightarrow> uid option \<Rightarrow> client list" where
  "other_clients w a exclude = filter (\<lambda>c. cli_adminId c = a \<and> Some (cli_id c) \<noteq> exclude) (clients w)"

definition allocated :: "world \<Rightarrow> uid \<Rightarrow> uid option \<Rightarrow> int" where
  "allocated w a exclude = sum_list (map cli_trafficLimit (other_clients w a exclude))"

text \<open>The guards of a reseller; each is an early return of the code.\<close>
definition assertQuota :: "admin \<Rightarrow> int \<Rightarrow> target list \<Rightarrow> uid option \<Rightarrow> (world, unit) op" where
  "assertQuota adm extraBytes targets exclude =
    (if adm_role adm = OWNER then ret () else
     bnd (gets id) (\<lambda>w.
     andthen (throw_if (expired_at (clock w) (adm_expiresAt adm)) (forbidden_error ''account has expired''))
     (andthen (throw_if (case adm_clientLimit adm of
          None \<Rightarrow> False
        | Some l \<Rightarrow> exclude = None \<and> l \<le> int (length (clients_of w (adm_id adm)))) (forbidden_error ''client limit reached''))
     (andthen (throw_if (case adm_trafficQuota adm of
          None \<Rightarrow> False
        | Some q \<Rightarrow> q < allocated w (adm_id adm) exclude + extraBytes) (forbidden_error ''traffic quota exceeded''))
     (for_each targets (\<lambda>t. throw_if (\<not> canUse (Some (access_rows adm w)) t)
        (forbidden_error ''no access to this server or inbound'')))))))"

section \<open>Creating: \<open>clients/crud.ts\<close>\<close>

record create_input =
  ci_name :: string
  ci_tag :: "string option"
  ci_serviceId :: "uid option"
  ci_trafficGB :: rat
  ci_days :: rat
  ci_startAfterUse :: bool
  ci_ipLimit :: "int option"
  ci_note :: "string option"
  ci_telegramId :: "string option"
  ci_phone :: "string option"
  ci_targets :: "raw_target list"

text \<open>What the checks of \<open>createClient\<close> work out before anything is written.\<close>
record checked_input =
  ck_name :: string
  ck_tag :: "string option"
  ck_targets :: "target list"
  ck_limitBytes :: int
  ck_cost :: int
  ck_servers :: "server list"

definition create_checks :: "admin \<Rightarrow> create_input \<Rightarrow> (world, checked_input) op" where
  "create_checks actor inp =
    andthen (throw_if (str_trim (ci_name inp) = []) (app_error ''client name is required''))
    (bnd (case ci_serviceId inp of Some s \<Rightarrow> resolveServiceTargets actor s | None \<Rightarrow> ret (normalizeTargets (ci_targets inp)))
      (\<lambda>targets.
    andthen (throw_if (targets = []) (app_error ''select a service or at least one inbound''))
    (let trafficGB = max 0 (ci_trafficGB inp); limitBytes = gbToBytes trafficGB in
     andthen (assertClientKind actor (kindFromGB trafficGB) (ci_serviceId inp) trafficGB None)
     (andthen (assertQuota actor limitBytes targets None)
     (bnd (gets (\<lambda>w. quoteClientCost w (actor_of actor) (ci_trafficGB inp) (ci_days inp))) (\<lambda>cost.
     andthen (assertAffordable (adm_id actor) (adm_role actor) cost)
     (let serverIds = uniq (map t_serverId targets) in
      bnd (gets (\<lambda>w. filter srv_isActive (servers_in serverIds w))) (\<lambda>srvs.
      andthen (throw_if (length srvs \<noteq> length serverIds) (app_error ''a server is not available''))
      (ret \<lparr>ck_name = sanitizeConfigName (Some (ci_name inp)) ''client'', ck_tag = nonempty (sanitizeConfigName (ci_tag inp) []),
            ck_targets = targets, ck_limitBytes = limitBytes, ck_cost = cost, ck_servers = srvs\<rparr>)))))))))"

definition delayed_days :: "create_input \<Rightarrow> int" where
  "delayed_days inp = (if ci_startAfterUse inp \<and> 0 < ci_days inp then min 3650 \<lfloor>ci_days inp\<rfloor> else 0)"

definition new_client :: "admin \<Rightarrow> create_input \<Rightarrow> checked_input \<Rightarrow> time \<Rightarrow> uid \<Rightarrow> string \<Rightarrow> string \<Rightarrow> client" where
  "new_client actor inp ck tm i uuid token =
    (let delayed = delayed_days inp in
     \<lparr>cli_id = i, cli_adminId = adm_id actor, cli_name = ck_name ck, cli_tag = ck_tag ck, cli_serviceId = ci_serviceId inp,
      cli_uuid = uuid, cli_subToken = token, cli_trafficLimit = ck_limitBytes ck, cli_usedUp = 0, cli_usedDown = 0,
      cli_expiresAt = (if 0 < delayed then None else if 0 < ci_days inp then Some (daysFromNow tm (ci_days inp)) else None),
      cli_ipLimit = max 0 (opt_default (ci_ipLimit inp) 0), cli_status = C_ACTIVE,
      cli_note = (if 0 < delayed then Some (withPendingNote (ci_note inp) delayed) else trim_or_null (ci_note inp)),
      cli_telegramId = trim_or_null (ci_telegramId inp), cli_phone = trim_or_null (ci_phone inp),
      cli_lastOnlineAt = None, cli_customerId = None, cli_createdAt = tm\<rparr>)"

text \<open>\<open>clientServer.create\<close>, with the table's unique key.\<close>
definition insert_link :: "uid \<Rightarrow> uid \<Rightarrow> string \<Rightarrow> int \<Rightarrow> (world, uid) op" where
  "insert_link clientId serverId email inboundId =
    bnd (gets (\<lambda>w. \<exists>l \<in> set (client_servers w). cs_clientId l = clientId \<and> cs_serverId l = serverId \<and> cs_inboundId l = inboundId))
      (\<lambda>dup. andthen (throw_if dup unique_violation)
    (bnd new_id (\<lambda>k. andthen (modify (\<lambda>w. w\<lparr>client_servers := client_servers w @
        [\<lparr>cs_id = k, cs_clientId = clientId, cs_serverId = serverId, cs_inboundId = inboundId, cs_remoteEmail = email,
          cs_up = 0, cs_down = 0, cs_enabled = True, cs_lastError = None\<rparr>]\<rparr>))
      (ret k))))"

definition insert_links :: "uid \<Rightarrow> uid \<Rightarrow> string \<Rightarrow> int list \<Rightarrow> (world, uid list) op" where
  "insert_links clientId serverId email ibs =
    fold_op (\<lambda>ib ids. bnd (insert_link clientId serverId email ib) (\<lambda>k. ret (ids @ [k]))) ibs []"

text \<open>Provisioning one group of \<open>createClient\<close>: its links, then the panel call; an error is noted.\<close>
definition provision_group ::
  "client \<Rightarrow> int option \<Rightarrow> int \<Rightarrow> string \<Rightarrow> panel_group \<Rightarrow> string list \<Rightarrow> (world, string list) op" where
  "provision_group c override hwid email g errors =
    bnd (insert_links (cli_id c) (srv_id (pg_server g)) email (pg_inboundIds g)) (\<lambda>ids.
      catch_op
        (bnd (addToPanel g c email override hwid) (\<lambda>remote.
         andthen (do_when (remote \<noteq> email) (upd_links ids (\<lambda>l. l\<lparr>cs_remoteEmail := remote\<rparr>))) (ret errors)))
        (\<lambda>e. andthen (upd_links ids (\<lambda>l. l\<lparr>cs_lastError := Some (take 300 (err_message e))\<rparr>))
               (ret (errors @ [panel_error (pg_server g) e]))))"

text \<open>The second config on one server is called \<open>label-2\<close>, and so on.\<close>
definition nth_label :: "string \<Rightarrow> nat \<Rightarrow> string" where
  "nth_label label seen = (if seen = 0 then label else label @ ''-'' @ show_nat (seen + 1))"

definition provision_all :: "client \<Rightarrow> int option \<Rightarrow> string \<Rightarrow> panel_group list \<Rightarrow> (world, string list) op" where
  "provision_all c override label groups =
    bnd (fold_op (\<lambda>g (seen, errors).
          let n = length (filter (\<lambda>i. i = srv_id (pg_server g)) seen) in
          bnd (provision_group c override 0 (nth_label label n) g errors) (\<lambda>errs.
          ret (seen @ [srv_id (pg_server g)], errs))) groups ([], []))
      (\<lambda>(seen, errors). ret errors)"

definition plain_adjust :: "ref_type \<Rightarrow> uid \<Rightarrow> string \<Rightarrow> adjust_opts" where
  "plain_adjust rt ri n = \<lparr>ao_refType = Some rt, ao_refId = Some ri, ao_note = Some n, ao_byAdminId = None, ao_allowNegative = False\<rparr>"

definition create_body :: "admin \<Rightarrow> create_input \<Rightarrow> checked_input \<Rightarrow> (world, client_full \<times> string list) op" where
  "create_body actor inp ck =
    bnd randomUUID (\<lambda>uuid. bnd (randomToken 18) (\<lambda>token. bnd new_id (\<lambda>i. bnd now (\<lambda>tm.
    let c = new_client actor inp ck tm i uuid token; delayed = delayed_days inp;
        override = (if 0 < delayed then Some (- (delayed * DAY_MS)) else None);
        groups = groupTargets (ck_targets ck) (ck_servers ck) uuid in
    andthen (modify (\<lambda>w. w\<lparr>clients := clients w @ [c]\<rparr>))
    (andthen (do_when (0 < delayed) (setPendingStart i delayed))
    (andthen (do_when (0 < ck_cost ck)
        (andthen (chargeWallet (adm_id actor) (adm_role actor) (- ck_cost ck) W_PURCHASE (plain_adjust R_client i ''create client'')) (ret ())))
    (bnd (provision_all c override (configLabel (cli_name c) (cli_tag c)) groups) (\<lambda>errors.
    andthen (audit (Some (adm_id actor)) ''client.create'' (JId i)
        [(''name'', JStr (cli_name c)), (''tag'', opt_json JStr (cli_tag c)), (''serviceId'', opt_json JId (ci_serviceId inp)),
         (''targets'', JInt (int (length (ck_targets ck)))), (''configs'', JInt (int (length groups))),
         (''startAfterUse'', if delayed = 0 then JNull else JInt delayed), (''errors'', JInt (int (length errors)))] None)
    (bnd (getClientForActor actor i) (\<lambda>full. ret (full, errors)))))))))))"

definition createClient :: "admin \<Rightarrow> create_input \<Rightarrow> (world, client_full \<times> string list) op" where
  "createClient actor inp = bnd (create_checks actor inp) (create_body actor inp)"

section \<open>Updating\<close>

text \<open>\<open>UpdateClientInput\<close>: \<open>None\<close> is an undefined field, \<open>Some None\<close> is null.\<close>
record update_input =
  ui_name :: "string option"
  ui_tag :: "string option option"
  ui_trafficGB :: "rat option"
  ui_expiresAt :: "time option option"
  ui_addDays :: "rat option"
  ui_ipLimit :: "int option"
  ui_note :: "string option option"
  ui_telegramId :: "string option option"
  ui_phone :: "string option option"
  ui_enabled :: "bool option"

definition no_update :: update_input where
  "no_update = \<lparr>ui_name = None, ui_tag = None, ui_trafficGB = None, ui_expiresAt = None, ui_addDays = None,
     ui_ipLimit = None, ui_note = None, ui_telegramId = None, ui_phone = None, ui_enabled = None\<rparr>"

text \<open>\<open>if (input.addDays)\<close>: given and not zero.\<close>
definition add_days :: "update_input \<Rightarrow> rat option" where
  "add_days inp = (case ui_addDays inp of Some d \<Rightarrow> if d = 0 then None else Some d | None \<Rightarrow> None)"

definition renewed_expiry :: "time \<Rightarrow> client \<Rightarrow> rat \<Rightarrow> time" where
  "renewed_expiry tm c days =
    (let base = (case cli_expiresAt c of Some t \<Rightarrow> if tm < t then t else tm | None \<Rightarrow> tm) in \<lfloor>of_int base + days * of_int DAY_MS\<rfloor>)"

text \<open>The \<open>data\<close> object of \<open>updateClient\<close>, applied to the row.\<close>
definition apply_update :: "time \<Rightarrow> client \<Rightarrow> update_input \<Rightarrow> client \<Rightarrow> client" where
  "apply_update tm cur inp c = c\<lparr>
     cli_name := (case ui_name inp of Some n \<Rightarrow> sanitizeConfigName (Some n) ''client'' | None \<Rightarrow> cli_name c),
     cli_tag := (case ui_tag inp of Some t \<Rightarrow> nonempty (sanitizeConfigName t []) | None \<Rightarrow> cli_tag c),
     cli_trafficLimit := (case ui_trafficGB inp of Some g \<Rightarrow> gbToBytes (max 0 g) | None \<Rightarrow> cli_trafficLimit c),
     cli_expiresAt := (case add_days inp of
         Some d \<Rightarrow> Some (renewed_expiry tm cur d)
       | None \<Rightarrow> opt_default (ui_expiresAt inp) (cli_expiresAt c)),
     cli_ipLimit := (case ui_ipLimit inp of Some n \<Rightarrow> max 0 n | None \<Rightarrow> cli_ipLimit c),
     cli_note := (case ui_note inp of Some n \<Rightarrow> trim_or_null n | None \<Rightarrow> cli_note c),
     cli_telegramId := (case ui_telegramId inp of Some n \<Rightarrow> trim_or_null n | None \<Rightarrow> cli_telegramId c),
     cli_phone := (case ui_phone inp of Some n \<Rightarrow> trim_or_null n | None \<Rightarrow> cli_phone c),
     cli_status := (case ui_enabled inp of Some b \<Rightarrow> if b then C_ACTIVE else C_DISABLED | None \<Rightarrow> cli_status c)\<rparr>"

definition update_fields :: "update_input \<Rightarrow> json_obj" where
  "update_fields inp = opt_field ''name'' (\<lambda>_. JNull) (ui_name inp) @ opt_field ''tag'' (\<lambda>_. JNull) (ui_tag inp)
    @ opt_field ''trafficLimit'' (\<lambda>_. JNull) (ui_trafficGB inp)
    @ (if ui_expiresAt inp \<noteq> None \<or> add_days inp \<noteq> None then [(''expiresAt'', JNull)] else [])
    @ opt_field ''ipLimit'' (\<lambda>_. JNull) (ui_ipLimit inp) @ opt_field ''note'' (\<lambda>_. JNull) (ui_note inp)
    @ opt_field ''telegramId'' (\<lambda>_. JNull) (ui_telegramId inp) @ opt_field ''phone'' (\<lambda>_. JNull) (ui_phone inp)
    @ opt_field ''status'' (\<lambda>_. JNull) (ui_enabled inp)"

text \<open>The checks on a change of size.\<close>
definition resize_checks :: "admin \<Rightarrow> client \<Rightarrow> update_input \<Rightarrow> (world, unit) op" where
  "resize_checks actor cur inp =
    (case ui_trafficGB inp of
       None \<Rightarrow> ret ()
     | Some g \<Rightarrow>
        let gb = max 0 g in
        andthen (assertClientKind actor (kindFromGB gb) (cli_serviceId cur) gb (Some (cli_id cur)))
        (assertQuota actor (gbToBytes gb) [] (Some (cli_id cur))))"

text \<open>Billing of the added gigabytes and days.\<close>
definition renewal_cost :: "admin \<Rightarrow> client \<Rightarrow> update_input \<Rightarrow> (world, int) op" where
  "renewal_cost actor cur inp =
    (if adm_role actor = OWNER then ret 0 else
     let extraGB = (case ui_trafficGB inp of Some g \<Rightarrow> max 0 (g - bytesToGb (cli_trafficLimit cur)) | None \<Rightarrow> 0);
         extraDays = (case add_days inp of Some d \<Rightarrow> max 0 d | None \<Rightarrow> 0) in
     if extraGB \<le> 0 \<and> extraDays \<le> 0 then ret 0
     else bnd (gets (\<lambda>w. if chargeOnRenew (pricing w) then quoteClientCost w (actor_of actor) extraGB extraDays else 0)) (\<lambda>cost.
       andthen (assertAffordable (adm_id actor) (adm_role actor) cost) (ret cost)))"

definition charge_renewal :: "admin \<Rightarrow> uid \<Rightarrow> int \<Rightarrow> (world, unit) op" where
  "charge_renewal actor i cost = do_when (0 < cost)
     (andthen (chargeWallet (adm_id actor) (adm_role actor) (- cost) W_PURCHASE (plain_adjust R_client i ''renew client'')) (ret ()))"

text \<open>The end of \<open>updateClient\<close>: status, panels, audit.\<close>
definition finish_update :: "admin \<Rightarrow> uid \<Rightarrow> update_input \<Rightarrow> (world, client_full \<times> string list) op" where
  "finish_update actor i inp =
    andthen (recomputeClient i)
    (bnd (getClientForActor actor i) (\<lambda>full.
    bnd (pushClient full) (\<lambda>errors.
    andthen (audit (Some (adm_id actor)) ''client.update'' (JId (cli_id (fst full)))
        [(''fields'', JObj (update_fields inp)), (''errors'', JInt (int (length errors)))] None)
    (ret (full, errors)))))"

definition updateClient :: "admin \<Rightarrow> uid \<Rightarrow> update_input \<Rightarrow> (world, client_full \<times> string list) op" where
  "updateClient actor i inp =
    bnd (getClientForActor actor i) (\<lambda>(cur, _).
    andthen (throw_if (case ui_name inp of Some n \<Rightarrow> str_trim n = [] | None \<Rightarrow> False) (app_error ''client name is required''))
    (andthen (resize_checks actor cur inp)
    (andthen (do_when (ui_expiresAt inp \<noteq> None \<or> add_days inp \<noteq> None) (clearPendingStart (cli_id cur)))
    (bnd (renewal_cost actor cur inp) (\<lambda>cost. bnd now (\<lambda>tm.
    andthen (upd_client (cli_id cur) (apply_update tm cur inp))
    (andthen (charge_renewal actor (cli_id cur) cost)
    (finish_update actor (cli_id cur) inp))))))))"

section \<open>Resetting, deleting, listing\<close>

definition reset_group :: "server list \<Rightarrow> link_group \<Rightarrow> string list \<Rightarrow> (world, string list) op" where
  "reset_group srvs g errors =
    (case find_row srv_id (lg_serverId g) srvs of
       None \<Rightarrow> ret errors
     | Some s \<Rightarrow>
        catch_op
          (andthen (panel_do (PanelReset (srv_id s) (hd (lg_inboundIds g)) (lg_remoteEmail g)))
          (andthen (upd_links (lg_linkIds g) (\<lambda>l. l\<lparr>cs_up := 0, cs_down := 0, cs_lastError := None\<rparr>)) (ret errors)))
          (\<lambda>e. ret (errors @ [panel_error s e])))"

definition resetClientTraffic :: "admin \<Rightarrow> uid \<Rightarrow> (world, string list) op" where
  "resetClientTraffic actor i =
    bnd (getClientForActor actor i) (\<lambda>(c, links).
    bnd (gets (servers_in (map cs_serverId links))) (\<lambda>srvs.
    bnd (fold_op (reset_group srvs) (groupLinks links) []) (\<lambda>errors.
    andthen (recomputeClient (cli_id c))
    (andthen (do_when (cli_status c = C_LIMITED)
        (bnd (getClientForActor actor i) (\<lambda>full. andthen (pushClient full) (ret ()))))
    (andthen (audit (Some (adm_id actor)) ''client.reset_traffic'' (JId (cli_id c)) [] None)
    (ret errors))))))"

text \<open>A client that is already gone on the panel is not an error.\<close>
definition delete_group :: "server list \<Rightarrow> client \<Rightarrow> link_group \<Rightarrow> string list \<Rightarrow> (world, string list) op" where
  "delete_group srvs c g errors =
    (case find_row srv_id (lg_serverId g) srvs of
       None \<Rightarrow> ret errors
     | Some s \<Rightarrow>
        catch_op
          (andthen (panel_do (PanelDelete (srv_id s) (lg_inboundIds g)
              (protocol_of (find_inbound s (hd (lg_inboundIds g)))) (cli_uuid c) (lg_remoteEmail g))) (ret errors))
          (\<lambda>e. ret (if missing (err_message e) then errors else errors @ [panel_error s e])))"

text \<open>\<open>client.delete\<close> with the schema's cascades: links and usage go, orders forget the client.\<close>
definition drop_client :: "uid \<Rightarrow> (world, unit) op" where
  "drop_client i = modify (\<lambda>w. w\<lparr>
     clients := del_rows (\<lambda>c. cli_id c = i) (clients w),
     client_servers := del_rows (\<lambda>l. cs_clientId l = i) (client_servers w),
     client_usage := filter (\<lambda>(j, u, d). j \<noteq> i) (client_usage w),
     orders := upd_rows (\<lambda>r. ord_clientId r = Some i) (\<lambda>r. r\<lparr>ord_clientId := None\<rparr>) (orders w)\<rparr>)"

definition deleteClient :: "admin \<Rightarrow> uid \<Rightarrow> (world, string list) op" where
  "deleteClient actor i =
    bnd (getClientForActor actor i) (\<lambda>(c, links).
    bnd (gets (servers_in (map cs_serverId links))) (\<lambda>srvs.
    bnd (fold_op (delete_group srvs c) (groupLinks links) []) (\<lambda>errors.
    andthen (drop_client (cli_id c))
    (andthen (clearPendingStart (cli_id c))
    (andthen (audit (Some (adm_id actor)) ''client.delete'' (JId (cli_id c))
        [(''name'', JStr (cli_name c)), (''errors'', JInt (int (length errors)))] None)
    (ret errors))))))"

definition opt_contains :: "bool \<Rightarrow> string \<Rightarrow> string option \<Rightarrow> bool" where
  "opt_contains insensitive q s = (case s of None \<Rightarrow> False
     | Some t \<Rightarrow> if insensitive then contains (to_lower q) (to_lower t) else contains q t)"

definition client_matches :: "string \<Rightarrow> client \<Rightarrow> bool" where
  "client_matches q c \<longleftrightarrow> opt_contains True q (Some (cli_name c)) \<or> opt_contains True q (cli_tag c) \<or>
     opt_contains True q (cli_note c) \<or> opt_contains False q (cli_phone c) \<or> opt_contains False q (cli_telegramId c)"

text \<open>Without a status (or with \<open>ALL\<close>) all of them; without a query all of them.\<close>
definition listClients ::
  "admin \<Rightarrow> string \<Rightarrow> client_status option \<Rightarrow> nat option \<Rightarrow> nat \<Rightarrow> world \<Rightarrow> client_full list \<times> nat" where
  "listClients actor q status tk sk w =
    (let rows = filter (\<lambda>c. in_scope actor c \<and> (case status of None \<Rightarrow> True | Some s \<Rightarrow> cli_status c = s) \<and>
                  (q = [] \<or> client_matches q c)) (clients w);
         items = take (min (opt_default tk 100) 500) (drop sk (sort_key (\<lambda>c. - cli_createdAt c) rows))
     in (map (\<lambda>c. (c, links_of w (cli_id c))) items, length rows))"

end
