(* ===== verification/ClientTargets.thy ===== *)
theory ClientTargets
  imports Clients
begin

text \<open>
  \<open>clients/targets.ts\<close>: replacing the inbounds of an existing client. Links that share server and
  email are one remote client, so taking some of them away is an update with the rest, and taking
  all of them away is a delete; a new inbound joins the config with its protocol and flow if there
  is one.
\<close>

definition clientTargetOptions :: "admin \<Rightarrow> world \<Rightarrow> (server \<times> inbound list) list" where
  "clientTargetOptions actor w = map (\<lambda>s. (s, allowedInboundsFor actor s w)) (listServersFor actor w)"

text \<open>\<open>keyOf\<close>.\<close>
definition link_target :: "client_server \<Rightarrow> target" where
  "link_target l = \<lparr>t_serverId = cs_serverId l, t_inboundId = cs_inboundId l\<rparr>"

record link_entry =
  le_serverId :: uid
  le_remoteEmail :: string
  le_keep :: "client_server list"
  le_drop :: "client_server list"

definition link_entries :: "target list \<Rightarrow> client_server list \<Rightarrow> link_entry list" where
  "link_entries wanted links =
    map (\<lambda>((s, e), ls). \<lparr>le_serverId = s, le_remoteEmail = e,
           le_keep = filter (\<lambda>l. link_target l \<in> set wanted) ls,
           le_drop = filter (\<lambda>l. link_target l \<notin> set wanted) ls\<rparr>)
      (group_by (\<lambda>l. (cs_serverId l, cs_remoteEmail l)) links)"

definition drop_links :: "uid list \<Rightarrow> (world, unit) op" where
  "drop_links ids = modify (\<lambda>w. w\<lparr>client_servers := del_rows (\<lambda>l. cs_id l \<in> set ids) (client_servers w)\<rparr>)"

text \<open>The panel call that detaches: update with what is kept, or delete.\<close>
definition detach_call ::
  "server \<Rightarrow> client \<Rightarrow> int option \<Rightarrow> int \<Rightarrow> link_entry \<Rightarrow> (world, unit) op" where
  "detach_call s c override hwid e =
    (let sample = (case le_keep e of l # _ \<Rightarrow> l | [] \<Rightarrow> hd (le_drop e));
         ib = find_inbound s (cs_inboundId sample) in
     if le_keep e \<noteq> [] then
       updateOnPanel s \<lparr>lg_serverId = le_serverId e, lg_remoteEmail = le_remoteEmail e,
           lg_inboundIds = sort (map cs_inboundId (le_keep e)), lg_linkIds = map cs_id (le_keep e)\<rparr>
         c (protocol_of ib) (flow_of ib (cli_uuid c)) override hwid
     else panel_do (PanelDelete (srv_id s) (map cs_inboundId (le_drop e)) (protocol_of ib) (cli_uuid c) (le_remoteEmail e)))"

definition detach_entry ::
  "server list \<Rightarrow> client \<Rightarrow> int option \<Rightarrow> int \<Rightarrow> link_entry \<Rightarrow> string list \<Rightarrow> (world, string list) op" where
  "detach_entry srvs c override hwid e errors =
    (if le_drop e = [] then ret errors else
     case find_row srv_id (le_serverId e) srvs of
       None \<Rightarrow> ret errors
     | Some s \<Rightarrow>
        let dropIds = map cs_id (le_drop e) in
        catch_op
          (andthen (detach_call s c override hwid e) (andthen (drop_links dropIds) (ret errors)))
          (\<lambda>er. if missing (err_message er) then andthen (drop_links dropIds) (ret errors)
                else ret (errors @ [panel_error s er])))"

text \<open>The first free label on a server: \<open>label\<close>, \<open>label-2\<close>, ... ; \<open>fuel\<close> bounds the search.\<close>
fun free_email :: "nat \<Rightarrow> string list \<Rightarrow> string \<Rightarrow> nat \<Rightarrow> string" where
  "free_email 0 used label k = nth_label label k"
| "free_email (Suc fuel) used label k =
    (if nth_label label k \<in> set used then free_email fuel used label (Suc k) else nth_label label k)"

text \<open>A kept link whose inbound has the protocol and the flow of the new group.\<close>
definition host_of :: "client \<Rightarrow> client_server list \<Rightarrow> panel_group \<Rightarrow> client_server option" where
  "host_of c kept g =
    find (\<lambda>l. cs_serverId l = srv_id (pg_server g) \<and>
      protocol_of (find_inbound (pg_server g) (cs_inboundId l)) = pg_protocol g \<and>
      flow_of (find_inbound (pg_server g) (cs_inboundId l)) (cli_uuid c) = pg_flow g) kept"

definition merged_group :: "panel_group \<Rightarrow> client_server list \<Rightarrow> string \<Rightarrow> uid list \<Rightarrow> link_group" where
  "merged_group g kept email createdIds =
    (let same = filter (\<lambda>l. cs_serverId l = srv_id (pg_server g) \<and> cs_remoteEmail l = email) kept in
     \<lparr>lg_serverId = srv_id (pg_server g), lg_remoteEmail = email,
      lg_inboundIds = sort (uniq (map cs_inboundId same @ pg_inboundIds g)),
      lg_linkIds = map cs_id same @ createdIds\<rparr>)"

type_synonym used_emails = "(uid \<times> string) list"

definition attach_group ::
  "client \<Rightarrow> client_server list \<Rightarrow> int option \<Rightarrow> int \<Rightarrow> panel_group \<Rightarrow> used_emails \<times> string list
    \<Rightarrow> (world, used_emails \<times> string list) op" where
  "attach_group c kept override hwid g acc =
    (case acc of (used, errors) \<Rightarrow>
     let s = pg_server g;
         here = map snd (filter (\<lambda>(i, e). i = srv_id s) used);
         host = host_of c kept g;
         email = (case host of Some l \<Rightarrow> cs_remoteEmail l
                  | None \<Rightarrow> free_email (length here) here (configLabel (cli_name c) (cli_tag c)) 0);
         used' = (if host = None then used @ [(srv_id s, email)] else used) in
     bnd (insert_links (cli_id c) (srv_id s) email (pg_inboundIds g)) (\<lambda>createdIds.
     catch_op
       (case host of
          Some l \<Rightarrow> andthen (updateOnPanel s (merged_group g kept email createdIds) c (pg_protocol g) (pg_flow g) override hwid)
                     (ret (used', errors))
        | None \<Rightarrow> bnd (addToPanel g c email override hwid) (\<lambda>remote.
            andthen (do_when (remote \<noteq> email) (upd_links createdIds (\<lambda>l. l\<lparr>cs_remoteEmail := remote\<rparr>)))
            (ret (used', errors))))
       (\<lambda>er. andthen (upd_links createdIds (\<lambda>l. l\<lparr>cs_lastError := Some (take 300 (err_message er))\<rparr>))
               (ret (used', errors @ [panel_error s er])))))"

record targets_result =
  tr_client :: client_full
  tr_errors :: "string list"
  tr_added :: nat
  tr_removed :: nat

definition setClientTargets :: "admin \<Rightarrow> uid \<Rightarrow> raw_target list \<Rightarrow> (world, targets_result) op" where
  "setClientTargets actor i targets =
    bnd (getClientForActor actor i) (\<lambda>(c, links).
    let wanted = normalizeTargets targets in
    andthen (throw_if (wanted = []) (app_error ''select at least one inbound''))
    (let added = filter (\<lambda>t. t \<notin> link_target ` set links) wanted;
         dropped = filter (\<lambda>l. link_target l \<notin> set wanted) links;
         kept = filter (\<lambda>l. link_target l \<in> set wanted) links in
     if added = [] \<and> dropped = [] then ret \<lparr>tr_client = (c, links), tr_errors = [], tr_added = 0, tr_removed = 0\<rparr> else
     andthen (assertQuota actor (cli_trafficLimit c) added (Some (cli_id c)))
     (bnd (gets (servers_in (map t_serverId added @ map cs_serverId dropped))) (\<lambda>srvs.
     andthen (for_each added (\<lambda>t. throw_if (case find_row srv_id (t_serverId t) srvs of None \<Rightarrow> True | Some s \<Rightarrow> \<not> srv_isActive s)
         (app_error ''a server is not available'')))
     (bnd (gets (\<lambda>w. (pendingExpiryMs (getPendingStart (cli_id c) w), getHwidLimit (cli_id c) w))) (\<lambda>(override, hwid).
     bnd (fold_op (detach_entry srvs c override hwid) (link_entries wanted links) []) (\<lambda>errs.
     bnd (fold_op (attach_group c kept override hwid) (groupTargets added srvs (cli_uuid c))
            (map (\<lambda>l. (cs_serverId l, cs_remoteEmail l)) kept, errs)) (\<lambda>(used, errors).
     andthen (recomputeClient (cli_id c))
     (andthen (audit (Some (adm_id actor)) ''client.targets.set'' (JId (cli_id c))
         [(''added'', JInt (int (length added))), (''removed'', JInt (int (length dropped))), (''errors'', JInt (int (length errors)))] None)
     (bnd (getClientForActor actor i) (\<lambda>full.
     ret \<lparr>tr_client = full, tr_errors = errors, tr_added = length added, tr_removed = length dropped\<rparr>)))))))))))"

end
