(* ===== verification/ClientFrame.thy ===== *)
theory ClientFrame
  imports ClientTargets
begin

text \<open>
  What the operations on clients leave alone. \<open>store_frame\<close> says that no table of the shop, no
  server and no setting changed, and that identifiers only grow; \<open>client_frame\<close> adds the accounts, the ledger and, of every client,
  its identity, owner and size. One lemma per operation carries them through every handler.
\<close>

definition store_frame :: "world \<Rightarrow> world \<Rightarrow> bool" where
  "store_frame w w' \<longleftrightarrow>
    clock w' = clock w \<and> svcs w' = svcs w \<and> customers w' = customers w \<and> customer_sessions w' = customer_sessions w \<and>
    customer_wallet_txs w' = customer_wallet_txs w \<and> stores w' = stores w \<and> plans w' = plans w \<and>
    discounts w' = discounts w \<and> orders w' = orders w \<and> payments w' = payments w \<and>
    servers w' = servers w \<and> server_accesses w' = server_accesses w \<and> service_rows w' = service_rows w \<and>
    pricing w' = pricing w \<and> refund_cfg w' = refund_cfg w \<and> client_types w' = client_types w \<and>
    panel_links w' = panel_links w \<and> panel_accounts w' = panel_accounts w \<and> card_cfg w' = card_cfg w \<and>
    auto_renew_rows w' = auto_renew_rows w \<and>
    map (\<lambda>a. (adm_id a, adm_role a)) (admins w') = map (\<lambda>a. (adm_id a, adm_role a)) (admins w) \<and>
    next_id w \<le> next_id w'"

definition sizes :: "world \<Rightarrow> (uid \<times> uid \<times> int) list" where
  "sizes w = map (\<lambda>c. (cli_id c, cli_adminId c, cli_trafficLimit c)) (clients w)"

definition client_frame :: "world \<Rightarrow> world \<Rightarrow> bool" where
  "client_frame w w' \<longleftrightarrow> store_frame w w' \<and> admins w' = admins w \<and> wallet_txs w' = wallet_txs w \<and> sizes w' = sizes w"

lemma store_frame_refl [simp]: "store_frame w w"
  by (simp add: store_frame_def)

lemma client_frame_refl [simp]: "client_frame w w"
  by (simp add: client_frame_def)

lemma store_frame_trans: "store_frame w w1 \<Longrightarrow> store_frame w1 w2 \<Longrightarrow> store_frame w w2"
  by (simp add: store_frame_def)

lemma client_frame_trans: "client_frame w w1 \<Longrightarrow> client_frame w1 w2 \<Longrightarrow> client_frame w w2"
  using store_frame_trans by (auto simp: client_frame_def)

lemma client_store: "client_frame w w' \<Longrightarrow> store_frame w w'"
  by (simp add: client_frame_def)

lemma events_client_frame: "events_only w w' \<Longrightarrow> client_frame w w'"
  by (simp add: client_frame_def store_frame_def sizes_def eo_clock eo_svcs eo_admins eo_wallet_txs eo_customers eo_clients
      eo_customer_sessions eo_customer_wallet_txs eo_stores eo_plans eo_discounts eo_orders eo_payments eo_servers
      eo_server_accesses eo_service_rows eo_pricing eo_refund_cfg eo_client_types eo_panel_links eo_panel_accounts eo_card_cfg eo_next_id
      eo_auto_renew_rows)

lemma frames_stable [preserves_intros]: "events_stable (store_frame w)" "events_stable (client_frame w)"
  unfolding events_stable_def
  by (blast intro: store_frame_trans client_frame_trans client_store events_client_frame)+

lemma preserves_frame_modify:
  "(\<And>w1. client_frame w1 (f w1)) \<Longrightarrow> preserves (client_frame w) (modify f)"
  "(\<And>w1. store_frame w1 (f w1)) \<Longrightarrow> preserves (store_frame w) (modify f)"
  by (auto intro!: preserves_modify intro: client_frame_trans store_frame_trans)

lemma store_from:
  assumes "\<And>w1. preserves (client_frame w1) m" shows "preserves (store_frame w) m"
proof (rule preservesI)
  fix w1 assume w1: "store_frame w w1"
  have "client_frame w1 (snd (m w1))" by (rule preservesD [OF assms client_frame_refl])
  with w1 show "store_frame w (snd (m w1))" by (blast intro: store_frame_trans client_store)
qed

lemma frame_run: "m w = (x, w') \<Longrightarrow> (\<And>w1. preserves (client_frame w1) m) \<Longrightarrow> client_frame w w'"
  using preservesD [of "client_frame w" m w] by simp

lemma store_run: "m w = (x, w') \<Longrightarrow> (\<And>w1. preserves (store_frame w1) m) \<Longrightarrow> store_frame w w'"
  using preservesD [of "store_frame w" m w] by simp

section \<open>The operations\<close>

lemma cf_new_id [preserves_intros]: "preserves (client_frame w) new_id"
  by (rule preservesI) (auto simp: new_id_def elim!: client_frame_trans, simp add: client_frame_def store_frame_def sizes_def)

lemma cf_random [preserves_intros]:
  "preserves (client_frame w) (randomToken n)" "preserves (client_frame w) randomUUID"
  unfolding randomToken_def randomUUID_def by (intro preserves_intros)+

lemma cf_now [preserves_intros]: "preserves (client_frame w) now"
  unfolding now_def by (intro preserves_intros)

lemma cf_panel_do [preserves_intros]: "preserves (client_frame w) (panel_do c)"
proof (rule preservesI)
  fix w1 assume "client_frame w w1"
  moreover have "client_frame w1 (snd (panel_do c w1))"
    by (auto simp: panel_do_def Let_def client_frame_def store_frame_def sizes_def split: option.splits)
  ultimately show "client_frame w (snd (panel_do c w1))" by (rule client_frame_trans)
qed

lemma cf_upd_links [preserves_intros]: "preserves (client_frame w) (upd_links ids f)"
  unfolding upd_links_def by (rule preserves_frame_modify) (simp add: client_frame_def store_frame_def sizes_def)

lemma cf_drop_links [preserves_intros]: "preserves (client_frame w) (drop_links ids)"
  unfolding drop_links_def by (rule preserves_frame_modify) (simp add: client_frame_def store_frame_def sizes_def)

lemma cf_pending [preserves_intros]:
  "preserves (client_frame w) (setPendingStart i d)" "preserves (client_frame w) (clearPendingStart i)"
  unfolding setPendingStart_def clearPendingStart_def
  by (rule preserves_frame_modify, simp add: client_frame_def store_frame_def sizes_def)+

lemma sizes_upd:
  "(\<And>c. cli_id (f c) = cli_id c \<and> cli_adminId (f c) = cli_adminId c \<and> cli_trafficLimit (f c) = cli_trafficLimit c) \<Longrightarrow>
   sizes (w\<lparr>clients := upd_rows p f (clients w)\<rparr>) = sizes w"
  by (simp add: sizes_def upd_rows_def comp_def)

lemma cf_upd_client:
  "(\<And>c. cli_id (f c) = cli_id c \<and> cli_adminId (f c) = cli_adminId c \<and> cli_trafficLimit (f c) = cli_trafficLimit c) \<Longrightarrow>
   preserves (client_frame w) (upd_client i f)"
  unfolding upd_client_def
  by (rule preserves_frame_modify) (simp add: client_frame_def sizes_upd, simp add: store_frame_def)

lemma cf_recomputeClient [preserves_intros]: "preserves (client_frame w) (recomputeClient i)"
  unfolding recomputeClient_def by (intro preserves_intros cf_upd_client) simp

lemma cf_insert_links [preserves_intros]: "preserves (client_frame w) (insert_links c s e ibs)"
  unfolding insert_links_def insert_link_def
  by (intro preserves_intros preserves_frame_modify) (simp add: client_frame_def store_frame_def sizes_def)

lemma cf_add_attempts: "preserves (client_frame w) (add_attempts n k g c b ov hw e lst)"
  by (induction n arbitrary: k e lst) (auto simp: Let_def intro!: preserves_intros)

lemma cf_addToPanel [preserves_intros]: "preserves (client_frame w) (addToPanel g c b ov hw)"
  unfolding addToPanel_def by (rule cf_add_attempts)

lemma cf_update_attempts: "preserves (client_frame w) (update_attempts n k s g c p f ov hw lst)"
  by (induction n arbitrary: k lst) (auto simp: Let_def intro!: preserves_intros)

lemma cf_updateOnPanel [preserves_intros]: "preserves (client_frame w) (updateOnPanel s g c p f ov hw)"
  unfolding updateOnPanel_def by (rule cf_update_attempts)

lemma reads_getClientForActor [reads_intros]: "reads (getClientForActor actor i)"
  unfolding getClientForActor_def by (intro reads_intros)

lemma cf_getClientForActor [preserves_intros]: "preserves (client_frame w) (getClientForActor actor i)"
  by (rule preserves_reads) (rule reads_getClientForActor)

lemma cf_pushClient [preserves_intros]: "preserves (client_frame w) (pushClient full)"
  unfolding pushClient_def push_group_def by (intro preserves_intros)

lemma cf_finish_update [preserves_intros]: "preserves (client_frame w) (finish_update actor i inp)"
  unfolding finish_update_def by (intro preserves_intros)

lemma cf_provision_all [preserves_intros]: "preserves (client_frame w) (provision_all c ov label groups)"
  unfolding provision_all_def provision_group_def Let_def by (intro preserves_intros)

lemma cf_resetClientTraffic [preserves_intros]: "preserves (client_frame w) (resetClientTraffic actor i)"
  unfolding resetClientTraffic_def reset_group_def by (intro preserves_intros)

lemma cf_detach [preserves_intros]: "preserves (client_frame w) (detach_entry srvs c ov hw e errs)"
  unfolding detach_entry_def detach_call_def by (intro preserves_intros)

lemma cf_attach [preserves_intros]: "preserves (client_frame w) (attach_group c kept ov hw g acc)"
  unfolding attach_group_def by (intro preserves_intros)

lemma reads_assertQuota [reads_intros]: "reads (assertQuota a b ts e)"
  unfolding assertQuota_def by (intro reads_intros)

lemma reads_assertAffordable [reads_intros]: "reads (assertAffordable i r c)"
  unfolding assertAffordable_def by (intro reads_intros)

lemma reads_assertClientKind [reads_intros]: "reads (assertClientKind a k s g e)"
  unfolding assertClientKind_def by (intro reads_intros)

lemma reads_resolveServiceTargets [reads_intros]: "reads (resolveServiceTargets a s)"
  unfolding resolveServiceTargets_def getServiceForActor_def by (intro reads_intros)

lemma reads_create_checks [reads_intros]: "reads (create_checks actor inp)"
  unfolding create_checks_def by (intro reads_intros)

lemma cf_setClientTargets [preserves_intros]: "preserves (client_frame w) (setClientTargets actor i ts)"
  unfolding setClientTargets_def by (intro preserves_intros preserves_reads [OF reads_assertQuota])

end
