(* ===== verification/ClientSafety.thy ===== *)
theory ClientSafety
  imports ClientFrame
begin

text \<open>
  What the operations on clients promise: a reseller stays within his limits, pays what was quoted,
  and a rejected request changes nothing.
\<close>

section \<open>Views of the table of clients\<close>

lemma clients_of_sizes: "int (length (clients_of w a)) = int (length (filter (\<lambda>(i, owner, s). owner = a) (sizes w)))"
proof -
  have "length (clients_of w a) = length (filter (\<lambda>(i, owner, s). owner = a) (sizes w))"
    by (simp add: clients_of_def sizes_def filter_map comp_def)
  then show ?thesis by simp
qed

lemma allocated_sizes:
  "allocated w a e = sum_list (map (\<lambda>(i, owner, s). s) (filter (\<lambda>(i, owner, s). owner = a \<and> Some i \<noteq> e) (sizes w)))"
  by (simp add: allocated_def other_clients_def sizes_def filter_map comp_def)

lemma sizes_append: "sizes (w\<lparr>clients := clients w @ [c]\<rparr>) = sizes w @ [(cli_id c, cli_adminId c, cli_trafficLimit c)]"
  by (simp add: sizes_def)

section \<open>Creating\<close>

text \<open>What the checks establish.\<close>

lemma assertQuota_inr:
  assumes "assertQuota actor extra targets e w = (Inr u, w')" and "adm_role actor = ADMIN"
  shows "w' = w" "\<not> expired_at (clock w) (adm_expiresAt actor)"
    "\<And>l. adm_clientLimit actor = Some l \<Longrightarrow> e = None \<Longrightarrow> int (length (clients_of w (adm_id actor))) < l"
    "\<And>q. adm_trafficQuota actor = Some q \<Longrightarrow> allocated w (adm_id actor) e + extra \<le> q"
    "\<And>t. t \<in> set targets \<Longrightarrow> canUse (Some (access_rows actor w)) t"
proof -
  have r: "assertQuota actor extra targets e w = (Inr u, w') \<longleftrightarrow>
      \<not> expired_at (clock w) (adm_expiresAt actor) \<and>
      \<not> (case adm_clientLimit actor of None \<Rightarrow> False
          | Some l \<Rightarrow> e = None \<and> l \<le> int (length (clients_of w (adm_id actor)))) \<and>
      \<not> (case adm_trafficQuota actor of None \<Rightarrow> False | Some q \<Rightarrow> q < allocated w (adm_id actor) e + extra) \<and>
      (\<forall>t \<in> set targets. canUse (Some (access_rows actor w)) t) \<and> w' = w"
    using assms(2) by (simp add: assertQuota_def inr_iffs for_each_checks Ball_def cong: option.case_cong)
  note facts = assms(1) [unfolded r]
  show "w' = w" "\<not> expired_at (clock w) (adm_expiresAt actor)" using facts by simp_all
  show "int (length (clients_of w (adm_id actor))) < l" if "adm_clientLimit actor = Some l" "e = None" for l
    using facts that by simp
  show "allocated w (adm_id actor) e + extra \<le> q" if "adm_trafficQuota actor = Some q" for q
    using facts that by simp
  show "canUse (Some (access_rows actor w)) t" if "t \<in> set targets" for t
    using facts that by blast
qed

lemma create_checks_inr:
  assumes "create_checks actor inp w = (Inr ck, w')" and "adm_role actor = ADMIN"
  shows "w' = w" and "\<exists>u. assertQuota actor (ck_limitBytes ck) (ck_targets ck) None w = (Inr u, w)"
    and "ck_cost ck = quoteClientCost w (actor_of actor) (ci_trafficGB inp) (ci_days inp)"
    and "ck_limitBytes ck = gbToBytes (max 0 (ci_trafficGB inp))"
    and "ck_cost ck \<le> 0 \<or> - creditLimit (pricing w) \<le> walletBalance w (adm_id actor) - ck_cost ck"
proof -
  show w': "w' = w" by (rule readsD [OF assms(1) reads_create_checks])
  let ?limit = "gbToBytes (max 0 (ci_trafficGB inp))"
  let ?cost = "quoteClientCost w (actor_of actor) (ci_trafficGB inp) (ci_days inp)"
  have "\<exists>targets u v. assertQuota actor ?limit targets None w = (Inr u, w) \<and>
      assertAffordable (adm_id actor) (adm_role actor) ?cost w = (Inr v, w) \<and>
      ck_limitBytes ck = ?limit \<and> ck_targets ck = targets \<and> ck_cost ck = ?cost"
  proof -
    from assms(1) obtain w1 targets w2 where "w1 = w"
      and t: "(case ci_serviceId inp of Some s \<Rightarrow> resolveServiceTargets actor s
        | None \<Rightarrow> ret (normalizeTargets (ci_targets inp))) w = (Inr targets, w2)"
      and rest: "andthen (throw_if (targets = []) (app_error ''select a service or at least one inbound''))
    (let trafficGB = max 0 (ci_trafficGB inp); limitBytes = gbToBytes trafficGB in
     andthen (assertClientKind actor (kindFromGB trafficGB) (ci_serviceId inp) trafficGB None)
     (andthen (assertQuota actor limitBytes targets None)
     (bnd (gets (\<lambda>w. quoteClientCost w (actor_of actor) (ci_trafficGB inp) (ci_days inp))) (\<lambda>cost.
     andthen (assertAffordable (adm_id actor) (adm_role actor) cost)
     (let serverIds = uniq (map t_serverId targets) in
      bnd (gets (\<lambda>w. filter srv_isActive (servers_in serverIds w))) (\<lambda>srvs.
      andthen (throw_if (length srvs \<noteq> length serverIds) (app_error ''a server is not available''))
      (ret \<lparr>ck_name = sanitizeConfigName (Some (ci_name inp)) ''client'', ck_tag = nonempty (sanitizeConfigName (ci_tag inp) []),
            ck_targets = targets, ck_limitBytes = limitBytes, ck_cost = cost, ck_servers = srvs\<rparr>))))))) w2 = (Inr ck, w')"
      unfolding create_checks_def by (simp only: inr_iffs) blast
    have w2: "w2 = w"
      using t by (rule readsD) (intro reads_intros)
    from rest obtain w3 w4 w5 u v y where k: "assertClientKind actor (kindFromGB (max 0 (ci_trafficGB inp))) (ci_serviceId inp)
          (max 0 (ci_trafficGB inp)) None w = (Inr y, w3)"
      and q: "assertQuota actor ?limit targets None w3 = (Inr u, w4)"
      and a: "assertAffordable (adm_id actor) (adm_role actor)
          (quoteClientCost w4 (actor_of actor) (ci_trafficGB inp) (ci_days inp)) w4 = (Inr v, w5)"
      and ck: "ck_limitBytes ck = ?limit" "ck_targets ck = targets"
        "ck_cost ck = quoteClientCost w4 (actor_of actor) (ci_trafficGB inp) (ci_days inp)"
      unfolding w2 Let_def by (simp only: inr_iffs) auto
    have w3: "w3 = w" by (rule readsD [OF k reads_assertClientKind])
    have w4: "w4 = w" using readsD [OF q reads_assertQuota] w3 by simp
    have w5: "w5 = w" using readsD [OF a reads_assertAffordable] w4 by simp
    show ?thesis using q a ck unfolding w3 w4 w5 by blast
  qed
  then obtain targets u v where f: "assertQuota actor ?limit targets None w = (Inr u, w)"
      "assertAffordable (adm_id actor) (adm_role actor) ?cost w = (Inr v, w)"
      "ck_limitBytes ck = ?limit" "ck_targets ck = targets" "ck_cost ck = ?cost" by blast
  show "\<exists>u. assertQuota actor (ck_limitBytes ck) (ck_targets ck) None w = (Inr u, w)" using f by auto
  show "ck_cost ck = ?cost" "ck_limitBytes ck = ?limit" using f by simp_all
  show "ck_cost ck \<le> 0 \<or> - creditLimit (pricing w) \<le> walletBalance w (adm_id actor) - ck_cost ck"
    using f(2,5) assms(2) by (auto simp: assertAffordable_def inr_iffs split: if_splits)
qed

text \<open>Nothing that creating a client runs after the insertion writes a row of a client.\<close>

lemma kept_clients_stable [preserves_intros]: "events_stable (\<lambda>w. clients w = cs)"
  by (simp add: events_stable_def eo_clients)

lemma kc_basic [preserves_intros]:
  "preserves (\<lambda>w. clients w = cs) new_id" "preserves (\<lambda>w. clients w = cs) (randomToken n)"
  "preserves (\<lambda>w. clients w = cs) randomUUID" "preserves (\<lambda>w. clients w = cs) now"
  "preserves (\<lambda>w. clients w = cs) (panel_do c)" "preserves (\<lambda>w. clients w = cs) (upd_links ids f)"
  "preserves (\<lambda>w. clients w = cs) (setPendingStart i d)" "preserves (\<lambda>w. clients w = cs) (getClientForActor actor i)"
  unfolding randomToken_def randomUUID_def now_def upd_links_def setPendingStart_def
  by (rule preservesI, simp add: new_id_def panel_do_eq split: option.split | (rule preserves_reads, rule reads_getClientForActor)
    | (intro preserves_intros preserves_modify, simp?))+

lemma kc_insert_links [preserves_intros]: "preserves (\<lambda>w. clients w = cs) (insert_links c s e ibs)"
  unfolding insert_links_def insert_link_def by (intro preserves_intros preserves_modify) simp

lemma kc_add_attempts: "preserves (\<lambda>w. clients w = cs) (add_attempts n k g c b ov hw e lst)"
  by (induction n arbitrary: k e lst) (auto simp: Let_def intro!: preserves_intros)

lemma kc_provision_all [preserves_intros]: "preserves (\<lambda>w. clients w = cs) (provision_all c ov label groups)"
  unfolding provision_all_def provision_group_def Let_def addToPanel_def by (intro preserves_intros kc_add_attempts)

lemma kc_run: "m w = (x, w') \<Longrightarrow> preserves (\<lambda>v. clients v = clients w) m \<Longrightarrow> clients w' = clients w"
  using preservesD [of "\<lambda>v. clients v = clients w" m w] by simp

lemma create_body_inr:
  assumes "create_body actor inp ck w = (Inr r, w')"
  obtains w1 c i uuid token w2 w3 where "client_frame w w1" "c = new_client actor inp ck (clock w) i uuid token"
    "client_frame (w1\<lparr>clients := clients w1 @ [c]\<rparr>) w2" "clients w2 = clients w @ [c]"
    "do_when (0 < ck_cost ck) (andthen (chargeWallet (adm_id actor) (adm_role actor) (- ck_cost ck) W_PURCHASE
        (plain_adjust R_client (cli_id c) ''create client'')) (ret ())) w2 = (Inr (), w3)"
    "client_frame w3 w'" "clients w' = clients w3"
proof -
  let ?c = "\<lambda>tm i uuid token. new_client actor inp ck tm i uuid token"
  let ?charge = "\<lambda>i. do_when (0 < ck_cost ck) (andthen (chargeWallet (adm_id actor) (adm_role actor) (- ck_cost ck) W_PURCHASE
        (plain_adjust R_client i ''create client'')) (ret ()))"
  from assms obtain uuid wa token wb i wc tm wd
    where 1: "randomUUID w = (Inr uuid, wa)" and 2: "randomToken 18 wa = (Inr token, wb)"
      and 3: "new_id wb = (Inr i, wc)" and 4: "now wc = (Inr tm, wd)"
      and rest: "\<exists>we wf wg errors. do_when (0 < delayed_days inp) (setPendingStart i (delayed_days inp))
          (wd\<lparr>clients := clients wd @ [?c tm i uuid token]\<rparr>) = (Inr (), we) \<and> ?charge i we = (Inr (), wf) \<and>
        client_frame wf w' \<and> clients w' = clients wf"
  proof (atomize_elim)
    let ?prov = "\<lambda>c uuid. provision_all c (if 0 < delayed_days inp then Some (- (delayed_days inp * DAY_MS)) else None)
      (configLabel (cli_name c) (cli_tag c)) (groupTargets (ck_targets ck) (ck_servers ck) uuid)"
    from assms obtain uuid wa token wb i wc tm wd we wf where
      s: "randomUUID w = (Inr uuid, wa)" "randomToken 18 wa = (Inr token, wb)"
        "new_id wb = (Inr i, wc)" "now wc = (Inr tm, wd)"
        "do_when (0 < delayed_days inp) (setPendingStart i (delayed_days inp))
          (wd\<lparr>clients := clients wd @ [?c tm i uuid token]\<rparr>) = (Inr (), we)" "?charge i we = (Inr (), wf)"
      and t: "bnd (?prov (?c tm i uuid token) uuid) (\<lambda>errors.
    andthen (audit (Some (adm_id actor)) ''client.create'' (JId i)
        [(''name'', JStr (cli_name (?c tm i uuid token))), (''tag'', opt_json JStr (cli_tag (?c tm i uuid token))), (''serviceId'', opt_json JId (ci_serviceId inp)),
         (''targets'', JInt (int (length (ck_targets ck)))), (''configs'', JInt (int (length (groupTargets (ck_targets ck) (ck_servers ck) uuid)))),
         (''startAfterUse'', if delayed_days inp = 0 then JNull else JInt (delayed_days inp)), (''errors'', JInt (int (length errors)))] None)
    (bnd (getClientForActor actor i) (\<lambda>full. ret (full, errors)))) wf = (Inr r, w')"
      unfolding create_body_def Let_def by (simp only: inr_iffs) auto
    have "client_frame wf w'"
      using t by (rule frame_run) (intro preserves_intros)
    moreover have "clients w' = clients wf" using t by (rule kc_run) (intro preserves_intros)
    ultimately show "\<exists>uuid wa token wb i wc tm wd. randomUUID w = (Inr uuid, wa) \<and> randomToken 18 wa = (Inr token, wb) \<and>
        new_id wb = (Inr i, wc) \<and> now wc = (Inr tm, wd) \<and>
        (\<exists>we wf wg errors. do_when (0 < delayed_days inp) (setPendingStart i (delayed_days inp))
          (wd\<lparr>clients := clients wd @ [?c tm i uuid token]\<rparr>) = (Inr (), we) \<and> ?charge i we = (Inr (), wf) \<and>
        client_frame wf w' \<and> clients w' = clients wf)" using s by blast
  qed
  from rest obtain we wf where 5: "do_when (0 < delayed_days inp) (setPendingStart i (delayed_days inp))
          (wd\<lparr>clients := clients wd @ [?c tm i uuid token]\<rparr>) = (Inr (), we)"
    and 6: "?charge i we = (Inr (), wf)" and 7: "client_frame wf w'" "clients w' = clients wf" by blast
  have "client_frame w wa" using 1 by (rule frame_run) (rule cf_random)
  moreover have "client_frame wa wb" using 2 by (rule frame_run) (rule cf_random)
  moreover have "client_frame wb wc" using 3 by (rule frame_run) (rule cf_new_id)
  moreover have "client_frame wc wd" using 4 by (rule frame_run) (rule cf_now)
  ultimately have "client_frame w wd" "client_frame w wc" by (blast intro: client_frame_trans)+
  moreover have "client_frame (wd\<lparr>clients := clients wd @ [?c tm i uuid token]\<rparr>) we"
    using 5 by (rule frame_run) (intro preserves_intros)
  moreover have "clients wd = clients w"
    using kc_run [OF 1 kc_basic(3)] kc_run [OF 2 kc_basic(2)] kc_run [OF 3 kc_basic(1)] kc_run [OF 4 kc_basic(4)] by simp
  moreover have "clients we = clients wd @ [?c tm i uuid token]"
    using kc_run [OF 5 preserves_when [OF kc_basic(7)]] by simp
  moreover have "tm = clock w"
    using 4 \<open>client_frame w wc\<close> by (auto simp: now_def gets_def client_frame_def store_frame_def)
  ultimately show thesis
    using that [of wd "?c tm i uuid token" i uuid token we wf] 6 7 by (simp add: new_client_def Let_def)
qed

text \<open>
  C2: A reseller cannot create his way out of his limits, and pays exactly the quote (safety). If
  \<open>createClient\<close> succeeds for a reseller then his account had not expired; the rows of the clients are
  those before, each unchanged, and one more: the client the checked input describes, his own, of the
  requested size; with it the traffic quota and the client limit still hold; every picked inbound was
  one he has access to; and the rows of the accounts are those before, each unchanged, but for his own
  balance, which dropped by \<open>quoteClientCost\<close>, not under minus the credit limit when anything was charged.
  No table of the shop (orders, payments, plans, customers, settings) changed.
\<close>
theorem createClient_within_limits:
  assumes "createClient actor inp w = (Inr r, w')" and "adm_role actor = ADMIN"
    and "find_admin (adm_id actor) w = Some actor"
    and "cost = quoteClientCost w (actor_of actor) (ci_trafficGB inp) (ci_days inp)"
  shows "\<not> expired_at (clock w) (adm_expiresAt actor) \<and>
    (\<exists>ck i uuid token. create_checks actor inp w = (Inr ck, w) \<and>
      (\<forall>t \<in> set (ck_targets ck). canUse (Some (access_rows actor w)) t) \<and> ck_limitBytes ck = gbToBytes (max 0 (ci_trafficGB inp)) \<and>
      clients w' = clients w @ [new_client actor inp ck (clock w) i uuid token]) \<and>
    (\<forall>q. adm_trafficQuota actor = Some q \<longrightarrow> allocated w' (adm_id actor) None \<le> q) \<and>
    (\<forall>l. adm_clientLimit actor = Some l \<longrightarrow> int (length (clients_of w' (adm_id actor))) \<le> l) \<and>
    admins w' = upd_rows (\<lambda>a. adm_id a = adm_id actor \<and> 0 < cost) (\<lambda>a. a\<lparr>adm_credit := adm_credit actor - cost\<rparr>) (admins w) \<and>
    admin_balance w' (adm_id actor) = Some (adm_credit actor - max 0 cost) \<and>
    (0 < cost \<longrightarrow> - creditLimit (pricing w) \<le> adm_credit actor - cost) \<and>
    (\<forall>j. j \<noteq> adm_id actor \<longrightarrow> admin_balance w' j = admin_balance w j) \<and> store_frame w w'"
proof -
  let ?me = "adm_id actor"
  from assms(1) obtain ck wc where ck': "create_checks actor inp w = (Inr ck, wc)" and body': "create_body actor inp ck wc = (Inr r, w')"
    unfolding createClient_def inr_iffs by blast
  note k = create_checks_inr [OF ck' assms(2)]
  have wc: "wc = w" by (rule k(1))
  note ck = ck' [unfolded wc] and body = body' [unfolded wc]
  obtain u where "assertQuota actor (ck_limitBytes ck) (ck_targets ck) None w = (Inr u, w)" using k(2) by blast
  note q = assertQuota_inr [OF this assms(2)]
  from body obtain w1 c i uuid token w2 w3 where b: "client_frame w w1" "c = new_client actor inp ck (clock w) i uuid token"
    "client_frame (w1\<lparr>clients := clients w1 @ [c]\<rparr>) w2" "clients w2 = clients w @ [c]"
    "do_when (0 < ck_cost ck) (andthen (chargeWallet ?me (adm_role actor) (- ck_cost ck) W_PURCHASE
        (plain_adjust R_client (cli_id c) ''create client'')) (ret ())) w2 = (Inr (), w3)"
    "client_frame w3 w'" "clients w' = clients w3" by (rule create_body_inr)
  have c: "cli_adminId c = ?me" "cli_trafficLimit c = ck_limitBytes ck" by (simp_all add: b(2) new_client_def Let_def)
  have cost: "ck_cost ck = cost" by (simp add: k(3) assms(4))
  have adm2: "admins w2 = admins w" and tx2: "wallet_txs w2 = wallet_txs w" and pr2: "pricing w2 = pricing w"
    using b(1,3) by (simp_all add: client_frame_def store_frame_def)
  have bal2: "admin_balance w2 = admin_balance w" by (simp add: fun_eq_iff admin_balance_def find_admin_def adm2)
  have st2: "store_frame w w2" using b(1,3) by (simp add: client_frame_def store_frame_def)
  have found2: "find_admin ?me w2 = Some actor" using assms(3) by (simp add: find_admin_def adm2)
  have step: "clients w3 = clients w2 \<and> store_frame w2 w3 \<and>
      admins w3 = upd_rows (\<lambda>a. adm_id a = ?me \<and> 0 < cost) (\<lambda>a. a\<lparr>adm_credit := adm_credit actor - cost\<rparr>) (admins w) \<and>
      admin_balance w3 ?me = Some (adm_credit actor - max 0 cost) \<and>
      (\<forall>j. j \<noteq> ?me \<longrightarrow> admin_balance w3 j = admin_balance w j)"
  proof (cases "0 < cost")
    case False
    then have "w3 = w2" using b(5) by (simp add: cost)
    then show ?thesis using False assms(3) by (simp add: bal2 adm2, simp add: admin_balance_def upd_rows_def)
  next
    case True
    let ?o = "plain_adjust R_client (cli_id c) ''create client''"
    from b(5) True obtain t where ch: "chargeWallet ?me ADMIN (- cost) W_PURCHASE ?o w2 = (Inr t, w3)"
      by (auto simp: cost inr_iffs assms(2))
    from chargeWallet_debit [of ?me w2 actor "- cost" ADMIN W_PURCHASE ?o] found2 True ch
    obtain row where e: "events_only (moved ?me (adm_credit actor - cost) row w2) w3"
      and d: "admin_balance w3 ?me = Some (adm_credit actor - cost)"
        "\<forall>j. j \<noteq> ?me \<longrightarrow> admin_balance w3 j = admin_balance w2 j"
      by (auto split: if_splits)
    have "client_frame (moved ?me (adm_credit actor - cost) row w2) w3" using e by (rule events_client_frame)
    moreover have "store_frame w2 (moved ?me (adm_credit actor - cost) row w2)"
      by (simp add: moved_def set_credit_def store_frame_def upd_rows_def comp_def)
    moreover have "clients w3 = clients w2"
      "admins w3 = upd_rows (\<lambda>a. adm_id a = ?me) (\<lambda>a. a\<lparr>adm_credit := adm_credit actor - cost\<rparr>) (admins w)"
      by (simp_all add: eo_clients [OF e] eo_admins [OF e] moved_def set_credit_def adm2)
    ultimately show ?thesis
      using d True by (auto simp: client_frame_def bal2 intro: store_frame_trans)
  qed
  have cl: "clients w' = clients w @ [c]" using b(4,7) step by simp
  have sz: "sizes w' = sizes w @ [(cli_id c, ?me, ck_limitBytes ck)]" by (simp add: sizes_def cl c)
  have adm: "admins w' = admins w3" using b(6) by (simp add: client_frame_def)
  have bal: "admin_balance w' = admin_balance w3" by (simp add: fun_eq_iff admin_balance_def find_admin_def adm)
  have st: "store_frame w w'" using st2 step b(6) by (auto intro: store_frame_trans client_store)
  have credit: "walletBalance w ?me = adm_credit actor" by (simp add: walletBalance_def assms(3))
  show ?thesis
  proof (intro conjI)
    show "\<not> expired_at (clock w) (adm_expiresAt actor)" by (rule q(2))
    show "\<exists>ck i uuid token. create_checks actor inp w = (Inr ck, w) \<and>
      (\<forall>t \<in> set (ck_targets ck). canUse (Some (access_rows actor w)) t) \<and> ck_limitBytes ck = gbToBytes (max 0 (ci_trafficGB inp)) \<and>
      clients w' = clients w @ [new_client actor inp ck (clock w) i uuid token]"
      using ck q(5) k(4) cl b(2) by blast
    show "\<forall>q. adm_trafficQuota actor = Some q \<longrightarrow> allocated w' ?me None \<le> q"
      using q(4) by (auto simp: allocated_sizes sz)
    show "\<forall>l. adm_clientLimit actor = Some l \<longrightarrow> int (length (clients_of w' ?me)) \<le> l"
      using q(3) by (auto simp: clients_of_sizes sz)
    show "admins w' = upd_rows (\<lambda>a. adm_id a = ?me \<and> 0 < cost) (\<lambda>a. a\<lparr>adm_credit := adm_credit actor - cost\<rparr>) (admins w)"
      using step adm by simp
    show "admin_balance w' ?me = Some (adm_credit actor - max 0 cost)" using step bal by simp
    show "0 < cost \<longrightarrow> - creditLimit (pricing w) \<le> adm_credit actor - cost" using k(5) by (auto simp: cost credit)
    show "\<forall>j. j \<noteq> ?me \<longrightarrow> admin_balance w' j = admin_balance w j" using step bal by simp
    show "store_frame w w'" by (rule st)
  qed
qed

text \<open>A concrete shop: one active server with one inbound, open to the reseller.\<close>

definition demo_server :: server where
  "demo_server = \<lparr>srv_id = 5, srv_name = ''s'', srv_isActive = True,
     srv_inbounds = [\<lparr>ib_id = 2, ib_remark = ''r'', ib_port = 443, ib_protocol = ''vless'', ib_enable = True,
       ib_clients = [], ib_network = None, ib_security = None\<rparr>]\<rparr>"

definition demo_shop :: world where
  "demo_shop = demo_world\<lparr>servers := [demo_server],
     server_accesses := [\<lparr>acc_adminId = 3, acc_serverId = 5, acc_inboundIds = []\<rparr>]\<rparr>"

definition demo_create :: create_input where
  "demo_create = \<lparr>ci_name = ''ali'', ci_tag = None, ci_serviceId = None, ci_trafficGB = 50, ci_days = 30,
     ci_startAfterUse = False, ci_ipLimit = None, ci_note = None, ci_telegramId = None, ci_phone = None,
     ci_targets = [(Some 5, Some 2)]\<rparr>"

definition succeeds :: "(err + 'a) \<times> world \<Rightarrow> bool" where
  "succeeds r = (case fst r of Inl _ \<Rightarrow> False | Inr _ \<Rightarrow> True)"

lemma run_inr: "succeeds r \<Longrightarrow> \<exists>x w'. r = (Inr x, w')"
  by (cases r) (auto simp: succeeds_def split: sum.splits)

lemma createClient_within_limits_witness:
  "\<exists>r w'. createClient (demo_admin 3 ADMIN 500) demo_create demo_shop = (Inr r, w') \<and> admin_balance w' 3 = Some (- 30)"
proof -
  let ?a = "demo_admin 3 ADMIN 500"
  have "succeeds (createClient ?a demo_create demo_shop)" by code_simp
  then obtain r w' where run: "createClient ?a demo_create demo_shop = (Inr r, w')" using run_inr by blast
  have "find_admin 3 demo_shop = Some ?a" by (simp add: demo_shop_def find_admin_def)
  moreover have "quoteClientCost demo_shop (actor_of ?a) (ci_trafficGB demo_create) (ci_days demo_create) = 530" by code_simp
  ultimately show ?thesis using createClient_within_limits [OF run, of 530] run by simp
qed

section \<open>Other people's clients\<close>

lemma getClientForActor_foreign:
  "(\<And>c. find_client i w = Some c \<Longrightarrow> \<not> in_scope actor c) \<Longrightarrow> getClientForActor actor i w = (Inl client_not_found, w)"
  by (auto simp: getClientForActor_def split: option.split)

lemma getClientForActor_own:
  "find_client i w = Some c \<Longrightarrow> in_scope actor c \<Longrightarrow> getClientForActor actor i w = (Inr (c, links_of w i), w)"
  by (simp add: getClientForActor_def)

lemma bnd_own:
  "find_client i w = Some c \<Longrightarrow> in_scope actor c \<Longrightarrow> bnd (getClientForActor actor i) f w = f (c, links_of w i) w"
  by (simp add: bnd_def getClientForActor_own)

lemma bnd_fails: "m w = (Inl e, w') \<Longrightarrow> bnd m f w = (Inl e, w')"
  by (simp add: bnd_def)

lemma bnd_runs: "m w = (Inr x, w') \<Longrightarrow> bnd m f w = f x w'"
  by (simp add: bnd_def)

section \<open>Deleting\<close>

lemma never_throws_basic: "never_throws (ret x)" "never_throws (gets f)" "never_throws (modify f)"
  by (simp_all add: never_throws_def)

lemma never_throws_bnd:
  assumes "never_throws m" and "\<And>x. never_throws (f x)" shows "never_throws (bnd m f)"
  unfolding never_throws_def
proof
  fix w
  obtain x w1 where m: "m w = (Inr x, w1)" using assms(1) by (rule never_throwsE)
  obtain y w2 where "f x w1 = (Inr y, w2)" using assms(2) by (rule never_throwsE)
  with m show "\<exists>y w'. bnd m f w = (Inr y, w')" by (simp add: bnd_def)
qed

lemma never_throws_catch:
  assumes "\<And>e. never_throws (h e)" shows "never_throws (catch_op m h)"
  unfolding never_throws_def
proof
  fix w
  show "\<exists>x w'. catch_op m h w = (Inr x, w')"
  proof (cases "m w")
    case (Pair r w1)
    show ?thesis
    proof (cases r)
      case (Inl e)
      obtain y w2 where "h e w1 = (Inr y, w2)" using assms by (rule never_throwsE)
      then show ?thesis by (simp add: catch_op_def Pair Inl)
    next
      case (Inr x)
      then show ?thesis by (simp add: catch_op_def Pair)
    qed
  qed
qed

lemma never_throws_fold: "(\<And>x acc. never_throws (f x acc)) \<Longrightarrow> never_throws (fold_op f xs acc)"
  by (induction xs arbitrary: acc) (simp_all add: never_throws_basic never_throws_bnd)

lemma never_throws_delete_group: "never_throws (delete_group srvs c g errs)"
  unfolding delete_group_def Let_def
  by (auto split: option.split intro: never_throws_basic never_throws_catch)

lemma cf_delete_group [preserves_intros]: "preserves (client_frame w) (delete_group srvs c g errs)"
  unfolding delete_group_def by (intro preserves_intros)

lemma preserves_panel_do:
  "(\<And>w c. I w \<Longrightarrow> I (w\<lparr>panel_log := panel_log w @ [c]\<rparr>)) \<Longrightarrow> preserves I (panel_do c)"
  by (rule preservesI) (simp add: panel_do_eq split: option.split)

lemma delete_group_keeps: "preserves (\<lambda>w. (clients w, client_servers w) = v) (delete_group srvs c g errs)"
  unfolding delete_group_def by (intro preserves_intros preserves_panel_do) simp

lemma andthen_runs: "m w = (Inr x, w') \<Longrightarrow> andthen m k w = k w'"
  by (simp add: andthen_def bnd_def)

lemma deleteClient_run:
  assumes "find_client i w = Some c" and "in_scope actor c"
  shows "\<exists>errs w'. deleteClient actor i w = (Inr errs, w') \<and>
    find_client i w' = None \<and> links_of w' i = [] \<and> getPendingStart i w' = None \<and>
    (\<forall>r \<in> set (orders w'). ord_clientId r \<noteq> Some i) \<and>
    (\<forall>j. j \<noteq> i \<longrightarrow> find_client j w' = find_client j w \<and> links_of w' j = links_of w j) \<and>
    admins w' = admins w \<and> wallet_txs w' = wallet_txs w"
proof -
  let ?srvs = "servers_in (map cs_serverId (links_of w i)) w"
  let ?m = "fold_op (delete_group ?srvs c) (groupLinks (links_of w i)) []"
  have id: "cli_id c = i" using assms(1) unfolding find_client_def by (rule find_row_key)
  obtain errs w1 where m: "?m w = (Inr errs, w1)"
    by (rule never_throwsE [OF never_throws_fold [OF never_throws_delete_group]])
  have "preserves (\<lambda>v. (clients v, client_servers v) = (clients w, client_servers w)) ?m"
    by (intro preserves_intros delete_group_keeps)
  then have same: "clients w1 = clients w" "client_servers w1 = client_servers w"
    using preservesD [of "\<lambda>v. (clients v, client_servers v) = (clients w, client_servers w)" ?m w] m by simp_all
  have cf: "client_frame w w1"
    using m by (rule frame_run) (intro preserves_intros)
  define w2 where "w2 = snd (clearPendingStart i (snd (drop_client i w1)))"
  define w3 where "w3 = snd (audit (Some (adm_id actor)) ''client.delete'' (JId i)
        [(''name'', JStr (cli_name c)), (''errors'', JInt (int (length errs)))] None w2)"
  have run: "deleteClient actor i w = (Inr errs, w3)"
    unfolding deleteClient_def bnd_own [OF assms] id w3_def w2_def
    by (simp add: bnd_runs [of ?m w, OF m] id drop_client_def clearPendingStart_def andthen_quiet quiet_audit)
  have ev: "events_only w2 w3" unfolding w3_def by (intro quiet_snd quiet_audit)
  have f: "find_client j w3 = (if j = i then None else find_client j w)" for j
    by (simp add: find_client_def eo_clients [OF ev] w2_def clearPendingStart_def drop_client_def find_row_del same)
  have l: "links_of w3 j = (if j = i then [] else links_of w j)" for j
    by (auto simp: links_of_def eo_client_servers [OF ev] w2_def clearPendingStart_def drop_client_def same del_rows_def
        intro: filter_cong)
  have p: "getPendingStart i w3 = None"
    using getPendingStart_clear [of i "snd (drop_client i w1)"]
    by (simp add: getPendingStart_def eo_pending_starts [OF ev] w2_def)
  have r: "\<forall>r \<in> set (orders w3). ord_clientId r \<noteq> Some i"
    by (auto simp: eo_orders [OF ev] w2_def clearPendingStart_def drop_client_def set_upd_rows)
  have a: "admins w3 = admins w" "wallet_txs w3 = wallet_txs w"
    using cf by (simp_all add: eo_admins [OF ev] eo_wallet_txs [OF ev] w2_def clearPendingStart_def drop_client_def client_frame_def)
  show ?thesis
    using run f l p r a by auto
qed

text \<open>
  Deleting a client always goes through (functional, whatever the panels answer). For a client
  the actor may touch, \<open>deleteClient\<close> returns (panel failures are only reported), and afterwards the
  client, its links and its delayed start are gone, no order points to it, every other client and
  its links are untouched, and no money moved.
\<close>
theorem deleteClient_spec:
  assumes "find_client i w = Some c" and "in_scope actor c"
  shows "\<exists>errs w'. deleteClient actor i w = (Inr errs, w') \<and>
    find_client i w' = None \<and> links_of w' i = [] \<and> getPendingStart i w' = None \<and>
    (\<forall>r \<in> set (orders w'). ord_clientId r \<noteq> Some i) \<and>
    (\<forall>j. j \<noteq> i \<longrightarrow> find_client j w' = find_client j w \<and> links_of w' j = links_of w j) \<and>
    admins w' = admins w \<and> wallet_txs w' = wallet_txs w"
  by (rule deleteClient_run [OF assms])

lemma deleteClient_spec_witness:
  "\<exists>errs w'. deleteClient (demo_admin 3 ADMIN 500) 7 (demo_world\<lparr>clients := [demo_client 7]\<rparr>) = (Inr errs, w') \<and>
     find_client 7 w' = None"
  using deleteClient_spec [of 7 "demo_world\<lparr>clients := [demo_client 7]\<rparr>" "demo_client 7" "demo_admin 3 ADMIN 500"]
  by (auto simp: find_client_def in_scope_def)

section \<open>Updating\<close>

lemma no_update_sel [simp]:
  "ui_name no_update = None" "ui_tag no_update = None" "ui_trafficGB no_update = None" "ui_expiresAt no_update = None"
  "ui_addDays no_update = None" "ui_ipLimit no_update = None" "ui_note no_update = None" "ui_telegramId no_update = None"
  "ui_phone no_update = None" "ui_enabled no_update = None"
  by (simp_all add: no_update_def)

text \<open>
  C34: A refused extension of a client with a delayed start loses the delayed start (error path). For
  a reseller who cannot afford the added days, \<open>updateClient\<close> is refused with \<open>insufficient_credit\<close>
  and leaves the client's row as it was, but by then its delayed start has been cleared: the
  client, which has no expiry of its own while it waits for its first connection, never gets one.
\<close>
theorem refused_extension_drops_start:
  assumes "find_client i w = Some c" and "in_scope actor c" and "adm_role actor = ADMIN"
    and "0 < d" and "chargeOnRenew (pricing w)"
    and "0 < quoteClientCost w (actor_of actor) 0 d"
    and "walletBalance w (adm_id actor) - quoteClientCost w (actor_of actor) 0 d < - creditLimit (pricing w)"
  shows "\<exists>w'. updateClient actor i (no_update\<lparr>ui_addDays := Some d\<rparr>) w = (Inl insufficient_credit, w') \<and>
    find_client i w' = Some c \<and> getPendingStart i w' = None \<and> admins w' = admins w"
proof -
  have id: "cli_id c = i" using assms(1) unfolding find_client_def by (rule find_row_key)
  let ?w1 = "snd (clearPendingStart i w)"
  have w1: "pricing ?w1 = pricing w" "admins ?w1 = admins w" "clients ?w1 = clients w"
    by (simp_all add: clearPendingStart_def)
  have q: "quoteClientCost ?w1 a g x = quoteClientCost w a g x" and b: "walletBalance ?w1 k = walletBalance w k" for a g x k
    by (simp_all add: quoteClientCost_def unitPricesFor_def find_admin_def walletBalance_def w1 cong: option.case_cong)
  have "renewal_cost actor c (no_update\<lparr>ui_addDays := Some d\<rparr>) ?w1 = (Inl insufficient_credit, ?w1)"
    using assms(3-7)
    by (simp add: renewal_cost_def add_days_def no_update_def bnd_def andthen_def assertAffordable_def q b w1)
  then have "updateClient actor i (no_update\<lparr>ui_addDays := Some d\<rparr>) w = (Inl insufficient_credit, ?w1)"
    unfolding updateClient_def bnd_own [OF assms(1,2)]
    using assms(4) by (simp add: no_update_def resize_checks_def add_days_def id bnd_def andthen_def clearPendingStart_def)
  then show ?thesis
    using assms(1) by (auto simp: getPendingStart_clear find_client_def w1)
qed

lemma refused_extension_drops_start_witness:
  "\<exists>w'. updateClient (demo_admin 3 ADMIN 500) 7 (no_update\<lparr>ui_addDays := Some 700\<rparr>)
      (demo_world\<lparr>clients := [demo_client 7], pending_starts := [\<lparr>ps_clientId = 7, ps_days = 30, ps_armedAt = 0\<rparr>]\<rparr>) =
      (Inl insufficient_credit, w') \<and> getPendingStart 7 w' = None"
proof -
  let ?a = "demo_admin 3 ADMIN 500"
  let ?w = "demo_world\<lparr>clients := [demo_client 7], pending_starts := [\<lparr>ps_clientId = 7, ps_days = 30, ps_armedAt = 0\<rparr>]\<rparr>"
  have q: "quoteClientCost ?w (actor_of ?a) 0 700 = 700"
    by (simp add: quoteClientCost_def actor_of_def unitPricesFor_def billable_def js_ceil_def)
  show ?thesis
    using refused_extension_drops_start [of 7 ?w "demo_client 7" ?a 700]
    by (auto simp: q find_client_def in_scope_def walletBalance_def find_admin_def)
qed

text \<open>The size of one client replaced.\<close>

definition resized :: "uid \<Rightarrow> int \<Rightarrow> (uid \<times> uid \<times> int) list \<Rightarrow> (uid \<times> uid \<times> int) list" where
  "resized i b = map (\<lambda>(j, owner, s). (j, owner, if j = i then b else s))"

lemma sum_without:
  assumes "distinct (map fst xs)" and "(i, a, s) \<in> set xs"
  shows "sum_list (map (\<lambda>(j, owner, n). n) (filter (\<lambda>(j, owner, n). owner = a) (resized i b xs))) =
    sum_list (map (\<lambda>(j, owner, n). n) (filter (\<lambda>(j, owner, n). owner = a \<and> j \<noteq> i) xs)) + (b::int)"
  using assms
proof (induction xs)
  case Nil
  then show ?case by simp
next
  case (Cons x xs)
  obtain j owner n where x: "x = (j, owner, n)" by (cases x)
  show ?case
  proof (cases "j = i")
    case True
    then have notin: "i \<notin> fst ` set xs" and own: "owner = a" using Cons.prems by (auto simp: x image_iff)
    have "resized i b xs = xs" and "filter (\<lambda>(j, owner, n). owner = a \<and> j \<noteq> i) xs = filter (\<lambda>(j, owner, n). owner = a) xs"
      using notin by (auto simp: resized_def intro!: map_idI filter_cong split: prod.splits) (metis fst_conv image_eqI)+
    then show ?thesis using True own by (simp add: x resized_def)
  next
    case False
    then show ?thesis using Cons by (auto simp: x resized_def)
  qed
qed

lemma sizes_upd_limit:
  assumes "\<And>c. cli_id (f c) = cli_id c \<and> cli_adminId (f c) = cli_adminId c \<and> cli_trafficLimit (f c) = b"
  shows "sizes (w\<lparr>clients := upd_rows (\<lambda>c. cli_id c = i) f (clients w)\<rparr>) = resized i b (sizes w)"
  by (auto simp: sizes_def resized_def upd_rows_def assms)

lemma reads_resize_checks [reads_intros]: "reads (resize_checks actor c inp)"
  unfolding resize_checks_def by (intro reads_intros)

lemma reads_renewal_cost [reads_intros]: "reads (renewal_cost actor c inp)"
  unfolding renewal_cost_def by (intro reads_intros)

lemma sizes_charge: "chargeWallet i role amount kind opts w = (x, w') \<Longrightarrow> sizes w' = sizes w"
proof (cases rule: chargeWallet_cases [of i role amount kind opts w])
  case (charged a row v)
  have "sizes v = sizes w"
    using events_client_frame [OF charged(4)] by (simp add: client_frame_def sizes_def moved_def set_credit_def)
  then show "chargeWallet i role amount kind opts w = (x, w') \<Longrightarrow> sizes w' = sizes w" using charged(3) by simp
qed simp_all

text \<open>
  C15: Resizing keeps the traffic quota (bounds). If \<open>updateClient\<close> succeeds in giving one of a
  reseller's clients a new size, then exactly that client's size changed, to the bytes asked for,
  and the reseller's clients together are still within his quota.
\<close>
theorem updateClient_within_quota:
  assumes "updateClient actor i inp w = (Inr r, w')" and "adm_role actor = ADMIN" and "ui_trafficGB inp = Some g"
    and "distinct (map cli_id (clients w))"
  shows "sizes w' = resized i (gbToBytes (max 0 g)) (sizes w) \<and>
    (\<forall>q. adm_trafficQuota actor = Some q \<longrightarrow> allocated w' (adm_id actor) None \<le> q)"
proof -
  let ?b = "gbToBytes (max 0 g)"
  obtain c where c: "find_client i w = Some c" and sc: "in_scope actor c"
  proof -
    have "getClientForActor actor i w \<noteq> (Inl client_not_found, w)"
      using assms(1) by (auto simp: updateClient_def bnd_def)
    then have "\<exists>c. find_client i w = Some c \<and> in_scope actor c"
      using getClientForActor_foreign [of i w actor] by blast
    then show thesis using that by blast
  qed
  have id: "cli_id c = i" using c unfolding find_client_def by (rule find_row_key)
  have own: "cli_adminId c = adm_id actor" using sc assms(2) by (simp add: in_scope_def)
  from assms(1) obtain u w1 w2 w3 cost tm where
      s1: "resize_checks actor c inp w = (Inr u, w1)"
    and s2: "do_when (ui_expiresAt inp \<noteq> None \<or> add_days inp \<noteq> None) (clearPendingStart i) w1 = (Inr (), w2)"
    and s3: "renewal_cost actor c inp w2 = (Inr cost, w3)"
    and s4: "\<exists>x w4 y w5. upd_client i (apply_update tm c inp) w3 = (Inr x, w4) \<and> charge_renewal actor i cost w4 = (Inr y, w5) \<and>
        finish_update actor i inp w5 = (Inr r, w')"
    unfolding updateClient_def bnd_own [OF c sc] prod.case id now_def inr_iffs by blast
  have w1: "w1 = w" using s1 by (rule readsD) (rule reads_resize_checks)
  note rc = s1 [unfolded w1]
  have "\<exists>y. assertQuota actor ?b [] (Some i) w = (Inr y, w)"
  proof -
    from rc obtain y z u where k: "assertClientKind actor (kindFromGB (max 0 g)) (cli_serviceId c) (max 0 g) (Some i) w = (Inr y, z)"
      and q: "assertQuota actor ?b [] (Some i) z = (Inr u, w)"
      unfolding resize_checks_def assms(3) option.case Let_def id andthen_inr by blast
    have "z = w" using k by (rule readsD) (rule reads_assertClientKind)
    then show ?thesis using q by blast
  qed
  then obtain y where "assertQuota actor ?b [] (Some i) w = (Inr y, w)" by blast
  note quota = assertQuota_inr [OF this assms(2)]
  have "sizes w' = resized i ?b (sizes w)"
  proof -
    from s4 obtain x w4 y w5 where up: "upd_client i (apply_update tm c inp) w3 = (Inr x, w4)"
      and ch: "charge_renewal actor i cost w4 = (Inr y, w5)" and fin: "finish_update actor i inp w5 = (Inr r, w')" by blast
    have "client_frame w w2" using s2 unfolding w1 by (rule frame_run) (intro preserves_intros)
    moreover have "w3 = w2" using s3 by (rule readsD) (rule reads_renewal_cost)
    moreover have "client_frame w5 w'" using fin by (rule frame_run) (intro preserves_intros)
    moreover have "sizes w4 = resized i ?b (sizes w3)"
      using up assms(3) by (auto simp: upd_client_def apply_update_def intro!: sizes_upd_limit)
    moreover have "sizes w5 = sizes w4"
      using ch by (cases "0 < cost") (auto simp: charge_renewal_def inr_iffs dest: sizes_charge)
    ultimately show ?thesis by (simp add: client_frame_def)
  qed
  moreover have "(i, adm_id actor, cli_trafficLimit c) \<in> set (sizes w)"
    using find_row_in [OF c [unfolded find_client_def]] by (auto simp: sizes_def id own image_iff intro!: bexI [of _ c])
  moreover have "distinct (map fst (sizes w))" using assms(4) by (simp add: sizes_def comp_def)
  ultimately have "allocated w' (adm_id actor) None = allocated w (adm_id actor) (Some i) + ?b"
    using sum_without [of "sizes w" i "adm_id actor" "cli_trafficLimit c" ?b] by (simp add: allocated_sizes)
  then show ?thesis using quota(4) \<open>sizes w' = resized i ?b (sizes w)\<close> by auto
qed

lemma read_run: "succeeds (m w) \<Longrightarrow> reads m \<Longrightarrow> \<exists>x. m w = (Inr x, w)"
  using run_inr [of "m w"] readsD [of m w] by blast

lemma updateClient_within_quota_witness:
  "\<exists>r w'. updateClient (demo_admin 3 ADMIN 500) 7 (no_update\<lparr>ui_trafficGB := Some 60\<rparr>) (demo_world\<lparr>clients := [demo_client 7]\<rparr>) = (Inr r, w') \<and>
     sizes w' = [(7, 3, 60 * GB)]"
proof -
  let ?a = "demo_admin 3 ADMIN 500" and ?i = "no_update\<lparr>ui_trafficGB := Some 60\<rparr>" and ?w = "demo_world\<lparr>clients := [demo_client 7]\<rparr>"
  have c: "find_client 7 ?w = Some (demo_client 7)" "in_scope ?a (demo_client 7)" by (simp_all add: find_client_def in_scope_def)
  have "succeeds (resize_checks ?a (demo_client 7) ?i ?w)" by code_simp
  then obtain u where 1: "resize_checks ?a (demo_client 7) ?i ?w = (Inr u, ?w)"
    using read_run [OF _ reads_resize_checks] by blast
  have "fst (renewal_cost ?a (demo_client 7) ?i ?w) = Inr 100" by code_simp
  then have 2: "renewal_cost ?a (demo_client 7) ?i ?w = (Inr 100, ?w)"
    using readsD [OF _ reads_renewal_cost] by (metis prod.collapse)
  let ?rest = "andthen (upd_client 7 (apply_update 1000 (demo_client 7) ?i)) (andthen (charge_renewal ?a 7 100) (finish_update ?a 7 ?i))"
  have "succeeds (?rest ?w)" by code_simp
  then have "succeeds (updateClient ?a 7 ?i ?w)"
    unfolding updateClient_def bnd_own [OF c]
    by (simp add: add_days_def andthen_def bnd_def 1 2 now_def)
  then obtain r w' where run: "updateClient ?a 7 ?i ?w = (Inr r, w')" using run_inr by blast
  have "gbToBytes (max 0 60) = 60 * GB" by code_simp
  then show ?thesis using updateClient_within_quota [OF run, of 60] run by (simp add: sizes_def resized_def)
qed

section \<open>Labels of added configs\<close>

fun num_of :: "string \<Rightarrow> nat" where
  "num_of [] = 0"
| "num_of (c # cs) = (case find (\<lambda>k. digit_char k = c) [0..<10] of Some k \<Rightarrow> k | None \<Rightarrow> 0) * 10 ^ length cs + num_of cs"

lemma num_of_append: "num_of (a @ b) = num_of a * 10 ^ length b + num_of b"
  by (induction a) (auto simp: power_add algebra_simps)

lemma num_of_digit: "k < 10 \<Longrightarrow> num_of [digit_char k] = k"
proof -
  have "\<forall>k \<in> set [0..<10]. num_of [digit_char k] = k" by code_simp
  then show "k < 10 \<Longrightarrow> num_of [digit_char k] = k" by simp
qed

lemma num_of_show: "num_of (show_nat n) = n"
proof (induction n rule: less_induct)
  case (less n)
  show ?case
  proof (cases "n < 10")
    case True
    then show ?thesis by (simp only: show_nat.simps [of n] if_True num_of_digit)
  next
    case False
    then have "num_of (show_nat (n div 10)) = n div 10" using less by simp
    moreover have "show_nat n = show_nat (n div 10) @ [digit_char (n mod 10)]" using False by (simp add: show_nat.simps [of n])
    ultimately show ?thesis
      using num_of_digit [of "n mod 10"] num_of_append [of "show_nat (n div 10)" "[digit_char (n mod 10)]"] by simp
  qed
qed

lemma nth_label_Suc: "nth_label label (Suc j) = label @ ''-'' @ show_nat (j + 2)"
  by (simp add: nth_label_def)

lemma nth_label_0: "nth_label label 0 = label"
  by (simp add: nth_label_def)

lemma inj_nth_label: "nth_label label j = nth_label label k \<Longrightarrow> j = k"
proof -
  assume eq: "nth_label label j = nth_label label k"
  have len: "length (nth_label label (Suc n)) \<noteq> length label" for n
    unfolding nth_label_Suc by simp
  show "j = k"
  proof (cases j; cases k)
    fix m n assume j: "j = Suc m" and k: "k = Suc n"
    have "show_nat (m + 2) = show_nat (n + 2)" using eq unfolding j k nth_label_Suc by simp
    then have "num_of (show_nat (m + 2)) = num_of (show_nat (n + 2))" by simp
    then show ?thesis unfolding num_of_show j k by simp
  next
    fix n assume j: "j = 0" and k: "k = Suc n"
    have "length label = length (nth_label label (Suc n))" using eq unfolding j k nth_label_0 by (rule arg_cong)
    then show ?thesis using len by metis
  next
    fix m assume j: "j = Suc m" and k: "k = 0"
    have "length (nth_label label (Suc m)) = length label" using eq unfolding j k nth_label_0 by (rule arg_cong)
    then show ?thesis using len by metis
  qed simp
qed

lemma free_email_search:
  "(\<forall>n \<le> fuel. free_email fuel used label k \<noteq> nth_label label (k + n) \<or> nth_label label (k + n) \<in> set used) \<Longrightarrow>
   \<forall>n \<le> fuel. nth_label label (k + n) \<in> set used"
proof (induction fuel arbitrary: k)
  case 0
  then show ?case by simp
next
  case (Suc fuel)
  have here: "nth_label label k \<in> set used"
    using Suc.prems [rule_format, of 0] by (auto split: if_splits)
  have step: "\<forall>n \<le> fuel. free_email fuel used label (Suc k) \<noteq> nth_label label (Suc k + n) \<or> nth_label label (Suc k + n) \<in> set used"
  proof (intro allI impI)
    fix n assume "n \<le> fuel"
    moreover have "free_email (Suc fuel) used label k = free_email fuel used label (Suc k)" using here by simp
    ultimately show "free_email fuel used label (Suc k) \<noteq> nth_label label (Suc k + n) \<or> nth_label label (Suc k + n) \<in> set used"
      using Suc.prems [rule_format, of "Suc n"] by (simp del: free_email.simps)
  qed
  show ?case
  proof (intro allI impI)
    fix n assume n: "n \<le> Suc fuel"
    show "nth_label label (k + n) \<in> set used"
    proof (cases n)
      case 0
      then show ?thesis using here by simp
    next
      case (Suc m)
      then show ?thesis using Suc.IH [OF step, rule_format, of m] n by simp
    qed
  qed
qed

text \<open>
  A config that is added to a client gets a label that is free on its server (bounds,
  termination). The search of \<open>setClientTargets\<close> through \<open>label\<close>, \<open>label-2\<close>, ... finds a label that is
  not in use after at most as many steps as there are labels in use, so the loop ends.
\<close>
theorem free_email_free:
  "free_email (length used) used label 0 \<notin> set used \<and> (\<exists>k \<le> length used. free_email (length used) used label 0 = nth_label label k)"
proof -
  have some: "\<exists>n \<le> fuel. free_email fuel used label k = nth_label label (k + n)" for fuel k
  proof (induction fuel arbitrary: k)
    case 0
    then show ?case by simp
  next
    case (Suc fuel)
    obtain n where "n \<le> fuel" "free_email fuel used label (Suc k) = nth_label label (Suc k + n)" using Suc.IH by blast
    then show ?case by (auto intro: exI [of _ "Suc n"] exI [of _ 0])
  qed
  have free: "free_email (length used) used label 0 \<notin> set used"
  proof
    assume bad: "free_email (length used) used label 0 \<in> set used"
    have "\<forall>n \<le> length used. nth_label label (0 + n) \<in> set used"
      using bad by (intro free_email_search) metis
    then have "nth_label label ` {0..length used} \<subseteq> set used" by auto
    then have "card (nth_label label ` {0..length used}) \<le> card (set used)" by (intro card_mono) auto
    moreover have "card (nth_label label ` {0..length used}) = Suc (length used)"
      by (subst card_image) (auto simp: inj_on_def dest: inj_nth_label)
    ultimately show False using card_length [of used] by simp
  qed
  with some [of "length used" 0] show ?thesis by auto
qed

end
