(* ===== verification/Refunds.thy ===== *)
theory Refunds
  imports ClientSafety
begin

text \<open>
  \<open>refunds.ts\<close>: deleting a client gives the unused part of what it cost back to the wallet of its
  reseller, capped by what the ledger says was charged for it.
\<close>

record refund_quote =
  rq_clientId :: uid
  rq_adminId :: uid
  rq_charged :: int
  rq_refunded :: int
  rq_unusedGB :: int
  rq_remainingDays :: int
  rq_perGB :: int
  rq_perDay :: int
  rq_percent :: int
  rq_gross :: int
  rq_amount :: int
  rq_reason :: "string option"

text \<open>The ledger rows of one client: what was charged, and what was given back.\<close>

definition client_txs :: "world \<Rightarrow> uid \<Rightarrow> uid \<Rightarrow> wallet_tx_kind \<Rightarrow> wallet_tx list" where
  "client_txs w adminId clientId kind =
    filter (\<lambda>t. wtx_adminId t = adminId \<and> wtx_refType t = Some R_client \<and> wtx_refId t = Some clientId \<and> wtx_kind t = kind)
      (wallet_txs w)"

definition charged_for :: "world \<Rightarrow> uid \<Rightarrow> uid \<Rightarrow> int" where
  "charged_for w a i = - sum_list (map wtx_amount (client_txs w a i W_PURCHASE))"

definition refunded_for :: "world \<Rightarrow> uid \<Rightarrow> uid \<Rightarrow> int" where
  "refunded_for w a i = sum_list (map wtx_amount (client_txs w a i W_REFUND))"

definition unused_gb :: "client \<Rightarrow> int" where
  "unused_gb c =
    (let used = cli_usedUp c + cli_usedDown c;
         unusedBytes = (if 0 < cli_trafficLimit c then (if used < cli_trafficLimit c then cli_trafficLimit c - used else 0) else 0)
     in unusedBytes sdiv GB)"

definition remaining_days :: "world \<Rightarrow> client \<Rightarrow> int" where
  "remaining_days w c =
    (case cli_expiresAt c of
       Some t \<Rightarrow> max 0 (js_ceil (of_int (t - clock w) / of_int DAY_MS))
     | None \<Rightarrow> (case getPendingStart (cli_id c) w of Some p \<Rightarrow> ps_days p | None \<Rightarrow> 0))"

text \<open>\<open>zero(base, reason)\<close>.\<close>
definition no_refund :: "refund_quote \<Rightarrow> string \<Rightarrow> refund_quote" where
  "no_refund q reason = q\<lparr>rq_amount := 0, rq_reason := Some reason\<rparr>"

definition refund_for :: "world \<Rightarrow> client \<Rightarrow> admin \<Rightarrow> refund_quote" where
  "refund_for w c a =
    (let unit = unitPricesFor w (actor_of a);
         settings = refund_cfg w;
         charged = charged_for w (cli_adminId c) (cli_id c);
         refunded = refunded_for w (cli_adminId c) (cli_id c);
         gross = unused_gb c * up_perGB unit + remaining_days w c * up_perDay unit;
         base = \<lparr>rq_clientId = cli_id c, rq_adminId = cli_adminId c, rq_charged = charged, rq_refunded = refunded,
           rq_unusedGB = unused_gb c, rq_remainingDays = remaining_days w c, rq_perGB = up_perGB unit, rq_perDay = up_perDay unit,
           rq_percent = refundPercent settings, rq_gross = gross, rq_amount = 0, rq_reason = None\<rparr>;
         cap = charged - refunded;
         amount = min cap ((gross * refundPercent settings) sdiv 100)
     in if adm_role a = OWNER then no_refund base ''owner clients cost nothing''
        else if \<not> refundEnabled settings then no_refund base ''refunds are disabled''
        else if \<not> up_enabled unit then no_refund base ''billing is disabled''
        else if cap \<le> 0 then no_refund base ''nothing was charged for this client''
        else if amount \<le> 0 then no_refund base ''nothing is left to refund''
        else if amount < refundMin settings then no_refund base ''below the minimum refund''
        else base\<lparr>rq_amount := amount\<rparr>)"

text \<open>The client's owner exists (foreign key).\<close>
definition quoteRefund :: "uid \<Rightarrow> (world, refund_quote) op" where
  "quoteRefund clientId =
    bnd (gets (find_client clientId)) (\<lambda>found. bnd (or_throw found client_not_found) (\<lambda>c.
    bnd (gets (find_admin (cli_adminId c))) (\<lambda>owner. bnd (or_throw owner record_not_found) (\<lambda>a.
    gets (\<lambda>w. refund_for w c a)))))"

record delete_result =
  dr_errors :: "string list"
  dr_refund :: int
  dr_quote :: "refund_quote option"

definition refund_opts :: "admin \<Rightarrow> uid \<Rightarrow> adjust_opts" where
  "refund_opts actor clientId = \<lparr>ao_refType = Some R_client, ao_refId = Some clientId, ao_note = Some ''refund of the unused part'',
     ao_byAdminId = Some (adm_id actor), ao_allowNegative = True\<rparr>"

definition pay_refund :: "admin \<Rightarrow> uid \<Rightarrow> string list \<Rightarrow> refund_quote \<Rightarrow> (world, delete_result) op" where
  "pay_refund actor clientId errors q =
    catch_op
      (andthen (chargeWallet (rq_adminId q) ADMIN (rq_amount q) W_REFUND (refund_opts actor clientId))
      (andthen (audit (Some (adm_id actor)) ''client.refund'' (JId clientId)
         [(''amount'', JInt (rq_amount q)), (''unusedGB'', JInt (rq_unusedGB q)), (''remainingDays'', JInt (rq_remainingDays q))] None)
      (andthen (notify_void ''wallet.refund'' [JStr ''wallet.refund'', JId clientId] (JId clientId) (to_admin (Some (rq_adminId q))))
      (ret \<lparr>dr_errors = errors, dr_refund = rq_amount q, dr_quote = Some q\<rparr>))))
      (\<lambda>_. ret \<lparr>dr_errors = errors, dr_refund = 0, dr_quote = Some q\<rparr>)"

definition deleteClientWithRefund :: "admin \<Rightarrow> uid \<Rightarrow> (world, delete_result) op" where
  "deleteClientWithRefund actor clientId =
    bnd (catch_op (bnd (quoteRefund clientId) (\<lambda>q. ret (Some q))) (\<lambda>_. ret None)) (\<lambda>quote.
    bnd (deleteClient actor clientId) (\<lambda>errors.
    andthen (swallow (clearPendingStart clientId))
    (case quote of
       None \<Rightarrow> ret \<lparr>dr_errors = errors, dr_refund = 0, dr_quote = None\<rparr>
     | Some q \<Rightarrow> if rq_amount q \<le> 0 then ret \<lparr>dr_errors = errors, dr_refund = 0, dr_quote = Some q\<rparr>
         else pay_refund actor clientId errors q)))"

section \<open>Properties\<close>

lemma refund_for_cap:
  "rq_amount (refund_for w c a) \<le> max 0 (charged_for w (cli_adminId c) (cli_id c) - refunded_for w (cli_adminId c) (cli_id c))"
  by (simp add: refund_for_def no_refund_def Let_def)

lemma refund_for_ids [simp]: "rq_clientId (refund_for w c a) = cli_id c" "rq_adminId (refund_for w c a) = cli_adminId c"
  by (simp_all add: refund_for_def no_refund_def Let_def)

lemma unused_gb_nonneg: "0 \<le> unused_gb c"
  by (simp add: unused_gb_def Let_def sdiv_nonneg pos_imp_zdiv_nonneg_iff GB_def)

lemma remaining_days_nonneg:
  "(case getPendingStart (cli_id c) w of Some p \<Rightarrow> 0 \<le> ps_days p | None \<Rightarrow> True) \<Longrightarrow> 0 \<le> remaining_days w c"
  by (auto simp: remaining_days_def split: option.splits)

lemma refund_for_nonneg: "0 \<le> rq_amount (refund_for w c a)"
  by (auto simp: refund_for_def no_refund_def Let_def)

text \<open>
  The refund quote (bounds, every branch). The amount is between zero and what is still
  unrefunded of the charges for this client, at most the configured percentage of the value of the
  unused gigabytes and days at the current prices, and not between zero and the minimum; it is zero
  exactly when a reason is given, in particular for the owner's clients and while refunds or billing
  are switched off.
\<close>
theorem refund_quote_bounds:
  assumes "quoteRefund i w = (Inr q, w')"
  shows "w' = w \<and> 0 \<le> rq_amount q \<and> rq_amount q \<le> max 0 (rq_charged q - rq_refunded q) \<and>
    (rq_amount q = 0 \<longleftrightarrow> rq_reason q \<noteq> None) \<and>
    (0 < rq_amount q \<longrightarrow> rq_amount q \<le> (rq_gross q * rq_percent q) sdiv 100 \<and> refundMin (refund_cfg w) \<le> rq_amount q \<and>
       refundEnabled (refund_cfg w) \<and> billingEnabled (pricing w)) \<and>
    rq_gross q = rq_unusedGB q * rq_perGB q + rq_remainingDays q * rq_perDay q \<and> 0 \<le> rq_unusedGB q"
proof -
  from assms obtain c a where w': "w' = w" and q: "q = refund_for w c a"
    by (auto simp: quoteRefund_def inr_iffs)
  have b: "up_enabled (unitPricesFor w (actor_of a)) = billingEnabled (pricing w)"
    by (simp add: unitPricesFor_def Let_def)
  show ?thesis
    unfolding q w' refund_for_def no_refund_def Let_def by (auto simp: unused_gb_nonneg b)
qed

definition demo_paid :: world where
  "demo_paid = demo_world\<lparr>clients := [(demo_client 7)\<lparr>cli_usedUp := 20 * GB\<rparr>], wallet_txs := [make_tx 50 0 3 W_PURCHASE (- 500) 500
     \<lparr>ao_refType = Some R_client, ao_refId = Some 7, ao_note = None, ao_byAdminId = None, ao_allowNegative = False\<rparr>]\<rparr>"

lemma refund_quote_bounds_witness:
  "\<exists>q. quoteRefund 7 demo_paid = (Inr q, demo_paid) \<and> rq_amount q = 150 \<and> rq_amount q \<le> max 0 (rq_charged q - rq_refunded q)"
proof -
  have "succeeds (quoteRefund 7 demo_paid)" by code_simp
  then obtain q w' where run: "quoteRefund 7 demo_paid = (Inr q, w')" using run_inr by blast
  have "(case fst (quoteRefund 7 demo_paid) of Inr q \<Rightarrow> rq_amount q | Inl _ \<Rightarrow> 0) = 150" by code_simp
  then show ?thesis using refund_quote_bounds [OF run] run by simp
qed

lemma charged_for_cong: "wallet_txs w' = wallet_txs w \<Longrightarrow> charged_for w' = charged_for w \<and> refunded_for w' = refunded_for w"
  by (simp add: charged_for_def refunded_for_def client_txs_def fun_eq_iff)

lemma refund_moved:
  assumes "row = make_tx k tm a W_REFUND amount next (refund_opts actor i)"
  shows "charged_for (moved a next row w) b j = charged_for w b j"
    and "refunded_for (moved a next row w) b j = refunded_for w b j + (if b = a \<and> j = i then amount else 0)"
  by (auto simp: charged_for_def refunded_for_def client_txs_def moved_def set_credit_def assms make_tx_def refund_opts_def)

text \<open>
  C16: Deleting with a refund pays back exactly the quote, and never more than was charged (safety).
  For a client the actor may touch, \<open>deleteClientWithRefund\<close> returns whatever the panels answer; the
  client is gone; its reseller's balance grew by exactly the quoted amount, as one REFUND row of the
  ledger, and all refunds for this client together stay within all charges for it; no other balance
  moved. A second attempt finds no client and changes nothing.
\<close>
theorem delete_refunds_quote:
  assumes "find_client i w = Some c" and "in_scope actor c" and "find_admin (cli_adminId c) w = Some a"
    and "q = refund_for w c a" and "refunded_for w (cli_adminId c) i \<le> charged_for w (cli_adminId c) i"
  shows "\<exists>r w'. deleteClientWithRefund actor i w = (Inr r, w') \<and> dr_refund r = rq_amount q \<and> dr_quote r = Some q \<and>
    find_client i w' = None \<and>
    admin_balance w' (cli_adminId c) = Some (adm_credit a + rq_amount q) \<and>
    (\<forall>j. j \<noteq> cli_adminId c \<longrightarrow> admin_balance w' j = admin_balance w j) \<and>
    refunded_for w' (cli_adminId c) i = refunded_for w (cli_adminId c) i + rq_amount q \<and>
    refunded_for w' (cli_adminId c) i \<le> charged_for w' (cli_adminId c) i \<and>
    deleteClientWithRefund actor i w' = (Inl client_not_found, w')"
proof -
  let ?o = "cli_adminId c"
  have id: "cli_id c = i" using assms(1) unfolding find_client_def by (rule find_row_key)
  obtain errs w1 where d: "deleteClient actor i w = (Inr errs, w1)" "find_client i w1 = None"
      "admins w1 = admins w" "wallet_txs w1 = wallet_txs w"
    using deleteClient_run [OF assms(1,2)] by blast
  have quote: "catch_op (bnd (quoteRefund i) (\<lambda>q. ret (Some q))) (\<lambda>_. ret None) w = (Inr (Some q), w)"
    by (simp add: quoteRefund_def catch_op_def bnd_def assms)
  let ?w2 = "snd (clearPendingStart i w1)"
  have sw: "andthen (swallow (clearPendingStart i)) k w1 = k ?w2" for k :: "(world, delete_result) op"
    by (simp add: swallow_def catch_op_def andthen_def bnd_def clearPendingStart_def)
  have w2: "admins ?w2 = admins w" "wallet_txs ?w2 = wallet_txs w" "clients ?w2 = clients w1"
    by (simp_all add: clearPendingStart_def d)
  have run: "deleteClientWithRefund actor i w =
      (if rq_amount q \<le> 0 then (Inr \<lparr>dr_errors = errs, dr_refund = 0, dr_quote = Some q\<rparr>, ?w2) else pay_refund actor i errs q ?w2)"
    unfolding deleteClientWithRefund_def by (simp add: bnd_def quote d(1) sw)
  have again: "deleteClientWithRefund actor i v = (Inl client_not_found, v)" if "find_client i v = None" for v
    using that by (simp add: deleteClientWithRefund_def deleteClient_def getClientForActor_def quoteRefund_def bnd_def catch_op_def)
  have q: "rq_adminId q = ?o" "0 \<le> rq_amount q" by (simp_all add: assms(4) refund_for_nonneg)
  have cap: "rq_amount q \<le> charged_for w ?o i - refunded_for w ?o i"
    using refund_for_cap [of w c a] assms(4,5) by (simp add: id)
  show ?thesis
  proof (cases "rq_amount q \<le> 0")
    case True
    then have z: "rq_amount q = 0" using q(2) by simp
    have "deleteClientWithRefund actor i w = (Inr \<lparr>dr_errors = errs, dr_refund = 0, dr_quote = Some q\<rparr>, ?w2)" using True by (simp add: run)
    moreover have "find_client i ?w2 = None" using d(2) by (simp add: find_client_def w2)
    moreover have "admin_balance ?w2 = admin_balance w" by (simp add: admin_balance_def find_admin_def w2 fun_eq_iff)
    moreover have "admin_balance w ?o = Some (adm_credit a)" by (simp add: admin_balance_def assms(3))
    moreover have "charged_for ?w2 = charged_for w" "refunded_for ?w2 = refunded_for w"
      using charged_for_cong [of ?w2 w] w2 by simp_all
    ultimately show ?thesis using z assms(5) again by auto
  next
    case False
    then have pos: "0 < rq_amount q" by simp
    have fa: "find_admin ?o ?w2 = Some a" using assms(3) by (simp add: find_admin_def w2)
    obtain row w3 where ch: "chargeWallet ?o ADMIN (rq_amount q) W_REFUND (refund_opts actor i) ?w2 = (Inr (Some row), w3)"
      and row: "row = make_tx (next_id ?w2) (clock ?w2) ?o W_REFUND (rq_amount q) (adm_credit a + rq_amount q) (refund_opts actor i)"
      and ev: "events_only (moved ?o (adm_credit a + rq_amount q) row ?w2) w3"
      using chargeWallet_credit [OF fa pos, of ADMIN W_REFUND "refund_opts actor i"] by blast
    let ?m = "moved ?o (adm_credit a + rq_amount q) row ?w2"
    let ?au = "audit (Some (adm_id actor)) ''client.refund'' (JId i)
         [(''amount'', JInt (rq_amount q)), (''unusedGB'', JInt (rq_unusedGB q)), (''remainingDays'', JInt (rq_remainingDays q))] None"
    let ?no = "notify_void ''wallet.refund'' [JStr ''wallet.refund'', JId i] (JId i) (to_admin (Some ?o))"
    let ?r = "\<lparr>dr_errors = errs, dr_refund = rq_amount q, dr_quote = Some q\<rparr>"
    have "quiet (andthen ?au (andthen ?no (ret ?r)))" by (intro quiet_intros)
    then obtain w4 where t: "andthen ?au (andthen ?no (ret ?r)) w3 = (Inr ?r, w4)" "events_only w3 w4"
      unfolding quiet_def by (auto simp: andthen_quiet quiet_audit quiet_notify_void)
    have step: "andthen (chargeWallet ?o ADMIN (rq_amount q) W_REFUND (refund_opts actor i)) k ?w2 = k w3" for k :: "(world, delete_result) op"
      by (simp add: andthen_def bnd_def ch)
    have res: "deleteClientWithRefund actor i w = (Inr ?r, w4)"
      using False by (simp add: run pay_refund_def q(1) catch_op_def step t(1))
    have e: "events_only ?m w4" by (rule events_only_trans [OF ev t(2)])
    have bal: "admin_balance w4 = admin_balance ?m"
      using admin_ledger_frame [OF eo_admins [OF e] eo_wallet_txs [OF e]] by simp
    have led: "charged_for w4 = charged_for ?m" "refunded_for w4 = refunded_for ?m"
      using charged_for_cong [OF eo_wallet_txs [OF e]] by simp_all
    have base: "admin_balance ?w2 = admin_balance w" "charged_for ?w2 = charged_for w" "refunded_for ?w2 = refunded_for w"
      using charged_for_cong [of ?w2 w] w2 by (simp_all add: admin_balance_def find_admin_def fun_eq_iff)
    have gone: "find_client i w4 = None"
      using d(2) by (simp add: find_client_def eo_clients [OF e] moved_def set_credit_def w2)
    show ?thesis
      using res gone again [OF gone] cap
      by (auto simp: bal led admin_balance_moved [OF fa] refund_moved [OF row] base intro!: exI [of _ ?r] exI [of _ w4])
  qed
qed

lemma delete_refunds_quote_witness:
  "\<exists>r w'. deleteClientWithRefund (demo_admin 3 ADMIN 500) 7 demo_paid = (Inr r, w') \<and> admin_balance w' 3 = Some 650"
proof -
  let ?c = "(demo_client 7)\<lparr>cli_usedUp := 20 * GB\<rparr>"
  have c: "find_client 7 demo_paid = Some ?c" "in_scope (demo_admin 3 ADMIN 500) ?c"
    "find_admin (cli_adminId ?c) demo_paid = Some (demo_admin 3 ADMIN 500)"
    by (simp_all add: demo_paid_def find_client_def find_admin_def in_scope_def)
  have "refunded_for demo_paid (cli_adminId ?c) 7 \<le> charged_for demo_paid (cli_adminId ?c) 7" by code_simp
  moreover have "rq_amount (refund_for demo_paid ?c (demo_admin 3 ADMIN 500)) = 150" by code_simp
  ultimately show ?thesis
    using delete_refunds_quote [OF c refl] by auto
qed

end
