(* ===== verification/Totp.thy ===== *)
theory Totp
  imports Schema
begin

text \<open>
  Time-based one-time codes: \<open>packages/core/src/security/totp.ts\<close>. The base32 coding of the secret is
  modelled digit by digit, with its decoder; HMAC-SHA1 is the parameter \<open>ext_hmac_sha1\<close>.
\<close>

section \<open>Base32\<close>

definition ALPHABET :: string where
  "ALPHABET = ''ABCDEFGHIJKLMNOPQRSTUVWXYZ234567''"

text \<open>The inner loop of \<open>base32Encode\<close>: digits while five bits are pending, and the bits that stay.\<close>
fun emit_digits :: "nat \<Rightarrow> nat \<Rightarrow> nat list \<times> nat" where
  "emit_digits bits v =
    (if bits < 5 then ([], bits)
     else case emit_digits (bits - 5) v of (ds, b) \<Rightarrow> ((v div 2 ^ (bits - 5)) mod 32 # ds, b))"

declare emit_digits.simps [simp del]

text \<open>The loop over the bytes; \<open>value << 8 | byte\<close> is a sum because a byte has eight bits.\<close>
fun encode_digits :: "nat list \<Rightarrow> nat \<Rightarrow> nat \<Rightarrow> nat list" where
  "encode_digits [] bits v = (if 0 < bits then [(v * 2 ^ (5 - bits)) mod 32] else [])"
| "encode_digits (byte # bs) bits v =
    (let v' = (v * 256 + byte) mod 65536; (ds, b) = emit_digits (bits + 8) v' in ds @ encode_digits bs b v')"

definition base32Encode :: "nat list \<Rightarrow> string" where
  "base32Encode buf = map ((!) ALPHABET) (encode_digits buf 0 0)"

text \<open>\<open>ALPHABET.indexOf(ch)\<close>, for a character of the alphabet.\<close>
definition digit_of :: "char \<Rightarrow> nat" where
  "digit_of ch = length (takeWhile (\<lambda>c. c \<noteq> ch) ALPHABET)"

fun decode_digits :: "nat list \<Rightarrow> nat \<Rightarrow> nat \<Rightarrow> nat list" where
  "decode_digits [] bits v = []"
| "decode_digits (d # ds) bits v =
    (let v' = (v * 32 + d) mod 65536; b = bits + 5 in
     if 8 \<le> b then (v' div 2 ^ (b - 8)) mod 256 # decode_digits ds (b - 8) v' else decode_digits ds b v')"

definition clean_secret :: "string \<Rightarrow> string" where
  "clean_secret str = filter (\<lambda>c. c \<in> set ALPHABET) (rev (dropWhile (\<lambda>c. c = CHR ''='') (rev (to_upper str))))"

definition base32Decode :: "string \<Rightarrow> nat list" where
  "base32Decode str = decode_digits (map digit_of (clean_secret str)) 0 0"

section \<open>Codes\<close>

definition generateTotpSecret :: "(world, string) op" where
  "generateTotpSecret = bnd new_id (\<lambda>k. gets (\<lambda>w. base32Encode (ext_random_bytes (svcs w) k 20)))"

text \<open>\<open>msg.writeBigUInt64BE(counter)\<close>.\<close>
definition counter_bytes :: "nat \<Rightarrow> nat list" where
  "counter_bytes c = map (\<lambda>i. (c div 256 ^ i) mod 256) [7, 6, 5, 4, 3, 2, 1, 0]"

text \<open>\<open>h[i]\<close> of a digest.\<close>
definition byte_at :: "nat list \<Rightarrow> nat \<Rightarrow> nat" where
  "byte_at h i = (if i < length h then h ! i else 0)"

definition padded_code :: "nat \<Rightarrow> string" where
  "padded_code n = (let s = show_nat n in replicate (6 - length s) (CHR ''0'') @ s)"

definition totpCode :: "services \<Rightarrow> time \<Rightarrow> string \<Rightarrow> int \<Rightarrow> string" where
  "totpCode x tm secret offset =
    (let counter = nat (tm div 1000 div 30 + offset);
         h = ext_hmac_sha1 x (base32Decode secret) (counter_bytes counter);
         off = byte_at h (length h - 1) mod 16;
         code = (byte_at h off mod 128) * 2 ^ 24 + byte_at h (off + 1) * 2 ^ 16 + byte_at h (off + 2) * 2 ^ 8 + byte_at h (off + 3)
     in padded_code (code mod 1000000))"

definition verifyTotp :: "services \<Rightarrow> time \<Rightarrow> string \<Rightarrow> string \<Rightarrow> bool" where
  "verifyTotp x tm secret code =
    (let clean = filter is_digit code in
     length clean = 6 \<and> list_ex (\<lambda>off. totpCode x tm secret off = clean) [-1, 0, 1])"

section \<open>Decoding undoes encoding\<close>

text \<open>The \<open>k\<close> low bits of a number, the highest first.\<close>
fun bits_of :: "nat \<Rightarrow> nat \<Rightarrow> bool list" where
  "bits_of 0 n = []"
| "bits_of (Suc k) n = odd (n div 2 ^ k) # bits_of k n"

definition stream :: "nat \<Rightarrow> nat list \<Rightarrow> bool list" where
  "stream k ns = concat (map (bits_of k) ns)"

lemma stream_simps [simp]: "stream k [] = []" "stream k (n # ns) = bits_of k n @ stream k ns"
  "stream k (ms @ ns) = stream k ms @ stream k ns"
  by (simp_all add: stream_def)

lemma length_bits_of [simp]: "length (bits_of k n) = k"
  by (induction k) simp_all

lemma length_stream: "length (stream k ns) = k * length ns"
  by (induction ns) simp_all

lemma bits_of_append: "bits_of (j + k) n = bits_of j (n div 2 ^ k) @ bits_of k n"
  by (induction j) (simp_all add: div_mult2_eq [symmetric] power_add mult.commute)

lemma bits_of_mod: "k \<le> m \<Longrightarrow> bits_of k (n mod 2 ^ m) = bits_of k n"
proof (induction k)
  case (Suc k)
  have "n mod 2 ^ m div 2 ^ k = n div 2 ^ k mod 2 ^ (m - k)"
    using Suc.prems drop_bit_take_bit [of k m n] by (simp add: drop_bit_eq_div take_bit_eq_mod)
  moreover have "even ((n div 2 ^ k) mod 2 ^ (m - k)) = even (n div 2 ^ k)"
    using Suc.prems by (simp add: dvd_mod_iff)
  ultimately show ?case using Suc by simp
qed simp

lemma bits_of_zero: "bits_of k 0 = replicate k False"
  by (induction k) simp_all

lemma bits_of_shift: "bits_of (j + k) (v * 2 ^ k) = bits_of j v @ replicate k False"
proof -
  have "bits_of k (v * 2 ^ k) = replicate k False"
    using bits_of_mod [of k k "v * 2 ^ k"] by (metis bits_of_zero mod_mult_self2_is_0 order_refl)
  then show ?thesis by (simp add: bits_of_append)
qed


lemma bits_of_push:
  assumes "d < 2 ^ k" and "b + k \<le> 16"
  shows "bits_of (b + k) ((v * 2 ^ k + d) mod 65536) = bits_of b v @ bits_of k d"
proof -
  have "bits_of (b + k) ((v * 2 ^ k + d) mod 2 ^ 16) = bits_of (b + k) (v * 2 ^ k + d)"
    using assms(2) by (rule bits_of_mod)
  moreover have "bits_of k (v * 2 ^ k + d) = bits_of k d"
    using bits_of_mod [of k k "v * 2 ^ k + d"] assms(1) by simp
  moreover have "(v * 2 ^ k + d) div 2 ^ k = v" using assms(1) by simp
  ultimately show ?thesis by (simp add: bits_of_append)
qed

lemma emit_digits_stream:
  "emit_digits b v = (ds, b') \<Longrightarrow> stream 5 ds @ bits_of b' v = bits_of b v \<and> b' < 5 \<and> (\<forall>d \<in> set ds. d < 32)"
proof (induction b v arbitrary: ds rule: emit_digits.induct)
  case (1 b v)
  show ?case
  proof (cases "b < 5")
    case True
    then show ?thesis using "1.prems" by (auto simp: emit_digits.simps [of b])
  next
    case False
    obtain ds' where d: "emit_digits (b - 5) v = (ds', b')" and ds: "ds = (v div 2 ^ (b - 5)) mod 32 # ds'"
      using "1.prems" False by (auto simp: emit_digits.simps [of b] split: prod.splits)
    have "bits_of b v = bits_of (5 + (b - 5)) v" using False by simp
    also have "\<dots> = bits_of 5 (v div 2 ^ (b - 5)) @ bits_of (b - 5) v" by (rule bits_of_append)
    also have "bits_of 5 (v div 2 ^ (b - 5)) = bits_of 5 ((v div 2 ^ (b - 5)) mod 32)"
      using bits_of_mod [of 5 5 "v div 2 ^ (b - 5)"] by simp
    finally show ?thesis using "1.IH" [OF False d] by (simp add: ds)
  qed
qed

lemma encode_digits_stream:
  "b < 5 \<Longrightarrow> \<forall>x \<in> set bs. x < 256 \<Longrightarrow>
   (\<exists>p < 5. stream 5 (encode_digits bs b v) = bits_of b v @ stream 8 bs @ replicate p False) \<and>
   (\<forall>d \<in> set (encode_digits bs b v). d < 32)"
proof (induction bs b v rule: encode_digits.induct)
  case (1 b v)
  have "bits_of 5 ((v * 2 ^ (5 - b)) mod 32) = bits_of b v @ replicate (5 - b) False"
    using bits_of_mod [of 5 5 "v * 2 ^ (5 - b)"] bits_of_shift [of b "5 - b" v] "1.prems" by simp
  then show ?case by (cases "b = 0") auto
next
  case (2 byte bs b v)
  obtain ds b' where e: "emit_digits (b + 8) ((v * 256 + byte) mod 65536) = (ds, b')" by fastforce
  have push: "bits_of (b + 8) ((v * 256 + byte) mod 65536) = bits_of b v @ bits_of 8 byte"
    using bits_of_push [of byte 8 b v] "2.prems" by simp
  note em = emit_digits_stream [OF e]
  have ih: "(\<exists>p < 5. stream 5 (encode_digits bs b' ((v * 256 + byte) mod 65536)) =
      bits_of b' ((v * 256 + byte) mod 65536) @ stream 8 bs @ replicate p False) \<and>
      (\<forall>d \<in> set (encode_digits bs b' ((v * 256 + byte) mod 65536)). d < 32)"
    using "2.IH" [OF refl e [symmetric] refl] em "2.prems" by simp
  then obtain p where "p < 5" "stream 5 (encode_digits bs b' ((v * 256 + byte) mod 65536)) =
      bits_of b' ((v * 256 + byte) mod 65536) @ stream 8 bs @ replicate p False" by blast
  then have "stream 5 ds @ stream 5 (encode_digits bs b' ((v * 256 + byte) mod 65536)) =
      bits_of b v @ stream 8 (byte # bs) @ replicate p False"
    using em push by (metis append.assoc stream_simps(2))
  then show ?case using \<open>p < 5\<close> em ih e by (auto simp: Let_def)
qed

lemma decode_digits_stream:
  "b < 8 \<Longrightarrow> \<forall>d \<in> set ds. d < 32 \<Longrightarrow>
   (\<exists>q. length q < 8 \<and> stream 8 (decode_digits ds b v) @ q = bits_of b v @ stream 5 ds) \<and>
   (\<forall>x \<in> set (decode_digits ds b v). x < 256)"
proof (induction ds b v rule: decode_digits.induct)
  case (1 b v)
  then show ?case by (intro conjI exI [of _ "bits_of b v"]) simp_all
next
  case (2 d ds b v)
  let ?v = "(v * 32 + d) mod 65536"
  have push: "bits_of (b + 5) ?v = bits_of b v @ bits_of 5 d"
    using bits_of_push [of d 5 b v] "2.prems" by simp
  have ds: "\<forall>x \<in> set ds. x < 32" using "2.prems" by simp
  show ?case
  proof (cases "8 \<le> b + 5")
    case True
    let ?o = "(?v div 2 ^ (b + 5 - 8)) mod 256"
    have lt: "b + 5 - 8 < 8" using "2.prems" by simp
    obtain q where q: "length q < 8" "stream 8 (decode_digits ds (b + 5 - 8) ?v) @ q = bits_of (b + 5 - 8) ?v @ stream 5 ds"
      and small: "\<forall>x \<in> set (decode_digits ds (b + 5 - 8) ?v). x < 256"
      using "2.IH"(1) [OF refl refl True lt ds] by blast
    have "bits_of 8 ?o @ bits_of (b + 5 - 8) ?v = bits_of (8 + (b + 5 - 8)) ?v"
      using bits_of_mod [of 8 8 "?v div 2 ^ (b + 5 - 8)"] by (simp add: bits_of_append)
    then have "bits_of 8 ?o @ bits_of (b + 5 - 8) ?v = bits_of b v @ bits_of 5 d"
      using True push by (simp add: add.commute)
    then have "bits_of 8 ?o @ (stream 8 (decode_digits ds (b + 5 - 8) ?v) @ q) = bits_of b v @ stream 5 (d # ds)"
      unfolding q(2) by (metis append.assoc stream_simps(2))
    then have "stream 8 (decode_digits (d # ds) b v) @ q = bits_of b v @ stream 5 (d # ds)"
      using True by (simp add: Let_def)
    then show ?thesis using q(1) small True by (auto simp: Let_def)
  next
    case False
    have lt: "b + 5 < 8" using False by simp
    obtain q where q: "length q < 8" "stream 8 (decode_digits ds (b + 5) ?v) @ q = bits_of (b + 5) ?v @ stream 5 ds"
      and small: "\<forall>x \<in> set (decode_digits ds (b + 5) ?v). x < 256"
      using "2.IH"(2) [OF refl refl False lt ds] by blast
    have "stream 8 (decode_digits (d # ds) b v) @ q = bits_of b v @ stream 5 (d # ds)"
      using q(2) push False by (simp add: Let_def)
    then show ?thesis using q(1) small False by (auto simp: Let_def)
  qed
qed

lemma bits_of_inj: "bits_of k m = bits_of k n \<Longrightarrow> m mod 2 ^ k = n mod 2 ^ k"
proof (induction k)
  case (Suc k)
  then have "m mod 2 ^ k = n mod 2 ^ k" "m div 2 ^ k mod 2 = n div 2 ^ k mod 2"
    by (auto simp: odd_iff_mod_2_eq_one even_iff_mod_2_eq_zero)
  then show ?case
    using mod_mult2_eq [of m "2 ^ k" 2] mod_mult2_eq [of n "2 ^ k" 2] by (simp add: mult.commute)
qed simp

lemma stream_inj:
  "length xs = length ys \<Longrightarrow> stream 8 xs = stream 8 ys \<Longrightarrow> \<forall>x \<in> set xs. x < 256 \<Longrightarrow> \<forall>y \<in> set ys. y < 256 \<Longrightarrow> xs = ys"
proof (induction xs ys rule: list_induct2)
  case (Cons x xs y ys)
  then have "bits_of 8 x = bits_of 8 y" "stream 8 xs = stream 8 ys" by simp_all
  then show ?case using Cons bits_of_inj [of 8 x y] by simp
qed simp

lemma decode_encode_digits:
  assumes "\<forall>x \<in> set bs. x < 256" shows "decode_digits (encode_digits bs 0 0) 0 0 = bs"
proof -
  let ?ds = "encode_digits bs 0 0"
  let ?out = "decode_digits ?ds 0 0"
  obtain p where p: "p < 5" "stream 5 ?ds = stream 8 bs @ replicate p False" and d: "\<forall>d \<in> set ?ds. d < 32"
    using encode_digits_stream [of 0 bs 0] assms by auto
  obtain q where q: "length q < 8" "stream 8 ?out @ q = stream 5 ?ds" and small: "\<forall>x \<in> set ?out. x < 256"
    using decode_digits_stream [of 0 ?ds 0] d by auto
  have eq: "stream 8 ?out @ q = stream 8 bs @ replicate p False" using p(2) q(2) by simp
  then have "8 * length ?out + length q = 8 * length bs + p" using length_stream by (metis length_append length_replicate)
  then have len: "length ?out = length bs" using p(1) q(1) by presburger
  then have "stream 8 ?out = stream 8 bs" using eq by (simp add: length_stream)
  then show ?thesis using stream_inj [OF len] small assms by blast
qed

lemma digit_of_nth: "d < 32 \<Longrightarrow> digit_of (ALPHABET ! d) = d"
proof -
  have "list_all (\<lambda>i. digit_of (ALPHABET ! i) = i) [0..<32]" by code_simp
  then show "d < 32 \<Longrightarrow> digit_of (ALPHABET ! d) = d" by (simp add: list_all_iff)
qed

lemma upper_alphabet: "c \<in> set ALPHABET \<Longrightarrow> char_upper c = c \<and> c \<noteq> CHR ''=''"
proof -
  have "list_all (\<lambda>c. char_upper c = c \<and> c \<noteq> CHR ''='') ALPHABET" by code_simp
  then show "c \<in> set ALPHABET \<Longrightarrow> char_upper c = c \<and> c \<noteq> CHR ''=''" by (simp add: list_all_iff)
qed

lemma clean_secret_id: "set s \<subseteq> set ALPHABET \<Longrightarrow> clean_secret s = s"
proof -
  assume a: "set s \<subseteq> set ALPHABET"
  have up: "to_upper s = s" using a upper_alphabet by (intro map_idI) blast
  have "dropWhile (\<lambda>c. c = CHR ''='') (rev s) = rev s"
  proof (cases "rev s")
    case (Cons c cs)
    then have "c \<in> set s" by (metis list.set_intros(1) set_rev)
    then have "c \<noteq> CHR ''=''" using a upper_alphabet by blast
    then show ?thesis using Cons by simp
  qed simp
  then show ?thesis using a by (simp add: clean_secret_def up filter_id_conv subset_iff)
qed

text \<open>
  C40: Decoding undoes encoding (round trip). A two-step secret of any bytes is recovered from its base32
  text: the bit buffer of the encoder, flushed with zero bits at the end, and the decoder's, which drops
  an incomplete byte, agree for every length.
\<close>
theorem base32_decode_encode:
  assumes "\<forall>x \<in> set bs. x < 256" shows "base32Decode (base32Encode bs) = bs"
proof -
  let ?ds = "encode_digits bs 0 0"
  have d: "\<forall>d \<in> set ?ds. d < 32" using encode_digits_stream [of 0 bs 0] assms by simp
  have len: "length ALPHABET = 32" by code_simp
  have "set (base32Encode bs) \<subseteq> set ALPHABET" using d by (auto simp: base32Encode_def len)
  then have "clean_secret (base32Encode bs) = base32Encode bs" by (rule clean_secret_id)
  moreover have "map digit_of (base32Encode bs) = ?ds"
    using d by (simp add: base32Encode_def digit_of_nth map_idI)
  ultimately show ?thesis using decode_encode_digits [OF assms] by (simp add: base32Decode_def)
qed

lemma base32_decode_encode_witness: "base32Decode (base32Encode [72, 101, 255]) = [72, 101, 255]"
  using base32_decode_encode [of "[72, 101, 255]"] by simp

lemma length_padded_code: "n < 1000000 \<Longrightarrow> 6 \<le> length (padded_code n)"
  by (simp add: padded_code_def Let_def)

end
