(* ===== verification/Auth.thy ===== *)
theory Auth
  imports Totp Bytes Events
begin

text \<open>
  Accounts of the panel itself: signing in (\<open>auth.ts\<close>, \<open>bootstrap.ts\<close>), the brute-force guard
  (\<open>loginGuard.ts\<close>), the emailed login codes (\<open>mailer.ts\<close>) and the owner's management of resellers
  (\<open>admins.ts\<close>).
\<close>

section \<open>The owner account: \<open>bootstrap.ts\<close>\<close>

text \<open>A row of the Admin table with the defaults of its columns.\<close>
definition blank_admin :: "uid \<Rightarrow> time \<Rightarrow> string \<Rightarrow> string \<Rightarrow> admin" where
  "blank_admin i tm username hash = \<lparr>adm_id = i, adm_username = username, adm_role = ADMIN, adm_displayName = None,
     adm_isActive = True, adm_credit = 0, adm_trafficQuota = None, adm_clientLimit = None, adm_expiresAt = None,
     adm_telegramId = None, adm_pricePerGB = None, adm_pricePerDay = None, adm_createdAt = tm, adm_passwordHash = hash,
     adm_totpEnabled = False, adm_totpSecret = None, adm_createdById = None, adm_lastLoginAt = None, adm_lastLoginIp = None\<rparr>"

definition admin_by_name :: "string \<Rightarrow> world \<Rightarrow> admin option" where
  "admin_by_name username w = find_row adm_username username (admins w)"

definition ensureOwner :: "(world, unit) op" where
  "ensureOwner = modify (\<lambda>w.
    if owner_ensured w then w
    else if admins w = [] then
      w\<lparr>owner_ensured := True, next_id := Suc (next_id w),
        admins := [(blank_admin (next_id w) (clock w)
            (to_lower (str_trim (str_or (env_owner_username w) ''admin'' id)))
            (ext_hash_password (svcs w) (str_or (env_owner_password w) ''admin'' id)))
          \<lparr>adm_role := OWNER, adm_displayName := Some ''Owner''\<rparr>]\<rparr>
    else w\<lparr>owner_ensured := True\<rparr>)"

text \<open>\<open>admin.update({ where: { id }, data })\<close>: the row it returns.\<close>
definition update_admin :: "uid \<Rightarrow> (admin \<Rightarrow> admin) \<Rightarrow> (world, admin) op" where
  "update_admin i f =
    bnd (gets (find_admin i)) (\<lambda>found. bnd (or_throw found record_not_found) (\<lambda>a.
      andthen (modify (\<lambda>w. w\<lparr>admins := upd_rows (\<lambda>r. adm_id r = i) f (admins w)\<rparr>)) (ret (f a))))"

section \<open>Signing in: \<open>auth.ts\<close>\<close>

definition SESSION_DAYS :: int where
  "SESSION_DAYS = 30"

datatype login_refusal = LR_invalid | LR_disabled | LR_totp_required | LR_totp_invalid

datatype login_result = LoginOk string admin | LoginRefused login_refusal

record login_request =
  lq_username :: string
  lq_password :: string
  lq_totp :: "string option"
  lq_ip :: "string option"

text \<open>What stands between the password and the session.\<close>
definition second_check :: "services \<Rightarrow> time \<Rightarrow> admin \<Rightarrow> login_request \<Rightarrow> login_refusal option" where
  "second_check x tm a p =
    (if \<not> adm_isActive a \<or> (case adm_expiresAt a of Some t \<Rightarrow> t < tm | None \<Rightarrow> False) then Some LR_disabled
     else if adm_totpEnabled a \<and> truthy (adm_totpSecret a) then
       (if \<not> truthy (lq_totp p) then Some LR_totp_required
        else if \<not> verifyTotp x tm (opt_default (adm_totpSecret a) []) (opt_default (lq_totp p) []) then Some LR_totp_invalid
        else None)
     else None)"

definition open_session :: "admin \<Rightarrow> string \<Rightarrow> string option \<Rightarrow> (world, login_result) op" where
  "open_session a username ip =
    bnd (randomToken 32) (\<lambda>token. bnd new_id (\<lambda>k. bnd now (\<lambda>tm. bnd (gets svcs) (\<lambda>x.
    andthen (modify (\<lambda>w. w\<lparr>admin_sessions := admin_sessions w @
      [\<lparr>ads_id = k, ads_adminId = adm_id a, ads_tokenHash = ext_sha256 x token, ads_ip = ip,
        ads_expiresAt = daysFromNow tm (of_int SESSION_DAYS), ads_createdAt = tm\<rparr>]\<rparr>))
    (andthen (update_admin (adm_id a) (\<lambda>r. r\<lparr>adm_lastLoginAt := Some tm, adm_lastLoginIp := ip\<rparr>))
    (andthen (audit (Some (adm_id a)) ''auth.login'' (JStr username) [] ip)
    (ret (LoginOk token a))))))))"

definition loginWithPassword :: "login_request \<Rightarrow> (world, login_result) op" where
  "loginWithPassword p =
    andthen ensureOwner
    (let username = to_lower (str_trim (lq_username p)) in
     bnd (gets (\<lambda>w. (admin_by_name username w, svcs w, clock w))) (\<lambda>(found, x, tm).
     case found of
       None \<Rightarrow> andthen (audit None ''auth.login_failed'' (JStr username) [] (lq_ip p)) (ret (LoginRefused LR_invalid))
     | Some a \<Rightarrow>
         if \<not> ext_verify_password x (lq_password p) (adm_passwordHash a) then
           andthen (audit None ''auth.login_failed'' (JStr username) [] (lq_ip p)) (ret (LoginRefused LR_invalid))
         else (case second_check x tm a p of
           Some r \<Rightarrow> ret (LoginRefused r)
         | None \<Rightarrow> open_session a username (lq_ip p))))"

definition getSessionAdmin :: "string \<Rightarrow> world \<Rightarrow> admin option" where
  "getSessionAdmin token w =
    (if token = [] then None
     else case find_row ads_tokenHash (ext_sha256 (svcs w) token) (admin_sessions w) of
       None \<Rightarrow> None
     | Some s \<Rightarrow> (case find_admin (ads_adminId s) w of
         None \<Rightarrow> None
       | Some a \<Rightarrow> if ads_expiresAt s < clock w \<or> \<not> adm_isActive a then None else Some a))"

definition revokeSession :: "string \<Rightarrow> (world, unit) op" where
  "revokeSession token =
    modify (\<lambda>w. w\<lparr>admin_sessions := del_rows (\<lambda>s. ads_tokenHash s = ext_sha256 (svcs w) token) (admin_sessions w)\<rparr>)"

definition revokeAllSessions :: "uid \<Rightarrow> (world, unit) op" where
  "revokeAllSessions adminId =
    modify (\<lambda>w. w\<lparr>admin_sessions := del_rows (\<lambda>s. ads_adminId s = adminId) (admin_sessions w)\<rparr>)"

section \<open>The brute-force guard: \<open>loginGuard.ts\<close>\<close>

datatype guard_scope = GS_user | GS_ip

record guard_state =
  gd_locked :: bool
  gd_retryAfterSec :: int
  gd_failures :: nat
  gd_maxFailures :: int
  gd_scope :: "guard_scope option"

definition normUser :: "string \<Rightarrow> string" where
  "normUser v = take 64 (to_lower (str_trim v))"

text \<open>The failures at the head of a list, and the time of the first of them.\<close>
definition streak :: "audit_row list \<Rightarrow> nat \<times> time" where
  "streak rows =
    (let fs = takeWhile (\<lambda>r. aud_action r = ''auth.login_failed'') rows in
     (length fs, case fs of [] \<Rightarrow> 0 | r # _ \<Rightarrow> aud_at r))"

text \<open>The rows the guard reads, the latest first; rows of one millisecond keep their order of writing.\<close>
definition guard_rows :: "security_settings \<Rightarrow> string \<Rightarrow> string option \<Rightarrow> world \<Rightarrow> audit_row list" where
  "guard_rows s username ip w =
    take 300 (sort_key (\<lambda>r. - aud_at r) (filter (\<lambda>r.
      (aud_action r = ''auth.login_failed'' \<or> aud_action r = ''auth.login'') \<and>
      clock w - sec_windowMin s * 60000 \<le> aud_at r \<and>
      (aud_target r = JStr username \<or> (sec_perIp s \<and> truthy ip \<and> aud_ip r = ip))) (audit_log w)))"

definition idle_guard :: "security_settings \<Rightarrow> guard_state" where
  "idle_guard s = \<lparr>gd_locked = False, gd_retryAfterSec = 0, gd_failures = 0, gd_maxFailures = sec_maxFailures s, gd_scope = None\<rparr>"

definition loginGuardState :: "string \<Rightarrow> string option \<Rightarrow> world \<Rightarrow> guard_state" where
  "loginGuardState usernameRaw ip w =
    (let s = security_cfg w; username = normUser usernameRaw; rows = guard_rows s username ip w in
     if \<not> sec_lockEnabled s \<or> rows = [] then idle_guard s
     else
       let byUser = streak (filter (\<lambda>r. aud_target r = JStr username) rows);
           byIp = (if sec_perIp s \<and> truthy ip then streak (filter (\<lambda>r. aud_ip r = ip) rows) else (0, 0));
           useIp = (fst byUser < fst byIp);
           hit = (if useIp then byIp else byUser);
           state = \<lparr>gd_locked = False, gd_retryAfterSec = 0, gd_failures = fst hit, gd_maxFailures = sec_maxFailures s,
                    gd_scope = Some (if useIp then GS_ip else GS_user)\<rparr>;
           retryAfterSec = js_ceil (of_int (snd hit + sec_lockMin s * 60000 - clock w) / 1000)
       in if int (fst hit) < sec_maxFailures s then state
          else if 0 < retryAfterSec then state\<lparr>gd_locked := True, gd_retryAfterSec := retryAfterSec\<rparr> else state)"

definition scope_name :: "guard_scope option \<Rightarrow> json" where
  "scope_name s = opt_json (\<lambda>g. JStr (case g of GS_user \<Rightarrow> ''user'' | GS_ip \<Rightarrow> ''ip'')) s"

text \<open>\<open>noteLoginLocked\<close>: its \<open>try\<close> only guards against the database; nothing in it throws.\<close>
definition noteLoginLocked :: "string \<Rightarrow> string option \<Rightarrow> guard_state \<Rightarrow> (world, unit) op" where
  "noteLoginLocked usernameRaw ip state =
    bnd (gets id) (\<lambda>w.
    let s = security_cfg w; username = normUser usernameRaw;
        tgt = (if gd_scope state = Some GS_ip \<and> truthy ip then opt_default ip [] else username);
        already = list_ex (\<lambda>r. aud_action r = ''auth.login_locked'' \<and> aud_target r = JStr tgt \<and>
          clock w - sec_lockMin s * 60000 \<le> aud_at r) (audit_log w) in
    if already then ret () else
    andthen (audit None ''auth.login_locked'' (JStr tgt)
      [(''username'', JStr username), (''scope'', scope_name (gd_scope state)), (''failures'', JInt (int (gd_failures state))),
       (''lockMin'', JInt (sec_lockMin s))] ip)
    (do_when (sec_notifyLock s)
      (notify_void ''auth.login_locked'' [JStr ''auth.login_locked'', JStr tgt, JInt (clock w div (sec_lockMin s * 60000))]
        JNull to_owner)))"

text \<open>The number of sessions ended.\<close>
definition revokeOtherSessions :: "uid \<Rightarrow> string option \<Rightarrow> (world, nat) op" where
  "revokeOtherSessions adminId keepToken =
    bnd (gets (\<lambda>w s. ads_adminId s = adminId \<and>
        \<not> (truthy keepToken \<and> ads_tokenHash s = ext_sha256 (svcs w) (opt_default keepToken [])))) (\<lambda>dropped.
    bnd (gets (\<lambda>w. length (filter dropped (admin_sessions w)))) (\<lambda>n.
    andthen (modify (\<lambda>w. w\<lparr>admin_sessions := del_rows dropped (admin_sessions w)\<rparr>)) (ret n)))"

record security_snapshot =
  sn_failures24h :: nat
  sn_locks24h :: nat
  sn_lastFailureAt :: "time option"
  sn_lastLockAt :: "time option"
  sn_activeSessions :: nat

definition audits_since :: "string \<Rightarrow> time \<Rightarrow> world \<Rightarrow> nat" where
  "audits_since action since w = length (filter (\<lambda>r. aud_action r = action \<and> since \<le> aud_at r) (audit_log w))"

definition last_audit :: "string \<Rightarrow> world \<Rightarrow> time option" where
  "last_audit action w = (case sort_key (\<lambda>r. - aud_at r) (filter (\<lambda>r. aud_action r = action) (audit_log w)) of
     [] \<Rightarrow> None | r # _ \<Rightarrow> Some (aud_at r))"

definition loginSecuritySnapshot :: "world \<Rightarrow> security_snapshot" where
  "loginSecuritySnapshot w =
    (let since = clock w - 86400000 in
     \<lparr>sn_failures24h = audits_since ''auth.login_failed'' since w, sn_locks24h = audits_since ''auth.login_locked'' since w,
      sn_lastFailureAt = last_audit ''auth.login_failed'' w, sn_lastLockAt = last_audit ''auth.login_locked'' w,
      sn_activeSessions = length (filter (\<lambda>s. clock w < ads_expiresAt s) (admin_sessions w))\<rparr>)"


section \<open>Emailed login codes: \<open>mailer.ts\<close>\<close>

definition mailReady :: "mail_settings \<Rightarrow> bool" where
  "mailReady s \<longleftrightarrow> mail_enabled s \<and> mail_host s \<noteq> [] \<and> (mail_from s \<noteq> [] \<or> mail_user s \<noteq> [])"

definition loginCodeTarget :: "mail_settings \<Rightarrow> string" where
  "loginCodeTarget s = (if mail_to s \<noteq> [] then mail_to s else if mail_from s \<noteq> [] then mail_from s else mail_user s)"

definition loginCodeRequired :: "world \<Rightarrow> bool" where
  "loginCodeRequired w \<longleftrightarrow> mailReady (mail_cfg w) \<and> mail_loginCode (mail_cfg w) \<and> loginCodeTarget (mail_cfg w) \<noteq> []"

definition mail_off :: err where
  "mail_off = app_error ''sending mail is not configured''"

text \<open>The guards of \<open>sendMail\<close>; whether the SMTP dialogue succeeds is the parameter \<open>ext_mail\<close>.\<close>
definition sendMail :: "string \<Rightarrow> (world, unit) op" where
  "sendMail dest =
    bnd (gets (\<lambda>w. (mail_cfg w, svcs w))) (\<lambda>(s, x).
    andthen (throw_if (\<not> mailReady s) mail_off)
    (let addr = str_trim (if dest \<noteq> [] then dest else loginCodeTarget s) in
     andthen (throw_if (addr = []) (app_error ''the mail address is empty''))
     (throw_if (\<not> ext_mail x addr) (PlainError ''SMTP error''))))"

definition mask :: "string \<Rightarrow> string" where
  "mask address =
    (case split_on (CHR ''@'') address of
       name # domain # _ \<Rightarrow> if domain = [] then address else take 2 name @ ''***@'' @ domain
     | _ \<Rightarrow> address)"

definition fresh_codes :: "time \<Rightarrow> (string \<times> login_code) list \<Rightarrow> (string \<times> login_code) list" where
  "fresh_codes tm codes = filter (\<lambda>(k, c). tm < lc_exp c) codes"

definition six_digits :: "nat \<Rightarrow> string" where
  "six_digits n = padded_code n"

definition requestLoginCode :: "string \<Rightarrow> string \<Rightarrow> string option \<Rightarrow> (world, string \<times> int) op" where
  "requestLoginCode usernameRaw password ip =
    bnd (gets (\<lambda>w. (mail_cfg w, svcs w))) (\<lambda>(s, x).
    andthen (throw_if (\<not> mailReady s) mail_off)
    (let target = loginCodeTarget s; username = normUser usernameRaw in
    andthen (throw_if (target = []) (app_error ''the address of the login code is not configured''))
    (bnd (gets (admin_by_name username)) (\<lambda>found.
    case found of
      None \<Rightarrow> andthen (audit None ''auth.login_failed'' (JStr username) [] ip) (throw (forbidden_error ''username or password is wrong''))
    | Some a \<Rightarrow>
        if \<not> ext_verify_password x password (adm_passwordHash a) then
          andthen (audit None ''auth.login_failed'' (JStr username) [] ip) (throw (forbidden_error ''username or password is wrong''))
        else
          andthen (throw_if (\<not> adm_isActive a) (forbidden_error ''account is disabled''))
          (bnd (randomInt 1000000) (\<lambda>n. bnd now (\<lambda>tm.
          andthen (modify (\<lambda>w. w\<lparr>login_codes := put_row username
              \<lparr>lc_hash = ext_sha256 x (six_digits n), lc_exp = tm + mail_ttlMin s * 60000, lc_tries = 0\<rparr>
              (fresh_codes tm (login_codes w))\<rparr>))
          (andthen (sendMail target)
          (andthen (audit (Some (adm_id a)) ''auth.email_code'' (JStr username) [(''to'', JStr (mask target))] ip)
          (ret (mask target, mail_ttlMin s)))))))))))"

definition drop_code :: "string \<Rightarrow> world \<Rightarrow> world" where
  "drop_code username w = w\<lparr>login_codes := del_rows (\<lambda>(k, c). k = username) (login_codes w)\<rparr>"

definition consumeLoginCode :: "string \<Rightarrow> string \<Rightarrow> (world, bool) op" where
  "consumeLoginCode usernameRaw code =
    (let username = normUser usernameRaw in
    bnd (gets (\<lambda>w. (map_of (login_codes w) username, svcs w, clock w))) (\<lambda>(found, x, tm).
    case found of
      None \<Rightarrow> ret False
    | Some row \<Rightarrow>
        if lc_hash row = [] then ret False
        else if lc_exp row < tm \<or> 5 \<le> lc_tries row then andthen (modify (drop_code username)) (ret False)
        else if lc_hash row \<noteq> ext_sha256 x (str_trim code) then
          andthen (modify (\<lambda>w. w\<lparr>login_codes := put_row username (row\<lparr>lc_tries := lc_tries row + 1\<rparr>) (login_codes w)\<rparr>)) (ret False)
        else andthen (modify (drop_code username)) (ret True)))"

section \<open>Managing resellers: \<open>admins.ts\<close>\<close>

text \<open>\<open>AdminInput\<close>; in an update a field is \<open>None\<close> when it is undefined.\<close>
record admin_input =
  ai_username :: string
  ai_password :: "string option"
  ai_displayName :: "string option option"
  ai_isActive :: "bool option"
  ai_trafficQuotaGB :: "rat option option"
  ai_clientLimit :: "int option option"
  ai_expiresAt :: "time option option"
  ai_telegramId :: "string option option"
  ai_serverAccess :: "(uid \<times> int list) list option"

definition USERNAME_RE :: "string \<Rightarrow> bool" where
  "USERNAME_RE s \<longleftrightarrow> 3 \<le> length s \<and> length s \<le> 32 \<and> list_all (\<lambda>c. is_lower c \<or> is_digit c \<or> c \<in> set ''_.-'') s"

definition assertOwner :: "admin \<Rightarrow> (world, unit) op" where
  "assertOwner actor = throw_if (adm_role actor \<noteq> OWNER) (forbidden_error ''only the owner may do this'')"

record admin_usage =
  au_admin :: admin
  au_access :: "(uid \<times> int list) list"
  au_clients :: nat
  au_allocatedBytes :: int
  au_usedBytes :: int

definition role_rank :: "admin_role \<Rightarrow> int" where
  "role_rank r = (case r of OWNER \<Rightarrow> 0 | ADMIN \<Rightarrow> 1)"

text \<open>Roles in the order of the enum, which is the order the database sorts them in.\<close>
instantiation admin_role :: linorder
begin

definition less_eq_admin_role :: "admin_role \<Rightarrow> admin_role \<Rightarrow> bool" where
  "less_eq_admin_role r s \<longleftrightarrow> role_rank r \<le> role_rank s"

definition less_admin_role :: "admin_role \<Rightarrow> admin_role \<Rightarrow> bool" where
  "less_admin_role r s \<longleftrightarrow> role_rank r < role_rank s"

instance
  by standard (auto simp: less_eq_admin_role_def less_admin_role_def role_rank_def split: admin_role.splits)

end

definition admin_usage_of :: "world \<Rightarrow> admin \<Rightarrow> admin_usage" where
  "admin_usage_of w a =
    (let cs = filter (\<lambda>c. cli_adminId c = adm_id a) (clients w) in
     \<lparr>au_admin = a,
      au_access = map (\<lambda>r. (acc_serverId r, acc_inboundIds r)) (filter (\<lambda>r. acc_adminId r = adm_id a) (server_accesses w)),
      au_clients = length cs, au_allocatedBytes = sum_list (map cli_trafficLimit cs),
      au_usedBytes = sum_list (map cli_usedUp cs) + sum_list (map cli_usedDown cs)\<rparr>)"

definition listAdmins :: "admin \<Rightarrow> (world, admin_usage list) op" where
  "listAdmins actor = andthen (assertOwner actor)
    (gets (\<lambda>w. map (admin_usage_of w) (sort_key adm_role (sort_key adm_createdAt (admins w)))))"

text \<open>Rows of \<open>AdminServerAccess\<close>: one per server (primary key), each for a server that exists.\<close>
definition insert_access :: "uid \<Rightarrow> (uid \<times> int list) list \<Rightarrow> (world, unit) op" where
  "insert_access adminId rows =
    bnd (gets (\<lambda>w. (list_ex (\<lambda>(s, ibs). find_server s w = None) rows,
        \<not> distinct (map fst rows) \<or> list_ex (\<lambda>r. acc_adminId r = adminId \<and> acc_serverId r \<in> fst ` set rows) (server_accesses w))))
      (\<lambda>(dangling, dup).
    andthen (throw_if dangling (DbError ''P2003: foreign key constraint failed''))
    (andthen (throw_if dup unique_violation)
    (modify (\<lambda>w. w\<lparr>server_accesses := server_accesses w @
      map (\<lambda>(s, ibs). \<lparr>acc_adminId = adminId, acc_serverId = s, acc_inboundIds = ibs\<rparr>) rows\<rparr>))))"

text \<open>\<open>admin.create\<close> with the unique user name and its nested access rows, all or nothing.\<close>
definition insert_admin :: "admin \<Rightarrow> (uid \<times> int list) list \<Rightarrow> (world, unit) op" where
  "insert_admin a rows = transaction
    (bnd (gets (admin_by_name (adm_username a))) (\<lambda>dup.
     andthen (throw_if (dup \<noteq> None) unique_violation)
     (andthen (modify (\<lambda>w. w\<lparr>admins := admins w @ [a]\<rparr>)) (insert_access (adm_id a) rows))))"

definition short_password :: err where
  "short_password = app_error ''the password needs at least 8 characters''"

definition quota_bytes :: "rat option option \<Rightarrow> int option" where
  "quota_bytes q = (case q of Some (Some g) \<Rightarrow> Some (gbToBytes g) | _ \<Rightarrow> None)"

definition created_admin :: "services \<Rightarrow> admin \<Rightarrow> admin_input \<Rightarrow> uid \<Rightarrow> time \<Rightarrow> string \<Rightarrow> admin" where
  "created_admin x actor inp k tm username =
    (blank_admin k tm username (ext_hash_password x (opt_default (ai_password inp) [])))
      \<lparr>adm_displayName := trim_or_null (opt_default (ai_displayName inp) None),
       adm_isActive := opt_default (ai_isActive inp) True,
       adm_trafficQuota := quota_bytes (ai_trafficQuotaGB inp),
       adm_clientLimit := opt_default (ai_clientLimit inp) None,
       adm_expiresAt := opt_default (ai_expiresAt inp) None,
       adm_telegramId := trim_or_null (opt_default (ai_telegramId inp) None),
       adm_createdById := Some (adm_id actor)\<rparr>"

definition createAdmin :: "admin \<Rightarrow> admin_input \<Rightarrow> (world, admin) op" where
  "createAdmin actor inp =
    andthen (assertOwner actor)
    (let username = to_lower (str_trim (ai_username inp)) in
    andthen (throw_if (\<not> USERNAME_RE username) (app_error ''the username needs 3 to 32 Latin characters''))
    (andthen (throw_if (length (opt_default (ai_password inp) []) < 8) short_password)
    (bnd (gets (admin_by_name username)) (\<lambda>taken.
    andthen (throw_if (taken \<noteq> None) (app_error ''this username is taken''))
    (bnd new_id (\<lambda>k. bnd now (\<lambda>tm. bnd (gets svcs) (\<lambda>x.
      let a = created_admin x actor inp k tm username in
      andthen (insert_admin a (opt_default (ai_serverAccess inp) []))
      (andthen (audit (Some (adm_id actor)) ''admin.create'' (JId k) [(''username'', JStr username)] None)
      (ret a))))))))))"

definition patched_admin :: "services \<Rightarrow> admin_input \<Rightarrow> admin \<Rightarrow> admin" where
  "patched_admin x inp a =
    (let b = a\<lparr>
       adm_displayName := (case ai_displayName inp of None \<Rightarrow> adm_displayName a | Some v \<Rightarrow> trim_or_null v),
       adm_telegramId := (case ai_telegramId inp of None \<Rightarrow> adm_telegramId a | Some v \<Rightarrow> trim_or_null v),
       adm_passwordHash := str_or (ai_password inp) (adm_passwordHash a) (ext_hash_password x)\<rparr> in
     if adm_role a = OWNER then b else b\<lparr>
       adm_isActive := opt_default (ai_isActive inp) (adm_isActive a),
       adm_trafficQuota := (case ai_trafficQuotaGB inp of None \<Rightarrow> adm_trafficQuota a | Some v \<Rightarrow> quota_bytes (Some v)),
       adm_clientLimit := opt_default (ai_clientLimit inp) (adm_clientLimit a),
       adm_expiresAt := opt_default (ai_expiresAt inp) (adm_expiresAt a)\<rparr>)"

text \<open>The keys of the \<open>data\<close> object, as the audit row lists them.\<close>
definition admin_fields :: "admin_role \<Rightarrow> admin_input \<Rightarrow> json_obj" where
  "admin_fields role inp = opt_field ''displayName'' (\<lambda>_. JNull) (ai_displayName inp)
    @ opt_field ''telegramId'' (\<lambda>_. JNull) (ai_telegramId inp)
    @ (if truthy (ai_password inp) then [(''passwordHash'', JNull)] else [])
    @ (if role = OWNER then [] else
        opt_field ''isActive'' (\<lambda>_. JNull) (ai_isActive inp) @ opt_field ''trafficQuota'' (\<lambda>_. JNull) (ai_trafficQuotaGB inp)
        @ opt_field ''clientLimit'' (\<lambda>_. JNull) (ai_clientLimit inp) @ opt_field ''expiresAt'' (\<lambda>_. JNull) (ai_expiresAt inp))"

definition updateAdmin :: "admin \<Rightarrow> uid \<Rightarrow> admin_input \<Rightarrow> (world, admin) op" where
  "updateAdmin actor i inp =
    andthen (assertOwner actor)
    (bnd (gets (find_admin i)) (\<lambda>found. bnd (or_throw found (not_found_error ''admin not found'')) (\<lambda>t.
    andthen (throw_if (truthy (ai_password inp) \<and> length (opt_default (ai_password inp) []) < 8) short_password)
    (bnd (gets svcs) (\<lambda>x.
    bnd (transaction
        (andthen (case ai_serverAccess inp of
            Some rows \<Rightarrow> if adm_role t = OWNER then ret () else
              andthen (modify (\<lambda>w. w\<lparr>server_accesses := del_rows (\<lambda>r. acc_adminId r = i) (server_accesses w)\<rparr>)) (insert_access i rows)
          | None \<Rightarrow> ret ())
        (update_admin i (patched_admin x inp)))) (\<lambda>a.
    andthen (do_when (ai_isActive inp = Some False \<or> truthy (ai_password inp)) (revokeAllSessions i))
    (andthen (audit (Some (adm_id actor)) ''admin.update'' (JId i)
       ((''fields'', JObj (admin_fields (adm_role t) inp)) # opt_field ''serverAccess'' (\<lambda>rows. JInt (int (length rows))) (ai_serverAccess inp)) None)
    (ret a))))))))"

text \<open>
  \<open>admin.delete\<close> with the \<open>onDelete\<close> rules of the schema: what belongs to the account goes with it,
  what refers to it otherwise is set to null.
\<close>
definition drop_admin :: "uid \<Rightarrow> world \<Rightarrow> world" where
  "drop_admin i w =
    (let gone = map cus_id (filter (\<lambda>c. cus_adminId c = i) (customers w));
         lost = map ord_id (filter (\<lambda>ord. ord_adminId ord = i) (orders w));
         plansGone = map pln_id (filter (\<lambda>p. pln_adminId p = i) (plans w));
         hooks = map whk_id (filter (\<lambda>h. whk_adminId h = i) (webhooks w));
         unlink = (\<lambda>ids v. case v of Some k \<Rightarrow> if k \<in> set ids then None else Some k | None \<Rightarrow> None) in
     w\<lparr>admins := map (\<lambda>a. a\<lparr>adm_createdById := unlink [i] (adm_createdById a)\<rparr>) (del_rows (\<lambda>a. adm_id a = i) (admins w)),
       admin_sessions := del_rows (\<lambda>s. ads_adminId s = i) (admin_sessions w),
       server_accesses := del_rows (\<lambda>r. acc_adminId r = i) (server_accesses w),
       service_rows := del_rows (\<lambda>s. svc_ownerId s = i) (service_rows w),
       stores := del_rows (\<lambda>s. sto_adminId s = i) (stores w),
       plans := del_rows (\<lambda>p. pln_adminId p = i) (plans w),
       discounts := del_rows (\<lambda>d. dis_adminId d = i) (discounts w),
       wallet_txs := del_rows (\<lambda>t. wtx_adminId t = i) (wallet_txs w),
       customers := del_rows (\<lambda>c. cus_adminId c = i) (customers w),
       customer_sessions := del_rows (\<lambda>s. ses_customerId s \<in> set gone) (customer_sessions w),
       customer_wallet_txs := del_rows (\<lambda>t. cwt_customerId t \<in> set gone) (customer_wallet_txs w),
       orders := map (\<lambda>r. r\<lparr>ord_planId := unlink plansGone (ord_planId r), ord_customerId := unlink gone (ord_customerId r)\<rparr>)
         (del_rows (\<lambda>r. ord_adminId r = i) (orders w)),
       payments := map (\<lambda>p. p\<lparr>pay_reviewedById := unlink [i] (pay_reviewedById p), pay_customerId := unlink gone (pay_customerId p)\<rparr>)
         (del_rows (\<lambda>p. pay_adminId p = i \<or> (case pay_orderId p of Some k \<Rightarrow> k \<in> set lost | None \<Rightarrow> False)) (payments w)),
       clients := map (\<lambda>c. c\<lparr>cli_customerId := unlink gone (cli_customerId c)\<rparr>) (clients w),
       audit_log := map (\<lambda>r. r\<lparr>aud_adminId := unlink [i] (aud_adminId r)\<rparr>) (audit_log w),
       webhooks := del_rows (\<lambda>h. whk_adminId h = i) (webhooks w),
       webhook_deliveries := del_rows (\<lambda>d. whd_webhookId d \<in> set hooks) (webhook_deliveries w)\<rparr>)"

definition deleteAdmin :: "admin \<Rightarrow> uid \<Rightarrow> (world, unit) op" where
  "deleteAdmin actor i =
    andthen (assertOwner actor)
    (bnd (gets (\<lambda>w. (find_admin i w, list_ex (\<lambda>c. cli_adminId c = i) (clients w)))) (\<lambda>(found, has_clients).
    bnd (or_throw found (not_found_error ''admin not found'')) (\<lambda>t.
    andthen (throw_if (adm_role t = OWNER) (forbidden_error ''the owner cannot be deleted''))
    (andthen (throw_if has_clients (app_error ''delete or move the clients of this admin first''))
    (andthen (modify (drop_admin i))
    (audit (Some (adm_id actor)) ''admin.delete'' (JId i) [(''username'', JStr (adm_username t))] None))))))"

subsection \<open>Self service\<close>

definition changeOwnPassword :: "admin \<Rightarrow> string \<Rightarrow> string \<Rightarrow> (world, unit) op" where
  "changeOwnPassword actor current next =
    bnd (gets svcs) (\<lambda>x.
    andthen (throw_if (\<not> ext_verify_password x current (adm_passwordHash actor)) (app_error ''the current password is wrong''))
    (andthen (throw_if (length next < 8) short_password)
    (andthen (update_admin (adm_id actor) (\<lambda>r. r\<lparr>adm_passwordHash := ext_hash_password x next\<rparr>))
    (audit (Some (adm_id actor)) ''auth.password_changed'' (JId (adm_id actor)) [] None))))"

definition beginTotpSetup :: "admin \<Rightarrow> (world, string) op" where
  "beginTotpSetup actor =
    bnd generateTotpSecret (\<lambda>secret.
    andthen (update_admin (adm_id actor) (\<lambda>r. r\<lparr>adm_totpSecret := Some secret, adm_totpEnabled := False\<rparr>)) (ret secret))"

definition bad_code :: err where
  "bad_code = app_error ''the code is wrong''"

definition confirmTotp :: "admin \<Rightarrow> string \<Rightarrow> (world, unit) op" where
  "confirmTotp actor code =
    bnd (gets (\<lambda>w. (find_admin (adm_id actor) w, svcs w, clock w))) (\<lambda>(found, x, tm).
    let secret = (case found of Some a \<Rightarrow> adm_totpSecret a | None \<Rightarrow> None) in
    andthen (throw_if (\<not> truthy secret) (app_error ''start the two-step setup first''))
    (andthen (throw_if (\<not> verifyTotp x tm (opt_default secret []) code) bad_code)
    (andthen (update_admin (adm_id actor) (\<lambda>r. r\<lparr>adm_totpEnabled := True\<rparr>))
    (audit (Some (adm_id actor)) ''auth.totp_enabled'' (JId (adm_id actor)) [] None))))"

definition disableTotp :: "admin \<Rightarrow> string \<Rightarrow> (world, unit) op" where
  "disableTotp actor code =
    bnd (gets (\<lambda>w. (svcs w, clock w))) (\<lambda>(x, tm).
    andthen (throw_if (\<not> truthy (adm_totpSecret actor) \<or> \<not> verifyTotp x tm (opt_default (adm_totpSecret actor) []) code) bad_code)
    (andthen (update_admin (adm_id actor) (\<lambda>r. r\<lparr>adm_totpEnabled := False, adm_totpSecret := None\<rparr>))
    (audit (Some (adm_id actor)) ''auth.totp_disabled'' (JId (adm_id actor)) [] None)))"

end
