(* ===== verification/StoreSettings.thy ===== *)
theory StoreSettings
  imports Wallet
begin

text \<open>
  \<open>storeSettings.ts\<close>: one storefront per admin, with the payment methods it accepts. Page texts
  (title, rules, links) are not modelled; encryption of the merchant id is a parameter.
\<close>

definition slug_char :: "char \<Rightarrow> bool" where
  "slug_char c \<longleftrightarrow> is_lower c \<or> is_digit c \<or> c = CHR ''_'' \<or> c = CHR ''-''"

definition defaultSlug :: "string \<Rightarrow> string" where
  "defaultSlug username =
    (let s = take 40 (filter slug_char (to_lower username)) in if s = [] then ''shop'' else s)"

definition store_by_slug :: "string \<Rightarrow> world \<Rightarrow> store_settings option" where
  "store_by_slug slug w = find_row sto_slug slug (stores w)"

text \<open>The last characters of an identifier.\<close>
definition id_suffix :: "uid \<Rightarrow> string" where
  "id_suffix i = (let s = show_nat i in drop (length s - 4) s)"

text \<open>A new row with the defaults of the schema.\<close>
definition default_store :: "uid \<Rightarrow> uid \<Rightarrow> string \<Rightarrow> store_settings" where
  "default_store i adminId slug = \<lparr>sto_id = i, sto_adminId = adminId, sto_enabled = False, sto_slug = slug,
     sto_usdtEnabled = False, sto_usdtAddress = None, sto_usdtNetwork = ''TRC20'', sto_usdtRate = 0, sto_usdtAutoVerify = True,
     sto_cardEnabled = False, sto_cardNumber = None, sto_cardHolder = None, sto_cardBank = None,
     sto_zarinpalEnabled = False, sto_zarinpalMerchant = None, sto_zarinpalSandbox = False,
     sto_requireTelegram = False, sto_requirePhone = False, sto_paymentTtlMin = 60,
     sto_accountsEnabled = False, sto_guestCheckout = True, sto_walletEnabled = True,
     sto_minTopup = 0, sto_topupBonusPct = 0, sto_requireEmail = False\<rparr>"

definition ensureStoreSettings :: "admin \<Rightarrow> (world, store_settings) op" where
  "ensureStoreSettings a =
    bnd (gets (\<lambda>w. (find_store (adm_id a) w, store_by_slug (defaultSlug (adm_username a)) w))) (\<lambda>(existing, taken).
      case existing of
        Some s \<Rightarrow> ret s
      | None \<Rightarrow>
         let slug = (if taken = None then defaultSlug (adm_username a)
                     else defaultSlug (adm_username a) @ ''-'' @ to_lower (id_suffix (adm_id a))) in
         bnd (gets (store_by_slug slug)) (\<lambda>dup.
         andthen (throw_if (dup \<noteq> None) unique_violation)
         (bnd new_id (\<lambda>k.
           let s = default_store k (adm_id a) slug in
           andthen (modify (\<lambda>w. w\<lparr>stores := stores w @ [s]\<rparr>)) (ret s)))))"

definition storeSettingsByAdminId :: "uid \<Rightarrow> world \<Rightarrow> store_settings option" where
  "storeSettingsByAdminId adminId w = find_store adminId w"

definition merchantOf :: "services \<Rightarrow> store_settings \<Rightarrow> string option" where
  "merchantOf x s = (case sto_zarinpalMerchant s of None \<Rightarrow> None | Some m \<Rightarrow> if m = [] then None else ext_decrypt x m)"

text \<open>The scheme \<open>http(s)://\<close> is taken off, in any case.\<close>
definition strip_scheme :: "string \<Rightarrow> string" where
  "strip_scheme s =
    (if to_lower (take 8 s) = ''https://'' then drop 8 s
     else if to_lower (take 7 s) = ''http://'' then drop 7 s else s)"

definition strip_slashes :: "string \<Rightarrow> string" where
  "strip_slashes s = rev (dropWhile (\<lambda>c. c = CHR ''/'') (rev s))"

definition panelUrl :: "world \<Rightarrow> string" where
  "panelUrl w = strip_slashes (env_public_url w)"

definition storeUrlFor :: "world \<Rightarrow> store_settings \<Rightarrow> string option \<Rightarrow> string" where
  "storeUrlFor w s customDomain =
    (let domain = strip_slashes (strip_scheme (str_trim (opt_default customDomain [])))
     in if domain \<noteq> [] then ''https://'' @ domain @ ''/shop'' else panelUrl w @ ''/shop/'' @ sto_slug s)"

definition enabledMethods :: "store_settings \<Rightarrow> payment_method list" where
  "enabledMethods s =
    (if sto_usdtEnabled s \<and> truthy (sto_usdtAddress s) \<and> 0 < sto_usdtRate s then [USDT] else [])
    @ (if sto_cardEnabled s \<and> truthy (sto_cardNumber s) then [CARD] else [])
    @ (if sto_zarinpalEnabled s \<and> truthy (sto_zarinpalMerchant s) then [ZARINPAL] else [])"

definition enabledMethodsForCustomer :: "store_settings \<Rightarrow> bool \<Rightarrow> int option \<Rightarrow> int option \<Rightarrow> payment_method list" where
  "enabledMethodsForCustomer s loggedIn balance amount =
    (if \<not> loggedIn \<or> \<not> sto_walletEnabled s then enabledMethods s
     else if 0 < opt_default amount 0 \<and> opt_default balance 0 < opt_default amount 0 then enabledMethods s
     else WALLET # enabledMethods s)"

text \<open>A patch: \<open>None\<close> is undefined, \<open>Some None\<close> is null (or an empty text, for the texts).\<close>
record store_patch =
  sp_enabled :: "bool option"
  sp_slug :: "string option"
  sp_usdtEnabled :: "bool option"
  sp_usdtAddress :: "string option option"
  sp_usdtNetwork :: "string option"
  sp_usdtRate :: "int option"
  sp_usdtAutoVerify :: "bool option"
  sp_cardEnabled :: "bool option"
  sp_cardNumber :: "string option option"
  sp_cardHolder :: "string option option"
  sp_cardBank :: "string option option"
  sp_zarinpalEnabled :: "bool option"
  sp_zarinpalMerchant :: "string option option"
  sp_zarinpalSandbox :: "bool option"
  sp_requireTelegram :: "bool option"
  sp_requirePhone :: "bool option"
  sp_paymentTtlMin :: "int option"
  sp_accountsEnabled :: "bool option"
  sp_guestCheckout :: "bool option"
  sp_walletEnabled :: "bool option"
  sp_minTopup :: "int option"
  sp_topupBonusPct :: "int option"
  sp_requireEmail :: "bool option"

definition patch_text :: "string option option \<Rightarrow> string option \<Rightarrow> string option" where
  "patch_text x old = (case x of None \<Rightarrow> old | Some v \<Rightarrow> trim_or_null v)"

text \<open>The network column is not nullable; its schema keeps a given network non-empty in practice.\<close>
definition patch_network :: "string option \<Rightarrow> string \<Rightarrow> string" where
  "patch_network x old = (case x of None \<Rightarrow> old | Some v \<Rightarrow> to_upper (str_trim v))"

definition patch_merchant :: "services \<Rightarrow> string option option \<Rightarrow> string option \<Rightarrow> string option" where
  "patch_merchant x v old =
    (case v of None \<Rightarrow> old | Some None \<Rightarrow> None | Some (Some m) \<Rightarrow> if str_trim m = [] then old else Some (ext_encrypt x (str_trim m)))"

definition patched_store :: "services \<Rightarrow> store_patch \<Rightarrow> store_settings \<Rightarrow> store_settings" where
  "patched_store x p s = s\<lparr>sto_enabled := opt_default (sp_enabled p) (sto_enabled s),
     sto_slug := opt_default (map_option (map char_lower) (sp_slug p)) (sto_slug s),
     sto_usdtEnabled := opt_default (sp_usdtEnabled p) (sto_usdtEnabled s),
     sto_usdtAddress := patch_text (sp_usdtAddress p) (sto_usdtAddress s),
     sto_usdtNetwork := patch_network (sp_usdtNetwork p) (sto_usdtNetwork s),
     sto_usdtRate := opt_default (sp_usdtRate p) (sto_usdtRate s),
     sto_usdtAutoVerify := opt_default (sp_usdtAutoVerify p) (sto_usdtAutoVerify s),
     sto_cardEnabled := opt_default (sp_cardEnabled p) (sto_cardEnabled s),
     sto_cardNumber := (case sp_cardNumber p of None \<Rightarrow> sto_cardNumber s
        | Some v \<Rightarrow> map_option (filter is_digit) (trim_or_null v)),
     sto_cardHolder := patch_text (sp_cardHolder p) (sto_cardHolder s),
     sto_cardBank := patch_text (sp_cardBank p) (sto_cardBank s),
     sto_zarinpalEnabled := opt_default (sp_zarinpalEnabled p) (sto_zarinpalEnabled s),
     sto_zarinpalMerchant := patch_merchant x (sp_zarinpalMerchant p) (sto_zarinpalMerchant s),
     sto_zarinpalSandbox := opt_default (sp_zarinpalSandbox p) (sto_zarinpalSandbox s),
     sto_requireTelegram := opt_default (sp_requireTelegram p) (sto_requireTelegram s),
     sto_requirePhone := opt_default (sp_requirePhone p) (sto_requirePhone s),
     sto_paymentTtlMin := opt_default (sp_paymentTtlMin p) (sto_paymentTtlMin s),
     sto_accountsEnabled := opt_default (sp_accountsEnabled p) (sto_accountsEnabled s),
     sto_guestCheckout := opt_default (sp_guestCheckout p) (sto_guestCheckout s),
     sto_walletEnabled := opt_default (sp_walletEnabled p) (sto_walletEnabled s),
     sto_minTopup := opt_default (sp_minTopup p) (sto_minTopup s),
     sto_topupBonusPct := opt_default (sp_topupBonusPct p) (sto_topupBonusPct s),
     sto_requireEmail := opt_default (sp_requireEmail p) (sto_requireEmail s)\<rparr>"

text \<open>The combinations that are refused.\<close>
definition store_checks :: "store_settings \<Rightarrow> (world, unit) op" where
  "store_checks s =
    andthen (throw_if (sto_usdtEnabled s \<and> (\<not> truthy (sto_usdtAddress s) \<or> sto_usdtRate s \<le> 0)) (app_error ''USDT needs an address and a rate''))
    (andthen (throw_if (sto_cardEnabled s \<and> \<not> truthy (sto_cardNumber s)) (app_error ''card payment needs a card number''))
    (andthen (throw_if (sto_zarinpalEnabled s \<and> \<not> truthy (sto_zarinpalMerchant s)) (app_error ''Zarinpal needs a merchant id''))
    (andthen (throw_if (\<not> sto_accountsEnabled s \<and> \<not> sto_guestCheckout s) (app_error ''accounts or guest checkout must be on''))
    (throw_if (sto_walletEnabled s \<and> \<not> sto_accountsEnabled s) (app_error ''the wallet needs accounts'')))))"

text \<open>What the settings page is shown: the secret merchant id only as a mask.\<close>
record store_dto =
  sd_store :: store_settings
  sd_hasZarinpal :: bool
  sd_zarinpalMerchantMasked :: string
  sd_url :: string
  sd_methods :: "payment_method list"

definition toStoreSettingsDto :: "world \<Rightarrow> store_settings \<Rightarrow> string option \<Rightarrow> store_dto" where
  "toStoreSettingsDto w s customDomain =
    (let m = merchantOf (svcs w) s in
     \<lparr>sd_store = s\<lparr>sto_zarinpalMerchant := None\<rparr>, sd_hasZarinpal = truthy m,
       sd_zarinpalMerchantMasked = str_or m [] (\<lambda>t. take 6 t @ ''...'' @ drop (length t - 4) t),
       sd_url = storeUrlFor w s customDomain, sd_methods = enabledMethods s\<rparr>)"

text \<open>The keys of the \<open>data\<close> object.\<close>
definition store_fields :: "store_patch \<Rightarrow> json_obj" where
  "store_fields p =
    (let k = (\<lambda>n b. if b then [(n, JNull)] else []) in
     k ''enabled'' (sp_enabled p \<noteq> None) @ k ''usdtEnabled'' (sp_usdtEnabled p \<noteq> None) @ k ''usdtAddress'' (sp_usdtAddress p \<noteq> None)
     @ k ''usdtNetwork'' (sp_usdtNetwork p \<noteq> None) @ k ''usdtRate'' (sp_usdtRate p \<noteq> None) @ k ''usdtAutoVerify'' (sp_usdtAutoVerify p \<noteq> None)
     @ k ''cardEnabled'' (sp_cardEnabled p \<noteq> None) @ k ''cardNumber'' (sp_cardNumber p \<noteq> None) @ k ''cardHolder'' (sp_cardHolder p \<noteq> None)
     @ k ''cardBank'' (sp_cardBank p \<noteq> None) @ k ''zarinpalEnabled'' (sp_zarinpalEnabled p \<noteq> None)
     @ k ''zarinpalSandbox'' (sp_zarinpalSandbox p \<noteq> None) @ k ''requireTelegram'' (sp_requireTelegram p \<noteq> None)
     @ k ''requirePhone'' (sp_requirePhone p \<noteq> None) @ k ''paymentTtlMin'' (sp_paymentTtlMin p \<noteq> None)
     @ k ''accountsEnabled'' (sp_accountsEnabled p \<noteq> None) @ k ''guestCheckout'' (sp_guestCheckout p \<noteq> None)
     @ k ''walletEnabled'' (sp_walletEnabled p \<noteq> None) @ k ''topupBonusPct'' (sp_topupBonusPct p \<noteq> None)
     @ k ''requireEmail'' (sp_requireEmail p \<noteq> None) @ k ''minTopup'' (sp_minTopup p \<noteq> None) @ k ''slug'' (sp_slug p \<noteq> None)
     @ k ''zarinpalMerchant'' (case sp_zarinpalMerchant p of None \<Rightarrow> False | Some None \<Rightarrow> True | Some (Some m) \<Rightarrow> str_trim m \<noteq> []))"

definition updateStoreSettings :: "admin \<Rightarrow> store_patch \<Rightarrow> (world, store_settings) op" where
  "updateStoreSettings actor p =
    bnd (ensureStoreSettings actor) (\<lambda>cur.
    bnd (gets (\<lambda>w. case sp_slug p of None \<Rightarrow> None | Some g \<Rightarrow> store_by_slug (to_lower g) w)) (\<lambda>clash.
    andthen (throw_if (case clash of None \<Rightarrow> False | Some c \<Rightarrow> sto_adminId c \<noteq> adm_id actor) (app_error ''slug is taken''))
    (bnd (gets svcs) (\<lambda>x.
      let next = patched_store x p cur in
      andthen (store_checks next)
      (andthen (modify (\<lambda>w. w\<lparr>stores := upd_rows (\<lambda>s. sto_id s = sto_id cur) (patched_store x p) (stores w)\<rparr>))
      (andthen (audit (Some (adm_id actor)) ''store.update'' (JId (sto_id cur)) [(''fields'', JObj (store_fields p))] None)
      (ret next)))))))"

section \<open>Properties\<close>

text \<open>A storefront that \<open>updateStoreSettings\<close> accepts.\<close>
definition store_wf :: "store_settings \<Rightarrow> bool" where
  "store_wf s \<longleftrightarrow> (sto_usdtEnabled s \<longrightarrow> USDT \<in> set (enabledMethods s)) \<and> (sto_cardEnabled s \<longrightarrow> CARD \<in> set (enabledMethods s)) \<and>
     (sto_zarinpalEnabled s \<longrightarrow> ZARINPAL \<in> set (enabledMethods s)) \<and> (sto_accountsEnabled s \<or> sto_guestCheckout s)"

lemma store_checks_inr:
  "store_checks s w = (Inr u, w') \<Longrightarrow> w' = w \<and> store_wf s \<and> (sto_walletEnabled s \<longrightarrow> sto_accountsEnabled s)"
  by (auto simp: store_checks_def inr_iffs store_wf_def enabledMethods_def)

lemma methods_distinct [simp]: "distinct (enabledMethods s)"
  by (auto simp: enabledMethods_def)

lemma wallet_not_base: "WALLET \<notin> set (enabledMethods s)"
  by (simp add: enabledMethods_def)

text \<open>Every table key of the storefronts is unique.\<close>
definition stores_keyed :: "world \<Rightarrow> bool" where
  "stores_keyed w \<longleftrightarrow> distinct (map sto_id (stores w)) \<and> distinct (map sto_adminId (stores w)) \<and> distinct (map sto_slug (stores w)) \<and>
     (\<forall>s \<in> set (stores w). sto_id s < next_id w)"

lemma stores_keyed_events: "stores_keyed w \<Longrightarrow> events_only w w' \<Longrightarrow> stores_keyed w'"
  using eo_next_id [of w w'] by (auto simp: stores_keyed_def eo_stores)

lemma patched_store_sel [simp]:
  "sto_id (patched_store x p s) = sto_id s" "sto_adminId (patched_store x p s) = sto_adminId s"
  "sto_slug (patched_store x p s) = opt_default (map_option (map char_lower) (sp_slug p)) (sto_slug s)"
  by (simp_all add: patched_store_def)

lemma default_store_sel [simp]:
  "sto_id (default_store k a g) = k" "sto_adminId (default_store k a g) = a" "sto_slug (default_store k a g) = g"
  by (simp_all add: default_store_def)

lemma ensure_inr:
  assumes "ensureStoreSettings a w = (Inr s, w')" and "stores_keyed w"
  shows "stores_keyed w' \<and> s \<in> set (stores w') \<and> sto_adminId s = adm_id a"
proof (cases "find_store (adm_id a) w")
  case (Some t)
  then have "s = t" "w' = w" using assms(1) by (simp_all add: ensureStoreSettings_def)
  then show ?thesis using assms(2) Some find_row_in find_row_key by (fastforce simp: find_store_def)
next
  case None
  define slug where "slug = (if store_by_slug (defaultSlug (adm_username a)) w = None then defaultSlug (adm_username a)
                     else defaultSlug (adm_username a) @ ''-'' @ to_lower (id_suffix (adm_id a)))"
  have run: "ensureStoreSettings a w = (if store_by_slug slug w \<noteq> None then (Inl unique_violation, w)
      else (Inr (default_store (next_id w) (adm_id a) slug),
        w\<lparr>next_id := Suc (next_id w), stores := stores w @ [default_store (next_id w) (adm_id a) slug]\<rparr>))"
    unfolding slug_def using None
    by (simp add: ensureStoreSettings_def Let_def andthen_throw_if new_id_def bnd_def)
  have free: "store_by_slug slug w = None" using assms(1) run by (auto split: if_splits)
  then have "slug \<notin> sto_slug ` set (stores w)" by (simp add: store_by_slug_def find_row_None)
  moreover have "adm_id a \<notin> sto_adminId ` set (stores w)" using None by (simp add: find_store_def find_row_None)
  moreover have "s = default_store (next_id w) (adm_id a) slug"
      "w' = w\<lparr>next_id := Suc (next_id w), stores := stores w @ [default_store (next_id w) (adm_id a) slug]\<rparr>"
    using assms(1) free by (auto simp: run)
  ultimately show ?thesis
    using assms(2) by (fastforce simp: stores_keyed_def less_Suc_eq)
qed

text \<open>
  A saved storefront is usable and keeps its address to itself (type, every accepted update).
  After \<open>updateStoreSettings\<close> succeeds, every payment method that is switched on is one a buyer is
  really offered (its address, rate, card or merchant is there), buying is possible with an account
  or as a guest, the row is stored under its owner, and no two storefronts share an address or an
  owner.
\<close>
theorem store_update_spec:
  assumes "updateStoreSettings actor p w = (Inr s, w')" and "stores_keyed w"
  shows "store_wf s \<and> (sto_walletEnabled s \<longrightarrow> sto_accountsEnabled s) \<and> find_store (adm_id actor) w' = Some s \<and> stores_keyed w'"
proof -
  let ?x = "\<lambda>w. patched_store (svcs w) p"
  from assms(1) obtain cur w1 u where e: "ensureStoreSettings actor w = (Inr cur, w1)"
    and clash: "\<not> (case (case sp_slug p of None \<Rightarrow> None | Some g \<Rightarrow> store_by_slug (to_lower g) w1) of None \<Rightarrow> False
        | Some c \<Rightarrow> sto_adminId c \<noteq> adm_id actor)"
    and chk: "store_checks (?x w1 cur) w1 = (Inr u, w1)" and s: "s = ?x w1 cur"
    and au: "audit (Some (adm_id actor)) ''store.update'' (JId (sto_id cur)) [(''fields'', JObj (store_fields p))] None
        (w1\<lparr>stores := upd_rows (\<lambda>s. sto_id s = sto_id cur) (?x w1) (stores w1)\<rparr>) = (Inr (), w')"
    unfolding updateStoreSettings_def Let_def inr_iffs by (auto dest: store_checks_inr)
  note k = ensure_inr [OF e assms(2)]
  let ?w2 = "w1\<lparr>stores := upd_rows (\<lambda>s. sto_id s = sto_id cur) (?x w1) (stores w1)\<rparr>"
  have ev: "events_only ?w2 w'" using quiet_snd [OF quiet_audit] au by (metis snd_conv)
  have only: "t = cur" if "t \<in> set (stores w1)" "sto_id t = sto_id cur \<or> sto_adminId t = adm_id actor" for t
  proof -
    have "inj_on sto_id (set (stores w1))" "inj_on sto_adminId (set (stores w1))" "cur \<in> set (stores w1)" "sto_adminId cur = adm_id actor"
      using k by (simp_all add: stores_keyed_def distinct_map)
    then show ?thesis using that by (metis inj_onD)
  qed
  have slugs: "distinct (map sto_slug (stores ?w2))"
  proof (cases "sp_slug p")
    case None
    have "map sto_slug (stores ?w2) = map sto_slug (stores w1)" by (simp add: None)
    then show ?thesis using k by (simp add: stores_keyed_def)
  next
    case (Some g)
    have g: "sto_slug t \<noteq> to_lower g" if "t \<in> set (stores w1)" "t \<noteq> cur" for t
    proof
      assume eq: "sto_slug t = to_lower g"
      then have "to_lower g \<in> sto_slug ` set (stores w1)" using that(1) by force
      then obtain c where c: "find_row sto_slug (to_lower g) (stores w1) = Some c"
        using find_row_None [of sto_slug "to_lower g" "stores w1"] by blast
      have "c \<in> set (stores w1)" "sto_slug c = to_lower g" using c by (auto dest: find_row_in find_row_key)
      moreover have "inj_on sto_slug (set (stores w1))" using k by (simp add: stores_keyed_def distinct_map)
      ultimately have "c = t" using eq that(1) by (metis inj_onD)
      moreover have "c = cur" using clash c Some \<open>c \<in> set (stores w1)\<close> only by (simp add: store_by_slug_def)
      ultimately show False using that(2) by simp
    qed
    have "sto_slug (?x w1 r) \<noteq> sto_slug t" if "t \<in> set (stores w1)" "sto_id t \<noteq> sto_id cur" for r t
    proof -
      have "t \<noteq> cur" using that(2) by blast
      then show ?thesis using g [OF that(1)] Some by (auto dest: sym)
    qed
    then have "distinct (map sto_slug (upd_rows (\<lambda>s. sto_id s = sto_id cur) (?x w1) (stores w1)))"
      using k by (intro distinct_upd_rows) (simp_all add: stores_keyed_def)
    then show ?thesis by simp
  qed
  have k2: "stores_keyed ?w2" using k slugs by (auto simp: stores_keyed_def set_upd_rows)
  have "find_store (adm_id actor) ?w2 = map_option (\<lambda>r. if sto_id r = sto_id cur then ?x w1 r else r) (find_store (adm_id actor) w1)"
    by (simp add: find_store_def find_row_upd)
  moreover have "find_store (adm_id actor) w1 = Some cur"
    using k find_row_distinct [of sto_adminId "stores w1" cur] by (simp add: find_store_def stores_keyed_def)
  ultimately have "find_store (adm_id actor) w' = Some s" by (simp add: find_store_def eo_stores [OF ev] s)
  then show ?thesis
    using store_checks_inr [OF chk] s stores_keyed_events [OF k2 ev] by simp
qed

definition no_store_patch :: store_patch where
  "no_store_patch = \<lparr>sp_enabled = None, sp_slug = None, sp_usdtEnabled = None, sp_usdtAddress = None, sp_usdtNetwork = None,
     sp_usdtRate = None, sp_usdtAutoVerify = None, sp_cardEnabled = None, sp_cardNumber = None, sp_cardHolder = None,
     sp_cardBank = None, sp_zarinpalEnabled = None, sp_zarinpalMerchant = None, sp_zarinpalSandbox = None,
     sp_requireTelegram = None, sp_requirePhone = None, sp_paymentTtlMin = None, sp_accountsEnabled = None,
     sp_guestCheckout = None, sp_walletEnabled = None, sp_minTopup = None, sp_topupBonusPct = None, sp_requireEmail = None\<rparr>"

lemma store_update_spec_witness:
  "\<exists>s w'. updateStoreSettings (demo_admin 3 ADMIN 500)
      (no_store_patch\<lparr>sp_cardEnabled := Some True, sp_cardNumber := Some (Some ''6037-99''), sp_accountsEnabled := Some True\<rparr>) demo_world =
      (Inr s, w') \<and> CARD \<in> set (enabledMethods s) \<and> stores_keyed w'"
proof -
  let ?p = "no_store_patch\<lparr>sp_cardEnabled := Some True, sp_cardNumber := Some (Some ''6037-99''), sp_accountsEnabled := Some True\<rparr>"
  have "(case fst (updateStoreSettings (demo_admin 3 ADMIN 500) ?p demo_world) of Inl _ \<Rightarrow> False | Inr s \<Rightarrow> CARD \<in> set (enabledMethods s))"
    by code_simp
  then obtain s w' where run: "updateStoreSettings (demo_admin 3 ADMIN 500) ?p demo_world = (Inr s, w')" and "CARD \<in> set (enabledMethods s)"
    by (cases "updateStoreSettings (demo_admin 3 ADMIN 500) ?p demo_world") (auto split: sum.splits)
  moreover have "stores_keyed demo_world" by (simp add: stores_keyed_def)
  ultimately show ?thesis using store_update_spec [OF run] by blast
qed

end
