(* ===== verification/Plans.thy ===== *)
theory Plans
  imports ClientSafety
begin

text \<open>
  \<open>plans.ts\<close>: what a storefront sells. A plan keeps the inbounds resolved from a service next to the
  service itself, so that an order can read them again; a discount code lowers its price.
\<close>

section \<open>Targets of a plan\<close>

definition planTargets :: "plan \<Rightarrow> target list" where
  "planTargets p = List.map_filter pt_target (pln_targets p)"

definition planServiceId :: "plan \<Rightarrow> uid option" where
  "planServiceId p = (case find (\<lambda>t. pt_serviceId t \<noteq> None) (pln_targets p) of Some t \<Rightarrow> pt_serviceId t | None \<Rightarrow> None)"

text \<open>\<open>Pick<Admin, "id" | "role">\<close>: only the identifier and the role are read.\<close>
definition actor_pick :: "uid \<Rightarrow> admin_role \<Rightarrow> admin" where
  "actor_pick i role = \<lparr>adm_id = i, adm_username = [], adm_role = role, adm_displayName = None, adm_isActive = True,
     adm_credit = 0, adm_trafficQuota = None, adm_clientLimit = None, adm_expiresAt = None, adm_telegramId = None,
     adm_pricePerGB = None, adm_pricePerDay = None, adm_createdAt = 0, adm_passwordHash = [], adm_totpEnabled = False,
     adm_totpSecret = None, adm_createdById = None, adm_lastLoginAt = None, adm_lastLoginIp = None\<rparr>"

lemma actor_pick_sel [simp]: "adm_id (actor_pick i role) = i" "adm_role (actor_pick i role) = role"
  by (simp_all add: actor_pick_def)

record plan_input =
  pin_name :: string
  pin_description :: "string option"
  pin_badge :: "string option"
  pin_trafficGB :: rat
  pin_days :: rat
  pin_ipLimit :: "rat option"
  pin_price :: rat
  pin_oldPrice :: "rat option"
  pin_serviceId :: "uid option"
  pin_targets :: "target list"
  pin_isActive :: bool
  pin_sortOrder :: "rat option"

text \<open>The service first, explicit inbounds as a fallback.\<close>
definition resolvePlanTargets :: "admin \<Rightarrow> uid option \<Rightarrow> target list \<Rightarrow> (world, target list) op" where
  "resolvePlanTargets actor serviceId targets =
    (case serviceId of Some s \<Rightarrow> resolveServiceTargets actor s | None \<Rightarrow> validateTargets actor targets)"

definition storedTargets :: "target list \<Rightarrow> uid option \<Rightarrow> plan_target list" where
  "storedTargets ts serviceId = map (\<lambda>t. \<lparr>pt_target = Some t, pt_serviceId = serviceId\<rparr>) ts"

text \<open>An owner sees everything, or one admin's rows when he asks for them.\<close>
definition planScope :: "admin \<Rightarrow> uid option \<Rightarrow> uid \<Rightarrow> bool" where
  "planScope actor adminId a = (if adm_role actor = OWNER then adminId = None \<or> adminId = Some a else a = adm_id actor)"

record plan_view =
  pv_plan :: plan
  pv_serviceId :: "uid option"
  pv_serviceName :: "string option"
  pv_serviceActive :: "bool option"
  pv_cost :: int

definition plan_view_of :: "admin \<Rightarrow> world \<Rightarrow> plan \<Rightarrow> plan_view" where
  "plan_view_of actor w p =
    (let service = (case planServiceId p of Some s \<Rightarrow> find_service s w | None \<Rightarrow> None);
         role = (if pln_adminId p = adm_id actor then adm_role actor else ADMIN)
     in \<lparr>pv_plan = p, pv_serviceId = planServiceId p, pv_serviceName = map_option svc_name service,
         pv_serviceActive = map_option svc_isActive service,
         pv_cost = quoteClientCost w \<lparr>pa_id = pln_adminId p, pa_role = role, pa_own = None\<rparr> (of_int (pln_trafficGB p)) (of_int (pln_days p))\<rparr>)"

definition listPlans :: "admin \<Rightarrow> uid option \<Rightarrow> bool \<Rightarrow> world \<Rightarrow> plan_view list" where
  "listPlans actor adminId activeOnly w =
    map (plan_view_of actor w)
      (sort_key pln_sortOrder (sort_key pln_createdAt
        (filter (\<lambda>p. planScope actor adminId (pln_adminId p) \<and> (activeOnly \<longrightarrow> pln_isActive p)) (plans w))))"

definition plan_not_found :: err where
  "plan_not_found = not_found_error ''plan not found''"

definition getPlanForActor :: "admin \<Rightarrow> uid \<Rightarrow> (world, plan) op" where
  "getPlanForActor actor i =
    bnd (gets (find_plan i)) (\<lambda>found. bnd (or_throw found plan_not_found) (\<lambda>p.
      if adm_role actor \<noteq> OWNER \<and> pln_adminId p \<noteq> adm_id actor then throw forbidden else ret p))"

definition plan_checks :: "plan_input \<Rightarrow> (world, unit) op" where
  "plan_checks inp =
    andthen (throw_if (str_trim (pin_name inp) = []) (app_error ''plan name is required''))
      (throw_if (pin_price inp < 0) (app_error ''price is not valid''))"

definition round0 :: "rat \<Rightarrow> int" where
  "round0 x = max 0 (js_round x)"

text \<open>\<open>normalize\<close>, applied to a row.\<close>
definition normalized_plan :: "plan_input \<Rightarrow> plan_target list \<Rightarrow> plan \<Rightarrow> plan" where
  "normalized_plan inp targets p = p\<lparr>pln_name := str_trim (pin_name inp), pln_description := trim_or_null (pin_description inp),
     pln_badge := trim_or_null (pin_badge inp), pln_trafficGB := round0 (pin_trafficGB inp), pln_days := round0 (pin_days inp),
     pln_ipLimit := round0 (opt_default (pin_ipLimit inp) 0), pln_price := js_round (pin_price inp),
     pln_oldPrice := map_option round0 (pin_oldPrice inp), pln_targets := targets,
     pln_isActive := pin_isActive inp, pln_sortOrder := js_round (opt_default (pin_sortOrder inp) 0)\<rparr>"

definition blank_plan :: "uid \<Rightarrow> uid \<Rightarrow> time \<Rightarrow> plan" where
  "blank_plan i adminId tm = \<lparr>pln_id = i, pln_adminId = adminId, pln_name = [], pln_description = None, pln_badge = None,
     pln_trafficGB = 0, pln_days = 0, pln_ipLimit = 0, pln_price = 0, pln_oldPrice = None, pln_targets = [],
     pln_isActive = True, pln_sortOrder = 0, pln_sold = 0, pln_createdAt = tm\<rparr>"

definition createPlan :: "admin \<Rightarrow> plan_input \<Rightarrow> (world, plan) op" where
  "createPlan actor inp =
    bnd (resolvePlanTargets actor (pin_serviceId inp) (pin_targets inp)) (\<lambda>targets.
    andthen (plan_checks inp)
    (bnd new_id (\<lambda>k. bnd now (\<lambda>tm.
      let p = normalized_plan inp (storedTargets targets (pin_serviceId inp)) (blank_plan k (adm_id actor) tm) in
      andthen (modify (\<lambda>w. w\<lparr>plans := plans w @ [p]\<rparr>))
      (andthen (audit (Some (adm_id actor)) ''plan.create'' (JId k)
         ([(''name'', JStr (pln_name p)), (''price'', JInt (pln_price p))] @ opt_field ''service'' JId (pin_serviceId inp)
           @ [(''targets'', JInt (int (length targets)))]) None)
      (ret p))))))"

text \<open>A partial update: \<open>None\<close> is undefined; the nullable fields take \<open>Some None\<close> for null.\<close>
record plan_patch =
  pup_name :: "string option"
  pup_description :: "string option option"
  pup_badge :: "string option option"
  pup_trafficGB :: "rat option"
  pup_planDays :: "rat option"
  pup_ipLimit :: "rat option"
  pup_price :: "rat option"
  pup_oldPrice :: "rat option option"
  pup_serviceId :: "uid option option"
  pup_targets :: "target list option"
  pup_isActive :: "bool option"
  pup_sortOrder :: "rat option"

definition merged_plan :: "plan \<Rightarrow> plan_patch \<Rightarrow> plan_input" where
  "merged_plan p inp =
    \<lparr>pin_name = opt_default (pup_name inp) (pln_name p), pin_description = opt_default (pup_description inp) (pln_description p),
     pin_badge = opt_default (pup_badge inp) (pln_badge p), pin_trafficGB = opt_default (pup_trafficGB inp) (of_int (pln_trafficGB p)),
     pin_days = opt_default (pup_planDays inp) (of_int (pln_days p)),
     pin_ipLimit = Some (opt_default (pup_ipLimit inp) (of_int (pln_ipLimit p))),
     pin_price = opt_default (pup_price inp) (of_int (pln_price p)),
     pin_oldPrice = opt_default (pup_oldPrice inp) (map_option of_int (pln_oldPrice p)),
     pin_serviceId = opt_default (pup_serviceId inp) (planServiceId p), pin_targets = opt_default (pup_targets inp) (planTargets p),
     pin_isActive = opt_default (pup_isActive inp) (pln_isActive p),
     pin_sortOrder = Some (opt_default (pup_sortOrder inp) (of_int (pln_sortOrder p)))\<rparr>"

definition plan_fields :: "plan_patch \<Rightarrow> json_obj" where
  "plan_fields inp = opt_field ''name'' (\<lambda>_. JNull) (pup_name inp) @ opt_field ''description'' (\<lambda>_. JNull) (pup_description inp)
    @ opt_field ''badge'' (\<lambda>_. JNull) (pup_badge inp) @ opt_field ''trafficGB'' (\<lambda>_. JNull) (pup_trafficGB inp)
    @ opt_field ''days'' (\<lambda>_. JNull) (pup_planDays inp) @ opt_field ''ipLimit'' (\<lambda>_. JNull) (pup_ipLimit inp)
    @ opt_field ''price'' (\<lambda>_. JNull) (pup_price inp) @ opt_field ''oldPrice'' (\<lambda>_. JNull) (pup_oldPrice inp)
    @ opt_field ''serviceId'' (\<lambda>_. JNull) (pup_serviceId inp) @ opt_field ''targets'' (\<lambda>_. JNull) (pup_targets inp)
    @ opt_field ''isActive'' (\<lambda>_. JNull) (pup_isActive inp) @ opt_field ''sortOrder'' (\<lambda>_. JNull) (pup_sortOrder inp)"

definition updatePlan :: "admin \<Rightarrow> uid \<Rightarrow> plan_patch \<Rightarrow> (world, plan) op" where
  "updatePlan actor i inp =
    bnd (getPlanForActor actor i) (\<lambda>cur.
    let merged = merged_plan cur inp;
        role = (if adm_role actor = OWNER \<and> pln_adminId cur \<noteq> adm_id actor then ADMIN else adm_role actor);
        scoped = actor_pick (pln_adminId cur) role in
    bnd (if pup_targets inp \<noteq> None \<or> pup_serviceId inp \<noteq> None
         then resolvePlanTargets scoped (pin_serviceId merged) (pin_targets merged) else ret (planTargets cur)) (\<lambda>targets.
    let serviceId = (if pup_targets inp \<noteq> None \<or> pup_serviceId inp \<noteq> None then pin_serviceId merged else planServiceId cur);
        f = normalized_plan merged (storedTargets targets serviceId) in
    andthen (plan_checks merged)
    (andthen (modify (\<lambda>w. w\<lparr>plans := upd_rows (\<lambda>p. pln_id p = pln_id cur) f (plans w)\<rparr>))
    (andthen (audit (Some (adm_id actor)) ''plan.update'' (JId (pln_id cur)) [(''fields'', JObj (plan_fields inp))] None)
    (ret (f cur))))))"

text \<open>At order time the service of the plan is read again; if that fails, the stored inbounds serve.\<close>
definition planTargetsFresh :: "plan \<Rightarrow> (world, target list) op" where
  "planTargetsFresh p =
    (case planServiceId p of
       None \<Rightarrow> ret (planTargets p)
     | Some s \<Rightarrow> catch_op (resolveServiceTargets (actor_pick (pln_adminId p) ADMIN) s) (\<lambda>_. ret (planTargets p)))"

text \<open>Orders of a deleted plan forget it (\<open>onDelete: SetNull\<close>).\<close>
definition deletePlan :: "admin \<Rightarrow> uid \<Rightarrow> (world, unit) op" where
  "deletePlan actor i =
    bnd (getPlanForActor actor i) (\<lambda>p.
    andthen (modify (\<lambda>w. w\<lparr>plans := del_rows (\<lambda>r. pln_id r = pln_id p) (plans w),
       orders := upd_rows (\<lambda>r. ord_planId r = Some (pln_id p)) (\<lambda>r. r\<lparr>ord_planId := None\<rparr>) (orders w)\<rparr>))
    (audit (Some (adm_id actor)) ''plan.delete'' (JId (pln_id p)) [(''name'', JStr (pln_name p))] None))"

section \<open>Discounts\<close>

record discount_input =
  din_code :: string
  din_percent :: "rat option"
  din_amount :: "rat option"
  din_maxUses :: "int option"
  din_expiresAt :: "time option"
  din_isActive :: bool

definition clean_code :: "string \<Rightarrow> string" where
  "clean_code code = filter (\<lambda>c. is_upper c \<or> is_digit c \<or> c = CHR ''_'' \<or> c = CHR ''-'') (to_upper (str_trim code))"

definition listDiscounts :: "admin \<Rightarrow> uid option \<Rightarrow> world \<Rightarrow> discount list" where
  "listDiscounts actor adminId w =
    sort_key (\<lambda>d. - dis_createdAt d) (filter (\<lambda>d. planScope actor adminId (dis_adminId d)) (discounts w))"

definition find_discount :: "uid \<Rightarrow> string \<Rightarrow> world \<Rightarrow> discount option" where
  "find_discount seller code w = find (\<lambda>d. dis_adminId d = seller \<and> dis_code d = code) (discounts w)"

text \<open>The table is unique in the seller and the code.\<close>
definition createDiscount :: "admin \<Rightarrow> discount_input \<Rightarrow> (world, discount) op" where
  "createDiscount actor inp =
    (let code = clean_code (din_code inp);
         percent = min 100 (max 0 (js_round (opt_default (din_percent inp) 0)));
         amount = max 0 (js_round (opt_default (din_amount inp) 0)) in
     andthen (throw_if (length code < 3) (app_error ''code is too short''))
     (andthen (throw_if (percent = 0 \<and> amount = 0) (app_error ''percent or amount is required''))
     (bnd (gets (find_discount (adm_id actor) code)) (\<lambda>dup.
     andthen (throw_if (dup \<noteq> None) unique_violation)
     (bnd new_id (\<lambda>k. bnd now (\<lambda>tm.
       let d = \<lparr>dis_id = k, dis_adminId = adm_id actor, dis_code = code, dis_percent = percent, dis_amount = amount,
                dis_maxUses = din_maxUses inp, dis_uses = 0, dis_expiresAt = din_expiresAt inp, dis_isActive = din_isActive inp,
                dis_createdAt = tm\<rparr> in
       andthen (modify (\<lambda>w. w\<lparr>discounts := discounts w @ [d]\<rparr>))
       (andthen (audit (Some (adm_id actor)) ''discount.create'' (JId k) [(''code'', JStr code)] None)
       (ret d)))))))))"

definition deleteDiscount :: "admin \<Rightarrow> uid \<Rightarrow> (world, unit) op" where
  "deleteDiscount actor i =
    bnd (gets (\<lambda>w. find_row dis_id i (discounts w))) (\<lambda>found. bnd (or_throw found (not_found_error ''not found'')) (\<lambda>d.
    andthen (throw_if (adm_role actor \<noteq> OWNER \<and> dis_adminId d \<noteq> adm_id actor) forbidden)
    (andthen (modify (\<lambda>w. w\<lparr>discounts := del_rows (\<lambda>r. dis_id r = i) (discounts w)\<rparr>))
    (audit (Some (adm_id actor)) ''discount.delete'' (JId i) [(''code'', JStr (dis_code d))] None))))"

record discount_result =
  ds_discount :: int
  ds_code :: "string option"
  ds_id :: "uid option"
  ds_error :: "string option"

definition no_discount :: "string option \<Rightarrow> discount_result" where
  "no_discount e = \<lparr>ds_discount = 0, ds_code = None, ds_id = None, ds_error = e\<rparr>"

definition applyDiscount :: "uid \<Rightarrow> string option \<Rightarrow> int \<Rightarrow> world \<Rightarrow> discount_result" where
  "applyDiscount seller code price w =
    (let c = to_upper (str_trim (opt_default code [])) in
     if c = [] then no_discount None
     else (case find_discount seller c w of
         None \<Rightarrow> no_discount (Some ''code is not valid'')
       | Some d \<Rightarrow>
          if \<not> dis_isActive d then no_discount (Some ''code is not valid'')
          else if expired_at (clock w) (dis_expiresAt d) then no_discount (Some ''code has expired'')
          else if (case dis_maxUses d of Some m \<Rightarrow> m \<le> dis_uses d | None \<Rightarrow> False) then no_discount (Some ''code is used up'')
          else \<lparr>ds_discount = min price ((price * dis_percent d) sdiv 100 + dis_amount d), ds_code = Some (dis_code d),
                ds_id = Some (dis_id d), ds_error = None\<rparr>))"

section \<open>What the catalogue holds\<close>

definition plan_wf :: "plan \<Rightarrow> bool" where
  "plan_wf p \<longleftrightarrow> pln_name p \<noteq> [] \<and> 0 \<le> pln_trafficGB p \<and> 0 \<le> pln_days p \<and> 0 \<le> pln_ipLimit p \<and> 0 \<le> pln_price p \<and>
     (case pln_oldPrice p of Some x \<Rightarrow> 0 \<le> x | None \<Rightarrow> True)"

definition code_char :: "char \<Rightarrow> bool" where
  "code_char c \<longleftrightarrow> is_upper c \<or> is_digit c \<or> c = CHR ''_'' \<or> c = CHR ''-''"

definition discount_wf :: "discount \<Rightarrow> bool" where
  "discount_wf d \<longleftrightarrow> 3 \<le> length (dis_code d) \<and> (\<forall>c \<in> set (dis_code d). code_char c) \<and> 0 \<le> dis_percent d \<and> dis_percent d \<le> 100 \<and>
     0 \<le> dis_amount d \<and> \<not> (dis_percent d = 0 \<and> dis_amount d = 0)"

definition catalog_wf :: "world \<Rightarrow> bool" where
  "catalog_wf w \<longleftrightarrow> (\<forall>p \<in> set (plans w). plan_wf p) \<and> (\<forall>d \<in> set (discounts w). discount_wf d) \<and>
     distinct (map (\<lambda>d. (dis_adminId d, dis_code d)) (discounts w))"

lemma catalog_wf_stable [preserves_intros]: "events_stable catalog_wf"
  by (simp add: events_stable_def catalog_wf_def eo_plans eo_discounts)

lemma preserves_guard: "(\<not> c \<Longrightarrow> preserves I k) \<Longrightarrow> preserves I (andthen (throw_if c e) k)"
  by (cases c) (simp_all add: preserves_throw)

lemma js_round_nonneg: "0 \<le> x \<Longrightarrow> 0 \<le> js_round x"
  using js_round_mono [of 0 x] js_round_of_int [of 0] by simp

lemma round0_nonneg [simp]: "0 \<le> round0 x"
  by (simp add: round0_def)

lemma normalized_wf:
  "str_trim (pin_name inp) \<noteq> [] \<Longrightarrow> 0 \<le> pin_price inp \<Longrightarrow> plan_wf (normalized_plan inp ts p)"
  by (auto simp: plan_wf_def normalized_plan_def js_round_nonneg split: option.split)

lemma preserves_new_id: "(\<And>w k. I w \<Longrightarrow> I (w\<lparr>next_id := k\<rparr>)) \<Longrightarrow> preserves I new_id"
  by (rule preservesI) (simp add: new_id_def)

lemma catalog_new_id [preserves_intros]: "preserves catalog_wf new_id"
  by (rule preserves_new_id) (simp add: catalog_wf_def)

lemma catalog_now [preserves_intros]: "preserves I now"
  unfolding now_def by (rule preserves_gets)

lemma reads_listing [reads_intros]: "reads (resolvePlanTargets a s ts)" "reads (getPlanForActor a i)"
  unfolding resolvePlanTargets_def validateTargets_def getPlanForActor_def by (intro reads_intros)+

lemma preserves_plan_checks:
  "(str_trim (pin_name inp) \<noteq> [] \<Longrightarrow> 0 \<le> pin_price inp \<Longrightarrow> preserves I k) \<Longrightarrow> preserves I (andthen (plan_checks inp) k)"
proof -
  assume k: "str_trim (pin_name inp) \<noteq> [] \<Longrightarrow> 0 \<le> pin_price inp \<Longrightarrow> preserves I k"
  have "andthen (plan_checks inp) k = andthen (throw_if (str_trim (pin_name inp) = []) (app_error ''plan name is required''))
      (andthen (throw_if (pin_price inp < 0) (app_error ''price is not valid'')) k)"
    by (simp add: plan_checks_def andthen_def bnd_assoc)
  moreover have "preserves I \<dots>" by (intro preserves_guard k) simp_all
  ultimately show ?thesis by simp
qed

lemma clean_code_chars: "c \<in> set (clean_code s) \<Longrightarrow> code_char c"
  by (simp add: clean_code_def code_char_def)

lemma find_discount_None: "find_discount a c w = None \<longleftrightarrow> (a, c) \<notin> (\<lambda>d. (dis_adminId d, dis_code d)) ` set (discounts w)"
  by (auto simp: find_discount_def find_None_iff)

lemma catalog_createDiscount: "preserves catalog_wf (createDiscount actor dinp)"
proof (rule preservesI)
  fix w assume wf: "catalog_wf w"
  let ?code = "clean_code (din_code dinp)"
  let ?p = "min 100 (max 0 (js_round (opt_default (din_percent dinp) 0)))" and ?a = "max 0 (js_round (opt_default (din_amount dinp) 0))"
  let ?d = "\<lparr>dis_id = next_id w, dis_adminId = adm_id actor, dis_code = ?code, dis_percent = ?p, dis_amount = ?a,
                dis_maxUses = din_maxUses dinp, dis_uses = 0, dis_expiresAt = din_expiresAt dinp, dis_isActive = din_isActive dinp,
                dis_createdAt = clock w\<rparr>"
  let ?w1 = "w\<lparr>next_id := Suc (next_id w), discounts := discounts w @ [?d]\<rparr>"
  let ?t = "andthen (audit (Some (adm_id actor)) ''discount.create'' (JId (next_id w)) [(''code'', JStr ?code)] None) (ret ?d)"
  have run: "createDiscount actor dinp w =
      (if length ?code < 3 then (Inl (app_error ''code is too short''), w)
       else if ?p = 0 \<and> ?a = 0 then (Inl (app_error ''percent or amount is required''), w)
       else if find_discount (adm_id actor) ?code w \<noteq> None then (Inl unique_violation, w) else ?t ?w1)"
    by (auto simp: createDiscount_def Let_def andthen_throw_if new_id_def now_def bnd_def)
  have t: "preserves catalog_wf ?t" by (intro preserves_intros)
  show "catalog_wf (snd (createDiscount actor dinp w))"
  proof (cases "length ?code < 3 \<or> (?p = 0 \<and> ?a = 0) \<or> find_discount (adm_id actor) ?code w \<noteq> None")
    case True
    then show ?thesis using wf by (auto simp: run)
  next
    case False
    then have "discount_wf ?d" by (auto simp: discount_wf_def clean_code_chars)
    moreover have "(adm_id actor, ?code) \<notin> (\<lambda>d. (dis_adminId d, dis_code d)) ` set (discounts w)"
      using False find_discount_None by blast
    ultimately have "catalog_wf ?w1" using wf by (auto simp: catalog_wf_def)
    then have "catalog_wf (snd (?t ?w1))" by (rule preservesD [OF t])
    then show ?thesis using False wf by (simp add: run)
  qed
qed

text \<open>
  The catalogue is well-formed whatever is asked of it (type). Creating, changing and deleting
  plans and discount codes, with any input and whether or not the request is rejected, keeps every
  plan named and its sizes and prices nonnegative, every discount between 0 and 100 percent and not
  empty, every code made of its allowed characters, and the codes of a seller distinct.
\<close>
theorem catalog_stays_wf:
  "preserves catalog_wf (createPlan actor inp) \<and> preserves catalog_wf (updatePlan actor i patch) \<and>
   preserves catalog_wf (deletePlan actor i) \<and> preserves catalog_wf (createDiscount actor dinp) \<and>
   preserves catalog_wf (deleteDiscount actor i)"
proof (intro conjI)
  show "preserves catalog_wf (createPlan actor inp)"
    unfolding createPlan_def Let_def
    by (intro preserves_bnd preserves_reads reads_intros preserves_plan_checks preserves_andthen preserves_modify preserves_intros)
       (simp add: catalog_wf_def normalized_wf)
  show "preserves catalog_wf (updatePlan actor i patch)"
    unfolding updatePlan_def Let_def
    by (intro preserves_bnd preserves_reads reads_intros preserves_plan_checks preserves_andthen preserves_modify preserves_intros)
       (auto simp: catalog_wf_def normalized_wf set_upd_rows)
  show "preserves catalog_wf (deletePlan actor i)"
    unfolding deletePlan_def
    by (intro preserves_bnd preserves_reads reads_intros preserves_andthen preserves_modify preserves_intros)
       (auto simp: catalog_wf_def set_del_rows)
  show "preserves catalog_wf (deleteDiscount actor i)"
    unfolding deleteDiscount_def
    by (intro preserves_intros preserves_modify)
       (auto simp: catalog_wf_def del_rows_def intro: distinct_map_filter)
  show "preserves catalog_wf (createDiscount actor dinp)" by (rule catalog_createDiscount)
qed

text \<open>
  A discount lowers a price, never below zero (bounds, every branch). While the catalogue is
  well-formed, the discount on a nonnegative price lies between zero and the price; it is zero
  without a code row; and a code counts only while it is active, not expired and not used up, in
  which case the discount is its share of the price plus its amount, cut at the price.
\<close>
theorem discount_bounds:
  assumes "catalog_wf w" and "0 \<le> price" and "r = applyDiscount seller code price w"
  shows "0 \<le> ds_discount r \<and> ds_discount r \<le> price \<and> (ds_id r = None \<longrightarrow> ds_discount r = 0) \<and>
    (ds_error r \<noteq> None \<longrightarrow> ds_id r = None) \<and>
    (\<forall>i. ds_id r = Some i \<longrightarrow> (\<exists>d \<in> set (discounts w). dis_id d = i \<and> dis_adminId d = seller \<and> ds_code r = Some (dis_code d) \<and>
       dis_isActive d \<and> \<not> expired_at (clock w) (dis_expiresAt d) \<and> (\<forall>m. dis_maxUses d = Some m \<longrightarrow> dis_uses d < m) \<and>
       ds_discount r = min price ((price * dis_percent d) sdiv 100 + dis_amount d)))"
proof -
  let ?c = "to_upper (str_trim (opt_default code []))"
  show ?thesis
  proof (cases "find_discount seller ?c w")
    case None
    then show ?thesis using assms(2) by (simp add: assms(3) applyDiscount_def no_discount_def Let_def)
  next
    case (Some d)
    then have d: "d \<in> set (discounts w)" "dis_adminId d = seller"
      using find_SomeD by (fastforce simp: find_discount_def)+
    then have "discount_wf d" using assms(1) by (simp add: catalog_wf_def)
    then have b: "0 \<le> (price * dis_percent d) sdiv 100 + dis_amount d"
      using sdiv_100_bounds(1) [OF assms(2), of "dis_percent d"] by (simp add: discount_wf_def)
    show ?thesis
      using assms(2) b d Some by (auto simp: assms(3) applyDiscount_def no_discount_def Let_def split: option.splits)
  qed
qed

definition demo_code :: discount where
  "demo_code = \<lparr>dis_id = 9, dis_adminId = 3, dis_code = ''OFF20'', dis_percent = 20, dis_amount = 50, dis_maxUses = Some 5,
     dis_uses = 4, dis_expiresAt = None, dis_isActive = True, dis_createdAt = 0\<rparr>"

lemma discount_bounds_witness:
  "ds_discount (applyDiscount 3 (Some '' off20 '') 1000 (demo_world\<lparr>discounts := [demo_code]\<rparr>)) \<le> 1000 \<and>
   ds_discount (applyDiscount 3 (Some '' off20 '') 1000 (demo_world\<lparr>discounts := [demo_code]\<rparr>)) = 250"
proof -
  let ?w = "demo_world\<lparr>discounts := [demo_code]\<rparr>"
  have "discount_wf demo_code"
    by (simp add: discount_wf_def demo_code_def code_char_def is_upper_def is_digit_def)
  then have "catalog_wf ?w" by (simp add: catalog_wf_def)
  moreover have "ds_discount (applyDiscount 3 (Some '' off20 '') 1000 ?w) = 250" by code_simp
  ultimately show ?thesis using discount_bounds [of ?w 1000 _ 3 "Some '' off20 ''"] by simp
qed

end
