(* ===== verification/Panels.thy ===== *)
theory Panels
  imports Auth Grouped StoreSettings Plans "HOL-Library.List_Lexorder" "HOL-Library.Char_ord"
begin

text \<open>
  Sold sub-panels: a plan linked to a panel package hands the buyer a reseller account.
  \<open>panelPlans.ts\<close> keeps the links and the accounts sold, \<open>panelProvision.ts\<close> creates the account or
  tops it up, \<open>panelHandoff.ts\<close> delivers the credentials, parks them and reveals them once.
\<close>

section \<open>Orders\<close>

text \<open>\<open>order.update({ where: { id }, data })\<close>: the row it returns.\<close>
definition update_order :: "uid \<Rightarrow> (order \<Rightarrow> order) \<Rightarrow> (world, order) op" where
  "update_order i f =
    bnd (gets (find_order i)) (\<lambda>found. bnd (or_throw found record_not_found) (\<lambda>r.
      andthen (modify (\<lambda>w. w\<lparr>orders := upd_rows (\<lambda>x. ord_id x = i) f (orders w)\<rparr>)) (ret (f r))))"

text \<open>One more sale of the ordered plan; a deleted plan is not an error.\<close>
definition count_sale :: "order \<Rightarrow> (world, unit) op" where
  "count_sale ord = modify (\<lambda>w. case ord_planId ord of
     None \<Rightarrow> w
   | Some i \<Rightarrow> w\<lparr>plans := upd_rows (\<lambda>p. pln_id p = i) (\<lambda>p. p\<lparr>pln_sold := pln_sold p + 1\<rparr>) (plans w)\<rparr>)"

section \<open>The book of packages: \<open>panelPlans.ts\<close>\<close>

definition order_mail :: "order \<Rightarrow> string" where
  "order_mail ord = str_trim (opt_default (ord_customerEmail ord) [])"

definition order_tg :: "order \<Rightarrow> string" where
  "order_tg ord = str_trim (opt_default (ord_customerTelegramId ord) [])"

definition order_phone :: "order \<Rightarrow> string" where
  "order_phone ord = str_trim (opt_default (ord_customerPhone ord) [])"

definition buyerKeyOf :: "order \<Rightarrow> json list" where
  "buyerKeyOf ord =
    (case ord_customerId ord of
       Some c \<Rightarrow> [JStr ''c'', JId c]
     | None \<Rightarrow>
        if order_mail ord \<noteq> [] then [JStr ''e'', JStr (to_lower (order_mail ord))]
        else if order_tg ord \<noteq> [] then [JStr ''t'', JStr (order_tg ord)]
        else if order_phone ord \<noteq> [] then [JStr ''p'', JStr (order_phone ord)]
        else [JStr ''o'', JId (ord_id ord)])"

definition buyerRefOf :: "order \<Rightarrow> string" where
  "buyerRefOf ord = take 120
    (if order_mail ord \<noteq> [] then order_mail ord else if order_tg ord \<noteq> [] then order_tg ord else order_phone ord)"

definition panelPlanFor :: "uid option \<Rightarrow> world \<Rightarrow> panel_plan_link option" where
  "panelPlanFor planId w =
    (case planId of
       None \<Rightarrow> None
     | Some i \<Rightarrow> (case map_of (panel_links w) i of
         None \<Rightarrow> None
       | Some l \<Rightarrow> if pp_enabled l then Some l else None))"

text \<open>\<open>PanelPlanInput\<close>: the fields a route passes.\<close>
record panel_plan_input =
  ppi_enabled :: "bool option"
  ppi_gb :: "int option"
  ppi_days :: "int option"
  ppi_clients :: "int option"
  ppi_prefix :: "string option"
  ppi_grantAccess :: "bool option"
  ppi_topUp :: "bool option"

definition default_link :: "uid \<Rightarrow> panel_plan_link" where
  "default_link i = \<lparr>pp_planId = i, pp_enabled = True, pp_gb = 0, pp_days = 0, pp_clients = 0, pp_prefix = ''sp'',
     pp_grantAccess = True, pp_topUp = True\<rparr>"

definition link_valid :: "panel_plan_link \<Rightarrow> bool" where
  "link_valid l \<longleftrightarrow> 0 \<le> pp_gb l \<and> pp_gb l \<le> 1000000 \<and> 0 \<le> pp_days l \<and> pp_days l \<le> 3650 \<and>
     0 \<le> pp_clients l \<and> pp_clients l \<le> 100000 \<and> length (pp_prefix l) \<le> 12"

text \<open>\<open>panelPlanLinkSchema.parse({ ...current, ...input, planId })\<close>.\<close>
definition merged_link :: "uid \<Rightarrow> panel_plan_link option \<Rightarrow> panel_plan_input \<Rightarrow> panel_plan_link" where
  "merged_link i current inp =
    (let l = opt_default current (default_link i) in
     \<lparr>pp_planId = i, pp_enabled = opt_default (ppi_enabled inp) (pp_enabled l), pp_gb = opt_default (ppi_gb inp) (pp_gb l),
      pp_days = opt_default (ppi_days inp) (pp_days l), pp_clients = opt_default (ppi_clients inp) (pp_clients l),
      pp_prefix = opt_default (ppi_prefix inp) (pp_prefix l), pp_grantAccess = opt_default (ppi_grantAccess inp) (pp_grantAccess l),
      pp_topUp = opt_default (ppi_topUp inp) (pp_topUp l)\<rparr>)"

definition ownPlan :: "admin \<Rightarrow> uid \<Rightarrow> (world, plan) op" where
  "ownPlan actor planId =
    bnd (gets (find_plan planId)) (\<lambda>found. bnd (or_throw found (not_found_error ''plan not found'')) (\<lambda>p.
    andthen (throw_if (adm_role actor \<noteq> OWNER \<and> pln_adminId p \<noteq> adm_id actor) forbidden) (ret p)))"

record panel_plan_dto =
  pd_link :: panel_plan_link
  pd_planName :: string
  pd_price :: string
  pd_planTrafficGB :: int
  pd_planDays :: int
  pd_planActive :: bool
  pd_sold :: nat
  pd_effectiveGB :: int
  pd_effectiveDays :: int

definition dtoOf :: "panel_plan_link \<Rightarrow> plan \<Rightarrow> nat \<Rightarrow> panel_plan_dto" where
  "dtoOf l p sold = \<lparr>pd_link = l, pd_planName = pln_name p, pd_price = show_int (pln_price p),
     pd_planTrafficGB = pln_trafficGB p, pd_planDays = pln_days p, pd_planActive = pln_isActive p, pd_sold = sold,
     pd_effectiveGB = (if 0 < pp_gb l then pp_gb l else pln_trafficGB p),
     pd_effectiveDays = (if 0 < pp_days l then pp_days l else pln_days p)\<rparr>"

definition sold_through :: "uid \<Rightarrow> world \<Rightarrow> nat" where
  "sold_through planId w = length (filter (\<lambda>(k, a). pa_planId a = Some planId) (panel_accounts w))"

definition listPanelPlans :: "admin \<Rightarrow> world \<Rightarrow> panel_plan_dto list" where
  "listPanelPlans actor w =
    sort_key pd_planName (List.map_filter
      (\<lambda>p. map_option (\<lambda>l. dtoOf l p (sold_through (pln_id p) w)) (map_of (panel_links w) (pln_id p)))
      (filter (\<lambda>p. adm_role actor = OWNER \<or> pln_adminId p = adm_id actor) (plans w)))"

record panel_plan_option =
  po_id :: uid
  po_name :: string
  po_price :: string
  po_trafficGB :: int
  po_days :: int
  po_isActive :: bool
  po_linked :: bool

definition listPanelPlanOptions :: "admin \<Rightarrow> world \<Rightarrow> panel_plan_option list" where
  "listPanelPlanOptions actor w =
    map (\<lambda>p. \<lparr>po_id = pln_id p, po_name = pln_name p, po_price = show_int (pln_price p), po_trafficGB = pln_trafficGB p,
        po_days = pln_days p, po_isActive = pln_isActive p, po_linked = (map_of (panel_links w) (pln_id p) \<noteq> None)\<rparr>)
      (take 200 (sort_key pln_sortOrder (sort_key pln_price
        (filter (\<lambda>p. adm_role actor = OWNER \<or> pln_adminId p = adm_id actor) (plans w)))))"

definition savePanelPlan :: "admin \<Rightarrow> uid \<Rightarrow> panel_plan_input \<Rightarrow> (world, panel_plan_dto) op" where
  "savePanelPlan actor planId inp =
    bnd (ownPlan actor planId) (\<lambda>p.
    bnd (gets (\<lambda>w. map_of (panel_links w) (pln_id p))) (\<lambda>current.
    let l = merged_link (pln_id p) current inp in
    andthen (throw_if (\<not> link_valid l) (PlainError ''ZodError''))
    (andthen (modify (\<lambda>w. w\<lparr>panel_links := put_row (pln_id p) l (panel_links w)\<rparr>))
    (andthen (audit (Some (adm_id actor)) (if current = None then ''panelPlan.link'' else ''panelPlan.update'') (JId (pln_id p))
       [(''name'', JStr (pln_name p)), (''gb'', JInt (pp_gb l)), (''days'', JInt (pp_days l)), (''clients'', JInt (pp_clients l)),
        (''enabled'', JBool (pp_enabled l))] None)
    (bnd (gets (sold_through (pln_id p))) (\<lambda>sold. ret (dtoOf l p sold)))))))"

definition deletePanelPlan :: "admin \<Rightarrow> uid \<Rightarrow> (world, unit) op" where
  "deletePanelPlan actor planId =
    bnd (ownPlan actor planId) (\<lambda>p.
    bnd (gets (\<lambda>w. map_of (panel_links w) (pln_id p))) (\<lambda>current.
    andthen (throw_if (current = None) (not_found_error ''this plan is not linked to a shared panel''))
    (andthen (modify (\<lambda>w. w\<lparr>panel_links := del_rows (\<lambda>(i, l). i = pln_id p) (panel_links w)\<rparr>))
    (audit (Some (adm_id actor)) ''panelPlan.unlink'' (JId (pln_id p)) [(''name'', JStr (pln_name p))] None))))"

record panel_account_dto =
  pad_account :: panel_account
  pad_username :: string
  pad_planName :: string
  pad_exists :: bool
  pad_isActive :: bool
  pad_expiresAt :: "time option"
  pad_quotaGB :: "rat option"
  pad_clientLimit :: "int option"
  pad_clients :: nat
  pad_credit :: string

definition account_dto :: "world \<Rightarrow> panel_account \<Rightarrow> panel_account_dto" where
  "account_dto w a =
    (let row = find_admin (pa_adminId a) w in
     \<lparr>pad_account = a,
      pad_username = (case row of Some r \<Rightarrow> adm_username r | None \<Rightarrow> pa_username a),
      pad_planName = (case pa_planId a of None \<Rightarrow> [] | Some i \<Rightarrow> (case find_plan i w of Some p \<Rightarrow> pln_name p | None \<Rightarrow> [])),
      pad_exists = (row \<noteq> None),
      pad_isActive = (case row of Some r \<Rightarrow> adm_isActive r | None \<Rightarrow> False),
      pad_expiresAt = (case row of Some r \<Rightarrow> adm_expiresAt r | None \<Rightarrow> None),
      pad_quotaGB = (case row of
          Some r \<Rightarrow> map_option (\<lambda>q. of_int (js_round (of_int q / of_int GB * 100)) / 100) (adm_trafficQuota r)
        | None \<Rightarrow> None),
      pad_clientLimit = (case row of Some r \<Rightarrow> adm_clientLimit r | None \<Rightarrow> None),
      pad_clients = (if row = None then 0 else length (filter (\<lambda>c. cli_adminId c = pa_adminId a) (clients w))),
      pad_credit = (case row of Some r \<Rightarrow> show_int (adm_credit r) | None \<Rightarrow> ''0'')\<rparr>)"

definition listPanelAccounts :: "admin \<Rightarrow> world \<Rightarrow> panel_account_dto list" where
  "listPanelAccounts actor w =
    map (account_dto w) (sort_key (\<lambda>a. - pa_lastAt a)
      (filter (\<lambda>a. adm_role actor = OWNER \<or> pa_sellerId a = adm_id actor) (map snd (panel_accounts w))))"

section \<open>Credentials: \<open>panelHandoff.ts\<close>\<close>

definition USER_CHARS :: string where
  "USER_CHARS = ''abcdefghijkmnpqrstuvwxyz23456789''"

definition PASS_CHARS :: string where
  "PASS_CHARS = ''abcdefghijkmnpqrstuvwxyzABCDEFGHJKLMNPQRSTUVWXYZ23456789''"

text \<open>\<open>pick(chars, len)\<close>: one draw per character.\<close>
definition pick :: "string \<Rightarrow> nat \<Rightarrow> (world, string) op" where
  "pick chars len = fold_op (\<lambda>i out. bnd (randomInt (length chars)) (\<lambda>k. ret (out @ [chars ! k]))) [0..<len] []"

definition newPanelPassword :: "(world, string) op" where
  "newPanelPassword = pick PASS_CHARS 14"

definition username_base :: "string \<Rightarrow> string" where
  "username_base prefix =
    (let b = take 10 (filter (\<lambda>c. is_lower c \<or> is_digit c) (to_lower prefix)) in if b = [] then ''sp'' else b)"

text \<open>Twelve candidates at most.\<close>
fun username_tries :: "nat \<Rightarrow> string \<Rightarrow> (world, string) op" where
  "username_tries 0 base = throw (app_error ''no free username for the sub-panel'')"
| "username_tries (Suc n) base =
    bnd (pick USER_CHARS 6) (\<lambda>r. bnd (gets (admin_by_name (base @ r))) (\<lambda>taken.
      if taken = None then ret (base @ r) else username_tries n base))"

definition freePanelUsername :: "string \<Rightarrow> (world, string) op" where
  "freePanelUsername prefix = username_tries 12 (username_base prefix)"

definition parkPanelHandoff :: "panel_handoff \<Rightarrow> (world, unit) op" where
  "parkPanelHandoff h = modify (\<lambda>w. w\<lparr>panel_handoffs := put_row (ho_orderId h) h (panel_handoffs w)\<rparr>)"

text \<open>The channels that accepted the message; the message itself is text and is not modelled.\<close>
definition deliverPanelAccount :: "order \<Rightarrow> (world, string list) op" where
  "deliverPanelAccount ord =
    bnd (gets (\<lambda>w. (telegram_cfg w, svcs w))) (\<lambda>(tg, x).
    let chat = opt_default (ord_customerTelegramId ord) [];
        out = (if chat \<noteq> [] \<and> tg_enabled tg \<and> tg_botToken tg \<noteq> [] \<and> ext_telegram x chat = None then [''telegram''] else []) in
    if \<not> truthy (ord_customerEmail ord) then ret out
    else bnd (catch_op (andthen (sendMail (opt_default (ord_customerEmail ord) [])) (ret True)) (\<lambda>_. ret False)) (\<lambda>sent.
      ret (if sent then out @ [''email''] else out)))"

record handoff_dto =
  hd_handoff :: panel_handoff
  hd_hasPassword :: bool
  hd_customer :: string
  hd_loginUrl :: string

definition panelLoginUrl :: "world \<Rightarrow> string" where
  "panelLoginUrl w = strip_slashes (panelUrl w) @ ''/login''"

definition handoff_customer :: "order option \<Rightarrow> string" where
  "handoff_customer ord =
    (case ord of None \<Rightarrow> [] | Some r \<Rightarrow>
      take 120 (str_or (ord_customerName r) (str_or (ord_customerEmail r)
        (str_or (ord_customerTelegramId r) (opt_default (ord_customerPhone r) []) id) id) id))"

definition pendingPanelHandoffs :: "admin \<Rightarrow> world \<Rightarrow> handoff_dto list" where
  "pendingPanelHandoffs actor w =
    map (\<lambda>h. \<lparr>hd_handoff = h\<lparr>ho_password := []\<rparr>, hd_hasPassword = (ho_password h \<noteq> []),
        hd_customer = handoff_customer (find_order (ho_orderId h) w), hd_loginUrl = panelLoginUrl w\<rparr>)
      (sort_key (\<lambda>h. - ho_createdAt h)
        (filter (\<lambda>h. adm_role actor = OWNER \<or> ho_sellerId h = adm_id actor) (map snd (panel_handoffs w))))"

record panel_credentials =
  cr_username :: string
  cr_password :: string
  cr_loginUrl :: string

definition revealPanelHandoff :: "admin \<Rightarrow> uid \<Rightarrow> (world, panel_credentials) op" where
  "revealPanelHandoff actor orderId =
    bnd (gets (\<lambda>w. (map_of (panel_handoffs w) orderId, panelLoginUrl w))) (\<lambda>(found, url).
    bnd (or_throw found (not_found_error ''no credentials for this order'')) (\<lambda>h.
    andthen (throw_if (adm_role actor \<noteq> OWNER \<and> ho_sellerId h \<noteq> adm_id actor) forbidden)
    (andthen (throw_if (ho_password h = []) (app_error ''no stored password; use the reset''))
    (andthen (modify (\<lambda>w. w\<lparr>panel_handoffs := del_rows (\<lambda>(i, r). i = orderId) (panel_handoffs w)\<rparr>))
    (andthen (audit (Some (adm_id actor)) ''panel.handoff'' (JId (ho_adminId h))
       [(''orderId'', JId orderId), (''username'', JStr (ho_username h))] None)
    (ret \<lparr>cr_username = ho_username h, cr_password = ho_password h, cr_loginUrl = url\<rparr>))))))"

definition resetPanelAccountPassword :: "admin \<Rightarrow> uid \<Rightarrow> (world, panel_credentials) op" where
  "resetPanelAccountPassword actor adminId =
    bnd (gets (\<lambda>w. (find (\<lambda>a. pa_adminId a = adminId) (map snd (panel_accounts w)), panelLoginUrl w, svcs w))) (\<lambda>(found, url, x).
    bnd (or_throw found (not_found_error ''this sub-panel is not in your sales'')) (\<lambda>acc.
    andthen (throw_if (adm_role actor \<noteq> OWNER \<and> pa_sellerId acc \<noteq> adm_id actor) forbidden)
    (bnd (gets (find_admin adminId)) (\<lambda>row. bnd (or_throw row (not_found_error ''the account of this sub-panel is gone'')) (\<lambda>t.
    andthen (throw_if (adm_role t = OWNER) forbidden)
    (bnd newPanelPassword (\<lambda>password.
    andthen (update_admin adminId (\<lambda>r. r\<lparr>adm_passwordHash := ext_hash_password x password\<rparr>))
    (andthen (revokeAllSessions adminId)
    (andthen (audit (Some (adm_id actor)) ''panel.password_reset'' (JId adminId)
       [(''username'', JStr (adm_username t)), (''orderId'', JId (pa_lastOrderId acc))] None)
    (ret \<lparr>cr_username = adm_username t, cr_password = password, cr_loginUrl = url\<rparr>))))))))))"


section \<open>Provisioning: \<open>panelProvision.ts\<close>\<close>

text \<open>\<open>accessOf\<close>: the inbounds of the sold plan by server.\<close>
definition snap_access :: "plan_snapshot \<Rightarrow> (uid \<times> int list) list" where
  "snap_access snap = map (\<lambda>(s, ts). (s, uniq (map t_inboundId ts))) (group_by t_serverId (snap_targets snap))"

definition pkg_gb :: "panel_plan_link \<Rightarrow> plan_snapshot \<Rightarrow> int" where
  "pkg_gb l snap = (if 0 < pp_gb l then pp_gb l else snap_trafficGB snap)"

definition pkg_days :: "panel_plan_link \<Rightarrow> plan_snapshot \<Rightarrow> int" where
  "pkg_days l snap = (if 0 < pp_days l then pp_days l else snap_days snap)"

definition buyer_key :: "uid \<Rightarrow> order \<Rightarrow> json list" where
  "buyer_key sellerId ord = JId sellerId # buyerKeyOf ord"

text \<open>The columns a renewal writes.\<close>
definition topped_up :: "time \<Rightarrow> panel_plan_link \<Rightarrow> order \<Rightarrow> admin \<Rightarrow> admin" where
  "topped_up tm l ord a =
    (let gb = pkg_gb l (ord_planSnapshot ord); days = pkg_days l (ord_planSnapshot ord);
         start = (case adm_expiresAt a of Some t \<Rightarrow> max t tm | None \<Rightarrow> tm) in
     a\<lparr>adm_trafficQuota := (case adm_trafficQuota a of None \<Rightarrow> None | Some q \<Rightarrow> if gb \<le> 0 then None else Some (q + gbToBytes (of_int gb))),
       adm_clientLimit := (case adm_clientLimit a of None \<Rightarrow> None | Some n \<Rightarrow> if pp_clients l \<le> 0 then None else Some (n + pp_clients l)),
       adm_expiresAt := (if 0 < days then Some (start + days * DAY_MS) else None),
       adm_isActive := True,
       adm_telegramId := (if order_tg ord \<noteq> [] then Some (order_tg ord) else adm_telegramId a)\<rparr>)"

definition renewed_account :: "time \<Rightarrow> order \<Rightarrow> admin \<Rightarrow> panel_account \<Rightarrow> panel_account" where
  "renewed_account tm ord a prev = prev\<lparr>pa_username := adm_username a, pa_planId := opt_or (ord_planId ord) (pa_planId prev),
     pa_buyerRef := (if buyerRefOf ord \<noteq> [] then buyerRefOf ord else pa_buyerRef prev),
     pa_lastOrderId := ord_id ord, pa_lastAt := tm, pa_renewals := pa_renewals prev + 1\<rparr>"

definition renew_panel :: "time \<Rightarrow> panel_plan_link \<Rightarrow> order \<Rightarrow> admin \<Rightarrow> panel_account \<Rightarrow> (world, panel_account \<times> string) op" where
  "renew_panel tm l ord a prev =
    andthen (update_admin (adm_id a) (topped_up tm l ord)) (ret (renewed_account tm ord a prev, []))"

definition sub_admin :: "services \<Rightarrow> time \<Rightarrow> uid \<Rightarrow> panel_plan_link \<Rightarrow> order \<Rightarrow> uid \<Rightarrow> string \<Rightarrow> string \<Rightarrow> admin" where
  "sub_admin x tm sellerId l ord k username password =
    (let gb = pkg_gb l (ord_planSnapshot ord); days = pkg_days l (ord_planSnapshot ord) in
     (blank_admin k tm username (ext_hash_password x password))
       \<lparr>adm_displayName := nonempty (take 60 (str_trim (opt_default (ord_customerName ord) []))),
        adm_trafficQuota := (if 0 < gb then Some (gbToBytes (of_int gb)) else None),
        adm_clientLimit := (if 0 < pp_clients l then Some (pp_clients l) else None),
        adm_expiresAt := (if 0 < days then Some (tm + days * DAY_MS) else None),
        adm_telegramId := nonempty (order_tg ord),
        adm_createdById := Some sellerId\<rparr>)"

definition new_account :: "time \<Rightarrow> uid \<Rightarrow> order \<Rightarrow> uid \<Rightarrow> string \<Rightarrow> panel_account" where
  "new_account tm sellerId ord k username = \<lparr>pa_adminId = k, pa_username = username, pa_sellerId = sellerId, pa_planId = ord_planId ord,
     pa_buyerRef = buyerRefOf ord, pa_orderId = ord_id ord, pa_createdAt = tm, pa_lastOrderId = ord_id ord, pa_lastAt = tm,
     pa_renewals = 0\<rparr>"

definition create_panel :: "time \<Rightarrow> uid \<Rightarrow> panel_plan_link \<Rightarrow> order \<Rightarrow> (world, panel_account \<times> string) op" where
  "create_panel tm sellerId l ord =
    bnd newPanelPassword (\<lambda>password. bnd (freePanelUsername (pp_prefix l)) (\<lambda>username.
    bnd new_id (\<lambda>k. bnd (gets svcs) (\<lambda>x.
    andthen (insert_admin (sub_admin x tm sellerId l ord k username password)
      (if pp_grantAccess l then snap_access (ord_planSnapshot ord) else []))
    (ret (new_account tm sellerId ord k username, password))))))"

text \<open>The account the same buyer got before, if the package tops accounts up and it still exists.\<close>
definition previous_account :: "panel_plan_link \<Rightarrow> json list \<Rightarrow> world \<Rightarrow> (panel_account \<times> admin) option" where
  "previous_account l key w =
    (if \<not> pp_topUp l then None
     else case map_of (panel_accounts w) key of
       None \<Rightarrow> None
     | Some prev \<Rightarrow> (case find_admin (pa_adminId prev) w of
         None \<Rightarrow> None
       | Some a \<Rightarrow> if adm_role a = OWNER then None else Some (prev, a)))"

definition sold_panel :: "time \<Rightarrow> uid \<Rightarrow> panel_plan_link \<Rightarrow> order \<Rightarrow> (world, panel_account \<times> string \<times> bool) op" where
  "sold_panel tm sellerId l ord =
    bnd (gets (previous_account l (buyer_key sellerId ord))) (\<lambda>prev.
    case prev of
      Some (acc, a) \<Rightarrow> bnd (renew_panel tm l ord a acc) (\<lambda>(account, password). ret (account, password, True))
    | None \<Rightarrow> bnd (create_panel tm sellerId l ord) (\<lambda>(account, password). ret (account, password, False)))"

definition order_note :: "order \<Rightarrow> string \<Rightarrow> string" where
  "order_note ord username =
    take 500 (join_with '' | '' (filter (\<lambda>s. s \<noteq> []) [opt_default (ord_note ord) [], ''sub-panel: '' @ username]))"

definition hand_over :: "time \<Rightarrow> uid \<Rightarrow> order \<Rightarrow> panel_account \<Rightarrow> string \<Rightarrow> bool \<Rightarrow> (world, string list) op" where
  "hand_over tm sellerId ord account password renewal =
    bnd (deliverPanelAccount ord) (\<lambda>delivered.
    andthen (do_when (delivered = []) (parkPanelHandoff
       \<lparr>ho_orderId = ord_id ord, ho_sellerId = sellerId, ho_adminId = pa_adminId account, ho_username = pa_username account,
        ho_password = password, ho_renewal = renewal, ho_delivered = [], ho_createdAt = tm\<rparr>))
    (ret delivered))"

definition announce_panel ::
  "uid \<Rightarrow> panel_plan_link \<Rightarrow> order \<Rightarrow> panel_account \<Rightarrow> bool \<Rightarrow> string list \<Rightarrow> (world, unit) op" where
  "announce_panel sellerId l ord account renewal delivered =
    andthen (audit (Some sellerId) (if renewal then ''panel.renew'' else ''panel.provision'') (JId (pa_adminId account))
      [(''orderId'', JId (ord_id ord)), (''username'', JStr (pa_username account)),
       (''gb'', JInt (pkg_gb l (ord_planSnapshot ord))), (''days'', JInt (pkg_days l (ord_planSnapshot ord))),
       (''clients'', JInt (pp_clients l)), (''delivered'', JObj (map (\<lambda>d. (d, JNull)) delivered))] None)
    (andthen (emitEvent (Some sellerId) ''order.fulfilled''
      [(''orderId'', JId (ord_id ord)), (''panelAdminId'', JId (pa_adminId account)), (''username'', JStr (pa_username account)),
       (''amount'', JStr (show_int (ord_amount ord))), (''plan'', JStr (snap_name (ord_planSnapshot ord)))])
    (notify_void ''order.fulfilled'' [JStr ''order'', JId (ord_id ord), JStr ''panel''] (JId (ord_id ord)) (to_admin (Some sellerId))))"

text \<open>The body of the \<open>try\<close>.\<close>
definition provision_body :: "order \<Rightarrow> admin \<Rightarrow> panel_plan_link \<Rightarrow> (world, order) op" where
  "provision_body ord seller l =
    bnd (gets (\<lambda>w. feature_on w ''sharedPanel'')) (\<lambda>on.
    andthen (throw_if (\<not> on) (forbidden_error ''a premium licence is needed''))
    (bnd now (\<lambda>tm.
    bnd (sold_panel tm (adm_id seller) l ord) (\<lambda>(account, password, renewal).
    andthen (modify (\<lambda>w. w\<lparr>panel_accounts := put_row (buyer_key (adm_id seller) ord) account (panel_accounts w)\<rparr>))
    (bnd (hand_over tm (adm_id seller) ord account password renewal) (\<lambda>delivered.
    bnd (update_order (ord_id ord) (\<lambda>r. r\<lparr>ord_status := O_FULFILLED, ord_fulfilledAt := Some tm, ord_error := None,
        ord_note := Some (order_note ord (pa_username account))\<rparr>)) (\<lambda>saved.
    andthen (count_sale ord)
    (andthen (announce_panel (adm_id seller) l ord account renewal delivered)
    (ret saved)))))))))"

text \<open>The \<open>catch\<close> of both fulfilments: the order keeps its status and carries the message.\<close>
definition fulfil_failed :: "string \<Rightarrow> order \<Rightarrow> uid \<Rightarrow> err \<Rightarrow> (world, order) op" where
  "fulfil_failed tag ord sellerId e =
    bnd (update_order (ord_id ord) (\<lambda>r. r\<lparr>ord_error := Some (take 500 (err_message e))\<rparr>)) (\<lambda>saved.
    bnd now (\<lambda>tm.
    andthen (notify_void ''order.failed'' [JStr ''order'', JId (ord_id ord), JStr tag, JInt tm] (JId (ord_id ord)) (to_admin (Some sellerId)))
    (ret saved)))"

definition provisionPanelOrder :: "order \<Rightarrow> admin \<Rightarrow> panel_plan_link \<Rightarrow> (world, order) op" where
  "provisionPanelOrder ord seller l =
    catch_op (provision_body ord seller l) (fulfil_failed ''panel_failed'' ord (adm_id seller))"

end
