(* ===== verification/Fulfillment.thy ===== *)
theory Fulfillment
  imports Panels ClientFrame
begin

text \<open>
  \<open>fulfillment.ts\<close>: turning a paid order into a client (a new one, or a renewal), or into a sub-panel
  when its plan is linked to a package. A failed delivery keeps the order PAID with the message in its
  \<open>error\<close> column, so that it can be retried. The direct Telegram message to the buyer
  (\<open>notifyCustomer\<close>) leaves no state and is not modelled.
\<close>

section \<open>Where an order is provisioned\<close>

definition enabled_targets :: "service_target list \<Rightarrow> target list" where
  "enabled_targets infos = map sti_target (filter sti_enabled infos)"

text \<open>The first service with an enabled inbound, then the first server with one.\<close>
definition service_fallback :: "admin \<Rightarrow> world \<Rightarrow> (target list \<times> string) option" where
  "service_fallback seller w =
    map_option (\<lambda>(s, infos). (enabled_targets infos, ''service:'' @ svc_name s))
      (find (\<lambda>(s, infos). enabled_targets infos \<noteq> []) (listServices seller True w))"

definition server_fallback :: "admin \<Rightarrow> world \<Rightarrow> (target list \<times> string) option" where
  "server_fallback seller w =
    (case List.map_filter (\<lambda>s. map_option (\<lambda>ib. (s, ib)) (find ib_enable (srv_inbounds s))) (listServersFor seller w) of
       [] \<Rightarrow> None
     | (s, ib) # _ \<Rightarrow> Some ([\<lparr>t_serverId = srv_id s, t_inboundId = ib_id ib\<rparr>], ''server:'' @ srv_name s))"

definition plan_fallback :: "uid option \<Rightarrow> world \<Rightarrow> (target list \<times> string) option" where
  "plan_fallback planId w =
    (case planId of
       None \<Rightarrow> None
     | Some i \<Rightarrow> (case find_plan i w of
         None \<Rightarrow> None
       | Some p \<Rightarrow> if planTargets p = [] then None else Some (planTargets p, ''plan'')))"

definition resolveOrderTargets :: "admin \<Rightarrow> plan_snapshot \<Rightarrow> uid option \<Rightarrow> (world, target list \<times> string) op" where
  "resolveOrderTargets seller snap planId =
    (if snap_targets snap \<noteq> [] then ret (snap_targets snap, ''snapshot'') else
     bnd (gets (\<lambda>w. opt_or (plan_fallback planId w) (opt_or (service_fallback seller w) (server_fallback seller w)))) (\<lambda>found.
     or_throw found (app_error ''no active service or inbound to deliver the order on'')))"

section \<open>Fulfilment\<close>

definition renewal_input :: "plan_snapshot \<Rightarrow> update_input" where
  "renewal_input snap = no_update\<lparr>ui_trafficGB := Some (of_int (snap_trafficGB snap)),
     ui_addDays := Some (of_int (snap_days snap)), ui_enabled := Some True\<rparr>"

definition renew_bought :: "admin \<Rightarrow> order \<Rightarrow> uid \<Rightarrow> (world, uid \<times> string list) op" where
  "renew_bought seller ord clientId =
    bnd (gets (\<lambda>w. (find (\<lambda>c. cli_id c = clientId \<and> cli_adminId c = adm_id seller) (clients w), links_of w clientId)))
      (\<lambda>(found, links).
    bnd (or_throw found (app_error ''the client to renew was not found'')) (\<lambda>c.
    andthen (resetClientTraffic seller (cli_id c))
    (bnd (updateClient seller (cli_id c) (renewal_input (ord_planSnapshot ord))) (\<lambda>(full, errors).
    ret (cli_id c, errors @ (if links = [] then [''this subscription has no config on a panel''] else []))))))"

definition id_tail :: "uid \<Rightarrow> string" where
  "id_tail i = (let s = show_nat i in drop (length s - 6) s)"

definition client_note :: "order \<Rightarrow> string \<Rightarrow> string" where
  "client_note ord via =
    (let customer = str_trim (opt_default (ord_customerName ord) []) in
     ''store order #'' @ id_tail (ord_id ord) @ '' - '' @ snap_name (ord_planSnapshot ord)
       @ (if customer = [] then [] else '' - '' @ customer) @ '' ['' @ via @ '']'')"

definition bought_input :: "order \<Rightarrow> string \<Rightarrow> target list \<Rightarrow> string \<Rightarrow> create_input" where
  "bought_input ord name targets via =
    (let snap = ord_planSnapshot ord in
     \<lparr>ci_name = name, ci_tag = None, ci_serviceId = None, ci_trafficGB = of_int (snap_trafficGB snap), ci_days = of_int (snap_days snap),
      ci_startAfterUse = False, ci_ipLimit = Some (snap_ipLimit snap), ci_note = Some (client_note ord via),
      ci_telegramId = ord_customerTelegramId ord, ci_phone = ord_customerPhone ord, ci_targets = map raw_of targets\<rparr>)"

definition create_bought :: "admin \<Rightarrow> order \<Rightarrow> (world, uid \<times> string list) op" where
  "create_bought seller ord =
    bnd (resolveOrderTargets seller (ord_planSnapshot ord) (ord_planId ord)) (\<lambda>(targets, via).
    bnd (randomConfigName ''srp'' 8) (\<lambda>name.
    bnd (createClient seller (bought_input ord name targets via)) (\<lambda>((c, links), errors).
    ret (cli_id c, errors))))"

definition warning_text :: "string list \<Rightarrow> string option" where
  "warning_text warnings = (if warnings = [] then None else Some (take 500 (join_with '' | '' warnings)))"

definition announce_fulfilled :: "admin \<Rightarrow> order \<Rightarrow> uid \<Rightarrow> string list \<Rightarrow> (world, unit) op" where
  "announce_fulfilled seller ord clientId warnings =
    andthen (audit (Some (adm_id seller)) ''order.fulfill'' (JId (ord_id ord))
      [(''clientId'', JId clientId), (''amount'', JStr (show_int (ord_amount ord))), (''warnings'', JInt (int (length warnings)))] None)
    (andthen (emitEvent (Some (adm_id seller)) ''order.fulfilled''
      [(''orderId'', JId (ord_id ord)), (''clientId'', JId clientId), (''amount'', JStr (show_int (ord_amount ord))),
       (''plan'', JStr (snap_name (ord_planSnapshot ord)))])
    (andthen (notify_void ''order.fulfilled'' [JStr ''order'', JId (ord_id ord), JStr ''fulfilled''] (JId (ord_id ord))
      (to_admin (Some (adm_id seller))))
    (do_when (warnings \<noteq> []) (notify_void ''order.failed'' [JStr ''order'', JId (ord_id ord), JStr ''partial''] (JId (ord_id ord))
      (to_admin (Some (adm_id seller)))))))"

text \<open>The body of the \<open>try\<close>.\<close>
definition fulfill_body :: "order \<Rightarrow> admin \<Rightarrow> (world, order) op" where
  "fulfill_body ord seller =
    bnd (case ord_renewClientId ord of Some i \<Rightarrow> renew_bought seller ord i | None \<Rightarrow> create_bought seller ord) (\<lambda>(clientId, warnings).
    bnd now (\<lambda>tm.
    bnd (update_order (ord_id ord) (\<lambda>r. r\<lparr>ord_status := O_FULFILLED, ord_clientId := Some clientId, ord_fulfilledAt := Some tm,
        ord_error := warning_text warnings\<rparr>)) (\<lambda>saved.
    andthen (count_sale ord)
    (andthen (announce_fulfilled seller ord clientId warnings)
    (ret saved)))))"

definition order_not_found :: err where
  "order_not_found = not_found_error ''order not found''"

definition fulfill_paid :: "order \<Rightarrow> admin \<Rightarrow> (world, order) op" where
  "fulfill_paid ord seller =
    bnd (gets (panelPlanFor (ord_planId ord))) (\<lambda>link.
    case link of
      Some l \<Rightarrow> provisionPanelOrder ord seller l
    | None \<Rightarrow> catch_op (fulfill_body ord seller) (fulfil_failed ''failed'' ord (adm_id seller)))"

definition fulfillOrder :: "uid \<Rightarrow> (world, order) op" where
  "fulfillOrder orderId =
    bnd (gets (find_order orderId)) (\<lambda>found. bnd (or_throw found order_not_found) (\<lambda>ord.
    if ord_status ord = O_FULFILLED then ret ord else
    andthen (throw_if (ord_status ord \<noteq> O_PAID) (app_error ''the order is not paid yet''))
    (bnd (gets (find_admin (ord_adminId ord))) (\<lambda>owner. bnd (or_throw owner record_not_found) (\<lambda>seller.
    fulfill_paid ord seller)))))"

section \<open>Manual confirmation and cancellation\<close>

text \<open>\<open>payment.updateMany\<close> on the open payments of an order.\<close>
definition close_payments :: "uid \<Rightarrow> payment_status \<Rightarrow> uid \<Rightarrow> string \<Rightarrow> (world, unit) op" where
  "close_payments orderId status reviewer note = modify (\<lambda>w. w\<lparr>payments := upd_rows
     (\<lambda>p. pay_orderId p = Some orderId \<and> (pay_status p = P_PENDING \<or> pay_status p = P_REVIEW))
     (\<lambda>p. p\<lparr>pay_status := status, pay_reviewedById := Some reviewer, pay_reviewedAt := Some (clock w), pay_reviewNote := Some note,
        pay_updatedAt := clock w\<rparr>) (payments w)\<rparr>)"

definition order_for_actor :: "admin \<Rightarrow> uid \<Rightarrow> (world, order) op" where
  "order_for_actor actor orderId =
    bnd (gets (find_order orderId)) (\<lambda>found. bnd (or_throw found order_not_found) (\<lambda>ord.
    andthen (throw_if (adm_role actor \<noteq> OWNER \<and> ord_adminId ord \<noteq> adm_id actor) forbidden) (ret ord)))"

definition retryFulfill :: "admin \<Rightarrow> uid \<Rightarrow> (world, order) op" where
  "retryFulfill actor orderId =
    bnd (order_for_actor actor orderId) (\<lambda>ord.
    andthen (do_when (ord_status ord = O_PENDING)
      (bnd now (\<lambda>tm.
       andthen (update_order (ord_id ord) (\<lambda>r. r\<lparr>ord_status := O_PAID, ord_paidAt := Some tm\<rparr>))
       (andthen (close_payments (ord_id ord) P_CONFIRMED (adm_id actor) ''confirmed by hand'')
       (audit (Some (adm_id actor)) ''order.manual_paid'' (JId (ord_id ord)) [] None)))))
    (fulfillOrder (ord_id ord)))"

definition cancelOrder :: "admin \<Rightarrow> uid \<Rightarrow> (world, order) op" where
  "cancelOrder actor orderId =
    bnd (order_for_actor actor orderId) (\<lambda>ord.
    andthen (throw_if (ord_status ord = O_FULFILLED) (app_error ''a delivered order cannot be canceled''))
    (andthen (close_payments (ord_id ord) P_REJECTED (adm_id actor) ''order canceled'')
    (bnd (update_order (ord_id ord) (\<lambda>r. r\<lparr>ord_status := O_CANCELED\<rparr>)) (\<lambda>saved.
    andthen (audit (Some (adm_id actor)) ''order.cancel'' (JId (ord_id ord)) [] None)
    (andthen (emitEvent (Some (ord_adminId ord)) ''order.canceled'' [(''orderId'', JId (ord_id ord))])
    (ret saved))))))"

end
