(* ===== verification/Customers.thy ===== *)
theory Customers
  imports Wallet
begin

text \<open>
  Storefront customers: \<open>packages/core/src/services/customers.ts\<close>. A customer belongs to one seller,
  keeps sessions of their own and a wallet of their own (\<open>Customer.credit\<close> with
  \<open>CustomerWalletTx\<close>), which is a second instance of the ledger interface.
\<close>

section \<open>Cleaning input\<close>

definition CUSTOMER_SESSION_DAYS :: int where
  "CUSTOMER_SESSION_DAYS = 60"

definition SIGNUPS_PER_IP_PER_HOUR :: nat where
  "SIGNUPS_PER_IP_PER_HOUR = 10"

definition is_letter :: "char \<Rightarrow> bool" where
  "is_letter c \<longleftrightarrow> is_lower c \<or> is_upper c"

text \<open>
  The pattern \<open>^[^\s@]+@[^\s@]+\.[a-zA-Z]{2,}$\<close>: one at-sign, no white space, and a domain that ends
  with a dot and at least two letters.
\<close>
definition EMAIL_RE :: "string \<Rightarrow> bool" where
  "EMAIL_RE s \<longleftrightarrow> \<not> list_ex is_space s \<and>
     (case split_on (CHR ''@'') s of
        [l, d] \<Rightarrow> l \<noteq> [] \<and> 2 \<le> length (takeWhile is_letter (rev d)) \<and>
          (case dropWhile is_letter (rev d) of [] \<Rightarrow> False | c # rest \<Rightarrow> c = CHR ''.'' \<and> rest \<noteq> [])
      | _ \<Rightarrow> False)"

definition cleanEmail :: "string option \<Rightarrow> string option" where
  "cleanEmail v = nonempty (take 120 (to_lower (str_trim (opt_default v []))))"

definition cleanDigits :: "string option \<Rightarrow> string option" where
  "cleanDigits v = nonempty (take 20 (filter is_digit (opt_default v [])))"

definition cleanName :: "string option \<Rightarrow> string option" where
  "cleanName v = nonempty (take 60 (str_trim (opt_default v [])))"

record signup_input =
  su_name :: "string option"
  su_email :: "string option"
  su_phone :: "string option"
  su_telegramId :: "string option"
  su_password :: string

text \<open>A field of a profile patch: \<open>None\<close> is undefined, \<open>Some None\<close> is null.\<close>
record profile_input =
  pf_name :: "string option option"
  pf_phone :: "string option option"
  pf_telegramId :: "string option option"

record customer_dto =
  cd_id :: uid
  cd_name :: "string option"
  cd_email :: "string option"
  cd_phone :: "string option"
  cd_telegramId :: "string option"
  cd_credit :: string
  cd_status :: customer_status
  cd_createdAt :: time
  cd_lastLoginAt :: "time option"

definition toCustomerDto :: "customer \<Rightarrow> customer_dto" where
  "toCustomerDto c = \<lparr>cd_id = cus_id c, cd_name = cus_name c, cd_email = cus_email c, cd_phone = cus_phone c,
     cd_telegramId = cus_telegramId c, cd_credit = show_int (cus_credit c), cd_status = cus_status c,
     cd_createdAt = cus_createdAt c, cd_lastLoginAt = cus_lastLoginAt c\<rparr>"

record customer_tx_dto =
  cwd_id :: uid
  cwd_kind :: wallet_tx_kind
  cwd_amount :: string
  cwd_balanceAfter :: string
  cwd_note :: "string option"
  cwd_refType :: "ref_type option"
  cwd_refId :: "uid option"
  cwd_createdAt :: time

definition toCustomerWalletTxDto :: "customer_wallet_tx \<Rightarrow> customer_tx_dto" where
  "toCustomerWalletTxDto t = \<lparr>cwd_id = cwt_id t, cwd_kind = cwt_kind t, cwd_amount = show_int (cwt_amount t),
     cwd_balanceAfter = show_int (cwt_balanceAfter t), cwd_note = cwt_note t, cwd_refType = cwt_refType t,
     cwd_refId = cwt_refId t, cwd_createdAt = cwt_createdAt t\<rparr>"

section \<open>Accounts and sessions\<close>

text \<open>\<open>findFirst({ adminId, email })\<close> and \<open>findFirst({ adminId, phone })\<close>.\<close>
definition customer_by :: "(customer \<Rightarrow> string option) \<Rightarrow> uid \<Rightarrow> string \<Rightarrow> world \<Rightarrow> customer option" where
  "customer_by f adminId v w = find (\<lambda>c. cus_adminId c = adminId \<and> f c = Some v) (customers w)"

definition startCustomerSession :: "uid \<Rightarrow> string option \<Rightarrow> (world, string) op" where
  "startCustomerSession customerId ip =
    bnd (randomToken 32) (\<lambda>token. bnd new_id (\<lambda>k. bnd now (\<lambda>tm. bnd (gets svcs) (\<lambda>x.
      andthen (modify (\<lambda>w. w\<lparr>customer_sessions := customer_sessions w @
        [\<lparr>ses_id = k, ses_customerId = customerId, ses_tokenHash = ext_sha256 x token, ses_ip = ip,
          ses_expiresAt = daysFromNow tm (of_int CUSTOMER_SESSION_DAYS), ses_createdAt = tm\<rparr>]\<rparr>))
      (ret token)))))"

definition signup_checks ::
  "store_settings \<Rightarrow> string option \<Rightarrow> string option \<Rightarrow> string option \<Rightarrow> (world, unit) op" where
  "signup_checks s email phone telegramId =
    andthen (throw_if (case email of Some e \<Rightarrow> \<not> EMAIL_RE e | None \<Rightarrow> False) (app_error ''email is not valid''))
    (andthen (throw_if (email = None \<and> phone = None) (app_error ''email or phone is required''))
    (andthen (throw_if (sto_requireEmail s \<and> email = None) (app_error ''email is required''))
    (andthen (throw_if (sto_requirePhone s \<and> phone = None) (app_error ''phone is required''))
    (throw_if (sto_requireTelegram s \<and> telegramId = None) (app_error ''Telegram id is required'')))))"

definition recent_signups :: "string \<Rightarrow> world \<Rightarrow> nat" where
  "recent_signups ip w =
    length (filter (\<lambda>s. ses_ip s = Some ip \<and> clock w - 60 * 60000 \<le> ses_createdAt s) (customer_sessions w))"

definition signup_rate :: "string option \<Rightarrow> (world, unit) op" where
  "signup_rate ip =
    (if \<not> truthy ip then ret ()
     else bnd (gets (recent_signups (opt_default ip []))) (\<lambda>recent.
       throw_if (SIGNUPS_PER_IP_PER_HOUR \<le> recent) (AppError ''too many requests from this address'' 429 ''rate_limited'')))"

definition signup_free :: "uid \<Rightarrow> string option \<Rightarrow> string option \<Rightarrow> (world, unit) op" where
  "signup_free adminId email phone =
    bnd (gets (\<lambda>w. case email of Some e \<Rightarrow> customer_by cus_email adminId e w | None \<Rightarrow> None)) (\<lambda>c1.
    andthen (throw_if (c1 \<noteq> None) (app_error ''this email is already registered''))
    (bnd (gets (\<lambda>w. case phone of Some p \<Rightarrow> customer_by cus_phone adminId p w | None \<Rightarrow> None)) (\<lambda>c2.
    throw_if (c2 \<noteq> None) (app_error ''this phone is already registered''))))"

definition signupCustomer :: "store_settings \<Rightarrow> signup_input \<Rightarrow> string option \<Rightarrow> (world, string \<times> customer) op" where
  "signupCustomer s inp ip =
    (let email = cleanEmail (su_email inp); phone = cleanDigits (su_phone inp); telegramId = cleanDigits (su_telegramId inp) in
    andthen (throw_if (\<not> sto_accountsEnabled s) (AppError ''accounts are off in this shop'' 403 ''accounts_disabled''))
    (andthen (signup_checks s email phone telegramId)
    (andthen (signup_rate ip)
    (andthen (signup_free (sto_adminId s) email phone)
    (bnd new_id (\<lambda>k. bnd now (\<lambda>tm. bnd (gets svcs) (\<lambda>x.
      let c = \<lparr>cus_id = k, cus_adminId = sto_adminId s, cus_name = cleanName (su_name inp), cus_email = email, cus_phone = phone,
               cus_telegramId = telegramId, cus_passwordHash = ext_hash_password x (su_password inp), cus_credit = 0,
               cus_status = CU_ACTIVE, cus_lastLoginAt = Some tm, cus_lastLoginIp = ip, cus_createdAt = tm\<rparr> in
      andthen (modify (\<lambda>w. w\<lparr>customers := customers w @ [c]\<rparr>))
      (bnd (startCustomerSession k ip) (\<lambda>token.
      andthen (audit (Some (sto_adminId s)) ''customer.signup'' (JId k)
         [(''via'', JStr (if email \<noteq> None then ''email'' else ''phone''))] ip)
      (ret (token, c))))))))))))"

definition bad_credentials :: "string \<Rightarrow> err" where
  "bad_credentials m = AppError m 401 ''bad_credentials''"

definition login_lookup :: "uid \<Rightarrow> string option \<Rightarrow> string option \<Rightarrow> world \<Rightarrow> customer option" where
  "login_lookup adminId email phone w =
    (case email of
       Some e \<Rightarrow> customer_by cus_email adminId e w
     | None \<Rightarrow> (case phone of Some p \<Rightarrow> customer_by cus_phone adminId p w | None \<Rightarrow> None))"

definition loginCustomer :: "store_settings \<Rightarrow> string \<Rightarrow> string \<Rightarrow> string option \<Rightarrow> (world, string \<times> customer) op" where
  "loginCustomer s ident password ip =
    (let identity = str_trim ident; has_at = (CHR ''@'' \<in> set identity);
         email = (if has_at then cleanEmail (Some identity) else None);
         phone = (if has_at then None else cleanDigits (Some identity));
         bad = bad_credentials ''email, phone or password is wrong'' in
    andthen (throw_if (\<not> sto_accountsEnabled s) (AppError ''customer login is off in this shop'' 403 ''accounts_disabled''))
    (andthen (throw_if (email = None \<and> phone = None) bad)
    (bnd (gets (\<lambda>w. (login_lookup (sto_adminId s) email phone w, svcs w))) (\<lambda>(found, x).
      case found of
        None \<Rightarrow> andthen (audit (Some (sto_adminId s)) ''customer.login_failed'' (JStr (take 60 identity)) [] ip) (throw bad)
      | Some c \<Rightarrow>
          if \<not> ext_verify_password x password (cus_passwordHash c) then
            andthen (audit (Some (sto_adminId s)) ''customer.login_failed'' (JStr (take 60 identity)) [] ip) (throw bad)
          else andthen (throw_if (cus_status c \<noteq> CU_ACTIVE) (AppError ''this account is disabled'' 403 ''blocked''))
            (bnd (startCustomerSession (cus_id c) ip) (\<lambda>token. bnd now (\<lambda>tm.
            andthen (modify (\<lambda>w. w\<lparr>customers := upd_rows (\<lambda>r. cus_id r = cus_id c)
              (\<lambda>r. r\<lparr>cus_lastLoginAt := Some tm, cus_lastLoginIp := ip\<rparr>) (customers w)\<rparr>))
            (andthen (audit (Some (sto_adminId s)) ''customer.login'' (JId (cus_id c)) [] ip)
            (ret (token, c))))))))))"

definition customerFromToken :: "string option \<Rightarrow> world \<Rightarrow> customer option" where
  "customerFromToken token w =
    (if \<not> truthy token then None
     else case find_row ses_tokenHash (ext_sha256 (svcs w) (opt_default token [])) (customer_sessions w) of
       None \<Rightarrow> None
     | Some s \<Rightarrow>
         if ses_expiresAt s < clock w then None
         else case find_customer (ses_customerId s) w of
           None \<Rightarrow> None
         | Some c \<Rightarrow> if cus_status c \<noteq> CU_ACTIVE then None else Some c)"

definition logoutCustomer :: "string \<Rightarrow> (world, unit) op" where
  "logoutCustomer token =
    modify (\<lambda>w. w\<lparr>customer_sessions := del_rows (\<lambda>s. ses_tokenHash s = ext_sha256 (svcs w) token) (customer_sessions w)\<rparr>)"

definition logoutAllCustomerSessions :: "uid \<Rightarrow> (world, unit) op" where
  "logoutAllCustomerSessions customerId =
    modify (\<lambda>w. w\<lparr>customer_sessions := del_rows (\<lambda>s. ses_customerId s = customerId) (customer_sessions w)\<rparr>)"

text \<open>\<open>customer.update({ where: { id }, data })\<close>: the row it returns.\<close>
definition update_customer :: "uid \<Rightarrow> (customer \<Rightarrow> customer) \<Rightarrow> (world, customer) op" where
  "update_customer i f =
    bnd (gets (find_customer i)) (\<lambda>found. bnd (or_throw found record_not_found) (\<lambda>c.
      andthen (modify (\<lambda>w. w\<lparr>customers := upd_rows (\<lambda>r. cus_id r = i) f (customers w)\<rparr>)) (ret (f c))))"

definition patched_customer :: "profile_input \<Rightarrow> customer \<Rightarrow> customer" where
  "patched_customer inp r = r\<lparr>
     cus_name := (case pf_name inp of None \<Rightarrow> cus_name r | Some v \<Rightarrow> cleanName v),
     cus_telegramId := (case pf_telegramId inp of None \<Rightarrow> cus_telegramId r | Some v \<Rightarrow> cleanDigits v),
     cus_phone := (case pf_phone inp of None \<Rightarrow> cus_phone r | Some v \<Rightarrow> cleanDigits v)\<rparr>"

text \<open>The unique key \<open>(adminId, phone)\<close> against the other rows.\<close>
definition phone_taken :: "uid \<Rightarrow> uid \<Rightarrow> string option \<Rightarrow> world \<Rightarrow> bool" where
  "phone_taken i adminId phone w \<longleftrightarrow>
     phone \<noteq> None \<and> list_ex (\<lambda>c. cus_adminId c = adminId \<and> cus_phone c = phone \<and> cus_id c \<noteq> i) (customers w)"

definition updateCustomerProfile :: "customer \<Rightarrow> profile_input \<Rightarrow> (world, customer) op" where
  "updateCustomerProfile c inp =
    (let phone = (case pf_phone inp of None \<Rightarrow> None | Some v \<Rightarrow> cleanDigits v) in
    bnd (gets (\<lambda>w. if phone \<noteq> None \<and> phone \<noteq> cus_phone c then customer_by cus_phone (cus_adminId c) (opt_default phone []) w else None))
      (\<lambda>clash. andthen (throw_if (clash \<noteq> None) (app_error ''this phone belongs to another account''))
        (bnd (gets (phone_taken (cus_id c) (cus_adminId c) phone)) (\<lambda>dup.
        andthen (throw_if dup unique_violation)
        (update_customer (cus_id c) (patched_customer inp))))))"

definition changeCustomerPassword :: "customer \<Rightarrow> string \<Rightarrow> string \<Rightarrow> (world, unit) op" where
  "changeCustomerPassword c current next =
    bnd (gets svcs) (\<lambda>x.
    andthen (throw_if (\<not> ext_verify_password x current (cus_passwordHash c)) (bad_credentials ''current password is wrong''))
    (andthen (update_customer (cus_id c) (\<lambda>r. r\<lparr>cus_passwordHash := ext_hash_password x next\<rparr>))
    (andthen (logoutAllCustomerSessions (cus_id c))
    (audit (Some (cus_adminId c)) ''customer.password_changed'' (JId (cus_id c)) [] None))))"

section \<open>The wallet\<close>

record customer_move =
  cm_customerId :: uid
  cm_amount :: int
  cm_kind :: wallet_tx_kind
  cm_refType :: "ref_type option"
  cm_refId :: "uid option"
  cm_note :: "string option"
  cm_byAdminId :: "uid option"

definition customer_tx :: "uid \<Rightarrow> time \<Rightarrow> customer_move \<Rightarrow> int \<Rightarrow> int \<Rightarrow> customer_wallet_tx" where
  "customer_tx k tm p amount balance = \<lparr>cwt_id = k, cwt_customerId = cm_customerId p, cwt_kind = cm_kind p, cwt_amount = amount,
     cwt_balanceAfter = balance, cwt_refType = cm_refType p, cwt_refId = cm_refId p, cwt_note = cm_note p,
     cwt_byAdminId = cm_byAdminId p, cwt_createdAt = tm\<rparr>"

text \<open>The row update and the ledger row of both directions; \<open>delta\<close> is the signed amount.\<close>
definition move_customer :: "customer_move \<Rightarrow> int \<Rightarrow> (world, int \<times> uid) op" where
  "move_customer p delta =
    bnd (update_customer (cm_customerId p) (\<lambda>r. r\<lparr>cus_credit := cus_credit r + delta\<rparr>)) (\<lambda>c.
    bnd new_id (\<lambda>k. bnd now (\<lambda>tm.
      andthen (modify (\<lambda>w. w\<lparr>customer_wallet_txs := customer_wallet_txs w @ [customer_tx k tm p delta (cus_credit c)]\<rparr>))
      (ret (cus_credit c, k)))))"

definition bad_amount :: err where
  "bad_amount = app_error ''amount is not valid''"

definition creditCustomerWallet :: "customer_move \<Rightarrow> (world, int \<times> uid) op" where
  "creditCustomerWallet p =
    andthen (throw_if (cm_amount p \<le> 0) bad_amount) (transaction (move_customer p (cm_amount p)))"

definition insufficient_funds :: err where
  "insufficient_funds = AppError ''wallet balance is not enough'' 400 ''insufficient_funds''"

definition debitCustomerWallet :: "customer_move \<Rightarrow> (world, int \<times> uid) op" where
  "debitCustomerWallet p =
    andthen (throw_if (cm_amount p \<le> 0) bad_amount)
    (transaction (bnd (gets (find_customer (cm_customerId p))) (\<lambda>found.
      bnd (or_throw found (not_found_error ''customer account not found'')) (\<lambda>c.
      andthen (throw_if (cus_credit c < cm_amount p) insufficient_funds)
      (move_customer p (- cm_amount p))))))"

definition listCustomerWalletTxs :: "uid \<Rightarrow> int \<Rightarrow> world \<Rightarrow> customer_tx_dto list" where
  "listCustomerWalletTxs customerId limit w =
    map toCustomerWalletTxDto (take (nat (clamp 1 200 limit))
      (sort_key (\<lambda>t. - cwt_createdAt t) (filter (\<lambda>t. cwt_customerId t = customerId) (customer_wallet_txs w))))"

text \<open>The ledger row of a settled payment.\<close>
definition settled_row :: "uid \<Rightarrow> world \<Rightarrow> customer_wallet_tx option" where
  "settled_row paymentId w =
    find (\<lambda>t. cwt_refType t = Some R_payment \<and> cwt_refId t = Some paymentId) (customer_wallet_txs w)"

definition topup_bonus :: "payment \<Rightarrow> store_settings option \<Rightarrow> int" where
  "topup_bonus p store =
    (let pct = (case store of Some s \<Rightarrow> sto_topupBonusPct s | None \<Rightarrow> 0)
     in if 0 < pct then (pay_amount p * pct) sdiv 100 else 0)"

definition settleCustomerTopup :: "uid \<Rightarrow> (world, bool \<times> string option) op" where
  "settleCustomerTopup paymentId =
    bnd (gets (\<lambda>w. (find_payment paymentId w, settled_row paymentId w))) (\<lambda>(found, already).
      case found of
        None \<Rightarrow> ret (False, None)
      | Some p \<Rightarrow> (case pay_customerId p of
          None \<Rightarrow> ret (False, None)
        | Some customerId \<Rightarrow>
            if pay_kind p \<noteq> K_TOPUP \<or> pay_status p \<noteq> P_CONFIRMED then ret (False, None)
            else (case already of
              Some t \<Rightarrow> ret (False, Some (show_int (cwt_balanceAfter t)))
            | None \<Rightarrow>
                bnd (gets (\<lambda>w. topup_bonus p (find_store (pay_adminId p) w))) (\<lambda>bonus.
                bnd (creditCustomerWallet \<lparr>cm_customerId = customerId, cm_amount = pay_amount p + bonus, cm_kind = W_TOPUP,
                   cm_refType = Some R_payment, cm_refId = Some (pay_id p),
                   cm_note = Some (if 0 < bonus then ''wallet top-up with bonus'' else ''wallet top-up''), cm_byAdminId = None\<rparr>)
                  (\<lambda>(balance, txId).
                andthen (audit (Some (pay_adminId p)) ''customer.wallet_topup'' (JId customerId)
                   [(''amount'', JInt (pay_amount p)), (''bonus'', JInt bonus), (''paymentId'', JId (pay_id p))] None)
                (ret (True, Some (show_int balance))))))))"

section \<open>The customer's page\<close>

record customer_order_row =
  cor_token :: string
  cor_status :: order_status
  cor_amount :: string
  cor_planName :: string
  cor_createdAt :: time

record customer_service_row =
  csr_name :: string
  csr_subToken :: string
  csr_status :: client_status
  csr_expiresAt :: "time option"
  csr_trafficLimit :: string
  csr_used :: string

record customer_summary =
  sum_customer :: customer_dto
  sum_orders :: "customer_order_row list"
  sum_services :: "customer_service_row list"
  sum_wallet :: "customer_tx_dto list"

definition order_row :: "order \<Rightarrow> customer_order_row" where
  "order_row ord = \<lparr>cor_token = ord_token ord, cor_status = ord_status ord, cor_amount = show_int (ord_amount ord),
     cor_planName = snap_name (ord_planSnapshot ord), cor_createdAt = ord_createdAt ord\<rparr>"

definition bought_service :: "client \<Rightarrow> customer_service_row" where
  "bought_service c = \<lparr>csr_name = cli_name c, csr_subToken = cli_subToken c, csr_status = cli_status c,
     csr_expiresAt = cli_expiresAt c, csr_trafficLimit = show_int (cli_trafficLimit c),
     csr_used = show_int (cli_usedUp c + cli_usedDown c)\<rparr>"

definition customerSummary :: "uid \<Rightarrow> (world, customer_summary) op" where
  "customerSummary customerId =
    bnd (gets (find_customer customerId)) (\<lambda>found. bnd (or_throw found (not_found_error ''customer account not found'')) (\<lambda>c.
    gets (\<lambda>w. \<lparr>sum_customer = toCustomerDto c,
      sum_orders = map order_row (take 20 (sort_key (\<lambda>x. - ord_createdAt x)
        (filter (\<lambda>x. ord_customerId x = Some customerId) (orders w)))),
      sum_services = map bought_service (take 50 (sort_key (\<lambda>x. - cli_createdAt x)
        (filter (\<lambda>x. cli_customerId x = Some customerId) (clients w)))),
      sum_wallet = listCustomerWalletTxs customerId 20 w\<rparr>)))"

section \<open>The seller's side\<close>

definition customerForActor :: "admin \<Rightarrow> uid \<Rightarrow> (world, customer) op" where
  "customerForActor actor customerId =
    bnd (gets (find_customer customerId)) (\<lambda>found. bnd (or_throw found (not_found_error ''customer not found'')) (\<lambda>c.
    andthen (throw_if (adm_role actor \<noteq> OWNER \<and> cus_adminId c \<noteq> adm_id actor) (AppError ''no access to this customer'' 403 ''forbidden''))
    (ret c)))"

text \<open>\<open>contains\<close> on a nullable column; \<open>fold\<close> is the case folding of \<open>mode: "insensitive"\<close>.\<close>
definition field_contains :: "(string \<Rightarrow> string) \<Rightarrow> string \<Rightarrow> string option \<Rightarrow> bool" where
  "field_contains f q v = (case v of None \<Rightarrow> False | Some t \<Rightarrow> contains (f q) (f t))"

definition customer_matches :: "string \<Rightarrow> customer \<Rightarrow> bool" where
  "customer_matches q c \<longleftrightarrow> q = [] \<or> field_contains (map char_lower) q (cus_name c) \<or>
     field_contains (map char_lower) q (cus_email c) \<or> field_contains id q (cus_phone c) \<or> field_contains id q (cus_telegramId c)"

definition listCustomers :: "admin \<Rightarrow> string option \<Rightarrow> uid option \<Rightarrow> int option \<Rightarrow> world \<Rightarrow> (customer_dto \<times> nat) list" where
  "listCustomers actor q adminId limit w =
    (let scope = (if adm_role actor = OWNER then adminId else Some (adm_id actor)) in
     map (\<lambda>c. (toCustomerDto c, length (filter (\<lambda>x. ord_customerId x = Some (cus_id c)) (orders w))))
       (take (nat (clamp 1 200 (opt_default limit 50))) (sort_key (\<lambda>c. - cus_createdAt c)
         (filter (\<lambda>c. (scope = None \<or> scope = Some (cus_adminId c)) \<and> customer_matches (str_trim (opt_default q [])) c) (customers w)))))"

definition adjustCustomerCredit :: "admin \<Rightarrow> uid \<Rightarrow> int \<Rightarrow> string option \<Rightarrow> (world, int) op" where
  "adjustCustomerCredit actor customerId amount note =
    bnd (customerForActor actor customerId) (\<lambda>c.
    andthen (throw_if (amount = 0) bad_amount)
    (let move = \<lparr>cm_customerId = cus_id c, cm_amount = (if 0 < amount then amount else - amount), cm_kind = W_ADJUST,
           cm_refType = Some R_admin, cm_refId = Some (adm_id actor), cm_note = note, cm_byAdminId = Some (adm_id actor)\<rparr> in
     bnd (if 0 < amount then creditCustomerWallet move else debitCustomerWallet move) (\<lambda>(balance, txId).
     andthen (audit (Some (adm_id actor)) ''customer.credit_adjust'' (JId (cus_id c))
        [(''amount'', JInt amount), (''balance'', JInt balance)] None)
     (ret balance))))"

definition status_text :: "customer_status \<Rightarrow> string" where
  "status_text s = (case s of CU_ACTIVE \<Rightarrow> ''ACTIVE'' | CU_BLOCKED \<Rightarrow> ''BLOCKED'')"

definition setCustomerStatus :: "admin \<Rightarrow> uid \<Rightarrow> customer_status \<Rightarrow> (world, customer_dto) op" where
  "setCustomerStatus actor customerId status =
    bnd (customerForActor actor customerId) (\<lambda>c.
    bnd (update_customer (cus_id c) (\<lambda>r. r\<lparr>cus_status := status\<rparr>)) (\<lambda>saved.
    andthen (do_when (status = CU_BLOCKED) (logoutAllCustomerSessions (cus_id c)))
    (andthen (audit (Some (adm_id actor)) ''customer.status'' (JId (cus_id c)) [(''status'', JStr (status_text status))] None)
    (ret (toCustomerDto saved)))))"

definition resetCustomerPassword :: "admin \<Rightarrow> uid \<Rightarrow> string \<Rightarrow> (world, unit) op" where
  "resetCustomerPassword actor customerId password =
    bnd (customerForActor actor customerId) (\<lambda>c. bnd (gets svcs) (\<lambda>x.
    andthen (throw_if (length password < 6) (app_error ''password needs at least 6 characters''))
    (andthen (update_customer (cus_id c) (\<lambda>r. r\<lparr>cus_passwordHash := ext_hash_password x password\<rparr>))
    (andthen (logoutAllCustomerSessions (cus_id c))
    (audit (Some (adm_id actor)) ''customer.password_reset'' (JId (cus_id c)) [] None)))))"

section \<open>How the wallet operations run\<close>

lemma find_customer_id: "find_customer i w = Some c \<Longrightarrow> cus_id c = i"
  unfolding find_customer_def by (rule find_row_key)

definition cmoved :: "customer_move \<Rightarrow> int \<Rightarrow> int \<Rightarrow> world \<Rightarrow> world" where
  "cmoved p delta balance w = w\<lparr>next_id := Suc (next_id w),
     customers := upd_rows (\<lambda>r. cus_id r = cm_customerId p) (\<lambda>r. r\<lparr>cus_credit := cus_credit r + delta\<rparr>) (customers w),
     customer_wallet_txs := customer_wallet_txs w @ [customer_tx (next_id w) (clock w) p delta balance]\<rparr>"

lemma cmoved_frame [simp]:
  "payments (cmoved p d b w) = payments w" "stores (cmoved p d b w) = stores w" "orders (cmoved p d b w) = orders w"
  "customer_sessions (cmoved p d b w) = customer_sessions w" "clock (cmoved p d b w) = clock w"
  by (simp_all add: cmoved_def)

lemma update_customer_eq:
  "update_customer i f w = (case find_customer i w of
     None \<Rightarrow> (Inl record_not_found, w)
   | Some c \<Rightarrow> (Inr (f c), w\<lparr>customers := upd_rows (\<lambda>r. cus_id r = i) f (customers w)\<rparr>))"
  by (simp add: update_customer_def bnd_def andthen_def split: option.splits)

lemma move_customer_eq:
  "move_customer p delta w = (case find_customer (cm_customerId p) w of
     None \<Rightarrow> (Inl record_not_found, w)
   | Some c \<Rightarrow> (Inr (cus_credit c + delta, next_id w), cmoved p delta (cus_credit c + delta) w))"
  by (simp add: move_customer_def update_customer_eq bnd_def andthen_def new_id_def now_def cmoved_def split: option.splits)

lemma creditCustomerWallet_eq:
  "creditCustomerWallet p w =
    (if cm_amount p \<le> 0 then (Inl bad_amount, w) else move_customer p (cm_amount p) w)"
  by (simp add: creditCustomerWallet_def andthen_throw_if transaction_def move_customer_eq split: option.splits)

lemma debitCustomerWallet_eq:
  "debitCustomerWallet p w =
    (if cm_amount p \<le> 0 then (Inl bad_amount, w)
     else case find_customer (cm_customerId p) w of
       None \<Rightarrow> (Inl (not_found_error ''customer account not found''), w)
     | Some c \<Rightarrow> if cus_credit c < cm_amount p then (Inl insufficient_funds, w) else move_customer p (- cm_amount p) w)"
  by (simp add: debitCustomerWallet_def andthen_throw_if transaction_def move_customer_eq bnd_def split: option.splits)

section \<open>The customer wallet is a ledger\<close>

definition customer_balance :: "world \<Rightarrow> uid \<Rightarrow> int option" where
  "customer_balance w i = map_option cus_credit (find_customer i w)"

definition customer_rows :: "world \<Rightarrow> uid \<Rightarrow> entry list" where
  "customer_rows w i = map (\<lambda>t. (cwt_amount t, cwt_balanceAfter t)) (filter (\<lambda>t. cwt_customerId t = i) (customer_wallet_txs w))"

definition customer_step :: "world \<Rightarrow> world \<Rightarrow> bool" where
  "customer_step w w' \<longleftrightarrow> (\<exists>p. w' = snd (creditCustomerWallet p w) \<or> w' = snd (debitCustomerWallet p w))"

lemma customer_ledger_frame:
  "customers w' = customers w \<Longrightarrow> customer_wallet_txs w' = customer_wallet_txs w \<Longrightarrow>
   customer_balance w' = customer_balance w \<and> customer_rows w' = customer_rows w"
  by (simp add: customer_balance_def customer_rows_def find_customer_def fun_eq_iff)

lemma customer_balance_cmoved:
  "customer_balance (cmoved p d b w) j =
    (if j = cm_customerId p then map_option (\<lambda>x. x + d) (customer_balance w j) else customer_balance w j)"
  using find_row_key [of cus_id j "customers w"]
  by (cases "find_customer j w") (auto simp: cmoved_def customer_balance_def find_customer_def find_row_upd)

lemma customer_rows_cmoved:
  "customer_rows (cmoved p d b w) j =
    (if j = cm_customerId p then customer_rows w j @ [(d, b)] else customer_rows w j)"
  by (simp add: cmoved_def customer_rows_def customer_tx_def)

lemma customer_step_cases:
  assumes "customer_step w w'"
  obtains (same) "w' = w"
  | (moved) p c d where "find_customer (cm_customerId p) w = Some c" "w' = cmoved p d (cus_credit c + d) w" "0 \<le> d \<or> 0 \<le> cus_credit c + d"
proof -
  obtain p where "w' = snd (creditCustomerWallet p w) \<or> w' = snd (debitCustomerWallet p w)"
    using assms unfolding customer_step_def by blast
  then show thesis
  proof
    assume "w' = snd (creditCustomerWallet p w)"
    then show thesis
      using same moved [of p _ "cm_amount p"]
      by (auto simp: creditCustomerWallet_eq move_customer_eq split: if_splits option.splits)
  next
    assume "w' = snd (debitCustomerWallet p w)"
    then show thesis
      using same moved [of p _ "- cm_amount p"]
      by (auto simp: debitCustomerWallet_eq move_customer_eq split: if_splits option.splits)
  qed
qed

lemma customer_step_law:
  assumes "customer_step w w'"
  shows "(\<forall>k. customer_balance w' k = customer_balance w k \<and> customer_rows w' k = customer_rows w k) \<or>
    (\<exists>k b a. customer_balance w k = Some b \<and>
       (\<forall>j. customer_balance w' j = (if j = k then Some (b + a) else customer_balance w j)) \<and>
       (\<forall>j. customer_rows w' j = (if j = k then customer_rows w k @ [(a, b + a)] else customer_rows w j)))"
  using assms
proof (cases rule: customer_step_cases)
  case same
  then show ?thesis by simp
next
  case (moved p c d)
  have b: "customer_balance w (cm_customerId p) = Some (cus_credit c)" by (simp add: customer_balance_def moved(1))
  have "(\<forall>j. customer_balance w' j = (if j = cm_customerId p then Some (cus_credit c + d) else customer_balance w j)) \<and>
     (\<forall>j. customer_rows w' j = (if j = cm_customerId p then customer_rows w (cm_customerId p) @ [(d, cus_credit c + d)] else customer_rows w j))"
    by (simp add: moved(2) customer_balance_cmoved customer_rows_cmoved b)
  with b show ?thesis by blast
qed

interpretation cw: ledger customer_balance customer_rows customer_step
  by unfold_locales (rule customer_step_law)

text \<open>The ledger explains every balance, and nobody is in debt.\<close>
definition customers_ok :: "(uid \<Rightarrow> int) \<Rightarrow> world \<Rightarrow> bool" where
  "customers_ok start w \<longleftrightarrow> cw.explained start w \<and> (\<forall>i b. customer_balance w i = Some b \<longrightarrow> 0 \<le> b)"

lemma customers_ok_step:
  assumes "customer_step w w'" and "customers_ok start w" shows "customers_ok start w'"
proof -
  have ex: "cw.explained start w'" using assms cw.step_explained unfolding customers_ok_def by blast
  have "0 \<le> b" if b: "customer_balance w' i = Some b" for i b
    using assms(1)
  proof (cases rule: customer_step_cases)
    case same
    then show ?thesis using assms(2) b by (simp add: customers_ok_def)
  next
    case (moved p c d)
    have old: "customer_balance w (cm_customerId p) = Some (cus_credit c)" by (simp add: customer_balance_def moved(1))
    then have "0 \<le> cus_credit c" using assms(2) by (simp add: customers_ok_def)
    then show ?thesis
      using b moved(3) old assms(2) by (auto simp: moved(2) customer_balance_cmoved customers_ok_def split: if_splits)
  qed
  with ex show ?thesis by (simp add: customers_ok_def)
qed

lemma customers_ok_frame:
  "customers w' = customers w \<Longrightarrow> customer_wallet_txs w' = customer_wallet_txs w \<Longrightarrow> customers_ok start w' = customers_ok start w"
  using customer_ledger_frame [of w' w] by (simp add: customers_ok_def cw.explained_def)

lemma customers_ok_stable [preserves_intros]: "events_stable (customers_ok start)"
  unfolding events_stable_def using customers_ok_frame eo_customers eo_customer_wallet_txs by blast

lemma customers_ok_wallet [preserves_intros]:
  "preserves (customers_ok start) (creditCustomerWallet p)" "preserves (customers_ok start) (debitCustomerWallet p)"
proof -
  have "customer_step w (snd (creditCustomerWallet p w))" "customer_step w (snd (debitCustomerWallet p w))" for w
    unfolding customer_step_def by blast+
  then show "preserves (customers_ok start) (creditCustomerWallet p)" "preserves (customers_ok start) (debitCustomerWallet p)"
    unfolding preserves_def using customers_ok_step by blast+
qed

lemma reads_customerForActor [reads_intros]: "reads (customerForActor actor i)"
  unfolding customerForActor_def by (intro reads_intros)

lemma customers_ok_settle [preserves_intros]: "preserves (customers_ok start) (settleCustomerTopup i)"
  unfolding settleCustomerTopup_def by (intro preserves_intros)

lemma customers_ok_adjust: "preserves (customers_ok start) (adjustCustomerCredit actor i amount note)"
  unfolding adjustCustomerCredit_def Let_def
  by (intro preserves_bnd preserves_reads reads_customerForActor preserves_intros)

section \<open>Properties\<close>

text \<open>
  C7: A customer wallet is explained by its ledger and never overdrawn (invariant). Crediting,
  debiting, settling a top-up and a seller's manual adjustment, with any arguments and whether or not
  they are refused, keep every customer's balance equal to its start plus its ledger rows, every
  row's \<open>balanceAfter\<close> the running balance, and no balance below zero.
\<close>
theorem customer_wallets_sound:
  "preserves (customers_ok start) (creditCustomerWallet p) \<and> preserves (customers_ok start) (debitCustomerWallet p) \<and>
   preserves (customers_ok start) (settleCustomerTopup i) \<and> preserves (customers_ok start) (adjustCustomerCredit actor j amount note)"
  by (intro conjI customers_ok_wallet customers_ok_settle customers_ok_adjust)

lemma settled_row_cmoved:
  "settled_row i (cmoved p d b w) = (case settled_row i w of Some t \<Rightarrow> Some t
     | None \<Rightarrow> if cm_refType p = Some R_payment \<and> cm_refId p = Some i then Some (customer_tx (next_id w) (clock w) p d b) else None)"
proof -
  have "find P (xs @ [x]) = (case find P xs of Some t \<Rightarrow> Some t | None \<Rightarrow> if P x then Some x else None)"
    for P and xs :: "customer_wallet_tx list" and x by (induction xs) auto
  then show ?thesis by (simp add: settled_row_def cmoved_def customer_tx_def split: option.splits)
qed

lemma settle_again:
  assumes "find_payment i w = Some p" and "pay_kind p = K_TOPUP" and "pay_status p = P_CONFIRMED"
    and "pay_customerId p = Some cid" and "settled_row i w = Some t"
  shows "settleCustomerTopup i w = (Inr (False, Some (show_int (cwt_balanceAfter t))), w)"
  by (simp add: settleCustomerTopup_def assms)

lemma settle_run:
  assumes "settleCustomerTopup i w = (Inr (True, s), w')"
  obtains p cid c a where "find_payment i w = Some p" "pay_kind p = K_TOPUP" "pay_status p = P_CONFIRMED"
    "pay_customerId p = Some cid" "settled_row i w = None" "find_customer cid w = Some c"
    "a = pay_amount p + topup_bonus p (find_store (pay_adminId p) w)" "0 < a" "s = Some (show_int (cus_credit c + a))"
    "events_only (cmoved \<lparr>cm_customerId = cid, cm_amount = a, cm_kind = W_TOPUP, cm_refType = Some R_payment, cm_refId = Some i,
       cm_note = Some (if 0 < topup_bonus p (find_store (pay_adminId p) w) then ''wallet top-up with bonus'' else ''wallet top-up''),
       cm_byAdminId = None\<rparr> a (cus_credit c + a) w) w'"
proof -
  obtain p where p: "find_payment i w = Some p" using assms by (cases "find_payment i w") (auto simp: settleCustomerTopup_def)
  then obtain cid where cid: "pay_customerId p = Some cid"
    using assms by (cases "pay_customerId p") (auto simp: settleCustomerTopup_def)
  have k: "pay_kind p = K_TOPUP" "pay_status p = P_CONFIRMED" "settled_row i w = None"
    using assms p cid by (auto simp: settleCustomerTopup_def split: if_splits option.splits)
  have id: "pay_id p = i" using p unfolding find_payment_def by (rule find_row_key)
  let ?bonus = "topup_bonus p (find_store (pay_adminId p) w)"
  let ?a = "pay_amount p + ?bonus"
  let ?m = "\<lparr>cm_customerId = cid, cm_amount = ?a, cm_kind = W_TOPUP, cm_refType = Some R_payment, cm_refId = Some i,
       cm_note = Some (if 0 < ?bonus then ''wallet top-up with bonus'' else ''wallet top-up''), cm_byAdminId = None\<rparr>"
  let ?au = "audit (Some (pay_adminId p)) ''customer.wallet_topup'' (JId cid)
     [(''amount'', JInt (pay_amount p)), (''bonus'', JInt ?bonus), (''paymentId'', JId i)] None"
  have "bnd (creditCustomerWallet ?m) (\<lambda>(balance, txId). andthen ?au (ret (True, Some (show_int balance)))) w = (Inr (True, s), w')"
    using assms by (simp add: settleCustomerTopup_def p cid k id)
  then obtain bal tx w1 u w2 where cr: "creditCustomerWallet ?m w = (Inr (bal, tx), w1)" and au: "?au w1 = (Inr u, w2)"
    and s: "s = Some (show_int bal)" and w2: "w' = w2"
    unfolding bnd_inr by (auto simp: andthen_inr)
  have ev: "events_only w1 w'" using quiet_snd [OF quiet_audit, of w1] au w2 by (metis snd_conv)
  obtain c where c: "find_customer cid w = Some c" "0 < ?a" "bal = cus_credit c + ?a" "w1 = cmoved ?m ?a (cus_credit c + ?a) w"
    using cr by (auto simp: creditCustomerWallet_eq move_customer_eq split: if_splits option.splits)
  show thesis
    by (rule that [OF p k(1,2) cid k(3) c(1) refl c(2)]) (use s c(3,4) ev in simp_all)
qed

lemma settled_once:
  assumes "settleCustomerTopup i w = (Inr (True, s), w')"
  shows "\<exists>p cid b. find_payment i w = Some p \<and> pay_kind p = K_TOPUP \<and> pay_status p = P_CONFIRMED \<and> pay_customerId p = Some cid \<and>
     settled_row i w = None \<and> customer_balance w cid = Some b \<and>
     customer_balance w' cid = Some (b + pay_amount p + topup_bonus p (find_store (pay_adminId p) w)) \<and>
     (\<forall>j. j \<noteq> cid \<longrightarrow> customer_balance w' j = customer_balance w j) \<and>
     settleCustomerTopup i w' = (Inr (False, s), w')"
  using assms
proof (cases rule: settle_run)
  case (1 p cid c a)
  note ev = 1(10)
  have fr: "customer_balance w' = customer_balance (cmoved \<lparr>cm_customerId = cid, cm_amount = a, cm_kind = W_TOPUP, cm_refType = Some R_payment, cm_refId = Some i,
       cm_note = Some (if 0 < topup_bonus p (find_store (pay_adminId p) w) then ''wallet top-up with bonus'' else ''wallet top-up''),
       cm_byAdminId = None\<rparr> a (cus_credit c + a) w)"
    using customer_ledger_frame [OF eo_customers [OF ev] eo_customer_wallet_txs [OF ev]] by simp
  have b: "customer_balance w cid = Some (cus_credit c)" by (simp add: customer_balance_def 1(6))
  have p': "find_payment i w' = Some p" using 1(1) by (simp add: find_payment_def eo_payments [OF ev])
  have row: "\<exists>t. settled_row i w' = Some t \<and> cwt_balanceAfter t = cus_credit c + a"
    using eo_customer_wallet_txs [OF ev] settled_row_cmoved [of i _ a "cus_credit c + a" w] 1(5)
    by (simp add: settled_row_def customer_tx_def)
  then obtain t where t: "settled_row i w' = Some t" "cwt_balanceAfter t = cus_credit c + a" by blast
  have again: "settleCustomerTopup i w' = (Inr (False, s), w')"
    using settle_again [OF p' 1(2,3,4) t(1)] t(2) 1(9) by simp
  show ?thesis
    using 1 b again by (auto simp: fr customer_balance_cmoved)
qed

text \<open>
  C8: A top-up is credited once (safety, every successful settlement). When
  \<open>settleCustomerTopup\<close> reports that it credited a payment, the payment was a confirmed top-up of a
  customer with no ledger row yet, exactly that customer gained exactly its amount and the store's
  bonus, and settling the same payment again credits nothing, changes nothing and reports the same
  balance.
\<close>
theorem topup_settled_once:
  assumes "settleCustomerTopup i w = (Inr (True, s), w')"
  shows "\<exists>p cid b. find_payment i w = Some p \<and> pay_kind p = K_TOPUP \<and> pay_status p = P_CONFIRMED \<and> pay_customerId p = Some cid \<and>
     settled_row i w = None \<and> customer_balance w cid = Some b \<and>
     customer_balance w' cid = Some (b + pay_amount p + topup_bonus p (find_store (pay_adminId p) w)) \<and>
     (\<forall>j. j \<noteq> cid \<longrightarrow> customer_balance w' j = customer_balance w j) \<and>
     settleCustomerTopup i w' = (Inr (False, s), w')"
  by (rule settled_once [OF assms])

definition demo_customer :: customer where
  "demo_customer = \<lparr>cus_id = 7, cus_adminId = 3, cus_name = None, cus_email = Some ''a@b.co'', cus_phone = None,
     cus_telegramId = None, cus_passwordHash = ''hsecret'', cus_credit = 40, cus_status = CU_ACTIVE, cus_lastLoginAt = None,
     cus_lastLoginIp = None, cus_createdAt = 0\<rparr>"

definition demo_payment :: "uid \<Rightarrow> payment_kind \<Rightarrow> payment_method \<Rightarrow> payment_status \<Rightarrow> int \<Rightarrow> payment" where
  "demo_payment i kind m st amount = \<lparr>pay_id = i, pay_kind = kind, pay_method = m, pay_status = st, pay_orderId = None,
     pay_adminId = 3, pay_customerId = Some 7, pay_amount = amount, pay_amountUsdt = None, pay_txid = None,
     pay_receiptRef = None, pay_receiptFile = None, pay_cardPan = None, pay_authority = None, pay_refId = None,
     pay_reviewedById = None, pay_reviewedAt = None, pay_reviewNote = None, pay_error = None, pay_expiresAt = None,
     pay_meta = \<lparr>meta_crypto = None, meta_verify = None, meta_tries = 0, meta_amountSeen = None, meta_startUrl = None\<rparr>,
     pay_createdAt = 0, pay_updatedAt = 0\<rparr>"

definition demo_topup :: world where
  "demo_topup = demo_world\<lparr>customers := [demo_customer], payments := [demo_payment 50 K_TOPUP CARD P_CONFIRMED 1000]\<rparr>"

lemma topup_settled_once_witness:
  "\<exists>w'. settleCustomerTopup 50 demo_topup = (Inr (True, Some ''1040''), w') \<and>
     settleCustomerTopup 50 w' = (Inr (False, Some ''1040''), w')"
proof -
  have "fst (settleCustomerTopup 50 demo_topup) = Inr (True, Some ''1040'')" by code_simp
  then obtain w' where run: "settleCustomerTopup 50 demo_topup = (Inr (True, Some ''1040''), w')"
    by (cases "settleCustomerTopup 50 demo_topup") simp
  then show ?thesis using topup_settled_once [OF run] by blast
qed

lemma token_session:
  assumes "customerFromToken t w = Some c"
  shows "\<exists>s \<in> set (customer_sessions w). ses_customerId s = cus_id c \<and> clock w \<le> ses_expiresAt s"
proof -
  obtain s where s: "find_row ses_tokenHash (ext_sha256 (svcs w) (opt_default t [])) (customer_sessions w) = Some s"
    and "\<not> ses_expiresAt s < clock w" and c: "find_customer (ses_customerId s) w = Some c"
    using assms by (auto simp: customerFromToken_def split: if_splits option.splits)
  then show ?thesis using find_row_in [OF s] find_customer_id [OF c] by auto
qed

lemma logout_audit:
  assumes "logoutAllCustomerSessions i w = (Inr u, w1)" and "audit a act tgt m ip w1 = (Inr v, w')"
  shows "customer_sessions w' = del_rows (\<lambda>s. ses_customerId s = i) (customer_sessions w)"
proof -
  have "w1 = w\<lparr>customer_sessions := del_rows (\<lambda>s. ses_customerId s = i) (customer_sessions w)\<rparr>"
    using assms(1) by (simp add: logoutAllCustomerSessions_def)
  moreover have "events_only w1 w'" using quiet_snd [OF quiet_audit] assms(2) by (metis snd_conv)
  ultimately show ?thesis by (simp add: eo_customer_sessions)
qed

lemma update_customer_inr [inr_iffs]:
  "update_customer i f w = (Inr c', w') \<longleftrightarrow> (\<exists>c. find_customer i w = Some c \<and> c' = f c \<and>
     w' = w\<lparr>customers := upd_rows (\<lambda>r. cus_id r = i) f (customers w)\<rparr>)"
  by (auto simp: update_customer_eq split: option.splits)

lemma customerForActor_inr [inr_iffs]:
  "customerForActor actor i w = (Inr c, w') \<longleftrightarrow> find_customer i w = Some c \<and> w' = w \<and>
     (adm_role actor = OWNER \<or> cus_adminId c = adm_id actor)"
  by (auto simp: customerForActor_def inr_iffs)

lemma status_logout:
  assumes "setCustomerStatus actor i CU_BLOCKED w = (Inr d, w')"
  shows "customer_sessions w' = del_rows (\<lambda>s. ses_customerId s = i) (customer_sessions w)"
  using assms unfolding setCustomerStatus_def inr_iffs
  by (auto dest!: find_customer_id dest: logout_audit simp: find_customer_def [symmetric])

lemma reset_logout:
  assumes "resetCustomerPassword actor i pw w = (Inr (), w')"
  shows "customer_sessions w' = del_rows (\<lambda>s. ses_customerId s = i) (customer_sessions w)"
  using assms unfolding resetCustomerPassword_def inr_iffs
  by (auto dest!: find_customer_id dest: logout_audit)

lemma change_logout:
  assumes "changeCustomerPassword c cur nx w = (Inr (), w')"
  shows "customer_sessions w' = del_rows (\<lambda>s. ses_customerId s = cus_id c) (customer_sessions w)"
  using assms unfolding changeCustomerPassword_def inr_iffs
  by (auto dest: logout_audit)

text \<open>
  C35: Blocking a customer or changing a password ends every session (safety). After a seller blocks
  a customer or resets their password, or the customer changes it, exactly that customer's sessions
  are gone, and no token at all resolves to that customer until they log in again.
\<close>
theorem lockout_spec:
  assumes "setCustomerStatus actor i CU_BLOCKED w = (Inr d, w') \<or> resetCustomerPassword actor i pw w = (Inr (), w') \<or>
     changeCustomerPassword me cur nx w = (Inr (), w') \<and> cus_id me = i"
  shows "customer_sessions w' = del_rows (\<lambda>s. ses_customerId s = i) (customer_sessions w) \<and>
     (\<forall>t c. customerFromToken t w' = Some c \<longrightarrow> cus_id c \<noteq> i)"
proof -
  have gone: "customer_sessions w' = del_rows (\<lambda>s. ses_customerId s = i) (customer_sessions w)"
    using assms status_logout reset_logout change_logout by metis
  moreover have "cus_id c \<noteq> i" if "customerFromToken t w' = Some c" for t c
    using token_session [OF that] gone by (auto simp: set_del_rows)
  ultimately show ?thesis by blast
qed

definition demo_session :: world where
  "demo_session = demo_topup\<lparr>customer_sessions := [\<lparr>ses_id = 60, ses_customerId = 7, ses_tokenHash = ''t'', ses_ip = None,
     ses_expiresAt = 5000, ses_createdAt = 0\<rparr>]\<rparr>"

lemma lockout_spec_witness:
  "customerFromToken (Some ''t'') demo_session \<noteq> None \<and>
   (\<exists>d w'. setCustomerStatus (demo_admin 3 ADMIN 0) 7 CU_BLOCKED demo_session = (Inr d, w') \<and> customer_sessions w' = [])"
proof -
  have "customerFromToken (Some ''t'') demo_session \<noteq> None" by code_simp
  moreover have "(case fst (setCustomerStatus (demo_admin 3 ADMIN 0) 7 CU_BLOCKED demo_session) of Inl _ \<Rightarrow> False | Inr _ \<Rightarrow> True)"
    by code_simp
  then obtain d w' where run: "setCustomerStatus (demo_admin 3 ADMIN 0) 7 CU_BLOCKED demo_session = (Inr d, w')"
    by (cases "setCustomerStatus (demo_admin 3 ADMIN 0) 7 CU_BLOCKED demo_session") (auto split: sum.splits)
  moreover have "customer_sessions w' = []"
    using lockout_spec [OF disjI1 [OF run]] by (simp add: demo_session_def)
  ultimately show ?thesis by blast
qed

section \<open>Logging in and out\<close>

definition new_session :: "world \<Rightarrow> uid \<Rightarrow> string option \<Rightarrow> customer_session" where
  "new_session w customerId ip = \<lparr>ses_id = Suc (next_id w), ses_customerId = customerId,
     ses_tokenHash = ext_sha256 (svcs w) (ext_random_token (svcs w) (next_id w) 32), ses_ip = ip,
     ses_expiresAt = daysFromNow (clock w) (of_int CUSTOMER_SESSION_DAYS), ses_createdAt = clock w\<rparr>"

lemma startCustomerSession_eq:
  "startCustomerSession i ip w = (Inr (ext_random_token (svcs w) (next_id w) 32),
     w\<lparr>next_id := Suc (Suc (next_id w)), customer_sessions := customer_sessions w @ [new_session w i ip]\<rparr>)"
  by (simp add: startCustomerSession_def randomToken_def new_id_def now_def bnd_def andthen_def new_session_def)

lemma session_resolves:
  assumes "ses_tokenHash s = ext_sha256 (svcs w) t" and "t \<noteq> []" and "customer_sessions w = old @ [s]"
    and "ses_tokenHash s \<notin> ses_tokenHash ` set old" and "clock w \<le> ses_expiresAt s"
    and "find_customer (ses_customerId s) w = Some c" and "cus_status c = CU_ACTIVE"
  shows "customerFromToken (Some t) w = Some c"
proof -
  have "find_row ses_tokenHash (ses_tokenHash s) old = None" using assms(4) by (simp add: find_row_None)
  then have "find_row ses_tokenHash (ext_sha256 (svcs w) t) (customer_sessions w) = Some s"
    using assms(1) by (simp add: assms(3) find_row_append)
  then show ?thesis using assms(2,5,6,7) by (simp add: customerFromToken_def)
qed

lemma logout_ends: "customerFromToken (Some t) (snd (logoutCustomer t w)) = None"
  by (simp add: customerFromToken_def logoutCustomer_def find_row_del)

lemma customer_by_in:
  assumes "customer_by f a v w = Some c" shows "c \<in> set (customers w) \<and> cus_adminId c = a \<and> f c = Some v"
  using assms unfolding customer_by_def by (auto simp: find_Some_iff)

lemma login_lookup_in:
  assumes "login_lookup a email phone w = Some c" shows "c \<in> set (customers w) \<and> cus_adminId c = a"
  using assms unfolding login_lookup_def by (auto split: option.splits dest: customer_by_in)

lemma login_run:
  assumes "loginCustomer s ident pw ip w = (Inr (token, c), w')"
  obtains "sto_accountsEnabled s" "c \<in> set (customers w)" "cus_adminId c = sto_adminId s" "cus_status c = CU_ACTIVE"
    "ext_verify_password (svcs w) pw (cus_passwordHash c)" "token = ext_random_token (svcs w) (next_id w) 32"
    "events_only (w\<lparr>next_id := Suc (Suc (next_id w)), customer_sessions := customer_sessions w @ [new_session w (cus_id c) ip],
       customers := upd_rows (\<lambda>r. cus_id r = cus_id c) (\<lambda>r. r\<lparr>cus_lastLoginAt := Some (clock w), cus_lastLoginIp := ip\<rparr>) (customers w)\<rparr>) w'"
proof -
  obtain email phone where look: "login_lookup (sto_adminId s) email phone w = Some c" and acc: "sto_accountsEnabled s"
    and ok: "ext_verify_password (svcs w) pw (cus_passwordHash c)" "cus_status c = CU_ACTIVE"
    "token = ext_random_token (svcs w) (next_id w) 32"
    and au: "audit (Some (sto_adminId s)) ''customer.login'' (JId (cus_id c)) [] ip
      (w\<lparr>next_id := Suc (Suc (next_id w)), customer_sessions := customer_sessions w @ [new_session w (cus_id c) ip],
       customers := upd_rows (\<lambda>r. cus_id r = cus_id c) (\<lambda>r. r\<lparr>cus_lastLoginAt := Some (clock w), cus_lastLoginIp := ip\<rparr>) (customers w)\<rparr>) = (Inr (), w')"
    using assms unfolding loginCustomer_def Let_def inr_iffs now_def
    by (auto simp: inr_iffs startCustomerSession_eq split: option.splits if_splits)
  show thesis
    using that login_lookup_in [OF look] acc ok quiet_snd [OF quiet_audit] au by (metis snd_conv)
qed

text \<open>
  Logging in opens a session that logging out closes (round trip). A successful login is for a
  customer of this seller who is active and gave the right password; the token it returns then
  resolves to that customer, and after \<open>logoutCustomer\<close> with it the token resolves to nobody.
\<close>
theorem login_session:
  assumes "loginCustomer s ident pw ip w = (Inr (token, c), w')" and "token \<noteq> []"
    and "ext_sha256 (svcs w) token \<notin> ses_tokenHash ` set (customer_sessions w)" and "distinct (map cus_id (customers w))"
  shows "c \<in> set (customers w) \<and> cus_adminId c = sto_adminId s \<and> cus_status c = CU_ACTIVE \<and>
    ext_verify_password (svcs w) pw (cus_passwordHash c) \<and>
    map_option cus_id (customerFromToken (Some token) w') = Some (cus_id c) \<and>
    customerFromToken (Some token) (snd (logoutCustomer token w')) = None"
  using assms(1)
proof (cases rule: login_run)
  case 1
  note ev = 1(7)
  let ?c = "c\<lparr>cus_lastLoginAt := Some (clock w), cus_lastLoginIp := ip\<rparr>"
  have "find_row cus_id (cus_id c) (customers w) = Some c" using find_row_distinct [OF assms(4) 1(2)] .
  then have c: "find_customer (cus_id c) w' = Some ?c"
    by (simp add: find_customer_def eo_customers [OF ev] find_row_upd)
  have "clock w \<le> daysFromNow (clock w) (of_int CUSTOMER_SESSION_DAYS)"
    by (simp add: daysFromNow_def CUSTOMER_SESSION_DAYS_def DAY_MS_def)
  then have "customerFromToken (Some token) w' = Some ?c"
    using c assms(2,3) 1(4,6)
    by (intro session_resolves [where s = "new_session w (cus_id c) ip" and old = "customer_sessions w"])
      (simp_all add: new_session_def eo_customer_sessions [OF ev] eo_svcs [OF ev] eo_clock [OF ev])
  then show ?thesis using 1 logout_ends by simp
qed

definition demo_store :: store_settings where
  "demo_store = \<lparr>sto_id = 30, sto_adminId = 3, sto_enabled = True, sto_slug = ''shop'', sto_usdtEnabled = True,
     sto_usdtAddress = Some ''Taddr'', sto_usdtNetwork = ''TRC20'', sto_usdtRate = 60000, sto_usdtAutoVerify = True,
     sto_cardEnabled = True, sto_cardNumber = Some ''6037'', sto_cardHolder = None, sto_cardBank = None, sto_zarinpalEnabled = True,
     sto_zarinpalMerchant = Some ''m'', sto_zarinpalSandbox = False, sto_requireTelegram = False, sto_requirePhone = False,
     sto_paymentTtlMin = 60, sto_accountsEnabled = True, sto_guestCheckout = True, sto_walletEnabled = True, sto_minTopup = 0,
     sto_topupBonusPct = 10, sto_requireEmail = False\<rparr>"

lemma login_session_witness:
  "\<exists>c w'. loginCustomer demo_store '' A@b.co '' ''secret'' None demo_topup = (Inr (''tok'', c), w') \<and>
     map_option cus_id (customerFromToken (Some ''tok'') w') = Some 7"
proof -
  let ?m = "loginCustomer demo_store '' A@b.co '' ''secret'' None demo_topup"
  have "(case fst ?m of Inl _ \<Rightarrow> False | Inr r \<Rightarrow> fst r = ''tok'' \<and> cus_id (snd r) = 7)" by code_simp
  then obtain c w' where run: "?m = (Inr (''tok'', c), w')" and c: "cus_id c = 7"
    by (cases ?m) (auto split: sum.splits)
  have "ext_sha256 (svcs demo_topup) ''tok'' \<notin> ses_tokenHash ` set (customer_sessions demo_topup)"
    and "distinct (map cus_id (customers demo_topup))"
    by (simp_all add: demo_topup_def)
  then show ?thesis using login_session [OF run] run c by simp
qed

end
