(* ===== verification/Fx.thy ===== *)
theory Fx
  imports Wallet
begin

text \<open>
  Currency rates: \<open>packages/core/src/services/fx.ts\<close>. The first part reads the JSON answers of the
  price sources, the second part turns them into the rate that a storefront quotes. A number that
  JavaScript would represent as \<open>NaN\<close> is \<open>None\<close>.
\<close>

section \<open>Reading JSON\<close>

text \<open>\<open>Number(text)\<close> on a text of digits, dots and minus signs.\<close>

definition digit_value :: "char \<Rightarrow> int" where
  "digit_value c = int (length (takeWhile (\<lambda>d. d \<noteq> c) ''0123456789''))"

definition digits_value :: "string \<Rightarrow> int" where
  "digits_value s = foldl (\<lambda>n c. 10 * n + digit_value c) 0 s"

definition unsigned_number :: "string \<Rightarrow> rat option" where
  "unsigned_number s =
    (let a = takeWhile is_digit s; r = dropWhile is_digit s in
     case r of
       [] \<Rightarrow> if a = [] then None else Some (of_int (digits_value a))
     | c # b \<Rightarrow> if c = CHR ''.'' \<and> list_all is_digit b \<and> (a \<noteq> [] \<or> b \<noteq> [])
         then Some (of_int (digits_value (a @ b)) / 10 ^ length b) else None)"

definition js_number :: "string \<Rightarrow> rat option" where
  "js_number s = (case s of [] \<Rightarrow> Some 0
     | c # t \<Rightarrow> if c = CHR ''-'' then map_option uminus (unsigned_number t) else unsigned_number s)"

definition toNumber :: "jval option \<Rightarrow> rat option" where
  "toNumber v = (case v of
     Some (VNum n) \<Rightarrow> Some n
   | Some (VStr s) \<Rightarrow> js_number (filter (\<lambda>c. is_digit c \<or> c = CHR ''.'' \<or> c = CHR ''-'') s)
   | _ \<Rightarrow> None)"

text \<open>\<open>v[k]\<close> for an object or an array; anything else has no properties.\<close>
definition jfield :: "string \<Rightarrow> jval option \<Rightarrow> jval option" where
  "jfield k v = (case v of
     Some (VObj fs) \<Rightarrow> map_of fs k
   | Some (VArr xs) \<Rightarrow> if k = ''length'' then Some (VNum (of_nat (length xs)))
       else map_of (zip (map show_nat [0..<length xs]) xs) k
   | _ \<Rightarrow> None)"

definition path_keys :: "string \<Rightarrow> string list" where
  "path_keys p = filter (\<lambda>k. k \<noteq> []) (split_on (CHR ''.'') (map (\<lambda>c. if c = CHR ''['' \<or> c = CHR '']'' then CHR ''.'' else c) p))"

definition pickPath :: "jval option \<Rightarrow> string \<Rightarrow> jval option" where
  "pickPath v p = foldl (\<lambda>acc k. jfield k acc) v (path_keys p)"

text \<open>\<open>a ?? b\<close>.\<close>
definition nullish :: "jval option \<Rightarrow> jval option \<Rightarrow> jval option" where
  "nullish a b = (case a of None \<Rightarrow> b | Some VNull \<Rightarrow> b | Some v \<Rightarrow> Some v)"

definition MIN_PLAUSIBLE :: rat where
  "MIN_PLAUSIBLE = 5000"

definition MAX_PLAUSIBLE :: rat where
  "MAX_PLAUSIBLE = 20000000"

fun first_some :: "('a \<Rightarrow> 'b option) \<Rightarrow> 'a list \<Rightarrow> 'b option" where
  "first_some f [] = None"
| "first_some f (x # xs) = (case f x of Some y \<Rightarrow> Some y | None \<Rightarrow> first_some f xs)"

text \<open>The first argument counts the levels left: \<open>deepFindRate(v)\<close> starts with six, depths 0 to 5.\<close>
primrec deepFindRate :: "nat \<Rightarrow> jval option \<Rightarrow> rat option" where
  "deepFindRate 0 v = None"
| "deepFindRate (Suc n) v =
    (let nested = (case v of
          Some (VArr xs) \<Rightarrow> first_some (\<lambda>x. deepFindRate n (Some x)) xs
        | Some (VObj fs) \<Rightarrow>
            (case first_some (\<lambda>k. deepFindRate n (map_of fs k))
                [''price'', ''last'', ''latest'', ''sell'', ''buy'', ''value'', ''rate'', ''lastPrice'', ''close''] of
               Some x \<Rightarrow> Some x
             | None \<Rightarrow> first_some (\<lambda>f. deepFindRate n (Some (snd f))) fs)
        | _ \<Rightarrow> None)
     in case toNumber v of
          Some x \<Rightarrow> if MIN_PLAUSIBLE \<le> x \<and> x \<le> MAX_PLAUSIBLE * 10 then Some x else nested
        | None \<Rightarrow> nested)"

section \<open>Price sources\<close>

definition getJson :: "services \<Rightarrow> time \<Rightarrow> string \<Rightarrow> string + jval" where
  "getJson x tm url = (case ext_http_get x tm url of
     HttpFail e \<Rightarrow> Inl e
   | HttpReply st b \<Rightarrow> if st < 200 \<or> 299 < st then Inl (''HTTP '' @ show_int st) else b)"

text \<open>A step that may throw, followed by the next one.\<close>
definition and_then :: "string + 'a \<Rightarrow> ('a \<Rightarrow> string + 'b) \<Rightarrow> string + 'b" where
  "and_then r f = (case r of Inl e \<Rightarrow> Inl e | Inr x \<Rightarrow> f x)"

definition number_or :: "string \<Rightarrow> jval option \<Rightarrow> string + rat" where
  "number_or msg v = (case toNumber v of None \<Rightarrow> Inl msg | Some n \<Rightarrow> Inr n)"

definition fetch_nobitex :: "services \<Rightarrow> time \<Rightarrow> string + rat" where
  "fetch_nobitex x tm =
    and_then (getJson x tm ''https://api.nobitex.ir/market/stats?srcCurrency=usdt&dstCurrency=rls'') (\<lambda>j.
    and_then (number_or ''bad answer of Nobitex''
      (nullish (pickPath (Some j) ''stats.usdt-rls.latest'') (pickPath (Some j) ''stats.usdt-rls.bestSell''))) (\<lambda>rls.
    Inr (rls / 10)))"

definition fetch_wallex :: "services \<Rightarrow> time \<Rightarrow> string + rat" where
  "fetch_wallex x tm =
    and_then (getJson x tm ''https://api.wallex.ir/v1/markets'') (\<lambda>j.
    number_or ''bad answer of Wallex''
      (nullish (pickPath (Some j) ''result.symbols.USDTTMN.stats.lastPrice'') (pickPath (Some j) ''result.symbols.USDTTMN.stats.bidPrice'')))"

text \<open>The list of markets: the answer itself, or one of its properties; \<open>find\<close> fails on a null row.\<close>
definition market_rows :: "string \<Rightarrow> jval \<Rightarrow> string + jval list" where
  "market_rows k j = (case j of
     VArr rows \<Rightarrow> Inr rows
   | _ \<Rightarrow> (case nullish (jfield k (Some j)) None of
       None \<Rightarrow> Inr []
     | Some (VArr rows) \<Rightarrow> Inr rows
     | Some v \<Rightarrow> Inl ''rows.find is not a function''))"

fun find_market :: "(jval \<Rightarrow> bool) \<Rightarrow> jval list \<Rightarrow> string + jval option" where
  "find_market P [] = Inr None"
| "find_market P (r # rows) =
    (if r = VNull then Inl ''cannot read properties of null'' else if P r then Inr (Some r) else find_market P rows)"

text \<open>A property that is a text; the market codes the sources send are texts.\<close>
definition text_field :: "string \<Rightarrow> jval \<Rightarrow> string" where
  "text_field k r = (case jfield k (Some r) of Some (VStr s) \<Rightarrow> s | _ \<Rightarrow> [])"

definition fetch_bitpin :: "services \<Rightarrow> time \<Rightarrow> string + rat" where
  "fetch_bitpin x tm =
    and_then (case getJson x tm ''https://api.bitpin.ir/v1/mkt/markets/'' of
        Inr j \<Rightarrow> Inr j | Inl _ \<Rightarrow> getJson x tm ''https://api.bitpin.org/v1/mkt/markets/'') (\<lambda>j.
    and_then (market_rows ''results'' j) (\<lambda>rows.
    and_then (find_market (\<lambda>r. to_upper (text_field ''code'' r) = ''USDT_IRT'') rows) (\<lambda>row.
    case row of
      None \<Rightarrow> Inl ''market USDT_IRT not found at Bitpin''
    | Some r \<Rightarrow> number_or ''bad answer of Bitpin''
        (nullish (jfield ''price'' (Some r)) (nullish (jfield ''last'' (Some r)) (jfield ''price_info'' (Some r)))))))"

definition fetch_tetherland :: "services \<Rightarrow> time \<Rightarrow> string + rat" where
  "fetch_tetherland x tm =
    and_then (getJson x tm ''https://api.tetherland.com/currencies'') (\<lambda>j.
    number_or ''bad answer of Tetherland'' (pickPath (Some j) ''data.currencies.USDT.price''))"

text \<open>
  Every name and text of a value: \<open>JSON.stringify(v).includes(w)\<close> for a word of letters holds when
  one of them has the word.
\<close>
primrec json_texts :: "jval \<Rightarrow> string list" where
  "json_texts VNull = []"
| "json_texts (VBool b) = []"
| "json_texts (VNum n) = []"
| "json_texts (VStr s) = [s]"
| "json_texts (VArr xs) = concat (map json_texts xs)"
| "json_texts (VObj fs) = concat (map (\<lambda>f. fst f # snd f) (map (map_prod id json_texts) fs))"

definition symbol_has :: "string list \<Rightarrow> string \<Rightarrow> jval \<Rightarrow> bool" where
  "symbol_has ws k r = (case jfield k (Some r) of
     None \<Rightarrow> False
   | Some v \<Rightarrow> list_ex (\<lambda>t. list_ex (\<lambda>u. contains u (to_lower t)) ws) (json_texts v))"

text \<open>The word for the rial as the code spells it, in UTF-8.\<close>
definition RIAL_FA :: string where
  "RIAL_FA = [CHR 0xD8, CHR 0xB1, CHR 0xDB, CHR 0x8C, CHR 0xD8, CHR 0xA7, CHR 0xD9, CHR 0x84]"

definition fetch_ramzinex :: "services \<Rightarrow> time \<Rightarrow> string + rat" where
  "fetch_ramzinex x tm =
    and_then (getJson x tm ''https://publicapi.ramzinex.com/exchange/api/v1.0/exchange/pairs'') (\<lambda>j.
    and_then (market_rows ''data'' j) (\<lambda>rows.
    and_then (find_market (\<lambda>r. symbol_has [''usdt''] ''base_currency_symbol'' r \<and> symbol_has [''irr'', ''rial'', RIAL_FA] ''quote_currency_symbol'' r) rows)
      (\<lambda>row. case row of
        None \<Rightarrow> Inl ''pair USDT/IRR not found at Ramzinex''
      | Some r \<Rightarrow> and_then (number_or ''bad answer of Ramzinex''
          (nullish (jfield ''sell'' (Some r)) (nullish (jfield ''buy'' (Some r)) (jfield ''last'' (Some r))))) (\<lambda>rls.
          Inr (rls / 10)))))"

definition is_http_url :: "string \<Rightarrow> bool" where
  "is_http_url s \<longleftrightarrow> to_lower (take 7 s) = ''http://'' \<or> to_lower (take 8 s) = ''https://''"

definition fetch_custom :: "services \<Rightarrow> time \<Rightarrow> fx_settings \<Rightarrow> string + rat" where
  "fetch_custom x tm s =
    (if fx_customUrl s = [] then Inl ''no custom API address''
     else if \<not> is_http_url (fx_customUrl s) then Inl ''the custom API address must start with http(s)''
     else and_then (getJson x tm (fx_customUrl s)) (\<lambda>j.
       case (if fx_customPath s \<noteq> [] then toNumber (pickPath (Some j) (fx_customPath s)) else deepFindRate 6 (Some j)) of
         None \<Rightarrow> Inl ''no rate in the answer of the custom API''
       | Some raw \<Rightarrow> Inr (if fx_customIrr s then raw / 10 else raw)))"

text \<open>The table \<open>PROVIDERS\<close>.\<close>
definition fetchRate :: "services \<Rightarrow> time \<Rightarrow> fx_settings \<Rightarrow> fx_source \<Rightarrow> string + rat" where
  "fetchRate x tm s i = (case i of
     NOBITEX \<Rightarrow> fetch_nobitex x tm
   | WALLEX \<Rightarrow> fetch_wallex x tm
   | BITPIN \<Rightarrow> fetch_bitpin x tm
   | TETHERLAND \<Rightarrow> fetch_tetherland x tm
   | RAMZINEX \<Rightarrow> fetch_ramzinex x tm
   | CUSTOM \<Rightarrow> fetch_custom x tm s)"

section \<open>The rate\<close>

definition source_name :: "fx_source \<Rightarrow> string" where
  "source_name i = (case i of NOBITEX \<Rightarrow> ''NOBITEX'' | WALLEX \<Rightarrow> ''WALLEX'' | BITPIN \<Rightarrow> ''BITPIN''
     | TETHERLAND \<Rightarrow> ''TETHERLAND'' | RAMZINEX \<Rightarrow> ''RAMZINEX'' | CUSTOM \<Rightarrow> ''CUSTOM'')"

definition fx_defaults :: fx_settings where
  "fx_defaults = \<lparr>fx_auto = False, fx_sources = [NOBITEX, WALLEX, BITPIN], fx_marginPct = 2, fx_roundTo = 500, fx_ttlMin = 10,
     fx_minRate = 0, fx_maxRate = 0, fx_customUrl = [], fx_customPath = [], fx_customIrr = False, fx_cacheRate = 0,
     fx_cacheAt = None, fx_cacheSource = [], fx_lastError = []\<rparr>"

text \<open>What \<open>fxSettingsSchema\<close> accepts.\<close>
definition fx_valid :: "fx_settings \<Rightarrow> bool" where
  "fx_valid s \<longleftrightarrow> length (fx_sources s) \<le> 12 \<and> - 50 \<le> fx_marginPct s \<and> fx_marginPct s \<le> 200 \<and>
     0 \<le> fx_roundTo s \<and> fx_roundTo s \<le> 1000000 \<and> 1 \<le> fx_ttlMin s \<and> fx_ttlMin s \<le> 1440 \<and>
     0 \<le> fx_minRate s \<and> fx_minRate s \<le> 100000000 \<and> 0 \<le> fx_maxRate s \<and> fx_maxRate s \<le> 100000000 \<and>
     length (fx_customUrl s) \<le> 500 \<and> length (fx_customPath s) \<le> 200 \<and> 0 \<le> fx_cacheRate s \<and>
     length (fx_cacheSource s) \<le> 40 \<and> length (fx_lastError s) \<le> 400"

definition fxSettings :: "uid \<Rightarrow> world \<Rightarrow> fx_settings" where
  "fxSettings adminId w = opt_default (map_of (fx_cfg w) adminId) fx_defaults"

definition saveFxSettings :: "uid \<Rightarrow> (fx_settings \<Rightarrow> fx_settings) \<Rightarrow> (world, fx_settings) op" where
  "saveFxSettings adminId patch =
    bnd (gets (fxSettings adminId)) (\<lambda>current.
    andthen (throw_if (\<not> fx_valid (patch current)) (PlainError ''ZodError''))
    (andthen (modify (\<lambda>w. w\<lparr>fx_cfg := put_row adminId (patch current) (fx_cfg w)\<rparr>))
    (ret (patch current))))"

definition applyMargin :: "rat \<Rightarrow> fx_settings \<Rightarrow> int" where
  "applyMargin raw s =
    (let v = raw * (1 + fx_marginPct s / 100);
         v1 = (if 0 < fx_roundTo s then of_int (js_round (v / of_int (fx_roundTo s)) * fx_roundTo s) else v);
         v2 = max 0 (js_round v1);
         v3 = (if 0 < fx_minRate s then max v2 (fx_minRate s) else v2)
     in if 0 < fx_maxRate s then min v3 (fx_maxRate s) else v3)"

record fx_attempt =
  fa_source :: fx_source
  fa_rate :: "int option"
  fa_error :: "string option"

record fx_result =
  fr_rate :: int
  fr_source :: string
  fr_at :: time
  fr_attempts :: "fx_attempt list"

definition plausible :: "rat \<Rightarrow> bool" where
  "plausible raw \<longleftrightarrow> MIN_PLAUSIBLE \<le> raw \<and> raw \<le> MAX_PLAUSIBLE"

definition try_source :: "services \<Rightarrow> time \<Rightarrow> fx_settings \<Rightarrow> fx_source \<Rightarrow> string + int" where
  "try_source x tm s i = and_then (fetchRate x tm s i) (\<lambda>raw.
     if \<not> plausible raw then Inl (''unexpected rate: '' @ show_int (js_round raw)) else Inr (applyMargin raw s))"

text \<open>The loop over the sources; \<open>done\<close> are the attempts so far.\<close>
fun walk_sources :: "services \<Rightarrow> time \<Rightarrow> fx_settings \<Rightarrow> fx_attempt list \<Rightarrow> fx_source list \<Rightarrow> fx_result" where
  "walk_sources x tm s tried [] = \<lparr>fr_rate = 0, fr_source = [], fr_at = tm, fr_attempts = tried\<rparr>"
| "walk_sources x tm s tried (i # is) = (case try_source x tm s i of
     Inr rate \<Rightarrow> \<lparr>fr_rate = rate, fr_source = source_name i, fr_at = tm,
       fr_attempts = tried @ [\<lparr>fa_source = i, fa_rate = Some rate, fa_error = None\<rparr>]\<rparr>
   | Inl e \<Rightarrow> walk_sources x tm s (tried @ [\<lparr>fa_source = i, fa_rate = None, fa_error = Some e\<rparr>]) is)"

definition fetchUsdtRate :: "services \<Rightarrow> time \<Rightarrow> fx_settings \<Rightarrow> fx_result" where
  "fetchUsdtRate x tm s = walk_sources x tm s [] (if fx_sources s \<noteq> [] then fx_sources s else [NOBITEX, WALLEX])"

definition isFxFresh :: "time \<Rightarrow> fx_settings \<Rightarrow> bool" where
  "isFxFresh tm s \<longleftrightarrow> fx_cacheRate s \<noteq> 0 \<and> (case fx_cacheAt s of None \<Rightarrow> False | Some t \<Rightarrow> tm - t < fx_ttlMin s * 60000)"

record fx_status =
  fs_rate :: int
  fs_source :: string
  fs_at :: "time option"
  fs_attempts :: "fx_attempt list"
  fs_auto :: bool
  fs_stale :: bool
  fs_error :: "string option"

definition cached_status :: "time \<Rightarrow> fx_settings \<Rightarrow> fx_status" where
  "cached_status tm s = \<lparr>fs_rate = fx_cacheRate s, fs_source = fx_cacheSource s, fs_at = fx_cacheAt s, fs_attempts = [],
     fs_auto = fx_auto s, fs_stale = (\<not> isFxFresh tm s), fs_error = nonempty (fx_lastError s)\<rparr>"

definition attempts_error :: "fx_attempt list \<Rightarrow> string" where
  "attempts_error xs = take 400 (join_with '' * '' (map (\<lambda>a. source_name (fa_source a) @ '': '' @ opt_default (fa_error a) ''-'') xs))"

definition set_usdt_rate :: "uid \<Rightarrow> int \<Rightarrow> world \<Rightarrow> world" where
  "set_usdt_rate adminId rate w = w\<lparr>stores := upd_rows (\<lambda>s. sto_adminId s = adminId) (\<lambda>s. s\<lparr>sto_usdtRate := rate\<rparr>) (stores w)\<rparr>"

definition refreshUsdtRate :: "uid \<Rightarrow> bool \<Rightarrow> (world, fx_status) op" where
  "refreshUsdtRate adminId force =
    bnd (gets (\<lambda>w. (fxSettings adminId w, clock w, svcs w))) (\<lambda>(s, tm, x).
      let cached = cached_status tm s; r = fetchUsdtRate x tm s in
      if \<not> fx_auto s \<and> \<not> force then ret cached
      else if \<not> force \<and> isFxFresh tm s then ret (cached\<lparr>fs_stale := False\<rparr>)
      else if fr_rate r = 0 then
        andthen (saveFxSettings adminId (\<lambda>c. c\<lparr>fx_lastError := attempts_error (fr_attempts r)\<rparr>))
        (ret (cached\<lparr>fs_attempts := fr_attempts r, fs_stale := True, fs_error := Some (attempts_error (fr_attempts r))\<rparr>))
      else
        andthen (saveFxSettings adminId (\<lambda>c. c\<lparr>fx_cacheRate := fr_rate r, fx_cacheAt := Some (fr_at r),
          fx_cacheSource := fr_source r, fx_lastError := []\<rparr>))
        (andthen (modify (set_usdt_rate adminId (fr_rate r)))
        (ret \<lparr>fs_rate = fr_rate r, fs_source = fr_source r, fs_at = Some (fr_at r), fs_attempts = fr_attempts r,
           fs_auto = fx_auto s, fs_stale = False, fs_error = None\<rparr>)))"

record quoted_rate =
  qr_rate :: int
  qr_source :: string
  qr_at :: "time option"
  qr_auto :: bool
  qr_stale :: bool

text \<open>\<open>a || b || c\<close> on texts.\<close>
definition first_text :: "string \<Rightarrow> string \<Rightarrow> string" where
  "first_text a b = (if a \<noteq> [] then a else b)"

definition effectiveUsdtRate :: "uid \<Rightarrow> int \<Rightarrow> (world, quoted_rate) op" where
  "effectiveUsdtRate adminId manualRate =
    bnd (gets (\<lambda>w. (fxSettings adminId w, clock w))) (\<lambda>(s, tm).
      if \<not> fx_auto s then ret \<lparr>qr_rate = manualRate, qr_source = ''MANUAL'', qr_at = None, qr_auto = False, qr_stale = False\<rparr>
      else if isFxFresh tm s then ret \<lparr>qr_rate = fx_cacheRate s, qr_source = first_text (fx_cacheSource s) ''AUTO'',
        qr_at = fx_cacheAt s, qr_auto = True, qr_stale = False\<rparr>
      else bnd (catch_op (bnd (refreshUsdtRate adminId False) (\<lambda>r. ret (Some r))) (\<lambda>_. ret None)) (\<lambda>r.
        let fallback = \<lparr>qr_rate = (if 0 < fx_cacheRate s then fx_cacheRate s else manualRate),
              qr_source = first_text (fx_cacheSource s) ''MANUAL'', qr_at = fx_cacheAt s, qr_auto = True, qr_stale = True\<rparr>
        in case r of
          None \<Rightarrow> ret fallback
        | Some st \<Rightarrow> if 0 < fs_rate st
            then ret \<lparr>qr_rate = fs_rate st, qr_source = first_text (fs_source st) (first_text (fx_cacheSource s) ''AUTO''),
              qr_at = fs_at st, qr_auto = True, qr_stale = fs_stale st\<rparr>
            else ret fallback))"

text \<open>The job of the worker: how many sellers got a new rate.\<close>
definition autoRefreshRates :: "(world, nat) op" where
  "autoRefreshRates =
    bnd (gets fx_cfg) (\<lambda>rows. fold_op (\<lambda>(adminId, s) updated.
      bnd now (\<lambda>tm.
      if \<not> fx_auto s \<or> isFxFresh tm s then ret updated
      else bnd (catch_op (bnd (refreshUsdtRate adminId False) (\<lambda>r. ret (Some r))) (\<lambda>_. ret None)) (\<lambda>r.
        ret (case r of Some st \<Rightarrow> if 0 < fs_rate st \<and> \<not> fs_stale st then Suc updated else updated | None \<Rightarrow> updated)))) rows 0)"

section \<open>How the rate is found\<close>

text \<open>A source answers when it gives a plausible number.\<close>
definition answers :: "services \<Rightarrow> time \<Rightarrow> fx_settings \<Rightarrow> fx_source \<Rightarrow> bool" where
  "answers x tm s i \<longleftrightarrow> (case fetchRate x tm s i of Inl _ \<Rightarrow> False | Inr raw \<Rightarrow> plausible raw)"

lemma try_source_answers:
  "(\<exists>rate. try_source x tm s i = Inr rate) \<longleftrightarrow> answers x tm s i"
  "try_source x tm s i = Inr rate \<Longrightarrow> \<exists>raw. fetchRate x tm s i = Inr raw \<and> plausible raw \<and> rate = applyMargin raw s"
  by (auto simp: try_source_def and_then_def answers_def split: sum.splits if_splits)

lemma walk_sources_none:
  assumes "\<forall>i \<in> set is. \<not> answers x tm s i"
  shows "fr_rate (walk_sources x tm s tried is) = 0 \<and>
    map fa_source (fr_attempts (walk_sources x tm s tried is)) = map fa_source tried @ is"
  using assms
proof (induction "is" arbitrary: tried)
  case Nil
  then show ?case by simp
next
  case (Cons i "is")
  then obtain e where "try_source x tm s i = Inl e" using try_source_answers(1) by (metis list.set_intros(1) sum.exhaust)
  then show ?case using Cons by simp
qed

lemma walk_sources_first:
  assumes "\<forall>j \<in> set pre. \<not> answers x tm s j" and "try_source x tm s i = Inr rate"
  shows "fr_rate (walk_sources x tm s tried (pre @ i # post)) = rate \<and>
    fr_source (walk_sources x tm s tried (pre @ i # post)) = source_name i \<and>
    map fa_source (fr_attempts (walk_sources x tm s tried (pre @ i # post))) = map fa_source tried @ pre @ [i]"
  using assms
proof (induction pre arbitrary: tried)
  case Nil
  then show ?case by simp
next
  case (Cons j pre)
  then obtain e where "try_source x tm s j = Inl e" using try_source_answers(1) by (metis list.set_intros(1) sum.exhaust)
  then show ?case using Cons by simp
qed

lemma applyMargin_bounds:
  assumes "fx_valid s"
  shows "0 \<le> applyMargin raw s \<and> (0 < fx_maxRate s \<longrightarrow> applyMargin raw s \<le> fx_maxRate s) \<and>
    (0 < fx_minRate s \<and> (fx_maxRate s = 0 \<or> fx_minRate s \<le> fx_maxRate s) \<longrightarrow> fx_minRate s \<le> applyMargin raw s)"
  using assms by (auto simp: applyMargin_def Let_def fx_valid_def)

text \<open>The sources in the order they are asked.\<close>
abbreviation fx_order :: "fx_settings \<Rightarrow> fx_source list" where
  "fx_order s \<equiv> (if fx_sources s \<noteq> [] then fx_sources s else [NOBITEX, WALLEX])"

section \<open>Properties\<close>

text \<open>
  The rate is that of the first source that answers (functional, both outcomes). With stored
  settings, \<open>fetchUsdtRate\<close> asks the sources in order up to the first one whose number is inside
  the plausible window and returns that number with the seller's margin, inside the seller's own
  limits; when no source answers, all were asked and the rate is zero.
\<close>
theorem fetch_first_plausible:
  assumes "fx_valid s" and "r = fetchUsdtRate x tm s"
  shows "(\<exists>pre i post raw. fx_order s = pre @ i # post \<and> (\<forall>j \<in> set pre. \<not> answers x tm s j) \<and>
       fetchRate x tm s i = Inr raw \<and> plausible raw \<and> fr_rate r = applyMargin raw s \<and> fr_source r = source_name i \<and>
       map fa_source (fr_attempts r) = pre @ [i] \<and> 0 \<le> fr_rate r \<and> (0 < fx_maxRate s \<longrightarrow> fr_rate r \<le> fx_maxRate s)) \<or>
    ((\<forall>i \<in> set (fx_order s). \<not> answers x tm s i) \<and> fr_rate r = 0 \<and> map fa_source (fr_attempts r) = fx_order s)"
proof (cases "\<exists>i \<in> set (fx_order s). answers x tm s i")
  case False
  then show ?thesis using walk_sources_none [of "fx_order s" x tm s "[]"] by (simp add: assms(2) fetchUsdtRate_def)
next
  case True
  then obtain pre i post where o: "fx_order s = pre @ i # post" and i: "answers x tm s i" and pre: "\<forall>j \<in> set pre. \<not> answers x tm s j"
    using split_list_first_prop [OF True] by blast
  from i obtain rate where t: "try_source x tm s i = Inr rate" using try_source_answers(1) by blast
  then obtain raw where raw: "fetchRate x tm s i = Inr raw" "plausible raw" "rate = applyMargin raw s"
    using try_source_answers(2) by blast
  have "fr_rate r = rate \<and> fr_source r = source_name i \<and> map fa_source (fr_attempts r) = pre @ [i]"
    using walk_sources_first [OF pre t, of "[]" post] by (simp only: assms(2) fetchUsdtRate_def o list.map append_Nil)
  moreover have "0 \<le> rate \<and> (0 < fx_maxRate s \<longrightarrow> rate \<le> fx_maxRate s)"
    using applyMargin_bounds [OF assms(1), of raw] raw(3) by simp
  ultimately have "fx_order s = pre @ i # post \<and> (\<forall>j \<in> set pre. \<not> answers x tm s j) \<and>
       fetchRate x tm s i = Inr raw \<and> plausible raw \<and> fr_rate r = applyMargin raw s \<and> fr_source r = source_name i \<and>
       map fa_source (fr_attempts r) = pre @ [i] \<and> 0 \<le> fr_rate r \<and> (0 < fx_maxRate s \<longrightarrow> fr_rate r \<le> fx_maxRate s)"
    by (intro conjI o pre raw(1,2)) (simp_all add: raw(3))
  then show ?thesis by blast
qed

text \<open>Wallex answers with 61000, Nobitex is down.\<close>
definition demo_fx :: services where
  "demo_fx = demo_services\<lparr>ext_http_get := (\<lambda>tm url. if url = ''https://api.wallex.ir/v1/markets''
     then HttpReply 200 (Inr (VObj [(''result'', VObj [(''symbols'', VObj [(''USDTTMN'', VObj [(''stats'',
       VObj [(''lastPrice'', VStr ''61,000'')])])])])])) else HttpFail ''timeout'')\<rparr>"

lemma fetch_first_plausible_witness:
  "fr_source (fetchUsdtRate demo_fx 1000 fx_defaults) = ''WALLEX'' \<and> 0 \<le> fr_rate (fetchUsdtRate demo_fx 1000 fx_defaults) \<and>
   fr_rate (fetchUsdtRate demo_fx 1000 fx_defaults) = 62000"
proof -
  have v: "fx_valid fx_defaults" by (simp add: fx_valid_def fx_defaults_def)
  have f: "fr_source (fetchUsdtRate demo_fx 1000 fx_defaults) = ''WALLEX''" "fr_rate (fetchUsdtRate demo_fx 1000 fx_defaults) = 62000"
    by code_simp+
  show ?thesis using fetch_first_plausible [OF v refl, of demo_fx 1000] f by auto
qed

lemma save_fx_eq:
  "saveFxSettings a patch w = (let c = patch (fxSettings a w) in
     if \<not> fx_valid c then (Inl (PlainError ''ZodError''), w) else (Inr c, w\<lparr>fx_cfg := put_row a c (fx_cfg w)\<rparr>))"
  by (simp add: saveFxSettings_def andthen_throw_if Let_def)

lemma fxSettings_put: "fxSettings a (w\<lparr>fx_cfg := put_row a c rows\<rparr>) = c"
  by (simp add: fxSettings_def map_of_put_row)

lemma fx_valid_error [simp]: "fx_valid (s\<lparr>fx_lastError := attempts_error xs\<rparr>) \<longleftrightarrow> fx_valid s" if "fx_valid s"
  using that by (simp add: fx_valid_def attempts_error_def)

lemma fetch_rate_nonneg:
  assumes "fx_valid s" shows "0 \<le> fr_rate (fetchUsdtRate x tm s) \<and> length (fr_source (fetchUsdtRate x tm s)) \<le> 40"
proof -
  have "0 \<le> fr_rate (walk_sources x tm s tried is) \<and> length (fr_source (walk_sources x tm s tried is)) \<le> 40" for tried "is"
  proof (induction "is" arbitrary: tried)
    case Nil
    then show ?case by simp
  next
    case (Cons i "is")
    have "length (source_name i) \<le> 40" by (cases i) (simp_all add: source_name_def)
    moreover have "0 \<le> rate" if "try_source x tm s i = Inr rate" for rate
      using try_source_answers(2) [OF that] applyMargin_bounds [OF assms] by blast
    ultimately show ?case using Cons by (auto split: sum.split)
  qed
  then show ?thesis by (simp add: fetchUsdtRate_def)
qed

text \<open>The two outcomes of asking the sources.\<close>
lemma refresh_cases:
  assumes "fx_valid (fxSettings a w)"
  obtains (cached) st where "refreshUsdtRate a force w = (Inr st, w)"
      "fs_rate st = fx_cacheRate (fxSettings a w)" "fs_stale st \<longrightarrow> \<not> fx_auto (fxSettings a w) \<and> \<not> force"
      "\<not> fs_stale st \<longrightarrow> isFxFresh (clock w) (fxSettings a w)"
  | (failed) st e where "refreshUsdtRate a force w =
        (Inr st, w\<lparr>fx_cfg := put_row a ((fxSettings a w)\<lparr>fx_lastError := e\<rparr>) (fx_cfg w)\<rparr>)"
      "fs_stale st" "fs_rate st = fx_cacheRate (fxSettings a w)" "fs_error st = Some e"
  | (fetched) st where "refreshUsdtRate a force w = (Inr st, set_usdt_rate a (fs_rate st)
        (w\<lparr>fx_cfg := put_row a ((fxSettings a w)\<lparr>fx_cacheRate := fs_rate st, fx_cacheAt := Some (clock w),
           fx_cacheSource := fs_source st, fx_lastError := []\<rparr>) (fx_cfg w)\<rparr>))"
      "0 < fs_rate st" "\<not> fs_stale st"
proof -
  define s where "s = fxSettings a w"
  define r where "r = fetchUsdtRate (svcs w) (clock w) s"
  have at: "fr_at (walk_sources x tm s tried is) = tm" for x tm s tried "is"
    by (induction "is" arbitrary: tried) (auto split: sum.split)
  have r: "fr_at r = clock w" "0 \<le> fr_rate r" "length (fr_source r) \<le> 40"
    using fetch_rate_nonneg [of s "svcs w" "clock w"] assms by (simp_all add: r_def s_def fetchUsdtRate_def at)
  have eq: "refreshUsdtRate a force w =
     (if \<not> fx_auto s \<and> \<not> force then (Inr (cached_status (clock w) s), w)
      else if \<not> force \<and> isFxFresh (clock w) s then (Inr ((cached_status (clock w) s)\<lparr>fs_stale := False\<rparr>), w)
      else if fr_rate r = 0 then
        andthen (saveFxSettings a (\<lambda>c. c\<lparr>fx_lastError := attempts_error (fr_attempts r)\<rparr>))
        (ret ((cached_status (clock w) s)\<lparr>fs_attempts := fr_attempts r, fs_stale := True, fs_error := Some (attempts_error (fr_attempts r))\<rparr>)) w
      else
        andthen (saveFxSettings a (\<lambda>c. c\<lparr>fx_cacheRate := fr_rate r, fx_cacheAt := Some (fr_at r),
          fx_cacheSource := fr_source r, fx_lastError := []\<rparr>))
        (andthen (modify (set_usdt_rate a (fr_rate r)))
        (ret \<lparr>fs_rate = fr_rate r, fs_source = fr_source r, fs_at = Some (fr_at r), fs_attempts = fr_attempts r,
           fs_auto = fx_auto s, fs_stale = False, fs_error = None\<rparr>)) w)"
    by (simp add: refreshUsdtRate_def Let_def s_def r_def)
  show thesis
  proof (cases "\<not> force \<and> (\<not> fx_auto s \<or> isFxFresh (clock w) s)")
    case True
    have run: "refreshUsdtRate a force w = (Inr (if \<not> fx_auto s then cached_status (clock w) s else (cached_status (clock w) s)\<lparr>fs_stale := False\<rparr>), w)"
      unfolding eq using True by simp
    show thesis
      by (rule cached [OF run]) (use True in \<open>auto simp: cached_status_def s_def [symmetric]\<close>)
  next
    case False
    then have ne: "\<not> (\<not> fx_auto s \<and> \<not> force)" "\<not> (\<not> force \<and> isFxFresh (clock w) s)" by auto
    note eq2 = eq [unfolded if_not_P [OF ne(1)] if_not_P [OF ne(2)]]
    show thesis
    proof (cases "fr_rate r = 0")
      case True
      have save: "saveFxSettings a (\<lambda>c. c\<lparr>fx_lastError := attempts_error (fr_attempts r)\<rparr>) w =
          (Inr (s\<lparr>fx_lastError := attempts_error (fr_attempts r)\<rparr>), w\<lparr>fx_cfg := put_row a (s\<lparr>fx_lastError := attempts_error (fr_attempts r)\<rparr>) (fx_cfg w)\<rparr>)"
        using assms by (simp add: save_fx_eq Let_def s_def)
      have run: "refreshUsdtRate a force w = (Inr ((cached_status (clock w) s)\<lparr>fs_attempts := fr_attempts r, fs_stale := True,
            fs_error := Some (attempts_error (fr_attempts r))\<rparr>),
          w\<lparr>fx_cfg := put_row a ((fxSettings a w)\<lparr>fx_lastError := attempts_error (fr_attempts r)\<rparr>) (fx_cfg w)\<rparr>)"
        by (simp add: eq2 True andthen_def bnd_def save s_def)
      show thesis by (rule failed [OF run]) (simp_all add: cached_status_def s_def)
    next
      case pos: False
      have "fx_valid (s\<lparr>fx_cacheRate := fr_rate r, fx_cacheAt := Some (clock w), fx_cacheSource := fr_source r, fx_lastError := []\<rparr>)"
        using assms r by (simp add: fx_valid_def s_def)
      then have save: "saveFxSettings a (\<lambda>c. c\<lparr>fx_cacheRate := fr_rate r, fx_cacheAt := Some (fr_at r), fx_cacheSource := fr_source r, fx_lastError := []\<rparr>) w =
          (Inr (s\<lparr>fx_cacheRate := fr_rate r, fx_cacheAt := Some (clock w), fx_cacheSource := fr_source r, fx_lastError := []\<rparr>),
           w\<lparr>fx_cfg := put_row a (s\<lparr>fx_cacheRate := fr_rate r, fx_cacheAt := Some (clock w), fx_cacheSource := fr_source r, fx_lastError := []\<rparr>) (fx_cfg w)\<rparr>)"
        by (simp add: save_fx_eq Let_def s_def r(1))
      show thesis
        by (rule fetched [where st = "\<lparr>fs_rate = fr_rate r, fs_source = fr_source r, fs_at = Some (fr_at r),
           fs_attempts = fr_attempts r, fs_auto = fx_auto s, fs_stale = False, fs_error = None\<rparr>"])
          (use pos r(2) in \<open>simp_all add: eq2 andthen_def bnd_def save s_def [symmetric]\<close>)
    qed
  qed
qed

lemma find_store_set_rate:
  "find_store b (set_usdt_rate a r w) =
    (if b = a then map_option (\<lambda>s. s\<lparr>sto_usdtRate := r\<rparr>) (find_store b w) else find_store b w)"
  using find_row_key [of sto_adminId b "stores w"]
  by (cases "find_store b w") (auto simp: find_store_def set_usdt_rate_def find_row_upd)

text \<open>
  C38: A failed refresh never loses the last good rate (safety, every outcome of
  \<open>refreshUsdtRate\<close>). The call always returns. It either leaves the state alone, or records only the
  error and reports the cached rate as stale, or it stores a positive rate that is then fresh and is
  also the rate of the seller's storefront, with no other seller's settings or storefront touched.
\<close>
theorem refresh_keeps_last_good:
  assumes "fx_valid (fxSettings a w)"
  shows "\<exists>st w'. refreshUsdtRate a force w = (Inr st, w') \<and>
    (\<forall>b. b \<noteq> a \<longrightarrow> fxSettings b w' = fxSettings b w \<and> find_store b w' = find_store b w) \<and>
    (w' = w \<and> fs_rate st = fx_cacheRate (fxSettings a w) \<or>
     fs_stale st \<and> stores w' = stores w \<and> fs_rate st = fx_cacheRate (fxSettings a w) \<and>
       (\<exists>e. fxSettings a w' = (fxSettings a w)\<lparr>fx_lastError := e\<rparr>) \<or>
     \<not> fs_stale st \<and> 0 < fs_rate st \<and> fx_cacheRate (fxSettings a w') = fs_rate st \<and> isFxFresh (clock w') (fxSettings a w') \<and>
       (case find_store a w' of None \<Rightarrow> True | Some s \<Rightarrow> sto_usdtRate s = fs_rate st))"
  using assms
proof (cases rule: refresh_cases [where force = force])
  case (cached st)
  then show ?thesis by blast
next
  case (failed st e)
  then show ?thesis by (auto simp: fxSettings_def map_of_put_row find_store_def)
next
  case (fetched st)
  have "0 < fx_ttlMin (fxSettings a w)" using assms by (simp add: fx_valid_def)
  then have fresh: "isFxFresh (clock w) ((fxSettings a w)\<lparr>fx_cacheRate := fs_rate st, fx_cacheAt := Some (clock w),
      fx_cacheSource := fs_source st, fx_lastError := []\<rparr>)"
    using fetched(2) by (simp add: isFxFresh_def)
  have other: "fxSettings b (set_usdt_rate a k v) = fxSettings b v" "clock (set_usdt_rate a k v) = clock v" for a b k v
    by (simp_all add: fxSettings_def set_usdt_rate_def)
  let ?v = "w\<lparr>fx_cfg := put_row a ((fxSettings a w)\<lparr>fx_cacheRate := fs_rate st, fx_cacheAt := Some (clock w),
      fx_cacheSource := fs_source st, fx_lastError := []\<rparr>) (fx_cfg w)\<rparr>"
  have put: "fxSettings b ?v = fxSettings b w" if "b \<noteq> a" for b using that by (simp add: fxSettings_def map_of_put_row)
  have st: "find_store b ?v = find_store b w" for b by (simp add: find_store_def)
  show ?thesis
    by (rule exI [of _ st], rule exI [of _ "set_usdt_rate a (fs_rate st) ?v"])
      (use fetched fresh put in \<open>simp add: find_store_set_rate other fxSettings_put st split: option.split\<close>)
qed

definition demo_fx_world :: world where
  "demo_fx_world = demo_world\<lparr>svcs := demo_fx, fx_cfg := [(3, fx_defaults\<lparr>fx_auto := True, fx_cacheRate := 60000, fx_cacheAt := Some (- 1000000)\<rparr>)]\<rparr>"

lemma demo_fx_valid: "fx_valid (fxSettings 3 demo_fx_world)"
  by (simp add: fxSettings_def demo_fx_world_def fx_valid_def fx_defaults_def)

lemma refresh_keeps_last_good_witness:
  "(case fst (refreshUsdtRate 3 False demo_fx_world) of Inl _ \<Rightarrow> False | Inr st \<Rightarrow> fs_rate st = 62000) \<and>
   (\<exists>st w'. refreshUsdtRate 3 False demo_fx_world = (Inr st, w') \<and> (fs_stale st \<or> 0 < fs_rate st))"
proof (intro conjI)
  show "(case fst (refreshUsdtRate 3 False demo_fx_world) of Inl _ \<Rightarrow> False | Inr st \<Rightarrow> fs_rate st = 62000)" by code_simp
  have "fx_cacheRate (fxSettings 3 demo_fx_world) = 60000" by (simp add: fxSettings_def demo_fx_world_def)
  then show "\<exists>st w'. refreshUsdtRate 3 False demo_fx_world = (Inr st, w') \<and> (fs_stale st \<or> 0 < fs_rate st)"
    using refresh_keeps_last_good [OF demo_fx_valid, of False] by auto
qed

text \<open>
  A storefront with a rate always has a price (liveness). With a positive manual rate,
  \<open>effectiveUsdtRate\<close> always returns a positive rate, whatever the price sources do: the manual one
  when pricing is manual, and otherwise a fresh one, or the last good one marked stale.
\<close>
theorem effective_rate_positive:
  assumes "fx_valid (fxSettings a w)" and "0 < manual"
  shows "\<exists>q w'. effectiveUsdtRate a manual w = (Inr q, w') \<and> 0 < qr_rate q \<and>
    (\<not> fx_auto (fxSettings a w) \<longrightarrow> qr_rate q = manual \<and> w' = w) \<and>
    (qr_stale q \<longrightarrow> qr_rate q = (if 0 < fx_cacheRate (fxSettings a w) then fx_cacheRate (fxSettings a w) else manual))"
proof -
  let ?s = "fxSettings a w"
  have nn: "0 \<le> fx_cacheRate ?s" using assms(1) by (simp add: fx_valid_def)
  show ?thesis
  proof (cases "\<not> fx_auto ?s \<or> isFxFresh (clock w) ?s")
    case True
    then show ?thesis using assms(2) nn by (auto simp: effectiveUsdtRate_def isFxFresh_def)
  next
    case False
    have out: "\<exists>q w'. effectiveUsdtRate a manual w = (Inr q, w') \<and> 0 < qr_rate q \<and>
        (qr_stale q \<longrightarrow> qr_rate q = (if 0 < fx_cacheRate ?s then fx_cacheRate ?s else manual))"
      if "refreshUsdtRate a False w = (Inr st, w')" "fs_stale st \<longrightarrow> fs_rate st = fx_cacheRate ?s" for st w'
      using False that assms(2) nn by (auto simp: effectiveUsdtRate_def bnd_def catch_op_def Let_def)
    from assms(1) show ?thesis
    proof (cases rule: refresh_cases [where force = False])
      case (cached st)
      then show ?thesis using out [OF cached(1)] False by auto
    next
      case (failed st e)
      then show ?thesis using out [OF failed(1)] False by auto
    next
      case (fetched st)
      then show ?thesis using out [OF fetched(1)] False by auto
    qed
  qed
qed

lemma effective_rate_positive_witness:
  "\<exists>q w'. effectiveUsdtRate 3 50000 demo_fx_world = (Inr q, w') \<and> 0 < qr_rate q"
  using effective_rate_positive [OF demo_fx_valid, of 50000] by auto

end
