(* ===== verification/Doubles.thy ===== *)
theory Doubles
  imports Bytes "HOL-Library.Log_Nat"
begin

text \<open>
  The \<open>number\<close> arithmetic of the language where the rounding of a double decides the result. A finite
  double is the rational it denotes, and every operation is the exact one followed by \<open>fl\<close>, the
  rounding of IEEE 754 to 53 significant bits, to nearest with ties to even. The exponent is
  unbounded, so overflow and subnormal numbers are outside the model.
\<close>

text \<open>The exponent of the leading bit of a positive number: \<open>2 powi binade x \<le> x < 2 powi (binade x + 1)\<close>.\<close>
definition binade :: "rat \<Rightarrow> int" where
  "binade x = (case quotient_of x of (n, d) \<Rightarrow>
     let e = bitlen n - bitlen d in if 2 powi e \<le> x then e else e - 1)"

definition round_even :: "rat \<Rightarrow> int" where
  "round_even x = (let n = \<lfloor>x\<rfloor>; r = x - of_int n
     in if r < 1 / 2 then n else if 1 / 2 < r then n + 1 else if even n then n else n + 1)"

text \<open>The distance of two neighbouring doubles in the binade of \<open>x\<close>.\<close>
definition ulp :: "rat \<Rightarrow> rat" where
  "ulp x = 2 powi (binade \<bar>x\<bar> - 52)"

definition fl :: "rat \<Rightarrow> rat" where
  "fl x = (if x = 0 then 0 else of_int (round_even (x / ulp x)) * ulp x)"

text \<open>\<open>Number(x)\<close> of a \<open>bigint\<close>, and the product and the quotient of two numbers.\<close>
definition big_number :: "int \<Rightarrow> rat" where
  "big_number n = fl (of_int n)"

definition js_mul :: "rat \<Rightarrow> rat \<Rightarrow> rat" where
  "js_mul x y = fl (x * y)"

definition js_div :: "rat \<Rightarrow> rat \<Rightarrow> rat" where
  "js_div x y = fl (x / y)"

section \<open>The error of one rounding\<close>

lemma round_even_error: "\<bar>of_int (round_even x) - x\<bar> \<le> 1 / 2"
  using of_int_floor_le [of x] floor_correct [of x] unfolding round_even_def Let_def
  by (cases "x - of_int \<lfloor>x\<rfloor> < 1 / 2"; cases "1 / 2 < x - of_int \<lfloor>x\<rfloor>"; simp add: abs_le_iff)

lemma round_even_of_int [simp]: "round_even (of_int n) = n"
  by (simp add: round_even_def)

lemma round_even_0 [simp]: "round_even 0 = 0"
  by (simp add: round_even_def)

lemma bitlen_powi:
  assumes "0 < n"
  shows "2 powi (bitlen n - 1) \<le> (of_int n :: rat)" and "(of_int n :: rat) < 2 powi bitlen n"
proof -
  have b: "0 \<le> bitlen n - 1" "0 \<le> bitlen n" using assms by (auto simp: bitlen_alt_def)
  have "(of_int (2 ^ nat (bitlen n - 1)) :: rat) \<le> of_int n" "(of_int n :: rat) < of_int (2 ^ nat (bitlen n))"
    using bitlen_bounds [OF assms] by (simp_all only: of_int_le_iff of_int_less_iff)
  then show "2 powi (bitlen n - 1) \<le> (of_int n :: rat)" "(of_int n :: rat) < 2 powi bitlen n"
    using b by (simp_all add: power_int_nonneg_exp)
qed

lemma binade_bounds:
  assumes "0 < x"
  shows "2 powi binade x \<le> x" and "x < 2 powi (binade x + 1)"
proof -
  obtain n d where q: "quotient_of x = (n, d)" by (cases "quotient_of x")
  have d: "0 < d" using quotient_of_denom_pos [OF q] .
  have x: "x = of_int n / of_int d" using quotient_of_div [OF q] .
  have n: "0 < n" using assms d by (simp add: x zero_less_divide_iff)
  let ?e = "bitlen n - bitlen d"
  have dp: "0 < (of_int d :: rat)" using d by simp
  have "2 powi (?e - 1) \<le> x"
  proof -
    have "(2 :: rat) powi (?e - 1) * of_int d \<le> 2 powi (?e - 1) * 2 powi bitlen d"
      using bitlen_powi(2) [OF d] by (intro mult_left_mono) auto
    also have "\<dots> = 2 powi (bitlen n - 1)" by (simp add: power_int_add [symmetric])
    also have "\<dots> \<le> of_int n" by (rule bitlen_powi(1) [OF n])
    finally show ?thesis using dp by (simp add: x pos_le_divide_eq)
  qed
  moreover have "x < 2 powi (?e + 1)"
  proof -
    have "of_int n < (2 :: rat) powi bitlen n" by (rule bitlen_powi(2) [OF n])
    also have "\<dots> = 2 powi (?e + 1) * 2 powi (bitlen d - 1)" by (simp add: power_int_add [symmetric])
    also have "\<dots> \<le> 2 powi (?e + 1) * of_int d"
      using bitlen_powi(1) [OF d] by (intro mult_left_mono) auto
    finally show ?thesis using dp by (simp add: x pos_divide_less_eq)
  qed
  moreover have "binade x = (if 2 powi ?e \<le> x then ?e else ?e - 1)" by (simp add: binade_def q Let_def)
  ultimately show "2 powi binade x \<le> x" "x < 2 powi (binade x + 1)" by auto
qed

lemma ulp_pos [simp]: "0 < ulp x"
  by (simp add: ulp_def)

lemma ulp_le: "x \<noteq> 0 \<Longrightarrow> ulp x * 2 ^ 52 \<le> \<bar>x\<bar>"
  using binade_bounds(1) [of "\<bar>x\<bar>"] by (simp add: ulp_def power_int_diff)

text \<open>The relative error is at most one half in the last of 53 bits.\<close>
lemma fl_error: "\<bar>fl x - x\<bar> \<le> \<bar>x\<bar> / 2 ^ 53"
proof (cases "x = 0")
  case False
  have "fl x - x = (of_int (round_even (x / ulp x)) - x / ulp x) * ulp x"
    using False ulp_pos [of x] by (simp add: fl_def left_diff_distrib del: ulp_pos)
  then have "\<bar>fl x - x\<bar> = \<bar>of_int (round_even (x / ulp x)) - x / ulp x\<bar> * ulp x"
    using ulp_pos [of x] by (simp only: abs_mult abs_of_pos)
  also have "\<dots> \<le> 1 / 2 * ulp x"
    by (intro mult_right_mono round_even_error less_imp_le ulp_pos)
  also have "\<dots> \<le> \<bar>x\<bar> / 2 ^ 53" using ulp_le [OF False] by simp
  finally show ?thesis .
qed (simp add: fl_def)

lemma fl_0 [simp]: "fl 0 = 0"
  by (simp add: fl_def)

text \<open>Whole numbers below \<open>2 ^ 53\<close> are doubles.\<close>
lemma fl_of_int:
  assumes "\<bar>n\<bar> < 2 ^ 53" shows "fl (of_int n) = of_int n"
proof (cases "n = 0")
  case False
  let ?x = "of_int n :: rat"
  have "2 powi binade \<bar>?x\<bar> \<le> \<bar>?x\<bar>" by (rule binade_bounds(1)) (use False in simp)
  also have "\<bar>?x\<bar> < 2 powi 53"
    using assms of_int_less_iff [of "\<bar>n\<bar>" "2 ^ 53", where 'a = rat] by simp
  finally have "binade \<bar>?x\<bar> < 53" by (rule power_int_le_imp_less_exp [rotated]) simp_all
  then have e: "0 \<le> 52 - binade \<bar>?x\<bar>" by simp
  have "1 / ulp ?x = 2 powi (52 - binade \<bar>?x\<bar>)"
    unfolding ulp_def by (simp add: power_int_minus_divide [symmetric])
  also have "\<dots> = of_int (2 ^ nat (52 - binade \<bar>?x\<bar>))" using e by (simp add: power_int_nonneg_exp)
  finally have "?x / ulp ?x = of_int (n * 2 ^ nat (52 - binade \<bar>?x\<bar>))" by (simp add: divide_inverse)
  then have "of_int (round_even (?x / ulp ?x)) = ?x / ulp ?x" by (simp only: round_even_of_int)
  then show ?thesis using False ulp_pos [of ?x] by (simp add: fl_def del: ulp_pos)
qed simp

lemma fl_bounds:
  assumes "0 \<le> x"
  shows "x * (1 - 1 / 2 ^ 53) \<le> fl x" and "fl x \<le> x * (1 + 1 / 2 ^ 53)"
proof -
  have "\<bar>fl x - x\<bar> \<le> x / 2 ^ 53" using fl_error [of x] assms by (simp only: abs_of_nonneg)
  then have "- (x / 2 ^ 53) \<le> fl x - x" "fl x - x \<le> x / 2 ^ 53" by (simp_all only: abs_le_iff; linarith)+
  then show "x * (1 - 1 / 2 ^ 53) \<le> fl x" "fl x \<le> x * (1 + 1 / 2 ^ 53)" by (simp_all add: right_diff_distrib distrib_left)
qed

lemma fl_nonneg: "0 \<le> x \<Longrightarrow> 0 \<le> fl x"
  using fl_bounds(1) [of x] by (rule order_trans [rotated]) simp_all

text \<open>A number \<open>k / f\<close> that is rounded to a double and printed with the decimals of \<open>f\<close> prints as \<open>k / f\<close>.\<close>
lemma to_fixed_fl:
  assumes "0 \<le> k" and "k < 2 ^ 52"
  shows "to_fixed d (fl (of_int k / 10 ^ d)) = of_int k / 10 ^ d"
proof -
  let ?f = "10 ^ d :: rat"
  have f: "0 < ?f" by simp
  have "\<bar>fl (of_int k / ?f) - of_int k / ?f\<bar> \<le> of_int k / ?f / 2 ^ 53"
    using fl_error [of "of_int k / ?f"] assms(1) by simp
  then have "\<bar>fl (of_int k / ?f) - of_int k / ?f\<bar> * ?f \<le> of_int k / ?f / 2 ^ 53 * ?f"
    using f by (intro mult_right_mono) simp_all
  then have "\<bar>(fl (of_int k / ?f) - of_int k / ?f) * ?f\<bar> \<le> of_int k / 2 ^ 53"
    using f by (simp add: abs_mult)
  moreover have "(fl (of_int k / ?f) - of_int k / ?f) * ?f = fl (of_int k / ?f) * ?f - of_int k"
    using f by (simp add: left_diff_distrib)
  moreover have "of_int k / 2 ^ 53 < (1 / 2 :: rat)"
    using assms(2) of_int_less_iff [of k "2 ^ 52", where 'a = rat] by simp
  ultimately have "\<bar>fl (of_int k / ?f) * ?f - of_int k\<bar> < 1 / 2" by simp
  then have "\<lfloor>fl (of_int k / ?f) * ?f + 1 / 2\<rfloor> = k" by (simp add: floor_eq_iff abs_less_iff; linarith)
  then show ?thesis by (simp add: to_fixed_def)
qed

lemma to_fixed_mono: "x \<le> y \<Longrightarrow> to_fixed d x \<le> to_fixed d y"
  by (simp add: to_fixed_def divide_right_mono floor_mono)

lemma to_fixed_max: "to_fixed d (max x y) = max (to_fixed d x) (to_fixed d y)"
  by (rule max_of_mono [symmetric]) (rule monoI, rule to_fixed_mono)

end
