(* ===== verification/CryptoAssets.thy ===== *)
theory CryptoAssets
  imports Fx StoreSettings Customers Doubles
begin

text \<open>
  Crypto checkout: \<open>packages/core/src/services/cryptoAssets.ts\<close>. A seller publishes wallets, every
  wallet has a rate, and an amount in toman becomes an amount of coin. The arithmetic is that of the
  code's doubles (theory \<open>Doubles\<close>): each quotient and product is rounded, and the decimal text of the
  amount of coin is the rational it denotes. The label of a network is not modelled.
\<close>

section \<open>The seller's wallets\<close>

definition CRYPTO_NETWORKS :: "string list" where
  "CRYPTO_NETWORKS = [''TRC20'', ''BEP20'', ''ERC20'', ''TON'', ''SOL'', ''POLYGON'', ''ARBITRUM'', ''AVAX'', ''BTC'', ''LTC'',
     ''DOGE'', ''XMR'', ''OTHER'']"

definition STABLE_SYMBOLS :: "string list" where
  "STABLE_SYMBOLS = [''USDT'', ''USDC'', ''DAI'', ''FDUSD'', ''TUSD'', ''BUSD'']"

definition asset_valid :: "crypto_asset \<Rightarrow> bool" where
  "asset_valid a \<longleftrightarrow> length (ca_id a) \<le> 40 \<and> length (ca_symbol a) \<le> 12 \<and> ca_network a \<in> set CRYPTO_NETWORKS \<and>
     length (ca_address a) \<le> 200 \<and> length (ca_memo a) \<le> 120 \<and> length (ca_label a) \<le> 60 \<and>
     0 \<le> ca_fixedRate a \<and> ca_fixedRate a \<le> 10 ^ 12 \<and> - 50 \<le> ca_marginPct a \<and> ca_marginPct a \<le> 200 \<and>
     0 \<le> ca_decimals a \<and> ca_decimals a \<le> 8"

text \<open>\<open>cryptoAssetSchema.parse\<close>: texts are trimmed, then the limits are checked.\<close>
definition parse_asset :: "crypto_asset \<Rightarrow> crypto_asset option" where
  "parse_asset raw =
    (let a = raw\<lparr>ca_symbol := str_trim (ca_symbol raw), ca_address := str_trim (ca_address raw),
               ca_memo := str_trim (ca_memo raw), ca_label := str_trim (ca_label raw)\<rparr>
     in if asset_valid a then Some a else None)"

definition clean_symbol :: "string \<Rightarrow> string" where
  "clean_symbol s = (let t = take 12 (filter (\<lambda>c. is_upper c \<or> is_digit c) (to_upper s)) in if t = [] then ''USDT'' else t)"

text \<open>\<open>while (seen.has(id)) id = id + "-" + n\<close>.\<close>
function uniq_id :: "string list \<Rightarrow> nat \<Rightarrow> string \<Rightarrow> string" where
  "uniq_id seen n i = (if i \<in> set seen then uniq_id seen n (i @ ''-'' @ show_nat n) else i)"
  by auto
termination
proof (relation "measure (\<lambda>(seen, n, i). card {s \<in> set seen. length i \<le> length s})")
  fix seen n and i :: string assume i: "i \<in> set seen"
  have "{s \<in> set seen. length (i @ ''-'' @ show_nat n) \<le> length s} \<subset> {s \<in> set seen. length i \<le> length s}"
  proof
    show "{s \<in> set seen. length (i @ ''-'' @ show_nat n) \<le> length s} \<subseteq> {s \<in> set seen. length i \<le> length s}" by auto
    have "i \<in> {s \<in> set seen. length i \<le> length s}" "i \<notin> {s \<in> set seen. length (i @ ''-'' @ show_nat n) \<le> length s}"
      using i by simp_all
    then show "{s \<in> set seen. length (i @ ''-'' @ show_nat n) \<le> length s} \<noteq> {s \<in> set seen. length i \<le> length s}" by blast
  qed
  then show "((seen, n, i @ ''-'' @ show_nat n), seen, n, i) \<in> measure (\<lambda>(seen, n, i). card {s \<in> set seen. length i \<le> length s})"
    by (auto intro!: psubset_card_mono)
qed simp

declare uniq_id.simps [simp del]

definition asset_base_id :: "crypto_asset \<Rightarrow> string \<Rightarrow> string" where
  "asset_base_id a symbol = (let t = str_trim (ca_id a) in if t \<noteq> [] then t else to_lower symbol @ ''-'' @ to_lower (ca_network a))"

text \<open>The loop over the submitted wallets; \<open>n\<close> is the index plus one.\<close>
fun clean_assets :: "nat \<Rightarrow> string list \<Rightarrow> crypto_asset list \<Rightarrow> crypto_asset list option" where
  "clean_assets n seen [] = Some []"
| "clean_assets n seen (raw # rest) = (case parse_asset raw of
     None \<Rightarrow> None
   | Some a \<Rightarrow>
      (let symbol = clean_symbol (ca_symbol a); i = uniq_id seen n (asset_base_id a symbol)
       in map_option (\<lambda>as. a\<lparr>ca_id := i, ca_symbol := symbol\<rparr> # as) (clean_assets (Suc n) (i # seen) rest)))"

definition zod_error :: err where
  "zod_error = PlainError ''ZodError''"

definition cryptoSettings :: "uid \<Rightarrow> world \<Rightarrow> crypto_asset list" where
  "cryptoSettings adminId w = opt_default (map_of (crypto_cfg w) adminId) []"

definition saveCryptoAssets :: "uid \<Rightarrow> crypto_asset list \<Rightarrow> (world, crypto_asset list) op" where
  "saveCryptoAssets adminId assets =
    bnd (or_throw (clean_assets 1 [] (take 20 assets)) zod_error) (\<lambda>clean.
    andthen (throw_if (\<not> list_all asset_valid clean) zod_error)
    (andthen (modify (\<lambda>w. w\<lparr>crypto_cfg := put_row adminId clean (crypto_cfg w)\<rparr>))
    (ret clean)))"

definition legacyAsset :: "store_settings \<Rightarrow> crypto_asset option" where
  "legacyAsset s = str_or (sto_usdtAddress s) None (\<lambda>address.
     Some \<lparr>ca_id = ''legacy'', ca_symbol = ''USDT'',
       ca_network = (if sto_usdtNetwork s \<in> set CRYPTO_NETWORKS then sto_usdtNetwork s else ''TRC20''),
       ca_address = str_trim address, ca_memo = [], ca_label = [], ca_enabled = True, ca_rateMode = RM_USDT,
       ca_fixedRate = 0, ca_marginPct = 0, ca_decimals = 0\<rparr>)"

definition availableAssets :: "store_settings \<Rightarrow> world \<Rightarrow> crypto_asset list" where
  "availableAssets s w =
    (let list = filter (\<lambda>a. ca_enabled a \<and> ca_address a \<noteq> []) (cryptoSettings (sto_adminId s) w)
     in if list \<noteq> [] then list else (case legacyAsset s of Some a \<Rightarrow> [a] | None \<Rightarrow> []))"

section \<open>Pricing\<close>

definition COIN_TTL_MS :: int where
  "COIN_TTL_MS = 10 * 60000"

definition withMargin :: "rat \<Rightarrow> rat \<Rightarrow> int" where
  "withMargin rate marginPct = max 1 (js_round (js_mul rate (fl (1 + js_div marginPct 100))))"

definition effectiveRateMode :: "crypto_asset \<Rightarrow> rate_mode" where
  "effectiveRateMode a =
    (if ca_rateMode a = RM_FIXED then RM_FIXED
     else if to_upper (ca_symbol a) \<in> set STABLE_SYMBOLS then RM_USDT else RM_MARKET)"

text \<open>A positive number, or nothing: what the two sources of \<open>marketRate\<close> contribute.\<close>
definition positive :: "string + rat \<Rightarrow> rat option" where
  "positive r = (case r of Inr n \<Rightarrow> if 0 < n then Some n else None | Inl _ \<Rightarrow> None)"

definition coin_nobitex :: "services \<Rightarrow> time \<Rightarrow> string \<Rightarrow> rat option" where
  "coin_nobitex x tm coin =
    (let low = to_lower coin in
     map_option (\<lambda>rls. js_div rls 10) (positive
       (and_then (getJson x tm (''https://api.nobitex.ir/market/stats?srcCurrency='' @ low @ ''&dstCurrency=rls'')) (\<lambda>j.
        number_or [] (nullish (pickPath (Some j) (''stats.'' @ low @ ''-rls.latest'')) (pickPath (Some j) (''stats.'' @ low @ ''-rls.bestSell'')))))))"

definition coin_wallex :: "services \<Rightarrow> time \<Rightarrow> string \<Rightarrow> rat option" where
  "coin_wallex x tm coin =
    positive (and_then (getJson x tm ''https://api.wallex.ir/v1/markets'') (\<lambda>j.
      number_or [] (pickPath (Some j) (''result.symbols.'' @ coin @ ''TMN.stats.lastPrice''))))"

definition coin_lookup :: "services \<Rightarrow> time \<Rightarrow> string \<Rightarrow> (rat \<times> string) option" where
  "coin_lookup x tm coin = (case coin_nobitex x tm coin of
     Some r \<Rightarrow> Some (r, ''NOBITEX'')
   | None \<Rightarrow> map_option (\<lambda>r. (r, ''WALLEX'')) (coin_wallex x tm coin))"

definition coin_fresh :: "time \<Rightarrow> coin_cache_row \<Rightarrow> bool" where
  "coin_fresh tm c \<longleftrightarrow> 0 < cc_rate c \<and> (case cc_at c of None \<Rightarrow> False | Some t \<Rightarrow> tm - t < COIN_TTL_MS)"

definition marketRate :: "string \<Rightarrow> (world, rat \<times> string) op" where
  "marketRate symbol =
    (let coin = to_upper symbol in
    bnd (gets (\<lambda>w. (opt_default (map_of (coin_cache w) coin) \<lparr>cc_rate = 0, cc_at = None, cc_source = []\<rparr>, clock w, svcs w)))
      (\<lambda>(cached, tm, x).
      if coin_fresh tm cached then ret (cc_rate cached, first_text (cc_source cached) ''CACHE'')
      else bnd (or_throw (coin_lookup x tm coin) (app_error (''no live price for '' @ coin))) (\<lambda>(rate, source).
        andthen (modify (\<lambda>w. w\<lparr>coin_cache := put_row coin \<lparr>cc_rate = rate, cc_at = Some tm, cc_source = source\<rparr> (coin_cache w)\<rparr>))
        (ret (rate, source)))))"

record asset_rate =
  as_rate :: int
  as_source :: string
  as_auto :: bool
  as_stale :: bool

definition assetRate :: "store_settings \<Rightarrow> crypto_asset \<Rightarrow> (world, asset_rate) op" where
  "assetRate s a = (case effectiveRateMode a of
     RM_FIXED \<Rightarrow>
       andthen (throw_if (ca_fixedRate a \<le> 0) (app_error (''no fixed rate for '' @ ca_symbol a)))
       (ret \<lparr>as_rate = withMargin (ca_fixedRate a) (ca_marginPct a), as_source = ''FIXED'', as_auto = False, as_stale = False\<rparr>)
   | RM_MARKET \<Rightarrow>
       bnd (marketRate (ca_symbol a)) (\<lambda>(rate, source).
       ret \<lparr>as_rate = withMargin rate (ca_marginPct a), as_source = source, as_auto = True, as_stale = False\<rparr>)
   | RM_USDT \<Rightarrow>
       bnd (effectiveUsdtRate (sto_adminId s) (sto_usdtRate s)) (\<lambda>fx.
       andthen (throw_if (qr_rate fx \<le> 0) (app_error ''no USDT rate''))
       (ret \<lparr>as_rate = withMargin (of_int (qr_rate fx)) (ca_marginPct a), as_source = qr_source fx,
          as_auto = qr_auto fx, as_stale = qr_stale fx\<rparr>)))"

definition decimalsFor :: "crypto_asset \<Rightarrow> int \<Rightarrow> int" where
  "decimalsFor a rate =
    (if 0 < ca_decimals a then ca_decimals a else if 50000000 \<le> rate then 6 else if 1000000 \<le> rate then 4 else 2)"

text \<open>
  \<open>Math.ceil\<close> and \<open>Math.max\<close> of doubles are exact; the last step is \<open>toFixed\<close>, whose text is written out in
  decimals below \<open>10 ^ 21\<close>.
\<close>
definition coinAmount :: "int \<Rightarrow> int \<Rightarrow> int \<Rightarrow> rat" where
  "coinAmount amountIrt rate decimals =
    (if rate \<le> 0 then 0
     else let factor = 10 ^ nat decimals; raw = js_div (big_number amountIrt) (of_int rate);
         up = js_div (of_int (js_ceil (js_mul raw factor))) factor
       in to_fixed (nat decimals) (max (js_div 1 factor) up))"

definition quoteAsset :: "store_settings \<Rightarrow> int \<Rightarrow> crypto_asset \<Rightarrow> (world, crypto_quote) op" where
  "quoteAsset s amountIrt a =
    bnd (assetRate s a) (\<lambda>r. bnd now (\<lambda>tm.
      let decimals = decimalsFor a (as_rate r) in
      ret \<lparr>cq_assetId = ca_id a, cq_symbol = to_upper (ca_symbol a), cq_network = ca_network a, cq_address = ca_address a,
        cq_memo = nonempty (ca_memo a), cq_label = nonempty (ca_label a), cq_rateIrt = of_int (as_rate r),
        cq_amount = coinAmount amountIrt (as_rate r) decimals, cq_decimals = decimals, cq_source = as_source r,
        cq_auto = as_auto r, cq_stale = as_stale r, cq_at = tm\<rparr>))"

definition pick_asset :: "string option \<Rightarrow> crypto_asset list \<Rightarrow> crypto_asset option" where
  "pick_asset assetId assets = (case assets of
     [] \<Rightarrow> None
   | first # _ \<Rightarrow> Some (str_or assetId first (\<lambda>i. opt_default (find_row ca_id i assets) first)))"

definition quoteCrypto :: "store_settings \<Rightarrow> int \<Rightarrow> string option \<Rightarrow> (world, crypto_quote) op" where
  "quoteCrypto s amountIrt assetId =
    bnd (gets (\<lambda>w. pick_asset assetId (availableAssets s w))) (\<lambda>picked.
    bnd (or_throw picked (app_error ''no crypto wallet is set'')) (quoteAsset s amountIrt))"

record crypto_option =
  co_assetId :: string
  co_symbol :: string
  co_network :: string
  co_label :: "string option"
  co_amount :: "rat option"
  co_rateIrt :: "rat option"
  co_error :: "string option"

definition option_row :: "crypto_asset \<Rightarrow> err + crypto_quote \<Rightarrow> crypto_option" where
  "option_row a r = \<lparr>co_assetId = ca_id a, co_symbol = to_upper (ca_symbol a), co_network = ca_network a, co_label = nonempty (ca_label a),
     co_amount = (case r of Inr q \<Rightarrow> Some (cq_amount q) | Inl _ \<Rightarrow> None),
     co_rateIrt = (case r of Inr q \<Rightarrow> Some (cq_rateIrt q) | Inl _ \<Rightarrow> None),
     co_error = (case r of Inr _ \<Rightarrow> None | Inl e \<Rightarrow> Some (err_message e))\<rparr>"

definition quoteOptions :: "store_settings \<Rightarrow> int \<Rightarrow> (world, crypto_option list) op" where
  "quoteOptions s amountIrt =
    bnd (gets (availableAssets s)) (\<lambda>assets. fold_op (\<lambda>a out.
      bnd (catch_op (bnd (quoteAsset s amountIrt a) (\<lambda>q. ret (Inr q))) (\<lambda>e. ret (Inl e))) (\<lambda>r.
      ret (out @ [option_row a r]))) assets [])"

section \<open>The wallet of a payment\<close>

definition cryptoMetaOf :: "payment \<Rightarrow> crypto_quote option" where
  "cryptoMetaOf p = (case meta_crypto (pay_meta p) of
     None \<Rightarrow> None
   | Some c \<Rightarrow> if cq_address c = [] \<or> cq_symbol c = [] then None
       else Some (c\<lparr>cq_symbol := to_upper (cq_symbol c),
              cq_network := (if cq_network c \<in> set CRYPTO_NETWORKS then cq_network c else ''TRC20''),
              cq_memo := (if truthy (cq_memo c) then cq_memo c else None),
              cq_label := (if truthy (cq_label c) then cq_label c else None)\<rparr>))"

definition isTrc20Usdt :: "crypto_quote option \<Rightarrow> bool" where
  "isTrc20Usdt q = (case q of None \<Rightarrow> True | Some c \<Rightarrow> cq_symbol c = ''USDT'' \<and> cq_network c = ''TRC20'')"

definition latest_usdt :: "uid \<Rightarrow> world \<Rightarrow> payment option" where
  "latest_usdt orderId w = (case sort_key (\<lambda>p. - pay_createdAt p)
       (filter (\<lambda>p. pay_orderId p = Some orderId \<and> pay_method p = USDT) (payments w)) of
     [] \<Rightarrow> None | p # _ \<Rightarrow> Some p)"

definition openCryptoPayment :: "string \<Rightarrow> (world, order \<times> payment option \<times> store_settings) op" where
  "openCryptoPayment token =
    bnd (gets (\<lambda>w. find_row ord_token token (orders w))) (\<lambda>found. bnd (or_throw found (not_found_error ''order not found'')) (\<lambda>order.
    bnd (gets (storeSettingsByAdminId (ord_adminId order))) (\<lambda>st. bnd (or_throw st (app_error ''store settings not found'')) (\<lambda>s.
    gets (\<lambda>w. (order, latest_usdt (ord_id order) w, s))))))"

record order_options =
  oo_options :: "crypto_option list"
  oo_selected :: "string option"
  oo_editable :: bool

definition orderCryptoOptions :: "string \<Rightarrow> (world, order_options) op" where
  "orderCryptoOptions token =
    bnd (openCryptoPayment token) (\<lambda>(order, payment, s).
    bnd (quoteOptions s (ord_amount order)) (\<lambda>options. bnd now (\<lambda>tm.
      let meta = (case payment of Some p \<Rightarrow> cryptoMetaOf p | None \<Rightarrow> None);
          editable = (case payment of None \<Rightarrow> False | Some p \<Rightarrow> pay_status p = P_PENDING \<and>
            (case pay_expiresAt p of None \<Rightarrow> True | Some t \<Rightarrow> tm < t)) in
      ret \<lparr>oo_options = options,
        oo_selected = opt_or (map_option cq_assetId meta) (case options of [] \<Rightarrow> None | c # _ \<Rightarrow> Some (co_assetId c)),
        oo_editable = editable\<rparr>)))"

text \<open>\<open>payment.update({ where: { id }, data })\<close>: the row it returns.\<close>
definition update_payment :: "uid \<Rightarrow> (payment \<Rightarrow> payment) \<Rightarrow> (world, payment) op" where
  "update_payment i f =
    bnd (gets (find_payment i)) (\<lambda>found. bnd (or_throw found record_not_found) (\<lambda>p. bnd now (\<lambda>tm.
      let g = (\<lambda>r. (f r)\<lparr>pay_updatedAt := tm\<rparr>) in
      andthen (modify (\<lambda>w. w\<lparr>payments := upd_rows (\<lambda>r. pay_id r = i) g (payments w)\<rparr>)) (ret (g p)))))"

definition selectOrderAsset :: "string \<Rightarrow> string \<Rightarrow> (world, crypto_quote) op" where
  "selectOrderAsset token assetId =
    bnd (openCryptoPayment token) (\<lambda>(order, payment, s).
    bnd (or_throw payment (app_error ''no open crypto payment'')) (\<lambda>p. bnd now (\<lambda>tm.
    andthen (throw_if (pay_status p \<noteq> P_PENDING) (app_error ''this payment cannot be changed any more''))
    (andthen (throw_if (expired_at tm (pay_expiresAt p)) (app_error ''the time to pay is over''))
    (bnd (quoteCrypto s (ord_amount order) (Some assetId)) (\<lambda>quote.
    andthen (update_payment (pay_id p) (\<lambda>r. r\<lparr>pay_amountUsdt := Some (cq_amount quote), pay_error := None,
      pay_meta := (pay_meta p)\<lparr>meta_crypto := Some quote\<rparr>\<rparr>))
    (ret quote)))))))"

section \<open>Properties\<close>

lemma uniq_id_free: "uniq_id seen n i \<notin> set seen"
  by (induction seen n i rule: uniq_id.induct) (subst uniq_id.simps, simp)

lemma clean_assets_spec:
  assumes "clean_assets n seen xs = Some as"
  shows "length as = length xs \<and> distinct (map ca_id as) \<and> set (map ca_id as) \<inter> set seen = {} \<and>
    map ca_address as = map (\<lambda>x. str_trim (ca_address x)) xs"
  using assms
proof (induction xs arbitrary: n seen as)
  case Nil
  then show ?case by simp
next
  case (Cons raw xs)
  obtain a where a: "parse_asset raw = Some a" using Cons.prems by (auto split: option.splits)
  let ?coin = "clean_symbol (ca_symbol a)"
  let ?i = "uniq_id seen n (asset_base_id a ?coin)"
  obtain rest where rest: "clean_assets (Suc n) (?i # seen) xs = Some rest" and as: "as = a\<lparr>ca_id := ?i, ca_symbol := ?coin\<rparr> # rest"
    using Cons.prems a by (auto simp: Let_def)
  have "ca_address a = str_trim (ca_address raw)" using a by (auto simp: parse_asset_def Let_def split: if_splits)
  then show ?case using Cons.IH [OF rest] uniq_id_free [of seen n "asset_base_id a ?coin"] by (auto simp: as)
qed

text \<open>
  Saved wallets have distinct names, found by a loop that ends (termination, every accepted
  list). \<open>saveCryptoAssets\<close> keeps the first twenty wallets with their trimmed addresses, gives each an
  id of its own by the renaming loop (which terminates for every list of ids already taken), stores
  exactly what it returns, and touches no other seller.
\<close>
theorem saved_assets_distinct:
  assumes "saveCryptoAssets a assets w = (Inr saved, w')"
  shows "distinct (map ca_id saved) \<and> list_all asset_valid saved \<and> length saved = min 20 (length assets) \<and>
    map ca_address saved = map (\<lambda>x. str_trim (ca_address x)) (take 20 assets) \<and>
    cryptoSettings a w' = saved \<and> (\<forall>b. b \<noteq> a \<longrightarrow> cryptoSettings b w' = cryptoSettings b w)"
proof -
  have c: "clean_assets 1 [] (take 20 assets) = Some saved" and v: "list_all asset_valid saved"
    and w': "w' = w\<lparr>crypto_cfg := put_row a saved (crypto_cfg w)\<rparr>"
    using assms by (auto simp: saveCryptoAssets_def inr_iffs)
  have "length saved = min 20 (length assets)"
    using clean_assets_spec [OF c] by (simp add: min_def)
  then show ?thesis using clean_assets_spec [OF c] v by (simp add: w' cryptoSettings_def map_of_put_row)
qed

definition demo_asset :: crypto_asset where
  "demo_asset = \<lparr>ca_id = [], ca_symbol = '' ton'', ca_network = ''TON'', ca_address = ''EQ1 '', ca_memo = [], ca_label = [],
     ca_enabled = True, ca_rateMode = RM_FIXED, ca_fixedRate = 300000, ca_marginPct = 0, ca_decimals = 0\<rparr>"

lemma saved_assets_distinct_witness:
  "\<exists>saved w'. saveCryptoAssets 3 [demo_asset, demo_asset] demo_world = (Inr saved, w') \<and>
     map ca_id saved = [''ton-ton'', ''ton-ton-2''] \<and> distinct (map ca_id saved)"
proof -
  have "(case fst (saveCryptoAssets 3 [demo_asset, demo_asset] demo_world) of
      Inl _ \<Rightarrow> False | Inr saved \<Rightarrow> map ca_id saved = [''ton-ton'', ''ton-ton-2''])" by code_simp
  then obtain saved w' where run: "saveCryptoAssets 3 [demo_asset, demo_asset] demo_world = (Inr saved, w')"
    and ids: "map ca_id saved = [''ton-ton'', ''ton-ton-2'']"
    by (cases "saveCryptoAssets 3 [demo_asset, demo_asset] demo_world") (auto split: sum.splits)
  have d: "distinct (map ca_id saved)" using saved_assets_distinct [OF run] by simp
  show ?thesis by (rule exI [of _ saved], rule exI [of _ w']) (intro conjI run ids d)
qed

text \<open>What the doubles do to exact quotients: one unit too much, and an amount short of the price.\<close>
lemma coinAmount_examples:
  "coinAmount 7 25 2 = 29 / 100"
  "coinAmount 3282243991 9267024629 8 * 9267024629 < 3282243991"
  by code_simp+

lemma coinAmount_units:
  assumes "0 < rate" and "0 \<le> amount" and "amount < 2 ^ 52" and "amount * 10 ^ nat d \<le> 2 ^ 51 * rate"
  obtains y :: rat where "coinAmount amount rate d = of_int (max 1 \<lceil>y\<rceil>) / 10 ^ nat d"
    and "(1 - 1 / 2 ^ 52) * (of_int amount / of_int rate * 10 ^ nat d) \<le> y"
    and "y \<le> (1 + 1 / 2 ^ 51) * (of_int amount / of_int rate * 10 ^ nat d)"
proof -
  let ?f = "10 ^ nat d :: rat"
  let ?x = "of_int amount / of_int rate :: rat"
  let ?y = "fl (fl ?x * ?f)"
  have x: "0 \<le> ?x" and f: "0 < ?f" using assms(1,2) by simp_all
  have xf: "0 \<le> ?x * ?f" by (rule mult_nonneg_nonneg [OF x less_imp_le [OF f]])
  have lo: "(1 - 1 / 2 ^ 52) * (?x * ?f) \<le> ?y"
  proof -
    have "(1 - 1 / 2 ^ 52) * (?x * ?f) \<le> ((1 - 1 / 2 ^ 53) * (1 - 1 / 2 ^ 53)) * (?x * ?f)"
      by (rule mult_right_mono [OF _ xf]) simp
    also have "\<dots> = ?x * (1 - 1 / 2 ^ 53) * ?f * (1 - 1 / 2 ^ 53)" by simp
    also have "\<dots> \<le> fl ?x * ?f * (1 - 1 / 2 ^ 53)"
      by (intro mult_right_mono fl_bounds(1) [OF x]) simp_all
    also have "\<dots> \<le> ?y" by (rule fl_bounds(1)) (use fl_nonneg [OF x] in simp)
    finally show ?thesis .
  qed
  have hi: "?y \<le> (1 + 1 / 2 ^ 51) * (?x * ?f)"
  proof -
    have "?y \<le> fl ?x * ?f * (1 + 1 / 2 ^ 53)" by (rule fl_bounds(2)) (use fl_nonneg [OF x] in simp)
    also have "\<dots> \<le> ?x * (1 + 1 / 2 ^ 53) * ?f * (1 + 1 / 2 ^ 53)"
      by (intro mult_right_mono fl_bounds(2) [OF x]) simp_all
    also have "\<dots> = ((1 + 1 / 2 ^ 53) * (1 + 1 / 2 ^ 53)) * (?x * ?f)" by simp
    also have "\<dots> \<le> (1 + 1 / 2 ^ 51) * (?x * ?f)" by (rule mult_right_mono [OF _ xf]) simp
    finally show ?thesis .
  qed
  have "of_int (amount * 10 ^ nat d) \<le> (of_int (2 ^ 51 * rate) :: rat)" using assms(4) by (simp only: of_int_le_iff)
  then have "?x * ?f \<le> 2 ^ 51" using assms(1) by (simp add: pos_divide_le_eq)
  then have "(1 + 1 / 2 ^ 51) * (?x * ?f) \<le> (1 + 1 / 2 ^ 51) * 2 ^ 51" by (rule mult_left_mono) simp
  then have "?y \<le> of_int (2 ^ 51 + 1)" using hi by simp
  then have "\<lceil>?y\<rceil> \<le> 2 ^ 51 + 1" by (simp only: ceiling_le_iff)
  then have k: "\<lceil>?y\<rceil> < 2 ^ 52" by simp
  have nn: "0 \<le> \<lceil>?y\<rceil>" using fl_nonneg [of "fl ?x * ?f"] fl_nonneg [OF x] f by simp
  have "coinAmount amount rate d = to_fixed (nat d) (max (fl (of_int 1 / ?f)) (fl (of_int \<lceil>?y\<rceil> / ?f)))"
    using assms(1-3) by (simp add: coinAmount_def Let_def big_number_def js_div_def js_mul_def js_ceil_def fl_of_int)
  also have "\<dots> = max (of_int 1 / ?f) (of_int \<lceil>?y\<rceil> / ?f)"
    using to_fixed_fl [of 1 "nat d"] to_fixed_fl [OF nn k, of "nat d"] by (simp add: to_fixed_max)
  also have "\<dots> = of_int (max 1 \<lceil>?y\<rceil>) / ?f" using f by (simp add: max_def divide_le_cancel)
  finally show thesis using lo hi by (rule that)
qed

lemma coinAmount_covers:
  assumes "0 < rate" and "0 \<le> amount" and "amount < 2 ^ 52" and "amount * 10 ^ nat d \<le> 2 ^ 51 * rate"
  shows "of_int amount - 1 < coinAmount amount rate d * of_int rate"
    and "coinAmount amount rate d \<le> (1 + 1 / 2 ^ 51) * (of_int amount / of_int rate) + 1 / 10 ^ nat d"
    and "0 < coinAmount amount rate d" and "coinAmount amount rate d * 10 ^ nat d \<in> \<int>"
proof -
  let ?f = "10 ^ nat d :: rat"
  let ?x = "of_int amount / of_int rate :: rat"
  obtain y :: rat where c: "coinAmount amount rate d = of_int (max 1 \<lceil>y\<rceil>) / ?f"
    and lo: "(1 - 1 / 2 ^ 52) * (?x * ?f) \<le> y" and hi: "y \<le> (1 + 1 / 2 ^ 51) * (?x * ?f)"
    using coinAmount_units [OF assms] by blast
  have f: "0 < ?f" and r: "0 < (of_int rate :: rat)" and x: "0 \<le> ?x" using assms(1,2) by simp_all
  have "(1 - 1 / 2 ^ 52) * ?x * ?f \<le> of_int (max 1 \<lceil>y\<rceil>)" using lo by (simp add: max_def; linarith)
  then have "(1 - 1 / 2 ^ 52) * ?x \<le> coinAmount amount rate d" using f by (simp only: c pos_le_divide_eq)
  then have "(1 - 1 / 2 ^ 52) * ?x * of_int rate \<le> coinAmount amount rate d * of_int rate"
    using r by (intro mult_right_mono) simp_all
  then have "(1 - 1 / 2 ^ 52) * of_int amount \<le> coinAmount amount rate d * of_int rate" using r by simp
  moreover have "of_int amount < (2 ^ 52 :: rat)"
    using assms(3) of_int_less_iff [of amount "2 ^ 52", where 'a = rat] by simp
  ultimately show "of_int amount - 1 < coinAmount amount rate d * of_int rate" by (simp add: left_diff_distrib)
  have y: "0 \<le> (1 + 1 / 2 ^ 51) * (?x * ?f)"
    by (intro mult_nonneg_nonneg x less_imp_le [OF f]) simp
  have "of_int (max 1 \<lceil>y\<rceil>) \<le> (1 + 1 / 2 ^ 51) * (?x * ?f) + 1" using hi y by (simp add: max_def; linarith)
  then have "of_int (max 1 \<lceil>y\<rceil>) / ?f \<le> ((1 + 1 / 2 ^ 51) * (?x * ?f) + 1) / ?f" using f by (intro divide_right_mono) simp_all
  also have "\<dots> = (1 + 1 / 2 ^ 51) * ?x + 1 / ?f" by (simp add: add_divide_distrib)
  finally show "coinAmount amount rate d \<le> (1 + 1 / 2 ^ 51) * ?x + 1 / ?f" by (simp only: c)
  have "0 < (of_int (max 1 \<lceil>y\<rceil>) :: rat)" by (simp only: of_int_0_less_iff)
  then show "0 < coinAmount amount rate d" using f by (simp only: c divide_pos_pos)
  show "coinAmount amount rate d * ?f \<in> \<int>" using f by (simp add: c)
qed

lemma assetRate_pos:
  assumes "assetRate s a w = (Inr r, w')" shows "1 \<le> as_rate r"
  using assms by (auto simp: assetRate_def inr_iffs withMargin_def split: rate_mode.splits prod.splits)

text \<open>
  C36: A crypto quote is worth its price to within one toman and overcharges by at most one unit and
  a rounding (bounds, every wallet and rate). When \<open>quoteAsset\<close> succeeds for a nonnegative price below
  \<open>2 ^ 52\<close> toman that is at most \<open>2 ^ 51\<close> smallest units of the coin, the rate is at least one, the amount of
  coin is a positive number with the quoted decimals, times the rate it is more than the price less
  one toman, and it exceeds the exact quotient by at most one unit of the last decimal and a relative
  error of \<open>2 ^ -51\<close>. The arithmetic is the doubles of the code, so it is not always the exact quotient rounded
  up (\<open>coinAmount_examples\<close>).
\<close>
theorem quote_covers_price:
  assumes "quoteAsset s amount a w = (Inr q, w')" and "0 \<le> amount" and "amount < 2 ^ 52"
    and "of_int amount * 10 ^ nat (cq_decimals q) \<le> 2 ^ 51 * cq_rateIrt q"
  shows "1 \<le> cq_rateIrt q \<and> of_int amount - 1 < cq_amount q * cq_rateIrt q \<and>
    cq_amount q \<le> (1 + 1 / 2 ^ 51) * (of_int amount / cq_rateIrt q) + 1 / 10 ^ nat (cq_decimals q) \<and>
    0 < cq_amount q \<and> cq_amount q * 10 ^ nat (cq_decimals q) \<in> \<int> \<and> cq_address q = ca_address a"
proof -
  obtain r :: asset_rate where r: "1 \<le> as_rate r" and q: "cq_rateIrt q = of_int (as_rate r)" "cq_decimals q = decimalsFor a (as_rate r)"
    "cq_amount q = coinAmount amount (as_rate r) (decimalsFor a (as_rate r))" "cq_address q = ca_address a"
  proof -
    obtain r w1 where r: "assetRate s a w = (Inr r, w1)" and q: "cq_rateIrt q = of_int (as_rate r)" "cq_decimals q = decimalsFor a (as_rate r)"
      "cq_amount q = coinAmount amount (as_rate r) (decimalsFor a (as_rate r))" "cq_address q = ca_address a"
      using assms(1) by (auto simp: quoteAsset_def now_def inr_iffs Let_def)
    show thesis by (rule that [OF assetRate_pos [OF r] q])
  qed
  have "of_int (amount * 10 ^ nat (decimalsFor a (as_rate r))) \<le> (of_int (2 ^ 51 * as_rate r) :: rat)"
    using assms(4) by (simp add: q)
  then have "amount * 10 ^ nat (decimalsFor a (as_rate r)) \<le> 2 ^ 51 * as_rate r" by (simp only: of_int_le_iff)
  then show ?thesis using coinAmount_covers [of "as_rate r" amount "decimalsFor a (as_rate r)"] r assms(2,3) by (simp add: q)
qed

lemma quote_covers_price_witness:
  "\<exists>q w'. quoteAsset demo_store 1000000 demo_asset demo_world = (Inr q, w') \<and> cq_amount q = 334 / 100 \<and>
     1000000 - 1 < cq_amount q * cq_rateIrt q"
proof -
  have "(case fst (quoteAsset demo_store 1000000 demo_asset demo_world) of Inl _ \<Rightarrow> False
     | Inr q \<Rightarrow> cq_amount q = 334 / 100 \<and> 1000000 * 10 ^ nat (cq_decimals q) \<le> 2 ^ 51 * cq_rateIrt q)" by code_simp
  then obtain q w' where run: "quoteAsset demo_store 1000000 demo_asset demo_world = (Inr q, w')" and c: "cq_amount q = 334 / 100"
    and sz: "of_int 1000000 * 10 ^ nat (cq_decimals q) \<le> 2 ^ 51 * cq_rateIrt q"
    by (cases "quoteAsset demo_store 1000000 demo_asset demo_world") (auto split: sum.splits)
  have "of_int 1000000 - 1 < cq_amount q * cq_rateIrt q" using quote_covers_price [OF run _ _ sz] by simp
  then have "1000000 - 1 < cq_amount q * cq_rateIrt q" by (simp only: of_int_numeral)
  with run c show ?thesis by blast
qed

end
