(* ===== verification/Gateways.thy ===== *)
theory Gateways
  imports Fx
begin

text \<open>
  The payment gateway and the block explorers: \<open>zarinpal.ts\<close> and \<open>tron.ts\<close> under
  \<open>packages/core/src/services\<close>. The services answer with JSON (\<open>ext_http_json\<close>, \<open>ext_http_get\<close>); what
  the code makes of every answer is modelled. An amount that JavaScript would call \<open>NaN\<close> is \<open>None\<close>.
\<close>

section \<open>Conversions\<close>

definition js_truthy :: "jval option \<Rightarrow> bool" where
  "js_truthy v = (case v of None \<Rightarrow> False | Some VNull \<Rightarrow> False | Some (VBool b) \<Rightarrow> b | Some (VNum n) \<Rightarrow> n \<noteq> 0
     | Some (VStr s) \<Rightarrow> s \<noteq> [] | Some (VArr _) \<Rightarrow> True | Some (VObj _) \<Rightarrow> True)"

text \<open>\<open>Number(text)\<close>, for decimal notation with an optional sign.\<close>
definition decimal_text :: "string \<Rightarrow> rat option" where
  "decimal_text s = (case str_trim s of
     [] \<Rightarrow> Some 0
   | c # t \<Rightarrow> if c = CHR ''-'' then map_option uminus (unsigned_number t)
              else if c = CHR ''+'' then unsigned_number t else unsigned_number (c # t))"

text \<open>\<open>Number(v)\<close>; a list is not read as a number.\<close>
definition js_Number :: "jval option \<Rightarrow> rat option" where
  "js_Number v = (case v of None \<Rightarrow> None | Some VNull \<Rightarrow> Some 0 | Some (VBool b) \<Rightarrow> Some (if b then 1 else 0)
     | Some (VNum n) \<Rightarrow> Some n | Some (VStr s) \<Rightarrow> decimal_text s | Some (VArr _) \<Rightarrow> None | Some (VObj _) \<Rightarrow> None)"

text \<open>\<open>String(v)\<close> of a text or a whole number; the fields it is used on hold nothing else.\<close>
definition js_String :: "jval option \<Rightarrow> string" where
  "js_String v = (case v of None \<Rightarrow> ''undefined'' | Some VNull \<Rightarrow> ''null'' | Some (VBool b) \<Rightarrow> (if b then ''true'' else ''false'')
     | Some (VNum n) \<Rightarrow> show_int \<lfloor>n\<rfloor> | Some (VStr s) \<Rightarrow> s | Some (VArr _) \<Rightarrow> [] | Some (VObj _) \<Rightarrow> ''[object Object]'')"

section \<open>Zarinpal\<close>

definition zp_host :: "bool \<Rightarrow> string" where
  "zp_host sandbox = (if sandbox then ''https://sandbox.zarinpal.com'' else ''https://payment.zarinpal.com'')"

text \<open>\<open>res.json().catch(() => ({}))\<close>: a body that is not JSON counts as the empty object.\<close>
definition zpPost :: "services \<Rightarrow> time \<Rightarrow> bool \<Rightarrow> string \<Rightarrow> jval \<Rightarrow> string + jval" where
  "zpPost x tm sandbox path body = (case ext_http_json x tm (zp_host sandbox @ path) body of
     HttpFail e \<Rightarrow> Inl e
   | HttpReply st b \<Rightarrow> (case b of Inl _ \<Rightarrow> Inr (VObj []) | Inr j \<Rightarrow> Inr j))"

text \<open>Reading a property of a null answer throws; the functions below catch it.\<close>
definition not_null :: "jval \<Rightarrow> string + jval" where
  "not_null j = (if j = VNull then Inl ''cannot read properties of null'' else Inr j)"

definition zpError :: "jval \<Rightarrow> string" where
  "zpError j =
    (let errors = jfield ''errors'' (Some j); is_list = (case errors of Some (VArr _) \<Rightarrow> True | _ \<Rightarrow> False)
     in if js_truthy errors \<and> \<not> is_list
        then js_String (nullish (jfield ''message'' errors) (Some (VStr ''Zarinpal error'')))
        else ''bad answer of Zarinpal'')"

record zp_request =
  zr_merchantId :: string
  zr_amount :: int
  zr_description :: string
  zr_callbackUrl :: string
  zr_sandbox :: bool
  zr_mobile :: "string option"
  zr_email :: "string option"

definition request_body :: "zp_request \<Rightarrow> jval" where
  "request_body r = VObj
    [(''merchant_id'', VStr (zr_merchantId r)), (''amount'', VNum (of_int (zr_amount r))), (''currency'', VStr ''IRT''),
     (''description'', VStr (take 250 (zr_description r))), (''callback_url'', VStr (zr_callbackUrl r)),
     (''metadata'', VObj (str_or (zr_mobile r) [] (\<lambda>m. [(''mobile'', VStr m)]) @ str_or (zr_email r) [] (\<lambda>e. [(''email'', VStr e)])))]"

text \<open>The authority and the address to send the payer to, or the error.\<close>
definition zarinpalRequest :: "services \<Rightarrow> time \<Rightarrow> zp_request \<Rightarrow> string + (string \<times> string)" where
  "zarinpalRequest x tm r =
    and_then (zpPost x tm (zr_sandbox r) ''/pg/v4/payment/request.json'' (request_body r)) (\<lambda>j0. and_then (not_null j0) (\<lambda>j.
      let data = jfield ''data'' (Some j) in
      case jfield ''authority'' data of
        Some (VStr a) \<Rightarrow> if js_truthy data \<and> js_Number (jfield ''code'' data) = Some 100
          then Inr (a, zp_host (zr_sandbox r) @ ''/pg/StartPay/'' @ a) else Inl (zpError j)
      | _ \<Rightarrow> Inl (zpError j)))"

record zp_verified =
  zv_refId :: string
  zv_cardPan :: "string option"
  zv_alreadyVerified :: bool

definition zarinpalVerify :: "services \<Rightarrow> time \<Rightarrow> string \<Rightarrow> int \<Rightarrow> string \<Rightarrow> bool \<Rightarrow> string + zp_verified" where
  "zarinpalVerify x tm merchantId amount authority sandbox =
    and_then (zpPost x tm sandbox ''/pg/v4/payment/verify.json''
      (VObj [(''merchant_id'', VStr merchantId), (''amount'', VNum (of_int amount)), (''currency'', VStr ''IRT''), (''authority'', VStr authority)]))
      (\<lambda>j0. and_then (not_null j0) (\<lambda>j.
      let data = jfield ''data'' (Some j); code = (if js_truthy data then js_Number (jfield ''code'' data) else None) in
      if code = Some 100 \<or> code = Some 101
      then Inr \<lparr>zv_refId = js_String (nullish (jfield ''ref_id'' data) (Some (VStr []))),
                zv_cardPan = (if js_truthy (jfield ''card_pan'' data) then Some (js_String (jfield ''card_pan'' data)) else None),
                zv_alreadyVerified = (code = Some 101)\<rparr>
      else Inl (zpError j)))"

section \<open>Tron addresses\<close>

definition USDT_TRC20 :: string where
  "USDT_TRC20 = ''TR7NHqjeKQxGTCi8q8ZY4pL8otSzgjLj6t''"

definition B58 :: string where
  "B58 = ''123456789ABCDEFGHJKLMNPQRSTUVWXYZabcdefghijkmnopqrstuvwxyz''"

function base58_loop :: "nat \<Rightarrow> string \<Rightarrow> string" where
  "base58_loop n out = (if n = 0 then out else base58_loop (n div 58) ((B58 ! (n mod 58)) # out))"
  by auto
termination by (relation "measure fst") auto

declare base58_loop.simps [simp del]

definition base58 :: "nat list \<Rightarrow> string" where
  "base58 bytes = map (\<lambda>_. CHR ''1'') (takeWhile (\<lambda>b. b = 0) bytes) @ base58_loop (foldl (\<lambda>n b. n * 256 + b) 0 bytes) []"

definition is_hex :: "char \<Rightarrow> bool" where
  "is_hex c \<longleftrightarrow> c \<in> set ''0123456789abcdefABCDEF''"

definition hex_value :: "char \<Rightarrow> nat" where
  "hex_value c = length (takeWhile (\<lambda>d. d \<noteq> char_lower c) ''0123456789abcdef'')"

text \<open>\<open>Buffer.from(h, "hex")\<close>: pairs of digits, up to the first that is not one.\<close>
fun hex_bytes :: "string \<Rightarrow> nat list" where
  "hex_bytes (a # b # rest) = (if is_hex a \<and> is_hex b then (16 * hex_value a + hex_value b) # hex_bytes rest else [])"
| "hex_bytes _ = []"

definition strip_0x :: "string \<Rightarrow> string" where
  "strip_0x s = (if take 2 s = ''0x'' then drop 2 s else s)"

definition tronHexToBase58 :: "services \<Rightarrow> string \<Rightarrow> string" where
  "tronHexToBase58 x hex =
    (let h0 = strip_0x (to_lower hex); h = (if length h0 = 40 then ''41'' @ h0 else h0)
     in if length h \<noteq> 42 then hex
        else let payload = hex_bytes h; c1 = ext_sha256_bytes x payload; c2 = ext_sha256_bytes x c1
          in base58 (payload @ take 4 c2))"

section \<open>Verifying a transfer\<close>

datatype tron_status = T_confirmed | T_pending | T_not_found | T_mismatch | T_error

record tron_result =
  tr_ok :: bool
  tr_status :: tron_status
  tr_amount :: "rat option"
  tr_error :: "string option"

definition tron_fail :: "tron_status \<Rightarrow> rat option \<Rightarrow> string \<Rightarrow> tron_result" where
  "tron_fail st amount e = \<lparr>tr_ok = False, tr_status = st, tr_amount = amount, tr_error = Some e\<rparr>"

definition tron_success :: "rat option \<Rightarrow> tron_result" where
  "tron_success amount = \<lparr>tr_ok = True, tr_status = T_confirmed, tr_amount = amount, tr_error = None\<rparr>"

definition isTxid :: "string \<Rightarrow> bool" where
  "isTxid s \<longleftrightarrow> length s = 64 \<and> list_all is_hex s"

text \<open>\<open>amount + tolerance < minAmount\<close>, false for \<open>NaN\<close>.\<close>
definition too_little :: "rat option \<Rightarrow> rat \<Rightarrow> rat \<Rightarrow> bool" where
  "too_little amount tolerance minAmount = (case amount of None \<Rightarrow> False | Some a \<Rightarrow> a + tolerance < minAmount)"

text \<open>\<open>a / 10 ** d\<close>, for whole \<open>d\<close>.\<close>
definition scale_down :: "rat option \<Rightarrow> rat option \<Rightarrow> rat option" where
  "scale_down a d = (case (a, d) of
     (Some n, Some e) \<Rightarrow> Some (if 0 \<le> e then n / 10 ^ nat \<lfloor>e\<rfloor> else n * 10 ^ nat (- \<lfloor>e\<rfloor>))
   | _ \<Rightarrow> None)"

text \<open>\<open>Object.keys(j).length\<close> of an answer.\<close>
definition has_keys :: "jval \<Rightarrow> bool" where
  "has_keys j = (case j of VObj fs \<Rightarrow> fs \<noteq> [] | VArr xs \<Rightarrow> xs \<noteq> [] | VStr s \<Rightarrow> s \<noteq> [] | _ \<Rightarrow> False)"

definition transfers_of :: "jval \<Rightarrow> jval list" where
  "transfers_of j = (case jfield ''trc20TransferInfo'' (Some j) of
     Some (VArr xs) \<Rightarrow> xs
   | _ \<Rightarrow> (case jfield ''tokenTransferInfo'' (Some j) of Some (VArr xs) \<Rightarrow> [VArr xs] | _ \<Rightarrow> []))"

definition is_transfer_to :: "string \<Rightarrow> jval \<Rightarrow> bool" where
  "is_transfer_to want t \<longleftrightarrow>
     js_String (nullish (jfield ''contract_address'' (Some t)) (Some (VStr []))) = USDT_TRC20 \<and>
     js_String (nullish (jfield ''to_address'' (Some t)) (Some (VStr []))) = want"

definition scan_amount :: "jval \<Rightarrow> rat option" where
  "scan_amount t = scale_down
     (js_Number (nullish (jfield ''amount_str'' (Some t)) (nullish (jfield ''amount'' (Some t)) (Some (VNum 0)))))
     (js_Number (nullish (jfield ''decimals'' (Some t)) (Some (VNum 6))))"

definition scan_confirmed :: "jval \<Rightarrow> bool" where
  "scan_confirmed j \<longleftrightarrow> js_truthy (jfield ''confirmed'' (Some j)) \<and>
     (jfield ''contractRet'' (Some j) = None \<or> jfield ''contractRet'' (Some j) = Some (VStr ''SUCCESS''))"

text \<open>The verdict on a Tronscan answer; \<open>None\<close> goes on to the other explorer.\<close>
definition judge_scan :: "string \<Rightarrow> rat \<Rightarrow> rat \<Rightarrow> jval \<Rightarrow> tron_result option" where
  "judge_scan want minAmount tolerance j =
    (if \<not> has_keys j then None
     else case find_market (is_transfer_to want) (transfers_of j) of
       Inl _ \<Rightarrow> None
     | Inr None \<Rightarrow> Some (tron_fail T_mismatch None ''not a USDT transfer to the address of the shop'')
     | Inr (Some t) \<Rightarrow>
        (let amount = scan_amount t in
         Some (if \<not> scan_confirmed j then tron_fail T_pending amount ''the transaction is not confirmed yet''
           else if too_little amount tolerance minAmount then tron_fail T_mismatch amount ''the amount is less than the order''
           else tron_success amount)))"

definition tronscan_url :: "string \<Rightarrow> string" where
  "tronscan_url i = ''https://apilist.tronscanapi.com/api/transaction-info?hash='' @ i"

definition trongrid_url :: "string \<Rightarrow> string" where
  "trongrid_url i = ''https://api.trongrid.io/v1/transactions/'' @ i @ ''/events''"

definition ask_tronscan :: "services \<Rightarrow> time \<Rightarrow> string \<Rightarrow> string \<Rightarrow> rat \<Rightarrow> rat \<Rightarrow> tron_result option" where
  "ask_tronscan x tm i want minAmount tolerance = (case ext_http_get x tm (tronscan_url i) of
     HttpFail _ \<Rightarrow> None
   | HttpReply st b \<Rightarrow> if st < 200 \<or> 299 < st then None
       else (case b of Inl _ \<Rightarrow> None | Inr j \<Rightarrow> judge_scan want minAmount tolerance j))"

definition event_to :: "services \<Rightarrow> jval \<Rightarrow> string" where
  "event_to x ev = tronHexToBase58 x (js_String (nullish (jfield ''to'' (jfield ''result'' (Some ev))) (Some (VStr []))))"

definition event_amount :: "jval \<Rightarrow> rat option" where
  "event_amount ev = map_option (\<lambda>v. v / 10 ^ 6) (js_Number (nullish (jfield ''value'' (jfield ''result'' (Some ev))) (Some (VNum 0))))"

definition is_usdt_event :: "jval \<Rightarrow> bool" where
  "is_usdt_event ev \<longleftrightarrow> jfield ''event_name'' (Some ev) = Some (VStr ''Transfer'') \<and>
     js_String (jfield ''contract_address'' (Some ev)) = USDT_TRC20"

text \<open>The loop over the events of a TronGrid answer.\<close>
fun judge_events :: "services \<Rightarrow> string \<Rightarrow> rat \<Rightarrow> rat \<Rightarrow> jval list \<Rightarrow> tron_result" where
  "judge_events x want minAmount tolerance [] = tron_fail T_mismatch None ''no USDT transfer to the address of the shop''"
| "judge_events x want minAmount tolerance (ev # evs) =
    (if ev = VNull then tron_fail T_error None ''cannot read properties of null''
     else if \<not> is_usdt_event ev \<or> event_to x ev \<noteq> want then judge_events x want minAmount tolerance evs
     else if too_little (event_amount ev) tolerance minAmount
       then tron_fail T_mismatch (event_amount ev) ''the amount is less than the order''
     else tron_success (event_amount ev))"

text \<open>\<open>j.data ?? []\<close>: the events, and nothing for a value that has no length.\<close>
definition events_of :: "jval \<Rightarrow> jval list" where
  "events_of j = (case jfield ''data'' (Some j) of
     Some (VArr xs) \<Rightarrow> xs
   | Some (VStr s) \<Rightarrow> map (\<lambda>c. VStr [c]) s
   | _ \<Rightarrow> [])"

definition ask_trongrid :: "services \<Rightarrow> time \<Rightarrow> string \<Rightarrow> string \<Rightarrow> rat \<Rightarrow> rat \<Rightarrow> tron_result" where
  "ask_trongrid x tm i want minAmount tolerance = (case ext_http_get x tm (trongrid_url i) of
     HttpFail e \<Rightarrow> tron_fail T_error None e
   | HttpReply st b \<Rightarrow> if st < 200 \<or> 299 < st then tron_fail T_error None (''TronGrid HTTP '' @ show_int st)
       else (case b of
         Inl e \<Rightarrow> tron_fail T_error None e
       | Inr j \<Rightarrow> if j = VNull then tron_fail T_error None ''cannot read properties of null''
           else if events_of j = [] then tron_fail T_not_found None ''transaction not found''
           else judge_events x want minAmount tolerance (events_of j)))"

definition verifyTrc20Payment :: "services \<Rightarrow> time \<Rightarrow> string \<Rightarrow> string \<Rightarrow> rat \<Rightarrow> rat \<Rightarrow> tron_result" where
  "verifyTrc20Payment x tm txid toAddress minAmount tolerance =
    (let i = strip_0x (str_trim txid); want = str_trim toAddress in
     if \<not> isTxid i then tron_fail T_mismatch None ''TXID is not valid''
     else case ask_tronscan x tm i want minAmount tolerance of
       Some r \<Rightarrow> r
     | None \<Rightarrow> ask_trongrid x tm i want minAmount tolerance)"

section \<open>Positional notation\<close>

definition of_base :: "nat \<Rightarrow> nat list \<Rightarrow> nat" where
  "of_base b ds = foldl (\<lambda>n d. n * b + d) 0 ds"

function to_base :: "nat \<Rightarrow> nat \<Rightarrow> nat list" where
  "to_base b n = (if n = 0 \<or> b < 2 then [] else to_base b (n div b) @ [n mod b])"
  by auto
termination by (relation "measure snd") auto

declare to_base.simps [simp del]

lemma of_base_snoc [simp]: "of_base b (ds @ [d]) = of_base b ds * b + d"
  by (simp add: of_base_def)

lemma of_base_Nil [simp]: "of_base b [] = 0"
  by (simp add: of_base_def)

lemma of_to_base: "2 \<le> b \<Longrightarrow> of_base b (to_base b n) = n"
  by (induction b n rule: to_base.induct) (subst to_base.simps, simp)

lemma of_base_zeros: "of_base b (replicate k 0 @ ds) = of_base b ds"
proof -
  have "foldl (\<lambda>n d. n * b + d) 0 (replicate k 0) = 0" by (induction k) auto
  then show ?thesis by (simp add: of_base_def)
qed

lemma of_base_pos: "ds \<noteq> [] \<Longrightarrow> hd ds \<noteq> 0 \<Longrightarrow> 2 \<le> b \<Longrightarrow> 0 < of_base b ds"
proof (induction ds rule: rev_induct)
  case Nil
  then show ?case by simp
next
  case (snoc d ds)
  then show ?case using of_base_snoc [of b "[]" d] by (cases "ds = []") (auto simp: hd_append)
qed

lemma to_of_base:
  assumes "2 \<le> b" and "\<forall>d \<in> set ds. d < b" and "ds = [] \<or> hd ds \<noteq> 0"
  shows "to_base b (of_base b ds) = ds"
  using assms(2,3)
proof (induction ds rule: rev_induct)
  case Nil
  then show ?case by (simp add: to_base.simps)
next
  case (snoc d ds)
  have d: "d < b" "\<forall>d \<in> set ds. d < b" using snoc.prems(1) by auto
  have hd: "ds = [] \<or> hd ds \<noteq> 0" using snoc.prems(2) by (cases ds) auto
  have "0 < of_base b (ds @ [d])" using snoc.prems(2) assms(1) by (intro of_base_pos) auto
  then show ?case
    using snoc.IH [OF d(2) hd] d(1) assms(1) by (subst to_base.simps) simp
qed

lemma base58_loop_digits: "base58_loop n out = map ((!) B58) (to_base 58 n) @ out"
proof (induction n out rule: base58_loop.induct)
  case (1 n out)
  show ?case
  proof (cases "n = 0")
    case True
    then show ?thesis by (simp add: base58_loop.simps to_base.simps)
  next
    case False
    then show ?thesis using 1 by (subst base58_loop.simps, subst to_base.simps) simp
  qed
qed

text \<open>The decoder of wallets: the value of the digits, and a zero byte for every leading one.\<close>
definition b58_digit :: "char \<Rightarrow> nat" where
  "b58_digit c = length (takeWhile (\<lambda>d. d \<noteq> c) B58)"

definition unbase58 :: "string \<Rightarrow> nat list" where
  "unbase58 s = replicate (length (takeWhile (\<lambda>c. c = CHR ''1'') s)) 0 @ to_base 256 (of_base 58 (map b58_digit s))"

lemma b58_digit_nth:
  assumes "d < 58" shows "b58_digit (B58 ! d) = d"
proof -
  have "\<forall>d \<in> set [0..<58]. b58_digit (B58 ! d) = d" by code_simp
  then show ?thesis using assms by simp
qed

lemma to_base_digits: "2 \<le> b \<Longrightarrow> d \<in> set (to_base b n) \<Longrightarrow> d < b"
proof (induction b n rule: to_base.induct)
  case (1 b n)
  show ?case
  proof (cases "n = 0 \<or> b < 2")
    case True
    then show ?thesis using 1(3) by (simp add: to_base.simps)
  next
    case False
    then show ?thesis using 1 by (auto simp: to_base.simps [of b n])
  qed
qed

lemma to_base_hd: "2 \<le> b \<Longrightarrow> to_base b n \<noteq> [] \<Longrightarrow> hd (to_base b n) \<noteq> 0"
proof (induction b n rule: to_base.induct)
  case (1 b n)
  have n: "n \<noteq> 0" using 1(3) to_base.simps [of b n] by (auto split: if_splits)
  have eq: "to_base b n = to_base b (n div b) @ [n mod b]" using n 1(2) by (subst to_base.simps) simp
  show ?case
  proof (cases "to_base b (n div b) = []")
    case True
    then have "n div b = 0" using 1(2) of_to_base [of b "n div b"] by simp
    then have "n mod b = n" using div_mult_mod_eq [of n b] by simp
    then show ?thesis using n True by (simp add: eq)
  next
    case False
    then show ?thesis using 1 n by (simp add: eq hd_append)
  qed
qed

text \<open>
  Addresses survive their notation (round trip, every byte string). Decoding what \<open>base58\<close>
  writes gives back the same bytes, leading zeros included, so two different addresses never look
  the same to \<open>verifyTrc20Payment\<close>.
\<close>
theorem base58_roundtrip:
  assumes "\<forall>b \<in> set bytes. b < 256"
  shows "unbase58 (base58 bytes) = bytes"
proof -
  let ?k = "length (takeWhile (\<lambda>b. b = 0) bytes)"
  let ?rest = "dropWhile (\<lambda>b. b = 0) bytes"
  let ?n = "of_base 256 bytes"
  have split: "bytes = replicate ?k 0 @ ?rest"
    by (metis (mono_tags, lifting) replicate_eqI set_takeWhileD takeWhile_dropWhile_id)
  have n: "of_base 256 ?rest = ?n" by (subst (2) split) (simp add: of_base_zeros)
  have rest: "to_base 256 ?n = ?rest"
    unfolding n [symmetric] by (rule to_of_base) (use assms set_dropWhileD hd_dropWhile [of "\<lambda>b. b = 0" bytes] in fastforce)+
  have b: "base58 bytes = replicate ?k (CHR ''1'') @ map ((!) B58) (to_base 58 ?n)"
    by (simp add: base58_def base58_loop_digits of_base_def map_replicate_const)
  have ones: "takeWhile (\<lambda>c. c = CHR ''1'') (map ((!) B58) (to_base 58 ?n)) = []"
  proof (cases "to_base 58 ?n")
    case (Cons d ds)
    then have "d \<noteq> 0" "d < 58" using to_base_hd [of 58 ?n] to_base_digits [of 58 d ?n] by simp_all
    then have "b58_digit (B58 ! d) \<noteq> b58_digit (CHR ''1'')" by (simp add: b58_digit_nth) (simp add: b58_digit_def B58_def)
    then show ?thesis using Cons by auto
  qed simp
  have one: "b58_digit (CHR ''1'') = 0" by (simp add: b58_digit_def B58_def)
  have "map (b58_digit \<circ> (!) B58) (to_base 58 ?n) = to_base 58 ?n"
    by (rule map_idI) (simp add: b58_digit_nth to_base_digits)
  then have "unbase58 (base58 bytes) = replicate ?k 0 @ to_base 256 ?n"
    using ones by (simp add: unbase58_def b takeWhile_append one of_base_zeros of_to_base)
  then show ?thesis using split rest by simp
qed

lemma base58_roundtrip_witness:
  "base58 [0, 65, 255] = ''162J'' \<and> unbase58 ''162J'' = [0, 65, 255]"
proof -
  have e: "base58 [0, 65, 255] = ''162J''" by (simp add: base58_def base58_loop.simps B58_def)
  have "unbase58 (base58 [0, 65, 255]) = [0, 65, 255]" by (rule base58_roundtrip) simp
  then show ?thesis by (simp add: e)
qed

section \<open>What a verified transfer is\<close>

definition http_ok :: "http_reply \<Rightarrow> jval \<Rightarrow> bool" where
  "http_ok r j \<longleftrightarrow> (\<exists>st. r = HttpReply st (Inr j) \<and> 200 \<le> st \<and> st \<le> 299)"

lemma find_market_in: "find_market P rows = Inr (Some r) \<Longrightarrow> r \<in> set rows \<and> P r"
  by (induction rows) (auto split: if_splits)

lemma tron_result_sel [simp]:
  "tr_ok (tron_fail st a e) = False" "tr_ok (tron_success a) = True" "tr_amount (tron_success a) = a"
  by (simp_all add: tron_fail_def tron_success_def)

lemma judge_scan_ok:
  assumes "judge_scan want m tol j = Some r" and "tr_ok r"
  shows "scan_confirmed j \<and> \<not> too_little (tr_amount r) tol m \<and>
    (\<exists>t \<in> set (transfers_of j). is_transfer_to want t \<and> scan_amount t = tr_amount r)"
  using assms by (auto simp: judge_scan_def Let_def split: if_splits sum.splits option.splits dest: find_market_in)

lemma judge_events_ok:
  assumes "tr_ok (judge_events x want m tol evs)"
  shows "\<not> too_little (tr_amount (judge_events x want m tol evs)) tol m \<and>
    (\<exists>ev \<in> set evs. is_usdt_event ev \<and> event_to x ev = want \<and> event_amount ev = tr_amount (judge_events x want m tol evs))"
  using assms by (induction evs) (auto split: if_splits)

text \<open>
  C37: A payment is verified only by a transfer to the shop (safety). When
  \<open>verifyTrc20Payment\<close> reports success, the id is 64 hexadecimal digits, one of the two explorers
  answered with a USDT transfer to the wanted address (a confirmed one, for Tronscan), and its
  amount, unless it is not a number at all, is at least the amount due minus the tolerance.
\<close>
theorem verified_transfer:
  assumes "r = verifyTrc20Payment x tm txid to m tol" and "tr_ok r"
  shows "isTxid (strip_0x (str_trim txid)) \<and> (case tr_amount r of None \<Rightarrow> True | Some a \<Rightarrow> m \<le> a + tol) \<and>
    ((\<exists>j t. http_ok (ext_http_get x tm (tronscan_url (strip_0x (str_trim txid)))) j \<and> scan_confirmed j \<and> t \<in> set (transfers_of j) \<and>
        is_transfer_to (str_trim to) t \<and> scan_amount t = tr_amount r) \<or>
     (\<exists>j ev. http_ok (ext_http_get x tm (trongrid_url (strip_0x (str_trim txid)))) j \<and> ev \<in> set (events_of j) \<and> is_usdt_event ev \<and>
        event_to x ev = str_trim to \<and> event_amount ev = tr_amount r))"
proof -
  let ?i = "strip_0x (str_trim txid)"
  have i: "isTxid ?i" using assms by (auto simp: verifyTrc20Payment_def Let_def split: if_splits)
  show ?thesis
  proof (cases "ask_tronscan x tm ?i (str_trim to) m tol")
    case None
    then have r: "r = ask_trongrid x tm ?i (str_trim to) m tol" using assms(1) i by (simp add: verifyTrc20Payment_def)
    then obtain st j where j: "ext_http_get x tm (trongrid_url ?i) = HttpReply st (Inr j)" "200 \<le> st" "st \<le> 299"
      and re: "r = judge_events x (str_trim to) m tol (events_of j)"
      using assms(2) by (auto simp: ask_trongrid_def split: http_reply.splits if_splits sum.splits)
    have "http_ok (ext_http_get x tm (trongrid_url ?i)) j" using j by (simp add: http_ok_def)
    then show ?thesis
      using judge_events_ok [of x "str_trim to" m tol "events_of j"] assms(2) i
      by (auto simp: re too_little_def split: option.splits)
  next
    case (Some r')
    then have r: "r' = r" using assms(1) i by (simp add: verifyTrc20Payment_def)
    then obtain st j where j: "ext_http_get x tm (tronscan_url ?i) = HttpReply st (Inr j)" "200 \<le> st" "st \<le> 299"
      and re: "judge_scan (str_trim to) m tol j = Some r"
      using Some by (auto simp: ask_tronscan_def split: http_reply.splits if_splits sum.splits)
    have "http_ok (ext_http_get x tm (tronscan_url ?i)) j" using j by (simp add: http_ok_def)
    then show ?thesis
      using judge_scan_ok [OF re assms(2)] i by (auto simp: too_little_def split: option.splits)
  qed
qed

definition demo_transfer :: "string \<Rightarrow> string \<Rightarrow> jval" where
  "demo_transfer amount decimals = VObj [(''confirmed'', VBool True), (''contractRet'', VStr ''SUCCESS''),
     (''trc20TransferInfo'', VArr [VObj [(''contract_address'', VStr USDT_TRC20), (''to_address'', VStr ''Taddr''),
       (''amount_str'', VStr amount), (''decimals'', VStr decimals)]])]"

definition demo_scan :: "string \<Rightarrow> string \<Rightarrow> services" where
  "demo_scan amount decimals = demo_services\<lparr>ext_http_get := (\<lambda>tm url. HttpReply 200 (Inr (demo_transfer amount decimals)))\<rparr>"

definition demo_txid :: string where
  "demo_txid = replicate 64 (CHR ''a'')"

lemma verified_transfer_witness:
  "tr_ok (verifyTrc20Payment (demo_scan ''16670000'' ''6'') 0 demo_txid ''Taddr'' (1667 / 100) (2 / 100)) \<and>
   isTxid (strip_0x (str_trim demo_txid))"
proof -
  let ?r = "verifyTrc20Payment (demo_scan ''16670000'' ''6'') 0 demo_txid ''Taddr'' (1667 / 100) (2 / 100)"
  have "tr_ok ?r" by code_simp
  then show ?thesis using verified_transfer [OF refl, of "demo_scan ''16670000'' ''6''" 0 demo_txid "''Taddr''" "1667 / 100" "2 / 100"] by blast
qed

text \<open>
  An amount that is not a number passes the check (error handling). A confirmed transfer to the
  shop whose amount or decimals Tronscan sends as an unreadable text verifies a payment of any size,
  because the comparison with \<open>NaN\<close> is false.
\<close>
theorem unreadable_amount_verified:
  assumes "isTxid txid" and "strip_0x (str_trim txid) = txid" and "ext_http_get x tm (tronscan_url txid) = HttpReply 200 (Inr j)"
    and "has_keys j" and "find_market (is_transfer_to (str_trim to)) (transfers_of j) = Inr (Some t)"
    and "scan_confirmed j" and "scan_amount t = None"
  shows "tr_ok (verifyTrc20Payment x tm txid to m tol)"
  using assms by (simp add: verifyTrc20Payment_def ask_tronscan_def judge_scan_def too_little_def)

lemma unreadable_amount_verified_witness:
  "tr_ok (verifyTrc20Payment (demo_scan ''1'' ''six'') 0 demo_txid ''Taddr'' 1000000 (2 / 100))"
proof (rule unreadable_amount_verified)
  show "isTxid demo_txid" "strip_0x (str_trim demo_txid) = demo_txid" by code_simp+
  show "ext_http_get (demo_scan ''1'' ''six'') 0 (tronscan_url demo_txid) = HttpReply 200 (Inr (demo_transfer ''1'' ''six''))"
    by (simp add: demo_scan_def)
  show "has_keys (demo_transfer ''1'' ''six'')" "scan_confirmed (demo_transfer ''1'' ''six'')" by code_simp+
  let ?t = "VObj [(''contract_address'', VStr USDT_TRC20), (''to_address'', VStr ''Taddr''), (''amount_str'', VStr ''1''), (''decimals'', VStr ''six'')]"
  show "find_market (is_transfer_to (str_trim ''Taddr'')) (transfers_of (demo_transfer ''1'' ''six'')) = Inr (Some ?t)" by code_simp
  show "scan_amount ?t = None" by code_simp
qed

end
