(* ===== verification/Payments.thy ===== *)
theory Payments
  imports Fulfillment Customers CryptoAssets Gateways
begin

text \<open>
  \<open>payments.ts\<close>: opening a payment by any method, the proofs payers submit, review, automatic
  confirmation (gateway callback, blockchain), expiry, and what a confirmed payment settles: an order,
  a reseller's wallet or a customer's wallet.
\<close>

section \<open>Opening a payment\<close>

record usdt_next =
  un_address :: string
  un_network :: string
  un_amountUsdt :: rat
  un_rate :: rat
  un_symbol :: string
  un_memo :: "string option"
  un_label :: "string option"
  un_assetId :: "string option"

datatype payment_next =
    NextUsdt usdt_next
  | NextCard "string option" "string option" "string option"
  | NextRedirect string
  | NextReview
  | NextDone
  | NextNone

text \<open>The arithmetic of the doubles, as in \<open>coinAmount\<close> with two decimals.\<close>
definition usdtAmountFor :: "int \<Rightarrow> int \<Rightarrow> rat" where
  "usdtAmountFor amountIrt rate =
    (if rate \<le> 0 then 0
     else to_fixed 2 (max (js_div 1 100)
         (js_div (of_int (js_ceil (js_mul (js_div (big_number amountIrt) (of_int rate)) 100))) 100)))"

record begin_input =
  bp_kind :: payment_kind
  bp_method :: payment_method
  bp_amount :: int
  bp_adminId :: uid
  bp_orderId :: "uid option"
  bp_description :: string
  bp_mobile :: "string option"
  bp_email :: "string option"
  bp_assetId :: "string option"

definition blank_meta :: pay_meta where
  "blank_meta = \<lparr>meta_crypto = None, meta_verify = None, meta_tries = 0, meta_amountSeen = None, meta_startUrl = None\<rparr>"

text \<open>A new row: the \<open>base\<close> data and the defaults of the columns.\<close>
definition new_payment :: "store_settings \<Rightarrow> begin_input \<Rightarrow> time \<Rightarrow> uid \<Rightarrow> payment" where
  "new_payment s inp tm k = \<lparr>pay_id = k, pay_kind = bp_kind inp, pay_method = bp_method inp, pay_status = P_PENDING,
     pay_orderId = bp_orderId inp, pay_adminId = bp_adminId inp, pay_customerId = None, pay_amount = bp_amount inp,
     pay_amountUsdt = None, pay_txid = None, pay_receiptRef = None, pay_receiptFile = None, pay_cardPan = None,
     pay_authority = None, pay_refId = None, pay_reviewedById = None, pay_reviewedAt = None, pay_reviewNote = None,
     pay_error = None, pay_expiresAt = Some (tm + sto_paymentTtlMin s * 60000), pay_meta = blank_meta,
     pay_createdAt = tm, pay_updatedAt = tm\<rparr>"

definition insert_payment :: "payment \<Rightarrow> (world, payment) op" where
  "insert_payment p = andthen (modify (\<lambda>w. w\<lparr>payments := payments w @ [p]\<rparr>)) (ret p)"

definition next_of_quote :: "crypto_quote \<Rightarrow> rat \<Rightarrow> payment_next" where
  "next_of_quote q amount = NextUsdt \<lparr>un_address = cq_address q, un_network = cq_network q, un_amountUsdt = amount,
     un_rate = cq_rateIrt q, un_symbol = cq_symbol q, un_memo = cq_memo q, un_label = cq_label q, un_assetId = Some (cq_assetId q)\<rparr>"

definition begin_usdt :: "store_settings \<Rightarrow> begin_input \<Rightarrow> (world, payment \<times> payment_next) op" where
  "begin_usdt s inp =
    bnd now (\<lambda>tm.
    bnd (quoteCrypto s (bp_amount inp) (bp_assetId inp)) (\<lambda>q. bnd new_id (\<lambda>k.
    bnd (insert_payment ((new_payment s inp tm k)\<lparr>pay_amountUsdt := Some (cq_amount q), pay_meta := blank_meta\<lparr>meta_crypto := Some q\<rparr>\<rparr>)) (\<lambda>p.
    ret (p, next_of_quote q (cq_amount q))))))"

definition begin_card :: "store_settings \<Rightarrow> begin_input \<Rightarrow> (world, payment \<times> payment_next) op" where
  "begin_card s inp =
    bnd now (\<lambda>tm. bnd new_id (\<lambda>k. bnd (insert_payment (new_payment s inp tm k)) (\<lambda>p.
    ret (p, NextCard (sto_cardNumber s) (sto_cardHolder s) (sto_cardBank s)))))"

definition callback_url :: "world \<Rightarrow> uid \<Rightarrow> string" where
  "callback_url w k = panelUrl w @ ''/api/shop/zarinpal/callback?p='' @ show_nat k"

text \<open>The unique key on \<open>authority\<close>.\<close>
definition authority_taken :: "string \<Rightarrow> uid \<Rightarrow> world \<Rightarrow> bool" where
  "authority_taken a i w \<longleftrightarrow> list_ex (\<lambda>p. pay_authority p = Some a \<and> pay_id p \<noteq> i) (payments w)"

definition begin_zarinpal :: "store_settings \<Rightarrow> begin_input \<Rightarrow> (world, payment \<times> payment_next) op" where
  "begin_zarinpal s inp =
    bnd (gets svcs) (\<lambda>x. bnd (or_throw (str_or (merchantOf x s) None Some) (app_error ''the merchant id is not set'')) (\<lambda>merchant.
    bnd now (\<lambda>tm. bnd new_id (\<lambda>k. bnd (insert_payment (new_payment s inp tm k)) (\<lambda>p.
    bnd (gets (\<lambda>w. callback_url w k)) (\<lambda>url.
    case zarinpalRequest x tm \<lparr>zr_merchantId = merchant, zr_amount = bp_amount inp, zr_description = bp_description inp,
        zr_callbackUrl = url, zr_sandbox = sto_zarinpalSandbox s, zr_mobile = bp_mobile inp, zr_email = bp_email inp\<rparr> of
      Inl e \<Rightarrow> andthen (update_payment k (\<lambda>r. r\<lparr>pay_status := P_REJECTED, pay_error := Some e\<rparr>))
                (throw (AppError ''the gateway cannot be reached'' 502 ''gateway''))
    | Inr (authority, start) \<Rightarrow>
        bnd (gets (authority_taken authority k)) (\<lambda>dup.
        andthen (throw_if dup unique_violation)
        (bnd (update_payment k (\<lambda>r. r\<lparr>pay_authority := Some authority, pay_meta := blank_meta\<lparr>meta_startUrl := Some start\<rparr>\<rparr>))
          (\<lambda>saved. ret (saved, NextRedirect start))))))))))"

definition beginPayment :: "store_settings \<Rightarrow> begin_input \<Rightarrow> (world, payment \<times> payment_next) op" where
  "beginPayment s inp =
    andthen (throw_if (bp_method inp \<notin> set (enabledMethods s)) (app_error ''this payment method is not active''))
    (andthen (throw_if (bp_amount inp \<le> 0) (app_error ''amount is not valid''))
    (case bp_method inp of
       USDT \<Rightarrow> begin_usdt s inp
     | CARD \<Rightarrow> begin_card s inp
     | ZARINPAL \<Rightarrow> begin_zarinpal s inp
     | _ \<Rightarrow> throw (app_error ''the payment method is not supported'')))"

text \<open>The instructions for a payment as it stands.\<close>
definition paymentNext :: "payment \<Rightarrow> store_settings option \<Rightarrow> world \<Rightarrow> payment_next" where
  "paymentNext p s w =
    (let amount = (\<lambda>d. opt_default (pay_amountUsdt p) d) in
     if pay_status p = P_CONFIRMED then NextDone
     else if pay_status p = P_REVIEW then NextReview
     else if pay_status p \<noteq> P_PENDING then NextNone
     else if (case pay_expiresAt p of Some t \<Rightarrow> t < clock w | None \<Rightarrow> False) then NextNone
     else (case pay_method p of
        USDT \<Rightarrow> (case cryptoMetaOf p of
            Some q \<Rightarrow> next_of_quote q (amount (cq_amount q))
          | None \<Rightarrow> (case s of
              Some st \<Rightarrow> str_or (sto_usdtAddress st) NextNone (\<lambda>addr. NextUsdt \<lparr>un_address = addr, un_network = sto_usdtNetwork st,
                 un_amountUsdt = amount (usdtAmountFor (pay_amount p) (sto_usdtRate st)), un_rate = of_int (sto_usdtRate st),
                 un_symbol = ''USDT'', un_memo = None, un_label = None, un_assetId = None\<rparr>)
            | None \<Rightarrow> NextNone))
      | CARD \<Rightarrow> (case s of
            Some st \<Rightarrow> if truthy (sto_cardNumber st) then NextCard (sto_cardNumber st) (sto_cardHolder st) (sto_cardBank st) else NextNone
          | None \<Rightarrow> NextNone)
      | ZARINPAL \<Rightarrow> str_or (meta_startUrl (pay_meta p)) NextNone NextRedirect
      | _ \<Rightarrow> NextNone))"

definition ownerAdmin :: "(world, admin) op" where
  "ownerAdmin =
    bnd (gets (\<lambda>w. case sort_key adm_createdAt (filter (\<lambda>a. adm_role a = OWNER) (admins w)) of [] \<Rightarrow> None | a # _ \<Rightarrow> Some a))
      (\<lambda>found. or_throw found (AppError ''the owner was not found'' 500 ''bad_request''))"

text \<open>Is the payment governed by the seller, or by the owner of the panel?\<close>
definition of_seller :: "payment \<Rightarrow> bool" where
  "of_seller p \<longleftrightarrow> pay_kind p = K_ORDER \<or> pay_customerId p \<noteq> None"

definition settingsForPayment :: "payment \<Rightarrow> (world, store_settings option) op" where
  "settingsForPayment p =
    (if of_seller p then gets (storeSettingsByAdminId (pay_adminId p))
     else bnd ownerAdmin (\<lambda>own. gets (storeSettingsByAdminId (adm_id own))))"

definition reviewerId :: "payment \<Rightarrow> recipients" where
  "reviewerId p = (if of_seller p then to_admin (Some (pay_adminId p)) else to_owner)"

definition kind_text :: "payment_kind \<Rightarrow> string" where
  "kind_text k = (case k of K_ORDER \<Rightarrow> ''ORDER'' | K_TOPUP \<Rightarrow> ''TOPUP'')"

definition method_text :: "payment_method \<Rightarrow> string" where
  "method_text m = (case m of USDT \<Rightarrow> ''USDT'' | CARD \<Rightarrow> ''CARD'' | ZARINPAL \<Rightarrow> ''ZARINPAL'' | WALLET \<Rightarrow> ''WALLET'' | MANUAL \<Rightarrow> ''MANUAL'')"

definition event_admin :: "payment \<Rightarrow> uid option" where
  "event_admin p = (if pay_kind p = K_ORDER then Some (pay_adminId p) else None)"

definition announceReview :: "payment \<Rightarrow> (world, unit) op" where
  "announceReview p =
    andthen (notify_void ''payment.review'' [JStr ''payrev'', JId (pay_id p), JInt (pay_updatedAt p)] (JId (pay_id p)) (reviewerId p))
    (emitEvent (event_admin p) ''payment.review''
      [(''paymentId'', JId (pay_id p)), (''kind'', JStr (kind_text (pay_kind p))), (''method'', JStr (method_text (pay_method p))),
       (''amount'', JStr (show_int (pay_amount p))), (''txid'', opt_json JStr (pay_txid p)), (''receiptRef'', opt_json JStr (pay_receiptRef p))])"

section \<open>Confirming\<close>

record confirm_opts =
  cop_by :: "admin option"
  cop_note :: "string option"
  cop_auto :: bool
  cop_refId :: "string option"
  cop_cardPan :: "string option"

definition auto_opts :: "string \<Rightarrow> confirm_opts" where
  "auto_opts note = \<lparr>cop_by = None, cop_note = Some note, cop_auto = True, cop_refId = None, cop_cardPan = None\<rparr>"

definition canReview :: "admin \<Rightarrow> payment \<Rightarrow> bool" where
  "canReview actor p \<longleftrightarrow> adm_role actor = OWNER \<or>
    (if pay_kind p = K_ORDER then pay_adminId p = adm_id actor else pay_customerId p \<noteq> None \<and> pay_adminId p = adm_id actor)"

definition payment_not_found :: err where
  "payment_not_found = not_found_error ''payment not found''"

definition confirmed_row :: "confirm_opts \<Rightarrow> time \<Rightarrow> payment \<Rightarrow> payment" where
  "confirmed_row opts tm p = p\<lparr>pay_status := P_CONFIRMED, pay_reviewedById := map_option adm_id (cop_by opts), pay_reviewedAt := Some tm,
     pay_reviewNote := opt_or (cop_note opts) (if cop_auto opts then Some ''confirmed automatically'' else None),
     pay_refId := opt_or (cop_refId opts) (pay_refId p), pay_cardPan := opt_or (cop_cardPan opts) (pay_cardPan p), pay_error := None\<rparr>"

definition topup_adjust :: "payment \<Rightarrow> confirm_opts \<Rightarrow> adjust_opts" where
  "topup_adjust p opts = \<lparr>ao_refType = Some R_payment, ao_refId = Some (pay_id p), ao_note = Some ''wallet top-up'',
     ao_byAdminId = map_option adm_id (cop_by opts), ao_allowNegative = False\<rparr>"

definition topup_notice :: "payment \<Rightarrow> (world, unit) op" where
  "topup_notice p = notify_void ''wallet.topup'' [JStr ''topup'', JId (pay_id p)] (JId (pay_id p)) (to_admin (Some (pay_adminId p)))"

text \<open>What a confirmed payment settles: the three branches at the end of \<open>confirmPayment\<close>.\<close>
definition settle_payment :: "payment \<Rightarrow> confirm_opts \<Rightarrow> (world, unit) op" where
  "settle_payment p opts =
    (if pay_kind p = K_TOPUP then
       (case pay_customerId p of
          Some c \<Rightarrow>
            andthen (settleCustomerTopup (pay_id p))
            (andthen (topup_notice p)
            (emitEvent (Some (pay_adminId p)) ''customer.topup''
              [(''paymentId'', JId (pay_id p)), (''customerId'', JId c), (''amount'', JStr (show_int (pay_amount p))),
               (''method'', JStr (method_text (pay_method p)))]))
        | None \<Rightarrow>
            andthen (chargeWallet (pay_adminId p) ADMIN (pay_amount p) W_TOPUP (topup_adjust p opts))
            (andthen (topup_notice p)
            (emitEvent (Some (pay_adminId p)) ''wallet.topup''
              [(''paymentId'', JId (pay_id p)), (''adminId'', JId (pay_adminId p)), (''amount'', JStr (show_int (pay_amount p))),
               (''method'', JStr (method_text (pay_method p)))])))
     else (case pay_orderId p of
        None \<Rightarrow> ret ()
      | Some orderId \<Rightarrow>
          bnd now (\<lambda>tm.
          andthen (update_order orderId (\<lambda>r. r\<lparr>ord_status := O_PAID, ord_paidAt := Some tm, ord_error := None\<rparr>))
          (andthen (emitEvent (Some (pay_adminId p)) ''order.paid''
            [(''orderId'', JId orderId), (''paymentId'', JId (pay_id p)), (''amount'', JStr (show_int (pay_amount p))),
             (''method'', JStr (method_text (pay_method p)))])
          (andthen (fulfillOrder orderId) (ret ()))))))"

definition confirmPayment :: "uid \<Rightarrow> confirm_opts \<Rightarrow> (world, payment) op" where
  "confirmPayment paymentId opts =
    bnd (gets (find_payment paymentId)) (\<lambda>found. bnd (or_throw found payment_not_found) (\<lambda>p.
    andthen (throw_if (case cop_by opts of Some a \<Rightarrow> \<not> canReview a p | None \<Rightarrow> False) forbidden)
    (if pay_status p = P_CONFIRMED then ret p else
    andthen (throw_if (pay_status p = P_EXPIRED \<and> cop_by opts = None) (app_error ''the payment has expired''))
    (bnd now (\<lambda>tm. bnd (update_payment (pay_id p) (confirmed_row opts tm)) (\<lambda>updated.
    andthen (audit (map_option adm_id (cop_by opts)) ''payment.confirm'' (JId (pay_id p))
      [(''kind'', JStr (kind_text (pay_kind p))), (''method'', JStr (method_text (pay_method p))),
       (''amount'', JStr (show_int (pay_amount p))), (''auto'', JBool (cop_auto opts))] None)
    (andthen (settle_payment p opts)
    (ret updated))))))))"


section \<open>Proofs of payment\<close>

record payment_proof =
  prf_txid :: "string option"
  prf_receiptRef :: "string option"
  prf_cardPan :: "string option"
  prf_receiptFile :: "string option"

definition is_txid64 :: "string \<Rightarrow> bool" where
  "is_txid64 s \<longleftrightarrow> length s = 64 \<and> list_all is_hex s"

definition strip_0x_lower :: "string \<Rightarrow> string" where
  "strip_0x_lower s = (if take 2 s = ''0x'' then drop 2 s else s)"

definition tron_status_text :: "tron_status \<Rightarrow> string" where
  "tron_status_text st = (case st of T_confirmed \<Rightarrow> ''confirmed'' | T_pending \<Rightarrow> ''pending'' | T_not_found \<Rightarrow> ''not_found''
     | T_mismatch \<Rightarrow> ''mismatch'' | T_error \<Rightarrow> ''error'')"

text \<open>The address and the amount the chain is asked about.\<close>
definition usdt_address :: "payment \<Rightarrow> store_settings option \<Rightarrow> string option" where
  "usdt_address p s = (case cryptoMetaOf p of
     Some q \<Rightarrow> Some (cq_address q)
   | None \<Rightarrow> (case s of Some st \<Rightarrow> sto_usdtAddress st | None \<Rightarrow> None))"

definition chain_check :: "payment \<Rightarrow> store_settings \<Rightarrow> string \<Rightarrow> string \<Rightarrow> world \<Rightarrow> tron_result" where
  "chain_check p st txid address w =
    verifyTrc20Payment (svcs w) (clock w) txid address
      (opt_default (pay_amountUsdt p) (usdtAmountFor (pay_amount p) (sto_usdtRate st))) (2 / 100)"

text \<open>Automatic checking is on, the wallet is a Tron one and its address is known.\<close>
definition auto_verify :: "payment \<Rightarrow> store_settings option \<Rightarrow> (store_settings \<times> string) option" where
  "auto_verify p s = (case s of
     None \<Rightarrow> None
   | Some st \<Rightarrow> if sto_usdtAutoVerify st \<and> truthy (usdt_address p s) \<and> isTrc20Usdt (cryptoMetaOf p)
       then Some (st, opt_default (usdt_address p s) []) else None)"

definition noted_check :: "tron_result \<Rightarrow> int \<Rightarrow> payment \<Rightarrow> payment" where
  "noted_check r tries p = p\<lparr>pay_error := tr_error r, pay_meta := (pay_meta p)\<lparr>meta_verify := Some (tron_status_text (tr_status r)),
     meta_tries := tries, meta_amountSeen := tr_amount r\<rparr>\<rparr>"

definition submit_txid :: "payment \<Rightarrow> store_settings option \<Rightarrow> payment_proof \<Rightarrow> (world, payment) op" where
  "submit_txid p s proof =
    (let txid = strip_0x_lower (str_trim (opt_default (prf_txid proof) [])) in
    andthen (throw_if (\<not> is_txid64 txid) (app_error ''TXID is not valid''))
    (bnd (gets (\<lambda>w. find (\<lambda>r. pay_txid r = Some txid) (payments w))) (\<lambda>dup.
    andthen (throw_if (case dup of Some d \<Rightarrow> pay_id d \<noteq> pay_id p | None \<Rightarrow> False) (app_error ''this TXID is used by another payment''))
    (bnd (update_payment (pay_id p) (\<lambda>r. r\<lparr>pay_txid := Some txid, pay_status := P_REVIEW, pay_error := None,
        pay_meta := (pay_meta p)\<lparr>meta_verify := Some ''pending'', meta_tries := 0\<rparr>\<rparr>)) (\<lambda>updated.
    case auto_verify p s of
      None \<Rightarrow> andthen (announceReview updated) (ret updated)
    | Some (st, address) \<Rightarrow>
        bnd (gets (chain_check p st txid address)) (\<lambda>r.
        if tr_ok r then confirmPayment (pay_id p) (auto_opts ''USDT confirmed automatically'')
        else bnd (update_payment (pay_id p) (noted_check r 1)) (\<lambda>noted. andthen (announceReview noted) (ret noted))))))))"

definition last4 :: "string option \<Rightarrow> string" where
  "last4 pan = (let ds = filter (\<lambda>c. is_digit c \<or> c = CHR ''*'') (opt_default pan []) in drop (length ds - 4) ds)"

definition submit_receipt :: "payment \<Rightarrow> payment_proof \<Rightarrow> (world, payment) op" where
  "submit_receipt p proof =
    (let ref = str_trim (opt_default (prf_receiptRef proof) []) in
    andthen (throw_if (ref = [] \<and> \<not> truthy (prf_receiptFile proof)) (app_error ''a reference or an image is required''))
    (bnd (update_payment (pay_id p) (\<lambda>r. r\<lparr>pay_status := P_REVIEW, pay_error := None,
        pay_receiptRef := (if ref \<noteq> [] then Some ref else pay_receiptRef p),
        pay_cardPan := (if last4 (prf_cardPan proof) \<noteq> [] then Some (last4 (prf_cardPan proof)) else pay_cardPan p),
        pay_receiptFile := opt_or (prf_receiptFile proof) (pay_receiptFile p)\<rparr>)) (\<lambda>updated.
    andthen (announceReview updated) (ret updated))))"

definition submitProof :: "uid \<Rightarrow> payment_proof \<Rightarrow> (world, payment) op" where
  "submitProof paymentId proof =
    bnd (gets (find_payment paymentId)) (\<lambda>found. bnd (or_throw found payment_not_found) (\<lambda>p.
    if pay_status p = P_CONFIRMED then ret p else
    bnd now (\<lambda>tm.
    andthen (throw_if (pay_status p = P_EXPIRED \<or> (pay_status p = P_PENDING \<and> expired_at tm (pay_expiresAt p)))
      (AppError ''the time to pay is over; place a new order'' 410 ''bad_request''))
    (bnd (settingsForPayment p) (\<lambda>s.
    case pay_method p of
      USDT \<Rightarrow> submit_txid p s proof
    | CARD \<Rightarrow> submit_receipt p proof
    | _ \<Rightarrow> throw (app_error ''this method needs no receipt''))))))"

section \<open>Rejecting, top-ups and views\<close>

definition rejectPayment :: "admin \<Rightarrow> uid \<Rightarrow> string option \<Rightarrow> (world, payment) op" where
  "rejectPayment actor paymentId note =
    bnd (gets (find_payment paymentId)) (\<lambda>found. bnd (or_throw found payment_not_found) (\<lambda>p.
    andthen (throw_if (\<not> canReview actor p) forbidden)
    (andthen (throw_if (pay_status p = P_CONFIRMED) (app_error ''a confirmed payment cannot be rejected''))
    (bnd now (\<lambda>tm.
    bnd (update_payment (pay_id p) (\<lambda>r. r\<lparr>pay_status := P_REJECTED, pay_reviewedById := Some (adm_id actor), pay_reviewedAt := Some tm,
        pay_reviewNote := trim_or_null note\<rparr>)) (\<lambda>updated.
    andthen (case pay_orderId p of
        Some orderId \<Rightarrow> andthen (update_order orderId (\<lambda>r. r\<lparr>ord_error :=
            Some (str_or note ''payment rejected'' (\<lambda>n. ''payment rejected: '' @ n))\<rparr>)) (ret ())
      | None \<Rightarrow> ret ())
    (andthen (audit (Some (adm_id actor)) ''payment.reject'' (JId (pay_id p))
      ((''kind'', JStr (kind_text (pay_kind p))) # opt_field ''note'' JStr note) None)
    (andthen (emitEvent (event_admin p) ''payment.rejected''
      ([(''paymentId'', JId (pay_id p)), (''kind'', JStr (kind_text (pay_kind p)))] @ opt_field ''note'' JStr note))
    (ret updated)))))))))"

text \<open>\<open>Math.round(input.amount)\<close>; \<open>None\<close> is not a number.\<close>
definition createTopup :: "admin \<Rightarrow> rat option \<Rightarrow> payment_method \<Rightarrow> string option \<Rightarrow> (world, payment \<times> payment_next) op" where
  "createTopup actor amountIn method assetId =
    andthen (throw_if (adm_role actor = OWNER) (app_error ''the owner needs no top-up''))
    (andthen (throw_if (case amountIn of None \<Rightarrow> True | Some x \<Rightarrow> js_round x < 1000) (app_error ''the least amount is 1000''))
    (bnd ownerAdmin (\<lambda>own. bnd (gets (storeSettingsByAdminId (adm_id own))) (\<lambda>st.
    let amount = js_round (opt_default amountIn 0) in
    case st of
      None \<Rightarrow> throw (app_error ''no payment method is set for top-ups'')
    | Some s \<Rightarrow>
        andthen (throw_if (enabledMethods s = []) (app_error ''no payment method is set for top-ups''))
        (bnd (beginPayment s \<lparr>bp_kind = K_TOPUP, bp_method = method, bp_amount = amount, bp_adminId = adm_id actor, bp_orderId = None,
            bp_description = ''wallet top-up '' @ adm_username actor, bp_mobile = None, bp_email = None, bp_assetId = assetId\<rparr>) (\<lambda>(p, next).
        andthen (audit (Some (adm_id actor)) ''wallet.topup_request'' (JId (pay_id p))
          [(''amount'', JInt amount), (''method'', JStr (method_text method))] None)
        (ret (p, next))))))))"

definition topupMethods :: "(world, payment_method list) op" where
  "topupMethods = bnd ownerAdmin (\<lambda>own. gets (\<lambda>w. case storeSettingsByAdminId (adm_id own) w of Some s \<Rightarrow> enabledMethods s | None \<Rightarrow> []))"

definition paymentForActor :: "admin \<Rightarrow> uid \<Rightarrow> (world, payment) op" where
  "paymentForActor actor i =
    bnd (gets (find_payment i)) (\<lambda>found. bnd (or_throw found payment_not_found) (\<lambda>p.
    andthen (throw_if (adm_role actor \<noteq> OWNER \<and> pay_adminId p \<noteq> adm_id actor) forbidden) (ret p)))"

definition listPayments ::
  "admin \<Rightarrow> payment_status option \<Rightarrow> payment_kind option \<Rightarrow> int option \<Rightarrow> int option \<Rightarrow> world \<Rightarrow> payment list \<times> nat" where
  "listPayments actor status kind tk sk w =
    (let rows = filter (\<lambda>p. (adm_role actor = OWNER \<or> pay_adminId p = adm_id actor) \<and>
         (status = None \<or> status = Some (pay_status p)) \<and> (kind = None \<or> kind = Some (pay_kind p))) (payments w)
     in (page 50 tk sk (sort_key (\<lambda>p. - pay_createdAt p) rows), length rows))"

section \<open>The gateway callback and the jobs\<close>

record callback_result =
  cb_ok :: bool
  cb_redirect :: string
  cb_error :: "string option"

definition callback_target :: "payment \<Rightarrow> world \<Rightarrow> string" where
  "callback_target p w =
    (case (case pay_orderId p of Some i \<Rightarrow> find_order i w | None \<Rightarrow> None) of
       Some ord \<Rightarrow> panelUrl w @ ''/shop/o/'' @ ord_token ord
     | None \<Rightarrow> (case (if pay_customerId p = None then None else storeSettingsByAdminId (pay_adminId p) w) of
         Some shop \<Rightarrow> panelUrl w @ ''/shop/'' @ sto_slug shop @ ''/account''
       | None \<Rightarrow> panelUrl w @ ''/wallet''))"

definition cb_failed :: "string \<Rightarrow> string \<Rightarrow> callback_result" where
  "cb_failed target e = \<lparr>cb_ok = False, cb_redirect = target @ ''?pay=failed'', cb_error = Some e\<rparr>"

definition reject_with :: "uid \<Rightarrow> string \<Rightarrow> (world, payment) op" where
  "reject_with i e = update_payment i (\<lambda>r. r\<lparr>pay_status := P_REJECTED, pay_error := Some e\<rparr>)"

definition callback_opts :: "zp_verified \<Rightarrow> confirm_opts" where
  "callback_opts r = \<lparr>cop_by = None, cop_note = Some (''Zarinpal '' @ zv_refId r), cop_auto = True, cop_refId = Some (zv_refId r),
     cop_cardPan = zv_cardPan r\<rparr>"

definition verify_callback :: "payment \<Rightarrow> string \<Rightarrow> string \<Rightarrow> (world, callback_result) op" where
  "verify_callback p authority target =
    bnd (settingsForPayment p) (\<lambda>s. bnd (gets svcs) (\<lambda>x. bnd now (\<lambda>tm.
    case (case s of Some st \<Rightarrow> map_option (Pair st) (str_or (merchantOf x st) None Some) | None \<Rightarrow> None) of
      None \<Rightarrow> ret (cb_failed target ''merchant missing'')
    | Some (st, merchant) \<Rightarrow>
        (case zarinpalVerify x tm merchant (pay_amount p) authority (sto_zarinpalSandbox st) of
           Inl e \<Rightarrow> andthen (reject_with (pay_id p) e) (ret (cb_failed target e))
         | Inr r \<Rightarrow> andthen (confirmPayment (pay_id p) (callback_opts r))
             (ret \<lparr>cb_ok = True, cb_redirect = target @ ''?pay=ok'', cb_error = None\<rparr>)))))"

definition handleZarinpalCallback :: "uid \<Rightarrow> string \<Rightarrow> string \<Rightarrow> (world, callback_result) op" where
  "handleZarinpalCallback paymentId authority status =
    bnd (gets (find_payment paymentId)) (\<lambda>found.
    case found of
      None \<Rightarrow> gets (\<lambda>w. \<lparr>cb_ok = False, cb_redirect = panelUrl w @ ''/'', cb_error = Some ''payment not found''\<rparr>)
    | Some p \<Rightarrow>
        bnd (gets (callback_target p)) (\<lambda>target.
        if pay_status p = P_CONFIRMED then ret \<lparr>cb_ok = True, cb_redirect = target @ ''?pay=ok'', cb_error = None\<rparr>
        else if status \<noteq> ''OK'' then
          andthen (reject_with (pay_id p) ''canceled by the payer'')
            (ret \<lparr>cb_ok = False, cb_redirect = target @ ''?pay=canceled'', cb_error = Some ''canceled''\<rparr>)
        else if truthy (pay_authority p) \<and> pay_authority p \<noteq> Some authority then ret (cb_failed target ''authority mismatch'')
        else verify_callback p authority target))"

definition is_stale :: "time \<Rightarrow> payment \<Rightarrow> bool" where
  "is_stale tm p \<longleftrightarrow> pay_status p = P_PENDING \<and> (case pay_expiresAt p of Some t \<Rightarrow> t < tm | None \<Rightarrow> False)"

text \<open>An order whose payments have all lapsed expires with them.\<close>
definition expire_order :: "uid \<Rightarrow> (world, unit) op" where
  "expire_order i = modify (\<lambda>w.
    if list_ex (\<lambda>p. pay_orderId p = Some i \<and> pay_status p \<in> {P_PENDING, P_REVIEW, P_CONFIRMED}) (payments w) then w
    else w\<lparr>orders := upd_rows (\<lambda>r. ord_id r = i \<and> ord_status r = O_PENDING) (\<lambda>r. r\<lparr>ord_status := O_EXPIRED\<rparr>) (orders w)\<rparr>)"

definition expirePayments :: "(world, nat) op" where
  "expirePayments =
    bnd (gets (\<lambda>w. filter (is_stale (clock w)) (payments w))) (\<lambda>stale.
    if stale = [] then ret 0 else
    andthen (modify (\<lambda>w. w\<lparr>payments := upd_rows (\<lambda>p. pay_id p \<in> pay_id ` set stale)
        (\<lambda>p. p\<lparr>pay_status := P_EXPIRED, pay_updatedAt := clock w\<rparr>) (payments w)\<rparr>))
    (andthen (for_each (uniq (List.map_filter pay_orderId stale)) expire_order)
    (ret (length stale))))"

definition pending_usdt :: "world \<Rightarrow> payment list" where
  "pending_usdt w = take 20 (sort_key pay_updatedAt (filter (\<lambda>p. pay_status p = P_REVIEW \<and> pay_method p = USDT \<and> pay_txid p \<noteq> None \<and>
     clock w - 3 * 86400000 \<le> pay_updatedAt p) (payments w)))"

definition verify_one :: "payment \<Rightarrow> nat \<Rightarrow> (world, nat) op" where
  "verify_one p confirmed =
    (if meta_verify (pay_meta p) = Some ''mismatch'' \<or> 40 \<le> meta_tries (pay_meta p) \<or> \<not> isTrc20Usdt (cryptoMetaOf p) then ret confirmed
     else bnd (settingsForPayment p) (\<lambda>s.
       case auto_verify p s of
         None \<Rightarrow> ret confirmed
       | Some (st, address) \<Rightarrow>
           bnd (gets (chain_check p st (opt_default (pay_txid p) []) address)) (\<lambda>r.
           if tr_ok r then andthen (confirmPayment (pay_id p) (auto_opts ''USDT confirmed automatically'')) (ret (Suc confirmed))
           else andthen (update_payment (pay_id p) (\<lambda>row. noted_check r (meta_tries (pay_meta p) + 1) (row\<lparr>pay_meta := pay_meta p\<rparr>)))
             (ret confirmed))))"

definition verifyPendingUsdt :: "(world, nat) op" where
  "verifyPendingUsdt = bnd (gets pending_usdt) (\<lambda>items. fold_op verify_one items 0)"

end
