(* ===== verification/Cards.thy ===== *)
theory Cards
  imports Payments
begin

text \<open>
  \<open>cardAuto.ts\<close>: automatic confirmation of card-to-card payments. A deposit reported by the bank is
  matched with the open card payments of the seller by reference or amount; exactly one candidate is
  confirmed, anything else is kept for review. The extraction of amounts from SMS texts is Persian
  pattern matching and is the parameter \<open>parsed_sms\<close>; the reply of the bank endpoint is JSON.
\<close>

section \<open>Settings and the webhook token\<close>

definition RING :: nat where
  "RING = 40"

definition default_card :: card_settings where
  "default_card = \<lparr>card_mode = CM_MANUAL, card_autoConfirm = True, card_uniqueAmount = True, card_windowMin = 120,
     card_toleranceIrt = 0, card_requireLast4 = False, card_smsToken = [], card_senders = [], card_lastError = [],
     card_deposits = [], card_bankProvider = BP_NONE, card_bankApiUrl = [], card_bankPollMin = 5, card_bankLastSyncAt = None\<rparr>"

definition cardAutoSettings :: "uid \<Rightarrow> world \<Rightarrow> card_settings" where
  "cardAutoSettings adminId w = opt_default (map_of (card_cfg w) adminId) default_card"

text \<open>The bounds of \<open>cardAutoSchema\<close>.\<close>
definition card_valid :: "card_settings \<Rightarrow> bool" where
  "card_valid s \<longleftrightarrow> 5 \<le> card_windowMin s \<and> card_windowMin s \<le> 1440 \<and> 0 \<le> card_toleranceIrt s \<and> card_toleranceIrt s \<le> 100000 \<and>
     length (card_smsToken s) \<le> 80 \<and> length (card_senders s) \<le> 20 \<and> list_all (\<lambda>x. length x \<le> 60) (card_senders s) \<and>
     length (card_bankApiUrl s) \<le> 500 \<and> 1 \<le> card_bankPollMin s \<and> card_bankPollMin s \<le> 240 \<and>
     length (card_lastError s) \<le> 400 \<and> length (card_deposits s) \<le> 60 \<and>
     list_all (\<lambda>d. length (dep_note d) \<le> 200) (card_deposits s)"

text \<open>\<open>saveCardAuto(adminId, patch)\<close>: \<open>f\<close> is the patch.\<close>
definition saveCardAuto :: "uid \<Rightarrow> (card_settings \<Rightarrow> card_settings) \<Rightarrow> (world, card_settings) op" where
  "saveCardAuto adminId f =
    bnd (gets (cardAutoSettings adminId)) (\<lambda>current.
    andthen (throw_if (\<not> card_valid (f current)) (PlainError ''ZodError''))
    (andthen (modify (\<lambda>w. w\<lparr>card_cfg := put_row adminId (f current) (card_cfg w)\<rparr>)) (ret (f current))))"

definition put_hook :: "string \<Rightarrow> uid option \<Rightarrow> (world, unit) op" where
  "put_hook token a = modify (\<lambda>w. w\<lparr>sms_hooks := put_row token a (sms_hooks w)\<rparr>)"

definition rotateSmsToken :: "uid \<Rightarrow> (world, string) op" where
  "rotateSmsToken adminId =
    bnd (gets (cardAutoSettings adminId)) (\<lambda>prev. bnd (randomToken 18) (\<lambda>token.
    andthen (do_when (card_smsToken prev \<noteq> []) (put_hook (card_smsToken prev) None))
    (andthen (put_hook token (Some adminId))
    (andthen (saveCardAuto adminId (\<lambda>s. s\<lparr>card_smsToken := token\<rparr>)) (ret token)))))"

definition ensureSmsToken :: "uid \<Rightarrow> (world, string) op" where
  "ensureSmsToken adminId =
    bnd (gets (cardAutoSettings adminId)) (\<lambda>s.
    if card_smsToken s \<noteq> [] then andthen (put_hook (card_smsToken s) (Some adminId)) (ret (card_smsToken s))
    else rotateSmsToken adminId)"

definition adminByDepositToken :: "string \<Rightarrow> world \<Rightarrow> uid option" where
  "adminByDepositToken token w =
    (let t = str_trim token in
     if length t < 12 then None
     else case map_of (sms_hooks w) t of
       Some (Some a) \<Rightarrow> if card_smsToken (cardAutoSettings a w) = t then Some a else None
     | _ \<Rightarrow> None)"

section \<open>Matching\<close>

record match_result =
  mr_status :: deposit_status
  mr_paymentId :: "uid option"

definition digitsOnly :: "string \<Rightarrow> string" where
  "digitsOnly v = filter is_digit v"

text \<open>The open card payments of the seller inside the window.\<close>
definition open_cards :: "uid \<Rightarrow> card_settings \<Rightarrow> world \<Rightarrow> payment list" where
  "open_cards adminId s w =
    filter (\<lambda>p. pay_adminId p = adminId \<and> pay_method p = CARD \<and> (pay_status p = P_PENDING \<or> pay_status p = P_REVIEW) \<and>
      clock w - max 5 (card_windowMin s) * 60000 \<le> pay_createdAt p) (payments w)"

definition by_amount :: "card_settings \<Rightarrow> deposit \<Rightarrow> payment list \<Rightarrow> payment list" where
  "by_amount s dep rows = filter (\<lambda>p. \<bar>pay_amount p - dep_amount dep\<bar> \<le> max 0 (card_toleranceIrt s)) rows"

definition by_ref :: "deposit \<Rightarrow> payment list \<Rightarrow> payment list" where
  "by_ref dep rows = filter (\<lambda>p. truthy (pay_receiptRef p) \<and>
     digitsOnly (opt_default (pay_receiptRef p) []) = digitsOnly (dep_refId dep)) rows"

definition pan_tail :: "payment \<Rightarrow> string" where
  "pan_tail p = (let s = opt_default (pay_cardPan p) [] in drop (length s - 4) s)"

text \<open>A single payment with the reference of the deposit wins over the amounts.\<close>
definition candidates :: "card_settings \<Rightarrow> deposit \<Rightarrow> payment list \<Rightarrow> payment list" where
  "candidates s dep rows =
    (let cands = (if dep_refId dep \<noteq> [] \<and> length (by_ref dep rows) = 1 then by_ref dep rows else by_amount s dep rows)
     in if card_requireLast4 s \<and> dep_last4 dep \<noteq> [] \<and> 1 < length cands
        then filter (\<lambda>p. pan_tail p = dep_last4 dep) cands else cands)"

definition deposit_opts :: "deposit \<Rightarrow> confirm_opts" where
  "deposit_opts dep = \<lparr>cop_by = None, cop_note = Some ''card-to-card confirmed automatically'', cop_auto = True,
     cop_refId = nonempty (dep_refId dep), cop_cardPan = nonempty (dep_last4 dep)\<rparr>"

definition matchDeposit :: "uid \<Rightarrow> card_settings \<Rightarrow> deposit \<Rightarrow> (world, match_result \<times> string) op" where
  "matchDeposit adminId s dep =
    (if dep_amount dep \<le> 0 then ret (\<lparr>mr_status = D_IGNORED, mr_paymentId = None\<rparr>, ''bad amount'')
     else bnd (gets (\<lambda>w. take 200 (sort_key (\<lambda>p. - pay_createdAt p) (open_cards adminId s w)))) (\<lambda>rows.
     case candidates s dep rows of
       [] \<Rightarrow> ret (\<lparr>mr_status = D_UNMATCHED, mr_paymentId = None\<rparr>, ''no open payment matches'')
     | [t] \<Rightarrow>
         if \<not> card_autoConfirm s then ret (\<lparr>mr_status = D_UNMATCHED, mr_paymentId = Some (pay_id t)\<rparr>, ''automatic confirmation is off'')
         else catch_op
           (andthen (confirmPayment (pay_id t) (deposit_opts dep))
             (ret (\<lparr>mr_status = D_MATCHED, mr_paymentId = Some (pay_id t)\<rparr>, ''confirmed automatically'')))
           (\<lambda>e. ret (\<lparr>mr_status = D_UNMATCHED, mr_paymentId = Some (pay_id t)\<rparr>, err_message e))
     | _ \<Rightarrow> ret (\<lparr>mr_status = D_AMBIGUOUS, mr_paymentId = None\<rparr>, ''several payments match'')))"

section \<open>Importing deposits\<close>

record deposit_input =
  di_amount :: jval
  di_refId :: string
  di_last4 :: string
  di_sender :: string
  di_raw :: string
  di_at :: string
  di_source :: deposit_source

record ingest_result =
  ir_ok :: bool
  ir_status :: deposit_status
  ir_paymentId :: "uid option"
  ir_message :: string
  ir_deposit :: "deposit option"

definition ignored :: "string \<Rightarrow> ingest_result" where
  "ignored m = \<lparr>ir_ok = False, ir_status = D_IGNORED, ir_paymentId = None, ir_message = m, ir_deposit = None\<rparr>"

text \<open>\<open>fingerprint\<close>: the reference if there is one, else the amount and the text without white space.\<close>
definition fingerprint :: "deposit \<Rightarrow> bool \<times> int \<times> string" where
  "fingerprint d = (if dep_refId d \<noteq> [] then (True, 0, digitsOnly (dep_refId d))
     else (False, dep_amount d, take 60 (filter (\<lambda>c. \<not> is_space c) (dep_raw d))))"

definition same_deposit :: "deposit \<Rightarrow> deposit \<Rightarrow> bool" where
  "same_deposit dep d \<longleftrightarrow> fingerprint d = fingerprint dep \<or>
     (dep_amount d = dep_amount dep \<and> \<bar>dep_at d - dep_at dep\<bar> < 120000)"

definition new_deposit :: "services \<Rightarrow> time \<Rightarrow> uid \<Rightarrow> int \<Rightarrow> deposit_input \<Rightarrow> deposit" where
  "new_deposit x tm k amount inp =
    (let tail = digitsOnly (di_last4 inp) in
     \<lparr>dep_id = k, dep_at = opt_default (if di_at inp = [] then None else ext_parse_date x (di_at inp)) tm, dep_amount = amount,
      dep_refId = take 40 (digitsOnly (di_refId inp)), dep_last4 = drop (length tail - 4) tail,
      dep_sender = take 60 (di_sender inp), dep_raw = take 400 (di_raw inp), dep_source = di_source inp,
      dep_status = D_UNMATCHED, dep_paymentId = None, dep_note = []\<rparr>)"

definition ingestDeposit :: "uid \<Rightarrow> deposit_input \<Rightarrow> (world, ingest_result) op" where
  "ingestDeposit adminId inp =
    (case toNumber (Some (di_amount inp)) of
       None \<Rightarrow> ret (ignored ''bad amount'')
     | Some n \<Rightarrow>
        if js_round n \<le> 0 then ret (ignored ''bad amount'') else
        bnd (gets (cardAutoSettings adminId)) (\<lambda>s. bnd new_id (\<lambda>k. bnd (gets svcs) (\<lambda>x. bnd now (\<lambda>tm.
        let dep = new_deposit x tm k (js_round n) inp in
        case find (same_deposit dep) (card_deposits s) of
          Some d \<Rightarrow> ret \<lparr>ir_ok = False, ir_status = D_DUPLICATE, ir_paymentId = dep_paymentId d,
                      ir_message = ''this deposit is already known'', ir_deposit = Some d\<rparr>
        | None \<Rightarrow>
            bnd (matchDeposit adminId s dep) (\<lambda>(m, note).
            let saved = dep\<lparr>dep_status := mr_status m, dep_paymentId := mr_paymentId m, dep_note := note\<rparr> in
            andthen (saveCardAuto adminId (\<lambda>c. c\<lparr>card_deposits := take RING (saved # card_deposits s), card_lastError := []\<rparr>))
            (ret \<lparr>ir_ok = (mr_status m = D_MATCHED), ir_status = mr_status m, ir_paymentId = mr_paymentId m,
               ir_message = note, ir_deposit = Some saved\<rparr>)))))))"

text \<open>What \<open>parseDepositSms\<close> finds in a text.\<close>
datatype sms_kind = SMS_DEPOSIT | SMS_WITHDRAW | SMS_UNKNOWN

record parsed_sms =
  ps_amount :: int
  ps_refId :: string
  ps_last4 :: string
  ps_kind :: sms_kind

definition sender_allowed :: "card_settings \<Rightarrow> string \<Rightarrow> bool" where
  "sender_allowed s sender \<longleftrightarrow> card_senders s = [] \<or> sender = [] \<or>
     list_ex (\<lambda>x. digitsOnly x \<noteq> [] \<and> contains (digitsOnly x) (digitsOnly sender)) (card_senders s)"

definition ingestSmsText :: "(string \<Rightarrow> parsed_sms option) \<Rightarrow> uid \<Rightarrow> string \<Rightarrow> string \<Rightarrow> (world, ingest_result) op" where
  "ingestSmsText parse adminId body sender =
    (case parse body of
       None \<Rightarrow> ret (ignored ''the text is empty'')
     | Some p \<Rightarrow>
        if ps_kind p = SMS_WITHDRAW then ret (ignored ''a withdrawal, not a deposit'')
        else if ps_amount p = 0 then ret (ignored ''no amount in the text'')
        else bnd (gets (cardAutoSettings adminId)) (\<lambda>s.
          let src = str_trim sender in
          if \<not> sender_allowed s src then ret (ignored ''the sender is not allowed'')
          else ingestDeposit adminId \<lparr>di_amount = VNum (of_int (ps_amount p)), di_refId = ps_refId p, di_last4 = ps_last4 p,
                 di_sender = src, di_raw = body, di_at = [], di_source = DS_SMS\<rparr>))"

definition rematch_one :: "uid \<Rightarrow> card_settings \<Rightarrow> deposit \<Rightarrow> deposit list \<times> nat \<Rightarrow> (world, deposit list \<times> nat) op" where
  "rematch_one adminId s d acc =
    (case acc of (rows, matched) \<Rightarrow>
     bnd (matchDeposit adminId s d) (\<lambda>(m, note).
     let row = d\<lparr>dep_status := mr_status m, dep_paymentId := mr_paymentId m, dep_note := note\<rparr> in
     ret (upd_rows (\<lambda>r. dep_id r = dep_id d) (\<lambda>_. row) rows, if mr_status m = D_MATCHED then Suc matched else matched)))"

definition rematchDeposits :: "uid \<Rightarrow> (world, nat) op" where
  "rematchDeposits adminId =
    bnd (gets (cardAutoSettings adminId)) (\<lambda>s.
    let open_ones = filter (\<lambda>d. dep_status d = D_UNMATCHED \<or> dep_status d = D_AMBIGUOUS) (card_deposits s) in
    if open_ones = [] then ret 0 else
    bnd (fold_op (rematch_one adminId s) (take 15 open_ones) (card_deposits s, 0)) (\<lambda>(rows, matched).
    andthen (saveCardAuto adminId (\<lambda>c. c\<lparr>card_deposits := rows\<rparr>)) (ret matched)))"

section \<open>One amount per invoice\<close>

text \<open>The candidates \<open>base, base + step, ...\<close> up to \<open>base + 999\<close>; a step is at least one, so there are a thousand at most.\<close>
definition amount_steps :: "int \<Rightarrow> int list" where
  "amount_steps tol = map (\<lambda>i. int i * max 1 (tol + 1)) [0 ..< Suc (nat (999 div max 1 (tol + 1)))]"

definition amount_free :: "int \<Rightarrow> payment list \<Rightarrow> int \<Rightarrow> bool" where
  "amount_free tol rows c \<longleftrightarrow> \<not> list_ex (\<lambda>p. \<bar>pay_amount p - c\<bar> \<le> tol) rows"

definition uniqueCardAmount :: "uid \<Rightarrow> int \<Rightarrow> world \<Rightarrow> int" where
  "uniqueCardAmount adminId base w =
    (let s = cardAutoSettings adminId w; rows = take 500 (open_cards adminId s w) in
     if base \<le> 0 \<or> \<not> card_uniqueAmount s \<or> card_mode s = CM_MANUAL \<or> rows = [] then base
     else opt_default (find (amount_free (card_toleranceIrt s) rows) (map (\<lambda>i. base + i) (amount_steps (card_toleranceIrt s)))) base)"

section \<open>The bank bridge\<close>

text \<open>\<open>rowsOf\<close>: the first list in the answer, under the usual names; the first argument bounds the nesting.\<close>
primrec rowsOf :: "nat \<Rightarrow> jval \<Rightarrow> jval list" where
  "rowsOf 0 j = (case j of VArr xs \<Rightarrow> xs | _ \<Rightarrow> [])"
| "rowsOf (Suc n) j =
    (case j of
       VArr xs \<Rightarrow> xs
     | VObj fs \<Rightarrow>
        (case List.map_filter (\<lambda>key. case map_of fs key of
              Some (VArr xs) \<Rightarrow> Some xs
            | Some (VObj gs) \<Rightarrow> (let inner = rowsOf n (VObj gs) in if inner = [] then None else Some inner)
            | _ \<Rightarrow> None)
            [''data'', ''items'', ''records'', ''transactions'', ''result'', ''rows'', ''list''] of
           [] \<Rightarrow> []
         | xs # _ \<Rightarrow> xs)
     | _ \<Rightarrow> [])"

text \<open>\<open>pick(row, keys)\<close>: the first property that is neither missing, null nor empty.\<close>
definition pick_field :: "jval \<Rightarrow> string list \<Rightarrow> jval option" where
  "pick_field row keys = first_some (\<lambda>k. case jfield k (Some row) of
     None \<Rightarrow> None | Some VNull \<Rightarrow> None | Some v \<Rightarrow> if v = VStr [] then None else Some v) keys"

definition picked_text :: "jval \<Rightarrow> string list \<Rightarrow> string" where
  "picked_text row keys = (case pick_field row keys of None \<Rightarrow> [] | Some v \<Rightarrow> js_String (Some v))"

text \<open>The words of a withdrawal, in the order of the code; texts outside ASCII are their UTF-8 bytes.\<close>
definition WITHDRAW_WORDS :: "string list" where
  "WITHDRAW_WORDS =
    [[CHR 0xD8, CHR 0xA8, CHR 0xD8, CHR 0xB1, CHR 0xD8, CHR 0xAF, CHR 0xD8, CHR 0xA7, CHR 0xD8, CHR 0xB4, CHR 0xD8, CHR 0xAA],
     [CHR 0xD8, CHR 0xA8, CHR 0xD8, CHR 0xAF, CHR 0xD9, CHR 0x87, CHR 0xDA, CHR 0xA9, CHR 0xD8, CHR 0xA7, CHR 0xD8, CHR 0xB1],
     [CHR 0xD8, CHR 0xA8, CHR 0xD8, CHR 0xAF, CHR 0xD9, CHR 0x87, CHR 0xD9, CHR 0x83, CHR 0xD8, CHR 0xA7, CHR 0xD8, CHR 0xB1],
     [CHR 0xD8, CHR 0xAE, CHR 0xD8, CHR 0xB1, CHR 0xDB, CHR 0x8C, CHR 0xD8, CHR 0xAF],
     [CHR 0xD8, CHR 0xAE, CHR 0xD8, CHR 0xB1, CHR 0xD9, CHR 0x8A, CHR 0xD8, CHR 0xAF],
     [CHR 0xD8, CHR 0xA7, CHR 0xD9, CHR 0x86, CHR 0xD8, CHR 0xAA, CHR 0xD9, CHR 0x82, CHR 0xD8, CHR 0xA7, CHR 0xD9, CHR 0x84, CHR 0x20, CHR 0xD8, CHR 0xA7, CHR 0xD8, CHR 0xB2],
     [CHR 0xDA, CHR 0xA9, CHR 0xD8, CHR 0xA7, CHR 0xD9, CHR 0x87, CHR 0xD8, CHR 0xB4],
     ''debit'',
     ''withdraw'',
     [CHR 0xD9, CHR 0x82, CHR 0xD8, CHR 0xB3, CHR 0xD8, CHR 0xB7]]"

definition is_withdrawal :: "string \<Rightarrow> bool" where
  "is_withdrawal desc \<longleftrightarrow> list_ex (\<lambda>w. contains w desc) WITHDRAW_WORDS \<or>
     contains ''debit'' (to_lower desc) \<or> contains ''withdraw'' (to_lower desc)"

text \<open>The second spelling of the rial, with the Arabic letter.\<close>
definition RIAL_AR :: string where
  "RIAL_AR = [CHR 0xD8, CHR 0xB1, CHR 0xD9, CHR 0x8A, CHR 0xD8, CHR 0xA7, CHR 0xD9, CHR 0x84]"

definition is_rial :: "string \<Rightarrow> bool" where
  "is_rial u \<longleftrightarrow> contains ''irr'' (to_lower u) \<or> contains ''rial'' (to_lower u) \<or> contains RIAL_FA u \<or> contains RIAL_AR u"

text \<open>The amount of a row in toman, or nothing for a row that is passed over.\<close>
definition bank_amount :: "jval \<Rightarrow> rat option" where
  "bank_amount row =
    (if is_withdrawal (picked_text row [''type'', ''kind'', ''desc'', ''description'', ''title'', ''sharh'']) then None
     else case toNumber (pick_field row [''amount'', ''credit'', ''deposit'', ''mablagh'', ''value'', ''price'', ''bestankar'']) of
       None \<Rightarrow> None
     | Some n \<Rightarrow> if n \<le> 0 then None
         else Some (if is_rial (picked_text row [''currency'', ''unit'', ''vahed'']) then of_int (js_round (n / 10)) else n))"

definition bank_input :: "services \<Rightarrow> jval \<Rightarrow> rat \<Rightarrow> deposit_input" where
  "bank_input x row n = \<lparr>di_amount = VNum n,
     di_refId = picked_text row [''refId'', ''ref'', ''reference'', ''trackingCode'', ''followCode'', ''peygiri'', ''id'', ''seq''],
     di_last4 = picked_text row [''cardPan'', ''pan'', ''card'', ''sourceCard'', ''mabda''],
     di_sender = ''bank'', di_raw = take 400 (ext_stringify x row),
     di_at = picked_text row [''date'', ''at'', ''createdAt'', ''time'', ''datetime'', ''tarikh''], di_source = DS_BANK\<rparr>"

definition import_row :: "uid \<Rightarrow> jval \<Rightarrow> nat \<times> nat \<Rightarrow> (world, nat \<times> nat) op" where
  "import_row adminId row acc =
    (case acc of (imported, matched) \<Rightarrow>
     case bank_amount row of
       None \<Rightarrow> ret (imported, matched)
     | Some n \<Rightarrow>
        bnd (gets svcs) (\<lambda>x. bnd (ingestDeposit adminId (bank_input x row n)) (\<lambda>r.
        ret (if ir_deposit r \<noteq> None \<and> ir_status r \<noteq> D_DUPLICATE then Suc imported else imported,
             if ir_status r = D_MATCHED then Suc matched else matched))))"

record sync_result =
  sy_ok :: bool
  sy_fetched :: nat
  sy_imported :: nat
  sy_matched :: nat
  sy_error :: "string option"

definition sync_failed :: "string \<Rightarrow> sync_result" where
  "sync_failed e = \<lparr>sy_ok = False, sy_fetched = 0, sy_imported = 0, sy_matched = 0, sy_error = Some e\<rparr>"

definition is_http :: "string \<Rightarrow> bool" where
  "is_http u \<longleftrightarrow> to_lower (take 7 u) = ''http://'' \<or> to_lower (take 8 u) = ''https://''"

definition empty_answer :: string where
  "empty_answer = ''the answer of the bank has no transaction''"

text \<open>The answer of the bank is fetched with \<open>getJson\<close>; nesting of eight levels is read.\<close>
definition syncBankDeposits :: "uid \<Rightarrow> (world, sync_result) op" where
  "syncBankDeposits adminId =
    bnd (gets (\<lambda>w. (cardAutoSettings adminId w, svcs w, clock w))) (\<lambda>(s, x, tm).
    if card_bankProvider s = BP_NONE \<or> card_bankApiUrl s = [] then ret (sync_failed ''the bank address is not set'')
    else if \<not> is_http (card_bankApiUrl s) then ret (sync_failed ''the bank address must start with http(s)'')
    else case getJson x tm (card_bankApiUrl s) of
      Inl e \<Rightarrow>
        andthen (saveCardAuto adminId (\<lambda>c. c\<lparr>card_lastError := e, card_bankLastSyncAt := Some tm\<rparr>)) (ret (sync_failed e))
    | Inr payload \<Rightarrow>
        let rows = rowsOf 8 payload; er = (if rows = [] then empty_answer else []) in
        bnd (fold_op (import_row adminId) (take 30 rows) (0, 0)) (\<lambda>(imported, matched).
        andthen (saveCardAuto adminId (\<lambda>c. c\<lparr>card_bankLastSyncAt := Some tm, card_lastError := er\<rparr>))
        (ret \<lparr>sy_ok = True, sy_fetched = length rows, sy_imported = imported, sy_matched = matched, sy_error = nonempty er\<rparr>)))"

definition sync_due :: "time \<Rightarrow> card_settings \<Rightarrow> bool" where
  "sync_due tm s \<longleftrightarrow> card_mode s = CM_BANK \<and> card_bankProvider s \<noteq> BP_NONE \<and> card_bankApiUrl s \<noteq> [] \<and>
     (case card_bankLastSyncAt s of Some t \<Rightarrow> card_bankPollMin s * 60000 \<le> tm - t | None \<Rightarrow> True)"

text \<open>The rows are read once; those whose settings do not parse are skipped.\<close>
definition autoSyncBankDeposits :: "(world, nat) op" where
  "autoSyncBankDeposits =
    bnd (gets (\<lambda>w. filter (\<lambda>(a, s). card_valid s \<and> sync_due (clock w) s) (card_cfg w))) (\<lambda>rows.
    fold_op (\<lambda>(a, s) synced.
      bnd (catch_op (bnd (syncBankDeposits a) (\<lambda>r. ret (sy_ok r))) (\<lambda>_. ret False)) (\<lambda>okay.
      ret (if okay then Suc synced else synced))) rows 0)"

end
