(* ===== verification/Store.thy ===== *)
theory Store
  imports Cards
begin

text \<open>
  The storefront: \<open>store.ts\<close> (the public catalogue, discount preview, placing an order and paying it
  from the customer's wallet, the order page) and \<open>storeCustomerPay.ts\<close> (wallet top-ups of customers
  and their payments). Brands and page texts are not columns of the model.
\<close>

section \<open>The shop and its catalogue\<close>

definition usdtOf :: "int \<Rightarrow> int \<Rightarrow> rat option" where
  "usdtOf price rate =
    (if rate \<le> 0 then None
     else let v = of_int price / of_int rate :: rat in if v \<le> 0 then None else Some (of_int (js_ceil (v * 100)) / 100))"

record store_context =
  ctx_settings :: store_settings
  ctx_admin :: admin

definition ctxOf :: "store_settings option \<Rightarrow> world \<Rightarrow> store_context option" where
  "ctxOf st w =
    (case st of
       None \<Rightarrow> None
     | Some s \<Rightarrow> (case find_admin (sto_adminId s) w of
         None \<Rightarrow> None
       | Some a \<Rightarrow> if \<not> sto_enabled s \<or> \<not> adm_isActive a then None else Some \<lparr>ctx_settings = s, ctx_admin = a\<rparr>))"

definition getStoreBySlug :: "string \<Rightarrow> world \<Rightarrow> store_context option" where
  "getStoreBySlug slug w = ctxOf (store_by_slug (to_lower slug) w) w"

record store_accounts =
  sa_enabled :: bool
  sa_guestCheckout :: bool
  sa_walletEnabled :: bool
  sa_minTopup :: string
  sa_topupBonusPct :: int
  sa_requireEmail :: bool

definition publicStoreAccounts :: "store_settings \<Rightarrow> store_accounts" where
  "publicStoreAccounts s = \<lparr>sa_enabled = sto_accountsEnabled s, sa_guestCheckout = sto_guestCheckout s,
     sa_walletEnabled = (sto_accountsEnabled s \<and> sto_walletEnabled s), sa_minTopup = show_int (sto_minTopup s),
     sa_topupBonusPct = sto_topupBonusPct s, sa_requireEmail = sto_requireEmail s\<rparr>"

record public_plan =
  pu_plan :: plan
  pu_serviceName :: "string option"
  pu_servers :: nat
  pu_locations :: "string list"
  pu_pricePerDay :: "int option"
  pu_priceUsdt :: "rat option"

definition planLocations :: "plan \<Rightarrow> world \<Rightarrow> string list" where
  "planLocations p w =
    filter (\<lambda>n. n \<noteq> []) (List.map_filter (\<lambda>i. map_option srv_name (find_server i w)) (uniq (map t_serverId (planTargets p))))"

text \<open>One card of the shop; \<open>showUsdt\<close> is a switch of the page settings.\<close>
definition publicPlan :: "bool \<Rightarrow> int \<Rightarrow> world \<Rightarrow> plan \<Rightarrow> public_plan" where
  "publicPlan showUsdt rate w p = \<lparr>pu_plan = p,
     pu_serviceName = (case planServiceId p of Some i \<Rightarrow> map_option svc_name (find_service i w) | None \<Rightarrow> None),
     pu_servers = length (uniq (map t_serverId (planTargets p))), pu_locations = planLocations p w,
     pu_pricePerDay = (if 0 < pln_days p then Some (js_round (of_int (pln_price p) / of_int (pln_days p))) else None),
     pu_priceUsdt = (if showUsdt then usdtOf (pln_price p) rate else None)\<rparr>"

record public_store =
  pb_methods :: "payment_method list"
  pb_usdtRate :: int
  pb_fx_source :: string
  pb_fx_stale :: bool
  pb_cardAutoVerify :: bool
  pb_accounts :: store_accounts
  pb_stats :: "nat \<times> nat \<times> int"
  pb_plans :: "public_plan list"

definition shop_plans :: "uid \<Rightarrow> world \<Rightarrow> plan list" where
  "shop_plans adminId w =
    sort_key pln_sortOrder (sort_key pln_price (filter (\<lambda>p. pln_adminId p = adminId \<and> pln_isActive p) (plans w)))"

definition card_auto_on :: "uid \<Rightarrow> world \<Rightarrow> bool" where
  "card_auto_on adminId w \<longleftrightarrow> card_mode (cardAutoSettings adminId w) \<noteq> CM_MANUAL \<and> card_autoConfirm (cardAutoSettings adminId w)"

definition publicStorePayload :: "bool \<Rightarrow> store_context \<Rightarrow> (world, public_store) op" where
  "publicStorePayload showUsdt ctx =
    (let a = adm_id (ctx_admin ctx); s = ctx_settings ctx in
    bnd (gets (shop_plans a)) (\<lambda>rows.
    bnd (effectiveUsdtRate a (sto_usdtRate s)) (\<lambda>fx.
    gets (\<lambda>w. let cards = map (publicPlan showUsdt (qr_rate fx) w) rows in
      \<lparr>pb_methods = enabledMethods (s\<lparr>sto_usdtRate := qr_rate fx\<rparr>), pb_usdtRate = qr_rate fx, pb_fx_source = qr_source fx,
       pb_fx_stale = qr_stale fx, pb_cardAutoVerify = card_auto_on a w, pb_accounts = publicStoreAccounts s,
       pb_stats = (length cards, length (uniq (concat (map pu_locations cards))), sum_list (map pln_sold rows)),
       pb_plans = cards\<rparr>))))"

definition shop_not_found :: err where
  "shop_not_found = not_found_error ''shop not found''"

text \<open>An active plan of the shop.\<close>
definition shop_plan :: "uid \<Rightarrow> uid \<Rightarrow> (world, plan) op" where
  "shop_plan sellerId planId =
    bnd (gets (\<lambda>w. find (\<lambda>p. pln_id p = planId \<and> pln_adminId p = sellerId \<and> pln_isActive p) (plans w))) (\<lambda>found.
    or_throw found (not_found_error ''plan not found''))"

record discount_preview =
  dp_listPrice :: int
  dp_discount :: int
  dp_amount :: int
  dp_code :: "string option"
  dp_error :: "string option"

definition previewDiscount :: "string \<Rightarrow> uid \<Rightarrow> string \<Rightarrow> (world, discount_preview) op" where
  "previewDiscount slug planId code =
    bnd (gets (getStoreBySlug slug)) (\<lambda>c. bnd (or_throw c shop_not_found) (\<lambda>ctx.
    bnd (shop_plan (adm_id (ctx_admin ctx)) planId) (\<lambda>p.
    gets (\<lambda>w. let d = applyDiscount (adm_id (ctx_admin ctx)) (Some code) (pln_price p) w in
      \<lparr>dp_listPrice = pln_price p, dp_discount = ds_discount d, dp_amount = pln_price p - ds_discount d,
       dp_code = ds_code d, dp_error = ds_error d\<rparr>))))"

section \<open>Placing an order\<close>

record order_input =
  oi_planId :: uid
  oi_method :: payment_method
  oi_name :: "string option"
  oi_telegramId :: "string option"
  oi_phone :: "string option"
  oi_email :: "string option"
  oi_discountCode :: "string option"
  oi_renewToken :: "string option"
  oi_ip :: "string option"
  oi_customerId :: "uid option"

record order_result =
  res_order :: order
  res_payment :: "payment option"
  res_next :: payment_next
  res_token :: string

text \<open>What the buyer typed, or what the account has: \<open>(typed || account?.field) ?? null\<close>.\<close>
definition typed_or :: "string \<Rightarrow> string option \<Rightarrow> string option" where
  "typed_or typed stored = (if typed \<noteq> [] then Some typed else stored)"

record buyer =
  by_name :: "string option"
  by_telegramId :: "string option"
  by_phone :: "string option"
  by_email :: "string option"

definition buyer_of :: "order_input \<Rightarrow> customer option \<Rightarrow> buyer" where
  "buyer_of inp account =
    (let own = (\<lambda>f. case account of Some c \<Rightarrow> f c | None \<Rightarrow> None) in
     \<lparr>by_name = typed_or (take 60 (str_trim (opt_default (oi_name inp) []))) (own cus_name),
      by_telegramId = typed_or (take 20 (filter is_digit (opt_default (oi_telegramId inp) []))) (own cus_telegramId),
      by_phone = typed_or (take 20 (filter (\<lambda>c. is_digit c \<or> c = CHR ''+'') (opt_default (oi_phone inp) []))) (own cus_phone),
      by_email = typed_or (take 120 (str_trim (opt_default (oi_email inp) []))) (own cus_email)\<rparr>)"

definition login_required :: "string \<Rightarrow> err" where
  "login_required m = AppError m 401 ''login_required''"

text \<open>The account that orders, if any.\<close>
definition order_account :: "store_settings \<Rightarrow> uid \<Rightarrow> order_input \<Rightarrow> (world, customer option) op" where
  "order_account s sellerId inp =
    (case oi_customerId inp of
       None \<Rightarrow> andthen (throw_if (\<not> sto_guestCheckout s) (login_required ''sign in to buy'')) (ret None)
     | Some i \<Rightarrow>
        bnd (gets (\<lambda>w. find (\<lambda>c. cus_id c = i \<and> cus_adminId c = sellerId \<and> cus_status c = CU_ACTIVE) (customers w))) (\<lambda>found.
        bnd (or_throw found (login_required ''the account is not valid'')) (\<lambda>c. ret (Some c))))"

definition buyer_checks :: "store_settings \<Rightarrow> buyer \<Rightarrow> string option \<Rightarrow> (world, unit) op" where
  "buyer_checks s b ip =
    andthen (throw_if (sto_requireTelegram s \<and> \<not> truthy (by_telegramId b)) (app_error ''Telegram id is required''))
    (andthen (throw_if (sto_requirePhone s \<and> \<not> truthy (by_phone b)) (app_error ''phone is required''))
    (bnd (gets (\<lambda>w. truthy ip \<and> 10 \<le> length (filter (\<lambda>r. ord_ip r = ip \<and> clock w - 10 * 60000 \<le> ord_createdAt r) (orders w)))) (\<lambda>busy.
    throw_if busy (AppError ''too many orders'' 429 ''bad_request''))))"

definition renewed_client :: "uid \<Rightarrow> string option \<Rightarrow> (world, uid option) op" where
  "renewed_client sellerId token =
    (if \<not> truthy token then ret None
     else bnd (gets (\<lambda>w. find (\<lambda>c. Some (cli_subToken c) = token \<and> cli_adminId c = sellerId) (clients w))) (\<lambda>found.
       bnd (or_throw found (app_error ''the subscription to renew was not found'')) (\<lambda>c. ret (Some (cli_id c)))))"

text \<open>The price after the discount, raised for card invoices that must differ from one another.\<close>
definition order_amount :: "uid \<Rightarrow> payment_method \<Rightarrow> int \<Rightarrow> world \<Rightarrow> int" where
  "order_amount sellerId method net w =
    (if method = CARD \<and> 0 < net then max net (uniqueCardAmount sellerId net w) else net)"

definition pays_from_wallet :: "order_input \<Rightarrow> int \<Rightarrow> bool" where
  "pays_from_wallet inp amount \<longleftrightarrow> oi_method inp = WALLET \<and> 0 < amount"

definition method_checks :: "store_settings \<Rightarrow> customer option \<Rightarrow> order_input \<Rightarrow> int \<Rightarrow> (world, unit) op" where
  "method_checks s account inp amount =
    (if pays_from_wallet inp amount then
       andthen (throw_if (account = None) (login_required ''sign in to pay from the wallet''))
       (andthen (throw_if (\<not> sto_accountsEnabled s \<or> \<not> sto_walletEnabled s) (AppError ''the wallet is off in this shop'' 403 ''wallet_disabled''))
       (throw_if (case account of Some c \<Rightarrow> cus_credit c < amount | None \<Rightarrow> False) insufficient_funds))
     else throw_if (0 < amount \<and> oi_method inp \<notin> set (enabledMethods s)) (app_error ''this payment method is not active''))"

text \<open>What the checks work out before anything is written.\<close>
record order_draft =
  dr_plan :: plan
  dr_account :: "customer option"
  dr_buyer :: buyer
  dr_renew :: "uid option"
  dr_discount :: discount_result
  dr_amount :: int
  dr_targets :: "target list"

definition order_checks :: "store_context \<Rightarrow> order_input \<Rightarrow> (world, order_draft) op" where
  "order_checks ctx inp =
    (let s = ctx_settings ctx; sellerId = adm_id (ctx_admin ctx) in
    bnd (shop_plan sellerId (oi_planId inp)) (\<lambda>p.
    bnd (order_account s sellerId inp) (\<lambda>account.
    andthen (buyer_checks s (buyer_of inp account) (oi_ip inp))
    (bnd (renewed_client sellerId (oi_renewToken inp)) (\<lambda>renew.
    bnd (gets (applyDiscount sellerId (oi_discountCode inp) (pln_price p))) (\<lambda>d.
    andthen (throw_if (truthy (ds_error d)) (app_error (opt_default (ds_error d) [])))
    (bnd (gets (order_amount sellerId (oi_method inp) (pln_price p - ds_discount d))) (\<lambda>amount.
    andthen (method_checks s account inp amount)
    (bnd (planTargetsFresh p) (\<lambda>targets.
    ret \<lparr>dr_plan = p, dr_account = account, dr_buyer = buyer_of inp account, dr_renew = renew, dr_discount = d, dr_amount = amount,
      dr_targets = targets\<rparr>))))))))))"

definition new_order :: "uid \<Rightarrow> order_input \<Rightarrow> order_draft \<Rightarrow> time \<Rightarrow> uid \<Rightarrow> string \<Rightarrow> order" where
  "new_order sellerId inp dr tm k token =
    (let p = dr_plan dr; b = dr_buyer dr; free = (dr_amount dr \<le> 0) in
     \<lparr>ord_id = k, ord_token = token, ord_adminId = sellerId, ord_planId = Some (pln_id p), ord_clientId = None,
      ord_customerId = map_option cus_id (dr_account dr), ord_renewClientId = dr_renew dr,
      ord_status = (if free then O_PAID else O_PENDING), ord_listPrice = pln_price p, ord_discountCode = ds_code (dr_discount dr),
      ord_discountAmount = ds_discount (dr_discount dr), ord_amount = dr_amount dr, ord_customerName = by_name b,
      ord_customerTelegramId = by_telegramId b, ord_customerPhone = by_phone b, ord_customerEmail = by_email b, ord_error = None,
      ord_note = None, ord_ip = oi_ip inp,
      ord_planSnapshot = \<lparr>snap_name = pln_name p, snap_trafficGB = pln_trafficGB p, snap_days = pln_days p,
        snap_ipLimit = pln_ipLimit p, snap_targets = dr_targets dr\<rparr>,
      ord_createdAt = tm, ord_paidAt = (if free then Some tm else None), ord_fulfilledAt = None\<rparr>)"

text \<open>The order row, the use of the discount code and the events.\<close>
definition record_order :: "uid \<Rightarrow> order_input \<Rightarrow> order_draft \<Rightarrow> (world, order) op" where
  "record_order sellerId inp dr =
    bnd (randomToken 16) (\<lambda>token. bnd new_id (\<lambda>k. bnd now (\<lambda>tm.
    let ord = new_order sellerId inp dr tm k token in
    andthen (modify (\<lambda>w. w\<lparr>orders := orders w @ [ord]\<rparr>))
    (andthen (modify (\<lambda>w. case ds_id (dr_discount dr) of None \<Rightarrow> w
        | Some i \<Rightarrow> w\<lparr>discounts := upd_rows (\<lambda>d. dis_id d = i) (\<lambda>d. d\<lparr>dis_uses := dis_uses d + 1\<rparr>) (discounts w)\<rparr>))
    (andthen (audit (Some sellerId) ''order.create'' (JId k)
       [(''plan'', JStr (pln_name (dr_plan dr))), (''amount'', JStr (show_int (dr_amount dr))), (''method'', JStr (method_text (oi_method inp))),
        (''renew'', JBool (dr_renew dr \<noteq> None)), (''customerId'', opt_json JId (map_option cus_id (dr_account dr)))] (oi_ip inp))
    (andthen (emitEvent (Some sellerId) ''order.created''
       [(''orderId'', JId k), (''plan'', JStr (pln_name (dr_plan dr))), (''amount'', JStr (show_int (dr_amount dr))),
        (''method'', JStr (method_text (oi_method inp)))])
    (ret ord)))))))"

definition order_notice :: "uid \<Rightarrow> uid \<Rightarrow> (world, unit) op" where
  "order_notice sellerId orderId =
    notify_void ''order.new'' [JStr ''order'', JId orderId, JStr ''new''] (JId orderId) (to_admin (Some sellerId))"

text \<open>The payment row of \<open>payOrderWithWallet\<close>; it never expires.\<close>
definition wallet_payment :: "order \<Rightarrow> uid \<Rightarrow> uid \<Rightarrow> time \<Rightarrow> uid \<Rightarrow> payment" where
  "wallet_payment ord sellerId customerId tm k = \<lparr>pay_id = k, pay_kind = K_ORDER, pay_method = WALLET, pay_status = P_PENDING,
     pay_orderId = Some (ord_id ord), pay_adminId = sellerId, pay_customerId = Some customerId, pay_amount = ord_amount ord,
     pay_amountUsdt = None, pay_txid = None, pay_receiptRef = None, pay_receiptFile = None, pay_cardPan = None,
     pay_authority = None, pay_refId = None, pay_reviewedById = None, pay_reviewedAt = None, pay_reviewNote = None,
     pay_error = None, pay_expiresAt = None, pay_meta = blank_meta, pay_createdAt = tm, pay_updatedAt = tm\<rparr>"

definition wallet_move :: "order \<Rightarrow> uid \<Rightarrow> wallet_tx_kind \<Rightarrow> string \<Rightarrow> customer_move" where
  "wallet_move ord customerId kind note = \<lparr>cm_customerId = customerId, cm_amount = ord_amount ord, cm_kind = kind,
     cm_refType = Some R_order, cm_refId = Some (ord_id ord), cm_note = Some note, cm_byAdminId = None\<rparr>"

text \<open>The payment and the order of a purchase that did not go through.\<close>
definition undo_purchase :: "order \<Rightarrow> uid \<Rightarrow> err \<Rightarrow> (world, unit) op" where
  "undo_purchase ord paymentId e =
    andthen (update_payment paymentId (\<lambda>p. p\<lparr>pay_status := P_REJECTED, pay_error := Some (err_message e)\<rparr>))
    (andthen (update_order (ord_id ord) (\<lambda>r. r\<lparr>ord_status := O_CANCELED, ord_error := Some (err_message e)\<rparr>)) (ret ()))"

definition done_result :: "order \<Rightarrow> payment \<Rightarrow> world \<Rightarrow> order_result" where
  "done_result ord p w = \<lparr>res_order = opt_default (find_order (ord_id ord) w) ord, res_payment = Some p, res_next = NextDone,
     res_token = ord_token ord\<rparr>"

text \<open>The second \<open>catch\<close>: the money goes back, unless the payment was confirmed after all.\<close>
definition return_money :: "order \<Rightarrow> payment \<Rightarrow> uid \<Rightarrow> uid \<Rightarrow> err \<Rightarrow> (world, order_result) op" where
  "return_money ord p sellerId customerId e =
    bnd (gets (find_payment (pay_id p))) (\<lambda>current.
    if (case current of Some c \<Rightarrow> pay_status c \<noteq> P_CONFIRMED | None \<Rightarrow> False) then
      andthen (swallow (creditCustomerWallet (wallet_move ord customerId W_REFUND ''failed order'')))
      (andthen (undo_purchase ord (pay_id p) e)
      (andthen (audit (Some sellerId) ''order.wallet_refund'' (JId (ord_id ord))
         [(''customerId'', JId customerId), (''amount'', JStr (show_int (ord_amount ord))), (''error'', JStr (err_message e))] None)
      (throw e)))
    else gets (done_result ord (opt_default current p)))"

definition finish_wallet :: "order \<Rightarrow> payment \<Rightarrow> uid \<Rightarrow> uid \<Rightarrow> (world, order_result) op" where
  "finish_wallet ord p sellerId customerId =
    bnd (attempt (confirmPayment (pay_id p) (auto_opts ''paid from the wallet''))) (\<lambda>r.
    case r of
      Inr confirmed \<Rightarrow> andthen (order_notice sellerId (ord_id ord)) (gets (done_result ord confirmed))
    | Inl e \<Rightarrow> return_money ord p sellerId customerId e)"

definition payOrderWithWallet :: "order \<Rightarrow> plan \<Rightarrow> uid \<Rightarrow> uid \<Rightarrow> (world, order_result) op" where
  "payOrderWithWallet ord p sellerId customerId =
    bnd new_id (\<lambda>k. bnd now (\<lambda>tm.
    bnd (insert_payment (wallet_payment ord sellerId customerId tm k)) (\<lambda>payment.
    bnd (attempt (debitCustomerWallet (wallet_move ord customerId W_PURCHASE (pln_name p)))) (\<lambda>r.
    case r of
      Inl e \<Rightarrow> andthen (undo_purchase ord k e) (throw e)
    | Inr u \<Rightarrow> finish_wallet ord payment sellerId customerId))))"

definition pay_outside :: "store_context \<Rightarrow> order_input \<Rightarrow> order_draft \<Rightarrow> order \<Rightarrow> (world, order_result) op" where
  "pay_outside ctx inp dr ord =
    (let sellerId = adm_id (ctx_admin ctx) in
    bnd (beginPayment (ctx_settings ctx) \<lparr>bp_kind = K_ORDER, bp_method = oi_method inp, bp_amount = dr_amount dr, bp_adminId = sellerId,
        bp_orderId = Some (ord_id ord), bp_description = pln_name (dr_plan dr), bp_mobile = by_phone (dr_buyer dr),
        bp_email = by_email (dr_buyer dr), bp_assetId = None\<rparr>) (\<lambda>(payment, next).
    andthen (order_notice sellerId (ord_id ord))
    (andthen (do_when (oi_method inp = CARD) (swallow (rematchDeposits sellerId)))
    (ret \<lparr>res_order = ord, res_payment = Some payment, res_next = next, res_token = ord_token ord\<rparr>))))"

definition settle_order :: "store_context \<Rightarrow> order_input \<Rightarrow> order_draft \<Rightarrow> order \<Rightarrow> (world, order_result) op" where
  "settle_order ctx inp dr ord =
    (if dr_amount dr \<le> 0 then
       bnd (fulfillOrder (ord_id ord)) (\<lambda>fulfilled.
       ret \<lparr>res_order = fulfilled, res_payment = None, res_next = NextDone, res_token = ord_token ord\<rparr>)
     else case (if pays_from_wallet inp (dr_amount dr) then dr_account dr else None) of
       Some c \<Rightarrow> payOrderWithWallet ord (dr_plan dr) (adm_id (ctx_admin ctx)) (cus_id c)
     | None \<Rightarrow> pay_outside ctx inp dr ord)"

definition createOrder :: "string \<Rightarrow> order_input \<Rightarrow> (world, order_result) op" where
  "createOrder slug inp =
    bnd (gets (getStoreBySlug slug)) (\<lambda>c. bnd (or_throw c shop_not_found) (\<lambda>ctx.
    bnd (order_checks ctx inp) (\<lambda>dr.
    bnd (record_order (adm_id (ctx_admin ctx)) inp dr) (\<lambda>ord.
    settle_order ctx inp dr ord))))"

section \<open>The order page\<close>

definition order_by_token :: "string \<Rightarrow> world \<Rightarrow> order option" where
  "order_by_token token w = find_row ord_token token (orders w)"

text \<open>\<open>payments: { orderBy: { createdAt: "desc" }, take: 1 }\<close>.\<close>
definition order_payment :: "order \<Rightarrow> world \<Rightarrow> payment option" where
  "order_payment ord w =
    (case sort_key (\<lambda>p. - pay_createdAt p) (filter (\<lambda>p. pay_orderId p = Some (ord_id ord)) (payments w)) of
       [] \<Rightarrow> None
     | p # _ \<Rightarrow> Some p)"

text \<open>The part of \<open>PublicOrder\<close> that does not come from the brand.\<close>
record public_order =
  pbo_order :: order
  pbo_expiresAt :: "time option"
  pbo_payment :: "payment option"
  pbo_next :: payment_next
  pbo_autoVerify :: bool
  pbo_client :: "(string \<times> string \<times> time option \<times> rat) option"
  pbo_slug :: string

definition public_order_of :: "order \<Rightarrow> world \<Rightarrow> public_order" where
  "public_order_of ord w =
    (let p = order_payment ord w; s = storeSettingsByAdminId (ord_adminId ord) w in
     \<lparr>pbo_order = ord, pbo_expiresAt = (case p of Some r \<Rightarrow> pay_expiresAt r | None \<Rightarrow> None), pbo_payment = p,
      pbo_next = (if ord_status ord = O_FULFILLED then NextDone else case p of Some r \<Rightarrow> paymentNext r s w | None \<Rightarrow> NextNone),
      pbo_autoVerify = (case p of Some r \<Rightarrow> pay_method r = CARD \<and> card_auto_on (ord_adminId ord) w | None \<Rightarrow> False),
      pbo_client = (case ord_clientId ord of None \<Rightarrow> None
        | Some i \<Rightarrow> map_option (\<lambda>c. (cli_name c, subscriptionUrl w c, cli_expiresAt c, of_int (cli_trafficLimit c) / of_int GB)) (find_client i w)),
      pbo_slug = (case s of Some st \<Rightarrow> sto_slug st | None \<Rightarrow> [])\<rparr>)"

definition publicOrder :: "string \<Rightarrow> world \<Rightarrow> public_order option" where
  "publicOrder token w = map_option (\<lambda>ord. public_order_of ord w) (order_by_token token w)"

definition latestPaymentByOrderToken :: "string \<Rightarrow> (world, order \<times> payment option) op" where
  "latestPaymentByOrderToken token =
    bnd (gets (order_by_token token)) (\<lambda>found. bnd (or_throw found order_not_found) (\<lambda>ord.
    gets (\<lambda>w. (ord, order_payment ord w))))"

section \<open>Payments of a customer: \<open>storeCustomerPay.ts\<close>\<close>

definition MIN_TOPUP :: int where
  "MIN_TOPUP = 1000"

definition customerTopupMethods :: "uid \<Rightarrow> world \<Rightarrow> payment_method list" where
  "customerTopupMethods adminId w =
    (case storeSettingsByAdminId adminId w of
       None \<Rightarrow> []
     | Some s \<Rightarrow> if \<not> sto_enabled s \<or> \<not> sto_walletEnabled s then [] else enabledMethods s)"

definition topup_name :: "customer \<Rightarrow> string" where
  "topup_name c = str_or (cus_name c) (str_or (cus_email c) (str_or (cus_phone c) (show_nat (cus_id c)) id) id) id"

definition topup_begin :: "customer \<Rightarrow> int \<Rightarrow> payment_method \<Rightarrow> string option \<Rightarrow> begin_input" where
  "topup_begin c amount method assetId = \<lparr>bp_kind = K_TOPUP, bp_method = method, bp_amount = amount, bp_adminId = cus_adminId c,
     bp_orderId = None, bp_description = ''wallet top-up - '' @ topup_name c, bp_mobile = cus_phone c, bp_email = cus_email c,
     bp_assetId = assetId\<rparr>"

text \<open>\<open>amount\<close> is \<open>BigInt(Math.round(input.amount))\<close>; \<open>beginPayment\<close> writes the row and the customer is tagged right after.\<close>
definition createCustomerTopup :: "customer \<Rightarrow> rat \<Rightarrow> payment_method \<Rightarrow> string option \<Rightarrow> (world, payment \<times> payment_next) op" where
  "createCustomerTopup c amountIn method assetId =
    bnd (gets (storeSettingsByAdminId (cus_adminId c))) (\<lambda>found.
    bnd (or_throw (case found of Some s \<Rightarrow> if sto_enabled s then Some s else None | None \<Rightarrow> None) (not_found_error ''the shop is not active'')) (\<lambda>s.
    andthen (throw_if (\<not> sto_walletEnabled s) (AppError ''the wallet is off in this shop'' 403 ''wallet_disabled''))
    (let amount = js_round amountIn; least = (if 0 < sto_minTopup s then sto_minTopup s else MIN_TOPUP) in
    andthen (throw_if (amount < least) (app_error ''below the least top-up''))
    (andthen (throw_if (method \<notin> set (enabledMethods s)) (app_error ''this payment method is not active''))
    (bnd (beginPayment s (topup_begin c amount method assetId)) (\<lambda>(p, next).
    bnd (update_payment (pay_id p) (\<lambda>r. r\<lparr>pay_customerId := Some (cus_id c)\<rparr>)) (\<lambda>saved.
    andthen (audit (Some (cus_adminId c)) ''customer.topup_request'' (JId (pay_id saved))
       [(''customerId'', JId (cus_id c)), (''amount'', JStr (show_int amount)), (''method'', JStr (method_text method))] None)
    (ret (saved, next)))))))))"

definition attachCustomerToOrder :: "string \<Rightarrow> customer \<Rightarrow> (world, unit) op" where
  "attachCustomerToOrder token c =
    bnd (gets (order_by_token token)) (\<lambda>found.
    case found of
      None \<Rightarrow> ret ()
    | Some ord \<Rightarrow>
        if ord_adminId ord \<noteq> cus_adminId c \<or> ord_customerId ord \<noteq> None then ret ()
        else andthen (update_order (ord_id ord) (\<lambda>r. r\<lparr>ord_customerId := Some (cus_id c)\<rparr>)) (ret ()))"

text \<open>The number of subscriptions linked.\<close>
definition linkCustomerClients :: "uid \<Rightarrow> (world, nat) op" where
  "linkCustomerClients customerId =
    bnd (gets (\<lambda>w. uniq (List.map_filter ord_clientId (filter (\<lambda>r. ord_customerId r = Some customerId) (orders w))))) (\<lambda>ids.
    if ids = [] then ret 0 else
    bnd (gets (\<lambda>w. length (filter (\<lambda>c. cli_id c \<in> set ids \<and> cli_customerId c = None) (clients w)))) (\<lambda>n.
    andthen (modify (\<lambda>w. w\<lparr>clients := upd_rows (\<lambda>c. cli_id c \<in> set ids \<and> cli_customerId c = None)
        (\<lambda>c. c\<lparr>cli_customerId := Some customerId\<rparr>) (clients w)\<rparr>)) (ret n)))"

record payment_view =
  pv_id :: uid
  pv_kind :: payment_kind
  pv_method :: payment_method
  pv_status :: payment_status
  pv_amount :: string
  pv_amountUsdt :: "rat option"
  pv_expiresAt :: "time option"
  pv_createdAt :: time
  pv_error :: "string option"
  pv_reviewNote :: "string option"
  pv_next :: payment_next

definition toCustomerPaymentView :: "payment \<Rightarrow> store_settings option \<Rightarrow> world \<Rightarrow> payment_view" where
  "toCustomerPaymentView p s w = \<lparr>pv_id = pay_id p, pv_kind = pay_kind p, pv_method = pay_method p, pv_status = pay_status p,
     pv_amount = show_int (pay_amount p), pv_amountUsdt = pay_amountUsdt p, pv_expiresAt = pay_expiresAt p,
     pv_createdAt = pay_createdAt p, pv_error = pay_error p, pv_reviewNote = pay_reviewNote p, pv_next = paymentNext p s w\<rparr>"

definition ownPayment :: "customer \<Rightarrow> uid \<Rightarrow> (world, payment) op" where
  "ownPayment c paymentId =
    bnd (gets (find_payment paymentId)) (\<lambda>found.
    or_throw (case found of Some p \<Rightarrow> if pay_customerId p = Some (cus_id c) then Some p else None | None \<Rightarrow> None) payment_not_found)"

definition customerPaymentView :: "customer \<Rightarrow> uid \<Rightarrow> (world, payment_view) op" where
  "customerPaymentView c paymentId =
    bnd (ownPayment c paymentId) (\<lambda>p. gets (\<lambda>w. toCustomerPaymentView p (storeSettingsByAdminId (pay_adminId p) w) w))"

definition listCustomerTopups :: "customer \<Rightarrow> int \<Rightarrow> world \<Rightarrow> payment_view list" where
  "listCustomerTopups c limit w =
    map (\<lambda>p. toCustomerPaymentView p (storeSettingsByAdminId (cus_adminId c) w) w)
      (take (nat (min (max limit 1) 20)) (sort_key (\<lambda>p. - pay_createdAt p)
        (filter (\<lambda>p. pay_customerId p = Some (cus_id c) \<and> pay_kind p = K_TOPUP \<and> (pay_status p = P_PENDING \<or> pay_status p = P_REVIEW))
          (payments w))))"

definition submitCustomerProof :: "customer \<Rightarrow> uid \<Rightarrow> payment_proof \<Rightarrow> (world, payment_view) op" where
  "submitCustomerProof c paymentId proof =
    bnd (ownPayment c paymentId) (\<lambda>p. bnd (submitProof (pay_id p) proof) (\<lambda>saved.
    gets (\<lambda>w. toCustomerPaymentView saved (storeSettingsByAdminId (pay_adminId saved) w) w)))"

end
