(* ===== verification/PaymentLife.thy ===== *)
theory PaymentLife
  imports Store
begin

text \<open>
  The life of a payment as an abstract machine, and the interface through which every operation of the
  shop respects it. \<open>book_step\<close> is the specification: a book of entries in which an entry is opened,
  submitted, confirmed, rejected or expired. The locale \<open>payment_law\<close> is what an invariant must
  allow for the operations to keep it; it is interpreted on \<open>pay_refines\<close>, which makes one
  refinement lemma of every operation.
\<close>

section \<open>The specification\<close>

record pay_entry =
  en_kind :: payment_kind
  en_method :: payment_method
  en_amount :: int
  en_adminId :: uid
  en_orderId :: "uid option"
  en_status :: payment_status
  en_reviewer :: "uid option"

text \<open>
  Proofs are accepted before the decision and after a rejection; an expired payment is confirmed only
  by a reviewer; what is confirmed stays so.
\<close>
inductive entry_step :: "pay_entry \<Rightarrow> pay_entry \<Rightarrow> bool" where
  submitted: "en_status e \<in> {P_PENDING, P_REVIEW, P_REJECTED} \<Longrightarrow> entry_step e (e\<lparr>en_status := P_REVIEW\<rparr>)"
| confirmed: "en_status e \<noteq> P_CONFIRMED \<Longrightarrow> who = None \<longrightarrow> en_status e \<noteq> P_EXPIRED \<Longrightarrow>
    entry_step e (e\<lparr>en_status := P_CONFIRMED, en_reviewer := who\<rparr>)"
| rejected: "en_status e \<noteq> P_CONFIRMED \<Longrightarrow> entry_step e (e\<lparr>en_status := P_REJECTED, en_reviewer := who\<rparr>)"
| expired: "en_status e = P_PENDING \<Longrightarrow> entry_step e (e\<lparr>en_status := P_EXPIRED\<rparr>)"

type_synonym book = "uid \<Rightarrow> pay_entry option"

inductive book_step :: "book \<Rightarrow> book \<Rightarrow> bool" where
  opened: "b i = None \<Longrightarrow> en_status e = P_PENDING \<Longrightarrow> book_step b (b(i \<mapsto> e))"
| moved_on: "b i = Some e \<Longrightarrow> entry_step e e' \<Longrightarrow> book_step b (b(i \<mapsto> e'))"

inductive_cases entry_stepE: "entry_step e e'"
inductive_cases book_stepE: "book_step b b'"

text \<open>Who pays what to whom, for which order.\<close>
definition terms_of :: "pay_entry \<Rightarrow> payment_kind \<times> payment_method \<times> int \<times> uid \<times> uid option" where
  "terms_of e = (en_kind e, en_method e, en_amount e, en_adminId e, en_orderId e)"

lemma entry_step_terms: "entry_step e e' \<Longrightarrow> terms_of e' = terms_of e"
  by (erule entry_stepE) (simp_all add: terms_of_def)

lemma entry_step_open: "entry_step e e' \<Longrightarrow> en_status e \<noteq> P_CONFIRMED"
  by (erule entry_stepE) auto

lemma book_step_terms:
  assumes "book_step b b'" and "b i = Some e" shows "\<exists>e'. b' i = Some e' \<and> terms_of e' = terms_of e"
  using assms by (auto elim!: book_stepE) (rule entry_step_terms)

lemma book_step_final:
  assumes "book_step b b'" and "b i = Some e" and "en_status e = P_CONFIRMED" shows "b' i = Some e"
  using assms by (auto elim!: book_stepE) (blast dest: entry_step_open)

lemma book_steps_terms:
  assumes "book_step\<^sup>*\<^sup>* b b'" and "b i = Some e" shows "\<exists>e'. b' i = Some e' \<and> terms_of e' = terms_of e"
  using assms by (induction rule: rtranclp_induct) (auto dest: book_step_terms)

lemma book_steps_final:
  assumes "book_step\<^sup>*\<^sup>* b b'" and "b i = Some e" and "en_status e = P_CONFIRMED" shows "b' i = Some e"
  using assms by (induction rule: rtranclp_induct) (auto dest: book_step_final)

text \<open>Many entries may move on at once.\<close>
lemma book_steps_many:
  assumes "finite {i. b i \<noteq> b' i}" and "\<And>i. b i \<noteq> b' i \<Longrightarrow> \<exists>e e'. b i = Some e \<and> b' i = Some e' \<and> entry_step e e'"
  shows "book_step\<^sup>*\<^sup>* b b'"
  using assms
proof (induction "{i. b i \<noteq> b' i}" arbitrary: b rule: finite_induct)
  case empty
  then have "b = b'" by auto
  then show ?case by simp
next
  case (insert i A)
  from insert.hyps(4) have i: "b i \<noteq> b' i" by blast
  with insert.prems obtain e e' where e: "b i = Some e" "b' i = Some e'" "entry_step e e'" by blast
  let ?b = "b(i \<mapsto> e')"
  have A: "A = {j. ?b j \<noteq> b' j}" using insert.hyps(2,4) e(2) by auto
  have "book_step\<^sup>*\<^sup>* ?b b'"
  proof (rule insert.hyps(3) [OF A])
    fix j assume j: "?b j \<noteq> b' j"
    then have "j \<noteq> i" using e(2) by auto
    with j insert.prems [of j] show "\<exists>e e'. ?b j = Some e \<and> b' j = Some e' \<and> entry_step e e'" by simp
  qed
  moreover have "book_step b ?b" using e(1,3) by (rule moved_on)
  ultimately show ?case by (metis converse_rtranclp_into_rtranclp)
qed

section \<open>The abstraction\<close>

definition entry_of :: "payment \<Rightarrow> pay_entry" where
  "entry_of p = \<lparr>en_kind = pay_kind p, en_method = pay_method p, en_amount = pay_amount p, en_adminId = pay_adminId p,
     en_orderId = pay_orderId p, en_status = pay_status p, en_reviewer = pay_reviewedById p\<rparr>"

definition book_of :: "world \<Rightarrow> book" where
  "book_of w i = map_option entry_of (find_payment i w)"

text \<open>A legal change of a row.\<close>
definition legal :: "payment \<Rightarrow> payment \<Rightarrow> bool" where
  "legal p q \<longleftrightarrow> pay_id q = pay_id p \<and> (entry_of q = entry_of p \<or> entry_step (entry_of p) (entry_of q))"

lemma legal_same: "pay_id q = pay_id p \<Longrightarrow> entry_of q = entry_of p \<Longrightarrow> legal p q"
  by (simp add: legal_def)

lemma legal_submit:
  "pay_status p \<noteq> P_CONFIRMED \<Longrightarrow> pay_status p \<noteq> P_EXPIRED \<Longrightarrow> pay_id q = pay_id p \<Longrightarrow>
   entry_of q = (entry_of p)\<lparr>en_status := P_REVIEW\<rparr> \<Longrightarrow> legal p q"
  using submitted [of "entry_of p"] by (cases "pay_status p") (simp_all add: legal_def, simp_all add: entry_of_def)

lemma legal_confirm:
  "pay_status p \<noteq> P_CONFIRMED \<Longrightarrow> who = None \<longrightarrow> pay_status p \<noteq> P_EXPIRED \<Longrightarrow> pay_id q = pay_id p \<Longrightarrow>
   entry_of q = (entry_of p)\<lparr>en_status := P_CONFIRMED, en_reviewer := who\<rparr> \<Longrightarrow> legal p q"
  using confirmed [of "entry_of p" who] by (simp add: legal_def) (simp add: entry_of_def)

lemma legal_reject:
  "pay_status p \<noteq> P_CONFIRMED \<Longrightarrow> pay_id q = pay_id p \<Longrightarrow>
   entry_of q = (entry_of p)\<lparr>en_status := P_REJECTED, en_reviewer := who\<rparr> \<Longrightarrow> legal p q"
  using rejected [of "entry_of p" who] by (simp add: legal_def) (simp add: entry_of_def)

lemma legal_expire:
  "pay_status p = P_PENDING \<Longrightarrow> pay_id q = pay_id p \<Longrightarrow> entry_of q = (entry_of p)\<lparr>en_status := P_EXPIRED\<rparr> \<Longrightarrow> legal p q"
  using expired [of "entry_of p"] by (simp add: legal_def) (simp add: entry_of_def)

lemma legal_touch: "legal p q \<Longrightarrow> legal p (q\<lparr>pay_updatedAt := tm\<rparr>)"
  by (simp add: legal_def entry_of_def)

lemma book_step_write:
  assumes "\<And>p. find_payment (pay_id p) w = Some p \<Longrightarrow> P p \<Longrightarrow> legal p (f p)" and ids: "\<And>p. pay_id (f p) = pay_id p"
  shows "book_step\<^sup>*\<^sup>* (book_of w) (book_of (w\<lparr>payments := upd_rows P f (payments w)\<rparr>))"
proof -
  let ?w = "w\<lparr>payments := upd_rows P f (payments w)\<rparr>"
  have new: "book_of ?w i = map_option (\<lambda>p. entry_of (if P p then f p else p)) (find_payment i w)" for i
    by (simp add: book_of_def find_payment_def find_row_upd [of pay_id f, OF ids] option.map_comp comp_def)
  show ?thesis
  proof (rule book_steps_many)
    have "{i. book_of w i \<noteq> book_of ?w i} \<subseteq> pay_id ` set (payments w)"
    proof
      fix i assume "i \<in> {i. book_of w i \<noteq> book_of ?w i}"
      then have "find_payment i w \<noteq> None" unfolding new mem_Collect_eq by (cases "find_payment i w") (simp_all add: book_of_def)
      then show "i \<in> pay_id ` set (payments w)" by (auto simp: find_payment_def find_row_None)
    qed
    then show "finite {i. book_of w i \<noteq> book_of ?w i}" by (rule finite_subset) simp
    fix i assume d: "book_of w i \<noteq> book_of ?w i"
    then obtain p where p: "find_payment i w = Some p" unfolding new by (cases "find_payment i w") (simp_all add: book_of_def)
    have old: "book_of w i = Some (entry_of p)" by (simp add: book_of_def p)
    have now: "book_of ?w i = Some (entry_of (if P p then f p else p))" by (simp add: new p)
    have "P p" using d unfolding old now by (cases "P p") simp_all
    have "pay_id p = i" using p unfolding find_payment_def by (rule find_row_key)
    then have "legal p (f p)" using assms(1) [OF _ \<open>P p\<close>] p by blast
    then have "entry_step (entry_of p) (entry_of (f p))" using d \<open>P p\<close> unfolding old now legal_def by simp
    then show "\<exists>e e'. book_of w i = Some e \<and> book_of ?w i = Some e' \<and> entry_step e e'"
      unfolding old now using \<open>P p\<close> by simp
  qed
qed

section \<open>The interface\<close>

lemma preserves_prod_app [preserves_intros]:
  "(\<And>x y. preserves I (f x y z)) \<Longrightarrow> preserves I ((case p of (x, y) \<Rightarrow> f x y) z)"
  by (cases p) simp

text \<open>What delivering an order, quoting a price and moving a reseller's credit leave alone.\<close>
definition shop_frame :: "world \<Rightarrow> world \<Rightarrow> bool" where
  "shop_frame w w' \<longleftrightarrow> payments w' = payments w \<and> customers w' = customers w \<and>
     customer_wallet_txs w' = customer_wallet_txs w \<and> next_id w \<le> next_id w'"

text \<open>An invariant of the tables of the shop, with the orders.\<close>
locale delivery_frame =
  fixes I :: "world \<Rightarrow> bool"
  assumes keep_frame: "I w \<Longrightarrow> shop_frame w w' \<Longrightarrow> orders w' = orders w \<Longrightarrow> I w'"
begin

lemma frame_events [preserves_intros]: "events_stable I"
  unfolding events_stable_def by (auto simp: shop_frame_def eo_payments eo_customers eo_customer_wallet_txs eo_next_id eo_orders intro: keep_frame)

lemma frame_modify:
  "(\<And>w. payments (f w) = payments w \<and> customers (f w) = customers w \<and> customer_wallet_txs (f w) = customer_wallet_txs w \<and>
      next_id w \<le> next_id (f w) \<and> orders (f w) = orders w) \<Longrightarrow> preserves I (modify f)"
  by (rule preserves_modify, erule keep_frame) (simp_all add: shop_frame_def)

lemma from_client: "(\<And>w1. preserves (client_frame w1) m) \<Longrightarrow> preserves I m"
proof (rule preservesI)
  fix w assume m: "\<And>w1. preserves (client_frame w1) m" and "I w"
  have "client_frame w (snd (m w))" by (rule preservesD [OF m client_frame_refl])
  then have "shop_frame w (snd (m w))" "orders (snd (m w)) = orders w"
    by (simp_all add: shop_frame_def client_frame_def store_frame_def)
  with \<open>I w\<close> show "I (snd (m w))" by (rule keep_frame)
qed

lemma draws [preserves_intros]:
  "preserves I new_id" "preserves I now" "preserves I (randomToken n)" "preserves I randomUUID" "preserves I (randomInt n)"
  "preserves I (randomConfigName pre len)" "preserves I generateTotpSecret"
proof -
  show n: "preserves I new_id" by (rule preservesI) (auto simp: new_id_def shop_frame_def intro: keep_frame)
  show "preserves I now" unfolding now_def by (intro preserves_intros)
  show "preserves I (randomToken n)" "preserves I randomUUID" "preserves I (randomInt n)"
    "preserves I (randomConfigName pre len)" "preserves I generateTotpSecret"
    unfolding randomToken_def randomUUID_def randomInt_def randomConfigName_def generateTotpSecret_def
    by (intro preserves_intros n)+
qed

subsection \<open>Clients and wallets\<close>

lemma client_writes [preserves_intros]:
  "preserves I (upd_client i f)" "preserves I (setPendingStart i d)" "preserves I (clearPendingStart i)"
  "preserves I (provision_all c ov label groups)" "preserves I (finish_update actor i inp)"
  "preserves I (resetClientTraffic actor i)" "preserves I (getClientForActor actor i)"
  unfolding upd_client_def
  by (rule frame_modify, simp) (rule from_client, intro preserves_intros)+

lemma charge [preserves_intros]: "preserves I (chargeWallet i role amount kind opts)"
  unfolding chargeWallet_def move_credit_def Let_def
  by (intro preserves_intros preserves_stable [OF frame_events quiet_lowBalanceAlert] frame_modify)
    (simp_all add: set_credit_def)

lemma create_client [preserves_intros]: "preserves I (createClient actor inp)"
  unfolding createClient_def create_body_def Let_def
  by (intro preserves_intros preserves_reads [OF reads_create_checks] frame_modify) simp_all

lemma update_client [preserves_intros]: "preserves I (updateClient actor i inp)"
  unfolding updateClient_def resize_checks_def renewal_cost_def charge_renewal_def Let_def
  by (intro preserves_intros preserves_reads [OF reads_assertQuota] preserves_reads [OF reads_assertAffordable]
      preserves_reads [OF reads_assertClientKind])

subsection \<open>Orders and sub-panels\<close>

lemma order_writes [preserves_intros]:
  "preserves I (count_sale ord)" "preserves I (update_admin i g)"
  unfolding count_sale_def update_admin_def
  by (intro preserves_intros frame_modify; simp split: option.splits)+

lemma admin_rows [preserves_intros]: "preserves I (insert_admin a rows)"
  unfolding insert_admin_def insert_access_def by (intro preserves_intros frame_modify) simp_all

lemma picks [preserves_intros]: "preserves I (pick chars n)" "preserves I newPanelPassword" "preserves I (freePanelUsername pre)"
proof -
  show p: "preserves I (pick chars n)" for chars n unfolding pick_def by (intro preserves_intros)
  show "preserves I newPanelPassword" unfolding newPanelPassword_def by (rule p)
  have "preserves I (username_tries k base)" for k base by (induction k) (simp_all only: username_tries.simps, (intro preserves_intros p | assumption)+)
  then show "preserves I (freePanelUsername pre)" by (simp add: freePanelUsername_def)
qed

lemma handing_over [preserves_intros]: "preserves I (hand_over tm sellerId ord account password renewal)"
  unfolding hand_over_def deliverPanelAccount_def sendMail_def parkPanelHandoff_def Let_def
  by (intro preserves_intros frame_modify) simp_all

lemma sell_panel [preserves_intros]: "preserves I (sold_panel tm sellerId l ord)"
  unfolding sold_panel_def create_panel_def renew_panel_def by (intro preserves_intros)

lemma delivery [preserves_intros]: "preserves I (renew_bought seller ord i)" "preserves I (create_bought seller ord)"
  unfolding renew_bought_def create_bought_def resolveOrderTargets_def by (intro preserves_intros)+

subsection \<open>Rates and quotes\<close>

lemma rates [preserves_intros]: "preserves I (effectiveUsdtRate a r)" "preserves I (quoteCrypto s amount asset)"
proof -
  have "preserves I (refreshUsdtRate a force)" for a force
    unfolding refreshUsdtRate_def saveFxSettings_def Let_def by (intro preserves_intros frame_modify) (simp_all add: set_usdt_rate_def)
  then show e: "preserves I (effectiveUsdtRate a r)" for a r
    unfolding effectiveUsdtRate_def Let_def by (intro preserves_intros)
  have m: "preserves I (marketRate sym)" for sym
    unfolding marketRate_def Let_def by (intro preserves_intros frame_modify) simp_all
  have "preserves I (assetRate s a)" for a
    unfolding assetRate_def by (cases "effectiveRateMode a"; simp; intro preserves_intros e m)
  then show "preserves I (quoteCrypto s amount asset)"
    unfolding quoteCrypto_def quoteAsset_def Let_def by (intro preserves_intros)
qed

lemma fresh_targets [preserves_intros]: "preserves I (planTargetsFresh p)"
  unfolding planTargetsFresh_def by (intro preserves_intros preserves_reads [OF reads_resolveServiceTargets])

end

text \<open>The orders themselves: none of the operations above touches them.\<close>
interpretation same_orders: delivery_frame "\<lambda>w. orders w = os" for os
  by unfold_locales simp

text \<open>When the orders do not matter, fulfilment as a whole is such an operation.\<close>
locale money_frame = delivery_frame +
  assumes keep_shop: "I w \<Longrightarrow> shop_frame w w' \<Longrightarrow> I w'"
begin

lemma order_update [preserves_intros]: "preserves I (update_order i f)"
  unfolding update_order_def
  by (intro preserves_intros preserves_modify) (erule keep_shop, simp add: shop_frame_def)

lemma fulfilment_failed [preserves_intros]: "preserves I (fulfil_failed tag ord sellerId e)"
  unfolding fulfil_failed_def by (intro preserves_intros)

lemma provisioning [preserves_intros]: "preserves I (provisionPanelOrder ord seller l)"
  unfolding provisionPanelOrder_def provision_body_def announce_panel_def
  by (intro preserves_intros frame_modify) simp_all

lemma fulfilment [preserves_intros]: "preserves I (fulfillOrder i)"
  unfolding fulfillOrder_def fulfill_paid_def fulfill_body_def announce_fulfilled_def
  by (intro preserves_intros)

end

text \<open>The payments and the wallets themselves: fulfilment touches neither.\<close>
interpretation still: money_frame "\<lambda>w. payments w = ps \<and> customers w = cs \<and> customer_wallet_txs w = txs" for ps cs txs
  by unfold_locales (simp_all add: shop_frame_def)

text \<open>When the wallets do not matter either, moving a customer's money is one more such operation.\<close>
locale payment_frame = money_frame +
  assumes keep_payments: "I w \<Longrightarrow> payments w' = payments w \<Longrightarrow> next_id w \<le> next_id w' \<Longrightarrow> I w'"
begin

lemma payments_modify: "(\<And>w. payments (f w) = payments w \<and> next_id w \<le> next_id (f w)) \<Longrightarrow> preserves I (modify f)"
  by (rule preserves_modify) (blast intro: keep_payments)

lemma customer_wallet [preserves_intros]:
  "preserves I (creditCustomerWallet m)" "preserves I (debitCustomerWallet m)" "preserves I (settleCustomerTopup i)"
proof -
  have m: "preserves I (move_customer m d)" for m d
    unfolding move_customer_def update_customer_def by (intro preserves_intros payments_modify) simp_all
  show c: "preserves I (creditCustomerWallet m)" "preserves I (debitCustomerWallet m)" for m
    unfolding creditCustomerWallet_def debitCustomerWallet_def by (intro preserves_intros m)+
  show "preserves I (settleCustomerTopup i)"
    unfolding settleCustomerTopup_def by (intro preserves_intros c)
qed

end

interpretation same: payment_frame "\<lambda>w. payments w = ps" for ps
  by unfold_locales (simp_all add: shop_frame_def)

section \<open>Writing payments\<close>

text \<open>Identifiers are unique, a new row is PENDING, and rows change by legal steps only.\<close>
locale payment_law = payment_frame +
  assumes unique: "I w \<Longrightarrow> distinct (map pay_id (payments w))"
    and fresh_id: "I w \<Longrightarrow> find_payment (next_id w) w = None"
    and add_row: "I w \<Longrightarrow> pay_id p = next_id w \<Longrightarrow> pay_status p = P_PENDING \<Longrightarrow>
      I (w\<lparr>next_id := Suc (next_id w), payments := payments w @ [p]\<rparr>)"
    and change_rows: "I w \<Longrightarrow> (\<And>p. find_payment (pay_id p) w = Some p \<Longrightarrow> P p \<Longrightarrow> legal p (f p)) \<Longrightarrow>
      (\<And>p. pay_id (f p) = pay_id p) \<Longrightarrow> I (w\<lparr>payments := upd_rows P f (payments w)\<rparr>)"
begin

text \<open>A first step checked against the state, and a rest that keeps the invariant anyway.\<close>
lemma run_bnd: "I (snd (m w)) \<Longrightarrow> (\<And>x. preserves I (f x)) \<Longrightarrow> I (snd (bnd m f w))"
  by (cases "m w"; cases "fst (m w)") (auto simp: bnd_def dest: preservesD)

lemma run_andthen: "I (snd (m w)) \<Longrightarrow> preserves I k \<Longrightarrow> I (snd (andthen m k w))"
  unfolding andthen_def by (rule run_bnd)

lemma found_payment:
  assumes "\<And>p w. I w \<Longrightarrow> find_payment i w = Some p \<Longrightarrow> I (snd (k p w))"
  shows "preserves I (bnd (gets (find_payment i)) (\<lambda>found. bnd (or_throw found e) k))"
proof (rule preservesI)
  fix w assume "I w"
  with assms show "I (snd (bnd (gets (find_payment i)) (\<lambda>found. bnd (or_throw found e) k) w))"
    by (cases "find_payment i w") auto
qed

lemma update_run:
  assumes "I w" and "find_payment i w = Some p" and "legal p (f p)" and "\<And>r. pay_id (f r) = pay_id r"
  shows "I (snd (update_payment i f w))"
proof -
  have "I (w\<lparr>payments := upd_rows (\<lambda>r. pay_id r = i) (\<lambda>r. (f r)\<lparr>pay_updatedAt := clock w\<rparr>) (payments w)\<rparr>)"
    using assms by (intro change_rows) (auto intro: legal_touch)
  then show ?thesis using assms(2) by (simp add: update_payment_def now_def)
qed

lemma update_same: "(\<And>r. pay_id (f r) = pay_id r \<and> entry_of (f r) = entry_of r) \<Longrightarrow> preserves I (update_payment i f)"
proof (rule preservesI)
  fix w assume s: "\<And>r. pay_id (f r) = pay_id r \<and> entry_of (f r) = entry_of r" and w: "I w"
  show "I (snd (update_payment i f w))"
  proof (cases "find_payment i w")
    case None
    then show ?thesis using w by (simp add: update_payment_def)
  next
    case (Some p)
    then show ?thesis by (rule update_run [OF w]) (use s in \<open>auto intro: legal_same\<close>)
  qed
qed

lemma insert_run:
  assumes "I w" and "\<And>k. pay_id (p k) = k \<and> pay_status (p k) = P_PENDING"
    and "\<And>k w'. I w' \<Longrightarrow> find_payment k w' = Some (p k) \<Longrightarrow> I (snd (f k (p k) w'))"
  shows "I (snd (bnd new_id (\<lambda>k. bnd (insert_payment (p k)) (f k)) w))"
proof -
  let ?k = "next_id w" let ?w = "w\<lparr>next_id := Suc (next_id w), payments := payments w @ [p (next_id w)]\<rparr>"
  have "I ?w" using assms(2) by (intro add_row assms(1)) simp_all
  moreover have "find_payment ?k ?w = Some (p ?k)"
    using fresh_id [OF assms(1)] assms(2) by (simp add: find_payment_def find_row_append)
  ultimately have "I (snd (f ?k (p ?k) ?w))" by (rule assms(3))
  then show ?thesis by (simp add: bnd_def new_id_def insert_payment_def)
qed

lemma insert_then:
  assumes "\<And>k. pay_id (p k) = k \<and> pay_status (p k) = P_PENDING" and "\<And>k q. preserves I (f k q)"
  shows "preserves I (bnd new_id (\<lambda>k. bnd (insert_payment (p k)) (f k)))"
  by (rule preservesI, rule insert_run) (use assms in \<open>auto dest: preservesD\<close>)

lemma close_all [preserves_intros]:
  assumes "status = P_CONFIRMED \<or> status = P_REJECTED" shows "preserves I (close_payments i status reviewer note)"
  unfolding close_payments_def
proof (rule preserves_modify, rule change_rows, assumption)
  fix w :: world and p :: payment
  assume "pay_orderId p = Some i \<and> (pay_status p = P_PENDING \<or> pay_status p = P_REVIEW)"
  then show "legal p (p\<lparr>pay_status := status, pay_reviewedById := Some reviewer, pay_reviewedAt := Some (clock w), pay_reviewNote := Some note,
        pay_updatedAt := clock w\<rparr>)"
    using assms by (auto intro: legal_confirm [where who = "Some reviewer"] legal_reject [where who = "Some reviewer"] simp: entry_of_def)
qed simp

lemma found_id: "find_payment i w = Some p \<Longrightarrow> find_payment (pay_id p) w = Some p"
  unfolding find_payment_def by (frule find_row_key) simp

lemma run_guard: "I w \<Longrightarrow> (\<not> c \<Longrightarrow> I (snd (k w))) \<Longrightarrow> I (snd (andthen (throw_if c e) k w))"
  by (cases c) simp_all

lemma run_if: "(c \<Longrightarrow> I (snd (m w))) \<Longrightarrow> (\<not> c \<Longrightarrow> I (snd (k w))) \<Longrightarrow> I (snd ((if c then m else k) w))"
  by simp

lemma run_now: "I (snd (f (clock w) w)) \<Longrightarrow> I (snd (bnd now f w))"
  by (simp add: now_def)

lemma run_gets: "I (snd (f (g w) w)) \<Longrightarrow> I (snd (bnd (gets g) f w))"
  by simp

lemma run_kept: "I w \<Longrightarrow> preserves I m \<Longrightarrow> I (snd (m w))"
  by (rule preservesD)

subsection \<open>Confirming and rejecting\<close>

lemma settling [preserves_intros]: "preserves I (settle_payment p opts)"
  unfolding settle_payment_def topup_notice_def by (intro preserves_intros)

lemma update_found:
  assumes "I w" and "find_payment i w = Some p" and "legal p (f p)" and "\<And>r. pay_id (f r) = pay_id r"
  shows "I (snd (update_payment (pay_id p) f w))"
  using assms(1) found_id [OF assms(2)] assms(3,4) by (rule update_run)

lemma confirm_write:
  assumes "I w" and "find_payment i w = Some p" and "pay_status p \<noteq> P_CONFIRMED"
    and "\<not> (pay_status p = P_EXPIRED \<and> cop_by opts = None)"
  shows "I (snd (update_payment (pay_id p) (confirmed_row opts tm) w))"
proof (rule update_found [OF assms(1,2)])
  show "legal p (confirmed_row opts tm p)"
    by (rule legal_confirm [where who = "map_option adm_id (cop_by opts)"]) (use assms in \<open>auto simp: confirmed_row_def entry_of_def\<close>)
qed (simp add: confirmed_row_def)

lemma confirming [preserves_intros]: "preserves I (confirmPayment i opts)"
  unfolding confirmPayment_def
  by (rule found_payment, intro run_guard run_if run_now run_bnd confirm_write preserves_intros) auto

lemma reject_write:
  assumes "I w" and "find_payment i w = Some p" and "pay_status p \<noteq> P_CONFIRMED" and "\<And>r. pay_id (f r) = pay_id r"
    and "entry_of (f p) = (entry_of p)\<lparr>en_status := P_REJECTED, en_reviewer := who\<rparr>"
  shows "I (snd (update_payment (pay_id p) f w))"
  using assms(1,2) legal_reject [OF assms(3) assms(4) assms(5)] assms(4) by (rule update_found)

lemma rejecting [preserves_intros]: "preserves I (rejectPayment actor i note)"
  unfolding rejectPayment_def
  by (rule found_payment, intro run_guard run_now run_bnd reject_write [where who = "Some (adm_id actor)"] preserves_intros)
    (auto simp: entry_of_def)

lemma reject_with_write: "I w \<Longrightarrow> find_payment i w = Some p \<Longrightarrow> pay_status p \<noteq> P_CONFIRMED \<Longrightarrow> I (snd (reject_with (pay_id p) e w))"
  unfolding reject_with_def by (erule (2) reject_write [where who = "pay_reviewedById p"]) (simp_all add: entry_of_def)

subsection \<open>Opening\<close>

lemma begins_usdt: "preserves I (begin_usdt s inp)"
  unfolding begin_usdt_def
  by (rule preserves_bnd [OF draws(2)], rule preserves_bnd [OF rates(2)], rule insert_then)
    (simp add: new_payment_def, intro preserves_intros)

lemma begins_card: "preserves I (begin_card s inp)"
  unfolding begin_card_def
  by (rule preserves_bnd [OF draws(2)], rule insert_then) (simp add: new_payment_def, intro preserves_intros)

lemma begins_zarinpal: "preserves I (begin_zarinpal s inp)"
  unfolding begin_zarinpal_def
proof (rule preserves_bnd, rule preserves_gets, rule preserves_bnd, rule preserves_or_throw, rule preserves_bnd, rule draws,
    rule preservesI, rule insert_run)
  fix x merchant tm w w' k assume w': "I w'" and k: "find_payment k w' = Some (new_payment s inp tm k)"
  have id: "pay_id (new_payment s inp tm k) = k" by (simp add: new_payment_def)
  have no: "I (snd (update_payment k (\<lambda>r. r\<lparr>pay_status := P_REJECTED, pay_error := Some e\<rparr>) w'))" for e
    using reject_with_write [OF w' k, of e] by (simp add: id reject_with_def) (simp add: new_payment_def)
  have fail: "I (snd (andthen (update_payment k (\<lambda>r. r\<lparr>pay_status := P_REJECTED, pay_error := Some e\<rparr>)) (throw er) w'))" for e er
    by (rule run_andthen, rule no, rule preserves_throw)
  have go: "I (snd (andthen (throw_if dup unique_violation)
        (bnd (update_payment k (\<lambda>r. r\<lparr>pay_authority := Some a, pay_meta := blank_meta\<lparr>meta_startUrl := Some st\<rparr>\<rparr>))
          (\<lambda>saved. ret (saved, NextRedirect st))) w'))" for dup a st
    by (rule run_kept [OF w'], intro preserves_intros update_same) (simp add: entry_of_def)
  show "I (snd (bnd (gets (\<lambda>w. callback_url w k)) (\<lambda>url.
    case zarinpalRequest x tm \<lparr>zr_merchantId = merchant, zr_amount = bp_amount inp, zr_description = bp_description inp,
        zr_callbackUrl = url, zr_sandbox = sto_zarinpalSandbox s, zr_mobile = bp_mobile inp, zr_email = bp_email inp\<rparr> of
      Inl e \<Rightarrow> andthen (update_payment k (\<lambda>r. r\<lparr>pay_status := P_REJECTED, pay_error := Some e\<rparr>))
                (throw (AppError ''the gateway cannot be reached'' 502 ''gateway''))
    | Inr (authority, start) \<Rightarrow>
        bnd (gets (authority_taken authority k)) (\<lambda>dup.
        andthen (throw_if dup unique_violation)
        (bnd (update_payment k (\<lambda>r. r\<lparr>pay_authority := Some authority, pay_meta := blank_meta\<lparr>meta_startUrl := Some start\<rparr>\<rparr>))
          (\<lambda>saved. ret (saved, NextRedirect start))))) w'))"
    unfolding bnd_gets using fail go by (auto simp only: sum.case prod.case split: sum.split prod.split)
qed (simp_all add: new_payment_def)

lemma begins [preserves_intros]: "preserves I (beginPayment s inp)"
  unfolding beginPayment_def
  by (cases "bp_method inp"; simp only: payment_method.simps; intro preserves_intros begins_usdt begins_card begins_zarinpal)

lemma topping_up [preserves_intros]: "preserves I (createTopup actor amount method asset)"
  unfolding createTopup_def ownerAdmin_def Let_def by (intro preserves_intros)

subsection \<open>Proofs, the callback and the jobs\<close>

lemma announcing [preserves_intros]: "preserves I (announceReview p)"
  unfolding announceReview_def by (intro preserves_intros)

lemma submit_write:
  assumes "I w" and "find_payment i w = Some p" and "pay_status p \<noteq> P_CONFIRMED" and "pay_status p \<noteq> P_EXPIRED"
    and "\<And>r. pay_id (f r) = pay_id r" and "entry_of (f p) = (entry_of p)\<lparr>en_status := P_REVIEW\<rparr>"
  shows "I (snd (update_payment (pay_id p) f w))"
  using assms(1,2) legal_submit [OF assms(3,4) assms(5) assms(6)] assms(5) by (rule update_found)

lemma checked_note [preserves_intros]: "preserves I (update_payment i (noted_check r n))"
  "preserves I (update_payment i (\<lambda>row. noted_check r n (row\<lparr>pay_meta := m\<rparr>)))"
  by (rule update_same, simp add: noted_check_def entry_of_def)+

lemma txid_run:
  assumes "I w" and "find_payment i w = Some p" and "pay_status p \<noteq> P_CONFIRMED" and "pay_status p \<noteq> P_EXPIRED"
  shows "I (snd (submit_txid p s proof w))"
  unfolding submit_txid_def Let_def
  by (intro run_guard run_gets run_bnd submit_write [OF assms] preserves_intros assms(1)) (simp_all add: entry_of_def)

lemma receipt_run:
  assumes "I w" and "find_payment i w = Some p" and "pay_status p \<noteq> P_CONFIRMED" and "pay_status p \<noteq> P_EXPIRED"
  shows "I (snd (submit_receipt p proof w))"
  unfolding submit_receipt_def Let_def
  by (intro run_guard run_bnd submit_write [OF assms] preserves_intros assms(1)) (simp_all add: entry_of_def)

lemma settings_read: "settingsForPayment p w = (fst (settingsForPayment p w), w)"
proof -
  have "reads (settingsForPayment p)" unfolding settingsForPayment_def ownerAdmin_def by (intro reads_intros)
  then show ?thesis by (simp add: reads_def prod_eq_iff)
qed

lemma run_settings:
  "I w \<Longrightarrow> (\<And>s. I (snd (k s w))) \<Longrightarrow> I (snd (bnd (settingsForPayment p) k w))"
  using settings_read [of p w] by (cases "fst (settingsForPayment p w)") (simp_all add: bnd_def)

lemma submitting [preserves_intros]: "preserves I (submitProof i proof)"
  unfolding submitProof_def
proof (rule found_payment, intro run_if run_now run_guard run_settings)
  fix p w s assume w: "I w" and p: "find_payment i w = Some p" and st: "pay_status p \<noteq> P_CONFIRMED"
    "\<not> (pay_status p = P_EXPIRED \<or> pay_status p = P_PENDING \<and> expired_at (clock w) (pay_expiresAt p))"
  then show "I (snd ((case pay_method p of USDT \<Rightarrow> submit_txid p s proof | CARD \<Rightarrow> submit_receipt p proof
      | _ \<Rightarrow> throw (app_error ''this method needs no receipt'')) w))"
    by (cases "pay_method p") (simp_all add: txid_run receipt_run)
qed simp_all

lemma verifying: 
  assumes "I w" and "find_payment i w = Some p" and "pay_status p \<noteq> P_CONFIRMED"
  shows "I (snd (verify_callback p authority tgt w))"
proof -
  have no: "I (snd (andthen (reject_with (pay_id p) e) (ret x) w))" for e and x :: callback_result
    by (rule run_andthen, rule reject_with_write [OF assms], rule preserves_ret)
  have yes: "I (snd (andthen (confirmPayment (pay_id p) opts) (ret x) w))" for opts and x :: callback_result
    by (rule run_kept [OF assms(1)], intro preserves_intros)
  show ?thesis
    unfolding verify_callback_def bnd_gets now_def
    by (rule run_settings [OF assms(1)]) (use no yes assms(1) in \<open>auto split: option.split sum.split\<close>)
qed

lemma callback [preserves_intros]: "preserves I (handleZarinpalCallback i authority status)"
proof (rule preservesI)
  fix w assume w: "I w"
  show "I (snd (handleZarinpalCallback i authority status w))"
  proof (cases "find_payment i w")
    case None
    then show ?thesis using w by (simp add: handleZarinpalCallback_def)
  next
    case (Some p)
    have no: "pay_status p \<noteq> P_CONFIRMED \<Longrightarrow> I (snd (andthen (reject_with (pay_id p) e) (ret x) w))" for e and x :: callback_result
      by (rule run_andthen, rule reject_with_write [OF w Some], assumption, rule preserves_ret)
    show ?thesis
      unfolding handleZarinpalCallback_def bnd_gets using w no verifying [OF w Some] by (simp add: Some)
  qed
qed

lemma expiring [preserves_intros]: "preserves I expirePayments"
proof (rule preservesI)
  fix w assume w: "I w"
  define stale where "stale = filter (is_stale (clock w)) (payments w)"
  let ?w = "w\<lparr>payments := upd_rows (\<lambda>p. pay_id p \<in> pay_id ` set stale)
     (\<lambda>p. p\<lparr>pay_status := P_EXPIRED, pay_updatedAt := clock w\<rparr>) (payments w)\<rparr>"
  have "I ?w"
  proof (rule change_rows [OF w])
    fix p assume p: "find_payment (pay_id p) w = Some p" and "pay_id p \<in> pay_id ` set stale"
    then obtain q where q: "q \<in> set (payments w)" "is_stale (clock w) q" "pay_id q = pay_id p" by (auto simp: stale_def)
    have "find_payment (pay_id q) w = Some q"
      unfolding find_payment_def by (rule find_row_distinct [OF unique [OF w] q(1)])
    then have "q = p" unfolding q(3) p by (rule option.inject [THEN iffD1, symmetric])
    then have "pay_status p = P_PENDING" using q(2) by (simp only: is_stale_def)
    then show "legal p (p\<lparr>pay_status := P_EXPIRED, pay_updatedAt := clock w\<rparr>)"
      by (rule legal_expire) (simp_all add: entry_of_def)
  qed simp
  moreover have "preserves I (andthen (for_each ids expire_order) (ret (n::nat)))" for ids n
    unfolding expire_order_def by (intro preserves_intros payments_modify) simp
  ultimately show "I (snd (expirePayments w))"
    using w by (simp add: expirePayments_def stale_def [symmetric] preservesD)
qed

lemma verifying_job [preserves_intros]: "preserves I verifyPendingUsdt"
proof -
  have s: "preserves I (settingsForPayment p)" for p unfolding settingsForPayment_def ownerAdmin_def by (intro preserves_intros)
  show ?thesis unfolding verifyPendingUsdt_def verify_one_def by (intro preserves_intros s)
qed

lemma by_hand [preserves_intros]: "preserves I (retryFulfill actor i)" "preserves I (cancelOrder actor i)"
  unfolding retryFulfill_def cancelOrder_def order_for_actor_def by (intro preserves_intros; simp)+

lemma choosing [preserves_intros]: "preserves I (selectOrderAsset token asset)"
  unfolding selectOrderAsset_def openCryptoPayment_def
  by (intro preserves_intros update_same) (simp add: entry_of_def)

subsection \<open>Card deposits\<close>

lemma card_settings_writes [preserves_intros]: "preserves I (saveCardAuto a f)"
  unfolding saveCardAuto_def by (intro preserves_intros frame_modify) simp

lemma matching [preserves_intros]: "preserves I (matchDeposit a s dep)"
  unfolding matchDeposit_def by (intro preserves_intros)

lemma importing [preserves_intros]: "preserves I (ingestDeposit a inp)"
  unfolding ingestDeposit_def Let_def by (intro preserves_intros)

lemma sms [preserves_intros]: "preserves I (ingestSmsText parse a body sender)"
  unfolding ingestSmsText_def Let_def by (intro preserves_intros)

lemma rematching [preserves_intros]: "preserves I (rematchDeposits a)"
  unfolding rematchDeposits_def rematch_one_def Let_def by (intro preserves_intros)

lemma bank_sync [preserves_intros]: "preserves I (syncBankDeposits a)"
proof -
  have row: "preserves I (import_row a row acc)" for row acc
    unfolding import_row_def by (intro preserves_intros)
  have "preserves I (case getJson x tm u of
      Inl e \<Rightarrow> andthen (saveCardAuto a (\<lambda>c. c\<lparr>card_lastError := e, card_bankLastSyncAt := Some tm\<rparr>)) (ret (sync_failed e))
    | Inr payload \<Rightarrow>
        let rows = rowsOf 8 payload; er = (if rows = [] then empty_answer else []) in
        bnd (fold_op (import_row a) (take 30 rows) (0, 0)) (\<lambda>(imported, matched).
        andthen (saveCardAuto a (\<lambda>c. c\<lparr>card_bankLastSyncAt := Some tm, card_lastError := er\<rparr>))
        (ret \<lparr>sy_ok = True, sy_fetched = length rows, sy_imported = imported, sy_matched = matched, sy_error = nonempty er\<rparr>)))" for x tm u
    unfolding Let_def by (cases "getJson x tm u"; simp only: sum.case; intro preserves_intros row)
  then show ?thesis unfolding syncBankDeposits_def by (intro preserves_intros)
qed

lemma bank_job [preserves_intros]: "preserves I autoSyncBankDeposits"
  unfolding autoSyncBankDeposits_def by (intro preserves_intros)

subsection \<open>The shop\<close>

lemma checking_order [preserves_intros]: "preserves I (order_checks ctx inp)"
  unfolding order_checks_def shop_plan_def order_account_def buyer_checks_def renewed_client_def method_checks_def Let_def
  by (intro preserves_intros)

lemma recording [preserves_intros]: "preserves I (record_order sellerId inp dr)"
  unfolding record_order_def Let_def by (intro preserves_intros payments_modify; simp split: option.splits)

lemma noticing [preserves_intros]: "preserves I (order_notice sellerId i)"
  unfolding order_notice_def by (intro preserves_intros)

lemma undo_run:
  assumes "I w" and "find_payment i w = Some p" and "pay_status p \<noteq> P_CONFIRMED"
  shows "I (snd (undo_purchase ord (pay_id p) e w))"
  unfolding undo_purchase_def
  by (rule run_andthen, rule reject_write [OF assms, where who = "pay_reviewedById p"])
    (simp_all add: entry_of_def, intro preserves_intros)

lemma returning [preserves_intros]: "preserves I (return_money ord p sellerId customerId e)"
  unfolding return_money_def
proof (rule preservesI, rule run_gets, rule run_if)
  fix w assume w: "I w" and "case find_payment (pay_id p) w of Some c \<Rightarrow> pay_status c \<noteq> P_CONFIRMED | None \<Rightarrow> False"
  then obtain c where c: "find_payment (pay_id p) w = Some c" "pay_status c \<noteq> P_CONFIRMED" by (auto split: option.splits)
  let ?m = "wallet_move ord customerId W_REFUND ''failed order''"
  define w2 where "w2 = snd (swallow (creditCustomerWallet ?m) w)"
  have run: "andthen (swallow (creditCustomerWallet ?m)) h w = h w2" for h :: "(world, order_result) op"
    unfolding w2_def by (rule andthen_never_throws [OF never_throws_swallow])
  have w2: "I w2" unfolding w2_def by (rule run_kept [OF w]) (intro preserves_intros)
  have "preserves (\<lambda>v. payments v = payments w) (swallow (creditCustomerWallet ?m))" by (intro preserves_intros same.customer_wallet)
  then have "payments w2 = payments w" unfolding w2_def by (rule preservesD) simp
  then have c2: "find_payment (pay_id p) w2 = Some c" using c(1) by (simp add: find_payment_def)
  have "pay_id c = pay_id p" using c(1) unfolding find_payment_def by (rule find_row_key)
  then have "I (snd (undo_purchase ord (pay_id p) e w2))" using undo_run [OF w2 c2 c(2), of ord e] by (simp only:)
  then show "I (snd (andthen (swallow (creditCustomerWallet ?m)) (andthen (undo_purchase ord (pay_id p) e)
      (andthen (audit (Some sellerId) ''order.wallet_refund'' (JId (ord_id ord))
         [(''customerId'', JId customerId), (''amount'', JStr (show_int (ord_amount ord))), (''error'', JStr (err_message e))] None)
      (throw e :: (world, order_result) op))) w))"
    unfolding run by (rule run_andthen) (intro preserves_intros)
qed simp_all

lemma finishing [preserves_intros]: "preserves I (finish_wallet ord p sellerId customerId)"
proof -
  have "preserves I (case r of Inr confirmed \<Rightarrow> andthen (order_notice sellerId (ord_id ord)) (gets (done_result ord confirmed))
    | Inl e \<Rightarrow> return_money ord p sellerId customerId e)" for r
    by (cases r; simp only: sum.case; intro preserves_intros)
  then show ?thesis unfolding finish_wallet_def attempt_def by (intro preserves_intros)
qed

lemma wallet_purchase [preserves_intros]: "preserves I (payOrderWithWallet ord p sellerId customerId)"
proof -
  have swap: "bnd new_id (\<lambda>k. bnd now (f k)) = bnd now (\<lambda>tm. bnd new_id (\<lambda>k. f k tm))" for f :: "uid \<Rightarrow> time \<Rightarrow> (world, order_result) op"
    by (simp add: fun_eq_iff bnd_def new_id_def now_def)
  show ?thesis
    unfolding payOrderWithWallet_def swap
  proof (rule preserves_bnd, rule draws, rule preservesI, rule insert_run)
    fix tm w w' k assume w': "I w'" and k: "find_payment k w' = Some (wallet_payment ord sellerId customerId tm k)"
    let ?m = "wallet_move ord customerId W_PURCHASE (pln_name p)"
    obtain r w2 where r: "debitCustomerWallet ?m w' = (r, w2)" by (cases "debitCustomerWallet ?m w'")
    have w2: "I w2" using run_kept [OF w' customer_wallet(2), of ?m] r by simp
    have "preserves (\<lambda>v. payments v = payments w') (debitCustomerWallet ?m)" by (rule same.customer_wallet)
    then have "payments (snd (debitCustomerWallet ?m w')) = payments w'" by (rule preservesD) simp
    then have "payments w2 = payments w'" by (simp add: r)
    then have k2: "find_payment k w2 = Some (wallet_payment ord sellerId customerId tm k)" using k by (simp add: find_payment_def)
    have un: "I (snd (andthen (undo_purchase ord k e) (throw e) w2))" for e
      using undo_run [OF w2 k2, of ord e] by (intro run_andthen preserves_intros) (simp add: wallet_payment_def)
    show "I (snd (bnd (attempt (debitCustomerWallet ?m)) (\<lambda>r.
        case r of Inl e \<Rightarrow> andthen (undo_purchase ord k e) (throw e)
        | Inr u \<Rightarrow> finish_wallet ord (wallet_payment ord sellerId customerId tm k) sellerId customerId) w'))"
      using un run_kept [OF w2 finishing] by (cases r) (simp_all add: bnd_def attempt_run r)
  qed (simp_all add: wallet_payment_def)
qed

lemma ordering [preserves_intros]: "preserves I (createOrder slug inp)"
  unfolding createOrder_def settle_order_def pay_outside_def Let_def by (intro preserves_intros)

lemma customer_topup [preserves_intros]: "preserves I (createCustomerTopup c amount method asset)"
  unfolding createCustomerTopup_def Let_def by (intro preserves_intros update_same) (simp add: entry_of_def)

lemma customer_orders [preserves_intros]: "preserves I (attachCustomerToOrder token c)" "preserves I (linkCustomerClients i)"
  unfolding attachCustomerToOrder_def linkCustomerClients_def by (intro preserves_intros frame_modify; simp)+

lemma customer_proof [preserves_intros]: "preserves I (submitCustomerProof c i proof)"
  unfolding submitCustomerProof_def ownPayment_def by (intro preserves_intros)

end

section \<open>Refinement\<close>

text \<open>Unique old identifiers, and a book reached from \<open>b\<close> by steps of the specification.\<close>
definition pay_refines :: "book \<Rightarrow> world \<Rightarrow> bool" where
  "pay_refines b w \<longleftrightarrow> distinct (map pay_id (payments w)) \<and> list_all (\<lambda>p. pay_id p < next_id w) (payments w) \<and>
     book_step\<^sup>*\<^sup>* b (book_of w)"

lemma fresh_payment: "list_all (\<lambda>p. pay_id p < next_id w) (payments w) \<Longrightarrow> find_payment (next_id w) w = None"
  by (auto simp: find_payment_def find_row_None list_all_iff)

lemma pay_refines_add:
  assumes "pay_refines b w" and "pay_id p = next_id w" and "pay_status p = P_PENDING"
  shows "pay_refines b (w\<lparr>next_id := Suc (next_id w), payments := payments w @ [p]\<rparr>)"
proof -
  let ?w = "w\<lparr>next_id := Suc (next_id w), payments := payments w @ [p]\<rparr>"
  have old: "list_all (\<lambda>p. pay_id p < next_id w) (payments w)" using assms(1) by (simp add: pay_refines_def)
  have "book_of ?w = (book_of w)(next_id w \<mapsto> entry_of p)"
    using fresh_payment [OF old] assms(2)
    by (auto simp: fun_eq_iff book_of_def find_payment_def find_row_append split: option.splits)
  moreover have "book_step (book_of w) ((book_of w)(next_id w \<mapsto> entry_of p))"
    using fresh_payment [OF old] assms(3) by (intro opened) (simp_all add: book_of_def entry_of_def)
  ultimately have "book_step\<^sup>*\<^sup>* b (book_of ?w)"
    using assms(1) unfolding pay_refines_def by (metis rtranclp.rtrancl_into_rtrancl)
  moreover have "pay_id p \<notin> pay_id ` set (payments w)" using old assms(2) by (auto simp: list_all_iff)
  ultimately show ?thesis using assms by (auto simp: pay_refines_def list_all_iff less_SucI)
qed

lemma pay_refines_same:
  "pay_refines b w \<Longrightarrow> payments w' = payments w \<Longrightarrow> next_id w \<le> next_id w' \<Longrightarrow> pay_refines b w'"
  by (auto simp: pay_refines_def list_all_iff book_of_def [abs_def] find_payment_def)

lemma pay_refines_shop: "pay_refines b w \<Longrightarrow> shop_frame w w' \<Longrightarrow> pay_refines b w'"
  unfolding shop_frame_def by (blast intro: pay_refines_same)

lemma pay_refines_ids:
  "pay_refines b w \<Longrightarrow> distinct (map pay_id (payments w))" "pay_refines b w \<Longrightarrow> find_payment (next_id w) w = None"
  by (simp_all add: pay_refines_def fresh_payment)

interpretation pr: payment_law "pay_refines b" for b
proof
  fix w :: world and P :: "payment \<Rightarrow> bool" and f :: "payment \<Rightarrow> payment"
  assume w: "pay_refines b w" and l: "\<And>p. find_payment (pay_id p) w = Some p \<Longrightarrow> P p \<Longrightarrow> legal p (f p)"
    and ids: "\<And>p. pay_id (f p) = pay_id p"
  have "book_step\<^sup>*\<^sup>* (book_of w) (book_of (w\<lparr>payments := upd_rows P f (payments w)\<rparr>))"
    by (rule book_step_write) (fact l, fact ids)
  moreover have "map pay_id (upd_rows P f (payments w)) = map pay_id (payments w)" using ids by (simp add: upd_rows_def)
  moreover have "list_all (\<lambda>p. pay_id p < next_id w) (upd_rows P f (payments w))"
    using w ids by (auto simp: pay_refines_def upd_rows_def list_all_iff)
  ultimately show "pay_refines b (w\<lparr>payments := upd_rows P f (payments w)\<rparr>)"
    using w by (auto simp: pay_refines_def)
qed (assumption | rule pay_refines_same pay_refines_shop pay_refines_add pay_refines_ids)+

section \<open>Runs of the shop\<close>

text \<open>
  One step: any of the operations of the shop on any arguments, whether it returns or throws, or the
  clock moving on. Deleting an admin or a payment by hand is not one of them.
\<close>
inductive shop_step :: "world \<Rightarrow> world \<Rightarrow> bool" where
  s_tick: "clock w \<le> t \<Longrightarrow> shop_step w (w\<lparr>clock := t\<rparr>)"
| s_order: "shop_step w (snd (createOrder slug inp w))"
| s_choose: "shop_step w (snd (selectOrderAsset token asset w))"
| s_topup: "shop_step w (snd (createTopup actor amt pm asset w))"
| s_customer_topup: "shop_step w (snd (createCustomerTopup c amount pm asset w))"
| s_proof: "shop_step w (snd (submitProof i prf w))"
| s_customer_proof: "shop_step w (snd (submitCustomerProof c i prf w))"
| s_confirm: "shop_step w (snd (confirmPayment i opts w))"
| s_reject: "shop_step w (snd (rejectPayment actor i note w))"
| s_callback: "shop_step w (snd (handleZarinpalCallback i authority status w))"
| s_expire: "shop_step w (snd (expirePayments w))"
| s_verify: "shop_step w (snd (verifyPendingUsdt w))"
| s_fulfil: "shop_step w (snd (fulfillOrder i w))"
| s_retry: "shop_step w (snd (retryFulfill actor i w))"
| s_cancel: "shop_step w (snd (cancelOrder actor i w))"
| s_deposit: "shop_step w (snd (ingestDeposit a dep w))"
| s_sms: "shop_step w (snd (ingestSmsText parse a body sender w))"
| s_rematch: "shop_step w (snd (rematchDeposits a w))"
| s_bank: "shop_step w (snd (syncBankDeposits a w))"
| s_attach: "shop_step w (snd (attachCustomerToOrder token c w))"
| s_link: "shop_step w (snd (linkCustomerClients j w))"
| s_new_client: "shop_step w (snd (createClient actor cin w))"
| s_update_client: "shop_step w (snd (updateClient actor j uin w))"

definition payments_wf :: "world \<Rightarrow> bool" where
  "payments_wf w \<longleftrightarrow> distinct (map pay_id (payments w)) \<and> list_all (\<lambda>p. pay_id p < next_id w) (payments w)"

lemma refines_start: "payments_wf w \<Longrightarrow> pay_refines (book_of w) w"
  by (simp add: payments_wf_def pay_refines_def)

lemma shop_step_refines: "shop_step w w' \<Longrightarrow> pay_refines b w \<Longrightarrow> pay_refines b w'"
proof (induction rule: shop_step.induct)
  case (s_tick w t)
  then show ?case by (auto elim: pay_refines_same)
qed (erule preservesD [rotated], intro preserves_intros)+

lemma shop_run_refines: "shop_step\<^sup>*\<^sup>* w w' \<Longrightarrow> payments_wf w \<Longrightarrow> pay_refines (book_of w) w'"
  by (induction rule: rtranclp_induct) (auto intro: refines_start shop_step_refines)

end
