(* ===== verification/PaymentSafety.thy ===== *)
theory PaymentSafety
  imports PaymentLife
begin

text \<open>
  What the payment life cycle gives the shop: the refinement of the abstract book, finality of confirmed
  payments, and the outcome of the settlements (reseller top-ups, wallet purchases, fulfilment, matched
  card deposits). The proofs rest on the interpretations of \<open>PaymentLife\<close>.
\<close>

section \<open>The life of a payment\<close>

definition demo_reviews :: world where
  "demo_reviews = demo_world\<lparr>payments := [(demo_payment 50 K_TOPUP CARD P_REVIEW 1000)\<lparr>pay_customerId := None\<rparr>,
     (demo_payment 51 K_ORDER CARD P_EXPIRED 700)\<lparr>pay_customerId := None\<rparr>]\<rparr>"

lemma demo_reviews_wf: "payments_wf demo_reviews"
  by (simp add: payments_wf_def demo_reviews_def demo_payment_def)

definition by_owner :: confirm_opts where
  "by_owner = \<lparr>cop_by = Some (demo_admin 2 OWNER 0), cop_note = None, cop_auto = False, cop_refId = None, cop_cardPan = None\<rparr>"

lemma demo_reviews_run: "shop_step\<^sup>*\<^sup>* demo_reviews (snd (confirmPayment 50 by_owner demo_reviews))"
  by (rule r_into_rtranclp, rule s_confirm)

text \<open>
  C1: The shop refines the payment life cycle (refinement). Whatever sequence of orders, top-ups,
  submitted proofs, confirmations, rejections, gateway callbacks, card deposits, expiry and
  verification jobs, fulfilments, cancellations and client operations runs from a state with unique
  payment identifiers, on any arguments and whether they return or throw, the identifiers stay unique
  and the book of payments moves only by steps of the specification: entries are opened PENDING,
  submitted before a decision or after a rejection, confirmed unless already confirmed and, once
  expired, only by a reviewer, rejected unless confirmed, expired when pending; the terms never change.
\<close>
theorem shop_refines_life:
  assumes "shop_step\<^sup>*\<^sup>* w w'" and "payments_wf w"
  shows "payments_wf w' \<and> book_step\<^sup>*\<^sup>* (book_of w) (book_of w')"
  using shop_run_refines [OF assms] by (simp add: pay_refines_def payments_wf_def)

lemma shop_refines_life_witness:
  "payments_wf demo_reviews \<and> book_step\<^sup>*\<^sup>* (book_of demo_reviews) (book_of (snd (confirmPayment 50 by_owner demo_reviews)))"
  using shop_refines_life [OF demo_reviews_run demo_reviews_wf] demo_reviews_wf by blast

lemma run_keeps_payment:
  assumes "shop_step\<^sup>*\<^sup>* w w'" and "payments_wf w" and "find_payment i w = Some p"
  obtains q where "find_payment i w' = Some q" "terms_of (entry_of q) = terms_of (entry_of p)"
    "pay_status p = P_CONFIRMED \<Longrightarrow> entry_of q = entry_of p"
proof -
  have steps: "book_step\<^sup>*\<^sup>* (book_of w) (book_of w')" using shop_run_refines [OF assms(1,2)] by (simp add: pay_refines_def)
  have p: "book_of w i = Some (entry_of p)" by (simp add: book_of_def assms(3))
  obtain e where e: "book_of w' i = Some e" "terms_of e = terms_of (entry_of p)" using book_steps_terms [OF steps p] by blast
  from e(1) obtain q where q: "find_payment i w' = Some q" "e = entry_of q" by (auto simp: book_of_def)
  have "pay_status p = P_CONFIRMED \<Longrightarrow> entry_of q = entry_of p"
    using book_steps_final [OF steps p] e(1) q(2) by (simp add: entry_of_def)
  with q e(2) show thesis using that by blast
qed

text \<open>
  C3: A confirmed payment is final and no payment changes its terms (safety). Through any run of the
  shop a payment keeps its kind, method, amount, seller and order; once CONFIRMED it stays CONFIRMED by
  the same reviewer, so no later proof, callback, rejection, expiry or cancellation takes it back.
\<close>
theorem confirmed_final:
  assumes "shop_step\<^sup>*\<^sup>* w w'" and "payments_wf w" and "find_payment i w = Some p"
  shows "\<exists>q. find_payment i w' = Some q \<and> pay_kind q = pay_kind p \<and> pay_method q = pay_method p \<and>
    pay_amount q = pay_amount p \<and> pay_adminId q = pay_adminId p \<and> pay_orderId q = pay_orderId p \<and>
    (pay_status p = P_CONFIRMED \<longrightarrow> pay_status q = P_CONFIRMED \<and> pay_reviewedById q = pay_reviewedById p)"
proof -
  obtain q where "find_payment i w' = Some q" "terms_of (entry_of q) = terms_of (entry_of p)"
    "pay_status p = P_CONFIRMED \<Longrightarrow> entry_of q = entry_of p"
    by (rule run_keeps_payment [OF assms]) blast
  then show ?thesis by (simp add: terms_of_def entry_of_def)
qed

lemma confirmed_final_witness:
  "\<exists>q. find_payment 50 (snd (handleZarinpalCallback 50 ''A'' ''NOK'' (snd (confirmPayment 50 by_owner demo_reviews)))) = Some q \<and>
     pay_status q = P_CONFIRMED \<and> pay_amount q = 1000 \<and> pay_reviewedById q = Some 2"
proof -
  let ?w = "snd (confirmPayment 50 by_owner demo_reviews)"
  have wf: "payments_wf ?w" using shop_run_refines [OF demo_reviews_run demo_reviews_wf] by (simp add: pay_refines_def payments_wf_def)
  have run: "shop_step\<^sup>*\<^sup>* ?w (snd (handleZarinpalCallback 50 ''A'' ''NOK'' ?w))" by (rule r_into_rtranclp, rule s_callback)
  have "case find_payment 50 ?w of None \<Rightarrow> False
    | Some p \<Rightarrow> pay_status p = P_CONFIRMED \<and> pay_amount p = 1000 \<and> pay_reviewedById p = Some 2" by code_simp
  then obtain p where p: "find_payment 50 ?w = Some p" and "pay_status p = P_CONFIRMED" "pay_amount p = 1000" "pay_reviewedById p = Some 2"
    by (auto split: option.splits)
  then show ?thesis using confirmed_final [OF run wf p] by auto
qed

section \<open>The callback of a cancelled payment\<close>

lemma update_payment_eq:
  "find_payment i w = Some p \<Longrightarrow> update_payment i f w = (Inr ((f p)\<lparr>pay_updatedAt := clock w\<rparr>),
     w\<lparr>payments := upd_rows (\<lambda>r. pay_id r = i) (\<lambda>r. (f r)\<lparr>pay_updatedAt := clock w\<rparr>) (payments w)\<rparr>)"
  by (simp add: update_payment_def now_def)

lemma find_updated:
  assumes "find_payment i w = Some p" and "\<And>r. pay_id (f r) = pay_id r" and "payments w' = upd_rows (\<lambda>r. pay_id r = i) f (payments w)"
  shows "find_payment i w' = Some (f p)"
  using assms(1) find_row_upd [of pay_id f i "\<lambda>r. pay_id r = i" "payments w", OF assms(2)] find_row_key [of pay_id i "payments w" p]
  by (simp add: find_payment_def assms(3))

lemma quiet_announceReview [quiet_intros]: "quiet (announceReview p)"
  unfolding announceReview_def by (intro quiet_intros)

lemma receipt_accepted:
  assumes "find_payment i w = Some p" and "truthy (prf_receiptFile proof)"
  obtains q w2 where "submit_receipt p proof w = (Inr q, w2)" "pay_status q = P_REVIEW" "find_payment i w2 = Some q"
proof -
  have id: "pay_id p = i" using assms(1) unfolding find_payment_def by (rule find_row_key)
  let ?ref = "str_trim (opt_default (prf_receiptRef proof) [])"
  let ?g = "\<lambda>r. r\<lparr>pay_status := P_REVIEW, pay_error := None,
        pay_receiptRef := (if ?ref \<noteq> [] then Some ?ref else pay_receiptRef p),
        pay_cardPan := (if last4 (prf_cardPan proof) \<noteq> [] then Some (last4 (prf_cardPan proof)) else pay_cardPan p),
        pay_receiptFile := opt_or (prf_receiptFile proof) (pay_receiptFile p)\<rparr>"
  let ?h = "\<lambda>r. (?g r)\<lparr>pay_updatedAt := clock w\<rparr>"
  define w1 where "w1 = w\<lparr>payments := upd_rows (\<lambda>r. pay_id r = i) ?h (payments w)\<rparr>"
  define w2 where "w2 = snd (announceReview (?h p) w1)"
  have "submit_receipt p proof w = bnd (update_payment i ?g) (\<lambda>updated. andthen (announceReview updated) (ret updated)) w"
    using assms(2) by (simp add: submit_receipt_def Let_def id)
  also have "\<dots> = andthen (announceReview (?h p)) (ret (?h p)) w1"
    by (simp add: bnd_def [of "update_payment _ _"] update_payment_eq [OF assms(1)] w1_def)
  also have "\<dots> = (Inr (?h p), w2)" by (simp add: andthen_quiet [OF quiet_announceReview] w2_def)
  finally have run: "submit_receipt p proof w = (Inr (?h p), w2)" .
  have "events_only w1 w2" unfolding w2_def by (intro quiet_snd quiet_intros)
  then have "find_payment i w2 = Some (?h p)"
    by (intro find_updated [OF assms(1)]) (simp_all add: eo_payments w1_def)
  with run show thesis using that by simp
qed

text \<open>
  C39: A cancelled callback rejects any payment that is not confirmed, and so reopens an expired one
  (error behaviour). With a status other than OK \<open>handleZarinpalCallback\<close> looks neither at the
  authority, nor at the method, nor at the time limit: whatever the payment was, its row becomes
  REJECTED with the note of a cancellation, and nothing else in the state changes. For an EXPIRED
  card payment of an order this lifts the time limit: a receipt for it, refused with status 410 before the
  callback, is accepted after it and puts the payment in REVIEW.
\<close>
theorem callback_reopens_expired:
  assumes "find_payment i w = Some p" and "pay_status p \<noteq> P_CONFIRMED" and "status \<noteq> ''OK''"
  shows "\<exists>r w1. handleZarinpalCallback i authority status w = (Inr r, w1) \<and> \<not> cb_ok r \<and> cb_error r = Some ''canceled'' \<and>
    w1 = w\<lparr>payments := upd_rows (\<lambda>r. pay_id r = i) (\<lambda>r. r\<lparr>pay_status := P_REJECTED, pay_error := Some ''canceled by the payer'',
      pay_updatedAt := clock w\<rparr>) (payments w)\<rparr> \<and>
    (\<exists>q. find_payment i w1 = Some q \<and> pay_status q = P_REJECTED) \<and>
    (pay_status p = P_EXPIRED \<and> pay_method p = CARD \<and> pay_kind p = K_ORDER \<and> truthy (prf_receiptFile proof) \<longrightarrow>
      fst (submitProof i proof w) = Inl (AppError ''the time to pay is over; place a new order'' 410 ''bad_request'') \<and>
      (\<exists>q w2. submitProof i proof w1 = (Inr q, w2) \<and> pay_status q = P_REVIEW \<and> find_payment i w2 = Some q))"
proof -
  have id: "pay_id p = i" using assms(1) unfolding find_payment_def by (rule find_row_key)
  let ?f = "\<lambda>r. r\<lparr>pay_status := P_REJECTED, pay_error := Some ''canceled by the payer'', pay_updatedAt := clock w\<rparr>"
  define w1 where "w1 = w\<lparr>payments := upd_rows (\<lambda>r. pay_id r = i) ?f (payments w)\<rparr>"
  have cb: "\<exists>r. handleZarinpalCallback i authority status w = (Inr r, w1) \<and> \<not> cb_ok r \<and> cb_error r = Some ''canceled''"
    using assms(2,3) by (simp add: handleZarinpalCallback_def assms(1) reject_with_def id update_payment_eq andthen_def bnd_def w1_def)
  have p1: "find_payment i w1 = Some (?f p)" by (rule find_updated [OF assms(1)]) (simp_all add: w1_def)
  have receipt: "fst (submitProof i proof w) = Inl (AppError ''the time to pay is over; place a new order'' 410 ''bad_request'') \<and>
      (\<exists>q w2. submitProof i proof w1 = (Inr q, w2) \<and> pay_status q = P_REVIEW \<and> find_payment i w2 = Some q)"
    if e: "pay_status p = P_EXPIRED" "pay_method p = CARD" "pay_kind p = K_ORDER" "truthy (prf_receiptFile proof)"
  proof
    show "fst (submitProof i proof w) = Inl (AppError ''the time to pay is over; place a new order'' 410 ''bad_request'')"
      by (simp add: submitProof_def assms(1) e(1) now_def)
    have st: "settingsForPayment (?f p) w1 = (Inr (storeSettingsByAdminId (pay_adminId p) w1), w1)"
      using e(3) by (simp add: settingsForPayment_def of_seller_def)
    have sub: "submitProof i proof w1 = submit_receipt (?f p) proof w1"
      by (simp add: submitProof_def p1 now_def bnd_def [of "settingsForPayment _"] st e(2))
    obtain q w2 where "submit_receipt (?f p) proof w1 = (Inr q, w2)" "pay_status q = P_REVIEW" "find_payment i w2 = Some q"
      by (rule receipt_accepted [of i w1 "?f p" "proof"]) (use p1 e(4) in simp_all)
    then show "\<exists>q w2. submitProof i proof w1 = (Inr q, w2) \<and> pay_status q = P_REVIEW \<and> find_payment i w2 = Some q"
      unfolding sub by blast
  qed
  obtain r where r: "handleZarinpalCallback i authority status w = (Inr r, w1)" "\<not> cb_ok r" "cb_error r = Some ''canceled''"
    using cb by (elim exE conjE)
  show ?thesis
  proof (intro exI [of _ r] exI [of _ w1] conjI impI r w1_def)
    show "\<exists>q. find_payment i w1 = Some q \<and> pay_status q = P_REJECTED" using p1 by simp
  qed (use receipt in blast)+
qed

definition card_receipt :: payment_proof where
  "card_receipt = \<lparr>prf_txid = None, prf_receiptRef = None, prf_cardPan = None, prf_receiptFile = Some ''f''\<rparr>"

lemma callback_reopens_expired_witness:
  "\<exists>r w1 q w2. handleZarinpalCallback 51 [] ''NOK'' demo_reviews = (Inr r, w1) \<and> submitProof 51 card_receipt w1 = (Inr q, w2) \<and>
     pay_status q = P_REVIEW"
  using callback_reopens_expired [of 51 demo_reviews "(demo_payment 51 K_ORDER CARD P_EXPIRED 700)\<lparr>pay_customerId := None\<rparr>"
      "''NOK''" "[]" card_receipt]
  by (simp add: demo_reviews_def find_payment_def demo_payment_def card_receipt_def truthy_def) blast

section \<open>Settlements\<close>

text \<open>A confirmation that is allowed: the row is written, the event recorded, and the payment settled.\<close>
definition confirmed_now :: "confirm_opts \<Rightarrow> world \<Rightarrow> payment \<Rightarrow> payment" where
  "confirmed_now opts w p = (confirmed_row opts (clock w) p)\<lparr>pay_updatedAt := clock w\<rparr>"

lemma confirmed_now_sel [simp]:
  "pay_id (confirmed_now opts w p) = pay_id p" "pay_kind (confirmed_now opts w p) = pay_kind p"
  "pay_adminId (confirmed_now opts w p) = pay_adminId p" "pay_customerId (confirmed_now opts w p) = pay_customerId p"
  "pay_amount (confirmed_now opts w p) = pay_amount p" "pay_orderId (confirmed_now opts w p) = pay_orderId p"
  "pay_method (confirmed_now opts w p) = pay_method p" "pay_status (confirmed_now opts w p) = P_CONFIRMED"
  by (simp_all add: confirmed_now_def confirmed_row_def)

definition may_confirm :: "confirm_opts \<Rightarrow> payment \<Rightarrow> bool" where
  "may_confirm opts p \<longleftrightarrow> pay_status p \<noteq> P_CONFIRMED \<and>
     (case cop_by opts of None \<Rightarrow> pay_status p \<noteq> P_EXPIRED | Some a \<Rightarrow> canReview a p)"

lemma confirm_run:
  assumes "find_payment i w = Some p" and "may_confirm opts p"
  obtains w2 where "events_only (w\<lparr>payments := upd_rows (\<lambda>r. pay_id r = i) (confirmed_now opts w) (payments w)\<rparr>) w2"
    "confirmPayment i opts w = andthen (settle_payment p opts) (ret (confirmed_now opts w p)) w2"
proof -
  have id: "pay_id p = i" using assms(1) unfolding find_payment_def by (rule find_row_key)
  let ?row = "confirmed_row opts (clock w)"
  define w1 where "w1 = w\<lparr>payments := upd_rows (\<lambda>r. pay_id r = i) (confirmed_now opts w) (payments w)\<rparr>"
  have up: "update_payment i ?row w = (Inr (confirmed_now opts w p), w1)"
    unfolding update_payment_eq [OF assms(1)] w1_def confirmed_now_def by (simp add: fun_eq_iff)
  define au where "au = audit (map_option adm_id (cop_by opts)) ''payment.confirm'' (JId (pay_id p))
      [(''kind'', JStr (kind_text (pay_kind p))), (''method'', JStr (method_text (pay_method p))),
       (''amount'', JStr (show_int (pay_amount p))), (''auto'', JBool (cop_auto opts))] None"
  have q: "quiet au" unfolding au_def by (intro quiet_intros)
  have ok: "\<not> (case cop_by opts of Some a \<Rightarrow> \<not> canReview a p | None \<Rightarrow> False)" "pay_status p \<noteq> P_CONFIRMED"
    "\<not> (pay_status p = P_EXPIRED \<and> cop_by opts = None)"
    using assms(2) by (auto simp: may_confirm_def split: option.splits)
  have "confirmPayment i opts w = bnd (update_payment i ?row) (\<lambda>updated. andthen au (andthen (settle_payment p opts) (ret updated))) w"
    using ok by (auto simp: confirmPayment_def assms(1) id now_def au_def andthen_throw_if)
  also have "\<dots> = andthen au (andthen (settle_payment p opts) (ret (confirmed_now opts w p))) w1" by (simp add: bnd_def up)
  also have "\<dots> = andthen (settle_payment p opts) (ret (confirmed_now opts w p)) (snd (au w1))" by (simp add: andthen_quiet [OF q])
  finally show thesis using that quiet_snd [OF q, of w1] by (simp add: w1_def)
qed

lemma confirm_again:
  assumes "find_payment i w = Some q" and "pay_status q = P_CONFIRMED"
  shows "confirmPayment i opts w = (if (case cop_by opts of Some a \<Rightarrow> \<not> canReview a q | None \<Rightarrow> False) then (Inl forbidden, w) else (Inr q, w))"
  by (simp add: confirmPayment_def assms)

text \<open>
  C9: A reseller's top-up is credited once (safety). Confirming a top-up of a reseller that is open to
  the confirmer returns, credits exactly the amount of the payment to exactly that reseller with one
  ledger row, and leaves the payment CONFIRMED. Confirming it again, automatically or by any reviewer,
  changes nothing at all.
\<close>
theorem reseller_topup_once:
  assumes "find_payment i w = Some p" and "may_confirm opts p" and "pay_kind p = K_TOPUP" and "pay_customerId p = None"
    and "0 < pay_amount p" and "find_admin (pay_adminId p) w = Some a"
  shows "\<exists>q w'. confirmPayment i opts w = (Inr q, w') \<and> find_payment i w' = Some q \<and> pay_status q = P_CONFIRMED \<and>
    admin_balance w' (pay_adminId p) = Some (adm_credit a + pay_amount p) \<and>
    admin_rows w' (pay_adminId p) = admin_rows w (pay_adminId p) @ [(pay_amount p, adm_credit a + pay_amount p)] \<and>
    (\<forall>j. j \<noteq> pay_adminId p \<longrightarrow> admin_balance w' j = admin_balance w j \<and> admin_rows w' j = admin_rows w j) \<and>
    (\<forall>again. snd (confirmPayment i again w') = w')"
proof -
  let ?i = "pay_adminId p" and ?q = "confirmed_now opts w p" and ?b = "adm_credit a + pay_amount p"
  obtain w2 where w2: "events_only (w\<lparr>payments := upd_rows (\<lambda>r. pay_id r = i) (confirmed_now opts w) (payments w)\<rparr>) w2"
    and run: "confirmPayment i opts w = andthen (settle_payment p opts) (ret ?q) w2"
    by (rule confirm_run [OF assms(1,2)])
  have adm: "admins w2 = admins w" "wallet_txs w2 = wallet_txs w" using eo_admins [OF w2] eo_wallet_txs [OF w2] by simp_all
  have a2: "find_admin ?i w2 = Some a" using assms(6) by (simp add: find_admin_def adm)
  obtain row w3 where ch: "chargeWallet ?i ADMIN (pay_amount p) W_TOPUP (topup_adjust p opts) w2 = (Inr (Some row), w3)"
    and row: "row = make_tx (next_id w2) (clock w2) ?i W_TOPUP (pay_amount p) ?b (topup_adjust p opts)"
    and w3: "events_only (moved ?i ?b row w2) w3"
    by (rule chargeWallet_credit [OF a2 assms(5), of ADMIN W_TOPUP "topup_adjust p opts"]) simp_all
  define k where "k = andthen (topup_notice p) (emitEvent (Some ?i) ''wallet.topup''
    [(''paymentId'', JId (pay_id p)), (''adminId'', JId ?i), (''amount'', JStr (show_int (pay_amount p))),
     (''method'', JStr (method_text (pay_method p)))])"
  have qk: "quiet k" unfolding k_def topup_notice_def by (intro quiet_intros)
  define w' where "w' = snd (k w3)"
  have "settle_payment p opts = andthen (chargeWallet ?i ADMIN (pay_amount p) W_TOPUP (topup_adjust p opts)) k"
    by (simp add: settle_payment_def assms(3,4) k_def)
  then have run': "confirmPayment i opts w = (Inr ?q, w')"
    unfolding run using qk by (simp add: andthen_def bnd_def ch w'_def quiet_never_throws [THEN never_throwsE] split: prod.splits sum.splits)
      (metis quietD fst_conv sum.distinct(1))
  have ev: "events_only (moved ?i ?b row w2) w'" using events_only_trans [OF w3 quiet_snd [OF qk]] by (simp add: w'_def)
  have "payments w' = upd_rows (\<lambda>r. pay_id r = i) (confirmed_now opts w) (payments w)"
    using eo_payments [OF ev] eo_payments [OF w2] by (simp add: moved_def set_credit_def)
  then have q: "find_payment i w' = Some ?q" by (intro find_updated [OF assms(1)]) simp_all
  have bal: "admin_balance w' = admin_balance (moved ?i ?b row w2)" "admin_rows w' = admin_rows (moved ?i ?b row w2)"
    using admin_ledger_frame [OF eo_admins [OF ev] eo_wallet_txs [OF ev]] by simp_all
  have old: "admin_balance w2 = admin_balance w" "admin_rows w2 = admin_rows w"
    using admin_ledger_frame [OF adm] by simp_all
  have r: "wtx_adminId row = ?i" "wtx_amount row = pay_amount p" "wtx_balanceAfter row = ?b" by (simp_all add: row make_tx_def)
  have again: "snd (confirmPayment i again w') = w'" for again
    unfolding confirm_again [OF q, simplified] by simp
  show ?thesis
    by (rule exI [of _ ?q], rule exI [of _ w']) (use run' q again in \<open>auto simp: bal admin_balance_moved [OF a2] admin_rows_moved r old\<close>)
qed

lemma reseller_topup_once_witness:
  "\<exists>q w'. confirmPayment 50 by_owner demo_reviews = (Inr q, w') \<and> admin_balance w' 3 = Some 1500 \<and>
     snd (confirmPayment 50 by_owner w') = w'"
  using reseller_topup_once [of 50 demo_reviews "(demo_payment 50 K_TOPUP CARD P_REVIEW 1000)\<lparr>pay_customerId := None\<rparr>"
      by_owner "demo_admin 3 ADMIN 500"]
  by (simp add: demo_reviews_def find_payment_def find_admin_def demo_payment_def by_owner_def may_confirm_def canReview_def) blast

section \<open>Fulfilment\<close>

lemma update_order_eq:
  "find_order i w = Some r \<Longrightarrow> update_order i f w = (Inr (f r), w\<lparr>orders := upd_rows (\<lambda>x. ord_id x = i) f (orders w)\<rparr>)"
  by (simp add: update_order_def)

lemma find_order_updated:
  assumes "find_order i w = Some r" and "\<And>x. ord_id (f x) = ord_id x" and "orders w' = upd_rows (\<lambda>x. ord_id x = i) f (orders w)"
  shows "find_order i w' = Some (f r)"
  using assms(1) find_row_upd [of ord_id f i "\<lambda>x. ord_id x = i" "orders w", OF assms(2)] find_row_key [of ord_id i "orders w" r]
  by (simp add: find_order_def assms(3))

lemma quiet_announcements [quiet_intros]:
  "quiet (announce_fulfilled seller ord i warnings)" "quiet (announce_panel sid l ord account renewal delivered)"
  unfolding announce_fulfilled_def announce_panel_def by (intro quiet_intros)+

text \<open>Both fulfilments have this shape: deliver, write the order, count the sale, announce; or note the failure.\<close>
definition deliver_with ::
  "order \<Rightarrow> (world, 'x) op \<Rightarrow> ('x \<Rightarrow> order \<Rightarrow> order) \<Rightarrow> ('x \<Rightarrow> (world, unit) op) \<Rightarrow> string \<Rightarrow> uid \<Rightarrow> (world, order) op" where
  "deliver_with ord d f q tag sid = catch_op
    (bnd d (\<lambda>x. bnd (update_order (ord_id ord) (f x)) (\<lambda>saved. andthen (count_sale ord) (andthen (q x) (ret saved)))))
    (fulfil_failed tag ord sid)"

lemma failed_outcome:
  assumes "find_order (ord_id ord) w = Some ord"
  obtains w' where "fulfil_failed tag ord sid e w = (Inr (ord\<lparr>ord_error := Some (take 500 (err_message e))\<rparr>), w')"
    "find_order (ord_id ord) w' = Some (ord\<lparr>ord_error := Some (take 500 (err_message e))\<rparr>)"
proof -
  let ?f = "\<lambda>r. r\<lparr>ord_error := Some (take 500 (err_message e))\<rparr>"
  define w1 where "w1 = w\<lparr>orders := upd_rows (\<lambda>x. ord_id x = ord_id ord) ?f (orders w)\<rparr>"
  define n where "n = notify_void ''order.failed'' [JStr ''order'', JId (ord_id ord), JStr tag, JInt (clock w1)] (JId (ord_id ord)) (to_admin (Some sid))"
  have q: "quiet n" unfolding n_def by (intro quiet_intros)
  have "fulfil_failed tag ord sid e w = andthen n (ret (?f ord)) w1"
    by (simp add: fulfil_failed_def bnd_def [of "update_order _ _"] update_order_eq [OF assms] now_def w1_def n_def)
  then have "fulfil_failed tag ord sid e w = (Inr (?f ord), snd (n w1))" by (simp add: andthen_quiet [OF q])
  moreover have "find_order (ord_id ord) (snd (n w1)) = Some (?f ord)"
    by (rule find_order_updated [OF assms]) (simp_all add: eo_orders [OF quiet_snd [OF q]] w1_def)
  ultimately show thesis by (rule that)
qed

text \<open>A run that returns the row it left: delivered, or the same order with a message.\<close>
definition delivered :: "order \<Rightarrow> (err + order) \<times> world \<Rightarrow> bool" where
  "delivered ord run \<longleftrightarrow> (\<exists>r w'. run = (Inr r, w') \<and> find_order (ord_id ord) w' = Some r \<and>
     (ord_status r = O_FULFILLED \<and> ord_fulfilledAt r \<noteq> None \<and> ord_amount r = ord_amount ord \<or>
      (\<exists>e. r = ord\<lparr>ord_error := Some e\<rparr>)))"

lemma deliver_outcome:
  assumes d: "\<And>os. preserves (\<lambda>w. orders w = os) d" and q: "\<And>x. quiet (q x)" and f: "\<And>x r. ord_id (f x r) = ord_id r"
    and full: "\<And>x. ord_status (f x ord) = O_FULFILLED \<and> ord_fulfilledAt (f x ord) \<noteq> None \<and> ord_amount (f x ord) = ord_amount ord"
    and ord: "find_order (ord_id ord) w = Some ord"
  shows "delivered ord (deliver_with ord d f q tag sid w)"
proof -
  obtain y w1 where y: "d w = (y, w1)" by (cases "d w")
  have "orders w1 = orders w" using preservesD [OF d, of w "orders w"] y by simp
  then have ord1: "find_order (ord_id ord) w1 = Some ord" using ord by (simp add: find_order_def)
  show ?thesis
  proof (cases y)
    case (Inl e)
    obtain w' where "fulfil_failed tag ord sid e w1 = (Inr (ord\<lparr>ord_error := Some (take 500 (err_message e))\<rparr>), w')"
      "find_order (ord_id ord) w' = Some (ord\<lparr>ord_error := Some (take 500 (err_message e))\<rparr>)"
      by (rule failed_outcome [OF ord1])
    then show ?thesis unfolding delivered_def by (simp add: deliver_with_def catch_op_def bnd_def y Inl) blast
  next
    case (Inr x)
    define w2 where "w2 = w1\<lparr>orders := upd_rows (\<lambda>u. ord_id u = ord_id ord) (f x) (orders w1)\<rparr>"
    define w3 where "w3 = snd (count_sale ord w2)"
    have cs: "count_sale ord w2 = (Inr (), w3)" by (simp add: w3_def count_sale_def)
    have "orders w3 = orders w2" by (simp add: w3_def count_sale_def split: option.split)
    then have "orders (snd (q x w3)) = orders w2" using eo_orders [OF quiet_snd [OF q]] by simp
    then have "find_order (ord_id ord) (snd (q x w3)) = Some (f x ord)"
      by (intro find_order_updated [OF ord1]) (simp_all add: f w2_def)
    moreover have "andthen (count_sale ord) (andthen (q x) (ret (f x ord))) w2 = (Inr (f x ord), snd (q x w3))"
      by (simp add: andthen_def [of "count_sale ord"] bnd_def [of "count_sale ord"] cs andthen_quiet [OF q])
    then have "deliver_with ord d f q tag sid w = (Inr (f x ord), snd (q x w3))"
      by (simp add: deliver_with_def catch_op_def bnd_def [of d] bnd_def [of "update_order _ _"] y Inr update_order_eq [OF ord1] w2_def)
    ultimately show ?thesis unfolding delivered_def using full [of x] by simp
  qed
qed

lemma fulfil_shape:
  "catch_op (fulfill_body ord seller) (fulfil_failed ''failed'' ord (adm_id seller)) = deliver_with ord
    (bnd (case ord_renewClientId ord of Some i \<Rightarrow> renew_bought seller ord i | None \<Rightarrow> create_bought seller ord)
      (\<lambda>(clientId, warnings). bnd now (\<lambda>tm. ret (clientId, warnings, tm))))
    (\<lambda>(clientId, warnings, tm) r. r\<lparr>ord_status := O_FULFILLED, ord_clientId := Some clientId, ord_fulfilledAt := Some tm,
        ord_error := warning_text warnings\<rparr>)
    (\<lambda>(clientId, warnings, tm). announce_fulfilled seller ord clientId warnings) ''failed'' (adm_id seller)"
  by (simp add: deliver_with_def fulfill_body_def bnd_assoc split_beta')

lemma provision_shape:
  "provisionPanelOrder ord seller l = deliver_with ord
    (bnd (gets (\<lambda>w. feature_on w ''sharedPanel'')) (\<lambda>on.
     andthen (throw_if (\<not> on) (forbidden_error ''a premium licence is needed''))
     (bnd now (\<lambda>tm. bnd (sold_panel tm (adm_id seller) l ord) (\<lambda>(account, password, renewal).
     andthen (modify (\<lambda>w. w\<lparr>panel_accounts := put_row (buyer_key (adm_id seller) ord) account (panel_accounts w)\<rparr>))
     (bnd (hand_over tm (adm_id seller) ord account password renewal) (\<lambda>delivered. ret (tm, account, renewal, delivered))))))))
    (\<lambda>(tm, account, renewal, delivered) r. r\<lparr>ord_status := O_FULFILLED, ord_fulfilledAt := Some tm, ord_error := None,
        ord_note := Some (order_note ord (pa_username account))\<rparr>)
    (\<lambda>(tm, account, renewal, delivered). announce_panel (adm_id seller) l ord account renewal delivered) ''panel_failed'' (adm_id seller)"
  by (simp add: provisionPanelOrder_def deliver_with_def provision_body_def bnd_assoc andthen_def split_beta')

lemma fulfilled_by_client:
  assumes "find_order (ord_id ord) w = Some ord"
  shows "delivered ord (catch_op (fulfill_body ord seller) (fulfil_failed ''failed'' ord (adm_id seller)) w)"
  unfolding fulfil_shape by (rule deliver_outcome) (intro preserves_intros, auto simp: split_beta assms intro!: quiet_intros)

lemma fulfilled_by_panel:
  assumes "find_order (ord_id ord) w = Some ord"
  shows "delivered ord (provisionPanelOrder ord seller l w)"
  unfolding provision_shape
  by (rule deliver_outcome) (intro preserves_intros same_orders.frame_modify, auto simp: split_beta assms intro!: quiet_intros)

text \<open>
  C6: Fulfilling a paid order never throws and never loses it (error behaviour). For a PAID order of an
  existing seller \<open>fulfillOrder\<close> returns the row it leaves in the table: either FULFILLED, with a time,
  and then running it again changes nothing, or the PAID order as it was with a message in \<open>error\<close>, so
  that it can be retried. The amount stays, and no payment and no customer wallet is touched.
\<close>
theorem fulfil_outcome:
  assumes "find_order i w = Some ord" and "ord_status ord = O_PAID" and "find_admin (ord_adminId ord) w = Some seller"
  shows "\<exists>r w'. fulfillOrder i w = (Inr r, w') \<and> find_order i w' = Some r \<and> ord_amount r = ord_amount ord \<and>
    (if ord_status r = O_FULFILLED then ord_fulfilledAt r \<noteq> None \<and> fulfillOrder i w' = (Inr r, w')
     else \<exists>e. r = ord\<lparr>ord_error := Some e\<rparr>) \<and>
    payments w' = payments w \<and> customers w' = customers w \<and> customer_wallet_txs w' = customer_wallet_txs w"
proof -
  have id: "ord_id ord = i" using assms(1) unfolding find_order_def by (rule find_row_key)
  have run: "fulfillOrder i w = fulfill_paid ord seller w" by (simp add: fulfillOrder_def assms)
  have "delivered ord (fulfill_paid ord seller w)"
    using assms(1) fulfilled_by_client [of ord w seller] fulfilled_by_panel [of ord w seller]
    by (cases "panelPlanFor (ord_planId ord) w") (simp_all add: fulfill_paid_def id)
  then obtain r w' where r: "fulfill_paid ord seller w = (Inr r, w')" "find_order i w' = Some r"
    "(ord_status r = O_FULFILLED \<and> ord_fulfilledAt r \<noteq> None \<and> ord_amount r = ord_amount ord) \<or> (\<exists>e. r = ord\<lparr>ord_error := Some e\<rparr>)"
    unfolding delivered_def id by blast
  have "preserves (\<lambda>v. payments v = payments w \<and> customers v = customers w \<and> customer_wallet_txs v = customer_wallet_txs w) (fulfillOrder i)"
    by (rule still.fulfilment)
  then have kept: "payments w' = payments w \<and> customers w' = customers w \<and> customer_wallet_txs w' = customer_wallet_txs w"
    using preservesD [of _ "fulfillOrder i" w] by (auto simp: run r(1))
  have again: "ord_status r = O_FULFILLED \<Longrightarrow> fulfillOrder i w' = (Inr r, w')" by (simp add: fulfillOrder_def r(2))
  show ?thesis using r(2,3) again kept assms(2) by (intro exI [of _ r] exI [of _ w']) (auto simp: run r(1))
qed

definition demo_sale :: "order_status \<Rightarrow> int \<Rightarrow> order" where
  "demo_sale st amount = \<lparr>ord_id = 60, ord_token = ''t60'', ord_adminId = 3, ord_planId = None, ord_clientId = None,
     ord_customerId = Some 7, ord_renewClientId = None, ord_status = st, ord_listPrice = amount, ord_discountCode = None,
     ord_discountAmount = 0, ord_amount = amount, ord_customerName = None, ord_customerTelegramId = None,
     ord_customerPhone = None, ord_customerEmail = None, ord_error = None, ord_note = None, ord_ip = None,
     ord_planSnapshot = \<lparr>snap_name = ''plan'', snap_trafficGB = 1, snap_days = 1, snap_ipLimit = 0, snap_targets = []\<rparr>,
     ord_createdAt = 0, ord_paidAt = None, ord_fulfilledAt = None\<rparr>"

definition demo_sales :: "order_status \<Rightarrow> int \<Rightarrow> world" where
  "demo_sales st amount = demo_world\<lparr>orders := [demo_sale st amount], customers := [demo_customer]\<rparr>"

lemma demo_sales_finds:
  "find_order 60 (demo_sales st amount) = Some (demo_sale st amount)" "find_customer 7 (demo_sales st amount) = Some demo_customer"
  "find_admin (ord_adminId (demo_sale st amount)) (demo_sales st amount) = Some (demo_admin 3 ADMIN 500)"
  "ord_status (demo_sale st amount) = st" "ord_amount (demo_sale st amount) = amount" "ord_id (demo_sale st amount) = 60"
  "payments (demo_sales st amount) = []" "next_id (demo_sales st amount) = 100"
  by (simp_all add: demo_sales_def demo_sale_def find_order_def find_customer_def find_admin_def demo_customer_def)

lemma fulfil_outcome_witness:
  "\<exists>r w'. fulfillOrder 60 (demo_sales O_PAID 40) = (Inr r, w') \<and> find_order 60 w' = Some r \<and> ord_amount r = 40"
  using fulfil_outcome [of 60 "demo_sales O_PAID 40" "demo_sale O_PAID 40" "demo_admin 3 ADMIN 500"]
  unfolding demo_sales_finds by (elim meta_impE [OF _ refl] meta_allE) auto

section \<open>Paying from the wallet\<close>

lemma confirm_order_run:
  assumes "find_payment i w = Some p" and "pay_status p = P_PENDING" and "pay_kind p = K_ORDER"
  shows "payments (snd (confirmPayment i (auto_opts note) w)) =
      upd_rows (\<lambda>r. pay_id r = i) (confirmed_now (auto_opts note) w) (payments w) \<and>
    customers (snd (confirmPayment i (auto_opts note) w)) = customers w \<and>
    (\<forall>q. fst (confirmPayment i (auto_opts note) w) = Inr q \<longrightarrow> q = confirmed_now (auto_opts note) w p)"
proof -
  have "may_confirm (auto_opts note) p" by (simp add: may_confirm_def auto_opts_def assms(2))
  then obtain w2 where w2: "events_only (w\<lparr>payments := upd_rows (\<lambda>r. pay_id r = i) (confirmed_now (auto_opts note) w) (payments w)\<rparr>) w2"
    and run: "confirmPayment i (auto_opts note) w = andthen (settle_payment p (auto_opts note)) (ret (confirmed_now (auto_opts note) w p)) w2"
    by (rule confirm_run [OF assms(1)])
  have "preserves (\<lambda>v. payments v = payments w2 \<and> customers v = customers w2 \<and> customer_wallet_txs v = customer_wallet_txs w2)
      (settle_payment p (auto_opts note))"
    unfolding settle_payment_def by (simp add: assms(3) split: option.split) (intro allI conjI impI preserves_intros)
  then have "payments (snd (settle_payment p (auto_opts note) w2)) = payments w2 \<and> customers (snd (settle_payment p (auto_opts note) w2)) = customers w2"
    using preservesD [of _ "settle_payment p (auto_opts note)" w2] by fastforce
  then show ?thesis
    using eo_payments [OF w2] eo_customers [OF w2]
    by (cases "settle_payment p (auto_opts note) w2"; cases "fst (settle_payment p (auto_opts note) w2)") (auto simp: run andthen_def bnd_def)
qed

lemma wallet_move_sel [simp]: "cm_amount (wallet_move ord c kind note) = ord_amount ord" "cm_customerId (wallet_move ord c kind note) = c"
  by (simp_all add: wallet_move_def)

lemma wallet_payment_sel [simp]:
  "pay_id (wallet_payment ord s c tm k) = k" "pay_status (wallet_payment ord s c tm k) = P_PENDING"
  "pay_kind (wallet_payment ord s c tm k) = K_ORDER" "pay_amount (wallet_payment ord s c tm k) = ord_amount ord"
  by (simp_all add: wallet_payment_def)

text \<open>After the debit the purchase goes through: the payment is confirmed and the rest cannot take that back.\<close>
lemma finish_wallet_run:
  assumes "find_payment k w = Some p" and "pay_id p = k" and "pay_status p = P_PENDING" and "pay_kind p = K_ORDER"
  obtains res q w' where "finish_wallet ord p sellerId cid w = (Inr res, w')" "res_payment res = Some q"
    "find_payment k w' = Some q" "pay_status q = P_CONFIRMED" "pay_amount q = pay_amount p" "customers w' = customers w"
proof -
  let ?o = "auto_opts ''paid from the wallet''"
  let ?q = "confirmed_now ?o w p"
  obtain y w3 where y: "confirmPayment k ?o w = (y, w3)" by (cases "confirmPayment k ?o w")
  note c = confirm_order_run [OF assms(1,3,4), of "''paid from the wallet''", unfolded y, simplified]
  have q: "find_payment k w3 = Some ?q" by (rule find_updated [OF assms(1)]) (simp_all add: c)
  have n: "quiet (order_notice sellerId (ord_id ord))" unfolding order_notice_def by (intro quiet_intros)
  show thesis
  proof (cases y)
    case (Inr q')
    let ?w = "snd (order_notice sellerId (ord_id ord) w3)"
    have ev: "events_only w3 ?w" by (rule quiet_snd [OF n])
    have "finish_wallet ord p sellerId cid w = (Inr (done_result ord ?q ?w), ?w)"
      using c by (simp add: finish_wallet_def bnd_def [of "attempt _"] attempt_run assms(2) y Inr andthen_quiet [OF n])
    moreover have "find_payment k ?w = Some ?q" using q eo_payments [OF ev] by (simp add: find_payment_def)
    ultimately show thesis using that [of "done_result ord ?q ?w" ?w ?q] c eo_customers [OF ev] by (simp add: done_result_def)
  next
    case (Inl e)
    have "finish_wallet ord p sellerId cid w = (Inr (done_result ord ?q w3), w3)"
      by (simp add: finish_wallet_def bnd_def [of "attempt _"] attempt_run assms(2) y Inl return_money_def q)
    then show thesis using that [of "done_result ord ?q w3" w3 ?q] c q by (simp add: done_result_def)
  qed
qed

lemma undo_purchase_run:
  assumes "find_payment k w = Some p"
  obtains y w' q where "andthen (undo_purchase ord k e) (throw er :: (world, order_result) op) w = (Inl y, w')" "find_payment k w' = Some q"
    "pay_status q = P_REJECTED" "customers w' = customers w"
proof -
  let ?f = "\<lambda>r. (r\<lparr>pay_status := P_REJECTED, pay_error := Some (err_message e)\<rparr>)\<lparr>pay_updatedAt := clock w\<rparr>"
  define w1 where "w1 = w\<lparr>payments := upd_rows (\<lambda>r. pay_id r = k) ?f (payments w)\<rparr>"
  let ?g = "\<lambda>r. r\<lparr>ord_status := O_CANCELED, ord_error := Some (err_message e)\<rparr>"
  obtain z w2 where z: "update_order (ord_id ord) ?g w1 = (z, w2)" by (cases "update_order (ord_id ord) ?g w1")
  have "preserves (\<lambda>v. payments v = payments w1 \<and> customers v = customers w1 \<and> customer_wallet_txs v = customer_wallet_txs w1)
      (update_order (ord_id ord) ?g)" by (rule still.order_update)
  then have kept: "payments w2 = payments w1" "customers w2 = customers w1"
    using preservesD [of _ "update_order (ord_id ord) ?g" w1] z by fastforce+
  have "find_payment k w2 = Some (?f p)" by (rule find_updated [OF assms]) (simp_all add: kept w1_def)
  moreover obtain y where "andthen (undo_purchase ord k e) (throw er :: (world, order_result) op) w = (Inl y, w2)"
  proof (cases z)
    case (Inl a)
    then show thesis by (intro that [of a])
        (simp add: undo_purchase_def andthen_def bnd_def update_payment_eq [OF assms] w1_def [symmetric] z)
  next
    case (Inr b)
    then show thesis by (intro that [of er])
        (simp add: undo_purchase_def andthen_def bnd_def update_payment_eq [OF assms] w1_def [symmetric] z throw_def)
  qed
  moreover have "customers w2 = customers w" by (simp add: kept w1_def)
  ultimately show thesis using that [of y w2 "?f p"] by simp
qed

lemma insert_payment_run: "insert_payment p w = (Inr p, w\<lparr>payments := payments w @ [p]\<rparr>)"
  by (simp add: insert_payment_def andthen_def bnd_def)

text \<open>
  C5: Paying an order from the wallet (functional, every case). With enough money the purchase ends in
  a confirmed payment of the order's amount, the customer's credit is exactly that amount lower and
  every other credit is unchanged, whatever the delivery does; without the money, or for an amount
  that is not positive, the call fails, the payment it opened is rejected and no credit changes.
\<close>
theorem wallet_purchase_outcome:
  assumes "payments_wf w" and "find_customer cid w = Some c"
  shows "(if 0 < ord_amount ord \<and> ord_amount ord \<le> cus_credit c
     then \<exists>res q w'. payOrderWithWallet ord p seller cid w = (Inr res, w') \<and> res_payment res = Some q \<and>
       find_payment (next_id w) w' = Some q \<and> pay_status q = P_CONFIRMED \<and> pay_amount q = ord_amount ord \<and>
       (\<forall>k. customer_balance w' k = (if k = cid then Some (cus_credit c - ord_amount ord) else customer_balance w k))
     else \<exists>e q w'. payOrderWithWallet ord p seller cid w = (Inl e, w') \<and>
       find_payment (next_id w) w' = Some q \<and> pay_status q = P_REJECTED \<and> customers w' = customers w)"
proof -
  let ?k = "next_id w" and ?q = "wallet_payment ord seller cid (clock w) (next_id w)"
    and ?m = "wallet_move ord cid W_PURCHASE (pln_name p)"
  define w1 where "w1 = w\<lparr>next_id := Suc ?k, payments := payments w @ [?q]\<rparr>"
  have row: "find_payment ?k w1 = Some ?q"
    using fresh_payment [of w] assms(1) by (simp add: w1_def payments_wf_def find_payment_def find_row_append)
  have c: "find_customer cid w1 = Some c" using assms(2) by (simp add: w1_def find_customer_def)
  have run: "payOrderWithWallet ord p seller cid w = bnd (attempt (debitCustomerWallet ?m))
      (\<lambda>r. case r of Inl e \<Rightarrow> andthen (undo_purchase ord ?k e) (throw e) | Inr u \<Rightarrow> finish_wallet ord ?q seller cid) w1"
    by (simp add: payOrderWithWallet_def bnd_def [of new_id] bnd_def [of now] bnd_def [of "insert_payment _"] new_id_def now_def
        insert_payment_run w1_def)
  show ?thesis
  proof (cases "0 < ord_amount ord \<and> ord_amount ord \<le> cus_credit c")
    case True
    obtain b where b: "debitCustomerWallet ?m w1 = (Inr b, cmoved ?m (- ord_amount ord) (fst b) w1)"
      using True c by (simp add: debitCustomerWallet_eq move_customer_eq)
    let ?w = "cmoved ?m (- ord_amount ord) (fst b) w1"
    have row: "find_payment ?k ?w = Some ?q" using row by (simp add: find_payment_def)
    obtain res r w' where fin: "finish_wallet ord ?q seller cid ?w = (Inr res, w')" "res_payment res = Some r"
        "find_payment ?k w' = Some r" "pay_status r = P_CONFIRMED" "pay_amount r = pay_amount ?q" "customers w' = customers ?w"
      by (rule finish_wallet_run [OF row]) simp_all
    have bal: "customer_balance w' k = (if k = cid then Some (cus_credit c - ord_amount ord) else customer_balance w k)" for k
    proof -
      have "customer_balance w' k = customer_balance ?w k" using fin(6) by (simp add: customer_balance_def find_customer_def)
      also have "\<dots> = (if k = cid then map_option (\<lambda>x. x - ord_amount ord) (customer_balance w1 k) else customer_balance w1 k)"
        by (simp add: customer_balance_cmoved)
      also have "customer_balance w1 k = customer_balance w k" by (simp add: w1_def customer_balance_def find_customer_def)
      finally show ?thesis using assms(2) by (simp add: customer_balance_def)
    qed
    have "payOrderWithWallet ord p seller cid w = (Inr res, w')"
      by (simp add: run bnd_def attempt_run b fin(1))
    with True fin bal show ?thesis by (simp only: if_True simp_thms wallet_payment_sel) blast
  next
    case False
    obtain e where e: "debitCustomerWallet ?m w1 = (Inl e, w1)"
      using False c by (simp add: debitCustomerWallet_eq split: if_splits) force
    obtain y w' q where u: "andthen (undo_purchase ord ?k e) (throw e :: (world, order_result) op) w1 = (Inl y, w')"
        "find_payment ?k w' = Some q" "pay_status q = P_REJECTED" "customers w' = customers w1"
      by (rule undo_purchase_run [OF row])
    have "payOrderWithWallet ord p seller cid w = (Inl y, w')" by (simp add: run bnd_def attempt_run e u(1))
    moreover have "customers w' = customers w" using u(4) by (simp add: w1_def)
    ultimately show ?thesis unfolding if_not_P [OF False] using u(2,3) by blast
  qed
qed

lemma wallet_purchase_outcome_witness:
  "\<exists>res q w'. payOrderWithWallet (demo_sale O_PENDING 30) (blank_plan 1 3 0) 3 7 (demo_sales O_PENDING 30) = (Inr res, w') \<and>
     find_payment 100 w' = Some q \<and> pay_status q = P_CONFIRMED \<and> customer_balance w' 7 = Some 10"
proof -
  have "cus_credit demo_customer = 40" by (simp add: demo_customer_def)
  moreover have "payments_wf (demo_sales O_PENDING 30)" by (simp add: payments_wf_def demo_sales_finds)
  ultimately show ?thesis
    using wallet_purchase_outcome [of "demo_sales O_PENDING 30" 7 demo_customer "demo_sale O_PENDING 30" "blank_plan 1 3 0" 3]
    unfolding demo_sales_finds by simp (elim exE conjE, intro exI conjI, assumption+, simp)
qed

end
