(* ===== verification/CardSafety.thy ===== *)
theory CardSafety
  imports PaymentSafety
begin

text \<open>
  What a matched card deposit confirms: properties of \<open>matchDeposit\<close> in \<open>cardAuto.ts\<close>, on top of the
  payment life cycle.
\<close>

lemma confirm_writes:
  assumes "find_payment i w = Some p" and "may_confirm opts p"
  shows "payments (snd (confirmPayment i opts w)) = upd_rows (\<lambda>r. pay_id r = i) (confirmed_now opts w) (payments w)"
proof -
  obtain w2 where w2: "events_only (w\<lparr>payments := upd_rows (\<lambda>r. pay_id r = i) (confirmed_now opts w) (payments w)\<rparr>) w2"
    and run: "confirmPayment i opts w = andthen (settle_payment p opts) (ret (confirmed_now opts w p)) w2"
    by (rule confirm_run [OF assms])
  have "preserves (\<lambda>v. payments v = payments w2) (andthen (settle_payment p opts) (ret (confirmed_now opts w p)))"
    unfolding settle_payment_def topup_notice_def by (intro preserves_intros)
  then have "payments (snd (confirmPayment i opts w)) = payments w2" unfolding run by (rule preservesD) simp
  then show ?thesis using eo_payments [OF w2] by simp
qed

lemma open_card_may_confirm: "t \<in> set (open_cards adminId s w) \<Longrightarrow> may_confirm (deposit_opts dep) t"
  by (auto simp: open_cards_def may_confirm_def deposit_opts_def)

lemma candidate_matches:
  assumes "t \<in> set (candidates s dep rows)"
  shows "t \<in> set rows \<and> (\<bar>pay_amount t - dep_amount dep\<bar> \<le> max 0 (card_toleranceIrt s) \<or>
     dep_refId dep \<noteq> [] \<and> truthy (pay_receiptRef t) \<and> digitsOnly (opt_default (pay_receiptRef t) []) = digitsOnly (dep_refId dep))"
  using assms by (auto simp: candidates_def by_amount_def by_ref_def Let_def split: if_splits)

text \<open>
  C20: A deposit confirms one open payment it fits (safety). When \<open>matchDeposit\<close> reports a match, the
  amount of the deposit is positive, automatic confirmation is on, and the payment it names was an open
  card payment of that seller, created within the window, whose amount is within the tolerance or whose
  receipt reference has the digits of the deposit's reference. That payment is now confirmed and every
  other payment is as it was.
\<close>
theorem deposit_match_sound:
  assumes "matchDeposit adminId s dep w = (Inr (m, txt), w')" and "mr_status m = D_MATCHED" and "payments_wf w"
  shows "\<exists>t. mr_paymentId m = Some (pay_id t) \<and> find_payment (pay_id t) w = Some t \<and> 0 < dep_amount dep \<and> card_autoConfirm s \<and>
    pay_adminId t = adminId \<and> pay_method t = CARD \<and> pay_status t \<in> {P_PENDING, P_REVIEW} \<and>
    clock w - max 5 (card_windowMin s) * 60000 \<le> pay_createdAt t \<and>
    (\<bar>pay_amount t - dep_amount dep\<bar> \<le> max 0 (card_toleranceIrt s) \<or>
     dep_refId dep \<noteq> [] \<and> truthy (pay_receiptRef t) \<and> digitsOnly (opt_default (pay_receiptRef t) []) = digitsOnly (dep_refId dep)) \<and>
    payments w' = upd_rows (\<lambda>r. pay_id r = pay_id t) (confirmed_now (deposit_opts dep) w) (payments w)"
proof -
  let ?rows = "take 200 (sort_key (\<lambda>p. - pay_createdAt p) (open_cards adminId s w))"
  have pos: "0 < dep_amount dep" using assms(1,2) by (auto simp: matchDeposit_def split: if_splits)
  then obtain t where t: "candidates s dep ?rows = [t]"
    using assms(1,2) by (auto simp: matchDeposit_def bnd_def split: list.splits if_splits)
  let ?run = "confirmPayment (pay_id t) (deposit_opts dep)"
  have "matchDeposit adminId s dep w = (if \<not> card_autoConfirm s
      then ret (\<lparr>mr_status = D_UNMATCHED, mr_paymentId = Some (pay_id t)\<rparr>, ''automatic confirmation is off'')
      else catch_op (andthen ?run (ret (\<lparr>mr_status = D_MATCHED, mr_paymentId = Some (pay_id t)\<rparr>, ''confirmed automatically'')))
        (\<lambda>e. ret (\<lparr>mr_status = D_UNMATCHED, mr_paymentId = Some (pay_id t)\<rparr>, err_message e))) w"
    using pos by (simp add: matchDeposit_def bnd_def t)
  with assms(1,2) have auto: "card_autoConfirm s" "w' = snd (?run w)" "mr_paymentId m = Some (pay_id t)"
    by (cases "?run w"; cases "fst (?run w)"; auto simp: catch_op_def andthen_def bnd_def split: if_splits)+
  have fits: "t \<in> set ?rows" "\<bar>pay_amount t - dep_amount dep\<bar> \<le> max 0 (card_toleranceIrt s) \<or>
     dep_refId dep \<noteq> [] \<and> truthy (pay_receiptRef t) \<and> digitsOnly (opt_default (pay_receiptRef t) []) = digitsOnly (dep_refId dep)"
    using candidate_matches [of t s dep ?rows] by (simp_all add: t)
  then have card: "t \<in> set (open_cards adminId s w)" by (auto dest: in_set_takeD)
  then have old: "t \<in> set (payments w)" by (simp add: open_cards_def)
  have "distinct (map pay_id (payments w))" using assms(3) by (simp add: payments_wf_def)
  from find_row_distinct [OF this old] have found: "find_payment (pay_id t) w = Some t" by (simp add: find_payment_def)
  have row: "payments w' = upd_rows (\<lambda>r. pay_id r = pay_id t) (confirmed_now (deposit_opts dep) w) (payments w)"
    unfolding auto(2) by (rule confirm_writes [OF found open_card_may_confirm [OF card]])
  have terms: "pay_adminId t = adminId" "pay_method t = CARD" "pay_status t \<in> {P_PENDING, P_REVIEW}"
    "clock w - max 5 (card_windowMin s) * 60000 \<le> pay_createdAt t" using card by (simp_all add: open_cards_def)
  show ?thesis by (intro exI [of _ t] conjI) (fact auto(3) found pos auto(1) terms fits(2) row)+
qed

definition demo_dep :: "int \<Rightarrow> deposit" where
  "demo_dep amount = \<lparr>dep_id = 1, dep_at = 0, dep_amount = amount, dep_refId = ''77'', dep_last4 = [], dep_sender = [], dep_raw = [],
     dep_source = DS_SMS, dep_status = D_UNMATCHED, dep_paymentId = None, dep_note = []\<rparr>"

definition demo_open :: payment where
  "demo_open = (demo_payment 51 K_ORDER CARD P_REVIEW 700)\<lparr>pay_receiptRef := Some ''77'', pay_createdAt := 1000\<rparr>"

lemma deposit_match_sound_witness:
  "\<exists>w'. matchDeposit 3 default_card (demo_dep 1) (demo_world\<lparr>payments := [demo_open]\<rparr>) =
       (Inr (\<lparr>mr_status = D_MATCHED, mr_paymentId = Some 51\<rparr>, ''confirmed automatically''), w') \<and>
     map_option pay_status (find_payment 51 w') = Some P_CONFIRMED"
proof -
  let ?w = "demo_world\<lparr>payments := [demo_open]\<rparr>"
  have "fst (matchDeposit 3 default_card (demo_dep 1) ?w) =
      Inr (\<lparr>mr_status = D_MATCHED, mr_paymentId = Some 51\<rparr>, ''confirmed automatically'')" by code_simp
  then obtain w' where run: "matchDeposit 3 default_card (demo_dep 1) ?w =
      (Inr (\<lparr>mr_status = D_MATCHED, mr_paymentId = Some 51\<rparr>, ''confirmed automatically''), w')"
    by (metis prod.collapse)
  have wf: "payments_wf ?w" by (simp add: payments_wf_def demo_open_def demo_payment_def)
  have "pay_id demo_open = 51" by (simp add: demo_open_def demo_payment_def)
  then have "map_option pay_status (find_payment 51 w') = Some P_CONFIRMED"
    using deposit_match_sound [OF run _ wf] by (auto simp: find_payment_def upd_rows_def)
  with run show ?thesis by blast
qed

end
