(* ===== verification/ResellerPlans.thy ===== *)
theory ResellerPlans
  imports Wallet Auth Grouped
begin

text \<open>
  Packages a reseller buys for its own account: \<open>resellerPlans.ts\<close>. The catalogue is a settings group
  (the field \<open>reseller_plan_cfg\<close>, already parsed by its schema); buying takes the price from the
  reseller's wallet and tops up its quota, validity and client slots.
\<close>

section \<open>The catalogue\<close>

text \<open>
  A number that is missing or not finite is \<open>None\<close>, an identifier that is missing or blank is \<open>None\<close>.
\<close>
record reseller_plan_input =
  ri_id :: "uid option"
  ri_name :: string
  ri_description :: "string option"
  ri_gb :: "rat option"
  ri_days :: "rat option"
  ri_clients :: "rat option"
  ri_price :: "rat option"
  ri_isActive :: "bool option"
  ri_sortOrder :: "rat option"
  ri_adminIds :: "uid option list"

definition whole :: "rat option \<Rightarrow> int" where
  "whole n = (case n of None \<Rightarrow> 0 | Some x \<Rightarrow> max 0 (js_round x))"

definition sortPlans :: "reseller_plan list \<Rightarrow> reseller_plan list" where
  "sortPlans ps = sort_key rp_sortOrder (sort_key rp_price ps)"

definition normalizePlan :: "reseller_plan_input \<Rightarrow> (world, reseller_plan) op" where
  "normalizePlan inp =
    (let name = str_trim (ri_name inp) in
     andthen (throw_if (name = []) (app_error ''the plan needs a name''))
     (bnd (case ri_id inp of Some i \<Rightarrow> ret i | None \<Rightarrow> new_id) (\<lambda>k.
      let p = \<lparr>rp_id = k, rp_name = name, rp_description = str_trim (opt_default (ri_description inp) []),
               rp_gb = whole (ri_gb inp), rp_days = whole (ri_days inp), rp_clients = whole (ri_clients inp),
               rp_price = whole (ri_price inp), rp_isActive = opt_default (ri_isActive inp) True,
               rp_sortOrder = js_round (opt_default (ri_sortOrder inp) 0),
               rp_adminIds = uniq (List.map_filter id (ri_adminIds inp))\<rparr> in
      andthen (throw_if (rp_gb p = 0 \<and> rp_days p = 0 \<and> rp_clients p = 0)
         (app_error ''the plan needs traffic, days or clients''))
      (ret p))))"

definition saveResellerPlans :: "bool option \<Rightarrow> reseller_plan_input list option \<Rightarrow> (world, reseller_plan_settings) op" where
  "saveResellerPlans enabled inputs =
    bnd (gets reseller_plan_cfg) (\<lambda>cur.
    bnd (case inputs of
           Some xs \<Rightarrow> fold_op (\<lambda>x acc. bnd (normalizePlan x) (\<lambda>p. ret (acc @ [p]))) xs []
         | None \<Rightarrow> ret (rps_plans cur)) (\<lambda>ps.
    andthen (throw_if (\<not> distinct (map rp_id ps)) (app_error ''the plan id is a duplicate''))
    (let next = \<lparr>rps_enabled = opt_default enabled (rps_enabled cur), rps_plans = sortPlans ps\<rparr> in
     andthen (modify (\<lambda>w. w\<lparr>reseller_plan_cfg := next\<rparr>)) (ret next))))"

definition planOfferedTo :: "reseller_plan \<Rightarrow> admin \<Rightarrow> bool" where
  "planOfferedTo p actor \<longleftrightarrow> rp_adminIds p = [] \<or> adm_id actor \<in> set (rp_adminIds p)"

definition listResellerPlansFor :: "admin \<Rightarrow> world \<Rightarrow> reseller_plan list" where
  "listResellerPlansFor actor w =
    (let s = reseller_plan_cfg w in
     if \<not> rps_enabled s then [] else sortPlans (filter (\<lambda>p. rp_isActive p \<and> planOfferedTo p actor) (rps_plans s)))"

section \<open>Buying\<close>

definition reseller_account :: "uid \<Rightarrow> (world, admin) op" where
  "reseller_account i = bnd (gets (find_admin i)) (\<lambda>me. or_throw me (not_found_error ''account not found''))"

definition planFor :: "admin \<Rightarrow> uid \<Rightarrow> (world, reseller_plan) op" where
  "planFor actor planId =
    bnd (gets reseller_plan_cfg) (\<lambda>s.
    andthen (throw_if (\<not> rps_enabled s \<and> adm_role actor \<noteq> OWNER) (app_error ''reseller plans are not sold''))
    (bnd (or_throw (find_row rp_id planId (rps_plans s)) (not_found_error ''plan not found'')) (\<lambda>p.
    andthen (throw_if (adm_role actor \<noteq> OWNER \<and> \<not> planOfferedTo p actor)
       (forbidden_error ''this plan is not offered to your account''))
    (ret p))))"

text \<open>An account without a limit gains nothing from a package.\<close>
definition planBlockers :: "admin \<Rightarrow> reseller_plan \<Rightarrow> string list" where
  "planBlockers me p =
    (if rp_isActive p then [] else [''this plan is not active'']) @
    (if adm_isActive me then [] else [''your account is not active'']) @
    (if 0 < rp_gb p \<and> adm_trafficQuota me = None then [''your traffic quota is unlimited''] else []) @
    (if 0 < rp_days p \<and> adm_expiresAt me = None then [''your account never expires''] else []) @
    (if 0 < rp_clients p \<and> adm_clientLimit me = None then [''your number of clients is unlimited''] else [])"

record reseller_plan_quote =
  rpq_plan :: reseller_plan
  rpq_price :: int
  rpq_balance :: int
  rpq_after :: int
  rpq_creditLimit :: int
  rpq_affordable :: bool
  rpq_blockers :: "string list"

definition quoteResellerPlan :: "admin \<Rightarrow> uid \<Rightarrow> (world, reseller_plan_quote) op" where
  "quoteResellerPlan actor planId =
    bnd (planFor actor planId) (\<lambda>p. bnd (reseller_account (adm_id actor)) (\<lambda>me. bnd (gets pricing) (\<lambda>pr.
      let price = rp_price p; after = adm_credit me - price;
          affordable = (price \<le> 0 \<or> - creditLimit pr \<le> after);
          blockers = (if adm_role me = OWNER then [''the owner has no limit''] else planBlockers me p) @
            (if adm_role me \<noteq> OWNER \<and> \<not> affordable then [''the balance is too low''] else [])
      in ret \<lparr>rpq_plan = p, rpq_price = price, rpq_balance = adm_credit me, rpq_after = after,
           rpq_creditLimit = creditLimit pr, rpq_affordable = affordable, rpq_blockers = blockers\<rparr>)))"

record reseller_plan_purchase =
  rpp_plan :: reseller_plan
  rpp_charged :: int
  rpp_balance :: int
  rpp_trafficQuota :: "int option"
  rpp_clientLimit :: "int option"
  rpp_expiresAt :: "time option"

definition plan_adjust :: "admin \<Rightarrow> reseller_plan \<Rightarrow> string \<Rightarrow> bool \<Rightarrow> adjust_opts" where
  "plan_adjust actor p note allow = \<lparr>ao_refType = Some (R_other ''resellerPlan''), ao_refId = Some (rp_id p),
     ao_note = Some (note @ rp_name p), ao_byAdminId = Some (adm_id actor), ao_allowNegative = allow\<rparr>"

text \<open>The \<open>data\<close> object of the purchase, computed from the row read before the charge.\<close>
definition top_up_account :: "time \<Rightarrow> reseller_plan \<Rightarrow> admin \<Rightarrow> admin \<Rightarrow> admin" where
  "top_up_account tm p me r = r\<lparr>
     adm_trafficQuota := (case adm_trafficQuota me of Some q \<Rightarrow> if 0 < rp_gb p then Some (q + rp_gb p * GB) else adm_trafficQuota r
                          | None \<Rightarrow> adm_trafficQuota r),
     adm_clientLimit := (case adm_clientLimit me of Some l \<Rightarrow> if 0 < rp_clients p then Some (l + rp_clients p) else adm_clientLimit r
                          | None \<Rightarrow> adm_clientLimit r),
     adm_expiresAt := (case adm_expiresAt me of Some t \<Rightarrow> if 0 < rp_days p then Some (max tm t + rp_days p * DAY_MS) else adm_expiresAt r
                          | None \<Rightarrow> adm_expiresAt r)\<rparr>"

text \<open>The wallet was charged before the update: a failed update puts the money back.\<close>
definition apply_purchase :: "admin \<Rightarrow> reseller_plan \<Rightarrow> admin \<Rightarrow> bool \<Rightarrow> (world, admin) op" where
  "apply_purchase actor p me charged =
    bnd now (\<lambda>tm.
    catch_op (update_admin (adm_id me) (top_up_account tm p me)) (\<lambda>e.
      andthen (do_when charged (swallow (chargeWallet (adm_id me) (adm_role me) (rp_price p) W_REFUND
          (plan_adjust actor p ''failed reseller plan '' True))))
      (throw e)))"

definition record_purchase :: "admin \<Rightarrow> reseller_plan \<Rightarrow> admin \<Rightarrow> admin \<Rightarrow> (world, reseller_plan_purchase) op" where
  "record_purchase actor p me updated =
    andthen (audit (Some (adm_id actor)) ''resellerPlan.buy'' (JId (rp_id p))
       [(''name'', JStr (rp_name p)), (''gb'', JInt (rp_gb p)), (''days'', JInt (rp_days p)), (''clients'', JInt (rp_clients p)),
        (''price'', JInt (rp_price p))] None)
    (bnd now (\<lambda>tm.
    andthen (notify_void ''wallet.reseller_plan''
       [JStr ''resellerPlan.buy'', JId (rp_id p), JId (adm_id me), JInt tm] (JId (rp_id p)) (to_admin (Some (adm_id me))))
    (ret \<lparr>rpp_plan = p, rpp_charged = rp_price p, rpp_balance = adm_credit updated,
          rpp_trafficQuota = adm_trafficQuota updated, rpp_clientLimit = adm_clientLimit updated,
          rpp_expiresAt = adm_expiresAt updated\<rparr>)))"

definition buyResellerPlan :: "admin \<Rightarrow> uid \<Rightarrow> (world, reseller_plan_purchase) op" where
  "buyResellerPlan actor planId =
    andthen (throw_if (adm_role actor = OWNER) (forbidden_error ''the owner needs no reseller plan''))
    (bnd (planFor actor planId) (\<lambda>p. bnd (reseller_account (adm_id actor)) (\<lambda>me.
    andthen (throw_if (planBlockers me p \<noteq> []) (app_error (hd (planBlockers me p))))
    (bnd (if 0 < rp_price p
          then chargeWallet (adm_id me) (adm_role me) (- rp_price p) W_PURCHASE (plan_adjust actor p ''reseller plan '' False)
          else ret None) (\<lambda>tx.
    bnd (apply_purchase actor p me (tx \<noteq> None)) (record_purchase actor p me))))))"

section \<open>What a purchase does\<close>

lemma update_admin_eq:
  "update_admin i f w = (case find_admin i w of
     None \<Rightarrow> (Inl record_not_found, w)
   | Some a \<Rightarrow> (Inr (f a), w\<lparr>admins := upd_rows (\<lambda>r. adm_id r = i) f (admins w)\<rparr>))"
  by (simp add: update_admin_def bnd_def andthen_def split: option.splits)

lemma top_up_account_sel [simp]: "adm_id (top_up_account tm p me r) = adm_id r" "adm_credit (top_up_account tm p me r) = adm_credit r"
  by (simp_all add: top_up_account_def)

text \<open>The account after buying: the price is gone and the package is added to what it had.\<close>
definition bought :: "time \<Rightarrow> reseller_plan \<Rightarrow> admin \<Rightarrow> admin" where
  "bought tm p me = me\<lparr>adm_credit := adm_credit me - max 0 (rp_price p),
     adm_trafficQuota := map_option (\<lambda>q. if 0 < rp_gb p then q + rp_gb p * GB else q) (adm_trafficQuota me),
     adm_clientLimit := map_option (\<lambda>l. if 0 < rp_clients p then l + rp_clients p else l) (adm_clientLimit me),
     adm_expiresAt := map_option (\<lambda>t. if 0 < rp_days p then max tm t + rp_days p * DAY_MS else t) (adm_expiresAt me)\<rparr>"

lemma bought_top_up: "top_up_account tm p me (me\<lparr>adm_credit := adm_credit me - max 0 (rp_price p)\<rparr>) = bought tm p me"
  by (simp add: top_up_account_def bought_def split: option.split)

lemma apply_purchase_run:
  assumes "find_admin (adm_id me) w = Some r"
  shows "apply_purchase actor p me b w = (Inr (top_up_account (clock w) p me r),
    w\<lparr>admins := upd_rows (\<lambda>r. adm_id r = adm_id me) (top_up_account (clock w) p me) (admins w)\<rparr>)"
  by (simp add: apply_purchase_def update_admin_eq assms bnd_def now_def catch_op_def)

text \<open>The price is taken, or nothing happened.\<close>
lemma take_price:
  assumes "find_admin i w = Some me" and "adm_role me = ADMIN"
  obtains (short) e where "0 < rp_price p" "adm_credit me - rp_price p < - creditLimit (pricing w)"
      "chargeWallet i (adm_role me) (- rp_price p) W_PURCHASE (plan_adjust actor p msg False) w = (Inl e, w)"
  | (paid) tx w1 where "rp_price p \<le> 0 \<or> - creditLimit (pricing w) \<le> adm_credit me - rp_price p"
      "(if 0 < rp_price p then chargeWallet i (adm_role me) (- rp_price p) W_PURCHASE (plan_adjust actor p msg False) else ret None) w = (Inr tx, w1)"
      "find_admin i w1 = Some (me\<lparr>adm_credit := adm_credit me - max 0 (rp_price p)\<rparr>)"
      "\<And>j. j \<noteq> i \<Longrightarrow> find_admin j w1 = find_admin j w" "clock w1 = clock w"
proof (cases "0 < rp_price p")
  case True
  let ?o = "plan_adjust actor p msg False"
  note d = chargeWallet_debit [OF assms(1), of "- rp_price p" "adm_role me" W_PURCHASE ?o]
  show ?thesis
  proof (cases "adm_credit me - rp_price p < - creditLimit (pricing w)")
    case low: True
    then show ?thesis using d True assms(2) short by (simp add: plan_adjust_def)
  next
    case False
    then obtain row w1 where c: "chargeWallet i (adm_role me) (- rp_price p) W_PURCHASE ?o w = (Inr (Some row), w1)"
        "events_only (moved i (adm_credit me - rp_price p) row w) w1"
      using d True assms(2) by (auto simp: plan_adjust_def)
    have f: "find_admin j w1 = find_admin j (moved i (adm_credit me - rp_price p) row w)" for j
      using eo_admins [OF c(2)] by (simp add: find_admin_def)
    show ?thesis
    proof (rule paid)
      show "find_admin i w1 = Some (me\<lparr>adm_credit := adm_credit me - max 0 (rp_price p)\<rparr>)"
        using assms(1) True find_admin_id [OF assms(1)] unfolding f
        by (simp add: moved_def set_credit_def find_admin_def find_row_upd)
      show "find_admin j w1 = find_admin j w" if "j \<noteq> i" for j
        using that find_row_key [of adm_id j "admins w"] unfolding f
        by (cases "find_admin j w") (auto simp: moved_def set_credit_def find_admin_def find_row_upd)
      show "clock w1 = clock w" using eo_clock [OF c(2)] by (simp add: moved_def set_credit_def)
    qed (use False c(1) True in simp_all)
  qed
next
  case False
  then show ?thesis using assms(1) by (intro paid [of None w]) simp_all
qed

lemma finish_purchase:
  assumes "events_only w w'" shows "find_admin j w' = find_admin j w"
  using eo_admins [OF assms] by (simp add: find_admin_def)

text \<open>The plan the caller would get, when the catalogue offers it.\<close>
lemma planFor_cases:
  assumes "adm_role actor = ADMIN"
  obtains (none) e where "planFor actor i w = (Inl e, w)"
  | (offered) p where "planFor actor i w = (Inr p, w)" "p \<in> set (rps_plans (reseller_plan_cfg w))" "rp_id p = i"
      "rps_enabled (reseller_plan_cfg w)" "planOfferedTo p actor"
proof (cases "find_row rp_id i (rps_plans (reseller_plan_cfg w))")
  case None
  then show ?thesis using none by (cases "rps_enabled (reseller_plan_cfg w)") (simp_all add: planFor_def bnd_def andthen_def assms)
next
  case (Some p)
  then have "p \<in> set (rps_plans (reseller_plan_cfg w))" and "rp_id p = i"
    by (simp_all add: find_row_def find_Some_iff) auto
  then show ?thesis using none offered Some
    by (cases "rps_enabled (reseller_plan_cfg w)"; cases "planOfferedTo p actor")
      (auto simp: planFor_def bnd_def andthen_def assms)
qed

text \<open>
  C18: A reseller gets the package it pays for, or nothing happens (equivalence of the quote with the
  purchase, and the effect of a purchase). When the quote of a reseller's plan shows no blocker, buying
  it succeeds: the plan is in the enabled catalogue, active and offered to the reseller, the price
  leaves the wallet without passing the credit limit, gigabytes, days (counted from now when the
  account has expired) and slots are added, and no other account changes. In every other case buying
  fails and the whole state is as it was.
\<close>
theorem reseller_plan_bought:
  assumes "find_admin (adm_id actor) w = Some me" and "adm_role actor = ADMIN" and "adm_role me = ADMIN"
  shows "if \<exists>q. quoteResellerPlan actor planId w = (Inr q, w) \<and> rpq_blockers q = []
    then \<exists>p r w'. buyResellerPlan actor planId w = (Inr r, w') \<and> p \<in> set (rps_plans (reseller_plan_cfg w)) \<and>
      rp_id p = planId \<and> rps_enabled (reseller_plan_cfg w) \<and> rp_isActive p \<and> planOfferedTo p actor \<and>
      (0 < rp_price p \<longrightarrow> - creditLimit (pricing w) \<le> adm_credit (bought (clock w) p me)) \<and>
      (\<forall>j. find_admin j w' = (if j = adm_id actor then Some (bought (clock w) p me) else find_admin j w))
    else \<exists>e. buyResellerPlan actor planId w = (Inl e, w)"
using assms(2)
proof (cases rule: planFor_cases [where i = planId and w = w])
  case (none e)
  then show ?thesis by (simp add: quoteResellerPlan_def buyResellerPlan_def bnd_def andthen_def assms(2))
next
  case (offered p)
  let ?i = "adm_id actor"
  have id: "adm_id me = ?i" by (rule find_admin_id [OF assms(1)])
  have acc: "reseller_account ?i w = (Inr me, w)" by (simp add: reseller_account_def bnd_def assms(1))
  let ?rich = "rp_price p \<le> 0 \<or> - creditLimit (pricing w) \<le> adm_credit me - rp_price p"
  have quote: "(\<exists>q. quoteResellerPlan actor planId w = (Inr q, w) \<and> rpq_blockers q = []) \<longleftrightarrow> planBlockers me p = [] \<and> ?rich"
    by (simp add: quoteResellerPlan_def bnd_def offered(1) acc assms(3) Let_def)
  show ?thesis
  proof (cases "planBlockers me p = []")
    case False
    then show ?thesis unfolding quote by (simp add: buyResellerPlan_def bnd_def andthen_def assms(2) offered(1) acc)
  next
    case free: True
    then have active: "rp_isActive p" by (simp add: planBlockers_def split: if_splits)
    define n where "n = ''reseller plan ''"
    show ?thesis using assms(1,3)
    proof (cases rule: take_price [where p = p and actor = actor and msg = n])
      case (short e)
      then show ?thesis unfolding quote n_def
        by (simp add: buyResellerPlan_def bnd_def andthen_def assms(2) offered(1) acc free id)
    next
      case (paid tx w1)
      let ?me = "me\<lparr>adm_credit := adm_credit me - max 0 (rp_price p)\<rparr>"
      let ?w = "w1\<lparr>admins := upd_rows (\<lambda>r. adm_id r = ?i) (top_up_account (clock w) p me) (admins w1)\<rparr>"
      have app: "apply_purchase actor p me b w1 = (Inr (bought (clock w) p me), ?w)" for b
        using apply_purchase_run [of me w1 ?me actor p b] paid(3) by (simp add: id paid(5) bought_top_up)
      have q: "quiet (record_purchase actor p me u)" for u unfolding record_purchase_def now_def by (intro quiet_intros)
      define charge where "charge = (if 0 < rp_price p
          then chargeWallet ?i (adm_role me) (- rp_price p) W_PURCHASE (plan_adjust actor p n False) else ret None)"
      have "buyResellerPlan actor planId w = bnd charge (\<lambda>tx. bnd (apply_purchase actor p me (tx \<noteq> None)) (record_purchase actor p me)) w"
        by (simp add: buyResellerPlan_def bnd_def [of "planFor _ _"] bnd_def [of "reseller_account _"] assms(2) offered(1) acc free id
            andthen_throw_if n_def charge_def)
      also have "\<dots> = record_purchase actor p me (bought (clock w) p me) ?w"
        using paid(2) unfolding charge_def [symmetric] by (simp add: bnd_def app)
      finally have run: "buyResellerPlan actor planId w = record_purchase actor p me (bought (clock w) p me) ?w" .
      obtain r w' where r: "record_purchase actor p me (bought (clock w) p me) ?w = (Inr r, w')"
        using quiet_never_throws [OF q] by (rule never_throwsE)
      have "find_admin j w' = find_admin j ?w" for j
        using quiet_snd [OF q [of "bought (clock w) p me"], of ?w] by (intro finish_purchase) (simp add: r)
      moreover have "find_admin j ?w = (if j = ?i then Some (bought (clock w) p me) else find_admin j w)" for j
        using paid(3,4) find_row_key [of adm_id j "admins w1"] bought_top_up [of "clock w" p me]
        by (cases "find_admin j w1") (auto simp: find_admin_def find_row_upd)
      moreover have "- creditLimit (pricing w) \<le> adm_credit (bought (clock w) p me)" if "0 < rp_price p"
        using that paid(1) by (simp add: bought_def)
      ultimately show ?thesis using free paid(1) active offered(2-) unfolding quote run r by simp blast
    qed
  qed
qed

definition demo_package :: "int \<Rightarrow> reseller_plan" where
  "demo_package price = \<lparr>rp_id = 9, rp_name = ''month'', rp_description = [], rp_gb = 5, rp_days = 30, rp_clients = 0,
     rp_price = price, rp_isActive = True, rp_sortOrder = 0, rp_adminIds = [3]\<rparr>"

definition demo_reseller :: admin where
  "demo_reseller = (demo_admin 3 ADMIN 500)\<lparr>adm_trafficQuota := Some 0, adm_expiresAt := Some 10\<rparr>"

definition demo_packages :: "int \<Rightarrow> world" where
  "demo_packages price = demo_world\<lparr>admins := [demo_reseller],
     reseller_plan_cfg := \<lparr>rps_enabled = True, rps_plans = [demo_package price]\<rparr>\<rparr>"

lemma reseller_plan_bought_witness:
  "(\<exists>r w'. buyResellerPlan demo_reseller 9 (demo_packages 600) = (Inr r, w') \<and>
      find_admin 3 w' = Some (bought (clock (demo_packages 600)) (demo_package 600) demo_reseller)) \<and>
   (\<exists>e. buyResellerPlan demo_reseller 9 (demo_packages 601) = (Inl e, demo_packages 601))"
proof -
  have sel: "adm_id demo_reseller = 3" "adm_role demo_reseller = ADMIN" by (simp_all add: demo_reseller_def)
  have me: "find_admin (adm_id demo_reseller) (demo_packages c) = Some demo_reseller" for c
    by (simp add: find_admin_def demo_packages_def sel)
  have cfg: "rps_plans (reseller_plan_cfg (demo_packages c)) = [demo_package c]" for c by (simp add: demo_packages_def)
  have quote: "(\<exists>q. quoteResellerPlan demo_reseller 9 (demo_packages c) = (Inr q, demo_packages c) \<and> rpq_blockers q = []) \<longleftrightarrow> c \<le> 600" for c
    by (simp add: quoteResellerPlan_def planFor_def reseller_account_def planBlockers_def planOfferedTo_def bnd_def andthen_def
        demo_packages_def demo_package_def demo_reseller_def find_admin_def find_row_def Let_def)
  show ?thesis
    using reseller_plan_bought [OF me sel(2) sel(2), of 9 600] reseller_plan_bought [OF me sel(2) sel(2), of 9 601]
    unfolding quote cfg by (auto simp: sel)
qed

end
