(* ===== verification/AutoRenew.thy ===== *)
theory AutoRenew
  imports ClientSafety
begin

text \<open>
  Automatic renewal: \<open>autoRenew.ts\<close>. Every client may have a rule in the Setting table (the field
  \<open>auto_renew_rows\<close>, in the order the rows were created); the worker resets the traffic of the clients
  whose rule is due and, when asked, pushes their expiry forward.
\<close>

section \<open>Rules\<close>

text \<open>\<open>startAt\<close> is \<open>None\<close> when it is missing or not a date.\<close>
record renew_input =
  ni_everyDays :: rat
  ni_maxCycles :: "rat option"
  ni_extendExpiry :: "bool option"
  ni_startAt :: "time option"

record renew_tick =
  nt_reset :: nat
  nt_finished :: nat
  nt_failed :: nat

definition renew_days :: "rat \<Rightarrow> int" where
  "renew_days n = min 365 (max 1 \<lfloor>if n = 0 then 1 else n\<rfloor>)"

definition renew_count :: "rat \<Rightarrow> int" where
  "renew_count n = (let v = \<lfloor>n\<rfloor> in if 0 < v then v else 0)"

text \<open>A stored value without a positive cycle length is no rule.\<close>
definition parse_rule :: "auto_renew_rule \<Rightarrow> auto_renew_rule option" where
  "parse_rule r = (if ar_everyDays r \<le> 0 then None
     else Some (r\<lparr>ar_everyDays := min 365 (ar_everyDays r), ar_maxCycles := renew_count (of_int (ar_maxCycles r)),
                  ar_cycles := renew_count (of_int (ar_cycles r))\<rparr>))"

definition write_rule :: "uid \<Rightarrow> auto_renew_rule \<Rightarrow> (world, auto_renew_rule) op" where
  "write_rule clientId rule =
    andthen (modify (\<lambda>w. w\<lparr>auto_renew_rows := put_row clientId rule (auto_renew_rows w)\<rparr>)) (ret rule)"

definition forget_rule :: "uid \<Rightarrow> (world, unit) op" where
  "forget_rule clientId = modify (\<lambda>w. w\<lparr>auto_renew_rows := filter (\<lambda>(i, r). i \<noteq> clientId) (auto_renew_rows w)\<rparr>)"

definition getAutoRenew :: "uid \<Rightarrow> world \<Rightarrow> auto_renew_rule option" where
  "getAutoRenew clientId w = (case map_of (auto_renew_rows w) clientId of None \<Rightarrow> None | Some r \<Rightarrow> parse_rule r)"

definition autoRenews :: "uid list \<Rightarrow> world \<Rightarrow> (uid \<times> auto_renew_rule) list" where
  "autoRenews clientIds w = List.map_filter (\<lambda>(i, r). map_option (Pair i) (parse_rule r))
     (filter (\<lambda>(i, r). i \<in> set clientIds) (auto_renew_rows w))"

definition setAutoRenew :: "admin \<Rightarrow> uid \<Rightarrow> renew_input \<Rightarrow> (world, auto_renew_rule) op" where
  "setAutoRenew actor clientId inp =
    bnd (getClientForActor actor clientId) (\<lambda>(c, _).
    bnd (gets (\<lambda>w. (getAutoRenew (cli_id c) w, clock w))) (\<lambda>(prev, tm).
    let everyDays = renew_days (ni_everyDays inp);
        nextAt = opt_default (ni_startAt inp) (tm + everyDays * DAY_MS) in
    andthen (throw_if (nextAt < tm - DAY_MS) (app_error ''the start cannot be in the past''))
    (let rule = \<lparr>ar_everyDays = everyDays,
           ar_maxCycles = renew_count (opt_default (ni_maxCycles inp) (case prev of Some p \<Rightarrow> of_int (ar_maxCycles p) | None \<Rightarrow> 0)),
           ar_cycles = (case prev of Some p \<Rightarrow> ar_cycles p | None \<Rightarrow> 0),
           ar_extendExpiry = opt_default (ni_extendExpiry inp) (case prev of Some p \<Rightarrow> ar_extendExpiry p | None \<Rightarrow> True),
           ar_nextAt = nextAt, ar_lastAt = (case prev of Some p \<Rightarrow> ar_lastAt p | None \<Rightarrow> None)\<rparr> in
     andthen (write_rule (cli_id c) rule)
     (andthen (audit (Some (adm_id actor)) ''client.auto_renew.set'' (JId (cli_id c))
        [(''everyDays'', JInt everyDays), (''maxCycles'', JInt (ar_maxCycles rule)),
         (''extendExpiry'', JBool (ar_extendExpiry rule)), (''nextAt'', JInt nextAt)] None)
     (ret rule)))))"

definition clearAutoRenew :: "admin \<Rightarrow> uid \<Rightarrow> (world, unit) op" where
  "clearAutoRenew actor clientId =
    bnd (getClientForActor actor clientId) (\<lambda>(c, _).
    andthen (forget_rule (cli_id c))
    (audit (Some (adm_id actor)) ''client.auto_renew.clear'' (JId (cli_id c)) [] None))"

section \<open>The worker\<close>

text \<open>Pushing the expiry one cycle forward; the result counts a panel that refused.\<close>
definition extend_one :: "admin \<Rightarrow> client \<Rightarrow> auto_renew_rule \<Rightarrow> time \<Rightarrow> (world, nat) op" where
  "extend_one a c rule tm =
    (let base = (case cli_expiresAt c of Some t \<Rightarrow> if tm < t then t else tm | None \<Rightarrow> tm) in
     bnd (gets (find_client (cli_id c))) (\<lambda>found. bnd (or_throw found record_not_found) (\<lambda>_.
     andthen (upd_client (cli_id c) (\<lambda>r. r\<lparr>cli_expiresAt := Some (base + ar_everyDays rule * DAY_MS)\<rparr>))
     (bnd (attempt (bnd (getClientForActor a (cli_id c)) pushClient)) (\<lambda>r.
      ret (case r of Inl e \<Rightarrow> 1 | Inr errs \<Rightarrow> 0))))))"

text \<open>One due rule.\<close>
definition renew_client :: "admin \<Rightarrow> client \<Rightarrow> auto_renew_rule \<Rightarrow> time \<Rightarrow> renew_tick \<Rightarrow> (world, renew_tick) op" where
  "renew_client a c rule tm out =
    bnd (attempt (resetClientTraffic a (cli_id c))) (\<lambda>r.
    let failed = (case r of Inl e \<Rightarrow> 1 | Inr errs \<Rightarrow> if errs = [] then 0 else 1) in
    bnd (if ar_extendExpiry rule then extend_one a c rule tm else ret 0) (\<lambda>refused.
    let cycles = ar_cycles rule + 1;
        next = out\<lparr>nt_reset := Suc (nt_reset out), nt_failed := nt_failed out + failed + refused\<rparr> in
    andthen (audit (Some (adm_id a)) ''client.auto_renew'' (JId (cli_id c))
       [(''cycle'', JInt cycles), (''everyDays'', JInt (ar_everyDays rule)), (''extendExpiry'', JBool (ar_extendExpiry rule))] None)
    (if 0 < ar_maxCycles rule \<and> ar_maxCycles rule \<le> cycles then
       andthen (forget_rule (cli_id c)) (ret (next\<lparr>nt_finished := Suc (nt_finished next)\<rparr>))
     else andthen (write_rule (cli_id c) (rule\<lparr>ar_cycles := cycles, ar_lastAt := Some tm,
              ar_nextAt := tm + ar_everyDays rule * DAY_MS\<rparr>))
       (ret next))))"

definition renew_one :: "time \<Rightarrow> uid \<times> auto_renew_rule \<Rightarrow> renew_tick \<Rightarrow> (world, renew_tick) op" where
  "renew_one tm row out =
    bnd (gets (find_client (fst row))) (\<lambda>found.
    case (parse_rule (snd row), found) of
      (Some rule, Some c) \<Rightarrow>
        if tm < ar_nextAt rule then ret out
        else bnd (gets (find_admin (cli_adminId c))) (\<lambda>owner.
          case owner of
            None \<Rightarrow> andthen (forget_rule (fst row)) (ret out)
          | Some a \<Rightarrow> renew_client a c rule tm out)
    | _ \<Rightarrow> andthen (forget_rule (fst row)) (ret out))"

definition runAutoRenew :: "int \<Rightarrow> (world, renew_tick) op" where
  "runAutoRenew limit =
    bnd (gets (\<lambda>w. (take (nat (max 1 limit)) (auto_renew_rows w), clock w))) (\<lambda>(rows, tm).
    fold_op (renew_one tm) rows \<lparr>nt_reset = 0, nt_finished = 0, nt_failed = 0\<rparr>)"

section \<open>The worker catches up\<close>

text \<open>A rule that a pass at this time has nothing to do for.\<close>
definition waits :: "time \<Rightarrow> auto_renew_rule \<Rightarrow> bool" where
  "waits tm r \<longleftrightarrow> (case parse_rule r of None \<Rightarrow> False | Some p \<Rightarrow> tm < ar_nextAt p)"

lemma parse_rule_sel: "parse_rule r = Some p \<Longrightarrow> ar_nextAt p = ar_nextAt r \<and> 0 < ar_everyDays p \<and> 0 \<le> ar_cycles p \<and> 0 \<le> ar_maxCycles p"
  by (auto simp: parse_rule_def renew_count_def Let_def split: if_splits)

lemma renewed_waits: "0 < ar_everyDays p \<Longrightarrow> waits tm (p\<lparr>ar_cycles := n, ar_lastAt := l, ar_nextAt := tm + ar_everyDays p * DAY_MS\<rparr>)"
  by (simp add: waits_def parse_rule_def DAY_MS_def)

lemma set_put_row: "set (put_row k v rows) \<subseteq> insert (k, v) {x \<in> set rows. fst x \<noteq> k} \<or> \<not> distinct (map fst rows)"
  by (induction k v rows rule: put_row.induct) (auto simp: image_iff)

lemma distinct_put_row: "distinct (map fst rows) \<Longrightarrow> distinct (map fst (put_row k v rows))"
proof (induction k v rows rule: put_row.induct)
  case (2 k v j u rows)
  have "fst ` set (put_row k v rows) \<subseteq> insert k (fst ` set rows)"
    by (induction k v rows rule: put_row.induct) auto
  with 2 show ?case by (auto simp: image_iff)
qed simp

lemma find_client_sizes: "sizes w' = sizes w \<Longrightarrow> find_client i w = None \<longleftrightarrow> find_client i w' = None"
proof -
  assume "sizes w' = sizes w"
  then have "map fst (sizes w') = map fst (sizes w)" by simp
  then have "map cli_id (clients w') = map cli_id (clients w)" by (simp add: sizes_def comp_def)
  then have "cli_id ` set (clients w') = cli_id ` set (clients w)" by (metis list.set_map)
  then show ?thesis by (auto simp: find_client_def find_row_None image_iff)
qed

text \<open>Neither the reset nor the new expiry touches a rule, an account or the size of a client.\<close>
lemma cf_extend_one: "preserves (client_frame v) (extend_one a c rule tm)"
  unfolding extend_one_def by (intro preserves_intros cf_upd_client) simp

lemma extend_one_returns:
  assumes "find_client (cli_id c) w \<noteq> None"
  obtains n w' where "extend_one a c rule tm w = (Inr n, w')" "client_frame w w'"
proof -
  obtain x where x: "find_client (cli_id c) w = Some x" using assms by blast
  let ?t = "(case cli_expiresAt c of Some t \<Rightarrow> if tm < t then t else tm | None \<Rightarrow> tm) + ar_everyDays rule * DAY_MS"
  let ?m = "andthen (upd_client (cli_id c) (\<lambda>r. r\<lparr>cli_expiresAt := Some ?t\<rparr>))
      (bnd (attempt (bnd (getClientForActor a (cli_id c)) pushClient)) (\<lambda>r. ret (case r of Inl e \<Rightarrow> (1::nat) | Inr errs \<Rightarrow> 0)))"
  have "never_throws ?m" unfolding upd_client_def andthen_def by (intro never_throws_bnd never_throws_basic never_throws_attempt)
  then obtain n w' where "?m w = (Inr n, w')" by (rule never_throwsE)
  then have "extend_one a c rule tm w = (Inr n, w')"
    by (simp add: extend_one_def bnd_def [of "gets _"] x Let_def)
  then show thesis using that frame_run [OF _ cf_extend_one] by blast
qed

lemma rule_then:
  "andthen (forget_rule i) k w = k (w\<lparr>auto_renew_rows := filter (\<lambda>(j, r). j \<noteq> i) (auto_renew_rows w)\<rparr>)"
  "andthen (write_rule i r) k w = k (w\<lparr>auto_renew_rows := put_row i r (auto_renew_rows w)\<rparr>)"
  by (simp_all add: forget_rule_def write_rule_def andthen_def bnd_def)

text \<open>What a pass keeps of the accounts, the wallets and the clients.\<close>
definition renew_frame :: "world \<Rightarrow> world \<Rightarrow> bool" where
  "renew_frame w w' \<longleftrightarrow> admins w' = admins w \<and> wallet_txs w' = wallet_txs w \<and> sizes w' = sizes w \<and> clock w' = clock w"

lemma renew_client_returns:
  assumes "find_client (cli_id c) w \<noteq> None" and "0 < ar_everyDays rule"
  obtains x w' where "renew_client a c rule tm out w = (Inr x, w')" "renew_frame w w'"
    "auto_renew_rows w' = filter (\<lambda>(i, r). i \<noteq> cli_id c) (auto_renew_rows w) \<or>
     (\<exists>r. auto_renew_rows w' = put_row (cli_id c) r (auto_renew_rows w) \<and> waits tm r)"
proof -
  obtain r w1 where m1: "attempt (resetClientTraffic a (cli_id c)) w = (Inr r, w1)"
    using never_throws_attempt by (rule never_throwsE)
  have "preserves (client_frame w) (attempt (resetClientTraffic a (cli_id c)))" by (intro preserves_intros)
  from preservesD [OF this client_frame_refl] have f1: "client_frame w w1" by (simp add: m1)
  let ?m2 = "if ar_extendExpiry rule then extend_one a c rule tm else ret 0"
  have there: "find_client (cli_id c) w1 \<noteq> None"
    using assms(1) f1 find_client_sizes [of w1 w "cli_id c"] unfolding client_frame_def by metis
  obtain n w2 where m2: "?m2 w1 = (Inr n, w2)" and f2: "client_frame w1 w2"
  proof (cases "ar_extendExpiry rule")
    case True
    obtain n w2 where "extend_one a c rule tm w1 = (Inr n, w2)" "client_frame w1 w2"
      by (rule extend_one_returns [OF there])
    with True that show thesis by simp
  qed (use that in simp)
  let ?cycles = "ar_cycles rule + 1"
  define au where "au = audit (Some (adm_id a)) ''client.auto_renew'' (JId (cli_id c))
       [(''cycle'', JInt ?cycles), (''everyDays'', JInt (ar_everyDays rule)), (''extendExpiry'', JBool (ar_extendExpiry rule))] None"
  have au: "quiet au" unfolding au_def by (rule quiet_audit)
  let ?w3 = "snd (au w2)"
  have f3: "client_frame w2 ?w3" by (rule events_client_frame, rule quiet_snd, rule au)
  have f: "client_frame w ?w3" by (rule client_frame_trans [OF f1 client_frame_trans [OF f2 f3]])
  then have rows: "auto_renew_rows ?w3 = auto_renew_rows w" by (simp add: client_frame_def store_frame_def)
  have keep: "renew_frame w (?w3\<lparr>auto_renew_rows := rs\<rparr>)" for rs
    using f by (simp add: renew_frame_def client_frame_def store_frame_def sizes_def)
  let ?last = "0 < ar_maxCycles rule \<and> ar_maxCycles rule \<le> ?cycles"
  let ?r = "rule\<lparr>ar_cycles := ?cycles, ar_lastAt := Some tm, ar_nextAt := tm + ar_everyDays rule * DAY_MS\<rparr>"
  let ?rs = "if ?last then filter (\<lambda>(i, r). i \<noteq> cli_id c) (auto_renew_rows w) else put_row (cli_id c) ?r (auto_renew_rows w)"
  define step where "step = (\<lambda>t :: renew_tick. andthen au
      (if ?last then andthen (forget_rule (cli_id c)) (ret (t\<lparr>nt_finished := Suc (nt_finished t)\<rparr>))
       else andthen (write_rule (cli_id c) ?r) (ret t)))"
  define nxt where "nxt = out\<lparr>nt_reset := Suc (nt_reset out), nt_failed := nt_failed out +
      (case r of Inl e \<Rightarrow> 1 | Inr errs \<Rightarrow> if errs = [] then 0 else 1) + n\<rparr>"
  have "renew_client a c rule tm out w = step nxt w2"
    by (simp only: renew_client_def bnd_def [of "attempt _"] bnd_def [of "if _ then _ else _"] m1 m2 prod.case sum.case Let_def
        step_def nxt_def au_def)
  moreover obtain x where "step nxt w2 = (Inr x, ?w3\<lparr>auto_renew_rows := ?rs\<rparr>)"
    by (cases ?last) (simp_all add: step_def andthen_quiet [OF au] rule_then rows)
  ultimately have run: "renew_client a c rule tm out w = (Inr x, ?w3\<lparr>auto_renew_rows := ?rs\<rparr>)" by simp
  have "?rs = filter (\<lambda>(i, r). i \<noteq> cli_id c) (auto_renew_rows w) \<or>
      (\<exists>r. ?rs = put_row (cli_id c) r (auto_renew_rows w) \<and> waits tm r)"
    using renewed_waits [OF assms(2)] by (cases ?last) (simp only: if_True simp_thms, simp only: if_False, blast)
  then show thesis by (intro that [OF run keep]) simp
qed

text \<open>The state of a pass: the rules of the clients in \<open>todo\<close> are those it read, the others wait.\<close>
definition caught_up :: "world \<Rightarrow> (uid \<times> auto_renew_rule) list \<Rightarrow> uid set \<Rightarrow> world \<Rightarrow> bool" where
  "caught_up w snap todo v \<longleftrightarrow> renew_frame w v \<and> distinct (map fst (auto_renew_rows v)) \<and>
     (\<forall>x \<in> set (auto_renew_rows v). fst x \<in> todo \<and> x \<in> set snap \<or> waits (clock w) (snd x))"

lemma caught_up_forget:
  assumes "caught_up w snap (insert k todo) v" and "renew_frame v v'"
    and "auto_renew_rows v' = filter (\<lambda>(i, r). i \<noteq> k) (auto_renew_rows v)"
  shows "caught_up w snap todo v'"
  using assms by (auto simp: caught_up_def renew_frame_def distinct_map_filter)

lemma caught_up_put:
  assumes "caught_up w snap (insert k todo) v" and "renew_frame v v'"
    and "auto_renew_rows v' = put_row k r (auto_renew_rows v)" and "waits (clock w) r"
  shows "caught_up w snap todo v'"
proof -
  have d: "distinct (map fst (auto_renew_rows v))" using assms(1) by (simp add: caught_up_def)
  have "set (auto_renew_rows v') \<subseteq> insert (k, r) {x \<in> set (auto_renew_rows v). fst x \<noteq> k}"
    using set_put_row [of k r "auto_renew_rows v"] d by (simp add: assms(3))
  then show ?thesis
    using assms distinct_put_row [OF d, of k r] by (auto simp: caught_up_def renew_frame_def)
qed

lemma renew_one_step:
  assumes "caught_up w snap (insert (fst x) todo) v" and "x \<in> set snap" and "distinct (map fst snap)"
  obtains out' v' where "renew_one (clock w) x out v = (Inr out', v')" "caught_up w snap todo v'"
proof -
  let ?k = "fst x" and ?tm = "clock w"
  note found = that
  have forget: thesis if "renew_one ?tm x out v = andthen (forget_rule ?k) (ret out) v"
  proof (rule found)
    show "renew_one ?tm x out v = (Inr out, v\<lparr>auto_renew_rows := filter (\<lambda>(j, r). j \<noteq> ?k) (auto_renew_rows v)\<rparr>)"
      by (simp add: that rule_then)
    show "caught_up w snap todo (v\<lparr>auto_renew_rows := filter (\<lambda>(j, r). j \<noteq> ?k) (auto_renew_rows v)\<rparr>)"
      by (rule caught_up_forget [OF assms(1)]) (simp_all add: renew_frame_def sizes_def)
  qed
  show thesis
  proof (cases "parse_rule (snd x)")
    case None
    then show thesis by (intro forget) (simp add: renew_one_def bnd_def)
  next
    case (Some rule)
    note rule = this
    show thesis
    proof (cases "find_client ?k v")
      case None
      then show thesis using rule by (intro forget) (simp add: renew_one_def bnd_def)
    next
      case (Some c)
      note c = this
      show thesis
      proof (cases "?tm < ar_nextAt rule")
        case True
        have "waits ?tm (snd x)" using True by (simp add: waits_def rule)
        moreover have "y = x" if "y \<in> set snap" and "fst y = fst x" for y
          using that assms(2,3) by (meson eq_key_imp_eq_value distinct_map inj_onD)
        ultimately have "caught_up w snap todo v" using assms(1) unfolding caught_up_def by blast
        with True rule c that show thesis by (simp add: renew_one_def bnd_def)
      next
        case False
        show thesis
        proof (cases "find_admin (cli_adminId c) v")
          case None
          then show thesis using rule c False by (intro forget) (simp add: renew_one_def bnd_def)
        next
          case (Some a)
          have id: "cli_id c = ?k" using c unfolding find_client_def by (rule find_row_key)
          have "find_client (cli_id c) v \<noteq> None" using c by (simp add: id)
          then obtain y v' where run: "renew_client a c rule ?tm out v = (Inr y, v')" "renew_frame v v'"
            "auto_renew_rows v' = filter (\<lambda>(i, r). i \<noteq> cli_id c) (auto_renew_rows v) \<or>
             (\<exists>r. auto_renew_rows v' = put_row (cli_id c) r (auto_renew_rows v) \<and> waits ?tm r)"
            using parse_rule_sel [OF rule] by (elim renew_client_returns [of c v rule a ?tm out]) simp_all
          have "caught_up w snap todo v'"
            using run(2,3) caught_up_forget [OF assms(1)] caught_up_put [OF assms(1)] unfolding id by blast
          with run(1) show thesis using that rule c False Some by (simp add: renew_one_def bnd_def)
        qed
      qed
    qed
  qed
qed

lemma catch_up:
  assumes "caught_up w snap (fst ` set xs) v" and "set xs \<subseteq> set snap" and "distinct (map fst snap)" and "distinct (map fst xs)"
  shows "\<exists>out' v'. fold_op (renew_one (clock w)) xs out v = (Inr out', v') \<and> caught_up w snap {} v'"
  using assms
proof (induction xs arbitrary: v out)
  case Nil
  then show ?case by simp
next
  case (Cons x xs)
  then have "caught_up w snap (insert (fst x) (fst ` set xs)) v" and "x \<in> set snap" by simp_all
  then obtain out1 v1 where one: "renew_one (clock w) x out v = (Inr out1, v1)" "caught_up w snap (fst ` set xs) v1"
    using Cons.prems(3) by (rule renew_one_step)
  have "\<exists>out' v'. fold_op (renew_one (clock w)) xs out1 v1 = (Inr out', v') \<and> caught_up w snap {} v'"
    by (rule Cons.IH [OF one(2)]) (use Cons.prems in simp_all)
  then obtain out2 v2 where "fold_op (renew_one (clock w)) xs out1 v1 = (Inr out2, v2)" "caught_up w snap {} v2"
    by blast
  with one(1) show ?case by (simp add: bnd_def)
qed

text \<open>
  C27: The renewal worker returns, leaves no rule due and charges nobody (liveness and safety). A pass
  that reads every rule never throws, whatever the panels answer; afterwards every stored rule is due
  later than the time of the pass, so that a dead panel cannot make the job run hot; and no account,
  no ledger row and no client's owner or size has changed. In particular the extended expiry is free,
  while adding days with \<open>updateClient\<close> is charged to the reseller.
\<close>
theorem auto_renew_catches_up:
  assumes "distinct (map fst (auto_renew_rows w))" and "int (length (auto_renew_rows w)) \<le> limit"
  shows "\<exists>out w'. runAutoRenew limit w = (Inr out, w') \<and>
    list_all (\<lambda>(i, r). waits (clock w) r) (auto_renew_rows w') \<and>
    admins w' = admins w \<and> wallet_txs w' = wallet_txs w \<and> sizes w' = sizes w"
proof -
  let ?rows = "auto_renew_rows w" and ?start = "\<lparr>nt_reset = 0, nt_finished = 0, nt_failed = 0\<rparr>"
  have "caught_up w ?rows (fst ` set ?rows) w" using assms(1) by (simp add: caught_up_def renew_frame_def)
  then obtain out w' where run: "fold_op (renew_one (clock w)) ?rows ?start w = (Inr out, w')" "caught_up w ?rows {} w'"
    using catch_up [of w ?rows ?rows w ?start] assms(1) by blast
  have "take (nat (max 1 limit)) ?rows = ?rows" using assms(2) by (intro take_all) linarith
  with run(1) have "runAutoRenew limit w = (Inr out, w')" by (simp add: runAutoRenew_def bnd_def)
  moreover have "list_all (\<lambda>(i, r). waits (clock w) r) (auto_renew_rows w')"
    using run(2) by (auto simp: caught_up_def list_all_iff)
  ultimately show ?thesis using run(2) by (simp add: caught_up_def renew_frame_def)
qed

definition demo_rule :: auto_renew_rule where
  "demo_rule = \<lparr>ar_everyDays = 30, ar_maxCycles = 0, ar_cycles = 0, ar_extendExpiry = True, ar_nextAt = 0, ar_lastAt = None\<rparr>"

definition demo_renewals :: world where
  "demo_renewals = demo_world\<lparr>clients := [demo_client 7], auto_renew_rows := [(7, demo_rule), (8, demo_rule)]\<rparr>"

lemma auto_renew_catches_up_witness:
  "\<exists>out w'. runAutoRenew 200 demo_renewals = (Inr out, w') \<and> list_all (\<lambda>(i, r). waits (clock demo_renewals) r) (auto_renew_rows w')"
  using auto_renew_catches_up [of demo_renewals 200] by (simp add: demo_renewals_def) blast

end
