(* ===== verification/ClientBulk.thy ===== *)
theory ClientBulk
  imports Refunds
begin

text \<open>
  Bulk client tools: \<open>clientBulk.ts\<close>. One request selects at most 60 clients of the actor, by their
  identifiers or by a filter, and runs the one-by-one operation of \<open>clients/crud.ts\<close> or \<open>refunds.ts\<close>
  on each; a client that fails is reported and the rest goes on. The last section is the counters
  strip of the clients page.
\<close>

definition ONLINE_MS :: int where
  "ONLINE_MS = 300000"

definition STALE_DAYS :: int where
  "STALE_DAYS = 30"

definition CLIENT_BULK_MAX :: nat where
  "CLIENT_BULK_MAX = 60"

datatype bulk_action = B_ENABLE | B_DISABLE | B_ADD_DAYS | B_ADD_GB | B_RESET_TRAFFIC | B_REPUSH | B_DELETE

record bulk_filter =
  bf_q :: "string option"
  bf_status :: "client_status option"
  bf_broken :: bool
  bf_orphan :: bool
  bf_expiredBeforeDays :: "int option"

record bulk_input =
  bi_action :: bulk_action
  bi_ids :: "uid list option"
  bi_filter :: "bulk_filter option"
  bi_days :: "int option"
  bi_gb :: "int option"

record bulk_failure =
  bx_id :: uid
  bx_name :: string
  bx_message :: string

record bulk_result =
  bk_action :: bulk_action
  bk_requested :: nat
  bk_done :: nat
  bk_skipped :: nat
  bk_failed :: nat
  bk_refund :: int
  bk_warnings :: "string list"
  bk_errors :: "bulk_failure list"

section \<open>Selecting\<close>

definition bulkWhere :: "admin \<Rightarrow> bulk_filter \<Rightarrow> world \<Rightarrow> client \<Rightarrow> bool" where
  "bulkWhere actor f w c \<longleftrightarrow> in_scope actor c \<and>
     (case bf_status f of Some s \<Rightarrow> cli_status c = s | None \<Rightarrow> True) \<and>
     str_or (bf_q f) True (\<lambda>q. opt_contains True q (Some (cli_name c)) \<or> opt_contains True q (cli_tag c) \<or> opt_contains True q (cli_note c)) \<and>
     (if bf_orphan f then links_of w (cli_id c) = []
      else if bf_broken f then list_ex (\<lambda>l. cs_lastError l \<noteq> None) (links_of w (cli_id c))
      else True) \<and>
     (case bf_expiredBeforeDays f of
        Some d \<Rightarrow> (case cli_expiresAt c of Some t \<Rightarrow> t < clock w - d * DAY_MS | None \<Rightarrow> False)
      | None \<Rightarrow> True)"

text \<open>The \<open>id\<close> and the \<open>name\<close> of the clients.\<close>
definition resolveBulkClients :: "admin \<Rightarrow> bulk_input \<Rightarrow> world \<Rightarrow> (uid \<times> string) list" where
  "resolveBulkClients actor inp w =
    map (\<lambda>c. (cli_id c, cli_name c)) (take CLIENT_BULK_MAX
      (if opt_default (bi_ids inp) [] \<noteq> [] then
         filter (\<lambda>c. cli_id c \<in> set (opt_default (bi_ids inp) []) \<and> in_scope actor c) (clients w)
       else (case bi_filter inp of
           None \<Rightarrow> []
         | Some f \<Rightarrow> sort_key cli_createdAt (filter (bulkWhere actor f w) (clients w)))))"

section \<open>Running\<close>

text \<open>What one client contributes: \<open>None\<close> when it is left alone, else the panel errors and the refund.\<close>
type_synonym bulk_outcome = "(string list \<times> int) option"

definition with_errors :: "(world, client_full \<times> string list) op \<Rightarrow> (world, bulk_outcome) op" where
  "with_errors m = bnd m (\<lambda>(full, errors). ret (Some (errors, 0)))"

text \<open>An unlimited client keeps its quota, and a limited one never shrinks below one gigabyte.\<close>
definition bulk_add_gb :: "admin \<Rightarrow> uid \<Rightarrow> int \<Rightarrow> (world, bulk_outcome) op" where
  "bulk_add_gb actor i gb =
    bnd (getClientForActor actor i) (\<lambda>(c, _).
    if cli_trafficLimit c \<le> 0 then ret None
    else let trafficGB = max 1 (bytesToGb (cli_trafficLimit c) + of_int gb) in
      andthen (assertClientKind actor LIMITED None trafficGB (Some (cli_id c)))
      (with_errors (updateClient actor i (no_update\<lparr>ui_trafficGB := Some trafficGB\<rparr>))))"

definition bulk_do :: "admin \<Rightarrow> bulk_action \<Rightarrow> int \<Rightarrow> int \<Rightarrow> uid \<Rightarrow> (world, bulk_outcome) op" where
  "bulk_do actor act days gb i =
    (case act of
       B_ENABLE \<Rightarrow> with_errors (updateClient actor i (no_update\<lparr>ui_enabled := Some True\<rparr>))
     | B_DISABLE \<Rightarrow> with_errors (updateClient actor i (no_update\<lparr>ui_enabled := Some False\<rparr>))
     | B_ADD_DAYS \<Rightarrow> with_errors (updateClient actor i (no_update\<lparr>ui_addDays := Some (of_int days)\<rparr>))
     | B_ADD_GB \<Rightarrow> bulk_add_gb actor i gb
     | B_RESET_TRAFFIC \<Rightarrow> bnd (resetClientTraffic actor i) (\<lambda>errors. ret (Some (errors, 0)))
     | B_REPUSH \<Rightarrow> bnd (bnd (getClientForActor actor i) pushClient) (\<lambda>errors. ret (Some (errors, 0)))
     | B_DELETE \<Rightarrow> bnd (deleteClientWithRefund actor i) (\<lambda>d. ret (Some (dr_errors d, dr_refund d))))"

definition bulk_one :: "admin \<Rightarrow> bulk_action \<Rightarrow> int \<Rightarrow> int \<Rightarrow> uid \<times> string \<Rightarrow> bulk_result \<Rightarrow> (world, bulk_result) op" where
  "bulk_one actor act days gb t res =
    bnd (attempt (bulk_do actor act days gb (fst t))) (\<lambda>r.
    ret (case r of
        Inl e \<Rightarrow> res\<lparr>bk_failed := Suc (bk_failed res),
          bk_errors := bk_errors res @ [\<lparr>bx_id = fst t, bx_name = snd t, bx_message = take 200 (err_message e)\<rparr>]\<rparr>
      | Inr None \<Rightarrow> res\<lparr>bk_skipped := Suc (bk_skipped res)\<rparr>
      | Inr (Some (errors, refund)) \<Rightarrow> res\<lparr>bk_done := Suc (bk_done res), bk_refund := bk_refund res + refund,
          bk_warnings := bk_warnings res @ map (\<lambda>m. snd t @ '': '' @ m) (take 2 errors)\<rparr>))"

definition action_text :: "bulk_action \<Rightarrow> string" where
  "action_text a = (case a of B_ENABLE \<Rightarrow> ''enable'' | B_DISABLE \<Rightarrow> ''disable'' | B_ADD_DAYS \<Rightarrow> ''addDays'' | B_ADD_GB \<Rightarrow> ''addGb''
     | B_RESET_TRAFFIC \<Rightarrow> ''resetTraffic'' | B_REPUSH \<Rightarrow> ''repush'' | B_DELETE \<Rightarrow> ''delete'')"

definition runClientBulk :: "admin \<Rightarrow> bulk_input \<Rightarrow> (world, bulk_result) op" where
  "runClientBulk actor inp =
    bnd (gets (resolveBulkClients actor inp)) (\<lambda>targets.
    let act = bi_action inp; days = opt_default (bi_days inp) 0; gb = opt_default (bi_gb inp) 0;
        start = \<lparr>bk_action = act, bk_requested = length targets, bk_done = 0, bk_skipped = 0, bk_failed = 0, bk_refund = 0,
                 bk_warnings = [], bk_errors = []\<rparr> in
    if targets = [] then ret start
    else if act = B_ADD_DAYS \<and> days = 0 \<or> act = B_ADD_GB \<and> gb = 0 then ret (start\<lparr>bk_skipped := length targets\<rparr>)
    else bnd (fold_op (bulk_one actor act days gb) targets start) (\<lambda>res.
      let final = res\<lparr>bk_warnings := take 12 (bk_warnings res)\<rparr> in
      andthen (audit (Some (adm_id actor)) (''client.bulk.'' @ action_text act) JNull
         [(''requested'', JInt (int (bk_requested final))), (''done'', JInt (int (bk_done final))),
          (''skipped'', JInt (int (bk_skipped final))), (''failed'', JInt (int (bk_failed final))),
          (''days'', if act = B_ADD_DAYS then JInt days else JNull), (''gb'', if act = B_ADD_GB then JInt gb else JNull),
          (''refund'', JStr (show_int (bk_refund final)))] None)
      (ret final)))"

section \<open>The counters\<close>

record client_overview =
  co_total :: nat
  co_active :: nat
  co_expired :: nat
  co_limited :: nat
  co_disabled :: nat
  co_expiring :: nat
  co_online :: nat
  co_broken :: nat
  co_orphan :: nat
  co_stale :: nat
  co_staleDays :: int

definition time_test :: "(time \<Rightarrow> bool) \<Rightarrow> time option \<Rightarrow> bool" where
  "time_test p t = (case t of None \<Rightarrow> False | Some x \<Rightarrow> p x)"

definition clientOverview :: "admin \<Rightarrow> world \<Rightarrow> client_overview" where
  "clientOverview actor w =
    (let tm = clock w; count = (\<lambda>p. length (filter (\<lambda>c. in_scope actor c \<and> p c) (clients w))) in
     \<lparr>co_total = count (\<lambda>_. True),
      co_active = count (\<lambda>c. cli_status c = C_ACTIVE),
      co_expired = count (\<lambda>c. cli_status c = C_EXPIRED),
      co_limited = count (\<lambda>c. cli_status c = C_LIMITED),
      co_disabled = count (\<lambda>c. cli_status c = C_DISABLED),
      co_expiring = count (\<lambda>c. cli_status c = C_ACTIVE \<and> time_test (\<lambda>t. tm < t \<and> t \<le> tm + 7 * DAY_MS) (cli_expiresAt c)),
      co_online = count (\<lambda>c. time_test (\<lambda>t. tm - ONLINE_MS \<le> t) (cli_lastOnlineAt c)),
      co_broken = count (\<lambda>c. list_ex (\<lambda>l. cs_lastError l \<noteq> None) (links_of w (cli_id c))),
      co_orphan = count (\<lambda>c. links_of w (cli_id c) = []),
      co_stale = count (\<lambda>c. time_test (\<lambda>t. t < tm - STALE_DAYS * DAY_MS) (cli_expiresAt c)),
      co_staleDays = STALE_DAYS\<rparr>)"

section \<open>Operations on one client\<close>

text \<open>
  An invariant that only looks at the Client table. Whatever talks to panels, moves money, writes links
  or events keeps it.
\<close>
locale clients_only =
  fixes I :: "world \<Rightarrow> bool"
  assumes keep_clients: "I w \<Longrightarrow> clients w' = clients w \<Longrightarrow> I w'"
begin

lemma stable [preserves_intros]: "events_stable I"
  unfolding events_stable_def using keep_clients eo_clients by blast

lemma keep_modify: "(\<And>w. clients (f w) = clients w) \<Longrightarrow> preserves I (modify f)"
  by (rule preserves_modify) (rule keep_clients)

lemma draw [preserves_intros]: "preserves I new_id"
  by (rule preservesI) (auto simp: new_id_def elim: keep_clients)

lemma draws [preserves_intros]: "preserves I (randomToken n)" "preserves I randomUUID" "preserves I now"
  unfolding randomToken_def randomUUID_def now_def by (intro preserves_intros)+

lemma panel_call [preserves_intros]: "preserves I (panel_do c)"
  by (rule preserves_panel_do) (erule keep_clients, simp)

lemma links [preserves_intros]: "preserves I (upd_links ids f)" "preserves I (clearPendingStart j)"
  unfolding upd_links_def clearPendingStart_def by (rule keep_modify, simp)+

lemma add_tries: "preserves I (add_attempts n k g c b ov hw e lst)"
  by (induction n arbitrary: k e lst) (auto simp: Let_def intro!: preserves_intros)

lemma update_tries: "preserves I (update_attempts n k s g c p f ov hw lst)"
  by (induction n arbitrary: k lst) (auto simp: Let_def intro!: preserves_intros)

lemma on_panel [preserves_intros]: "preserves I (addToPanel g c b ov hw)" "preserves I (updateOnPanel s lg c p f ov hw)"
  unfolding addToPanel_def updateOnPanel_def by (rule add_tries, rule update_tries)

lemma push [preserves_intros]: "preserves I (pushClient full)"
  unfolding pushClient_def push_group_def by (intro preserves_intros)

lemma panel_groups [preserves_intros]: "preserves I (reset_group srvs g errs)" "preserves I (delete_group srvs c g errs)"
  unfolding reset_group_def delete_group_def by (intro preserves_intros)+

lemma guards [preserves_intros]:
  "preserves I (getClientForActor a j)" "preserves I (assertClientKind a k s g e)" "preserves I (resize_checks a c inp)"
  "preserves I (renewal_cost a c inp)" "preserves I (quoteRefund j)"
  unfolding quoteRefund_def by (intro preserves_reads reads_intros)+

lemma charge [preserves_intros]: "preserves I (chargeWallet j role amount kind opts)"
proof (rule preservesI)
  fix w assume w: "I w"
  show "I (snd (chargeWallet j role amount kind opts w))"
  proof (cases rule: chargeWallet_cases [of j role amount kind opts w])
    case (charged a row w')
    have "clients w' = clients w" using eo_clients [OF charged(4)] by (simp add: moved_def set_credit_def)
    with w charged(3) show ?thesis by (auto elim: keep_clients)
  qed (simp_all add: w)
qed

lemma money [preserves_intros]: "preserves I (charge_renewal a j cost)" "preserves I (pay_refund a j errs q)"
  unfolding charge_renewal_def pay_refund_def by (intro preserves_intros)+

end

text \<open>An invariant that the row of one client may not break, as long as it keeps its identity and owner.\<close>
locale own_client = clients_only I for I :: "world \<Rightarrow> bool" +
  fixes i :: uid
  assumes keep_row: "I w \<Longrightarrow> (\<And>c. cli_id (f c) = cli_id c \<and> cli_adminId (f c) = cli_adminId c) \<Longrightarrow>
      I (w\<lparr>clients := upd_rows (\<lambda>c. cli_id c = i) f (clients w)\<rparr>)"
    and keep_drop: "I w \<Longrightarrow> I (w\<lparr>clients := del_rows (\<lambda>c. cli_id c = i) (clients w)\<rparr>)"
begin

lemma row: "(\<And>c. cli_id (f c) = cli_id c \<and> cli_adminId (f c) = cli_adminId c) \<Longrightarrow> preserves I (upd_client i f)"
  unfolding upd_client_def by (rule preserves_modify) (rule keep_row)

lemma recompute [preserves_intros]: "preserves I (recomputeClient i)"
  unfolding recomputeClient_def by (intro preserves_intros row) simp

lemma own: "(\<And>c links. cli_id c = i \<Longrightarrow> preserves I (f (c, links))) \<Longrightarrow> preserves I (bnd (getClientForActor a i) f)"
proof (rule preservesI)
  fix w assume f: "\<And>c links. cli_id c = i \<Longrightarrow> preserves I (f (c, links))" and w: "I w"
  have r: "snd (getClientForActor a i w) = w" using reads_getClientForActor by (simp add: reads_def)
  show "I (snd (bnd (getClientForActor a i) f w))"
  proof (cases "fst (getClientForActor a i w)")
    case (Inl e)
    then show ?thesis using r w by (cases "getClientForActor a i w") (simp add: bnd_def)
  next
    case (Inr full)
    then obtain c links where c: "getClientForActor a i w = (Inr (c, links), w)"
      using r by (cases "getClientForActor a i w"; cases full) simp
    then have "find_client i w = Some c"
      by (auto simp: getClientForActor_def bnd_def split: option.splits if_splits)
    then have "cli_id c = i" unfolding find_client_def by (rule find_row_key)
    then show ?thesis using preservesD [OF f w] c by (simp add: bnd_def)
  qed
qed

lemma update [preserves_intros]: "preserves I (updateClient a i inp)"
  unfolding updateClient_def finish_update_def
  by (rule own) (simp, intro preserves_intros row, simp add: apply_update_def)

lemma reset [preserves_intros]: "preserves I (resetClientTraffic a i)"
  unfolding resetClientTraffic_def by (rule own) (simp, intro preserves_intros)

lemma drop [preserves_intros]: "preserves I (drop_client i)"
  unfolding drop_client_def by (rule preserves_modify) (erule keep_clients [OF keep_drop], simp)

lemma delete [preserves_intros]: "preserves I (deleteClient a i)" "preserves I (deleteClientWithRefund a i)"
proof -
  show d: "preserves I (deleteClient a i)" unfolding deleteClient_def by (rule own) (simp, intro preserves_intros)
  show "preserves I (deleteClientWithRefund a i)" unfolding deleteClientWithRefund_def by (intro preserves_intros d)
qed

lemma bulk: "preserves I (bulk_do a act days gb i)"
  unfolding bulk_do_def with_errors_def bulk_add_gb_def
  by (cases act; simp only: bulk_action.case Let_def; intro preserves_intros)

end

section \<open>A bulk request\<close>

interpretation table: clients_only "\<lambda>v. clients v = cs" for cs
  by unfold_locales simp

text \<open>The clients outside the selection \<open>T\<close> are \<open>F\<close>, and those inside belong to the actor.\<close>
definition selection_kept :: "admin \<Rightarrow> uid set \<Rightarrow> client list \<Rightarrow> world \<Rightarrow> bool" where
  "selection_kept actor T F v \<longleftrightarrow> filter (\<lambda>c. cli_id c \<notin> T) (clients v) = F \<and>
     (\<forall>c \<in> set (clients v). cli_id c \<in> T \<longrightarrow> in_scope actor c)"

lemma filter_upd_other: "(\<And>c. P c \<Longrightarrow> \<not> Q c) \<Longrightarrow> (\<And>c. Q (f c) = Q c) \<Longrightarrow> filter Q (upd_rows P f xs) = filter Q xs"
  by (induction xs) (auto simp: upd_rows_def)

lemma selection_upd:
  assumes "selection_kept actor T F v" and "i \<in> T" and "\<And>c. cli_id (f c) = cli_id c \<and> cli_adminId (f c) = cli_adminId c"
  shows "selection_kept actor T F (v\<lparr>clients := upd_rows (\<lambda>c. cli_id c = i) f (clients v)\<rparr>)"
  using assms filter_upd_other [of "\<lambda>c. cli_id c = i" "\<lambda>c. cli_id c \<notin> T" f "clients v"]
  by (auto simp: selection_kept_def upd_rows_def in_scope_def)

lemma selection_del:
  assumes "selection_kept actor T F v" and "i \<in> T"
  shows "selection_kept actor T F (v\<lparr>clients := del_rows (\<lambda>c. cli_id c = i) (clients v)\<rparr>)"
  using assms by (auto simp: selection_kept_def del_rows_def intro: filter_cong)

interpretation picked: own_client "\<lambda>v. i \<in> T \<and> selection_kept actor T F v" i for actor T F i
  by unfold_locales (auto simp: selection_upd selection_del, simp_all add: selection_kept_def)

lemma bulk_one_run:
  assumes "selection_kept actor T F v" and "fst t \<in> T"
  obtains res' v' where "bulk_one actor act days gb t res v = (Inr res', v')" "selection_kept actor T F v'"
    "bk_requested res' = bk_requested res"
    "bk_done res' + bk_skipped res' + bk_failed res' = Suc (bk_done res + bk_skipped res + bk_failed res)"
    "length (bk_errors res') + bk_failed res = length (bk_errors res) + bk_failed res'"
proof -
  obtain r v' where r: "attempt (bulk_do actor act days gb (fst t)) v = (Inr r, v')"
    using never_throws_attempt by (rule never_throwsE)
  have "preserves (\<lambda>v. fst t \<in> T \<and> selection_kept actor T F v) (attempt (bulk_do actor act days gb (fst t)))"
    by (rule preserves_attempt) (rule picked.bulk)
  from preservesD [OF this, of v] have "selection_kept actor T F v'" using assms r by simp
  then show thesis using that r by (simp add: bulk_one_def bnd_def split: sum.splits option.splits prod.splits)
qed

lemma bulk_fold:
  assumes "selection_kept actor T F v" and "fst ` set ts \<subseteq> T"
  shows "\<exists>res' v'. fold_op (bulk_one actor act days gb) ts res v = (Inr res', v') \<and> selection_kept actor T F v' \<and>
    bk_requested res' = bk_requested res \<and>
    bk_done res' + bk_skipped res' + bk_failed res' = bk_done res + bk_skipped res + bk_failed res + length ts \<and>
    length (bk_errors res') + bk_failed res = length (bk_errors res) + bk_failed res'"
  using assms
proof (induction ts arbitrary: v res)
  case Nil
  then show ?case by simp
next
  case (Cons t ts)
  have "fst t \<in> T" and "fst ` set ts \<subseteq> T" using Cons.prems by simp_all
  obtain res1 v1 where one: "bulk_one actor act days gb t res v = (Inr res1, v1)" "selection_kept actor T F v1"
    "bk_requested res1 = bk_requested res"
    "bk_done res1 + bk_skipped res1 + bk_failed res1 = Suc (bk_done res + bk_skipped res + bk_failed res)"
    "length (bk_errors res1) + bk_failed res = length (bk_errors res) + bk_failed res1"
    by (rule bulk_one_run [OF Cons.prems(1) \<open>fst t \<in> T\<close>])
  show ?case using Cons.IH [OF one(2) \<open>fst ` set ts \<subseteq> T\<close>, of res1] one by (auto simp: bnd_def)
qed

lemma selected_in_scope: "t \<in> set (resolveBulkClients actor inp w) \<Longrightarrow> \<exists>c \<in> set (clients w). cli_id c = fst t \<and> in_scope actor c"
  by (auto simp: resolveBulkClients_def bulkWhere_def dest!: in_set_takeD split: if_splits option.splits)

lemma selection_start:
  assumes "distinct (map cli_id (clients w))" and "T = fst ` set (resolveBulkClients actor inp w)"
  shows "selection_kept actor T (filter (\<lambda>c. cli_id c \<notin> T) (clients w)) w"
proof -
  have "in_scope actor c" if c: "c \<in> set (clients w)" "cli_id c \<in> T" for c
  proof -
    obtain d where "d \<in> set (clients w)" "cli_id d = cli_id c" "in_scope actor d"
      using c(2) selected_in_scope unfolding assms(2) by fastforce
    then show ?thesis using c(1) assms(1) by (metis distinct_map inj_onD)
  qed
  then show ?thesis by (simp add: selection_kept_def)
qed

lemma selection_foreign:
  assumes "selection_kept actor T F v"
  shows "filter (\<lambda>c. \<not> in_scope actor c) (clients v) = filter (\<lambda>c. \<not> in_scope actor c) F"
proof -
  have "filter (\<lambda>c. \<not> in_scope actor c) (clients v) = filter (\<lambda>c. \<not> in_scope actor c) (filter (\<lambda>c. cli_id c \<notin> T) (clients v))"
    unfolding filter_filter by (rule filter_cong) (use assms in \<open>auto simp: selection_kept_def\<close>)
  also have "\<dots> = filter (\<lambda>c. \<not> in_scope actor c) F" using assms by (simp only: selection_kept_def)
  finally show ?thesis .
qed

text \<open>
  C17: A bulk request stays within its selection (safety, every action). It always returns, on at most
  sixty clients, and accounts for each of them: done, skipped or failed, with one message per failure.
  The rows of clients outside the selection, and of every client of another owner, are exactly as they
  were, whatever action runs and however many of its steps fail.
\<close>
theorem bulk_within_selection:
  assumes "distinct (map cli_id (clients w))" and "ts = resolveBulkClients actor inp w"
  shows "\<exists>res w'. runClientBulk actor inp w = (Inr res, w') \<and> bk_requested res = length ts \<and> length ts \<le> CLIENT_BULK_MAX \<and>
    bk_done res + bk_skipped res + bk_failed res = bk_requested res \<and> length (bk_errors res) = bk_failed res \<and>
    filter (\<lambda>c. cli_id c \<notin> fst ` set ts) (clients w') = filter (\<lambda>c. cli_id c \<notin> fst ` set ts) (clients w) \<and>
    filter (\<lambda>c. \<not> in_scope actor c) (clients w') = filter (\<lambda>c. \<not> in_scope actor c) (clients w)"
proof -
  let ?T = "fst ` set ts" and ?act = "bi_action inp" and ?days = "opt_default (bi_days inp) 0" and ?gb = "opt_default (bi_gb inp) 0"
  let ?F = "filter (\<lambda>c. cli_id c \<notin> ?T) (clients w)"
  let ?start = "\<lparr>bk_action = ?act, bk_requested = length ts, bk_done = 0, bk_skipped = 0, bk_failed = 0, bk_refund = 0,
                 bk_warnings = [], bk_errors = []\<rparr>"
  have few: "length ts \<le> CLIENT_BULK_MAX" by (simp add: assms(2) resolveBulkClients_def)
  have start: "selection_kept actor ?T ?F w" by (rule selection_start [OF assms(1)]) (simp add: assms(2))
  show ?thesis
  proof (cases "ts = [] \<or> ?act = B_ADD_DAYS \<and> ?days = 0 \<or> ?act = B_ADD_GB \<and> ?gb = 0")
    case True
    then show ?thesis using few by (auto simp: runClientBulk_def bnd_def assms(2) [symmetric] Let_def)
  next
    case False
    obtain res v where run: "fold_op (bulk_one actor ?act ?days ?gb) ts ?start w = (Inr res, v)" "selection_kept actor ?T ?F v"
      "bk_requested res = length ts" "bk_done res + bk_skipped res + bk_failed res = length ts" "length (bk_errors res) = bk_failed res"
      using bulk_fold [OF start subset_refl, of ?act ?days ?gb ?start] by auto
    let ?final = "res\<lparr>bk_warnings := take 12 (bk_warnings res)\<rparr>"
    have "\<exists>w'. runClientBulk actor inp w = (Inr ?final, w') \<and> events_only v w'"
      using False by (auto simp: runClientBulk_def bnd_def assms(2) [symmetric] Let_def run(1) andthen_quiet [OF quiet_audit]
          intro: quiet_snd [OF quiet_audit])
    then obtain w' where w': "runClientBulk actor inp w = (Inr ?final, w')" "events_only v w'" by blast
    have c: "clients w' = clients v" using eo_clients [OF w'(2)] .
    have "filter (\<lambda>c. \<not> in_scope actor c) (clients v) = filter (\<lambda>c. \<not> in_scope actor c) (clients w)"
      by (simp only: selection_foreign [OF run(2)] selection_foreign [OF start])
    moreover have "filter (\<lambda>c. cli_id c \<notin> ?T) (clients v) = ?F" using run(2) by (simp add: selection_kept_def)
    ultimately show ?thesis using w'(1) few run(3-5)
      by (intro exI [of _ ?final] exI [of _ w']) (simp add: c)
  qed
qed

lemma bulk_within_selection_witness:
  "\<exists>res w'. runClientBulk (demo_admin 3 ADMIN 500)
       \<lparr>bi_action = B_DISABLE, bi_ids = Some [7, 8], bi_filter = None, bi_days = None, bi_gb = None\<rparr>
       (demo_world\<lparr>clients := [demo_client 7, (demo_client 8)\<lparr>cli_adminId := 4\<rparr>]\<rparr>) = (Inr res, w') \<and>
     bk_requested res = 1 \<and> filter (\<lambda>c. cli_id c = 8) (clients w') = [(demo_client 8)\<lparr>cli_adminId := 4\<rparr>]"
proof -
  let ?a = "demo_admin 3 ADMIN 500" and ?w = "demo_world\<lparr>clients := [demo_client 7, (demo_client 8)\<lparr>cli_adminId := 4\<rparr>]\<rparr>"
  let ?i = "\<lparr>bi_action = B_DISABLE, bi_ids = Some [7, 8], bi_filter = None, bi_days = None, bi_gb = None\<rparr>"
  have ts: "[(7, ''ali'')] = resolveBulkClients ?a ?i ?w"
    by (simp add: resolveBulkClients_def CLIENT_BULK_MAX_def in_scope_def) (simp add: demo_client_def)
  obtain res w' where r: "runClientBulk ?a ?i ?w = (Inr res, w')" "bk_requested res = 1"
    "filter (\<lambda>c. cli_id c \<noteq> 7) (clients w') = [(demo_client 8)\<lparr>cli_adminId := 4\<rparr>]"
    using bulk_within_selection [of ?w, OF _ ts] by auto
  have "filter (\<lambda>c. cli_id c = 8) (clients w') = filter (\<lambda>c. cli_id c = 8) (filter (\<lambda>c. cli_id c \<noteq> 7) (clients w'))"
    unfolding filter_filter by (rule filter_cong) auto
  with r show ?thesis by simp
qed

end
