(* ===== verification/Licensing.thy ===== *)
theory Licensing
  imports Gateways Auth
begin

text \<open>
  Premium licensing: \<open>licensing.ts\<close> (codes, their binding to an install, the vendor's mint store, the
  activation of an install) and the parts of \<open>licenseVendor.ts\<close> that decide what is unlocked.
  The settings groups \<open>licensing\<close>, \<open>instance_license\<close> and \<open>instance_id\<close> and the environment variables
  are fields of \<open>license_state\<close>, beside the state of the panel.
\<close>

section \<open>The catalogue of features\<close>

definition LICENSE_FEATURES :: "string list" where
  "LICENSE_FEATURES = [''store'', ''branding'', ''domain'', ''salesBot'', ''monitoring'', ''backupCenter'', ''wallet'', ''discounts'',
     ''paymentPlugin'', ''stars'', ''clientTemplates'', ''sharedPanel'']"

datatype license_plan = LP_FREE | LP_PLUS | LP_PRO

definition planFeatures :: "license_plan \<Rightarrow> string list" where
  "planFeatures p = (case p of LP_FREE \<Rightarrow> []
     | LP_PLUS \<Rightarrow> [''store'', ''branding'', ''salesBot'', ''wallet'', ''discounts'']
     | LP_PRO \<Rightarrow> LICENSE_FEATURES)"

definition isFeature :: "string \<Rightarrow> bool" where
  "isFeature v \<longleftrightarrow> v \<in> set LICENSE_FEATURES"

definition plan_of_text :: "string \<Rightarrow> license_plan option" where
  "plan_of_text v = (if v = ''FREE'' then Some LP_FREE else if v = ''PLUS'' then Some LP_PLUS
     else if v = ''PRO'' then Some LP_PRO else None)"

section \<open>Codes\<close>

definition CODE_LENGTH :: nat where
  "CODE_LENGTH = 12"

definition CODE_CHARS :: string where
  "CODE_CHARS = ''ABCDEFGHJKLMNPQRSTUVWXYZ23456789''"

definition normalizeCode :: "string \<Rightarrow> string" where
  "normalizeCode raw =
    (let s = filter (\<lambda>c. is_upper c \<or> is_digit c) (to_upper raw) in
     if length s = CODE_LENGTH + 3 \<and> take 3 s = ''SRP'' then drop 3 s else s)"

definition isCodeShaped :: "string \<Rightarrow> bool" where
  "isCodeShaped raw \<longleftrightarrow> length (normalizeCode raw) = CODE_LENGTH"

section \<open>The stored shapes\<close>

text \<open>
  A stored date: empty, the ISO text of a time, or a text that is no date. Only the answer of a
  license server can bring the last; comparing it with the clock is always false.
\<close>
datatype date_text = NoDate | DateAt time | BadDate

definition date_of_text :: "services \<Rightarrow> string \<Rightarrow> date_text" where
  "date_of_text x s = (if s = [] then NoDate else (case ext_parse_date x s of Some t \<Rightarrow> DateAt t | None \<Rightarrow> BadDate))"

definition past :: "time \<Rightarrow> date_text \<Rightarrow> bool" where
  "past tm d = (case d of DateAt t \<Rightarrow> t < tm | _ \<Rightarrow> False)"

record license =
  lic_code :: string
  lic_plan :: license_plan
  lic_features :: "string list"
  lic_days :: int
  lic_note :: string
  lic_createdAt :: time
  lic_instanceId :: string
  lic_instanceUrl :: string
  lic_activatedAt :: date_text
  lic_expiresAt :: date_text
  lic_revoked :: bool

datatype license_source = SRC_REMOTE | SRC_LOCAL | SRC_ENV

record instance_license =
  il_code :: string
  il_plan :: license_plan
  il_features :: "string list"
  il_activatedAt :: date_text
  il_expiresAt :: date_text
  il_lastCheck :: date_text
  il_source :: license_source
  il_note :: string

record license_env =
  le_api :: "string option"
  le_required :: "string option"
  le_keys :: "string option"
  le_version :: "string option"
  le_vendorKey :: "string option"

record license_state =
  ls_world :: world
  ls_enforced :: bool
  ls_keys :: "(string \<times> license) list"
  ls_instance :: instance_license
  ls_instanceId :: string
  ls_env :: license_env

text \<open>An operation of the panel, run inside the larger state.\<close>
definition in_world :: "(world, 'a) op \<Rightarrow> (license_state, 'a) op" where
  "in_world m s = (case m (ls_world s) of (r, w') \<Rightarrow> (r, s\<lparr>ls_world := w'\<rparr>))"

definition lic_now :: "(license_state, time) op" where
  "lic_now = gets (\<lambda>s. clock (ls_world s))"

definition env_text :: "string option \<Rightarrow> string" where
  "env_text v = str_trim (opt_default v [])"

definition no_slash :: "string \<Rightarrow> string" where
  "no_slash s = rev (dropWhile (\<lambda>c. c = CHR ''/'') (rev s))"

definition licenseApiBase :: "license_state \<Rightarrow> string" where
  "licenseApiBase s = no_slash (env_text (le_api (ls_env s)))"

definition licenseForced :: "license_state \<Rightarrow> bool" where
  "licenseForced s \<longleftrightarrow> to_lower (env_text (le_required (ls_env s))) \<in> {''1'', ''true'', ''yes'', ''on''}"

definition persistInstance :: "instance_license \<Rightarrow> (license_state, instance_license) op" where
  "persistInstance v = andthen (modify (\<lambda>s. s\<lparr>ls_instance := v\<rparr>)) (ret v)"

definition panelInstanceId :: "(license_state, string) op" where
  "panelInstanceId =
    bnd (gets ls_instanceId) (\<lambda>i.
    if i \<noteq> [] then ret i
    else bnd (in_world randomUUID) (\<lambda>u.
      let i = to_upper (take 20 (filter (\<lambda>c. c \<noteq> CHR ''-'') u)) in
      andthen (modify (\<lambda>s. s\<lparr>ls_instanceId := i\<rparr>)) (ret i)))"

section \<open>Status and entitlements\<close>

datatype license_status = ST_UNUSED | ST_ACTIVE | ST_EXPIRED | ST_REVOKED | ST_FREE

definition licenseStatus :: "time \<Rightarrow> license \<Rightarrow> license_status" where
  "licenseStatus tm l = (if lic_revoked l then ST_REVOKED else if lic_instanceId l = [] then ST_UNUSED
     else if past tm (lic_expiresAt l) then ST_EXPIRED else ST_ACTIVE)"

text \<open>Explicit features win over those of the plan.\<close>
definition licenseFeatures :: "string list \<Rightarrow> license_plan \<Rightarrow> string list" where
  "licenseFeatures features p = (let explicit = filter isFeature features in if explicit \<noteq> [] then explicit else planFeatures p)"

definition licenseDto :: "time \<Rightarrow> license \<Rightarrow> license \<times> license_status \<times> string list" where
  "licenseDto tm l = (l, licenseStatus tm l, licenseFeatures (lic_features l) (lic_plan l))"

definition panelStatus :: "time \<Rightarrow> instance_license \<Rightarrow> license_status" where
  "panelStatus tm l = (if il_code l = [] then ST_FREE else if past tm (il_expiresAt l) then ST_EXPIRED else ST_ACTIVE)"

record entitlement =
  en_enforced :: bool
  en_plan :: license_plan
  en_features :: "string list"
  en_code :: string
  en_expiresAt :: date_text
  en_status :: license_status
  en_source :: license_source

definition enforcementOn :: "license_state \<Rightarrow> bool" where
  "enforcementOn s \<longleftrightarrow> licenseForced s \<or> ls_enforced s"

definition entitlements :: "license_state \<Rightarrow> entitlement" where
  "entitlements s =
    (let lic = ls_instance s; status = panelStatus (clock (ls_world s)) lic; live = (status = ST_ACTIVE) in
     if \<not> enforcementOn s then
       \<lparr>en_enforced = False, en_plan = (if live then il_plan lic else LP_PRO), en_features = LICENSE_FEATURES, en_code = il_code lic,
        en_expiresAt = il_expiresAt lic, en_status = (if live then ST_ACTIVE else ST_FREE), en_source = il_source lic\<rparr>
     else
       \<lparr>en_enforced = True, en_plan = (if live then il_plan lic else LP_FREE),
        en_features = (if live then licenseFeatures (il_features lic) (il_plan lic) else []), en_code = il_code lic,
        en_expiresAt = il_expiresAt lic, en_status = status, en_source = il_source lic\<rparr>)"

definition hasFeature :: "string \<Rightarrow> license_state \<Rightarrow> bool" where
  "hasFeature f s \<longleftrightarrow> f \<in> set (en_features (entitlements s))"

definition premium_needed :: err where
  "premium_needed = forbidden_error ''this section needs a premium license''"

definition assertFeature :: "string \<Rightarrow> (license_state, unit) op" where
  "assertFeature f = bnd (gets (hasFeature f)) (\<lambda>b. throw_if (\<not> b) premium_needed)"

record panel_license_dto =
  pd_license :: instance_license
  pd_instanceId :: string
  pd_status :: license_status
  pd_effective :: "string list"
  pd_enforced :: bool
  pd_forced :: bool
  pd_api :: bool

definition panelLicenseDto :: "(license_state, panel_license_dto) op" where
  "panelLicenseDto =
    bnd (gets ls_instance) (\<lambda>lic. bnd lic_now (\<lambda>tm. bnd panelInstanceId (\<lambda>i.
    gets (\<lambda>s. let status = panelStatus tm lic in
      \<lparr>pd_license = lic, pd_instanceId = i, pd_status = status,
       pd_effective = (if status = ST_ACTIVE then licenseFeatures (il_features lic) (il_plan lic) else []),
       pd_enforced = enforcementOn s, pd_forced = licenseForced s, pd_api = (licenseApiBase s \<noteq> [])\<rparr>))))"

section \<open>Redeeming a code\<close>

record redeem_input =
  ri_code :: string
  ri_instanceId :: string
  ri_url :: "string option"
  ri_version :: "string option"

record redeem_result =
  rr_code :: string
  rr_plan :: license_plan
  rr_features :: "string list"
  rr_expiresAt :: date_text
  rr_activatedAt :: date_text

text \<open>The row after binding; the install that already holds the code only refreshes its address.\<close>
definition bind_license :: "time \<Rightarrow> string \<Rightarrow> string option \<Rightarrow> license \<Rightarrow> license" where
  "bind_license tm instanceId url l =
    (if lic_instanceId l = instanceId then l\<lparr>lic_instanceUrl := take 200 (opt_default url (lic_instanceUrl l))\<rparr>
     else l\<lparr>lic_instanceId := instanceId, lic_instanceUrl := take 200 (opt_default url []), lic_activatedAt := DateAt tm,
            lic_expiresAt := (if 0 < lic_days l then DateAt (tm + lic_days l * DAY_MS) else NoDate)\<rparr>)"

definition code_not_found :: err where
  "code_not_found = not_found_error ''license code not found''"

definition redeemLicense :: "redeem_input \<Rightarrow> (license_state, redeem_result) op" where
  "redeemLicense inp =
    (let key = normalizeCode (ri_code inp); instanceId = take 80 (str_trim (ri_instanceId inp)) in
     andthen (throw_if (length key \<noteq> CODE_LENGTH) (app_error ''the license code has 12 characters''))
     (andthen (throw_if (instanceId = []) (app_error ''the install id was not sent''))
     (bnd (gets (\<lambda>s. map_of (ls_keys s) key)) (\<lambda>found. bnd (or_throw found code_not_found) (\<lambda>current.
     andthen (throw_if (lic_revoked current) (forbidden_error ''this license was revoked''))
     (andthen (throw_if (lic_instanceId current \<noteq> [] \<and> lic_instanceId current \<noteq> instanceId)
        (app_error ''this license is active on another install''))
     (bnd lic_now (\<lambda>tm.
      let next = bind_license tm instanceId (ri_url inp) current in
      andthen (throw_if (licenseStatus tm next = ST_EXPIRED) (app_error ''this license has expired''))
      (andthen (modify (\<lambda>s. s\<lparr>ls_keys := put_row key next (ls_keys s)\<rparr>))
      (ret \<lparr>rr_code = key, rr_plan = lic_plan next, rr_features = licenseFeatures (lic_features next) (lic_plan next),
            rr_expiresAt = lic_expiresAt next, rr_activatedAt = lic_activatedAt next\<rparr>))))))))))"

section \<open>Activating an install\<close>

text \<open>The body of an answer; one that is not JSON counts as an empty object.\<close>
definition answer_field :: "string \<Rightarrow> string + jval \<Rightarrow> jval option" where
  "answer_field k b = (case b of Inl _ \<Rightarrow> None | Inr j \<Rightarrow> jfield k (Some j))"

text \<open>\<open>v ?? fallback\<close> as text, and a date that may be missing.\<close>
definition text_or :: "jval option \<Rightarrow> string \<Rightarrow> string" where
  "text_or v fallback = (if v = None \<or> v = Some VNull then fallback else js_String v)"

definition answer_date :: "services \<Rightarrow> jval option \<Rightarrow> date_text \<Rightarrow> date_text" where
  "answer_date x v fallback = (if js_truthy v then date_of_text x (js_String v) else fallback)"

definition answer_features :: "jval option \<Rightarrow> string list" where
  "answer_features v = (case v of Some (VArr xs) \<Rightarrow> filter isFeature (map (\<lambda>j. js_String (Some j)) xs) | _ \<Rightarrow> [])"

text \<open>What a positive answer of the license server means.\<close>
definition answer_license :: "services \<Rightarrow> time \<Rightarrow> string \<Rightarrow> string + jval \<Rightarrow> redeem_result" where
  "answer_license x tm code b =
    \<lparr>rr_code = normalizeCode (text_or (answer_field ''code'' b) code),
     rr_plan = opt_default (plan_of_text (js_String (answer_field ''plan'' b))) LP_PRO,
     rr_features = answer_features (answer_field ''features'' b),
     rr_expiresAt = answer_date x (answer_field ''expiresAt'' b) NoDate,
     rr_activatedAt = answer_date x (answer_field ''activatedAt'' b) (DateAt tm)\<rparr>"

definition refused :: string where
  "refused = ''the license server did not accept this code''"

definition redeem_json :: "redeem_input \<Rightarrow> jval" where
  "redeem_json inp = VObj ([(''code'', VStr (ri_code inp)), (''instanceId'', VStr (ri_instanceId inp))] @
     (case ri_url inp of Some u \<Rightarrow> [(''url'', VStr u)] | None \<Rightarrow> []) @
     (case ri_version inp of Some v \<Rightarrow> [(''version'', VStr v)] | None \<Rightarrow> []))"

text \<open>\<open>verifyRemote\<close>: the message of the error it throws, or the answer.\<close>
definition verifyRemote :: "services \<Rightarrow> time \<Rightarrow> string \<Rightarrow> redeem_input \<Rightarrow> string + redeem_result" where
  "verifyRemote x tm base inp =
    (case ext_http_json x tm (base @ ''/api/license/verify'') (redeem_json inp) of
       HttpFail e \<Rightarrow> Inl e
     | HttpReply st b \<Rightarrow>
         if st < 200 \<or> 299 < st then Inl (text_or (answer_field ''error'' b) refused)
         else Inr (answer_license x tm (ri_code inp) b))"

text \<open>\<open>SRP_LICENSE_KEYS\<close>: parts separated by commas, semicolons or spaces.\<close>
definition env_parts :: "string option \<Rightarrow> string list" where
  "env_parts v = filter (\<lambda>p. p \<noteq> [])
     (split_on (CHR '','') (map (\<lambda>c. if c = CHR '';'' \<or> is_space c then CHR '','' else c) (opt_default v [])))"

definition part_at :: "nat \<Rightarrow> string list \<Rightarrow> string option" where
  "part_at n xs = (if n < length xs then Some (xs ! n) else None)"

definition envLicense :: "string option \<Rightarrow> string \<Rightarrow> (license_plan \<times> int) option" where
  "envLicense keys code =
    map_option (\<lambda>part. let bits = split_on (CHR '':'') part in
        (opt_default (plan_of_text (to_upper (opt_default (part_at 1 bits) []))) LP_PRO,
         max 0 (js_round (opt_default (case part_at 2 bits of Some d \<Rightarrow> decimal_text d | None \<Rightarrow> Some 0) 0))))
      (find (\<lambda>part. normalizeCode (opt_default (part_at 0 (split_on (CHR '':'') part)) []) = code) (env_parts keys))"

definition env_result :: "time \<Rightarrow> string \<Rightarrow> license_plan \<times> int \<Rightarrow> redeem_result" where
  "env_result tm code offline =
    \<lparr>rr_code = code, rr_plan = fst offline, rr_features = planFeatures (fst offline),
     rr_expiresAt = (if 0 < snd offline then DateAt (tm + snd offline * DAY_MS) else NoDate), rr_activatedAt = DateAt tm\<rparr>"

text \<open>Where the answer comes from: the license server, the environment, the local store.\<close>
definition find_result :: "redeem_input \<Rightarrow> (license_state, redeem_result \<times> license_source) op" where
  "find_result payload =
    bnd (gets id) (\<lambda>s.
    let x = svcs (ls_world s); tm = clock (ls_world s); code = ri_code payload; base = licenseApiBase s;
        remote = (if base = [] then Inl [] else verifyRemote x tm base payload) in
    case remote of
      Inr r \<Rightarrow> ret (r, SRC_REMOTE)
    | Inl remoteError \<Rightarrow>
       (case envLicense (le_keys (ls_env s)) code of
          Some offline \<Rightarrow> ret (env_result tm code offline, SRC_ENV)
        | None \<Rightarrow> catch_op (bnd (redeemLicense payload) (\<lambda>r. ret (r, SRC_LOCAL)))
            (\<lambda>e. if remoteError \<noteq> [] then throw (app_error remoteError) else throw e)))"

definition plan_text :: "license_plan \<Rightarrow> string" where
  "plan_text p = (case p of LP_FREE \<Rightarrow> ''FREE'' | LP_PLUS \<Rightarrow> ''PLUS'' | LP_PRO \<Rightarrow> ''PRO'')"

definition source_text :: "license_source \<Rightarrow> string" where
  "source_text s = (case s of SRC_REMOTE \<Rightarrow> ''remote'' | SRC_LOCAL \<Rightarrow> ''local'' | SRC_ENV \<Rightarrow> ''env'')"

definition owner_only :: "admin \<Rightarrow> (license_state, unit) op" where
  "owner_only actor = throw_if (adm_role actor \<noteq> OWNER) forbidden"

definition panel_url :: "license_state \<Rightarrow> string" where
  "panel_url s = no_slash (env_public_url (ls_world s))"

definition activatePanelLicense :: "admin \<Rightarrow> string \<Rightarrow> (license_state, instance_license) op" where
  "activatePanelLicense actor rawCode =
    andthen (owner_only actor)
    (let code = normalizeCode rawCode in
     andthen (throw_if (length code \<noteq> CODE_LENGTH) (app_error ''the license code has 12 characters''))
     (bnd panelInstanceId (\<lambda>i.
      bnd (gets (\<lambda>s. \<lparr>ri_code = code, ri_instanceId = i, ri_url = Some (panel_url s),
              ri_version = Some (opt_default (le_version (ls_env s)) [])\<rparr>)) (\<lambda>payload.
      bnd (find_result payload) (\<lambda>(r, src). bnd lic_now (\<lambda>tm.
      bnd (persistInstance \<lparr>il_code = rr_code r, il_plan = rr_plan r, il_features = rr_features r,
              il_activatedAt = (if rr_activatedAt r = NoDate then DateAt tm else rr_activatedAt r), il_expiresAt = rr_expiresAt r,
              il_lastCheck = DateAt tm, il_source = src, il_note = []\<rparr>) (\<lambda>saved.
      andthen (in_world (audit (Some (adm_id actor)) ''license.panel_activate'' (JStr i)
         [(''code'', JStr (rr_code r)), (''plan'', JStr (plan_text (rr_plan r))), (''source'', JStr (source_text src))] None))
      (ret saved))))))))"

text \<open>A server that cannot be reached keeps the license.\<close>
definition refreshPanelLicense :: "admin \<Rightarrow> (license_state, instance_license) op" where
  "refreshPanelLicense actor =
    andthen (owner_only actor)
    (bnd (gets ls_instance) (\<lambda>current.
     andthen (throw_if (il_code current = []) (app_error ''no license is active on this panel''))
     (catch_op (activatePanelLicense actor (il_code current)) (\<lambda>e. bnd lic_now (\<lambda>tm.
        persistInstance (current\<lparr>il_lastCheck := DateAt tm, il_note := take 200 (err_message e)\<rparr>))))))"

definition no_license :: "license_source \<Rightarrow> instance_license" where
  "no_license src = \<lparr>il_code = [], il_plan = LP_FREE, il_features = [], il_activatedAt = NoDate, il_expiresAt = NoDate,
     il_lastCheck = NoDate, il_source = src, il_note = []\<rparr>"

definition clearPanelLicense :: "admin \<Rightarrow> (license_state, instance_license) op" where
  "clearPanelLicense actor =
    andthen (owner_only actor)
    (bnd (gets ls_instance) (\<lambda>current.
     bnd (persistInstance (no_license SRC_LOCAL)) (\<lambda>saved.
     bnd panelInstanceId (\<lambda>i.
     andthen (in_world (audit (Some (adm_id actor)) ''license.panel_clear'' (JStr i) [(''code'', JStr (il_code current))] None))
     (ret saved)))))"

section \<open>The vendor's mint store\<close>

definition setLicensingEnforced :: "admin \<Rightarrow> bool \<Rightarrow> (license_state, unit) op" where
  "setLicensingEnforced actor enforced =
    andthen (owner_only actor)
    (andthen (modify (\<lambda>s. s\<lparr>ls_enforced := enforced\<rparr>))
    (in_world (audit (Some (adm_id actor)) ''license.enforce'' (JId (adm_id actor)) [(''enforced'', JBool enforced)] None)))"

definition newCode :: "(license_state, string) op" where
  "newCode = in_world (bnd new_id (\<lambda>k. gets (\<lambda>w.
     map (\<lambda>b. CODE_CHARS ! (b mod length CODE_CHARS)) (ext_random_bytes (svcs w) k CODE_LENGTH))))"

text \<open>
  \<open>while (keys[code]) code = newCode()\<close>, with a bound on the number of draws: \<open>None\<close> when every one
  of them was taken.
\<close>
fun freshCode :: "nat \<Rightarrow> (string \<times> license) list \<Rightarrow> (license_state, string option) op" where
  "freshCode 0 keys = ret None"
| "freshCode (Suc n) keys = bnd newCode (\<lambda>code.
     if map_of keys code = None then ret (Some code) else freshCode n keys)"

record create_licenses_input =
  cl_count :: "rat option"
  cl_plan :: "license_plan option"
  cl_features :: "string list"
  cl_days :: "rat option"
  cl_note :: "string option"

definition blank_license :: "create_licenses_input \<Rightarrow> string \<Rightarrow> time \<Rightarrow> license" where
  "blank_license inp code tm =
    \<lparr>lic_code = code, lic_plan = opt_default (cl_plan inp) LP_PRO, lic_features = filter isFeature (cl_features inp),
     lic_days = min 3650 (max 0 (js_round (opt_default (cl_days inp) 0))), lic_note = take 200 (opt_default (cl_note inp) []),
     lic_createdAt = tm, lic_instanceId = [], lic_instanceUrl = [], lic_activatedAt = NoDate, lic_expiresAt = NoDate,
     lic_revoked = False\<rparr>"

definition license_count :: "create_licenses_input \<Rightarrow> nat" where
  "license_count inp = nat (min 50 (max 1 (js_round (opt_default (cl_count inp) 1))))"

text \<open>The codes made so far are \<open>made\<close>; \<open>None\<close> when the draws ran out.\<close>
fun make_codes :: "nat \<Rightarrow> create_licenses_input \<Rightarrow> time \<Rightarrow> nat \<Rightarrow> (string \<times> license) list \<Rightarrow> (license_state, (string \<times> license) list option) op" where
  "make_codes fuel inp tm 0 made = ret (Some made)"
| "make_codes fuel inp tm (Suc n) made =
    bnd (gets ls_keys) (\<lambda>keys. bnd (freshCode fuel (keys @ made)) (\<lambda>code.
    case code of
      None \<Rightarrow> ret None
    | Some c \<Rightarrow> make_codes fuel inp tm n (made @ [(c, blank_license inp c tm)])))"

definition createLicenses ::
  "nat \<Rightarrow> admin \<Rightarrow> create_licenses_input \<Rightarrow> (license_state, (license \<times> license_status \<times> string list) list option) op" where
  "createLicenses fuel actor inp =
    andthen (owner_only actor)
    (bnd lic_now (\<lambda>tm. bnd (make_codes fuel inp tm (license_count inp) []) (\<lambda>r.
     case r of
       None \<Rightarrow> ret None
     | Some made \<Rightarrow>
        andthen (modify (\<lambda>s. s\<lparr>ls_keys := ls_keys s @ made\<rparr>))
        (andthen (in_world (audit (Some (adm_id actor)) ''license.create'' (JId (adm_id actor))
           [(''count'', JInt (int (license_count inp))), (''plan'', JStr (plan_text (opt_default (cl_plan inp) LP_PRO))),
            (''days'', JInt (min 3650 (max 0 (js_round (opt_default (cl_days inp) 0)))))] None))
        (ret (Some (map (\<lambda>x. licenseDto tm (snd x)) made)))))))"

text \<open>The common shape of the three changes of a stored code; \<open>tgt\<close> is the audit target.\<close>
definition change_license :: "admin \<Rightarrow> string \<Rightarrow> (license \<Rightarrow> license) \<Rightarrow> string \<Rightarrow> json_obj \<Rightarrow> (license_state, license \<times> license_status \<times> string list) op" where
  "change_license actor code f action meta =
    andthen (owner_only actor)
    (let key = normalizeCode code in
     bnd (gets (\<lambda>s. map_of (ls_keys s) key)) (\<lambda>found. bnd (or_throw found code_not_found) (\<lambda>l.
     andthen (modify (\<lambda>s. s\<lparr>ls_keys := put_row key (f l) (ls_keys s)\<rparr>))
     (andthen (in_world (audit (Some (adm_id actor)) action (JStr (if lic_instanceId l \<noteq> [] then lic_instanceId l else key))
        ((''code'', JStr key) # meta) None))
     (bnd lic_now (\<lambda>tm. ret (licenseDto tm (f l))))))))"

definition setLicenseRevoked :: "admin \<Rightarrow> string \<Rightarrow> bool \<Rightarrow> (license_state, license \<times> license_status \<times> string list) op" where
  "setLicenseRevoked actor code revoked =
    change_license actor code (\<lambda>l. l\<lparr>lic_revoked := revoked\<rparr>) ''license.revoke'' [(''revoked'', JBool revoked)]"

definition releaseLicense :: "admin \<Rightarrow> string \<Rightarrow> (license_state, license \<times> license_status \<times> string list) op" where
  "releaseLicense actor code =
    change_license actor code
      (\<lambda>l. l\<lparr>lic_instanceId := [], lic_instanceUrl := [], lic_activatedAt := NoDate, lic_expiresAt := NoDate\<rparr>) ''license.release'' []"

definition deleteLicense :: "admin \<Rightarrow> string \<Rightarrow> (license_state, unit) op" where
  "deleteLicense actor code =
    andthen (owner_only actor)
    (let key = normalizeCode code in
     bnd (gets (\<lambda>s. map_of (ls_keys s) key)) (\<lambda>found.
     andthen (throw_if (found = None) code_not_found)
     (andthen (modify (\<lambda>s. s\<lparr>ls_keys := filter (\<lambda>(k, l). k \<noteq> key) (ls_keys s)\<rparr>))
     (in_world (audit (Some (adm_id actor)) ''license.delete'' (JStr key) [] None)))))"

section \<open>A code belongs to one install\<close>

definition install_of :: "redeem_input \<Rightarrow> string" where
  "install_of inp = take 80 (str_trim (ri_instanceId inp))"

text \<open>The row a redemption accepts.\<close>
definition redeemable :: "time \<Rightarrow> redeem_input \<Rightarrow> license \<Rightarrow> bool" where
  "redeemable tm inp l \<longleftrightarrow> length (normalizeCode (ri_code inp)) = CODE_LENGTH \<and> install_of inp \<noteq> [] \<and> \<not> lic_revoked l \<and>
     (lic_instanceId l = [] \<or> lic_instanceId l = install_of inp) \<and>
     licenseStatus tm (bind_license tm (install_of inp) (ri_url inp) l) \<noteq> ST_EXPIRED"

definition redeem_answer :: "string \<Rightarrow> license \<Rightarrow> redeem_result" where
  "redeem_answer key l = \<lparr>rr_code = key, rr_plan = lic_plan l, rr_features = licenseFeatures (lic_features l) (lic_plan l),
     rr_expiresAt = lic_expiresAt l, rr_activatedAt = lic_activatedAt l\<rparr>"

lemma redeem_runs:
  assumes "map_of (ls_keys s) (normalizeCode (ri_code inp)) = Some l" and "redeemable (clock (ls_world s)) inp l"
  shows "redeemLicense inp s = (let next = bind_license (clock (ls_world s)) (install_of inp) (ri_url inp) l in
    (Inr (redeem_answer (normalizeCode (ri_code inp)) next), s\<lparr>ls_keys := put_row (normalizeCode (ri_code inp)) next (ls_keys s)\<rparr>))"
  using assms(2)
  by (simp add: redeemLicense_def Let_def install_of_def [symmetric] andthen_throw_if bnd_def assms(1) lic_now_def redeemable_def
      redeem_answer_def)

lemma redeem_fails:
  assumes "\<And>l. map_of (ls_keys s) (normalizeCode (ri_code inp)) = Some l \<Longrightarrow> \<not> redeemable (clock (ls_world s)) inp l"
  shows "\<exists>e. redeemLicense inp s = (Inl e, s)"
proof (cases "map_of (ls_keys s) (normalizeCode (ri_code inp))")
  case None
  then show ?thesis by (simp add: redeemLicense_def Let_def install_of_def [symmetric] andthen_throw_if bnd_def)
next
  case (Some l)
  with assms [OF Some] show ?thesis
    by (auto simp: redeemLicense_def Let_def install_of_def [symmetric] andthen_throw_if bnd_def lic_now_def redeemable_def)
qed

lemma bind_sel [simp]:
  "lic_instanceId (bind_license tm i url l) = i" "lic_revoked (bind_license tm i url l) = lic_revoked l"
  "lic_plan (bind_license tm i url l) = lic_plan l" "lic_features (bind_license tm i url l) = lic_features l"
  by (simp_all add: bind_license_def)

lemma bind_held: "lic_instanceId l = i \<Longrightarrow> lic_expiresAt (bind_license tm i url l) = lic_expiresAt l \<and>
    lic_activatedAt (bind_license tm i url l) = lic_activatedAt l"
  by (simp add: bind_license_def)

lemma bind_twice: "bind_license tm i url (bind_license tm i url l) = bind_license tm i url l"
  by (cases url; cases "lic_instanceId l = i") (simp_all add: bind_license_def)

text \<open>What is fixed about a code that an install holds.\<close>
definition held_by :: "string \<Rightarrow> string \<Rightarrow> date_text \<Rightarrow> license_plan \<times> string list \<Rightarrow> license_state \<Rightarrow> bool" where
  "held_by key i expires grants s \<longleftrightarrow> (\<exists>l. map_of (ls_keys s) key = Some l \<and> lic_instanceId l = i \<and> lic_expiresAt l = expires \<and>
     (lic_plan l, lic_features l) = grants)"

text \<open>Anything that happens to the store but handing a code back: redemptions, the owner's switch, revoking
  and new codes, and the passing of time.\<close>
inductive license_step :: "license_state \<Rightarrow> license_state \<Rightarrow> bool" where
  redeemed: "license_step s (snd (redeemLicense inp s))"
| revoked: "license_step s (snd (setLicenseRevoked actor code b s))"
| minted: "license_step s (snd (createLicenses fuel actor cinp s))"
| switched: "license_step s (snd (setLicensingEnforced actor b s))"
| later: "clock (ls_world s) \<le> tm \<Longrightarrow> license_step s (s\<lparr>ls_world := (ls_world s)\<lparr>clock := tm\<rparr>\<rparr>)"

lemma in_world_keys [simp]: "ls_keys (snd (in_world m s)) = ls_keys s"
  by (simp add: in_world_def split: prod.split)

lemma keys_in_world: "preserves (\<lambda>v. ls_keys v = ks) (in_world m)"
  by (simp add: preserves_def)

lemma fresh_keeps: "preserves (\<lambda>v. ls_keys v = ks) (freshCode n keys)"
proof (induction n)
  case (Suc n)
  then show ?case unfolding freshCode.simps newCode_def
    by (intro preserves_bnd keys_in_world preserves_if preserves_ret)
qed (simp only: freshCode.simps preserves_ret)

lemma make_keeps: "preserves (\<lambda>v. ls_keys v = ks) (make_codes fuel inp tm n made)"
proof (induction n arbitrary: made)
  case (Suc n)
  then show ?case unfolding make_codes.simps
    by (intro preserves_bnd preserves_gets fresh_keeps preserves_option preserves_ret)
qed (simp only: make_codes.simps preserves_ret)

text \<open>New codes never replace one that is in the store.\<close>
lemma fresh_free: "freshCode n keys s = (Inr (Some c), s') \<Longrightarrow> map_of keys c = None"
  by (induction n arbitrary: s) (auto simp: bnd_inr split: if_splits)

lemma make_free:
  "make_codes fuel inp tm n made s = (Inr (Some rows), s') \<Longrightarrow> ls_keys s = ks \<Longrightarrow>
    (\<forall>k \<in> set (map fst made). map_of ks k = None) \<Longrightarrow> (\<forall>k \<in> set (map fst rows). map_of ks k = None) \<and> ls_keys s' = ks"
proof (induction n arbitrary: made s)
  case (Suc n)
  from Suc.prems(1) obtain r s1 where r: "freshCode fuel (ls_keys s @ made) s = (Inr r, s1)"
    "(case r of None \<Rightarrow> ret None | Some c \<Rightarrow> make_codes fuel inp tm n (made @ [(c, blank_license inp c tm)])) s1 = (Inr (Some rows), s')"
    by (auto simp: bnd_inr)
  from r(2) obtain c where c: "r = Some c" by (cases r) auto
  have "map_of (ls_keys s @ made) c = None" using r(1) unfolding c by (rule fresh_free)
  then have "map_of ks c = None" by (simp add: Suc.prems(2) map_of_eq_None_iff)
  moreover have "ls_keys s1 = ks" using preservesD [OF fresh_keeps [of ks], of s fuel "ls_keys s @ made"] Suc.prems(2) r(1) by simp
  ultimately show ?case using Suc.IH [of "made @ [(c, blank_license inp c tm)]" s1] r(2) c Suc.prems(3) by simp
qed simp

lemma change_keys:
  "ls_keys (snd (change_license actor code f action meta s)) = ls_keys s \<or>
   (\<exists>l. map_of (ls_keys s) (normalizeCode code) = Some l \<and>
     ls_keys (snd (change_license actor code f action meta s)) = put_row (normalizeCode code) (f l) (ls_keys s))"
proof (cases "adm_role actor = OWNER \<and> map_of (ls_keys s) (normalizeCode code) \<noteq> None")
  case True
  then obtain l where l: "map_of (ls_keys s) (normalizeCode code) = Some l" by auto
  define s1 where "s1 = s\<lparr>ls_keys := put_row (normalizeCode code) (f l) (ls_keys s)\<rparr>"
  define rest where "rest = andthen (in_world (audit (Some (adm_id actor)) action
      (JStr (if lic_instanceId l \<noteq> [] then lic_instanceId l else normalizeCode code)) ((''code'', JStr (normalizeCode code)) # meta) None))
     (bnd lic_now (\<lambda>tm. ret (licenseDto tm (f l))))"
  have "preserves (\<lambda>v. ls_keys v = ls_keys s1) rest" unfolding rest_def andthen_def lic_now_def
    by (intro preserves_bnd keys_in_world preserves_gets preserves_ret)
  from preservesD [OF this, of s1] have "ls_keys (snd (rest s1)) = ls_keys s1" by simp
  moreover have "change_license actor code f action meta s = rest s1"
    using True by (simp add: change_license_def owner_only_def andthen_throw_if Let_def bnd_def l rest_def s1_def)
  ultimately show ?thesis using l by (simp add: s1_def)
next
  case False
  then show ?thesis by (auto simp: change_license_def owner_only_def andthen_throw_if Let_def bnd_def)
qed

lemma held_keys: "ls_keys s' = ls_keys s \<Longrightarrow> held_by key i d g s' = held_by key i d g s"
  by (simp add: held_by_def)

lemma held_put:
  assumes "held_by key i d g s" and "ls_keys s' = put_row k l' (ls_keys s)" and "map_of (ls_keys s) k = Some l"
    and "lic_instanceId l' = lic_instanceId l" "lic_expiresAt l' = lic_expiresAt l" "lic_plan l' = lic_plan l" "lic_features l' = lic_features l"
  shows "held_by key i d g s'"
  using assms by (auto simp: held_by_def map_of_put_row)

lemma held_redeem:
  assumes "held_by key i d g s" and "i \<noteq> []"
  shows "held_by key i d g (snd (redeemLicense inp s))"
proof (cases "\<exists>l. map_of (ls_keys s) (normalizeCode (ri_code inp)) = Some l \<and> redeemable (clock (ls_world s)) inp l")
  case False
  then obtain e where "redeemLicense inp s = (Inl e, s)" using redeem_fails [of s inp] by blast
  then show ?thesis using assms(1) by simp
next
  case True
  then obtain l where l: "map_of (ls_keys s) (normalizeCode (ri_code inp)) = Some l" "redeemable (clock (ls_world s)) inp l" by blast
  have "lic_instanceId l = install_of inp" if "normalizeCode (ri_code inp) = key"
    using assms l that by (auto simp: held_by_def redeemable_def)
  then show ?thesis
    using assms(1) l(1) by (auto simp: redeem_runs [OF l] Let_def held_by_def map_of_put_row bind_held)
qed

lemma held_create:
  assumes "held_by key i d g s" shows "held_by key i d g (snd (createLicenses fuel actor cinp s))"
proof (cases "adm_role actor = OWNER")
  case False
  then show ?thesis using assms by (simp add: createLicenses_def owner_only_def andthen_throw_if)
next
  case True
  obtain r s1 where r: "make_codes fuel cinp (clock (ls_world s)) (license_count cinp) [] s = (r, s1)" by force
  have k: "ls_keys s1 = ls_keys s"
    using preservesD [OF make_keeps [of "ls_keys s"], of s fuel cinp "clock (ls_world s)" "license_count cinp" "[]"] r by simp
  show ?thesis
  proof (cases "\<exists>made. r = Inr (Some made)")
    case False
    then have "ls_keys (snd (createLicenses fuel actor cinp s)) = ls_keys s"
      using r k by (cases r) (auto simp: createLicenses_def owner_only_def andthen_throw_if True bnd_def lic_now_def split: option.split)
    then show ?thesis using assms held_keys by blast
  next
    case new: True
    then obtain made where made: "r = Inr (Some made)" by blast
    define rest where "rest = andthen (in_world (audit (Some (adm_id actor)) ''license.create'' (JId (adm_id actor))
           [(''count'', JInt (int (license_count cinp))), (''plan'', JStr (plan_text (opt_default (cl_plan cinp) LP_PRO))),
            (''days'', JInt (min 3650 (max 0 (js_round (opt_default (cl_days cinp) 0)))))] None))
        (ret (Some (map (\<lambda>x. licenseDto (clock (ls_world s)) (snd x)) made)))"
    let ?s = "s1\<lparr>ls_keys := ls_keys s1 @ made\<rparr>"
    have "preserves (\<lambda>v. ls_keys v = ls_keys s @ made) rest" unfolding rest_def andthen_def
      by (intro preserves_bnd keys_in_world preserves_ret)
    from preservesD [OF this, of ?s] k have "ls_keys (snd (rest ?s)) = ls_keys s @ made" by simp
    moreover have "createLicenses fuel actor cinp s = rest ?s"
      by (simp add: createLicenses_def owner_only_def andthen_throw_if True bnd_def lic_now_def r made rest_def)
    ultimately show ?thesis using assms by (auto simp: held_by_def)
  qed
qed

lemma held_switch: "held_by key i d g s \<Longrightarrow> held_by key i d g (snd (setLicensingEnforced actor b s))"
proof -
  have "preserves (held_by key i d g) (setLicensingEnforced actor b)"
    unfolding setLicensingEnforced_def owner_only_def
    by (intro preserves_intros) (auto simp: preserves_def held_by_def)
  then show "held_by key i d g s \<Longrightarrow> held_by key i d g (snd (setLicensingEnforced actor b s))" by (rule preservesD)
qed

lemma held_step:
  assumes "license_step s s'" and "held_by key i d g s" and "i \<noteq> []" shows "held_by key i d g s'"
  using assms
proof cases
  case (redeemed inp)
  then show ?thesis using assms(2,3) by (simp add: held_redeem)
next
  case (revoked actor code b)
  show ?thesis
    using change_keys [of actor code "\<lambda>l. l\<lparr>lic_revoked := b\<rparr>" "''license.revoke''" "[(''revoked'', JBool b)]" s]
    unfolding revoked setLicenseRevoked_def
  proof (elim disjE exE conjE)
    fix l assume "map_of (ls_keys s) (normalizeCode code) = Some l" and k: "ls_keys (snd (change_license actor code
        (\<lambda>l. l\<lparr>lic_revoked := b\<rparr>) ''license.revoke'' [(''revoked'', JBool b)] s)) = put_row (normalizeCode code) (l\<lparr>lic_revoked := b\<rparr>) (ls_keys s)"
    then show "held_by key i d g (snd (change_license actor code (\<lambda>l. l\<lparr>lic_revoked := b\<rparr>) ''license.revoke'' [(''revoked'', JBool b)] s))"
      by (intro held_put [OF assms(2) k]) simp_all
  qed (use assms(2) held_keys in blast)
next
  case (minted fuel actor cinp)
  then show ?thesis using assms(2) by (simp add: held_create)
next
  case (switched actor b)
  then show ?thesis using assms(2) by (simp add: held_switch)
next
  case (later tm)
  then show ?thesis using assms(2) by (simp add: held_by_def)
qed

lemma held_run: "license_step\<^sup>*\<^sup>* s s' \<Longrightarrow> held_by key i d g s \<Longrightarrow> i \<noteq> [] \<Longrightarrow> held_by key i d g s'"
  by (induction rule: rtranclp_induct) (auto dest: held_step)

end
