(* ===== verification/LicenseVendor.thy ===== *)
theory LicenseVendor
  imports Licensing
begin

text \<open>
  What is unlocked on an install: \<open>licenseVendor.ts\<close>. The vendor's own panel is never locked; any other
  needs a code that the license server confirmed at most seven days ago. The file also holds the
  public endpoint of the license server (\<open>api/license/verify/route.ts\<close>) and the table of premium paths
  (\<open>premium.ts\<close>) of the web application.
\<close>

definition DEFAULT_LICENSE_API :: string where
  "DEFAULT_LICENSE_API = ''http://209.250.239.50''"

definition LICENSE_GRACE_DAYS :: int where
  "LICENSE_GRACE_DAYS = 7"

definition RECHECK_HOURS :: int where
  "RECHECK_HOURS = 6"

definition HOUR_MS :: int where
  "HOUR_MS = 3600000"

definition VENDOR_KEY_HASH :: string where
  "VENDOR_KEY_HASH = ''1f827d3a0528da6664d83e28d1dbc1df526e04f2cad50b475a37ed4ba1622e7b''"

definition isVendorInstall :: "license_state \<Rightarrow> bool" where
  "isVendorInstall s \<longleftrightarrow> (let key = env_text (le_vendorKey (ls_env s)) in
     key \<noteq> [] \<and> ext_sha256 (svcs (ls_world s)) key = VENDOR_KEY_HASH)"

definition vendorApiBase :: "license_state \<Rightarrow> string" where
  "vendorApiBase s = no_slash (str_trim (str_or (le_api (ls_env s)) DEFAULT_LICENSE_API id))"

definition assertVendor :: "(license_state, unit) op" where
  "assertVendor = bnd (gets isVendorInstall) (\<lambda>v. throw_if (\<not> v) (forbidden_error ''codes are made on the vendor panel only''))"

section \<open>Entitlements\<close>

record panel_entitlement =
  pe_vendor :: bool
  pe_locked :: bool
  pe_plan :: license_plan
  pe_features :: "string list"
  pe_status :: license_status
  pe_license :: instance_license
  pe_grace :: bool
  pe_graceDays :: int
  pe_instanceId :: string
  pe_api :: string

text \<open>Time since the last check; \<open>None\<close> when there was none or its date cannot be read.\<close>
definition check_age :: "time \<Rightarrow> date_text \<Rightarrow> int option" where
  "check_age tm d = (case d of DateAt t \<Rightarrow> Some (tm - t) | _ \<Rightarrow> None)"

definition check_fresh :: "time \<Rightarrow> date_text \<Rightarrow> bool" where
  "check_fresh tm d = (case check_age tm d of Some a \<Rightarrow> a \<le> LICENSE_GRACE_DAYS * DAY_MS | None \<Rightarrow> False)"

definition license_live :: "time \<Rightarrow> instance_license \<Rightarrow> bool" where
  "license_live tm lic \<longleftrightarrow> panelStatus tm lic = ST_ACTIVE \<and> check_fresh tm (il_lastCheck lic)"

definition entitlement_now :: "string \<Rightarrow> license_state \<Rightarrow> panel_entitlement" where
  "entitlement_now i s =
    (let lic = ls_instance s; tm = clock (ls_world s); live = license_live tm lic in
     if isVendorInstall s then
       \<lparr>pe_vendor = True, pe_locked = False, pe_plan = LP_PRO, pe_features = LICENSE_FEATURES, pe_status = ST_ACTIVE, pe_license = lic,
        pe_grace = False, pe_graceDays = LICENSE_GRACE_DAYS, pe_instanceId = i, pe_api = vendorApiBase s\<rparr>
     else
       \<lparr>pe_vendor = False, pe_locked = (\<not> live), pe_plan = (if live then il_plan lic else LP_FREE),
        pe_features = (if live then licenseFeatures (il_features lic) (il_plan lic) else []),
        pe_status = panelStatus tm lic, pe_license = lic,
        pe_grace = (live \<and> (case check_age tm (il_lastCheck lic) of Some a \<Rightarrow> RECHECK_HOURS * HOUR_MS < a | None \<Rightarrow> True)),
        pe_graceDays = LICENSE_GRACE_DAYS, pe_instanceId = i, pe_api = vendorApiBase s\<rparr>)"

definition panelEntitlements :: "(license_state, panel_entitlement) op" where
  "panelEntitlements = bnd panelInstanceId (\<lambda>i. gets (entitlement_now i))"

definition panelHasFeature :: "string \<Rightarrow> (license_state, bool) op" where
  "panelHasFeature f = bnd panelEntitlements (\<lambda>e. ret (f \<in> set (pe_features e)))"

definition requirePremium :: "string \<Rightarrow> (license_state, unit) op" where
  "requirePremium f = bnd (panelHasFeature f) (\<lambda>b. throw_if (\<not> b) premium_needed)"

section \<open>Verification\<close>

text \<open>Not reachable is network trouble; a refusal is the vendor's answer.\<close>
datatype verify_outcome = Verified redeem_result | Refused string | Unreachable string

definition unreachable_text :: string where
  "unreachable_text = ''the license server cannot be reached''"

definition vendorVerify :: "license_state \<Rightarrow> string \<Rightarrow> string \<Rightarrow> verify_outcome" where
  "vendorVerify s code i =
    (let x = svcs (ls_world s); tm = clock (ls_world s);
         inp = \<lparr>ri_code = code, ri_instanceId = i, ri_url = Some (panel_url s), ri_version = Some (opt_default (le_version (ls_env s)) [])\<rparr> in
     case ext_http_json x tm (vendorApiBase s @ ''/api/license/verify'') (redeem_json inp) of
       HttpFail e \<Rightarrow> Unreachable unreachable_text
     | HttpReply st b \<Rightarrow>
         if 500 \<le> st then Unreachable unreachable_text
         else if st < 200 \<or> 299 < st then Refused (text_or (answer_field ''error'' b) refused)
         else Verified (answer_license x tm code b))"

text \<open>On the vendor's panel the code is redeemed in its own store; elsewhere the server is asked.\<close>
definition obtain_value :: "string \<Rightarrow> string \<Rightarrow> (license_state, redeem_result) op" where
  "obtain_value code i =
    bnd (gets id) (\<lambda>s.
    if isVendorInstall s then
      redeemLicense \<lparr>ri_code = code, ri_instanceId = i, ri_url = Some (panel_url s), ri_version = Some (opt_default (le_version (ls_env s)) [])\<rparr>
    else (case vendorVerify s code i of
        Verified v \<Rightarrow> ret v
      | Refused e \<Rightarrow> throw (app_error e)
      | Unreachable e \<Rightarrow> throw (app_error e)))"

definition activateLicense :: "admin \<Rightarrow> string \<Rightarrow> (license_state, panel_entitlement) op" where
  "activateLicense actor rawCode =
    andthen (owner_only actor)
    (let code = normalizeCode rawCode in
     andthen (throw_if (length code \<noteq> CODE_LENGTH) (app_error ''the license code has 12 characters''))
     (bnd panelInstanceId (\<lambda>i. bnd (gets isVendorInstall) (\<lambda>vendor.
      bnd (obtain_value code i) (\<lambda>v. bnd lic_now (\<lambda>tm.
      andthen (persistInstance \<lparr>il_code = rr_code v, il_plan = rr_plan v, il_features = rr_features v,
         il_activatedAt = (if rr_activatedAt v = NoDate then DateAt tm else rr_activatedAt v), il_expiresAt = rr_expiresAt v,
         il_lastCheck = DateAt tm, il_source = (if vendor then SRC_LOCAL else SRC_REMOTE), il_note = []\<rparr>)
      (andthen (in_world (audit (Some (adm_id actor)) ''license.activate'' (JStr i)
         [(''code'', JStr (rr_code v)), (''plan'', JStr (plan_text (rr_plan v))), (''vendor'', JBool vendor)] None))
      panelEntitlements)))))))"

text \<open>The stored license after a check.\<close>
definition after_check :: "time \<Rightarrow> verify_outcome \<Rightarrow> instance_license \<Rightarrow> instance_license" where
  "after_check tm outcome current =
    (case outcome of
       Verified v \<Rightarrow> current\<lparr>il_plan := rr_plan v, il_features := rr_features v, il_expiresAt := rr_expiresAt v,
         il_activatedAt := (if il_activatedAt current = NoDate then rr_activatedAt v else il_activatedAt current),
         il_lastCheck := DateAt tm, il_source := SRC_REMOTE, il_note := []\<rparr>
     | Refused e \<Rightarrow> current\<lparr>il_plan := LP_FREE, il_features := [], il_expiresAt := NoDate, il_lastCheck := NoDate, il_note := take 200 e\<rparr>
     | Unreachable e \<Rightarrow> current\<lparr>il_note := take 200 e\<rparr>)"

definition recheckLicense :: "admin option \<Rightarrow> (license_state, panel_entitlement) op" where
  "recheckLicense actor =
    andthen (case actor of Some a \<Rightarrow> owner_only a | None \<Rightarrow> ret ())
    (bnd (gets ls_instance) (\<lambda>current.
     andthen (throw_if (il_code current = []) (app_error ''no license is active on this panel''))
     (bnd (gets isVendorInstall) (\<lambda>vendor.
      if vendor then panelEntitlements
      else bnd panelInstanceId (\<lambda>i. bnd (gets (\<lambda>s. vendorVerify s (il_code current) i)) (\<lambda>outcome. bnd lic_now (\<lambda>tm.
        andthen (persistInstance (after_check tm outcome current)) panelEntitlements)))))))"

definition autoRecheckLicense :: "(license_state, bool) op" where
  "autoRecheckLicense =
    bnd (gets (\<lambda>s. (isVendorInstall s, ls_instance s, clock (ls_world s)))) (\<lambda>(vendor, lic, tm).
    if vendor \<or> il_code lic = [] then ret False
    else if (case check_age tm (il_lastCheck lic) of Some a \<Rightarrow> a < RECHECK_HOURS * HOUR_MS | None \<Rightarrow> False) then ret False
    else andthen (recheckLicense None) (ret True))"

definition dropLicense :: "admin \<Rightarrow> (license_state, panel_entitlement) op" where
  "dropLicense actor =
    andthen (owner_only actor)
    (bnd (gets ls_instance) (\<lambda>current.
     andthen (persistInstance (no_license SRC_REMOTE))
     (bnd panelInstanceId (\<lambda>i.
     andthen (in_world (audit (Some (adm_id actor)) ''license.clear'' (JStr i) [(''code'', JStr (il_code current))] None))
     panelEntitlements))))"

section \<open>The endpoint of the license server\<close>

definition WINDOW_MS :: int where
  "WINDOW_MS = 600000"

definition MAX_HITS :: nat where
  "MAX_HITS = 30"

definition MAX_KEYS :: nat where
  "MAX_KEYS = 5000"

type_synonym hit_table = "(string \<times> nat \<times> time) list"

text \<open>The number of requests of an address in its window, and when the window ends.\<close>
definition budget :: "time \<Rightarrow> string \<Rightarrow> hit_table \<Rightarrow> bool \<times> hit_table" where
  "budget tm ip hits =
    (let hits = (if MAX_KEYS < length hits then filter (\<lambda>(k, n, reset). tm < reset) hits else hits) in
     case map_of hits ip of
       None \<Rightarrow> (True, put_row ip (1, tm + WINDOW_MS) hits)
     | Some (n, reset) \<Rightarrow>
         if reset \<le> tm then (True, put_row ip (1, tm + WINDOW_MS) hits)
         else (Suc n \<le> MAX_HITS, put_row ip (Suc n, reset) hits))"

section \<open>Premium paths\<close>

definition PREMIUM_PATHS :: "(string \<times> string) list" where
  "PREMIUM_PATHS = [(''/api/store'', ''store''), (''/api/shop'', ''store''), (''/api/orders'', ''store''), (''/api/payments'', ''store''),
     (''/api/plans'', ''store''), (''/api/customers'', ''store''), (''/api/wallet'', ''wallet''), (''/api/discounts'', ''discounts''),
     (''/api/monitoring'', ''monitoring''), (''/api/incidents'', ''monitoring''), (''/api/settings/monitoring'', ''monitoring''),
     (''/api/backups'', ''backupCenter''), (''/api/settings/backup'', ''backupCenter''), (''/api/settings/brand'', ''branding''),
     (''/api/settings/domain'', ''domain''), (''/api/settings/reseller-bots'', ''salesBot''),
     (''/api/settings/client-types'', ''clientTemplates''), (''/api/settings/payment-plugins'', ''paymentPlugin''),
     (''/api/settings/panel-plans'', ''sharedPanel'')]"

definition under_path :: "string \<Rightarrow> string \<Rightarrow> bool" where
  "under_path path prefix \<longleftrightarrow> path = prefix \<or> take (length prefix + 1) path = prefix @ ''/''"

definition premiumFeatureForPath :: "string \<Rightarrow> string option" where
  "premiumFeatureForPath path = map_option snd (find (\<lambda>(prefix, f). under_path path prefix) PREMIUM_PATHS)"

definition guardPremiumPath :: "string \<Rightarrow> (license_state, unit) op" where
  "guardPremiumPath path = (case premiumFeatureForPath path of Some f \<Rightarrow> requirePremium f | None \<Rightarrow> ret ())"

end
