(* ===== verification/LicenseSafety.thy ===== *)
theory LicenseSafety
  imports LicenseVendor Demo
begin

text \<open>
  The contracts of the licensing code: a code belongs to one install, minting codes ends, and what a
  check of the stored code means for the premium sections from then on.
\<close>

section \<open>Minting\<close>

text \<open>The code that draw \<open>k\<close> of the random source gives.\<close>
definition code_drawn :: "services \<Rightarrow> nat \<Rightarrow> string" where
  "code_drawn x k = map (\<lambda>b. CODE_CHARS ! (b mod length CODE_CHARS)) (ext_random_bytes x k CODE_LENGTH)"

lemma newCode_run:
  "newCode s = (Inr (code_drawn (svcs (ls_world s)) (next_id (ls_world s))),
     s\<lparr>ls_world := (ls_world s)\<lparr>next_id := Suc (next_id (ls_world s))\<rparr>\<rparr>)"
  by (simp add: newCode_def in_world_def new_id_def bnd_def gets_def code_drawn_def)

text \<open>What a run of \<open>freshCode\<close> that finds a code does to the state.\<close>
definition drew :: "license_state \<Rightarrow> string set \<Rightarrow> nat \<Rightarrow> string \<Rightarrow> license_state \<Rightarrow> bool" where
  "drew s taken n c s' \<longleftrightarrow> (\<exists>m. 0 < m \<and> m \<le> n \<and> s' = s\<lparr>ls_world := (ls_world s)\<lparr>next_id := next_id (ls_world s) + m\<rparr>\<rparr>) \<and> c \<notin> taken"

lemma fresh_finds:
  assumes "\<exists>j<n. code_drawn (svcs (ls_world s)) (next_id (ls_world s) + j) \<notin> fst ` set keys"
  shows "\<exists>c s'. freshCode n keys s = (Inr (Some c), s') \<and> drew s (fst ` set keys) n c s'"
  using assms
proof (induction n arbitrary: s)
  case (Suc n)
  let ?x = "svcs (ls_world s)" and ?k = "next_id (ls_world s)"
  let ?s = "s\<lparr>ls_world := (ls_world s)\<lparr>next_id := Suc ?k\<rparr>\<rparr>"
  show ?case
  proof (cases "code_drawn ?x ?k \<in> fst ` set keys")
    case False
    then show ?thesis
      by (intro exI [of _ "code_drawn ?x ?k"] exI [of _ ?s]) (auto simp: bnd_def newCode_run map_of_eq_None_iff drew_def intro: exI [of _ 1])
  next
    case True
    from Suc.prems obtain j where j: "j < Suc n" "code_drawn ?x (?k + j) \<notin> fst ` set keys" by blast
    with True have "j \<noteq> 0" by (intro notI) simp
    with j have "\<exists>j<n. code_drawn (svcs (ls_world ?s)) (next_id (ls_world ?s) + j) \<notin> fst ` set keys"
      by (intro exI [of _ "j - 1"]) simp
    from Suc.IH [OF this] obtain c s' where c: "freshCode n keys ?s = (Inr (Some c), s')" "drew ?s (fst ` set keys) n c s'" by blast
    have "freshCode (Suc n) keys s = freshCode n keys ?s"
      using True by (simp add: bnd_def newCode_run map_of_eq_None_iff)
    moreover have "drew s (fst ` set keys) (Suc n) c s'"
      using c(2) by (auto simp: drew_def intro: exI [of _ "Suc _"])
    ultimately show ?thesis using c(1) by auto
  qed
qed simp

text \<open>Among more draws than there are stored codes, all different, one is new.\<close>
lemma some_new:
  assumes "inj_on f {k..<k + n}" and "length keys < n"
  shows "\<exists>j<n. f (k + j) \<notin> fst ` set keys"
proof (rule ccontr)
  assume "\<not> ?thesis"
  then have all: "f (k + j) \<in> fst ` set keys" if "j < n" for j using that by blast
  have "f i \<in> fst ` set keys" if "i \<in> {k..<k + n}" for i
    using all [of "i - k"] that by (cases "i < k") (simp_all del: image_iff)
  then have "f ` {k..<k + n} \<subseteq> fst ` set keys" by blast
  then have "card (f ` {k..<k + n}) \<le> card (fst ` set keys)" by (intro card_mono) auto
  also have "\<dots> \<le> length keys" using card_image_le [of "set keys" fst] card_length [of keys] by simp
  finally show False using assms by (simp add: card_image)
qed

lemma make_finds:
  assumes "length (ls_keys s) + length made + n \<le> fuel"
    and "inj_on (code_drawn (svcs (ls_world s))) {next_id (ls_world s)..<next_id (ls_world s) + n * fuel}"
    and "distinct (map fst made)" and "fst ` set made \<inter> fst ` set (ls_keys s) = {}"
  shows "\<exists>rows s'. make_codes fuel inp tm n made s = (Inr (Some rows), s') \<and> length rows = length made + n \<and>
    distinct (map fst rows) \<and> fst ` set rows \<inter> fst ` set (ls_keys s) = {} \<and> ls_keys s' = ls_keys s"
  using assms
proof (induction n arbitrary: made s)
  case (Suc n)
  let ?x = "svcs (ls_world s)" and ?k = "next_id (ls_world s)"
  have "inj_on (code_drawn ?x) {?k..<?k + fuel}" by (rule inj_on_subset [OF Suc.prems(2)]) auto
  moreover have "length (ls_keys s @ made) < fuel" using Suc.prems(1) by simp
  ultimately obtain c s1 where c: "freshCode fuel (ls_keys s @ made) s = (Inr (Some c), s1)"
      "drew s (fst ` set (ls_keys s @ made)) fuel c s1"
    using fresh_finds [OF some_new] by blast
  then obtain m where m: "m \<le> fuel" "s1 = s\<lparr>ls_world := (ls_world s)\<lparr>next_id := ?k + m\<rparr>\<rparr>"
    and new: "c \<notin> fst ` set (ls_keys s)" "c \<notin> fst ` set made"
    by (auto simp: drew_def)
  let ?made = "made @ [(c, blank_license inp c tm)]"
  have "inj_on (code_drawn ?x) {?k + m..<?k + m + n * fuel}"
    by (rule inj_on_subset [OF Suc.prems(2)]) (use m(1) in auto)
  then have "\<exists>rows s'. make_codes fuel inp tm n ?made s1 = (Inr (Some rows), s') \<and> length rows = length ?made + n \<and>
      distinct (map fst rows) \<and> fst ` set rows \<inter> fst ` set (ls_keys s1) = {} \<and> ls_keys s' = ls_keys s1"
    using Suc.prems new by (intro Suc.IH) (auto simp: m(2))
  moreover have "make_codes fuel inp tm (Suc n) made s = make_codes fuel inp tm n ?made s1"
    by (simp add: bnd_def gets_def c(1))
  ultimately show ?case by (auto simp: m(2))
qed simp

lemma audit_in_world: "\<exists>w. in_world (audit a act t m ip) s = (Inr (), s\<lparr>ls_world := w\<rparr>)"
  using audit_events [of a act t m ip "ls_world s"] by (auto simp: in_world_def)

text \<open>
  C30: minting codes ends, although \<open>createLicenses\<close> draws until a code is free: when the draws of the
  random source differ, at most one draw more than there are codes is needed for each new code, and the
  codes made are new, pairwise different and of the number asked for (1 to 50), added behind the old ones.
\<close>
theorem mint_terminates:
  assumes "adm_role actor = OWNER" and "length (ls_keys s) + license_count inp \<le> fuel"
    and "inj_on (code_drawn (svcs (ls_world s))) {next_id (ls_world s)..<next_id (ls_world s) + license_count inp * fuel}"
  shows "\<exists>dtos rows s'. createLicenses fuel actor inp s = (Inr (Some dtos), s') \<and> ls_keys s' = ls_keys s @ rows \<and>
    length dtos = license_count inp \<and> length rows = license_count inp \<and> license_count inp \<in> {1..50} \<and>
    distinct (map fst rows) \<and> fst ` set rows \<inter> fst ` set (ls_keys s) = {}"
proof -
  obtain rows s1 where r: "make_codes fuel inp (clock (ls_world s)) (license_count inp) [] s = (Inr (Some rows), s1)"
      "length rows = license_count inp" "distinct (map fst rows)" "fst ` set rows \<inter> fst ` set (ls_keys s) = {}" "ls_keys s1 = ls_keys s"
    using make_finds [of s "[]" "license_count inp" fuel inp "clock (ls_world s)"] assms(2,3) by auto
  let ?au = "in_world (audit (Some (adm_id actor)) ''license.create'' (JId (adm_id actor))
           [(''count'', JInt (int (license_count inp))), (''plan'', JStr (plan_text (opt_default (cl_plan inp) LP_PRO))),
            (''days'', JInt (min 3650 (max 0 (js_round (opt_default (cl_days inp) 0)))))] None)"
  obtain w where w: "?au (s1\<lparr>ls_keys := ls_keys s1 @ rows\<rparr>) = (Inr (), (s1\<lparr>ls_keys := ls_keys s1 @ rows\<rparr>)\<lparr>ls_world := w\<rparr>)"
    using audit_in_world by blast
  have "createLicenses fuel actor inp s =
     (Inr (Some (map (\<lambda>x. licenseDto (clock (ls_world s)) (snd x)) rows)), (s1\<lparr>ls_keys := ls_keys s1 @ rows\<rparr>)\<lparr>ls_world := w\<rparr>)"
    by (simp add: createLicenses_def owner_only_def assms(1) andthen_throw_if lic_now_def bnd_def [of "make_codes _ _ _ _ _"] r(1))
       (simp add: andthen_def bnd_def w ret_def)
  moreover have "license_count inp \<in> {1..50}" by (simp add: license_count_def) linarith
  ultimately show ?thesis using r by (intro exI conjI) auto
qed
text \<open>A concrete store: one code, which the first draw of the random source repeats.\<close>
definition demo_license :: license where
  "demo_license = \<lparr>lic_code = ''BBBBBBBBBBBB'', lic_plan = LP_PLUS, lic_features = [], lic_days = 30, lic_note = [], lic_createdAt = 0,
     lic_instanceId = [], lic_instanceUrl = [], lic_activatedAt = NoDate, lic_expiresAt = NoDate, lic_revoked = False\<rparr>"

definition demo_licenses :: license_state where
  "demo_licenses = \<lparr>ls_world = demo_world\<lparr>next_id := 1, svcs := demo_services\<lparr>ext_random_bytes := \<lambda>k n. replicate n k\<rparr>\<rparr>,
     ls_enforced = True, ls_keys = [(''BBBBBBBBBBBB'', demo_license)], ls_instance = no_license SRC_LOCAL, ls_instanceId = ''INSTALL-A'',
     ls_env = \<lparr>le_api = None, le_required = None, le_keys = None, le_version = None, le_vendorKey = None\<rparr>\<rparr>"

definition demo_mint :: create_licenses_input where
  "demo_mint = \<lparr>cl_count = None, cl_plan = None, cl_features = [], cl_days = None, cl_note = None\<rparr>"

theorem mint_terminates_witness:
  "\<exists>dtos rows s'. createLicenses 2 (demo_admin 2 OWNER 0) demo_mint demo_licenses = (Inr (Some dtos), s') \<and>
    ls_keys s' = ls_keys demo_licenses @ rows \<and> length rows = 1 \<and> fst ` set rows \<inter> {''BBBBBBBBBBBB''} = {}"
proof -
  have n: "license_count demo_mint = 1" by code_simp
  have "inj_on (code_drawn (svcs (ls_world demo_licenses))) {next_id (ls_world demo_licenses)..<next_id (ls_world demo_licenses) + license_count demo_mint * 2}"
    unfolding n by code_simp
  moreover have "length (ls_keys demo_licenses) + license_count demo_mint \<le> 2" by (simp add: n demo_licenses_def)
  moreover have "fst ` set (ls_keys demo_licenses) = {''BBBBBBBBBBBB''}" by (simp add: demo_licenses_def)
  ultimately show ?thesis
    using mint_terminates [of "demo_admin 2 OWNER 0" demo_licenses demo_mint 2] by (simp add: n) blast
qed

section \<open>A code belongs to one install\<close>

text \<open>A redemption that succeeded, and what it left.\<close>
lemma redeem_inr:
  assumes "redeemLicense inp s = (Inr r, s')"
  shows "rr_code r = normalizeCode (ri_code inp) \<and> install_of inp \<noteq> [] \<and>
    (\<exists>l. map_of (ls_keys s') (rr_code r) = Some l \<and> lic_instanceId l = install_of inp \<and> r = redeem_answer (rr_code r) l)"
proof -
  obtain l where l: "map_of (ls_keys s) (normalizeCode (ri_code inp)) = Some l" "redeemable (clock (ls_world s)) inp l"
    using redeem_fails [of s inp] assms by auto
  from assms show ?thesis
    using l(2) by (auto simp: redeem_runs [OF l] Let_def redeem_answer_def map_of_put_row redeemable_def)
qed

text \<open>
  C28: a code belongs to the first install that redeems it. After any further redemptions, revocations, new
  codes and passing of time, another install cannot redeem it and leaves the store unchanged, and the
  install that holds it gets the same plan, features and expiry again (or an error), so asking again never
  extends a license.
\<close>
theorem license_bound_once:
  assumes "redeemLicense inp s0 = (Inr r, s)" and "license_step\<^sup>*\<^sup>* s s'" and "normalizeCode (ri_code again) = rr_code r"
  shows "if install_of again = install_of inp
     then (\<forall>r' s''. redeemLicense again s' = (Inr r', s'') \<longrightarrow>
            rr_plan r' = rr_plan r \<and> rr_features r' = rr_features r \<and> rr_expiresAt r' = rr_expiresAt r)
     else (\<exists>e. redeemLicense again s' = (Inl e, s'))"
proof -
  from redeem_inr [OF assms(1)] obtain l where l: "install_of inp \<noteq> []" "map_of (ls_keys s) (rr_code r) = Some l"
      "lic_instanceId l = install_of inp" "r = redeem_answer (rr_code r) l" by blast
  have "held_by (rr_code r) (install_of inp) (lic_expiresAt l) (lic_plan l, lic_features l) s" using l by (simp add: held_by_def)
  then have "held_by (rr_code r) (install_of inp) (lic_expiresAt l) (lic_plan l, lic_features l) s'"
    by (rule held_run [OF assms(2) _ l(1)])
  then obtain l' where l': "map_of (ls_keys s') (rr_code r) = Some l'" "lic_instanceId l' = install_of inp"
      "lic_expiresAt l' = lic_expiresAt l" "lic_plan l' = lic_plan l" "lic_features l' = lic_features l"
    by (auto simp: held_by_def)
  show ?thesis
  proof (cases "install_of again = install_of inp")
    case False
    then have "\<not> redeemable (clock (ls_world s')) again l'" using l(1) l'(2) by (auto simp: redeemable_def)
    then have "\<exists>e. redeemLicense again s' = (Inl e, s')" by (intro redeem_fails) (simp add: assms(3) l'(1))
    with False show ?thesis by simp
  next
    case True
    have "rr_plan r' = rr_plan r \<and> rr_features r' = rr_features r \<and> rr_expiresAt r' = rr_expiresAt r"
      if *: "redeemLicense again s' = (Inr r', s'')" for r' s''
    proof -
      have run: "map_of (ls_keys s') (normalizeCode (ri_code again)) = Some l'" by (simp add: assms(3) l'(1))
      have ok: "redeemable (clock (ls_world s')) again l'"
        using redeem_fails [of s' again] * run by auto
      have "r' = redeem_answer (normalizeCode (ri_code again)) (bind_license (clock (ls_world s')) (install_of again) (ri_url again) l')"
        using * by (simp add: redeem_runs [OF run ok] Let_def)
      then show ?thesis
        by (subst (1 2 3) l(4)) (simp add: redeem_answer_def bind_held True l')
    qed
    with True show ?thesis by auto
  qed
qed

definition demo_redeem :: "string \<Rightarrow> redeem_input" where
  "demo_redeem i = \<lparr>ri_code = ''srp-bbbb-bbbb-bbbb'', ri_instanceId = i, ri_url = None, ri_version = None\<rparr>"

text \<open>A day passes between the two redemptions.\<close>
definition day_after :: "license_state \<Rightarrow> license_state" where
  "day_after s = s\<lparr>ls_world := (ls_world s)\<lparr>clock := clock (ls_world s) + DAY_MS\<rparr>\<rparr>"

lemma day_step: "license_step\<^sup>*\<^sup>* s (day_after s)"
  unfolding day_after_def by (rule r_into_rtranclp, rule later) (simp add: DAY_MS_def)

theorem license_bound_once_witness:
  "(\<exists>r. redeemLicense (demo_redeem ''A'') demo_licenses = (Inr r, snd (redeemLicense (demo_redeem ''A'') demo_licenses)) \<and>
     rr_expiresAt r = DateAt 2592001000) \<and>
   (let s' = day_after (snd (redeemLicense (demo_redeem ''A'') demo_licenses)) in
     (\<exists>e. redeemLicense (demo_redeem ''B'') s' = (Inl e, s')) \<and>
     map_option rr_expiresAt (case fst (redeemLicense (demo_redeem ''A'') s') of Inr r \<Rightarrow> Some r | Inl _ \<Rightarrow> None) = Some (DateAt 2592001000))"
proof -
  define s1 where "s1 = snd (redeemLicense (demo_redeem ''A'') demo_licenses)"
  define r where "r = redeem_answer ''BBBBBBBBBBBB'' (bind_license 1000 ''A'' None demo_license)"
  have r: "fst (redeemLicense (demo_redeem ''A'') demo_licenses) = Inr r" unfolding r_def by code_simp
  then have run: "redeemLicense (demo_redeem ''A'') demo_licenses = (Inr r, s1)" by (simp add: s1_def prod_eq_iff)
  have sel: "rr_code r = ''BBBBBBBBBBBB''" "rr_expiresAt r = DateAt 2592001000" unfolding r_def by code_simp+
  have b: "normalizeCode (ri_code (demo_redeem i)) = rr_code r" for i unfolding sel demo_redeem_def by (simp only: redeem_input.simps) code_simp
  have "install_of (demo_redeem ''B'') \<noteq> install_of (demo_redeem ''A'')" by code_simp
  with license_bound_once [OF run day_step b, of "''B''"] have "\<exists>e. redeemLicense (demo_redeem ''B'') (day_after s1) = (Inl e, day_after s1)" by simp
  moreover have "fst (redeemLicense (demo_redeem ''A'') (day_after s1)) = Inr r" unfolding r_def s1_def by code_simp
  then obtain s2 where r2: "redeemLicense (demo_redeem ''A'') (day_after s1) = (Inr r, s2)" by (metis eq_fst_iff)
  ultimately show ?thesis using run sel(2) r2 by (simp add: Let_def flip: s1_def)
qed

section \<open>What a check of the code decides\<close>

definition at_time :: "time \<Rightarrow> license_state \<Rightarrow> license_state" where
  "at_time tm s = s\<lparr>ls_world := (ls_world s)\<lparr>clock := tm\<rparr>\<rparr>"

definition unlocked :: "string \<Rightarrow> license_state \<Rightarrow> bool" where
  "unlocked f s \<longleftrightarrow> fst (requirePremium f s) = Inr ()"

text \<open>Reading the install id may draw it; nothing else of the licensing state changes.\<close>
definition install_id :: "license_state \<Rightarrow> string" where
  "install_id s = (case fst (panelInstanceId s) of Inr i \<Rightarrow> i | Inl e \<Rightarrow> [])"

lemma install_id_run:
  "\<exists>w i'. panelInstanceId s = (Inr (install_id s), s\<lparr>ls_world := (ls_world s)\<lparr>next_id := w\<rparr>, ls_instanceId := i'\<rparr>)"
proof (cases "ls_instanceId s = []")
  case True
  then show ?thesis
    by (auto simp: install_id_def panelInstanceId_def bnd_def gets_def in_world_def randomUUID_def new_id_def Let_def andthen_def modify_def ret_def)
next
  case False
  then show ?thesis
    by (simp add: install_id_def panelInstanceId_def bnd_def gets_def ret_def)
       (intro exI [of _ "next_id (ls_world s)"] exI [of _ "ls_instanceId s"], simp)
qed

text \<open>Facts that do not depend on the draws.\<close>
lemma redrawn [simp]:
  "isVendorInstall (s\<lparr>ls_world := (ls_world s)\<lparr>next_id := w\<rparr>, ls_instanceId := i'\<rparr>) = isVendorInstall s"
  "vendorVerify (s\<lparr>ls_world := (ls_world s)\<lparr>next_id := w\<rparr>, ls_instanceId := i'\<rparr>) = vendorVerify s"
  by (simp_all add: isVendorInstall_def vendorVerify_def vendorApiBase_def panel_url_def fun_eq_iff)

text \<open>The gate: the vendor's panel, or a live code with the feature.\<close>
definition gate :: "bool \<Rightarrow> instance_license \<Rightarrow> time \<Rightarrow> string \<Rightarrow> bool" where
  "gate vendor lic tm f \<longleftrightarrow> (if vendor then f \<in> set LICENSE_FEATURES
     else license_live tm lic \<and> f \<in> set (licenseFeatures (il_features lic) (il_plan lic)))"

lemma unlocked_iff: "unlocked f s = gate (isVendorInstall s) (ls_instance s) (clock (ls_world s)) f"
  using install_id_run [of s]
  by (auto simp: unlocked_def requirePremium_def panelHasFeature_def panelEntitlements_def bnd_def gets_def ret_def
      throw_if_def throw_def entitlement_now_def Let_def gate_def split: if_splits)

lemma at_time_sel [simp]:
  "ls_instance (at_time tm s) = ls_instance s" "clock (ls_world (at_time tm s)) = tm" "isVendorInstall (at_time tm s) = isVendorInstall s"
  by (simp_all add: at_time_def isVendorInstall_def)

lemma entitlements_end: "\<exists>e s'. panelEntitlements s = (Inr e, s') \<and> ls_instance s' = ls_instance s \<and>
    isVendorInstall s' = isVendorInstall s \<and> clock (ls_world s') = clock (ls_world s)"
  using install_id_run [of s] by (auto simp: panelEntitlements_def bnd_def gets_def)

lemma recheck_run:
  assumes "\<not> isVendorInstall s" and "il_code (ls_instance s) \<noteq> []"
  shows "\<exists>e s'. recheckLicense None s = (Inr e, s') \<and> \<not> isVendorInstall s' \<and> clock (ls_world s') = clock (ls_world s) \<and>
    ls_instance s' = after_check (clock (ls_world s)) (vendorVerify s (il_code (ls_instance s)) (install_id s)) (ls_instance s)"
proof -
  obtain w i' where i: "panelInstanceId s = (Inr (install_id s), s\<lparr>ls_world := (ls_world s)\<lparr>next_id := w\<rparr>, ls_instanceId := i'\<rparr>)"
    using install_id_run by blast
  let ?lic = "after_check (clock (ls_world s)) (vendorVerify s (il_code (ls_instance s)) (install_id s)) (ls_instance s)"
  let ?s = "s\<lparr>ls_world := (ls_world s)\<lparr>next_id := w\<rparr>, ls_instanceId := i', ls_instance := ?lic\<rparr>"
  have "recheckLicense None s = panelEntitlements ?s"
    using assms by (simp add: recheckLicense_def andthen_throw_if bnd_def [of panelInstanceId] i lic_now_def persistInstance_def)
       (simp add: andthen_def bnd_def modify_def ret_def)
  moreover have "isVendorInstall ?s = isVendorInstall s" by (simp add: isVendorInstall_def)
  ultimately show ?thesis using entitlements_end [of ?s] assms(1) by auto
qed

text \<open>
  C29: what a check of the stored code decides. A refusal locks every premium section from that moment until
  another check, at any later time, and keeps the code; an unreachable server changes nothing: what was
  unlocked stays so exactly as long as without the check (seven days after the last good check, or to the
  expiry); a good answer unlocks the features it grants for seven days or to its expiry. The check itself
  never fails.
\<close>
theorem recheck_decides_premium:
  assumes "\<not> isVendorInstall s" and "il_code (ls_instance s) \<noteq> []"
  shows "\<exists>e s'. recheckLicense None s = (Inr e, s') \<and> il_code (ls_instance s') = il_code (ls_instance s) \<and>
    (\<forall>tm f. unlocked f (at_time tm s') =
      (case vendorVerify s (il_code (ls_instance s)) (install_id s) of
         Refused m \<Rightarrow> False
       | Unreachable m \<Rightarrow> unlocked f (at_time tm s)
       | Verified v \<Rightarrow> \<not> past tm (rr_expiresAt v) \<and> tm \<le> clock (ls_world s) + 7 * DAY_MS \<and>
           f \<in> set (licenseFeatures (rr_features v) (rr_plan v))))"
proof -
  obtain e s' where r: "recheckLicense None s = (Inr e, s')" "\<not> isVendorInstall s'"
    "ls_instance s' = after_check (clock (ls_world s)) (vendorVerify s (il_code (ls_instance s)) (install_id s)) (ls_instance s)"
    using recheck_run [OF assms] by blast
  have "il_code (ls_instance s') = il_code (ls_instance s)" by (simp add: r(3) after_check_def split: verify_outcome.split)
  moreover have "unlocked f (at_time tm s') =
      (case vendorVerify s (il_code (ls_instance s)) (install_id s) of
         Refused m \<Rightarrow> False
       | Unreachable m \<Rightarrow> unlocked f (at_time tm s)
       | Verified v \<Rightarrow> \<not> past tm (rr_expiresAt v) \<and> tm \<le> clock (ls_world s) + 7 * DAY_MS \<and>
           f \<in> set (licenseFeatures (rr_features v) (rr_plan v)))" for tm f
    using assms r(2)
    by (auto simp: unlocked_iff gate_def r(3) after_check_def license_live_def panelStatus_def check_fresh_def check_age_def
        LICENSE_GRACE_DAYS_def split: verify_outcome.split)
  ultimately show ?thesis using r(1) by blast
qed

text \<open>A panel whose server answers with a client error, as it does when an address asks too often.\<close>
definition demo_install :: "http_reply \<Rightarrow> license_state" where
  "demo_install reply = demo_licenses\<lparr>ls_world := demo_world\<lparr>svcs := demo_services\<lparr>ext_http_json := \<lambda>_ _ _. reply\<rparr>\<rparr>,
     ls_instance := (no_license SRC_REMOTE)\<lparr>il_code := ''BBBBBBBBBBBB'', il_plan := LP_PRO, il_lastCheck := DateAt 0\<rparr>\<rparr>"

definition demo_limited :: license_state where
  "demo_limited = demo_install (HttpReply 400 (Inl ''too many''))"

theorem recheck_decides_premium_witness:
  "unlocked ''store'' demo_limited \<and> \<not> unlocked ''store'' (snd (recheckLicense None demo_limited))"
proof -
  have "\<exists>m. vendorVerify demo_limited (il_code (ls_instance demo_limited)) (install_id demo_limited) = Refused m"
    by (simp add: vendorVerify_def demo_limited_def demo_install_def demo_services_def)
  moreover have "\<not> isVendorInstall demo_limited" "il_code (ls_instance demo_limited) \<noteq> []" by code_simp+
  ultimately obtain e s' where r: "recheckLicense None demo_limited = (Inr e, s')" "\<And>tm f. \<not> unlocked f (at_time tm s')"
    using recheck_decides_premium [of demo_limited] by auto
  have "at_time (clock (ls_world s')) s' = s'" by (simp add: at_time_def)
  with r(2) [of "''store''" "clock (ls_world s')"] have "\<not> unlocked ''store'' s'" by simp
  moreover have "unlocked ''store'' demo_limited" by code_simp
  ultimately show ?thesis using r(1) by simp
qed

text \<open>
  An answer with status 200 and a body that is not JSON counts as a positive answer: any twelve characters
  then unlock every feature, without an expiry.
\<close>
lemma unreadable_answer_unlocks:
  assumes "ext_http_json (svcs (ls_world s)) (clock (ls_world s)) (vendorApiBase s @ ''/api/license/verify'')
      (redeem_json \<lparr>ri_code = code, ri_instanceId = i, ri_url = Some (panel_url s), ri_version = Some (opt_default (le_version (ls_env s)) [])\<rparr>)
      = HttpReply 200 (Inl t)"
  shows "\<exists>v. vendorVerify s code i = Verified v \<and> licenseFeatures (rr_features v) (rr_plan v) = LICENSE_FEATURES \<and> rr_expiresAt v = NoDate"
proof -
  have "plan_of_text (js_String None) = None" "\<not> js_truthy None" by code_simp+
  then show ?thesis using assms
    by (simp add: vendorVerify_def Let_def answer_license_def answer_field_def answer_features_def answer_date_def licenseFeatures_def
        planFeatures_def)
qed

end
