(* ===== verification/Monitoring.thy ===== *)
theory Monitoring
  imports Events Bytes Demo
begin

text \<open>
  \<open>monitoring.ts\<close>: the worker's job that opens and resolves incidents from the recorded checks of a server,
  the manual resolution, the uptime figures and the overview page. The tables \<open>Incident\<close> and \<open>ServerMetric\<close>,
  the columns of \<open>Server\<close> that the monitor reads and its settings are fields of \<open>mon_state\<close>, beside the
  state of the panel that notifications and webhooks use.
\<close>

datatype incident_kind = K_OFFLINE | K_AUTH_ERROR | K_XRAY_DOWN | K_HIGH_CPU

datatype incident_status = INC_OPEN | INC_RESOLVED

record incident =
  inc_id :: uid
  inc_serverId :: uid
  inc_kind :: incident_kind
  inc_status :: incident_status
  inc_message :: "string option"
  inc_startedAt :: time
  inc_resolvedAt :: "time option"
  inc_notifiedAt :: "time option"

record server_metric =
  met_serverId :: uid
  met_at :: time
  met_online :: bool
  met_latencyMs :: "int option"
  met_cpu :: "rat option"
  met_memUsed :: "int option"
  met_memTotal :: "int option"
  met_xrayState :: "string option"

datatype server_status = SRV_UNKNOWN | SRV_ONLINE | SRV_OFFLINE | SRV_AUTH_ERROR

record watched =
  wa_id :: uid
  wa_name :: string
  wa_isActive :: bool
  wa_status :: server_status
  wa_lastError :: "string option"
  wa_lastSeenAt :: "time option"
  wa_clients :: nat

record monitoring_settings =
  failThreshold :: nat
  cpuThreshold :: int

record mon_state =
  mo_world :: world
  mo_servers :: "watched list"
  mo_metrics :: "server_metric list"
  mo_incidents :: "incident list"
  mo_cfg :: monitoring_settings
  mo_notifyIncidents :: bool

definition in_panel :: "(world, 'a) op \<Rightarrow> (mon_state, 'a) op" where
  "in_panel m s = (case m (mo_world s) of (r, w') \<Rightarrow> (r, s\<lparr>mo_world := w'\<rparr>))"

definition mon_now :: "(mon_state, time) op" where
  "mon_now = gets (\<lambda>s. clock (mo_world s))"

definition set_incidents :: "(incident list \<Rightarrow> incident list) \<Rightarrow> (mon_state, unit) op" where
  "set_incidents f = modify (\<lambda>s. s\<lparr>mo_incidents := f (mo_incidents s)\<rparr>)"

definition incident_kind_text :: "incident_kind \<Rightarrow> string" where
  "incident_kind_text k = (case k of K_OFFLINE \<Rightarrow> ''OFFLINE'' | K_AUTH_ERROR \<Rightarrow> ''AUTH_ERROR'' | K_XRAY_DOWN \<Rightarrow> ''XRAY_DOWN''
     | K_HIGH_CPU \<Rightarrow> ''HIGH_CPU'')"

section \<open>Opening and resolving\<close>

definition new_incident :: "uid \<Rightarrow> time \<Rightarrow> watched \<Rightarrow> incident_kind \<Rightarrow> string option \<Rightarrow> incident" where
  "new_incident i tm sv kind message =
    \<lparr>inc_id = i, inc_serverId = wa_id sv, inc_kind = kind, inc_status = INC_OPEN,
     inc_message = str_or message None (\<lambda>m. Some (take 500 m)), inc_startedAt = tm, inc_resolvedAt = None, inc_notifiedAt = None\<rparr>"

definition server_json :: "watched \<Rightarrow> json" where
  "server_json sv = JObj [(''id'', JId (wa_id sv)), (''name'', JStr (wa_name sv))]"

definition openIncident :: "watched \<Rightarrow> incident_kind \<Rightarrow> string option \<Rightarrow> (mon_state, incident) op" where
  "openIncident sv kind message =
    bnd (in_panel new_id) (\<lambda>i. bnd mon_now (\<lambda>tm.
    let inc = new_incident i tm sv kind message in
    andthen (set_incidents (\<lambda>rows. rows @ [inc]))
    (bnd (gets mo_notifyIncidents) (\<lambda>tell.
     andthen (do_when tell (bnd (in_panel (notify ''server.incident_opened'' [JStr ''incident.open'', JId i] (JId (wa_id sv)) to_owner)) (\<lambda>okay.
        do_when okay (set_incidents (upd_rows (\<lambda>r. inc_id r = i) (\<lambda>r. r\<lparr>inc_notifiedAt := Some tm\<rparr>))))))
     (andthen (in_panel (emitEvent None ''server.incident_opened'' [(''target'', JId (wa_id sv)), (''server'', server_json sv),
        (''incident'', JObj [(''id'', JId i), (''kind'', JStr (incident_kind_text kind)), (''message'', opt_json JStr (inc_message inc)),
           (''startedAt'', JInt tm)])]))
     (ret inc))))))"

definition resolveIncident :: "incident \<Rightarrow> watched \<Rightarrow> bool \<Rightarrow> (mon_state, incident) op" where
  "resolveIncident inc sv manual =
    bnd mon_now (\<lambda>tm.
    bnd (gets (\<lambda>s. find_row inc_id (inc_id inc) (mo_incidents s))) (\<lambda>found. bnd (or_throw found record_not_found) (\<lambda>cur.
    andthen (set_incidents (upd_rows (\<lambda>r. inc_id r = inc_id inc) (\<lambda>r. r\<lparr>inc_status := INC_RESOLVED, inc_resolvedAt := Some tm\<rparr>)))
    (bnd (gets mo_notifyIncidents) (\<lambda>tell.
     andthen (do_when tell (in_panel (notify_void ''server.incident_resolved'' [JStr ''incident.resolve'', JId (inc_id inc)] (JId (wa_id sv)) to_owner)))
     (andthen (in_panel (emitEvent None ''server.incident_resolved'' [(''target'', JId (wa_id sv)), (''server'', server_json sv),
        (''incident'', JObj [(''id'', JId (inc_id inc)), (''kind'', JStr (incident_kind_text (inc_kind inc))), (''startedAt'', JInt (inc_startedAt inc)),
           (''resolvedAt'', JInt tm), (''manual'', JBool manual)])]))
     (ret (cur\<lparr>inc_status := INC_RESOLVED, inc_resolvedAt := Some tm\<rparr>))))))))"

section \<open>The worker's round\<close>

definition open_of :: "uid \<Rightarrow> mon_state \<Rightarrow> incident list" where
  "open_of sid s = filter (\<lambda>i. inc_serverId i = sid \<and> inc_status i = INC_OPEN) (mo_incidents s)"

definition find_kind :: "incident_kind \<Rightarrow> incident list \<Rightarrow> incident option" where
  "find_kind k incs = find (\<lambda>i. inc_kind i = k) incs"

definition recent_metrics :: "monitoring_settings \<Rightarrow> uid \<Rightarrow> mon_state \<Rightarrow> server_metric list" where
  "recent_metrics m sid s =
    take (max (failThreshold m) 3) (sort_key (\<lambda>r. - met_at r) (filter (\<lambda>r. met_serverId r = sid) (mo_metrics s)))"

definition is_down :: "monitoring_settings \<Rightarrow> server_metric list \<Rightarrow> bool" where
  "is_down m recent \<longleftrightarrow> (let lastN = take (failThreshold m) recent in
     failThreshold m \<le> length lastN \<and> list_all (\<lambda>r. \<not> met_online r) lastN)"

definition xray_down :: "server_metric \<Rightarrow> bool" where
  "xray_down r \<longleftrightarrow> str_or (met_xrayState r) False (\<lambda>x. x \<noteq> ''running'')"

definition cpu_of :: "server_metric \<Rightarrow> rat" where
  "cpu_of r = opt_default (met_cpu r) 0"

definition cpu_high :: "monitoring_settings \<Rightarrow> server_metric list \<Rightarrow> bool" where
  "cpu_high m recent \<longleftrightarrow> length (take 3 recent) = 3 \<and> list_all (\<lambda>r. of_int (cpuThreshold m) \<le> cpu_of r) (take 3 recent)"

definition cpu_low :: "monitoring_settings \<Rightarrow> server_metric \<Rightarrow> bool" where
  "cpu_low m r \<longleftrightarrow> cpu_of r < of_int (max 0 (cpuThreshold m - 10))"

record round_count =
  rnd_opened :: nat
  rnd_resolved :: nat

definition and_open :: "watched \<Rightarrow> incident_kind \<Rightarrow> string option \<Rightarrow> round_count \<Rightarrow> (mon_state, round_count) op" where
  "and_open sv kind message c = andthen (bnd (openIncident sv kind message) (\<lambda>_. ret ())) (ret (c\<lparr>rnd_opened := Suc (rnd_opened c)\<rparr>))"

definition and_resolve :: "watched \<Rightarrow> incident \<Rightarrow> round_count \<Rightarrow> (mon_state, round_count) op" where
  "and_resolve sv i c = andthen (bnd (resolveIncident i sv False) (\<lambda>_. ret ())) (ret (c\<lparr>rnd_resolved := Suc (rnd_resolved c)\<rparr>))"

definition resolve_kind :: "watched \<Rightarrow> incident list \<Rightarrow> incident_kind \<Rightarrow> round_count \<Rightarrow> (mon_state, round_count) op" where
  "resolve_kind sv incs k c = (case find_kind k incs of Some i \<Rightarrow> and_resolve sv i c | None \<Rightarrow> ret c)"

definition check_reach :: "monitoring_settings \<Rightarrow> watched \<Rightarrow> incident list \<Rightarrow> server_metric list \<Rightarrow> round_count \<Rightarrow> (mon_state, round_count) op" where
  "check_reach m sv incs recent c =
    (if is_down m recent then
       (if find_kind K_OFFLINE incs = None \<and> find_kind K_AUTH_ERROR incs = None
        then and_open sv (if wa_status sv = SRV_AUTH_ERROR then K_AUTH_ERROR else K_OFFLINE) (wa_lastError sv) c
        else ret c)
     else if met_online (hd recent) then
       bnd (resolve_kind sv incs K_OFFLINE c) (resolve_kind sv incs K_AUTH_ERROR)
     else ret c)"

definition check_xray :: "watched \<Rightarrow> incident list \<Rightarrow> server_metric \<Rightarrow> round_count \<Rightarrow> (mon_state, round_count) op" where
  "check_xray sv incs latest c =
    (case find_kind K_XRAY_DOWN incs of
       None \<Rightarrow> if xray_down latest then and_open sv K_XRAY_DOWN (Some (''xray: '' @ opt_default (met_xrayState latest) [])) c else ret c
     | Some i \<Rightarrow> if \<not> xray_down latest then and_resolve sv i c else ret c)"

definition check_cpu :: "monitoring_settings \<Rightarrow> watched \<Rightarrow> incident list \<Rightarrow> server_metric list \<Rightarrow> round_count \<Rightarrow> (mon_state, round_count) op" where
  "check_cpu m sv incs recent c =
    (case find_kind K_HIGH_CPU incs of
       None \<Rightarrow> if cpu_high m recent then and_open sv K_HIGH_CPU (Some (''CPU '' @ show_int (js_round (cpu_of (hd recent))) @ ''%'')) c else ret c
     | Some i \<Rightarrow> if cpu_low m (hd recent) then and_resolve sv i c else ret c)"

definition evaluate_server :: "monitoring_settings \<Rightarrow> watched \<times> incident list \<Rightarrow> round_count \<Rightarrow> (mon_state, round_count) op" where
  "evaluate_server m sv_incs c =
    (case sv_incs of (sv, incs) \<Rightarrow>
     bnd (gets (recent_metrics m (wa_id sv))) (\<lambda>recent.
     if recent = [] then ret c
     else bnd (check_reach m sv incs recent c) (\<lambda>c.
       if met_online (hd recent)
       then bnd (check_xray sv incs (hd recent) c) (check_cpu m sv incs recent)
       else ret c)))"

text \<open>The servers and their open incidents are read once, before the loop.\<close>
definition evaluateIncidents :: "(mon_state, round_count) op" where
  "evaluateIncidents =
    bnd (gets mo_cfg) (\<lambda>m.
    bnd (gets (\<lambda>s. map (\<lambda>sv. (sv, open_of (wa_id sv) s)) (filter wa_isActive (mo_servers s)))) (\<lambda>work.
    fold_op (evaluate_server m) work \<lparr>rnd_opened = 0, rnd_resolved = 0\<rparr>))"

definition resolveIncidentManually :: "uid \<Rightarrow> (mon_state, incident) op" where
  "resolveIncidentManually i =
    bnd (gets (\<lambda>s. find_row inc_id i (mo_incidents s))) (\<lambda>found.
    bnd (or_throw found (not_found_error ''incident not found'')) (\<lambda>inc.
    if inc_status inc = INC_RESOLVED then ret inc
    else bnd (gets (\<lambda>s. find_row wa_id (inc_serverId inc) (mo_servers s))) (\<lambda>sv.
      bnd (or_throw sv record_not_found) (\<lambda>sv. resolveIncident inc sv True))))"

section \<open>The views\<close>

definition status_rank :: "incident_status \<Rightarrow> nat" where
  "status_rank st = (case st of INC_OPEN \<Rightarrow> 0 | INC_RESOLVED \<Rightarrow> 1)"

text \<open>Open incidents first, the newest first.\<close>
definition ordered_incidents :: "incident list \<Rightarrow> incident list" where
  "ordered_incidents rows = sort_key (\<lambda>i. status_rank (inc_status i)) (sort_key (\<lambda>i. - inc_startedAt i) rows)"

definition listIncidents :: "incident_status option \<Rightarrow> nat option \<Rightarrow> nat option \<Rightarrow> mon_state \<Rightarrow> incident list \<times> nat" where
  "listIncidents status tk sk s =
    (let rows = filter (\<lambda>i. case status of Some st \<Rightarrow> inc_status i = st | None \<Rightarrow> True) (mo_incidents s) in
     (take (opt_default tk 50) (drop (opt_default sk 0) (ordered_incidents rows)), length rows))"

definition metrics_since :: "time \<Rightarrow> uid \<Rightarrow> mon_state \<Rightarrow> server_metric list" where
  "metrics_since since sid s = filter (\<lambda>r. met_serverId r = sid \<and> since \<le> met_at r) (mo_metrics s)"

text \<open>The entry of a server in the answer; \<open>None\<close> when it has no checks in the window.\<close>
definition uptimeSummary :: "int \<Rightarrow> mon_state \<Rightarrow> uid \<Rightarrow> rat option" where
  "uptimeSummary hours s sid =
    (let rows = metrics_since (clock (mo_world s) - hours * 3600000) sid s; total = length rows; online = length (filter met_online rows) in
     if total = 0 then None else Some (of_int (js_round (of_nat online / of_nat total * 1000)) / 10))"

definition downsample :: "'a list \<Rightarrow> nat \<Rightarrow> 'a list" where
  "downsample rows mx = (if length rows \<le> mx then rows
     else map (\<lambda>i. rows ! nat \<lfloor>of_nat i * (of_nat (length rows) / of_nat mx :: rat)\<rfloor>) [0..<mx])"

record server_overview =
  so_server :: watched
  so_uptime24 :: "rat option"
  so_uptime7d :: "rat option"
  so_latencyMs :: "int option"
  so_cpu :: "rat option"
  so_memPct :: "int option"
  so_xrayState :: "string option"
  so_openIncidents :: nat
  so_latency :: "(time \<times> int option) list"

definition mem_pct :: "server_metric \<Rightarrow> int option" where
  "mem_pct r = (case met_memTotal r of
     Some t \<Rightarrow> if 0 < t then Some (js_round (of_int (opt_default (met_memUsed r) 0) / of_int t * 100)) else None
   | None \<Rightarrow> None)"

definition server_row :: "mon_state \<Rightarrow> watched \<Rightarrow> server_overview" where
  "server_row s sv =
    (let rows = sort_key met_at (metrics_since (clock (mo_world s) - 24 * 3600000) (wa_id sv) s);
         newest = (if rows = [] then None else Some (last rows)) in
     \<lparr>so_server = sv, so_uptime24 = uptimeSummary 24 s (wa_id sv), so_uptime7d = uptimeSummary (24 * 7) s (wa_id sv),
      so_latencyMs = Option.bind newest met_latencyMs, so_cpu = Option.bind newest met_cpu, so_memPct = Option.bind newest mem_pct,
      so_xrayState = Option.bind newest met_xrayState, so_openIncidents = length (open_of (wa_id sv) s),
      so_latency = map (\<lambda>r. (met_at r, if met_online r then met_latencyMs r else None)) (downsample rows 60)\<rparr>)"

text \<open>The mean of the known values, to one decimal.\<close>
definition avg_known :: "rat option list \<Rightarrow> rat option" where
  "avg_known xs = (let known = map the (filter (\<lambda>x. x \<noteq> None) xs) in
     if known = [] then None else Some (of_int (js_round (sum_list known / of_nat (length known) * 10)) / 10))"

record monitoring_overview =
  mv_servers :: nat
  mv_online :: nat
  mv_openIncidents :: nat
  mv_uptime24 :: "rat option"
  mv_uptime7d :: "rat option"
  mv_list :: "server_overview list"
  mv_incidents :: "incident list"

text \<open>\<open>rank\<close> is the place of a name in the order of the database.\<close>
definition monitoringOverview :: "(string \<Rightarrow> nat) \<Rightarrow> mon_state \<Rightarrow> monitoring_overview" where
  "monitoringOverview rank s =
    (let rows = map (server_row s) (sort_key (\<lambda>sv. rank (wa_name sv)) (mo_servers s)); incs = take 30 (ordered_incidents (mo_incidents s)) in
     \<lparr>mv_servers = length (mo_servers s), mv_online = length (filter (\<lambda>sv. wa_status sv = SRV_ONLINE) (mo_servers s)),
      mv_openIncidents = length (filter (\<lambda>i. inc_status i = INC_OPEN) incs),
      mv_uptime24 = avg_known (map so_uptime24 rows), mv_uptime7d = avg_known (map so_uptime7d rows),
      mv_list = rows, mv_incidents = incs\<rparr>)"

lemma downsample_bounds: "length (downsample rows mx) \<le> mx" "set (downsample rows mx) \<subseteq> set rows"
proof -
  have "nat \<lfloor>of_nat i * (of_nat (length rows) / of_nat mx :: rat)\<rfloor> < length rows" if "i < mx" "mx < length rows" for i
  proof -
    have "of_nat i * (of_nat (length rows) / of_nat mx) < (of_nat (length rows) :: rat)"
      using that by (simp add: field_simps) (intro mult_strict_right_mono, auto)
    then show ?thesis by (simp add: nat_less_iff floor_less_iff)
  qed
  then show "set (downsample rows mx) \<subseteq> set rows" by (auto simp: downsample_def)
  show "length (downsample rows mx) \<le> mx" by (simp add: downsample_def)
qed

lemma uptime_bounds:
  assumes "uptimeSummary hours s sid = Some p" shows "0 \<le> p \<and> p \<le> 100"
proof -
  define rows where "rows = metrics_since (clock (mo_world s) - hours * 3600000) sid s"
  define x :: rat where "x = of_nat (length (filter met_online rows)) / of_nat (length rows) * 1000"
  have r: "rows \<noteq> []" "p = of_int (js_round x) / 10"
    using assms by (auto simp: uptimeSummary_def Let_def rows_def x_def split: if_splits)
  have "length (filter met_online rows) \<le> length rows" by simp
  then have "0 \<le> x" "x \<le> 1000" using r(1) by (simp_all add: x_def divide_le_eq)
  then have "0 \<le> js_round x" "js_round x \<le> 1000" by (simp_all add: js_round_def floor_le_iff)
  then show ?thesis using r(2) by simp
qed

section \<open>What a round does to the open incidents\<close>

text \<open>A server has at most one open incident of each slot: reachability, xray, processor.\<close>
datatype slot = REACH | XRAY | CPU

definition slot_of :: "incident_kind \<Rightarrow> slot" where
  "slot_of k = (case k of K_OFFLINE \<Rightarrow> REACH | K_AUTH_ERROR \<Rightarrow> REACH | K_XRAY_DOWN \<Rightarrow> XRAY | K_HIGH_CPU \<Rightarrow> CPU)"

definition slot_rows :: "uid \<Rightarrow> slot \<Rightarrow> incident list \<Rightarrow> incident list" where
  "slot_rows sid sl rows = filter (\<lambda>i. inc_serverId i = sid \<and> inc_status i = INC_OPEN \<and> slot_of (inc_kind i) = sl) rows"

text \<open>The kinds of the open incidents of one slot.\<close>
definition open_kinds :: "uid \<Rightarrow> slot \<Rightarrow> mon_state \<Rightarrow> incident_kind list" where
  "open_kinds sid sl s = map inc_kind (slot_rows sid sl (mo_incidents s))"

definition ids_ok :: "mon_state \<Rightarrow> bool" where
  "ids_ok s \<longleftrightarrow> distinct (map inc_id (mo_incidents s)) \<and> (\<forall>i \<in> set (mo_incidents s). inc_id i < next_id (mo_world s))"

definition mon_ok :: "mon_state \<Rightarrow> bool" where
  "mon_ok s \<longleftrightarrow> ids_ok s \<and> distinct (map wa_id (mo_servers s)) \<and> (\<forall>sid sl. length (open_kinds sid sl s) \<le> 1)"

text \<open>The abstract rules: the next kinds of a slot, from the checks and the kinds before.\<close>
definition next_reach :: "monitoring_settings \<Rightarrow> watched \<Rightarrow> server_metric list \<Rightarrow> incident_kind list \<Rightarrow> incident_kind list" where
  "next_reach m sv recent ks =
    (if is_down m recent then (if ks = [] then [if wa_status sv = SRV_AUTH_ERROR then K_AUTH_ERROR else K_OFFLINE] else ks)
     else if met_online (hd recent) then [] else ks)"

definition next_xray :: "server_metric \<Rightarrow> incident_kind list \<Rightarrow> incident_kind list" where
  "next_xray latest ks = (if \<not> xray_down latest then [] else if ks = [] then [K_XRAY_DOWN] else ks)"

definition next_cpu :: "monitoring_settings \<Rightarrow> server_metric list \<Rightarrow> incident_kind list \<Rightarrow> incident_kind list" where
  "next_cpu m recent ks =
    (if ks = [] then (if cpu_high m recent then [K_HIGH_CPU] else []) else if cpu_low m (hd recent) then [] else ks)"

definition next_kinds :: "monitoring_settings \<Rightarrow> watched \<Rightarrow> server_metric list \<Rightarrow> slot \<Rightarrow> incident_kind list \<Rightarrow> incident_kind list" where
  "next_kinds m sv recent sl ks =
    (if recent = [] then ks
     else case sl of
       REACH \<Rightarrow> next_reach m sv recent ks
     | XRAY \<Rightarrow> if met_online (hd recent) then next_xray (hd recent) ks else ks
     | CPU \<Rightarrow> if met_online (hd recent) then next_cpu m recent ks else ks)"

definition same_setup :: "mon_state \<Rightarrow> mon_state \<Rightarrow> bool" where
  "same_setup s s' \<longleftrightarrow> mo_servers s' = mo_servers s \<and> mo_metrics s' = mo_metrics s \<and> mo_cfg s' = mo_cfg s \<and>
     mo_notifyIncidents s' = mo_notifyIncidents s"

text \<open>A step that changes at most one slot of one server.\<close>
definition touched :: "uid \<Rightarrow> slot \<Rightarrow> mon_state \<Rightarrow> mon_state \<Rightarrow> bool" where
  "touched sid sl s s' \<longleftrightarrow> ids_ok s' \<and>
    (\<forall>sid' sl'. (sid', sl') \<noteq> (sid, sl) \<longrightarrow> slot_rows sid' sl' (mo_incidents s') = slot_rows sid' sl' (mo_incidents s)) \<and>
    same_setup s s'"

lemma touched_refl: "ids_ok s \<Longrightarrow> touched sid sl s s"
  by (simp add: touched_def same_setup_def)

lemma touched_trans: "touched sid sl s s1 \<Longrightarrow> touched sid sl s1 s' \<Longrightarrow> touched sid sl s s'"
  by (auto simp: touched_def same_setup_def)

lemma in_panel_quiet:
  assumes "quiet m"
  shows "\<exists>x w. in_panel m s = (Inr x, s\<lparr>mo_world := w\<rparr>) \<and> next_id (mo_world s) \<le> next_id w"
proof -
  obtain x w where "m (mo_world s) = (Inr x, w)" "events_only (mo_world s) w" using assms unfolding quiet_def by blast
  then show ?thesis by (auto simp: in_panel_def events_only_def)
qed

lemma open_run:
  assumes "ids_ok s"
  shows "\<exists>inc s' row. openIncident sv k msg s = (Inr inc, s') \<and> same_setup s s' \<and> mo_incidents s' = mo_incidents s @ [row] \<and>
    next_id (mo_world s) < next_id (mo_world s') \<and> inc_id row = next_id (mo_world s) \<and>
    inc_serverId row = wa_id sv \<and> inc_kind row = k \<and> inc_status row = INC_OPEN"
proof -
  define i where "i = next_id (mo_world s)"
  define tm where "tm = clock (mo_world s)"
  define inc where "inc = new_incident i tm sv k msg"
  define s1 where "s1 = s\<lparr>mo_world := (mo_world s)\<lparr>next_id := Suc i\<rparr>, mo_incidents := mo_incidents s @ [inc]\<rparr>"
  define tell where "tell = do_when (mo_notifyIncidents s) (bnd (in_panel (notify ''server.incident_opened'' [JStr ''incident.open'', JId i] (JId (wa_id sv)) to_owner)) (\<lambda>okay.
        do_when okay (set_incidents (upd_rows (\<lambda>r. inc_id r = i) (\<lambda>r. r\<lparr>inc_notifiedAt := Some tm\<rparr>)))))"
  define emit where "emit = in_panel (emitEvent None ''server.incident_opened'' [(''target'', JId (wa_id sv)), (''server'', server_json sv),
        (''incident'', JObj [(''id'', JId i), (''kind'', JStr (incident_kind_text k)), (''message'', opt_json JStr (inc_message inc)),
           (''startedAt'', JInt tm)])])"
  have old: "upd_rows (\<lambda>r. inc_id r = i) f (mo_incidents s) = mo_incidents s" for f
    using assms by (auto simp: upd_rows_def ids_ok_def i_def intro!: map_idI)
  have "\<exists>s2 row. tell s1 = (Inr (), s2) \<and> same_setup s s2 \<and> mo_incidents s2 = mo_incidents s @ [row] \<and> Suc i \<le> next_id (mo_world s2) \<and>
      (row = inc \<or> row = inc\<lparr>inc_notifiedAt := Some tm\<rparr>)"
  proof (cases "mo_notifyIncidents s")
    case True
    obtain okay w where n: "in_panel (notify ''server.incident_opened'' [JStr ''incident.open'', JId i] (JId (wa_id sv)) to_owner) s1 =
        (Inr okay, s1\<lparr>mo_world := w\<rparr>)" "next_id (mo_world s1) \<le> next_id w"
      using in_panel_quiet [OF quiet_notify] by blast
    have "upd_rows (\<lambda>r. inc_id r = i) f (mo_incidents s @ [inc]) = mo_incidents s @ [f inc]" for f
      using old [of f] by (simp add: upd_rows_def inc_def new_incident_def)
    then show ?thesis
      using n True by (cases okay) (auto simp: tell_def bnd_def s1_def set_incidents_def modify_def ret_def same_setup_def)
  qed (auto simp: tell_def s1_def ret_def same_setup_def)
  then obtain s2 row where t: "tell s1 = (Inr (), s2)" "same_setup s s2" "mo_incidents s2 = mo_incidents s @ [row]"
    "Suc i \<le> next_id (mo_world s2)" "row = inc \<or> row = inc\<lparr>inc_notifiedAt := Some tm\<rparr>" by blast
  obtain w' where e: "emit s2 = (Inr (), s2\<lparr>mo_world := w'\<rparr>)" "next_id (mo_world s2) \<le> next_id w'"
    unfolding emit_def using in_panel_quiet [OF quiet_emitEvent, of None _ _ s2] by auto
  have "openIncident sv k msg s = andthen tell (andthen emit (ret inc)) s1"
    by (simp add: openIncident_def in_panel_def new_id_def bnd_def mon_now_def gets_def Let_def set_incidents_def
        tell_def emit_def inc_def i_def tm_def s1_def)
  also have "\<dots> = (Inr inc, s2\<lparr>mo_world := w'\<rparr>)"
    using e(1) by (simp add: andthen_def bnd_def t(1) ret_def)
  finally show ?thesis
    using t(2-5) e(2) by (auto simp: i_def inc_def new_incident_def same_setup_def)
qed

lemma resolve_run:
  assumes "i \<in> set (mo_incidents s)"
  shows "\<exists>r s' tm. resolveIncident i sv b s = (Inr r, s') \<and> same_setup s s' \<and> mo_incidents s' =
      upd_rows (\<lambda>r. inc_id r = inc_id i) (\<lambda>r. r\<lparr>inc_status := INC_RESOLVED, inc_resolvedAt := Some tm\<rparr>) (mo_incidents s) \<and>
    next_id (mo_world s) \<le> next_id (mo_world s')"
proof -
  define tm where "tm = clock (mo_world s)"
  define rows where "rows = upd_rows (\<lambda>r. inc_id r = inc_id i) (\<lambda>r. r\<lparr>inc_status := INC_RESOLVED, inc_resolvedAt := Some tm\<rparr>) (mo_incidents s)"
  define tell where "tell = do_when (mo_notifyIncidents s) (in_panel (notify_void ''server.incident_resolved'' [JStr ''incident.resolve'', JId (inc_id i)] (JId (wa_id sv)) to_owner))"
  define emit where "emit = in_panel (emitEvent None ''server.incident_resolved'' [(''target'', JId (wa_id sv)), (''server'', server_json sv),
        (''incident'', JObj [(''id'', JId (inc_id i)), (''kind'', JStr (incident_kind_text (inc_kind i))), (''startedAt'', JInt (inc_startedAt i)),
           (''resolvedAt'', JInt tm), (''manual'', JBool b)])])"
  obtain cur where cur: "find_row inc_id (inc_id i) (mo_incidents s) = Some cur"
    using assms find_row_None [of inc_id "inc_id i" "mo_incidents s"] by fastforce
  let ?s1 = "s\<lparr>mo_incidents := rows\<rparr>"
  have "\<exists>w. tell ?s1 = (Inr (), ?s1\<lparr>mo_world := w\<rparr>) \<and> next_id (mo_world s) \<le> next_id w"
  proof (cases "mo_notifyIncidents s")
    case True
    then show ?thesis using in_panel_quiet [OF quiet_notify_void, of _ _ _ _ ?s1] by (auto simp: tell_def)
  qed (auto simp: tell_def ret_def intro: exI [of _ "mo_world s"])
  then obtain w where t: "tell ?s1 = (Inr (), ?s1\<lparr>mo_world := w\<rparr>)" "next_id (mo_world s) \<le> next_id w" by blast
  let ?s2 = "?s1\<lparr>mo_world := w\<rparr>"
  obtain w' where e: "emit ?s2 = (Inr (), ?s2\<lparr>mo_world := w'\<rparr>)" "next_id (mo_world ?s2) \<le> next_id w'"
    unfolding emit_def using in_panel_quiet [OF quiet_emitEvent, of None _ _ ?s2] by auto
  have "resolveIncident i sv b s = andthen tell (andthen emit (ret (cur\<lparr>inc_status := INC_RESOLVED, inc_resolvedAt := Some tm\<rparr>))) ?s1"
    by (simp add: resolveIncident_def mon_now_def cur set_incidents_def rows_def tm_def tell_def emit_def)
  also have "\<dots> = (Inr (cur\<lparr>inc_status := INC_RESOLVED, inc_resolvedAt := Some tm\<rparr>), ?s2\<lparr>mo_world := w'\<rparr>)"
    using e(1) by (simp add: andthen_def bnd_def t(1) ret_def)
  finally show ?thesis using t(2) e(2) by (auto simp: same_setup_def rows_def)
qed

lemma slot_rows_append: "slot_rows sid sl (rows @ rows') = slot_rows sid sl rows @ slot_rows sid sl rows'"
  by (simp add: slot_rows_def)

lemma slot_rows_resolved:
  "slot_rows sid sl (upd_rows (\<lambda>r. inc_id r = i) (\<lambda>r. r\<lparr>inc_status := INC_RESOLVED, inc_resolvedAt := t\<rparr>) rows) =
    filter (\<lambda>r. inc_id r \<noteq> i) (slot_rows sid sl rows)"
  by (induction rows) (auto simp: slot_rows_def)

text \<open>Opening adds one row to its slot.\<close>
lemma open_touches:
  assumes "ids_ok s"
  shows "\<exists>s'. and_open sv k msg c s = (Inr (c\<lparr>rnd_opened := Suc (rnd_opened c)\<rparr>), s') \<and> touched (wa_id sv) (slot_of k) s s' \<and>
    open_kinds (wa_id sv) (slot_of k) s' = open_kinds (wa_id sv) (slot_of k) s @ [k]"
proof -
  obtain inc s' row where r: "openIncident sv k msg s = (Inr inc, s')" "same_setup s s'" "mo_incidents s' = mo_incidents s @ [row]"
    "next_id (mo_world s) < next_id (mo_world s')" "inc_id row = next_id (mo_world s)" "inc_serverId row = wa_id sv" "inc_kind row = k"
    "inc_status row = INC_OPEN"
    using open_run [OF assms] by blast
  have "ids_ok s'" using assms r(3-5) by (fastforce simp: ids_ok_def)
  then have "touched (wa_id sv) (slot_of k) s s'"
    using r by (auto simp: touched_def slot_rows_append) (auto simp: slot_rows_def)
  moreover have "and_open sv k msg c s = (Inr (c\<lparr>rnd_opened := Suc (rnd_opened c)\<rparr>), s')"
    by (simp add: and_open_def andthen_def bnd_def r(1) ret_def)
  ultimately show ?thesis
    using r by (intro exI [of _ s']) (simp add: open_kinds_def slot_rows_append, simp add: slot_rows_def)
qed

text \<open>Resolving the only row of a slot empties it.\<close>
lemma resolve_touches:
  assumes "ids_ok s" and "slot_rows (wa_id sv) sl (mo_incidents s) = [i]"
  shows "\<exists>s'. and_resolve sv i c s = (Inr (c\<lparr>rnd_resolved := Suc (rnd_resolved c)\<rparr>), s') \<and> touched (wa_id sv) sl s s' \<and>
    open_kinds (wa_id sv) sl s' = []"
proof -
  have "i \<in> set (slot_rows (wa_id sv) sl (mo_incidents s))" using assms(2) by simp
  then have i: "i \<in> set (mo_incidents s)" "inc_serverId i = wa_id sv" "inc_status i = INC_OPEN" "slot_of (inc_kind i) = sl"
    by (auto simp: slot_rows_def)
  obtain r s' tm where r: "resolveIncident i sv False s = (Inr r, s')" "same_setup s s'"
    "mo_incidents s' = upd_rows (\<lambda>r. inc_id r = inc_id i) (\<lambda>r. r\<lparr>inc_status := INC_RESOLVED, inc_resolvedAt := Some tm\<rparr>) (mo_incidents s)"
    "next_id (mo_world s) \<le> next_id (mo_world s')"
    using resolve_run [OF i(1)] by blast
  have same: "r = i" if "r \<in> set (mo_incidents s)" "inc_id r = inc_id i" for r
    using assms(1) i(1) that by (auto simp: ids_ok_def distinct_map inj_on_def)
  have rows: "slot_rows sid sl' (mo_incidents s') = filter (\<lambda>r. inc_id r \<noteq> inc_id i) (slot_rows sid sl' (mo_incidents s))" for sid sl'
    unfolding r(3) by (rule slot_rows_resolved)
  have "slot_rows sid' sl' (mo_incidents s') = slot_rows sid' sl' (mo_incidents s)" if "(sid', sl') \<noteq> (wa_id sv, sl)" for sid' sl'
    unfolding rows using that i same by (intro filter_True) (auto simp: slot_rows_def)
  moreover have "ids_ok s'" using assms(1) r(4) by (auto simp: ids_ok_def r(3) set_upd_rows split: if_splits)
  ultimately have "touched (wa_id sv) sl s s'" using r(2) by (simp add: touched_def)
  moreover have "and_resolve sv i c s = (Inr (c\<lparr>rnd_resolved := Suc (rnd_resolved c)\<rparr>), s')"
    by (simp add: and_resolve_def andthen_def bnd_def r(1) ret_def)
  ultimately show ?thesis using assms(2) by (auto simp: open_kinds_def rows)
qed

text \<open>The snapshot of a server's open incidents still answers for a slot.\<close>
definition snapshot :: "uid \<Rightarrow> slot \<Rightarrow> incident list \<Rightarrow> mon_state \<Rightarrow> bool" where
  "snapshot sid sl incs s \<longleftrightarrow> filter (\<lambda>i. slot_of (inc_kind i) = sl) incs = slot_rows sid sl (mo_incidents s)"

lemma find_kind_slot: "find_kind k incs = find_kind k (filter (\<lambda>i. slot_of (inc_kind i) = slot_of k) incs)"
  unfolding find_kind_def by (induction incs) auto

lemma find_kind_single: "find_kind k [] = None" "find_kind k [i] = (if inc_kind i = k then Some i else None)"
  by (simp_all add: find_kind_def)

lemma find_snapshot:
  "snapshot sid (slot_of k) incs s \<Longrightarrow> find_kind k incs = find_kind k (slot_rows sid (slot_of k) (mo_incidents s))"
  unfolding snapshot_def by (subst find_kind_slot) simp

lemma snapshot_touched:
  "snapshot sid sl incs s \<Longrightarrow> touched sid' sl' s s' \<Longrightarrow> (sid, sl) \<noteq> (sid', sl') \<Longrightarrow> snapshot sid sl incs s'"
  unfolding touched_def snapshot_def by metis

text \<open>A slot is empty or holds one row; the row's kind is of the slot.\<close>
lemma slot_cases:
  assumes "length (open_kinds sid sl s) \<le> 1"
  obtains (none) "slot_rows sid sl (mo_incidents s) = []" "open_kinds sid sl s = []"
  | (one) i where "slot_rows sid sl (mo_incidents s) = [i]" "open_kinds sid sl s = [inc_kind i]" "slot_of (inc_kind i) = sl"
proof (cases "slot_rows sid sl (mo_incidents s)")
  case Nil
  then show ?thesis using none by (simp add: open_kinds_def)
next
  case (Cons i rest)
  then have r: "rest = []" using assms by (simp add: open_kinds_def)
  have "i \<in> set (slot_rows sid sl (mo_incidents s))" using Cons by simp
  then have "slot_of (inc_kind i) = sl" by (simp add: slot_rows_def)
  then show ?thesis using one Cons r by (simp add: open_kinds_def)
qed

lemma kind_of_slot: "slot_of k = XRAY \<longleftrightarrow> k = K_XRAY_DOWN" "slot_of k = CPU \<longleftrightarrow> k = K_HIGH_CPU"
    "slot_of k = REACH \<longleftrightarrow> k = K_OFFLINE \<or> k = K_AUTH_ERROR"
  by (cases k; simp add: slot_of_def)+

lemma slot_vals: "slot_of K_XRAY_DOWN = XRAY" "slot_of K_HIGH_CPU = CPU" "slot_of K_OFFLINE = REACH" "slot_of K_AUTH_ERROR = REACH"
  by (simp_all add: slot_of_def)

text \<open>Each check carries out its abstract rule on its slot and touches no other.\<close>
definition does_slot :: "(mon_state, round_count) op \<Rightarrow> uid \<Rightarrow> slot \<Rightarrow> (incident_kind list \<Rightarrow> incident_kind list) \<Rightarrow> mon_state \<Rightarrow> bool" where
  "does_slot m sid sl f s \<longleftrightarrow> (\<exists>c' s'. m s = (Inr c', s') \<and> touched sid sl s s' \<and> open_kinds sid sl s' = f (open_kinds sid sl s))"

lemma does_slotI: "m s = (Inr c', s') \<Longrightarrow> touched sid sl s s' \<Longrightarrow> open_kinds sid sl s' = f (open_kinds sid sl s) \<Longrightarrow> does_slot m sid sl f s"
  unfolding does_slot_def by blast

lemma does_ret: "ids_ok s \<Longrightarrow> f (open_kinds sid sl s) = open_kinds sid sl s \<Longrightarrow> does_slot (ret c) sid sl f s"
  by (rule does_slotI [of _ _ c s]) (simp_all add: ret_def touched_refl)

lemma does_open:
  assumes "ids_ok s" and "open_kinds (wa_id sv) sl s = []" and "f [] = [k]" and "slot_of k = sl"
  shows "does_slot (and_open sv k msg c) (wa_id sv) sl f s"
  using open_touches [OF assms(1), of sv k msg c] assms(2-4) by (auto simp: does_slot_def)

lemma does_resolve:
  assumes "ids_ok s" and "slot_rows (wa_id sv) sl (mo_incidents s) = [i]" and "f (open_kinds (wa_id sv) sl s) = []"
  shows "does_slot (and_resolve sv i c) (wa_id sv) sl f s"
  using resolve_touches [OF assms(1,2), of c] assms(3) by (auto simp: does_slot_def)

lemma xray_run:
  assumes "ids_ok s" and "length (open_kinds (wa_id sv) XRAY s) \<le> 1" and "snapshot (wa_id sv) XRAY incs s"
  shows "does_slot (check_xray sv incs latest c) (wa_id sv) XRAY (next_xray latest) s"
proof -
  have f: "find_kind K_XRAY_DOWN incs = find_kind K_XRAY_DOWN (slot_rows (wa_id sv) XRAY (mo_incidents s))"
    using find_snapshot [of "wa_id sv" K_XRAY_DOWN] assms(3) by (simp add: slot_of_def)
  show ?thesis
  proof (cases rule: slot_cases [OF assms(2)])
    case 1
    then show ?thesis
      using assms(1) by (auto simp: check_xray_def f find_kind_single next_xray_def kind_of_slot intro!: does_open does_ret)
  next
    case (2 i)
    then show ?thesis
      using assms(1) by (auto simp: check_xray_def f find_kind_single next_xray_def kind_of_slot intro!: does_resolve does_ret)
  qed
qed

lemma cpu_run:
  assumes "ids_ok s" and "length (open_kinds (wa_id sv) CPU s) \<le> 1" and "snapshot (wa_id sv) CPU incs s"
  shows "does_slot (check_cpu m sv incs recent c) (wa_id sv) CPU (next_cpu m recent) s"
proof -
  have f: "find_kind K_HIGH_CPU incs = find_kind K_HIGH_CPU (slot_rows (wa_id sv) CPU (mo_incidents s))"
    using find_snapshot [of "wa_id sv" K_HIGH_CPU] assms(3) by (simp add: slot_of_def)
  show ?thesis
  proof (cases rule: slot_cases [OF assms(2)])
    case 1
    then show ?thesis
      using assms(1) by (auto simp: check_cpu_def f find_kind_single next_cpu_def kind_of_slot intro!: does_open does_ret)
  next
    case (2 i)
    then show ?thesis
      using assms(1) by (auto simp: check_cpu_def f find_kind_single next_cpu_def kind_of_slot intro!: does_resolve does_ret)
  qed
qed

lemma resolve_none: "find_kind k incs = None \<Longrightarrow> resolve_kind sv incs k = ret"
  by (simp add: fun_eq_iff resolve_kind_def)

lemma reach_run:
  assumes "ids_ok s" and "length (open_kinds (wa_id sv) REACH s) \<le> 1" and "snapshot (wa_id sv) REACH incs s"
  shows "does_slot (check_reach m sv incs recent c) (wa_id sv) REACH (next_reach m sv recent) s"
proof -
  have f: "find_kind K_OFFLINE incs = find_kind K_OFFLINE (slot_rows (wa_id sv) REACH (mo_incidents s))"
    "find_kind K_AUTH_ERROR incs = find_kind K_AUTH_ERROR (slot_rows (wa_id sv) REACH (mo_incidents s))"
    using find_snapshot [of "wa_id sv" K_OFFLINE] find_snapshot [of "wa_id sv" K_AUTH_ERROR] assms(3) by (simp_all add: slot_of_def)
  show ?thesis
  proof (cases rule: slot_cases [OF assms(2)])
    case 1
    then have "find_kind K_OFFLINE incs = None" "find_kind K_AUTH_ERROR incs = None" by (simp_all add: f find_kind_single)
    moreover from this have "bnd (resolve_kind sv incs K_OFFLINE c) (resolve_kind sv incs K_AUTH_ERROR) = ret c"
      by (simp add: resolve_none ret_def fun_eq_iff)
    ultimately show ?thesis
      using assms(1) 1 by (auto simp: check_reach_def next_reach_def kind_of_slot intro!: does_open does_ret)
  next
    case (2 i)
    have last: "does_slot (bnd (and_resolve sv i c) ret) (wa_id sv) REACH f s" if "f [inc_kind i] = []" for f
      using does_resolve [OF assms(1) 2(1), of f c] that 2(2) by (auto simp: does_slot_def bnd_def ret_def)
    have "find_kind K_OFFLINE incs = (if inc_kind i = K_OFFLINE then Some i else None)"
      "find_kind K_AUTH_ERROR incs = (if inc_kind i = K_OFFLINE then None else Some i)"
      using 2(1,3) by (auto simp: f find_kind_single kind_of_slot)
    then show ?thesis
      using assms(1) 2 last
      by (auto simp: check_reach_def resolve_none resolve_kind_def [of _ _ _ c] next_reach_def intro!: does_resolve does_ret)
  qed
qed

text \<open>One server: every slot follows its rule.\<close>
definition does_server :: "(mon_state, round_count) op \<Rightarrow> uid \<Rightarrow> (slot \<Rightarrow> incident_kind list \<Rightarrow> incident_kind list) \<Rightarrow> mon_state \<Rightarrow> bool" where
  "does_server m sid f s \<longleftrightarrow> (\<exists>c' s'. m s = (Inr c', s') \<and> ids_ok s' \<and> same_setup s s' \<and>
     (\<forall>sid' sl. sid' \<noteq> sid \<longrightarrow> slot_rows sid' sl (mo_incidents s') = slot_rows sid' sl (mo_incidents s)) \<and>
     (\<forall>sl. open_kinds sid sl s' = f sl (open_kinds sid sl s)))"

lemma kinds_touched: "touched sid sl s s' \<Longrightarrow> (sid', sl') \<noteq> (sid, sl) \<Longrightarrow> open_kinds sid' sl' s' = open_kinds sid' sl' s"
  unfolding touched_def open_kinds_def by metis

lemma server_run:
  assumes ok: "ids_ok s" and one: "\<And>sl. length (open_kinds (wa_id sv) sl s) \<le> 1"
    and snap: "\<And>sl. snapshot (wa_id sv) sl incs s"
  shows "does_server (evaluate_server m (sv, incs) c) (wa_id sv) (next_kinds m sv (recent_metrics m (wa_id sv) s)) s"
proof -
  let ?sid = "wa_id sv"
  define recent where "recent = recent_metrics m ?sid s"
  show ?thesis
  proof (cases "recent = []")
    case True
    then show ?thesis using ok
      by (auto simp: does_server_def evaluate_server_def recent_def next_kinds_def ret_def same_setup_def)
  next
    case False
    obtain c1 s1 where s1: "check_reach m sv incs recent c s = (Inr c1, s1)" "touched ?sid REACH s s1"
      "open_kinds ?sid REACH s1 = next_reach m sv recent (open_kinds ?sid REACH s)"
      using reach_run [OF ok one snap, of m recent c] by (auto simp: does_slot_def)
    show ?thesis
    proof (cases "met_online (hd recent)")
      case off: False
      have "evaluate_server m (sv, incs) c s = (Inr c1, s1)"
        using False off s1(1) by (simp add: evaluate_server_def bnd_def [of "check_reach _ _ _ _ _"] ret_def flip: recent_def)
      moreover have "open_kinds ?sid sl s1 = next_kinds m sv recent sl (open_kinds ?sid sl s)" for sl
        using s1(3) kinds_touched [OF s1(2)] False off by (cases sl) (simp_all add: next_kinds_def)
      ultimately show ?thesis using s1(2) by (auto simp: does_server_def touched_def simp flip: recent_def)
    next
      case on: True
      have one1: "length (open_kinds ?sid XRAY s1) \<le> 1" "length (open_kinds ?sid CPU s1) \<le> 1"
        using one kinds_touched [OF s1(2)] by simp_all
      have "ids_ok s1" using s1(2) by (simp add: touched_def)
      with one1 obtain c2 s2 where s2: "check_xray sv incs (hd recent) c1 s1 = (Inr c2, s2)" "touched ?sid XRAY s1 s2"
        "open_kinds ?sid XRAY s2 = next_xray (hd recent) (open_kinds ?sid XRAY s1)"
        using xray_run [of s1 sv incs "hd recent" c1] snapshot_touched [OF snap s1(2)] by (auto simp: does_slot_def)
      have "ids_ok s2" "length (open_kinds ?sid CPU s2) \<le> 1"
        using s2(2) one1(2) kinds_touched [OF s2(2)] by (simp_all add: touched_def)
      then obtain c3 s3 where s3: "check_cpu m sv incs recent c2 s2 = (Inr c3, s3)" "touched ?sid CPU s2 s3"
        "open_kinds ?sid CPU s3 = next_cpu m recent (open_kinds ?sid CPU s2)"
        using cpu_run [of s2 sv incs m recent c2] snapshot_touched [OF snapshot_touched [OF snap s1(2)] s2(2)] by (auto simp: does_slot_def)
      have "evaluate_server m (sv, incs) c s = (Inr c3, s3)"
        using False on s1(1) s2(1) s3(1) by (simp add: evaluate_server_def bnd_def ret_def gets_def flip: recent_def)
      moreover have "open_kinds ?sid sl s3 = next_kinds m sv recent sl (open_kinds ?sid sl s)" for sl
        using s1(3) s2(3) s3(3) kinds_touched [OF s1(2)] kinds_touched [OF s2(2)] kinds_touched [OF s3(2)] False on
        by (cases sl) (simp_all add: next_kinds_def)
      ultimately show ?thesis
        using s1(2) s2(2) s3(2) by (auto simp: does_server_def touched_def same_setup_def simp flip: recent_def)
    qed
  qed
qed

lemma next_kinds_one: "length ks \<le> 1 \<Longrightarrow> length (next_kinds m sv recent sl ks) \<le> 1"
  by (cases sl) (simp_all add: next_kinds_def next_reach_def next_xray_def next_cpu_def)

lemma recent_same: "same_setup s s' \<Longrightarrow> recent_metrics m sid s' = recent_metrics m sid s"
  by (simp add: same_setup_def recent_metrics_def)

lemma fold_run:
  assumes "ids_ok s" and "\<And>sid sl. length (open_kinds sid sl s) \<le> 1" and "distinct (map (wa_id \<circ> fst) work)"
    and "\<And>sv incs sl. (sv, incs) \<in> set work \<Longrightarrow> snapshot (wa_id sv) sl incs s"
  shows "\<exists>c' s'. fold_op (evaluate_server m) work c s = (Inr c', s') \<and> ids_ok s' \<and> same_setup s s' \<and>
    (\<forall>sid sl. open_kinds sid sl s' = (case find_row wa_id sid (map fst work) of
        Some sv \<Rightarrow> next_kinds m sv (recent_metrics m sid s) sl (open_kinds sid sl s) | None \<Rightarrow> open_kinds sid sl s))"
  using assms
proof (induction work arbitrary: s c)
  case Nil
  then show ?case by (auto simp: ret_def same_setup_def)
next
  case (Cons x work)
  obtain sv incs where x: "x = (sv, incs)" by force
  have "does_server (evaluate_server m x c) (wa_id sv) (next_kinds m sv (recent_metrics m (wa_id sv) s)) s"
    unfolding x by (rule server_run) (use Cons.prems x in auto)
  then obtain c1 s1 where s1: "evaluate_server m x c s = (Inr c1, s1)" "ids_ok s1" "same_setup s s1"
    "\<And>sid' sl. sid' \<noteq> wa_id sv \<Longrightarrow> slot_rows sid' sl (mo_incidents s1) = slot_rows sid' sl (mo_incidents s)"
    "\<And>sl. open_kinds (wa_id sv) sl s1 = next_kinds m sv (recent_metrics m (wa_id sv) s) sl (open_kinds (wa_id sv) sl s)"
    by (auto simp: does_server_def)
  have k: "open_kinds sid sl s1 = (if sid = wa_id sv then next_kinds m sv (recent_metrics m sid s) sl (open_kinds sid sl s) else open_kinds sid sl s)" for sid sl
    using s1(4,5) by (simp add: open_kinds_def)
  have other: "wa_id sv' \<noteq> wa_id sv" if "(sv', incs') \<in> set work" for sv' incs'
    using Cons.prems(3) that x by force
  have "\<exists>c' s'. fold_op (evaluate_server m) work c1 s1 = (Inr c', s') \<and> ids_ok s' \<and> same_setup s1 s' \<and>
    (\<forall>sid sl. open_kinds sid sl s' = (case find_row wa_id sid (map fst work) of
        Some sv \<Rightarrow> next_kinds m sv (recent_metrics m sid s1) sl (open_kinds sid sl s1) | None \<Rightarrow> open_kinds sid sl s1))"
  proof (rule Cons.IH)
    show "length (open_kinds sid sl s1) \<le> 1" for sid sl using Cons.prems(2) k next_kinds_one by simp
    show "snapshot (wa_id sv') sl incs' s1" if "(sv', incs') \<in> set work" for sv' incs' sl
      using Cons.prems(4) [of sv' incs' sl] that s1(4) [OF other [OF that]] by (simp add: snapshot_def)
  qed (use Cons.prems s1 in auto)
  then obtain c' s' where s': "fold_op (evaluate_server m) work c1 s1 = (Inr c', s')" "ids_ok s'" "same_setup s1 s'"
    "\<And>sid sl. open_kinds sid sl s' = (case find_row wa_id sid (map fst work) of
        Some sv \<Rightarrow> next_kinds m sv (recent_metrics m sid s1) sl (open_kinds sid sl s1) | None \<Rightarrow> open_kinds sid sl s1)"
    by blast
  have "fold_op (evaluate_server m) (x # work) c s = (Inr c', s')" by (simp add: bnd_def s1(1) s'(1))
  moreover have "find_row wa_id (wa_id sv) (map fst work) = None"
    using Cons.prems(3) x by (auto simp: find_row_None image_image)
  then have "open_kinds sid sl s' = (case find_row wa_id sid (map fst (x # work)) of
        Some sv \<Rightarrow> next_kinds m sv (recent_metrics m sid s) sl (open_kinds sid sl s) | None \<Rightarrow> open_kinds sid sl s)" for sid sl
    using s'(4) k recent_same [OF s1(3)] by (auto simp: x split: option.split)
  ultimately show ?case using s'(2,3) s1(3) by (auto simp: same_setup_def)
qed

lemma snapshot_taken: "snapshot sid sl (open_of sid s) s"
  unfolding snapshot_def slot_rows_def open_of_def by (simp add: conj_ac)

lemma round_run:
  assumes "mon_ok s"
  shows "\<exists>c s'. evaluateIncidents s = (Inr c, s') \<and> mon_ok s' \<and> same_setup s s' \<and>
    (\<forall>sid sl. open_kinds sid sl s' = (case find_row wa_id sid (filter wa_isActive (mo_servers s)) of
        Some sv \<Rightarrow> next_kinds (mo_cfg s) sv (recent_metrics (mo_cfg s) sid s) sl (open_kinds sid sl s) | None \<Rightarrow> open_kinds sid sl s))"
proof -
  let ?work = "map (\<lambda>sv. (sv, open_of (wa_id sv) s)) (filter wa_isActive (mo_servers s))"
  have w: "map fst ?work = filter wa_isActive (mo_servers s)" by (simp add: comp_def)
  have d: "distinct (map (wa_id \<circ> fst) ?work)"
    using assms by (simp add: mon_ok_def comp_def distinct_map_filter)
  have "\<exists>c' s'. fold_op (evaluate_server (mo_cfg s)) ?work \<lparr>rnd_opened = 0, rnd_resolved = 0\<rparr> s = (Inr c', s') \<and> ids_ok s' \<and> same_setup s s' \<and>
    (\<forall>sid sl. open_kinds sid sl s' = (case find_row wa_id sid (map fst ?work) of
        Some sv \<Rightarrow> next_kinds (mo_cfg s) sv (recent_metrics (mo_cfg s) sid s) sl (open_kinds sid sl s) | None \<Rightarrow> open_kinds sid sl s))"
    by (rule fold_run [OF _ _ d]) (use assms snapshot_taken in \<open>auto simp: mon_ok_def\<close>)
  then obtain c s' where r: "fold_op (evaluate_server (mo_cfg s)) ?work \<lparr>rnd_opened = 0, rnd_resolved = 0\<rparr> s = (Inr c, s')" "ids_ok s'" "same_setup s s'"
    "\<And>sid sl. open_kinds sid sl s' = (case find_row wa_id sid (filter wa_isActive (mo_servers s)) of
        Some sv \<Rightarrow> next_kinds (mo_cfg s) sv (recent_metrics (mo_cfg s) sid s) sl (open_kinds sid sl s) | None \<Rightarrow> open_kinds sid sl s)"
    unfolding w by blast
  have "length (open_kinds sid sl s') \<le> 1" for sid sl
    using assms next_kinds_one by (auto simp: r(4) mon_ok_def split: option.split)
  then have "mon_ok s'" using assms r(2,3) by (simp add: mon_ok_def same_setup_def)
  then show ?thesis using r by (auto simp: evaluateIncidents_def)
qed

text \<open>A slot at its fixed point gives the worker nothing to do.\<close>
lemma server_idle:
  assumes "\<And>sl. length (open_kinds (wa_id sv) sl s) \<le> 1" and "\<And>sl. snapshot (wa_id sv) sl incs s"
    and still: "\<And>sl. next_kinds m sv (recent_metrics m (wa_id sv) s) sl (open_kinds (wa_id sv) sl s) = open_kinds (wa_id sv) sl s"
  shows "evaluate_server m (sv, incs) c s = (Inr c, s)"
proof -
  define recent where "recent = recent_metrics m (wa_id sv) s"
  have find: "find_kind k incs = None \<longleftrightarrow> k \<notin> set (open_kinds (wa_id sv) (slot_of k) s)" for k
    using find_snapshot [OF assms(2) [of "slot_of k"]] by (auto simp: find_kind_def find_None_iff open_kinds_def)
  show ?thesis
  proof (cases "recent = []")
    case True
    then show ?thesis by (simp add: evaluate_server_def recent_def ret_def)
  next
    case False
    have calm: "next_reach m sv recent (open_kinds (wa_id sv) REACH s) = open_kinds (wa_id sv) REACH s"
      "met_online (hd recent) \<Longrightarrow> next_xray (hd recent) (open_kinds (wa_id sv) XRAY s) = open_kinds (wa_id sv) XRAY s"
      "met_online (hd recent) \<Longrightarrow> next_cpu m recent (open_kinds (wa_id sv) CPU s) = open_kinds (wa_id sv) CPU s"
      using still [of REACH] still [of XRAY] still [of CPU] False by (simp_all add: next_kinds_def flip: recent_def)
    have kinds: "set (open_kinds (wa_id sv) sl s) \<subseteq> {k. slot_of k = sl}" for sl by (auto simp: open_kinds_def slot_rows_def)
    have reach: "check_reach m sv incs recent c = ret c"
    proof (cases "is_down m recent")
      case True
      then have "open_kinds (wa_id sv) REACH s \<noteq> []" using calm(1) by (auto simp: next_reach_def)
      then have "K_OFFLINE \<in> set (open_kinds (wa_id sv) REACH s) \<or> K_AUTH_ERROR \<in> set (open_kinds (wa_id sv) REACH s)"
        using kinds [of REACH] by (cases "open_kinds (wa_id sv) REACH s") (auto simp: kind_of_slot)
      then show ?thesis using True by (auto simp: check_reach_def find slot_of_def)
    next
      case False
      show ?thesis
      proof (cases "met_online (hd recent)")
        case True
        then have "open_kinds (wa_id sv) REACH s = []" using calm(1) False by (simp add: next_reach_def)
        then have "find_kind K_OFFLINE incs = None" "find_kind K_AUTH_ERROR incs = None" by (simp_all add: find slot_of_def)
        then show ?thesis using False True by (simp add: check_reach_def resolve_none ret_def fun_eq_iff)
      qed (use False in \<open>simp add: check_reach_def\<close>)
    qed
    have xray: "check_xray sv incs (hd recent) c = ret c" if "met_online (hd recent)"
      using calm(2) [OF that] find [of K_XRAY_DOWN] kinds [of XRAY]
      by (cases "open_kinds (wa_id sv) XRAY s")
         (auto simp: check_xray_def next_xray_def slot_vals kind_of_slot split: if_splits option.splits)
    have cpu: "check_cpu m sv incs recent c = ret c" if "met_online (hd recent)"
      using calm(3) [OF that] find [of K_HIGH_CPU] kinds [of CPU]
      by (cases "open_kinds (wa_id sv) CPU s")
         (auto simp: check_cpu_def next_cpu_def slot_vals kind_of_slot split: if_splits option.splits)
    show ?thesis using False reach xray cpu by (simp add: evaluate_server_def ret_def flip: recent_def)
  qed
qed

text \<open>The rules are stable: with the same checks a second application changes nothing.\<close>
lemma next_kinds_stable:
  assumes "0 \<le> cpuThreshold m" and "length ks \<le> 1"
  shows "next_kinds m sv recent sl (next_kinds m sv recent sl ks) = next_kinds m sv recent sl ks"
proof -
  have "\<not> cpu_low m (hd recent)" if "cpu_high m recent" "recent \<noteq> []"
  proof -
    have "hd recent \<in> set (take 3 recent)" using that(2) by (cases recent) auto
    then have "of_int (cpuThreshold m) \<le> cpu_of (hd recent)" using that(1) by (simp add: cpu_high_def list_all_iff)
    moreover have "of_int (max 0 (cpuThreshold m - 10)) \<le> (of_int (cpuThreshold m) :: rat)" using assms(1) by (simp only: of_int_le_iff)
    ultimately show ?thesis by (simp add: cpu_low_def)
  qed
  then show ?thesis
    by (cases sl) (auto simp: next_kinds_def next_reach_def next_xray_def next_cpu_def)
qed

text \<open>
  C31: the worker's round implements the rules for each slot of each server: reachability (an incident opens
  after \<open>failThreshold\<close> failed checks in a row and ends with the first good one), xray and processor load
  (opens after three readings at the threshold, ends ten points below it). The open incidents of a server
  after the round are the function \<open>next_kinds\<close> of those before and of its recorded checks, whatever the
  notifications and webhooks answer; inactive servers keep theirs, and no slot ever has two open incidents.
\<close>
theorem round_follows_checks:
  assumes "mon_ok s"
  shows "\<exists>c s'. evaluateIncidents s = (Inr c, s') \<and> mon_ok s' \<and>
    (\<forall>sid sl. open_kinds sid sl s' = (case find_row wa_id sid (filter wa_isActive (mo_servers s)) of
        Some sv \<Rightarrow> next_kinds (mo_cfg s) sv (recent_metrics (mo_cfg s) sid s) sl (open_kinds sid sl s) | None \<Rightarrow> open_kinds sid sl s))"
  using round_run [OF assms] by blast

lemma fold_idle: "(\<And>x. x \<in> set work \<Longrightarrow> evaluate_server m x c s = (Inr c, s)) \<Longrightarrow> fold_op (evaluate_server m) work c s = (Inr c, s)"
  by (induction work) (simp_all add: bnd_def ret_def)

text \<open>
  C32: a second round on the same checks does nothing: no incident is opened or resolved, no message is sent
  and no event queued, so the worker may run as often as it likes.
\<close>
theorem second_round_idle:
  assumes "mon_ok s" and "0 \<le> cpuThreshold (mo_cfg s)" and "evaluateIncidents s = (Inr c, s')"
  shows "evaluateIncidents s' = (Inr \<lparr>rnd_opened = 0, rnd_resolved = 0\<rparr>, s')"
proof -
  have r: "mon_ok s'" "same_setup s s'" "\<And>sid sl. open_kinds sid sl s' = (case find_row wa_id sid (filter wa_isActive (mo_servers s)) of
        Some sv \<Rightarrow> next_kinds (mo_cfg s) sv (recent_metrics (mo_cfg s) sid s) sl (open_kinds sid sl s) | None \<Rightarrow> open_kinds sid sl s)"
    using round_run [OF assms(1)] assms(3) by auto
  have one: "length (open_kinds sid sl v) \<le> 1" if "mon_ok v" for sid sl v using that by (simp add: mon_ok_def)
  have cfg: "mo_cfg s' = mo_cfg s" "mo_servers s' = mo_servers s" using r(2) by (simp_all add: same_setup_def)
  have "evaluate_server (mo_cfg s') (sv, open_of (wa_id sv) s') c s' = (Inr c, s')" if "sv \<in> set (filter wa_isActive (mo_servers s'))" for sv c
  proof (rule server_idle)
    have "find_row wa_id (wa_id sv) (filter wa_isActive (mo_servers s)) = Some sv"
      using assms(1) that cfg by (intro find_row_distinct) (auto simp: mon_ok_def distinct_map_filter)
    then show "next_kinds (mo_cfg s') sv (recent_metrics (mo_cfg s') (wa_id sv) s') sl (open_kinds (wa_id sv) sl s') = open_kinds (wa_id sv) sl s'" for sl
      using next_kinds_stable [OF assms(2) one [OF assms(1)]] by (simp add: r(3) cfg recent_same [OF r(2)])
  qed (use one [OF r(1)] snapshot_taken in auto)
  then show ?thesis unfolding evaluateIncidents_def by (simp add: fold_idle [of _ "mo_cfg s'"]) (rule fold_idle, auto)
qed

definition demo_watched :: watched where
  "demo_watched = \<lparr>wa_id = 1, wa_name = ''de'', wa_isActive = True, wa_status = SRV_OFFLINE, wa_lastError = Some ''timeout'',
     wa_lastSeenAt = None, wa_clients = 0\<rparr>"

definition demo_check :: "time \<Rightarrow> bool \<Rightarrow> server_metric" where
  "demo_check t up = \<lparr>met_serverId = 1, met_at = t, met_online = up, met_latencyMs = None, met_cpu = Some 95, met_memUsed = None,
     met_memTotal = None, met_xrayState = Some ''stopped''\<rparr>"

definition demo_monitor :: "bool \<Rightarrow> mon_state" where
  "demo_monitor up = \<lparr>mo_world = demo_world, mo_servers = [demo_watched], mo_metrics = [demo_check 1 up, demo_check 2 up, demo_check 3 up],
     mo_incidents = [], mo_cfg = \<lparr>failThreshold = 2, cpuThreshold = 90\<rparr>, mo_notifyIncidents = True\<rparr>"

lemma demo_monitor_ok: "mon_ok (demo_monitor up)"
  by (simp add: mon_ok_def ids_ok_def demo_monitor_def open_kinds_def slot_rows_def)

theorem round_follows_checks_witness:
  "(\<exists>c s'. evaluateIncidents (demo_monitor False) = (Inr c, s') \<and> open_kinds 1 REACH s' = [K_OFFLINE] \<and> open_kinds 1 CPU s' = []) \<and>
   (\<exists>c s'. evaluateIncidents (demo_monitor True) = (Inr c, s') \<and> open_kinds 1 REACH s' = [] \<and> open_kinds 1 XRAY s' = [K_XRAY_DOWN] \<and>
     open_kinds 1 CPU s' = [K_HIGH_CPU])"
proof -
  have act: "find_row wa_id 1 (filter wa_isActive (mo_servers (demo_monitor up))) = Some demo_watched" for up
    by (simp add: demo_monitor_def demo_watched_def)
  define f where "f = (\<lambda>up sl. next_kinds (mo_cfg (demo_monitor up)) demo_watched (recent_metrics (mo_cfg (demo_monitor up)) 1 (demo_monitor up)) sl
      (open_kinds 1 sl (demo_monitor up)))"
  have "f False REACH = [K_OFFLINE]" "f False CPU = []" "f True REACH = []" "f True XRAY = [K_XRAY_DOWN]" "f True CPU = [K_HIGH_CPU]"
    unfolding f_def by code_simp+
  moreover have "\<exists>c s'. evaluateIncidents (demo_monitor up) = (Inr c, s') \<and> (\<forall>sl. open_kinds 1 sl s' = f up sl)" for up
    using round_follows_checks [OF demo_monitor_ok [of up]] act [of up] unfolding f_def by fastforce
  from this [of False] this [of True] calculation show ?thesis by (elim exE conjE) auto
qed

theorem second_round_idle_witness:
  "let s' = snd (evaluateIncidents (demo_monitor False)) in
    length (mo_incidents s') = 1 \<and> evaluateIncidents s' = (Inr \<lparr>rnd_opened = 0, rnd_resolved = 0\<rparr>, s')"
proof -
  obtain c where c: "evaluateIncidents (demo_monitor False) = (Inr c, snd (evaluateIncidents (demo_monitor False)))"
    using round_run [OF demo_monitor_ok [of False]] by auto
  have "length (mo_incidents (snd (evaluateIncidents (demo_monitor False)))) = 1" by code_simp
  moreover have "0 \<le> cpuThreshold (mo_cfg (demo_monitor False))" by (simp add: demo_monitor_def)
  ultimately show ?thesis using second_round_idle [OF demo_monitor_ok _ c] by (simp add: Let_def)
qed

end
