(* ===== verification/PaymentPlugins.thy ===== *)
theory PaymentPlugins
  imports PaymentLife
begin

text \<open>
  Payment plugins: \<open>paymentPlugins.ts\<close> (the book of plugins and its management) and
  \<open>paymentPluginHooks.ts\<close> (the signed webhook that settles a payment). The setting \<open>payment_plugins\<close> is a
  field of \<open>plugin_state\<close>; beside it stand the parts of the platform the code calls: HMAC-SHA256 in hex,
  the JSON parser (the value of a text, or none), and the text of a payment's identifier.
\<close>

section \<open>The book\<close>

definition MAX_PER_ADMIN :: nat where
  "MAX_PER_ADMIN = 10"

record payment_plugin =
  plg_id :: string
  plg_adminId :: uid
  plg_master :: bool
  plg_name :: string
  plg_enabled :: bool
  plg_secret :: string
  plg_methods :: "payment_method list"
  plg_payUrl :: string
  plg_autoConfirm :: bool
  plg_maxAmount :: int
  plg_note :: string
  plg_createdAt :: time
  plg_lastCallAt :: "time option"
  plg_lastStatus :: "string option"
  plg_lastError :: "string option"
  plg_calls :: nat
  plg_confirmed :: nat

record plugin_state =
  pg_world :: world
  pg_book :: "(string \<times> payment_plugin) list"
  pg_hmac :: "string \<Rightarrow> string \<Rightarrow> string"
  pg_json :: "string \<Rightarrow> jval option"
  pg_id_text :: "uid \<Rightarrow> string"

definition in_shop :: "(world, 'a) op \<Rightarrow> (plugin_state, 'a) op" where
  "in_shop m s = (case m (pg_world s) of (r, w') \<Rightarrow> (r, s\<lparr>pg_world := w'\<rparr>))"

definition save_book :: "((string \<times> payment_plugin) list \<Rightarrow> (string \<times> payment_plugin) list) \<Rightarrow> (plugin_state, unit) op" where
  "save_book f = modify (\<lambda>s. s\<lparr>pg_book := f (pg_book s)\<rparr>)"

record plugin_input =
  pi_name :: "string option"
  pi_enabled :: "bool option"
  pi_methods :: "payment_method list option"
  pi_payUrl :: "string option"
  pi_autoConfirm :: "bool option"
  pi_maxAmount :: "int option"
  pi_note :: "string option"

definition opt_ok :: "('a \<Rightarrow> bool) \<Rightarrow> 'a option \<Rightarrow> bool" where
  "opt_ok P x = (case x of None \<Rightarrow> True | Some a \<Rightarrow> P a)"

text \<open>The bounds of \<open>paymentPluginInput\<close>; the type admits the three methods of a plugin only.\<close>
definition input_ok :: "plugin_input \<Rightarrow> bool" where
  "input_ok i \<longleftrightarrow> opt_ok (\<lambda>n. 2 \<le> length n \<and> length n \<le> 60) (pi_name i) \<and>
     opt_ok (\<lambda>ms. ms \<noteq> [] \<and> set ms \<subseteq> {CARD, USDT, ZARINPAL}) (pi_methods i) \<and> opt_ok (\<lambda>u. length u \<le> 400) (pi_payUrl i) \<and>
     opt_ok (\<lambda>m. 0 \<le> m \<and> m \<le> 100000000000) (pi_maxAmount i) \<and> opt_ok (\<lambda>n. length n \<le> 300) (pi_note i)"

definition pluginCallbackUrl :: "world \<Rightarrow> string \<Rightarrow> string" where
  "pluginCallbackUrl w i = rev (dropWhile (\<lambda>c. c = CHR ''/'') (rev (env_public_url w))) @ ''/api/hooks/pay/'' @ i"

text \<open>The public shape: the plugin without its secret, the address of its webhook, and whether it has a secret.\<close>
definition paymentPluginDto :: "world \<Rightarrow> payment_plugin \<Rightarrow> payment_plugin \<times> string \<times> bool" where
  "paymentPluginDto w p = (p\<lparr>plg_secret := []\<rparr>, pluginCallbackUrl w (plg_id p), plg_secret p \<noteq> [])"

definition listPaymentPlugins :: "uid \<Rightarrow> plugin_state \<Rightarrow> (payment_plugin \<times> string \<times> bool) list" where
  "listPaymentPlugins actorId s =
    map (paymentPluginDto (pg_world s)) (sort_key plg_createdAt (filter (\<lambda>p. plg_adminId p = actorId) (map snd (pg_book s))))"

definition plugin_not_found :: err where
  "plugin_not_found = not_found_error ''payment plugin not found''"

definition mine_plugin :: "uid \<Rightarrow> string \<Rightarrow> (plugin_state, payment_plugin) op" where
  "mine_plugin actorId i =
    bnd (gets (\<lambda>s. map_of (pg_book s) i)) (\<lambda>found. bnd (or_throw found plugin_not_found) (\<lambda>p.
    andthen (throw_if (plg_adminId p \<noteq> actorId) plugin_not_found) (ret p)))"

text \<open>\<open>randomBytes(n).toString("hex")\<close>.\<close>
definition hex_text :: "nat list \<Rightarrow> string" where
  "hex_text bs = concat (map (\<lambda>b. [''0123456789abcdef'' ! (b div 16 mod 16), ''0123456789abcdef'' ! (b mod 16)]) bs)"

definition randomHex :: "nat \<Rightarrow> (plugin_state, string) op" where
  "randomHex n = in_shop (bnd new_id (\<lambda>k. gets (\<lambda>w. hex_text (ext_random_bytes (svcs w) k n))))"

text \<open>A list as a JSON value: an object with the places as keys.\<close>
definition json_list :: "json list \<Rightarrow> json" where
  "json_list xs = JObj (map (\<lambda>(i, x). (show_nat i, x)) (enumerate 0 xs))"

definition createPaymentPlugin :: "admin \<Rightarrow> plugin_input \<Rightarrow> (plugin_state, (payment_plugin \<times> string \<times> bool) \<times> string) op" where
  "createPaymentPlugin actor inp =
    andthen (throw_if (pi_name inp = None \<or> \<not> input_ok inp) (PlainError ''ZodError''))
    (bnd (gets pg_book) (\<lambda>book.
     andthen (throw_if (MAX_PER_ADMIN \<le> length (filter (\<lambda>p. plg_adminId p = adm_id actor) (map snd book))) (app_error ''too many payment plugins''))
     (bnd (randomHex 8) (\<lambda>i. bnd (randomHex 24) (\<lambda>secret.
      bnd (gets (\<lambda>s. clock (pg_world s))) (\<lambda>tm.
      let plugin = \<lparr>plg_id = i, plg_adminId = adm_id actor, plg_master = (adm_role actor = OWNER),
          plg_name = str_trim (opt_default (pi_name inp) []), plg_enabled = opt_default (pi_enabled inp) True, plg_secret = secret,
          plg_methods = opt_default (pi_methods inp) [CARD], plg_payUrl = str_trim (opt_default (pi_payUrl inp) []),
          plg_autoConfirm = opt_default (pi_autoConfirm inp) True, plg_maxAmount = opt_default (pi_maxAmount inp) 0,
          plg_note = str_trim (opt_default (pi_note inp) []), plg_createdAt = tm, plg_lastCallAt = None, plg_lastStatus = None,
          plg_lastError = None, plg_calls = 0, plg_confirmed = 0\<rparr> in
      andthen (save_book (put_row i plugin))
      (andthen (in_shop (audit (Some (adm_id actor)) ''pay.plugin.create'' (JStr i)
         [(''name'', JStr (plg_name plugin)), (''methods'', json_list (map (\<lambda>m. JStr (method_text m)) (plg_methods plugin)))] None))
      (gets (\<lambda>s. (paymentPluginDto (pg_world s) plugin, secret))))))))))"

definition patched :: "plugin_input \<Rightarrow> payment_plugin \<Rightarrow> payment_plugin" where
  "patched inp p = p\<lparr>plg_name := (case pi_name inp of None \<Rightarrow> plg_name p | Some n \<Rightarrow> str_trim n),
     plg_enabled := opt_default (pi_enabled inp) (plg_enabled p), plg_methods := opt_default (pi_methods inp) (plg_methods p),
     plg_payUrl := (case pi_payUrl inp of None \<Rightarrow> plg_payUrl p | Some u \<Rightarrow> str_trim u),
     plg_autoConfirm := opt_default (pi_autoConfirm inp) (plg_autoConfirm p), plg_maxAmount := opt_default (pi_maxAmount inp) (plg_maxAmount p),
     plg_note := (case pi_note inp of None \<Rightarrow> plg_note p | Some n \<Rightarrow> str_trim n)\<rparr>"

definition updatePaymentPlugin :: "admin \<Rightarrow> string \<Rightarrow> plugin_input \<Rightarrow> (plugin_state, payment_plugin \<times> string \<times> bool) op" where
  "updatePaymentPlugin actor i inp =
    andthen (throw_if (\<not> input_ok inp) (PlainError ''ZodError''))
    (bnd (mine_plugin (adm_id actor) i) (\<lambda>p.
     andthen (save_book (put_row i (patched inp p)))
     (andthen (in_shop (audit (Some (adm_id actor)) ''pay.plugin.update'' (JStr i)
        [(''name'', JStr (plg_name (patched inp p))), (''enabled'', JBool (plg_enabled (patched inp p)))] None))
     (gets (\<lambda>s. paymentPluginDto (pg_world s) (patched inp p))))))"

definition rotatePaymentPluginSecret :: "admin \<Rightarrow> string \<Rightarrow> (plugin_state, (payment_plugin \<times> string \<times> bool) \<times> string) op" where
  "rotatePaymentPluginSecret actor i =
    bnd (mine_plugin (adm_id actor) i) (\<lambda>p. bnd (randomHex 24) (\<lambda>secret.
    andthen (save_book (put_row i (p\<lparr>plg_secret := secret\<rparr>)))
    (andthen (in_shop (audit (Some (adm_id actor)) ''pay.plugin.rotate'' (JStr i) [] None))
    (gets (\<lambda>s. (paymentPluginDto (pg_world s) (p\<lparr>plg_secret := secret\<rparr>), secret))))))"

definition deletePaymentPlugin :: "admin \<Rightarrow> string \<Rightarrow> (plugin_state, unit) op" where
  "deletePaymentPlugin actor i =
    bnd (mine_plugin (adm_id actor) i) (\<lambda>p.
    andthen (save_book (filter (\<lambda>(k, q). k \<noteq> i)))
    (in_shop (audit (Some (adm_id actor)) ''pay.plugin.delete'' (JStr i) [(''name'', JStr (plg_name p))] None)))"

text \<open>\<open>replace(/\{name\}/gi, value)\<close>, the pattern in lower case.\<close>
function replace_ci :: "string \<Rightarrow> string \<Rightarrow> string \<Rightarrow> string" where
  "replace_ci pat value [] = []"
| "replace_ci pat value (c # cs) =
    (if pat \<noteq> [] \<and> to_lower (take (length pat) (c # cs)) = pat then value @ replace_ci pat value (drop (length pat) (c # cs))
     else c # replace_ci pat value cs)"
  by pat_completeness auto
termination by (relation "measure (\<lambda>(pat, value, s). length s)") (auto simp: neq_Nil_conv)

definition pluginPayUrl :: "string \<Rightarrow> int option \<Rightarrow> string option \<Rightarrow> string option \<Rightarrow> string" where
  "pluginPayUrl payUrl amount paymentId orderId =
    (let url = str_trim payUrl in
     if url = [] then []
     else replace_ci ''{order}'' (opt_default orderId [])
       (replace_ci ''{payment}'' (opt_default paymentId [])
       (replace_ci ''{amount}'' (case amount of None \<Rightarrow> [] | Some a \<Rightarrow> show_int a) url)))"

section \<open>The webhook\<close>

definition sameSignature :: "string \<Rightarrow> string option \<Rightarrow> bool" where
  "sameSignature expected got \<longleftrightarrow>
    (let t = str_trim (opt_default got []); clean = to_lower (if to_lower (take 7 t) = ''sha256='' then drop 7 t else t) in
     clean \<noteq> [] \<and> clean = expected)"

record callback_body =
  cb_paymentId :: "string option"
  cb_payment :: "string option"
  cb_id :: "string option"
  cb_status :: "string option"
  cb_amount :: "jval option"
  cb_refId :: "string option"
  cb_ref :: "string option"
  cb_note :: "string option"

text \<open>An optional text of the body: \<open>None\<close> when the field holds anything else.\<close>
definition body_text :: "string \<Rightarrow> jval \<Rightarrow> string option option" where
  "body_text k j = (case jfield k (Some j) of None \<Rightarrow> Some None | Some (VStr s) \<Rightarrow> Some (Some s) | Some _ \<Rightarrow> None)"

definition amount_field :: "jval \<Rightarrow> jval option option" where
  "amount_field j = (case jfield ''amount'' (Some j) of None \<Rightarrow> Some None | Some (VNum n) \<Rightarrow> Some (Some (VNum n))
     | Some (VStr s) \<Rightarrow> Some (Some (VStr s)) | Some _ \<Rightarrow> None)"

definition is_object :: "jval \<Rightarrow> bool" where
  "is_object j = (case j of VObj _ \<Rightarrow> True | _ \<Rightarrow> False)"

definition parse_body :: "jval \<Rightarrow> callback_body option" where
  "parse_body j =
    (if \<not> is_object j then None else
     case (body_text ''paymentId'' j, body_text ''payment'' j, body_text ''id'' j, body_text ''status'' j, amount_field j,
           body_text ''refId'' j, body_text ''ref'' j, body_text ''note'' j) of
       (Some a, Some b, Some c, Some d, Some e, Some f, Some g, Some h) \<Rightarrow>
         Some \<lparr>cb_paymentId = a, cb_payment = b, cb_id = c, cb_status = d, cb_amount = e, cb_refId = f, cb_ref = g, cb_note = h\<rparr>
     | _ \<Rightarrow> None)"

definition OK_WORDS :: "string list" where
  "OK_WORDS = [''ok'', ''success'', ''successful'', ''paid'', ''confirmed'', ''completed'', ''done'', ''true'', ''1'']"

definition BAD_WORDS :: "string list" where
  "BAD_WORDS = [''fail'', ''failed'', ''failure'', ''cancel'', ''canceled'', ''cancelled'', ''rejected'', ''declined'', ''error'', ''false'', ''0'']"

definition stamp :: "string \<Rightarrow> string \<Rightarrow> string option \<Rightarrow> bool \<Rightarrow> (plugin_state, unit) op" where
  "stamp i status er confirmed =
    modify (\<lambda>s. case map_of (pg_book s) i of
        None \<Rightarrow> s
      | Some cur \<Rightarrow> s\<lparr>pg_book := put_row i (cur\<lparr>plg_lastCallAt := Some (clock (pg_world s)), plg_lastStatus := Some status, plg_lastError := er,
            plg_calls := Suc (plg_calls cur), plg_confirmed := plg_confirmed cur + (if confirmed then 1 else 0)\<rparr>) (pg_book s)\<rparr>)"

datatype callback_action = CA_confirmed | CA_review | CA_rejected | CA_ignored

definition action_text_upper :: "callback_action \<Rightarrow> string" where
  "action_text_upper a = (case a of CA_confirmed \<Rightarrow> ''CONFIRMED'' | CA_review \<Rightarrow> ''REVIEW'' | CA_rejected \<Rightarrow> ''REJECTED'' | CA_ignored \<Rightarrow> ''IGNORED'')"

record plugin_result =
  cr_action :: callback_action
  cr_paymentId :: uid
  cr_status :: payment_status
  cr_message :: string

definition finish_callback :: "string \<Rightarrow> callback_action \<Rightarrow> uid \<Rightarrow> payment_status \<Rightarrow> string \<Rightarrow> (plugin_state, plugin_result) op" where
  "finish_callback i action paymentId status message =
    andthen (stamp i (action_text_upper action) (if action = CA_confirmed then None else Some message) (action = CA_confirmed))
    (ret \<lparr>cr_action = action, cr_paymentId = paymentId, cr_status = status, cr_message = message\<rparr>)"

text \<open>A refusal: stamped, then thrown.\<close>
definition refuse :: "string \<Rightarrow> string \<Rightarrow> string \<Rightarrow> err \<Rightarrow> (plugin_state, 'a) op" where
  "refuse i status message e = andthen (stamp i status (Some message) False) (throw e)"

text \<open>\<open>Math.round(Number(String(amount).replace(/[^0-9.]/g, "")))\<close>; a number in plain decimal notation.\<close>
definition declared_amount :: "jval \<Rightarrow> int option" where
  "declared_amount v = (case v of
     VNum n \<Rightarrow> Some (js_round \<bar>n\<bar>)
   | VStr s \<Rightarrow> map_option js_round (decimal_text (filter (\<lambda>c. is_digit c \<or> c = CHR ''.'') s))
   | _ \<Rightarrow> None)"

definition is_short :: "callback_body \<Rightarrow> payment \<Rightarrow> bool" where
  "is_short b p = (case cb_amount b of None \<Rightarrow> False | Some v \<Rightarrow> (case declared_amount v of Some d \<Rightarrow> d < pay_amount p | None \<Rightarrow> False))"

definition over_cap :: "payment_plugin \<Rightarrow> payment \<Rightarrow> bool" where
  "over_cap plugin p \<longleftrightarrow> 0 < plg_maxAmount plugin \<and> plg_maxAmount plugin < pay_amount p"

definition callback_word :: "callback_body \<Rightarrow> string" where
  "callback_word b = to_lower (str_trim (opt_default (cb_status b) ''ok''))"

definition callback_ref :: "callback_body \<Rightarrow> string option" where
  "callback_ref b = nonempty (take 120 (str_trim (opt_default (opt_or (cb_refId b) (cb_ref b)) [])))"

definition callback_note :: "callback_body \<Rightarrow> string option" where
  "callback_note b = nonempty (take 300 (str_trim (opt_default (cb_note b) [])))"

definition review_reason :: "callback_body \<Rightarrow> payment_plugin \<Rightarrow> payment \<Rightarrow> string" where
  "review_reason b plugin p =
    (if is_short b p then ''the declared amount is too small'' else if over_cap plugin p then ''the amount is above the limit of the plugin''
     else if callback_word b \<notin> set OK_WORDS then ''the status sent is unknown'' else ''automatic confirmation is off'')"

definition plugin_opts :: "callback_body \<Rightarrow> payment_plugin \<Rightarrow> confirm_opts" where
  "plugin_opts b plugin = \<lparr>cop_by = None, cop_note = Some (opt_default (callback_note b) (''confirmed by the plugin '' @ plg_name plugin)),
     cop_auto = True, cop_refId = callback_ref b, cop_cardPan = None\<rparr>"

text \<open>The decision on an open payment: reject, send to review, confirm.\<close>
definition decide_payment :: "string \<Rightarrow> payment_plugin \<Rightarrow> callback_body \<Rightarrow> payment \<Rightarrow> (plugin_state, plugin_result) op" where
  "decide_payment i plugin b p =
    (let refId = callback_ref b; note = callback_note b; why = review_reason b plugin p in
     if callback_word b \<in> set BAD_WORDS then
       andthen (bnd (in_shop (update_payment (pay_id p) (\<lambda>r. r\<lparr>pay_status := P_REJECTED,
           pay_reviewNote := Some (opt_default note (''rejected by the plugin '' @ plg_name plugin))\<rparr>))) (\<lambda>_. ret ()))
       (andthen (in_shop (audit (Some (plg_adminId plugin)) ''pay.plugin.reject'' (JId (pay_id p))
           [(''plugin'', JStr (plg_id plugin)), (''refId'', opt_json JStr refId)] None))
       (finish_callback i CA_rejected (pay_id p) P_REJECTED ''payment rejected''))
     else if callback_word b \<notin> set OK_WORDS \<or> is_short b p \<or> over_cap plugin p \<or> \<not> plg_autoConfirm plugin then
       andthen (bnd (in_shop (update_payment (pay_id p) (\<lambda>r. r\<lparr>pay_status := P_REVIEW,
           pay_reviewNote := Some ((case note of Some n \<Rightarrow> n @ '' - '' | None \<Rightarrow> []) @ why @ '' ('' @ plg_name plugin @ '')''),
           pay_refId := opt_or refId (pay_refId r)\<rparr>))) (\<lambda>_. ret ()))
       (andthen (in_shop (audit (Some (plg_adminId plugin)) ''pay.plugin.review'' (JId (pay_id p))
           [(''plugin'', JStr (plg_id plugin)), (''why'', JStr why),
            (''declared'', opt_json JInt (Option.bind (cb_amount b) declared_amount)), (''amount'', JInt (pay_amount p))] None))
       (finish_callback i CA_review (pay_id p) P_REVIEW (why @ ''; sent to review'')))
     else
       andthen (bnd (in_shop (confirmPayment (pay_id p) (plugin_opts b plugin))) (\<lambda>_. ret ()))
       (andthen (in_shop (audit (Some (plg_adminId plugin)) ''pay.plugin.confirm'' (JId (pay_id p))
           [(''plugin'', JStr (plg_id plugin)), (''refId'', opt_json JStr refId), (''amount'', JInt (pay_amount p))] None))
       (finish_callback i CA_confirmed (pay_id p) P_CONFIRMED ''payment confirmed'')))"

definition body_payment_id :: "callback_body \<Rightarrow> string" where
  "body_payment_id b = str_trim (opt_default (opt_or (opt_or (cb_paymentId b) (cb_payment b)) (cb_id b)) [])"

text \<open>The payment with that identifier.\<close>
definition addressed :: "callback_body \<Rightarrow> plugin_state \<Rightarrow> payment option" where
  "addressed b s = find (\<lambda>p. pg_id_text s (pay_id p) = body_payment_id b) (payments (pg_world s))"

definition check_payment :: "string \<Rightarrow> payment_plugin \<Rightarrow> callback_body \<Rightarrow> (plugin_state, plugin_result) op" where
  "check_payment i plugin b =
    (if body_payment_id b = [] then refuse i ''NO_PAYMENT_ID'' ''no payment id was sent'' (app_error ''no payment id was sent'')
     else bnd (gets (addressed b)) (\<lambda>found.
       case found of
         None \<Rightarrow> refuse i ''NOT_FOUND'' ''there is no such payment'' (not_found_error ''there is no such payment'')
       | Some p \<Rightarrow>
          if \<not> plg_master plugin \<and> pay_adminId p \<noteq> plg_adminId plugin
          then refuse i ''FORBIDDEN'' ''the payment is not of this plugin'' (forbidden_error ''the payment is not of this plugin'')
          else if pay_method p \<notin> set (plg_methods plugin)
          then refuse i ''METHOD_OFF'' ''the method is off in the plugin'' (forbidden_error ''the method is off in the plugin'')
          else if pay_status p = P_CONFIRMED then finish_callback i CA_ignored (pay_id p) (pay_status p) ''the payment was confirmed before''
          else if pay_status p \<noteq> P_PENDING \<and> pay_status p \<noteq> P_REVIEW
          then finish_callback i CA_ignored (pay_id p) (pay_status p) ''the payment cannot change''
          else decide_payment i plugin b p))"

text \<open>\<open>JSON.parse(rawBody || "{}")\<close> and the schema.\<close>
definition read_body :: "string \<Rightarrow> plugin_state \<Rightarrow> callback_body option" where
  "read_body raw s = Option.bind (if raw = [] then Some (VObj []) else pg_json s raw) parse_body"

definition handlePaymentPluginCallback :: "string \<Rightarrow> string \<Rightarrow> string option \<Rightarrow> (plugin_state, plugin_result) op" where
  "handlePaymentPluginCallback i raw signature =
    bnd (gets (\<lambda>s. map_of (pg_book s) i)) (\<lambda>found. bnd (or_throw found plugin_not_found) (\<lambda>plugin.
    andthen (throw_if (\<not> plg_enabled plugin) (forbidden_error ''the plugin is off''))
    (andthen (throw_if (plg_secret plugin = []) (forbidden_error ''the plugin has no signing key''))
    (bnd (gets (\<lambda>s. sameSignature (pg_hmac s (plg_secret plugin) raw) signature)) (\<lambda>signed.
     if \<not> signed then refuse i ''BAD_SIGNATURE'' ''the signature is not valid'' (forbidden_error ''the signature is not valid'')
     else bnd (gets (read_body raw)) (\<lambda>body.
       case body of
         None \<Rightarrow> refuse i ''BAD_BODY'' ''the body must be valid JSON'' (app_error ''the body must be valid JSON'')
       | Some b \<Rightarrow> check_payment i plugin b))))))"

end
