(* ===== verification/PluginSafety.thy ===== *)
theory PluginSafety
  imports CardSafety PaymentPlugins
begin

text \<open>
  What a signed callback of a payment plugin may do to the payments, on top of the life cycle of
  \<open>PaymentLife\<close> and the facts on \<open>confirmPayment\<close>.
\<close>

definition pays :: "plugin_state \<Rightarrow> payment list" where
  "pays s = payments (pg_world s)"

lemma keeps_in_shop: "quiet m \<Longrightarrow> preserves (\<lambda>v. pays v = ps) (in_shop m)"
proof (rule preservesI)
  fix s assume "quiet m" "pays s = ps"
  moreover obtain x w where "m (pg_world s) = (Inr x, w)" "events_only (pg_world s) w" using \<open>quiet m\<close> unfolding quiet_def by blast
  ultimately show "pays (snd (in_shop m s)) = ps" by (simp add: in_shop_def pays_def eo_payments)
qed

lemma keeps_stamp: "preserves (\<lambda>v. pays v = ps) (stamp i st er c)"
  unfolding stamp_def by (rule preserves_modify) (simp add: pays_def split: option.split)

lemma keeps_finish: "preserves (\<lambda>v. pays v = ps) (finish_callback i a p st m)"
  unfolding finish_callback_def by (intro preserves_intros keeps_stamp)

lemma keeps_refuse: "preserves (\<lambda>v. pays v = ps) (refuse i st m e)"
  unfolding refuse_def by (intro preserves_intros keeps_stamp)

text \<open>A write followed by steps that keep the payments.\<close>
lemma write_then:
  assumes "\<And>ps. preserves (\<lambda>v. pays v = ps) k"
  shows "pays (snd (andthen (bnd (in_shop m) (\<lambda>_. ret ())) k s)) = payments (snd (m (pg_world s)))"
proof -
  obtain r w where m: "m (pg_world s) = (r, w)" by force
  show ?thesis
  proof (cases r)
    case (Inl e)
    then show ?thesis by (simp add: andthen_def bnd_def in_shop_def m pays_def)
  next
    case (Inr x)
    have "pays (snd (k (s\<lparr>pg_world := w\<rparr>))) = payments w"
      by (rule preservesD [OF assms]) (simp add: pays_def)
    then show ?thesis by (simp add: andthen_def bnd_def in_shop_def m Inr ret_def)
  qed
qed

text \<open>The payments a plugin may confirm on its own.\<close>
definition may_settle :: "callback_body \<Rightarrow> payment_plugin \<Rightarrow> payment \<Rightarrow> bool" where
  "may_settle b plugin p \<longleftrightarrow> callback_word b \<in> set OK_WORDS \<and> \<not> is_short b p \<and> \<not> over_cap plugin p \<and> plg_autoConfirm plugin"

definition verdict :: "callback_body \<Rightarrow> payment_plugin \<Rightarrow> payment \<Rightarrow> payment_status" where
  "verdict b plugin p = (if callback_word b \<in> set BAD_WORDS then P_REJECTED else if may_settle b plugin p then P_CONFIRMED else P_REVIEW)"

lemma decide_writes:
  assumes "find_payment (pay_id p) (pg_world s) = Some p" and "pay_status p \<in> {P_PENDING, P_REVIEW}"
  shows "\<exists>f. pays (snd (decide_payment i plugin b p s)) = upd_rows (\<lambda>r. pay_id r = pay_id p) f (pays s) \<and>
    pay_status (f p) = verdict b plugin p"
proof -
  note keep = keeps_in_shop [OF quiet_audit] keeps_finish
  have upd: "payments (snd (update_payment (pay_id p) g (pg_world s))) =
      upd_rows (\<lambda>r. pay_id r = pay_id p) (\<lambda>r. (g r)\<lparr>pay_updatedAt := clock (pg_world s)\<rparr>) (payments (pg_world s))" for g
    using assms(1) by (simp add: update_payment_def now_def)
  consider (bad) "callback_word b \<in> set BAD_WORDS" | (settle) "callback_word b \<notin> set BAD_WORDS" "may_settle b plugin p"
    | (review) "callback_word b \<notin> set BAD_WORDS" "\<not> may_settle b plugin p" by blast
  then show ?thesis
  proof cases
    case bad
    then show ?thesis
      by (simp add: decide_payment_def Let_def verdict_def) (subst write_then, intro preserves_andthen keep, auto simp: upd pays_def intro!: exI)
  next
    case settle
    have "may_confirm (plugin_opts b plugin) p" using assms(2) by (auto simp: may_confirm_def plugin_opts_def)
    note c = confirm_writes [OF assms(1) this]
    show ?thesis using settle
      by (simp add: decide_payment_def Let_def verdict_def may_settle_def)
         (subst write_then, intro preserves_andthen keep, auto simp: c pays_def intro!: exI)
  next
    case review
    then have "callback_word b \<notin> set OK_WORDS \<or> is_short b p \<or> over_cap plugin p \<or> \<not> plg_autoConfirm plugin" by (simp add: may_settle_def)
    with review show ?thesis
      by (simp add: decide_payment_def Let_def verdict_def) (subst write_then, intro preserves_andthen keep, auto simp: upd pays_def intro!: exI)
  qed
qed

text \<open>The call reaches the decision.\<close>
definition admitted :: "string \<Rightarrow> string \<Rightarrow> string option \<Rightarrow> plugin_state \<Rightarrow> payment_plugin \<Rightarrow> callback_body \<Rightarrow> payment \<Rightarrow> bool" where
  "admitted i raw sig s plugin b p \<longleftrightarrow> map_of (pg_book s) i = Some plugin \<and> plg_enabled plugin \<and> plg_secret plugin \<noteq> [] \<and>
     sameSignature (pg_hmac s (plg_secret plugin) raw) sig \<and> read_body raw s = Some b \<and> body_payment_id b \<noteq> [] \<and> addressed b s = Some p \<and>
     (plg_master plugin \<or> pay_adminId p = plg_adminId plugin) \<and> pay_method p \<in> set (plg_methods plugin) \<and> pay_status p \<in> {P_PENDING, P_REVIEW}"

lemma admitted_runs:
  "admitted i raw sig s plugin b p \<Longrightarrow> handlePaymentPluginCallback i raw sig s = decide_payment i plugin b p s"
  by (auto simp: admitted_def handlePaymentPluginCallback_def check_payment_def)

lemma not_admitted_keeps:
  assumes "\<And>plugin b p. \<not> admitted i raw sig s plugin b p"
  shows "pays (snd (handlePaymentPluginCallback i raw sig s)) = pays s"
proof -
  have r: "pays (snd (refuse i st m e v)) = pays v" for st m e v by (rule preservesD [OF keeps_refuse]) simp
  have f: "pays (snd (finish_callback i a q st m v)) = pays v" for a q st m v by (rule preservesD [OF keeps_finish]) simp
  show ?thesis
  proof (cases "map_of (pg_book s) i")
    case None
    then show ?thesis by (simp add: handlePaymentPluginCallback_def throw_def)
  next
    case (Some plugin)
    show ?thesis
    proof (cases "plg_enabled plugin \<and> plg_secret plugin \<noteq> [] \<and> sameSignature (pg_hmac s (plg_secret plugin) raw) sig")
      case False
      then show ?thesis using Some r by (auto simp: handlePaymentPluginCallback_def throw_def andthen_throw_if)
    next
      case ok: True
      show ?thesis
      proof (cases "read_body raw s")
        case None
        then show ?thesis using Some ok r by (simp add: handlePaymentPluginCallback_def)
      next
        case (Some b)
        have run: "handlePaymentPluginCallback i raw sig s = check_payment i plugin b s"
          using \<open>map_of (pg_book s) i = Some plugin\<close> ok Some by (simp add: handlePaymentPluginCallback_def)
        show ?thesis
        proof (cases "body_payment_id b = [] \<or> addressed b s = None")
          case True
          then show ?thesis using r by (auto simp: run check_payment_def)
        next
          case False
          then obtain p where p: "addressed b s = Some p" "body_payment_id b \<noteq> []" by auto
          have "\<not> ((plg_master plugin \<or> pay_adminId p = plg_adminId plugin) \<and> pay_method p \<in> set (plg_methods plugin) \<and> pay_status p \<in> {P_PENDING, P_REVIEW})"
            using assms [of plugin b p] \<open>map_of (pg_book s) i = Some plugin\<close> ok Some p by (auto simp: admitted_def)
          then show ?thesis using p r f by (auto simp: run check_payment_def)
        qed
      qed
    qed
  qed
qed

text \<open>
  C19: A signed callback decides exactly one open payment, as its word, its amount and the settings of
  the plugin say (safety, every state and body). A call is admitted when the plugin is on and has a key,
  the body carries a valid signature of the exact bytes and names a payment that is open, of one of the
  plugin's methods and of its admin (or the plugin is the owner's). An admitted call changes that payment and no other: a
  negative word makes it REJECTED; a positive word, with an amount that is not declared too small and is
  under the plugin's ceiling, and with automatic confirmation on, makes it CONFIRMED; everything else
  makes it REVIEW. A call that is not admitted leaves every payment as it is.
\<close>
theorem plugin_callback_sound:
  assumes "payments_wf (pg_world s)" and "s' = snd (handlePaymentPluginCallback i raw sig s)"
  shows "((\<nexists>plugin b p. admitted i raw sig s plugin b p) \<longrightarrow> pays s' = pays s) \<and>
    (\<forall>plugin b p. admitted i raw sig s plugin b p \<longrightarrow>
      (\<exists>f. pays s' = upd_rows (\<lambda>r. pay_id r = pay_id p) f (pays s) \<and>
        pay_status (f p) = (if callback_word b \<in> set BAD_WORDS then P_REJECTED
          else if callback_word b \<in> set OK_WORDS \<and> \<not> is_short b p \<and> \<not> over_cap plugin p \<and> plg_autoConfirm plugin then P_CONFIRMED
          else P_REVIEW)))"
proof (intro conjI impI allI)
  assume "\<nexists>plugin b p. admitted i raw sig s plugin b p"
  then show "pays s' = pays s" using not_admitted_keeps [of i raw sig s] assms(2) by blast
next
  fix plugin b p assume a: "admitted i raw sig s plugin b p"
  then have "p \<in> set (payments (pg_world s))" "pay_status p \<in> {P_PENDING, P_REVIEW}"
    by (auto simp: admitted_def addressed_def find_Some_iff)
  then have "find_payment (pay_id p) (pg_world s) = Some p"
    using assms(1) unfolding find_payment_def payments_wf_def by (intro find_row_distinct) simp_all
  from decide_writes [OF this \<open>pay_status p \<in> {P_PENDING, P_REVIEW}\<close>, of i plugin b]
  show "\<exists>f. pays s' = upd_rows (\<lambda>r. pay_id r = pay_id p) f (pays s) \<and>
        pay_status (f p) = (if callback_word b \<in> set BAD_WORDS then P_REJECTED
          else if callback_word b \<in> set OK_WORDS \<and> \<not> is_short b p \<and> \<not> over_cap plugin p \<and> plg_autoConfirm plugin then P_CONFIRMED
          else P_REVIEW)"
    unfolding assms(2) admitted_runs [OF a] verdict_def may_settle_def by blast
qed

text \<open>An amount without a readable number counts as not declared: it does not stop the confirmation.\<close>
lemma unreadable_amount_is_not_short:
  "cb_amount b = Some (VStr ''1.2.3'') \<Longrightarrow> \<not> is_short b p"
  "cb_amount b = Some (VNum (- 700)) \<Longrightarrow> pay_amount p = 700 \<Longrightarrow> \<not> is_short b p"
proof -
  have "declared_amount (VStr ''1.2.3'') = None" by code_simp
  then show "cb_amount b = Some (VStr ''1.2.3'') \<Longrightarrow> \<not> is_short b p" by (simp add: is_short_def)
  have "declared_amount (VNum (- 700)) = Some 700" by code_simp
  then show "cb_amount b = Some (VNum (- 700)) \<Longrightarrow> pay_amount p = 700 \<Longrightarrow> \<not> is_short b p" by (simp add: is_short_def)
qed

definition demo_plugin :: payment_plugin where
  "demo_plugin = \<lparr>plg_id = ''p1'', plg_adminId = 3, plg_master = True, plg_name = ''bank'', plg_enabled = True, plg_secret = ''ab'',
     plg_methods = [CARD], plg_payUrl = [], plg_autoConfirm = True, plg_maxAmount = 0, plg_note = [], plg_createdAt = 0,
     plg_lastCallAt = None, plg_lastStatus = None, plg_lastError = None, plg_calls = 0, plg_confirmed = 0\<rparr>"

definition demo_plugins :: "rat \<Rightarrow> plugin_state" where
  "demo_plugins amount = \<lparr>pg_world = demo_reviews, pg_book = [(''p1'', demo_plugin)], pg_hmac = (\<lambda>k raw. k @ raw),
     pg_json = (\<lambda>_. Some (VObj [(''paymentId'', VStr ''50''), (''status'', VStr ''Paid''), (''amount'', VNum amount)])), pg_id_text = show_nat\<rparr>"

text \<open>A signed call that declares 900 for a payment of 1000 sends it to review; one that declares 1000 confirms it.\<close>
lemma plugin_callback_sound_witness:
  "list_ex (\<lambda>q. pay_id q = 50 \<and> pay_status q = P_REVIEW) (pays (snd (handlePaymentPluginCallback ''p1'' ''c'' (Some ''sha256=ABC'') (demo_plugins 900)))) \<and>
   list_ex (\<lambda>q. pay_status q = P_CONFIRMED) (pays (snd (handlePaymentPluginCallback ''p1'' ''c'' (Some ''sha256=ABC'') (demo_plugins 1000))))"
proof (rule conjI)
  let ?s = "demo_plugins 900"
  let ?s' = "snd (handlePaymentPluginCallback ''p1'' ''c'' (Some ''sha256=ABC'') ?s)"
  define p0 where "p0 = (demo_payment 50 K_TOPUP CARD P_REVIEW 1000)\<lparr>pay_customerId := None\<rparr>"
  define b0 where "b0 = \<lparr>cb_paymentId = Some ''50'', cb_payment = None, cb_id = None, cb_status = Some ''Paid'', cb_amount = Some (VNum 900),
      cb_refId = None, cb_ref = None, cb_note = None\<rparr>"
  have b: "read_body ''c'' ?s = Some b0" "addressed b0 ?s = Some p0" unfolding b0_def p0_def by code_simp+
  have v: "callback_word b0 \<notin> set BAD_WORDS" "is_short b0 p0" "pay_id p0 = 50" unfolding b0_def p0_def by code_simp+
  have "sameSignature (pg_hmac ?s (plg_secret demo_plugin) ''c'') (Some ''sha256=ABC'')" "body_payment_id b0 \<noteq> []"
    unfolding b0_def by code_simp+
  then have a: "admitted ''p1'' ''c'' (Some ''sha256=ABC'') ?s demo_plugin b0 p0"
    using b by (simp add: admitted_def demo_plugins_def demo_plugin_def p0_def demo_payment_def)
  have rows: "p0 \<in> set (pays ?s)"
    by (simp add: pays_def demo_plugins_def demo_reviews_def p0_def)
  have "payments_wf (pg_world ?s)" using demo_reviews_wf by (simp add: demo_plugins_def)
  from plugin_callback_sound [OF this refl, of "''p1''" "''c''" "Some ''sha256=ABC''"] a v
  obtain f where f: "pays ?s' = upd_rows (\<lambda>r. pay_id r = 50) f (pays ?s)" "pay_status (f p0) = P_REVIEW" by fastforce
  have "pay_id (f p0) = 50"
  proof -
    have "map pay_id (pays ?s') = map pay_id (pays ?s)" by code_simp
    then have "\<forall>x \<in> set (pays ?s). pay_id (if pay_id x = 50 then f x else x) = pay_id x" by (simp add: f upd_rows_def)
    from bspec [OF this rows] v(3) show ?thesis by simp
  qed
  moreover have "f p0 \<in> set (pays ?s')" unfolding f(1) upd_rows_def using rows v(3) by (force simp: image_iff)
  ultimately show "list_ex (\<lambda>q. pay_id q = 50 \<and> pay_status q = P_REVIEW) (pays ?s')"
    unfolding list_ex_iff using f(2) by blast
  show "list_ex (\<lambda>q. pay_status q = P_CONFIRMED) (pays (snd (handlePaymentPluginCallback ''p1'' ''c'' (Some ''sha256=ABC'') (demo_plugins 1000))))"
    by code_simp
qed

end
