(* ===== verification/ApiKeys.thy ===== *)
theory ApiKeys
  imports Events Demo
begin

text \<open>
  \<open>apikeys.ts\<close>: the personal keys of the public REST API. Only the hash of a key is stored. The table
  \<open>ApiKey\<close> is a field of \<open>key_state\<close>, beside the state of the panel.
\<close>

datatype api_scope = SC_READ | SC_WRITE

record api_key =
  apk_id :: uid
  apk_adminId :: uid
  apk_name :: string
  apk_prefix :: string
  apk_keyHash :: string
  apk_scopes :: "api_scope list"
  apk_lastUsedAt :: "time option"
  apk_expiresAt :: "time option"
  apk_revokedAt :: "time option"
  apk_createdAt :: time

record key_state =
  ak_world :: world
  ak_keys :: "api_key list"

definition in_base :: "(world, 'a) op \<Rightarrow> (key_state, 'a) op" where
  "in_base m s = (case m (ak_world s) of (r, w') \<Rightarrow> (r, s\<lparr>ak_world := w'\<rparr>))"

definition key_now :: "(key_state, time) op" where
  "key_now = gets (\<lambda>s. clock (ak_world s))"

definition set_keys :: "(api_key list \<Rightarrow> api_key list) \<Rightarrow> (key_state, unit) op" where
  "set_keys f = modify (\<lambda>s. s\<lparr>ak_keys := f (ak_keys s)\<rparr>)"

text \<open>The public shape of a key: everything but the hash.\<close>
definition strip_key :: "api_key \<Rightarrow> api_key" where
  "strip_key k = k\<lparr>apk_keyHash := []\<rparr>"

definition scope_text :: "api_scope \<Rightarrow> string" where
  "scope_text c = (case c of SC_READ \<Rightarrow> ''read'' | SC_WRITE \<Rightarrow> ''write'')"

definition listApiKeys :: "uid \<Rightarrow> key_state \<Rightarrow> api_key list" where
  "listApiKeys adminId s = map strip_key (sort_key (\<lambda>k. - apk_createdAt k) (filter (\<lambda>k. apk_adminId k = adminId) (ak_keys s)))"

record api_key_input =
  aki_name :: string
  aki_scopes :: "api_scope list option"
  aki_expiresAt :: "string option"

text \<open>\<open>new Date(text)\<close> of a text that is given; a date that cannot be read is refused by the database.\<close>
definition key_expiry :: "services \<Rightarrow> string option \<Rightarrow> time option option" where
  "key_expiry x v = str_or v (Some None) (\<lambda>t. map_option Some (ext_parse_date x t))"

definition new_api_key :: "uid \<Rightarrow> uid \<Rightarrow> string \<Rightarrow> api_key_input \<Rightarrow> time option \<Rightarrow> services \<Rightarrow> time \<Rightarrow> api_key" where
  "new_api_key i adminId plaintext inp expires x tm =
    \<lparr>apk_id = i, apk_adminId = adminId,
     apk_name = (let n = take 60 (str_trim (aki_name inp)) in if n = [] then ''API key'' else n),
     apk_prefix = take 12 plaintext, apk_keyHash = ext_sha256 x plaintext,
     apk_scopes = (case aki_scopes inp of Some (c # cs) \<Rightarrow> rev (remdups (rev (c # cs))) | _ \<Rightarrow> [SC_READ]),
     apk_lastUsedAt = None, apk_expiresAt = expires, apk_revokedAt = None, apk_createdAt = tm\<rparr>"

definition createApiKey :: "uid \<Rightarrow> api_key_input \<Rightarrow> (key_state, api_key \<times> string) op" where
  "createApiKey actorId inp =
    bnd (gets (\<lambda>s. length (filter (\<lambda>k. apk_adminId k = actorId \<and> apk_revokedAt k = None) (ak_keys s)))) (\<lambda>count.
    andthen (throw_if (20 \<le> count) (forbidden_error ''at most 20 active keys''))
    (bnd (in_base (randomToken 30)) (\<lambda>token.
     let plaintext = ''srp_'' @ token in
     bnd (gets (\<lambda>s. svcs (ak_world s))) (\<lambda>x.
     bnd (or_throw (key_expiry x (aki_expiresAt inp)) (PlainError ''invalid date'')) (\<lambda>expires.
     bnd (gets (\<lambda>s. \<exists>k \<in> set (ak_keys s). apk_keyHash k = ext_sha256 x plaintext)) (\<lambda>dup.
     andthen (throw_if dup unique_violation)
     (bnd (in_base new_id) (\<lambda>i. bnd key_now (\<lambda>tm.
      let key = new_api_key i actorId plaintext inp expires x tm in
      andthen (set_keys (\<lambda>rows. rows @ [key]))
      (andthen (in_base (audit (Some actorId) ''apikey.create'' (JId i)
         [(''name'', JStr (apk_name key)), (''scopes'', JObj (map (\<lambda>(n, c). (show_nat n, JStr (scope_text c))) (enumerate 0 (apk_scopes key))))] None))
      (ret (strip_key key, plaintext))))))))))))"

definition revokeApiKey :: "uid \<Rightarrow> uid \<Rightarrow> (key_state, unit) op" where
  "revokeApiKey actorId i =
    bnd (gets (\<lambda>s. find (\<lambda>k. apk_id k = i \<and> apk_adminId k = actorId) (ak_keys s))) (\<lambda>found.
    bnd (or_throw found (not_found_error ''key not found'')) (\<lambda>key.
    bnd key_now (\<lambda>tm.
    andthen (set_keys (upd_rows (\<lambda>k. apk_id k = i) (\<lambda>k. k\<lparr>apk_revokedAt := Some tm\<rparr>)))
    (in_base (audit (Some actorId) ''apikey.revoke'' (JId i) [(''name'', JStr (apk_name key))] None)))))"

text \<open>\<open>/^Bearer\s+(srp_[A-Za-z0-9_-]{20,})$/i\<close>\<close>

definition token_char :: "char \<Rightarrow> bool" where
  "token_char c \<longleftrightarrow> is_upper c \<or> is_lower c \<or> is_digit c \<or> c = CHR ''_'' \<or> c = CHR ''-''"

definition bearer_token :: "string \<Rightarrow> string option" where
  "bearer_token h =
    (let rest = drop 6 h; token = dropWhile is_space rest in
     if to_lower (take 6 h) = ''bearer'' \<and> rest \<noteq> [] \<and> is_space (hd rest) \<and> to_lower (take 4 token) = ''srp_'' \<and>
        20 \<le> length (drop 4 token) \<and> list_all token_char (drop 4 token)
     then Some token else None)"

definition unauthorized :: "string \<Rightarrow> err" where
  "unauthorized m = AppError m 401 ''unauthorized''"

definition passed :: "time \<Rightarrow> time option \<Rightarrow> bool" where
  "passed tm t = (case t of Some e \<Rightarrow> e < tm | None \<Rightarrow> False)"

text \<open>\<open>lastUsedAt\<close> is written at most once a minute; a failure of that write is ignored.\<close>
definition touch_key :: "api_key \<Rightarrow> (key_state, unit) op" where
  "touch_key k =
    bnd key_now (\<lambda>tm. do_when (case apk_lastUsedAt k of None \<Rightarrow> True | Some t \<Rightarrow> 60000 < tm - t)
      (set_keys (upd_rows (\<lambda>r. apk_id r = apk_id k) (\<lambda>r. r\<lparr>apk_lastUsedAt := Some tm\<rparr>))))"

definition authenticateApiKey :: "string option \<Rightarrow> api_scope \<Rightarrow> (key_state, admin \<times> api_key) op" where
  "authenticateApiKey authorization scope =
    bnd (or_throw (bearer_token (opt_default authorization [])) (unauthorized ''API key required'')) (\<lambda>token.
    bnd (gets (\<lambda>s. find_row apk_keyHash (ext_sha256 (svcs (ak_world s)) token) (ak_keys s))) (\<lambda>found.
    bnd (or_throw found (unauthorized ''invalid API key'')) (\<lambda>k.
    andthen (throw_if (apk_revokedAt k \<noteq> None) (unauthorized ''invalid API key''))
    (bnd key_now (\<lambda>tm.
    andthen (throw_if (passed tm (apk_expiresAt k)) (unauthorized ''API key expired''))
    (bnd (gets (\<lambda>s. find_admin (apk_adminId k) (ak_world s))) (\<lambda>a. bnd (or_throw a record_not_found) (\<lambda>a.
    andthen (throw_if (\<not> adm_isActive a) (forbidden_error ''admin disabled''))
    (andthen (throw_if (passed tm (adm_expiresAt a)) (forbidden_error ''admin expired''))
    (andthen (throw_if (scope = SC_WRITE \<and> SC_WRITE \<notin> set (apk_scopes k)) (forbidden_error ''write scope required''))
    (andthen (touch_key k)
    (ret (a, strip_key k)))))))))))))"

section \<open>The life of a key\<close>

text \<open>Identifiers and hashes are unique, identifiers are old.\<close>
definition keys_ok :: "key_state \<Rightarrow> bool" where
  "keys_ok s \<longleftrightarrow> distinct (map apk_id (ak_keys s)) \<and> distinct (map apk_keyHash (ak_keys s)) \<and>
     list_all (\<lambda>k. apk_id k < next_id (ak_world s)) (ak_keys s)"

text \<open>A row is revoked under this hash, and the hash function is \<open>x\<close>.\<close>
definition revoked_hash :: "string \<Rightarrow> key_state \<Rightarrow> bool" where
  "revoked_hash h s \<longleftrightarrow> keys_ok s \<and> (\<exists>k \<in> set (ak_keys s). apk_keyHash k = h \<and> apk_revokedAt k \<noteq> None)"

inductive key_step :: "key_state \<Rightarrow> key_state \<Rightarrow> bool" where
  created: "key_step s (snd (createApiKey actorId inp s))"
| revoked: "key_step s (snd (revokeApiKey actorId i s))"
| used: "key_step s (snd (authenticateApiKey h scope s))"
| later: "key_step s (s\<lparr>ak_world := (ak_world s)\<lparr>clock := tm\<rparr>\<rparr>)"

text \<open>What the steps keep: the hash function and what \<open>P\<close> says of the keys and the identifier counter.\<close>
definition stable_keys :: "(key_state \<Rightarrow> bool) \<Rightarrow> bool" where
  "stable_keys P \<longleftrightarrow> (\<forall>s w. P s \<longrightarrow> svcs w = svcs (ak_world s) \<longrightarrow> next_id (ak_world s) \<le> next_id w \<longrightarrow> P (s\<lparr>ak_world := w\<rparr>))"

lemma stable_base:
  assumes "stable_keys P" and "\<And>w. svcs (snd (m w)) = svcs w \<and> next_id w \<le> next_id (snd (m w))"
  shows "preserves P (in_base m)"
proof (rule preservesI)
  fix s assume "P s"
  then show "P (snd (in_base m s))"
    using assms(1) assms(2) [of "ak_world s"] by (auto simp: in_base_def stable_keys_def split: prod.split)
qed

lemma base_audit: "stable_keys P \<Longrightarrow> preserves P (in_base (audit a act t m ip))"
proof (erule stable_base)
  fix w
  obtain w' where w': "audit a act t m ip w = (Inr (), w')" "events_only w w'" using audit_events by blast
  then show "svcs (snd (audit a act t m ip w)) = svcs w \<and> next_id w \<le> next_id (snd (audit a act t m ip w))"
    by (simp add: eo_svcs eo_next_id)
qed

lemma base_draws: "stable_keys P \<Longrightarrow> preserves P (in_base new_id)" "stable_keys P \<Longrightarrow> preserves P (in_base (randomToken n))"
  by (erule stable_base, simp add: new_id_def) (erule stable_base, simp add: randomToken_def new_id_def bnd_def gets_def)

text \<open>An invariant that allows the writes of the table.\<close>
locale key_law =
  fixes P :: "key_state \<Rightarrow> bool"
  assumes stable: "stable_keys P"
    and add_key: "P s \<Longrightarrow> apk_id k = next_id (ak_world s) \<Longrightarrow> apk_keyHash k \<notin> apk_keyHash ` set (ak_keys s) \<Longrightarrow>
      P (s\<lparr>ak_world := (ak_world s)\<lparr>next_id := Suc (next_id (ak_world s))\<rparr>, ak_keys := ak_keys s @ [k]\<rparr>)"
    and mark_keys: "P s \<Longrightarrow> (\<And>k. apk_id (f k) = apk_id k \<and> apk_keyHash (f k) = apk_keyHash k \<and> (apk_revokedAt k \<noteq> None \<longrightarrow> apk_revokedAt (f k) \<noteq> None)) \<Longrightarrow>
      P (s\<lparr>ak_keys := upd_rows q f (ak_keys s)\<rparr>)"
begin

lemma keep_marks:
  "(\<And>k. apk_id (f k) = apk_id k \<and> apk_keyHash (f k) = apk_keyHash k \<and> (apk_revokedAt k \<noteq> None \<longrightarrow> apk_revokedAt (f k) \<noteq> None)) \<Longrightarrow>
    preserves P (set_keys (upd_rows q f))"
  unfolding set_keys_def by (rule preserves_modify) (rule mark_keys)

lemma keep_auth: "preserves P (authenticateApiKey h scope)"
  unfolding authenticateApiKey_def touch_key_def key_now_def
  by (intro preserves_intros keep_marks) simp

lemma keep_revoke: "preserves P (revokeApiKey a i)"
  unfolding revokeApiKey_def key_now_def by (intro preserves_intros keep_marks base_audit stable) simp

lemma keep_create: "preserves P (createApiKey a inp)"
proof -
  have "preserves P (bnd (gets (\<lambda>s. \<exists>k \<in> set (ak_keys s). apk_keyHash k = h)) (\<lambda>dup. andthen (throw_if dup unique_violation)
      (bnd (in_base new_id) (\<lambda>i. bnd key_now (\<lambda>tm. andthen (set_keys (\<lambda>rows. rows @ [new i tm])) (rest i tm))))))"
    if new: "\<And>i tm. apk_id (new i tm) = i \<and> apk_keyHash (new i tm) = h" and rest: "\<And>i tm. preserves P (rest i tm)"
    for h new and rest :: "uid \<Rightarrow> time \<Rightarrow> (key_state, 'x) op"
  proof (rule preservesI)
    fix s assume s: "P s"
    let ?i = "next_id (ak_world s)" and ?tm = "clock (ak_world s)"
    show "P (snd (bnd (gets (\<lambda>s. \<exists>k \<in> set (ak_keys s). apk_keyHash k = h)) (\<lambda>dup. andthen (throw_if dup unique_violation)
      (bnd (in_base new_id) (\<lambda>i. bnd key_now (\<lambda>tm. andthen (set_keys (\<lambda>rows. rows @ [new i tm])) (rest i tm))))) s))"
    proof (cases "\<exists>k \<in> set (ak_keys s). apk_keyHash k = h")
      case True
      then show ?thesis using s by (simp add: andthen_throw_if throw_def)
    next
      case False
      let ?s = "s\<lparr>ak_world := (ak_world s)\<lparr>next_id := Suc ?i\<rparr>, ak_keys := ak_keys s @ [new ?i ?tm]\<rparr>"
      have "P ?s" using new False by (intro add_key s) auto
      then have "P (snd (rest ?i ?tm ?s))" by (rule preservesD [OF rest])
      then show ?thesis using False by (simp add: bnd_def [of "in_base new_id"] in_base_def new_id_def key_now_def set_keys_def)
    qed
  qed
  note core = this
  show ?thesis
    unfolding createApiKey_def Let_def
    by (intro preserves_bnd preserves_gets preserves_andthen preserves_throw_if preserves_or_throw base_draws stable core
        base_audit preserves_ret) (simp add: new_api_key_def)
qed

lemma keep_step: "key_step s s' \<Longrightarrow> P s \<Longrightarrow> P s'"
proof (induction rule: key_step.induct)
  case (later s tm)
  then show ?case using stable by (simp add: stable_keys_def)
qed (erule preservesD [rotated], rule keep_create keep_revoke keep_auth)+

lemma keep_run: "key_step\<^sup>*\<^sup>* s s' \<Longrightarrow> P s \<Longrightarrow> P s'"
  by (induction rule: rtranclp_induct) (auto intro: keep_step)

end

lemma keys_ok_add:
  "keys_ok s \<Longrightarrow> apk_id k = next_id (ak_world s) \<Longrightarrow> apk_keyHash k \<notin> apk_keyHash ` set (ak_keys s) \<Longrightarrow>
    keys_ok (s\<lparr>ak_world := (ak_world s)\<lparr>next_id := Suc (next_id (ak_world s))\<rparr>, ak_keys := ak_keys s @ [k]\<rparr>)"
  by (auto simp: keys_ok_def list_all_iff less_SucI)

lemma keys_ok_mark:
  "keys_ok s \<Longrightarrow> (\<And>k. apk_id (f k) = apk_id k \<and> apk_keyHash (f k) = apk_keyHash k) \<Longrightarrow> keys_ok (s\<lparr>ak_keys := upd_rows q f (ak_keys s)\<rparr>)"
  by (auto simp: keys_ok_def list_all_iff set_upd_rows)

interpretation ok: key_law keys_ok
proof
  show "stable_keys keys_ok" by (auto simp: stable_keys_def keys_ok_def list_all_iff)
qed (rule keys_ok_add, assumption+, rule keys_ok_mark, simp_all)

text \<open>A row revoked under this hash.\<close>
interpretation dead: key_law "\<lambda>s. revoked_hash h s \<and> svcs (ak_world s) = x" for h x
proof
  show "stable_keys (\<lambda>s. revoked_hash h s \<and> svcs (ak_world s) = x)"
    by (auto simp: stable_keys_def revoked_hash_def keys_ok_def list_all_iff)
next
  fix s and k :: api_key
  assume a: "revoked_hash h s \<and> svcs (ak_world s) = x" "apk_id k = next_id (ak_world s)" "apk_keyHash k \<notin> apk_keyHash ` set (ak_keys s)"
  then show "revoked_hash h (s\<lparr>ak_world := (ak_world s)\<lparr>next_id := Suc (next_id (ak_world s))\<rparr>, ak_keys := ak_keys s @ [k]\<rparr>) \<and>
      svcs (ak_world (s\<lparr>ak_world := (ak_world s)\<lparr>next_id := Suc (next_id (ak_world s))\<rparr>, ak_keys := ak_keys s @ [k]\<rparr>)) = x"
    using keys_ok_add [of s k] by (auto simp: revoked_hash_def)
next
  fix s q and f :: "api_key \<Rightarrow> api_key"
  assume a: "revoked_hash h s \<and> svcs (ak_world s) = x"
    and f: "\<And>k. apk_id (f k) = apk_id k \<and> apk_keyHash (f k) = apk_keyHash k \<and> (apk_revokedAt k \<noteq> None \<longrightarrow> apk_revokedAt (f k) \<noteq> None)"
  then obtain k where k: "k \<in> set (ak_keys s)" "apk_keyHash k = h" "apk_revokedAt k \<noteq> None" by (auto simp: revoked_hash_def)
  then have "(if q k then f k else k) \<in> set (upd_rows q f (ak_keys s))" by (auto simp: set_upd_rows)
  then show "revoked_hash h (s\<lparr>ak_keys := upd_rows q f (ak_keys s)\<rparr>) \<and> svcs (ak_world (s\<lparr>ak_keys := upd_rows q f (ak_keys s)\<rparr>)) = x"
    using a f k keys_ok_mark [of s f q] by (auto simp: revoked_hash_def intro!: bexI [of _ "if q k then f k else k"])
qed

lemma dead_key_refused:
  assumes "revoked_hash h s" and "bearer_token v = Some t" and "ext_sha256 (svcs (ak_world s)) t = h"
  shows "authenticateApiKey (Some v) scope s = (Inl (unauthorized ''invalid API key''), s)"
proof -
  obtain k where k: "k \<in> set (ak_keys s)" "apk_keyHash k = h" "apk_revokedAt k \<noteq> None" and ok: "keys_ok s"
    using assms(1) by (auto simp: revoked_hash_def)
  have "find_row apk_keyHash h (ak_keys s) = Some k"
    using find_row_distinct [of apk_keyHash "ak_keys s" k] k ok by (simp add: keys_ok_def)
  then show ?thesis using k(3) by (simp add: authenticateApiKey_def assms opt_default_def throw_def)
qed

text \<open>A successful creation: the new row behind the old ones, and only the panel's event tables beside it.\<close>
lemma create_run:
  assumes "createApiKey a inp s = (Inr (pub, plaintext), s')"
  shows "\<exists>i expires tm. ak_keys s' = ak_keys s @ [new_api_key i a plaintext inp expires (svcs (ak_world s)) tm] \<and>
    pub = strip_key (new_api_key i a plaintext inp expires (svcs (ak_world s)) tm) \<and>
    key_expiry (svcs (ak_world s)) (aki_expiresAt inp) = Some expires \<and>
    plaintext = ''srp_'' @ ext_random_token (svcs (ak_world s)) (next_id (ak_world s)) 30 \<and>
    admins (ak_world s') = admins (ak_world s) \<and> svcs (ak_world s') = svcs (ak_world s) \<and> clock (ak_world s') = clock (ak_world s)"
proof -
  let ?x = "svcs (ak_world s)" and ?i = "Suc (next_id (ak_world s))" and ?tm = "clock (ak_world s)"
  define text' where "text' = ''srp_'' @ ext_random_token ?x (next_id (ak_world s)) 30"
  obtain expires where e: "key_expiry ?x (aki_expiresAt inp) = Some expires"
    using assms by (cases "key_expiry ?x (aki_expiresAt inp)")
      (auto simp: createApiKey_def bnd_def gets_def in_base_def randomToken_def new_id_def andthen_def throw_if_def or_throw_def throw_def ret_def Let_def split: if_splits)
  define key where "key = new_api_key ?i a text' inp expires ?x ?tm"
  define au where "au = audit (Some a) ''apikey.create'' (JId ?i)
         [(''name'', JStr (apk_name key)), (''scopes'', JObj (map (\<lambda>(n, c). (show_nat n, JStr (scope_text c))) (enumerate 0 (apk_scopes key))))] None"
  define w2 where "w2 = (ak_world s)\<lparr>next_id := Suc ?i\<rparr>"
  obtain w3 where w3: "au w2 = (Inr (), w3)" "events_only w2 w3" unfolding au_def using audit_events by blast
  have "s' = s\<lparr>ak_world := w3, ak_keys := ak_keys s @ [key]\<rparr> \<and> pub = strip_key key \<and> plaintext = text'"
    using assms e w3(1)
    by (auto simp: createApiKey_def bnd_def gets_def in_base_def randomToken_def new_id_def andthen_def throw_if_def or_throw_def throw_def
        ret_def set_keys_def modify_def key_now_def Let_def key_def au_def w2_def text'_def split: if_splits)
  then show ?thesis
    using e w3(2) by (intro exI [of _ ?i] exI [of _ expires] exI [of _ ?tm])
      (auto simp: key_def text'_def eo_admins eo_svcs eo_clock w2_def)
qed

lemma find_unique: "distinct (map f xs) \<Longrightarrow> x \<in> set xs \<Longrightarrow> P x \<Longrightarrow> (\<And>y. P y \<Longrightarrow> f y = f x) \<Longrightarrow> find P xs = Some x"
proof (induction xs)
  case (Cons y xs)
  show ?case
  proof (cases "P y")
    case True
    then have "f y = f x" by (rule Cons.prems(4))
    then have "y = x" using Cons.prems(1,2) by (auto simp: image_iff)
    then show ?thesis using True by simp
  next
    case False
    have "x \<in> set xs" using Cons.prems(2,3) False by auto
    moreover have "distinct (map f xs)" using Cons.prems(1) by simp
    ultimately have "find P xs = Some x" using Cons.IH Cons.prems(3,4) by blast
    then show ?thesis using False by simp
  qed
qed simp

lemma bearer_of: "20 \<le> length t \<Longrightarrow> list_all token_char t \<Longrightarrow> bearer_token (''Bearer '' @ ''srp_'' @ t) = Some (''srp_'' @ t)"
proof -
  have b: "to_lower ''Bearer'' = ''bearer''" "to_lower ''srp_'' = ''srp_''" "is_space (CHR '' '')" "\<not> is_space (CHR ''s'')" by code_simp+
  assume "20 \<le> length t" "list_all token_char t"
  then show ?thesis using b by (simp add: bearer_token_def Let_def)
qed

text \<open>The same state at another time.\<close>
definition at_time :: "time \<Rightarrow> key_state \<Rightarrow> key_state" where
  "at_time tm s = s\<lparr>ak_world := (ak_world s)\<lparr>clock := tm\<rparr>\<rparr>"

text \<open>
  C22: The life of an API key (roundtrip, keys with and without an expiry date). The key handed out by
  \<open>createApiKey\<close> (shown once, only its hash is stored) carries the expiry date that was asked for. In the
  state the creation leaves, moved to any time up to that date, the date included, it authenticates its active, unexpired
  admin, for reading and, with that scope, for writing; moved to any later time it is refused as expired and changes nothing. After it is revoked, with or without an
  expiry date, no sequence of creations, revocations, uses and passing of time makes it work again, in
  any scope.
\<close>
theorem api_key_life:
  assumes "createApiKey a inp s = (Inr (pub, plaintext), s')" and "keys_ok s"
    and "find_admin a (ak_world s) = Some adm" and "adm_isActive adm"
    and "\<And>k. 20 \<le> length (ext_random_token (svcs (ak_world s)) k 30) \<and> list_all token_char (ext_random_token (svcs (ak_world s)) k 30)"
  shows "key_expiry (svcs (ak_world s)) (aki_expiresAt inp) = Some (apk_expiresAt pub) \<and>
    (\<forall>tm scope. (\<forall>e. apk_expiresAt pub = Some e \<longrightarrow> tm \<le> e) \<and> (\<forall>e. adm_expiresAt adm = Some e \<longrightarrow> tm \<le> e) \<and>
        (scope = SC_READ \<or> SC_WRITE \<in> set (apk_scopes pub)) \<longrightarrow>
      (\<exists>k s2. authenticateApiKey (Some (''Bearer '' @ plaintext)) scope (at_time tm s') = (Inr (adm, k), s2))) \<and>
    (\<forall>tm scope e. apk_expiresAt pub = Some e \<and> e < tm \<longrightarrow>
      authenticateApiKey (Some (''Bearer '' @ plaintext)) scope (at_time tm s') = (Inl (unauthorized ''API key expired''), at_time tm s')) \<and>
    (\<forall>s3 scope. key_step\<^sup>*\<^sup>* (snd (revokeApiKey a (apk_id pub) s')) s3 \<longrightarrow>
       authenticateApiKey (Some (''Bearer '' @ plaintext)) scope s3 = (Inl (unauthorized ''invalid API key''), s3))"
proof -
  let ?x = "svcs (ak_world s)" and ?v = "''Bearer '' @ plaintext"
  obtain i expires tm where c: "ak_keys s' = ak_keys s @ [new_api_key i a plaintext inp expires ?x tm]"
    "pub = strip_key (new_api_key i a plaintext inp expires ?x tm)" "key_expiry ?x (aki_expiresAt inp) = Some expires"
    "plaintext = ''srp_'' @ ext_random_token ?x (next_id (ak_world s)) 30"
    "admins (ak_world s') = admins (ak_world s)" "svcs (ak_world s') = ?x" "clock (ak_world s') = clock (ak_world s)"
    using create_run [OF assms(1)] by blast
  let ?key = "new_api_key i a plaintext inp expires ?x tm"
  have b: "bearer_token ?v = Some plaintext" using bearer_of assms(5) unfolding c(4) by blast
  have "keys_ok s'" using preservesD [OF ok.keep_create assms(2), of a inp] assms(1) by simp
  have mem: "?key \<in> set (ak_keys s')" by (simp add: c(1))
  have sel: "apk_keyHash ?key = ext_sha256 ?x plaintext" "apk_revokedAt ?key = None" "apk_expiresAt ?key = expires" "apk_adminId ?key = a"
    "apk_id ?key = i" by (simp_all add: new_api_key_def)
  have row: "find_row apk_keyHash (ext_sha256 ?x plaintext) (ak_keys s') = Some ?key"
    using find_row_distinct [OF _ mem, of apk_keyHash] \<open>keys_ok s'\<close> by (simp add: keys_ok_def sel)
  have pub: "apk_expiresAt pub = expires" "apk_scopes pub = apk_scopes ?key" by (simp_all add: c(2) strip_key_def sel)
  have adm: "find_admin a (ak_world (at_time tm s')) = Some adm" for tm using assms(3) by (simp add: at_time_def find_admin_def c(5))
  have at: "ak_keys (at_time tm s') = ak_keys s'" "svcs (ak_world (at_time tm s')) = ?x" "clock (ak_world (at_time tm s')) = tm" for tm
    by (simp_all add: at_time_def c(6))
  have good: "\<exists>k s2. authenticateApiKey (Some ?v) scope (at_time tm s') = (Inr (adm, k), s2)"
    if l: "\<forall>e. expires = Some e \<longrightarrow> tm \<le> e" "\<forall>e. adm_expiresAt adm = Some e \<longrightarrow> tm \<le> e"
      and sc: "scope = SC_READ \<or> SC_WRITE \<in> set (apk_scopes ?key)" for tm scope
  proof -
    have "\<exists>s2. touch_key ?key (at_time tm s') = (Inr (), s2)"
      by (simp add: touch_key_def key_now_def do_when_def set_keys_def modify_def ret_def split: option.split)
    then obtain s2 where s2: "touch_key ?key (at_time tm s') = (Inr (), s2)" by blast
    have live: "\<not> passed tm (adm_expiresAt adm)" "\<not> passed tm (apk_expiresAt ?key)"
      using l sel(3) by (auto simp: passed_def not_less split: option.split)
    have "\<not> (scope = SC_WRITE \<and> SC_WRITE \<notin> set (apk_scopes ?key))" using sc by auto
    then have "authenticateApiKey (Some ?v) scope (at_time tm s') = (Inr (adm, strip_key ?key), s2)"
      using assms(4) live b row adm sel s2
      by (simp add: authenticateApiKey_def opt_default_def at key_now_def) (simp add: andthen_def bnd_def ret_def throw_if_def)
    then show ?thesis by blast
  qed
  have late: "authenticateApiKey (Some ?v) scope (at_time tm s') = (Inl (unauthorized ''API key expired''), at_time tm s')"
    if "expires = Some e" "e < tm" for tm scope e
    using that b row sel by (simp add: authenticateApiKey_def opt_default_def at key_now_def passed_def andthen_throw_if throw_def)
  have dead: "authenticateApiKey (Some ?v) scope s3 = (Inl (unauthorized ''invalid API key''), s3)"
    if run: "key_step\<^sup>*\<^sup>* (snd (revokeApiKey a (apk_id pub) s')) s3" for s3 scope
  proof -
    let ?s = "snd (revokeApiKey a (apk_id pub) s')"
    have i: "apk_id pub = i" by (simp add: c(2) strip_key_def sel)
    have found: "find (\<lambda>k. apk_id k = i \<and> apk_adminId k = a) (ak_keys s') = Some ?key"
      using \<open>keys_ok s'\<close> sel by (intro find_unique [of apk_id _ ?key] mem) (simp_all add: keys_ok_def)
    obtain w where w: "?s = s'\<lparr>ak_keys := upd_rows (\<lambda>k. apk_id k = i) (\<lambda>k. k\<lparr>apk_revokedAt := Some (clock (ak_world s'))\<rparr>) (ak_keys s'), ak_world := w\<rparr>"
      "svcs w = ?x"
    proof -
      let ?s1 = "s'\<lparr>ak_keys := upd_rows (\<lambda>k. apk_id k = i) (\<lambda>k. k\<lparr>apk_revokedAt := Some (clock (ak_world s'))\<rparr>) (ak_keys s')\<rparr>"
      obtain w where "audit (Some a) ''apikey.revoke'' (JId i) [(''name'', JStr (apk_name ?key))] None (ak_world s') = (Inr (), w)"
        "events_only (ak_world s') w" using audit_events by blast
      then show thesis
        using that by (simp add: revokeApiKey_def i found key_now_def set_keys_def in_base_def eo_svcs c(6))
    qed
    have "keys_ok ?s" by (rule preservesD [OF ok.keep_revoke \<open>keys_ok s'\<close>])
    moreover have "?key\<lparr>apk_revokedAt := Some (clock (ak_world s'))\<rparr> \<in> set (ak_keys ?s)"
      using mem sel by (auto simp: w(1) set_upd_rows image_iff intro!: bexI [of _ ?key])
    ultimately have "revoked_hash (ext_sha256 ?x plaintext) ?s \<and> svcs (ak_world ?s) = ?x"
      using w by (auto simp: revoked_hash_def sel intro!: bexI)
    then have "revoked_hash (ext_sha256 ?x plaintext) s3 \<and> svcs (ak_world s3) = ?x" by (rule dead.keep_run [OF run])
    then show ?thesis by (intro dead_key_refused [OF _ b]) simp_all
  qed
  show ?thesis unfolding pub by (intro conjI allI impI c(3)) (use good late in blast | erule dead)+
qed

definition demo_keys :: key_state where
  "demo_keys = \<lparr>ak_world = demo_world\<lparr>svcs := demo_services\<lparr>ext_random_token := \<lambda>k n. replicate n (CHR ''x''),
     ext_parse_date := \<lambda>t. Some 5000\<rparr>\<rparr>, ak_keys = []\<rparr>"

definition demo_key_input :: api_key_input where
  "demo_key_input = \<lparr>aki_name = '' bot '', aki_scopes = None, aki_expiresAt = Some ''1970-01-01T00:00:05Z''\<rparr>"

text \<open>A key that expires at 5000 works at 5000, is refused at 5001, and at any time once revoked.\<close>
theorem api_key_life_witness:
  "\<exists>pub plaintext s'. createApiKey 3 demo_key_input demo_keys = (Inr (pub, plaintext), s') \<and> apk_name pub = ''bot'' \<and>
    (\<exists>k s2. authenticateApiKey (Some (''Bearer '' @ plaintext)) SC_READ (at_time 5000 s') = (Inr (demo_admin 3 ADMIN 500, k), s2)) \<and>
    authenticateApiKey (Some (''Bearer '' @ plaintext)) SC_READ (at_time 5001 s') = (Inl (unauthorized ''API key expired''), at_time 5001 s') \<and>
    authenticateApiKey (Some (''Bearer '' @ plaintext)) SC_READ (snd (revokeApiKey 3 (apk_id pub) s')) =
      (Inl (unauthorized ''invalid API key''), snd (revokeApiKey 3 (apk_id pub) s'))"
proof -
  have "case fst (createApiKey 3 demo_key_input demo_keys) of Inr (pub, t) \<Rightarrow> apk_name pub = ''bot'' \<and> apk_expiresAt pub = Some 5000 | Inl e \<Rightarrow> False"
    by code_simp
  then obtain pub plaintext where r: "fst (createApiKey 3 demo_key_input demo_keys) = Inr (pub, plaintext)" and n: "apk_name pub = ''bot''"
    and e: "apk_expiresAt pub = Some 5000"
    by (auto split: sum.splits)
  then have run: "createApiKey 3 demo_key_input demo_keys = (Inr (pub, plaintext), snd (createApiKey 3 demo_key_input demo_keys))"
    by (simp add: prod_eq_iff)
  have adm: "find_admin 3 (ak_world demo_keys) = Some (demo_admin 3 ADMIN 500)" by (simp add: demo_keys_def find_admin_def demo_admin_def)
  have "list_all token_char (replicate 30 (CHR ''x''))" by code_simp
  then have draw: "20 \<le> length (ext_random_token (svcs (ak_world demo_keys)) k 30) \<and> list_all token_char (ext_random_token (svcs (ak_world demo_keys)) k 30)" for k
    by (simp add: demo_keys_def)
  have keys: "keys_ok demo_keys" by (simp add: keys_ok_def demo_keys_def)
  have live: "adm_isActive (demo_admin 3 ADMIN 500)" "adm_expiresAt (demo_admin 3 ADMIN 500) = None" by (simp_all add: demo_admin_def)
  note life = api_key_life [OF run keys adm live(1) draw, unfolded e live(2)]
  show ?thesis
  proof (rule exI [of _ pub], rule exI [of _ plaintext], rule exI [of _ "snd (createApiKey 3 demo_key_input demo_keys)"], intro conjI run n)
    show "\<exists>k s2. authenticateApiKey (Some (''Bearer '' @ plaintext)) SC_READ (at_time 5000 (snd (createApiKey 3 demo_key_input demo_keys))) =
        (Inr (demo_admin 3 ADMIN 500, k), s2)" using life by simp
  qed (use life in \<open>simp, blast?\<close>)+
qed

end
