(* ===== verification/StoreDomains.thy ===== *)
theory StoreDomains
  imports StoreSettings Fx
begin

text \<open>
  \<open>storeDomains.ts\<close>: the custom domain of a shop. A requested host lives in the setting \<open>store_domains\<close>
  with a token; it becomes the shop's address (\<open>Brand.customDomain\<close>) when a request to that host is
  answered with the token. The setting, the table \<open>Brand\<close>, the product name and the platform's URL parser
  (the host name of an address) are fields of \<open>dom_state\<close>, beside the state of the panel.
\<close>

definition CHECK_PATH :: string where
  "CHECK_PATH = ''/api/health/domain''"

record store_domain =
  dmn_host :: string
  dmn_token :: string
  dmn_createdAt :: time
  dmn_verifiedAt :: "time option"
  dmn_lastError :: "string option"

record brand =
  br_adminId :: uid
  br_name :: string
  br_primaryColor :: string
  br_accentColor :: string
  br_customDomain :: "string option"
  br_domainVerified :: bool

record dom_state =
  dm_world :: world
  dm_book :: "(uid \<times> store_domain) list"
  dm_brands :: "brand list"
  dm_brandName :: string
  dm_url_host :: "string \<Rightarrow> string option"

definition in_dom :: "(world, 'a) op \<Rightarrow> (dom_state, 'a) op" where
  "in_dom m s = (case m (dm_world s) of (r, w') \<Rightarrow> (r, s\<lparr>dm_world := w'\<rparr>))"

section \<open>Host names\<close>

definition label_char :: "char \<Rightarrow> bool" where
  "label_char c \<longleftrightarrow> is_lower c \<or> is_digit c"

text \<open>\<open>[a-z0-9]([a-z0-9-]{0,61}[a-z0-9])?\<close>\<close>
definition is_label :: "string \<Rightarrow> bool" where
  "is_label l \<longleftrightarrow> l \<noteq> [] \<and> length l \<le> 63 \<and> list_all (\<lambda>c. label_char c \<or> c = CHR ''-'') l \<and> label_char (hd l) \<and> label_char (last l)"

definition host_ok :: "string \<Rightarrow> bool" where
  "host_ok h \<longleftrightarrow> 4 \<le> length h \<and> length h \<le> 190 \<and>
     (let parts = split_on (CHR ''.'') h; tld = last parts in
      2 \<le> length parts \<and> list_all is_label (butlast parts) \<and> list_all is_lower tld \<and> 2 \<le> length tld \<and> length tld \<le> 24)"

definition strip_end :: "char \<Rightarrow> string \<Rightarrow> string" where
  "strip_end c s = rev (dropWhile (\<lambda>x. x = c) (rev s))"

text \<open>\<open>https://Shop.Example.com/x\<close> becomes \<open>shop.example.com\<close>; empty when it is not a usable domain.\<close>
definition normalizeDomain :: "(string \<Rightarrow> string option) \<Rightarrow> string option \<Rightarrow> string" where
  "normalizeDomain url_host inp =
    (let host = to_lower (str_trim (opt_default inp [])) in
     case (if contains ''://'' host then url_host host else Some host) of
       None \<Rightarrow> []
     | Some host \<Rightarrow>
        (let host = takeWhile (\<lambda>c. c \<noteq> CHR '':'') (takeWhile (\<lambda>c. c \<noteq> CHR ''/'') host);
             host = strip_end (CHR ''.'') (if take 2 host = ''*.'' then drop 2 host else host) in
         if host_ok host then host else []))"

definition panelHostname :: "dom_state \<Rightarrow> string" where
  "panelHostname s = (case dm_url_host s (panelUrl (dm_world s)) of Some h \<Rightarrow> to_lower h | None \<Rightarrow> [])"

section \<open>Reading\<close>

definition domainTokenForHost :: "string option \<Rightarrow> dom_state \<Rightarrow> string option" where
  "domainTokenForHost host s =
    (let h = normalizeDomain (dm_url_host s) host in
     if h = [] then None else map_option dmn_token (find (\<lambda>r. dmn_host r = h) (map snd (dm_book s))))"

definition find_brand :: "uid \<Rightarrow> dom_state \<Rightarrow> brand option" where
  "find_brand i s = find_row br_adminId i (dm_brands s)"

text \<open>The domain that serves an admin's shop.\<close>
definition live_of :: "uid \<Rightarrow> dom_state \<Rightarrow> string option" where
  "live_of i s = Option.bind (find_brand i s) br_customDomain"

record domain_status =
  ds_host :: "string option"
  ds_verified :: bool
  ds_live :: bool
  ds_token :: "string option"
  ds_createdAt :: "time option"
  ds_verifiedAt :: "time option"
  ds_lastError :: "string option"
  ds_checkUrl :: "string option"
  ds_shopUrl :: "string option"
  ds_panelHost :: string
  ds_slug :: "string option"

definition storeDomainStatus :: "uid \<Rightarrow> dom_state \<Rightarrow> domain_status" where
  "storeDomainStatus i s =
    (let r = map_of (dm_book s) i; custom = live_of i s; store = find (\<lambda>v. sto_adminId v = i) (stores (dm_world s));
         host = opt_or (map_option dmn_host r) custom;
         live = (case host of Some h \<Rightarrow> h \<noteq> [] \<and> custom = Some h | None \<Rightarrow> False) in
     \<lparr>ds_host = host, ds_verified = (live \<or> Option.bind r dmn_verifiedAt \<noteq> None), ds_live = live, ds_token = map_option dmn_token r,
      ds_createdAt = map_option dmn_createdAt r, ds_verifiedAt = Option.bind r dmn_verifiedAt, ds_lastError = Option.bind r dmn_lastError,
      ds_checkUrl = str_or host None (\<lambda>h. Some (''http://'' @ h @ CHECK_PATH)),
      ds_shopUrl = map_option (\<lambda>v. storeUrlFor (dm_world s) v (if live then host else None)) store,
      ds_panelHost = panelHostname s, ds_slug = map_option sto_slug store\<rparr>)"

section \<open>Changing\<close>

definition save_domains :: "((uid \<times> store_domain) list \<Rightarrow> (uid \<times> store_domain) list) \<Rightarrow> (dom_state, unit) op" where
  "save_domains f = modify (\<lambda>s. s\<lparr>dm_book := f (dm_book s)\<rparr>)"

definition set_custom :: "uid \<Rightarrow> string option \<Rightarrow> (dom_state, unit) op" where
  "set_custom i d = modify (\<lambda>s. s\<lparr>dm_brands := upd_rows (\<lambda>b. br_adminId b = i) (\<lambda>b. b\<lparr>br_customDomain := d\<rparr>) (dm_brands s)\<rparr>)"

definition clearLive :: "uid \<Rightarrow> (dom_state, unit) op" where
  "clearLive i = bnd (gets (live_of i)) (\<lambda>d. do_when (truthy d) (set_custom i None))"

definition setStoreDomain :: "uid \<Rightarrow> string \<Rightarrow> (dom_state, domain_status) op" where
  "setStoreDomain i inp =
    bnd (gets (\<lambda>s. (normalizeDomain (dm_url_host s) (Some inp), panelHostname s))) (\<lambda>(host, own).
    andthen (throw_if (host = []) (app_error ''the domain is not valid''))
    (andthen (throw_if (host = own) (app_error ''the domain of the panel cannot be a shop domain''))
    (bnd (gets (\<lambda>s. (dm_book s, list_ex (\<lambda>b. br_customDomain b = Some host \<and> br_adminId b \<noteq> i) (dm_brands s)))) (\<lambda>(book, clash).
     andthen (throw_if clash (app_error ''the domain is registered for another admin''))
     (andthen (throw_if (list_ex (\<lambda>(a, r). dmn_host r = host \<and> a \<noteq> i) book) (app_error ''the domain waits for the verification of another admin''))
     (let prev = map_of book i; same = (case prev of Some r \<Rightarrow> dmn_host r = host | None \<Rightarrow> False) in
      bnd (in_dom now) (\<lambda>tm.
      bnd (if same then ret (the prev\<lparr>dmn_lastError := None\<rparr>)
           else bnd (in_dom (randomToken 18)) (\<lambda>tok. ret \<lparr>dmn_host = host, dmn_token = tok, dmn_createdAt = tm, dmn_verifiedAt = None, dmn_lastError = None\<rparr>)) (\<lambda>r.
      andthen (save_domains (put_row i r))
      (andthen (do_when (\<not> same) (clearLive i))
      (andthen (in_dom (audit (Some i) ''store.domain.set'' (JId i) [(''host'', JStr host)] None))
      (gets (storeDomainStatus i))))))))))))"

definition removeStoreDomain :: "uid \<Rightarrow> (dom_state, domain_status) op" where
  "removeStoreDomain i =
    bnd (gets (\<lambda>s. map_of (dm_book s) i)) (\<lambda>r.
    andthen (save_domains (filter (\<lambda>(a, v). a \<noteq> i)))
    (andthen (clearLive i)
    (andthen (in_dom (audit (Some i) ''store.domain.remove'' (JId i) [(''host'', opt_json JStr (map_option dmn_host r))] None))
    (gets (storeDomainStatus i)))))"

record domain_check =
  dc_url :: string
  dc_ok :: bool
  dc_status :: "int option"
  dc_error :: "string option"

definition answer_token :: "string + jval \<Rightarrow> string" where
  "answer_token b = (case b of Inl _ \<Rightarrow> [] | Inr j \<Rightarrow> (case jfield ''token'' (Some j) of Some (VStr t) \<Rightarrow> t | _ \<Rightarrow> []))"

definition probe :: "world \<Rightarrow> string \<Rightarrow> string \<Rightarrow> domain_check" where
  "probe w url token =
    (case ext_http_get (svcs w) (clock w) url of
       HttpFail e \<Rightarrow> \<lparr>dc_url = url, dc_ok = False, dc_status = None, dc_error = Some e\<rparr>
     | HttpReply st b \<Rightarrow>
        (let got = answer_token b in
         if got = [] then \<lparr>dc_url = url, dc_ok = False, dc_status = Some st, dc_error = Some ''no code in the answer''\<rparr>
         else if got \<noteq> token then \<lparr>dc_url = url, dc_ok = False, dc_status = Some st, dc_error = Some ''another code in the answer''\<rparr>
         else \<lparr>dc_url = url, dc_ok = True, dc_status = Some st, dc_error = None\<rparr>))"

text \<open>The two addresses in turn, until one answers with the token.\<close>
definition run_checks :: "world \<Rightarrow> store_domain \<Rightarrow> domain_check list" where
  "run_checks w r =
    (let first = probe w (''https://'' @ dmn_host r @ CHECK_PATH) (dmn_token r) in
     if dc_ok first then [first] else [first, probe w (''http://'' @ dmn_host r @ CHECK_PATH) (dmn_token r)])"

definition check_error :: "domain_check list \<Rightarrow> string option" where
  "check_error checks = (if list_ex dc_ok checks then None
     else Some (case find (\<lambda>c. dc_error c \<noteq> None) checks of Some c \<Rightarrow> opt_default (dc_error c) ''not verified'' | None \<Rightarrow> ''not verified''))"

definition go_live :: "uid \<Rightarrow> string \<Rightarrow> (dom_state, unit) op" where
  "go_live i host =
    bnd (gets (\<lambda>s. (find_brand i s, list_ex (\<lambda>b. br_customDomain b = Some host \<and> br_adminId b \<noteq> i) (dm_brands s)))) (\<lambda>(found, taken).
    andthen (throw_if taken unique_violation)
    (case found of
       Some b \<Rightarrow> set_custom i (Some host)
     | None \<Rightarrow> modify (\<lambda>s. s\<lparr>dm_brands := dm_brands s @ [\<lparr>br_adminId = i, br_name = dm_brandName s, br_primaryColor = ''#8b5cf6'',
         br_accentColor = ''#22d3ee'', br_customDomain = Some host, br_domainVerified = False\<rparr>]\<rparr>)))"

definition verifyStoreDomain :: "uid \<Rightarrow> (dom_state, domain_status \<times> domain_check list) op" where
  "verifyStoreDomain i =
    bnd (gets (\<lambda>s. map_of (dm_book s) i)) (\<lambda>found. bnd (or_throw found (not_found_error ''no domain is registered'')) (\<lambda>r.
    bnd (gets (\<lambda>s. (run_checks (dm_world s) r, clock (dm_world s)))) (\<lambda>(checks, tm).
    let passed = list_ex dc_ok checks; er = check_error checks in
    andthen (save_domains (put_row i (r\<lparr>dmn_verifiedAt := (if passed then Some tm else dmn_verifiedAt r), dmn_lastError := er\<rparr>)))
    (andthen (do_when passed (go_live i (dmn_host r)))
    (andthen (in_dom (audit (Some i) (if passed then ''store.domain.verify'' else ''store.domain.verify_failed'') (JId i)
        [(''host'', JStr (dmn_host r)), (''error'', opt_json JStr er)] None))
    (gets (\<lambda>s. (storeDomainStatus i s, checks))))))))"

section \<open>A domain serves one shop\<close>

definition dom_ok :: "dom_state \<Rightarrow> bool" where
  "dom_ok s \<longleftrightarrow> distinct (map br_adminId (dm_brands s)) \<and>
     (\<forall>a b r v. map_of (dm_book s) a = Some r \<longrightarrow> map_of (dm_book s) b = Some v \<longrightarrow> dmn_host r = dmn_host v \<longrightarrow> a = b) \<and>
     (\<forall>a h. live_of a s = Some h \<longrightarrow> (\<exists>r. map_of (dm_book s) a = Some r \<and> dmn_host r = h \<and> dmn_verifiedAt r \<noteq> None))"

inductive dom_step :: "dom_state \<Rightarrow> dom_state \<Rightarrow> bool" where
  asked: "dom_step s (snd (setStoreDomain i inp s))"
| removed: "dom_step s (snd (removeStoreDomain i s))"
| checked: "dom_step s (snd (verifyStoreDomain i s))"
| later: "dom_step s (s\<lparr>dm_world := (dm_world s)\<lparr>clock := tm\<rparr>\<rparr>)"

text \<open>The invariant over the two tables.\<close>
definition live_in :: "brand list \<Rightarrow> uid \<Rightarrow> string option" where
  "live_in brands a = Option.bind (find_row br_adminId a brands) br_customDomain"

definition tables_ok :: "(uid \<times> store_domain) list \<Rightarrow> brand list \<Rightarrow> bool" where
  "tables_ok book brands \<longleftrightarrow> distinct (map br_adminId brands) \<and>
     (\<forall>a b r v. map_of book a = Some r \<longrightarrow> map_of book b = Some v \<longrightarrow> dmn_host r = dmn_host v \<longrightarrow> a = b) \<and>
     (\<forall>a h. live_in brands a = Some h \<longrightarrow> (\<exists>r. map_of book a = Some r \<and> dmn_host r = h \<and> dmn_verifiedAt r \<noteq> None))"

lemma dom_ok_tables: "dom_ok s \<longleftrightarrow> tables_ok (dm_book s) (dm_brands s)"
  by (simp add: dom_ok_def tables_ok_def live_of_def live_in_def find_brand_def)

lemma live_of_in: "live_of a s = live_in (dm_brands s) a"
  by (simp add: live_of_def live_in_def find_brand_def)

definition with_custom :: "uid \<Rightarrow> string option \<Rightarrow> brand list \<Rightarrow> brand list" where
  "with_custom i d brands = upd_rows (\<lambda>b. br_adminId b = i) (\<lambda>b. b\<lparr>br_customDomain := d\<rparr>) brands"

lemma live_with_custom: "live_in (with_custom i d brands) a = (if a = i then (if find_row br_adminId i brands = None then None else d) else live_in brands a)"
proof -
  have "find_row br_adminId a (with_custom i d brands) = map_option (\<lambda>b. if br_adminId b = i then b\<lparr>br_customDomain := d\<rparr> else b) (find_row br_adminId a brands)"
    unfolding with_custom_def by (rule find_row_upd) simp
  then show ?thesis
    by (cases "find_row br_adminId a brands") (auto simp: live_in_def dest: find_row_key)
qed

lemma ids_with_custom [simp]: "map br_adminId (with_custom i d brands) = map br_adminId brands"
  by (simp add: with_custom_def)

text \<open>The brands after \<open>clearLive\<close>.\<close>
definition cleared :: "uid \<Rightarrow> brand list \<Rightarrow> brand list" where
  "cleared i brands = (if truthy (live_in brands i) then with_custom i None brands else brands)"

lemma clear_run: "clearLive i s = (Inr (), s\<lparr>dm_brands := cleared i (dm_brands s)\<rparr>)"
  by (simp add: clearLive_def set_custom_def cleared_def with_custom_def live_of_in do_when_def modify_def ret_def)

text \<open>An empty text is no domain of a verified record.\<close>
definition hosts_given :: "(uid \<times> store_domain) list \<Rightarrow> bool" where
  "hosts_given book \<longleftrightarrow> (\<forall>a r. map_of book a = Some r \<longrightarrow> dmn_host r \<noteq> [])"

lemma cleared_dead:
  assumes "tables_ok book brands" and "hosts_given book"
  shows "live_in (cleared i brands) a = (if a = i then None else live_in brands a)"
proof -
  have "d \<noteq> []" if "live_in brands i = Some d" for d
    using assms that unfolding tables_ok_def hosts_given_def by metis
  then show ?thesis by (cases "live_in brands i") (auto simp: cleared_def live_with_custom truthy_def)
qed

lemma dom_audit: "\<exists>w. in_dom (audit a act t m ip) s = (Inr (), s\<lparr>dm_world := w\<rparr>)"
  using audit_events [of a act t m ip "dm_world s"] by (auto simp: in_dom_def)

definition dom_inv :: "dom_state \<Rightarrow> bool" where
  "dom_inv s \<longleftrightarrow> dom_ok s \<and> hosts_given (dm_book s)"

text \<open>Three changes of the tables that keep the invariant.\<close>
lemma same_host_ok:
  assumes "tables_ok book brands" and "map_of book i = Some r" and "dmn_host r' = dmn_host r"
    and "dmn_verifiedAt r \<noteq> None \<longrightarrow> dmn_verifiedAt r' \<noteq> None"
  shows "tables_ok (put_row i r' book) brands"
proof -
  have "a = b" if "map_of (put_row i r' book) a = Some x" "map_of (put_row i r' book) b = Some y" "dmn_host x = dmn_host y" for a b x y
    using assms that unfolding tables_ok_def map_of_put_row fun_upd_apply by (metis option.inject)
  moreover have "\<exists>x. map_of (put_row i r' book) a = Some x \<and> dmn_host x = h \<and> dmn_verifiedAt x \<noteq> None" if "live_in brands a = Some h" for a h
    using assms that unfolding tables_ok_def map_of_put_row fun_upd_apply by (metis option.inject)
  ultimately show ?thesis using assms(1) unfolding tables_ok_def by blast
qed

lemma new_host_ok:
  assumes "tables_ok book brands" and "hosts_given book" and "\<And>a v. map_of book a = Some v \<Longrightarrow> dmn_host v = dmn_host r \<Longrightarrow> a = i"
  shows "tables_ok (put_row i r book) (cleared i brands)"
proof -
  have "a = b" if "map_of (put_row i r book) a = Some x" "map_of (put_row i r book) b = Some y" "dmn_host x = dmn_host y" for a b x y
    using assms(1) assms(3) that unfolding tables_ok_def map_of_put_row fun_upd_apply by (metis option.inject)
  moreover have "\<exists>x. map_of (put_row i r book) a = Some x \<and> dmn_host x = h \<and> dmn_verifiedAt x \<noteq> None" if "live_in (cleared i brands) a = Some h" for a h
    using assms(1) that unfolding cleared_dead [OF assms(1,2)] tables_ok_def map_of_put_row by (auto split: if_splits)
  moreover have "map br_adminId (cleared i brands) = map br_adminId brands" by (simp add: cleared_def)
  ultimately show ?thesis using assms(1) unfolding tables_ok_def by metis
qed

lemma map_of_drop: "map_of (filter (\<lambda>(a, v). a \<noteq> i) book) b = (if b = i then None else map_of book b)"
  by (induction book) auto

lemma removed_ok:
  assumes "tables_ok book brands" and "hosts_given book"
  shows "tables_ok (filter (\<lambda>(a, v). a \<noteq> i) book) (cleared i brands)"
proof -
  have "map br_adminId (cleared i brands) = map br_adminId brands" by (simp add: cleared_def)
  then show ?thesis using assms(1) unfolding tables_ok_def cleared_dead [OF assms] map_of_drop by (metis option.distinct(1))
qed

lemma live_ok:
  assumes "tables_ok book brands" and "map_of book i = Some r" and "dmn_verifiedAt r \<noteq> None"
    and "map br_adminId brands' = map br_adminId brands \<or> map br_adminId brands' = map br_adminId brands @ [i] \<and> i \<notin> br_adminId ` set brands"
    and "\<And>a. live_in brands' a = (if a = i then Some (dmn_host r) else live_in brands a)"
  shows "tables_ok book brands'"
proof -
  have "distinct (map br_adminId brands')" using assms(1,4) by (auto simp: tables_ok_def)
  then show ?thesis using assms(1,2,3) unfolding tables_ok_def assms(5) by (metis option.inject)
qed

section \<open>Runs\<close>

definition tables :: "dom_state \<Rightarrow> (uid \<times> store_domain) list \<times> brand list" where
  "tables s = (dm_book s, dm_brands s)"

lemma dom_inv_tables: "dom_inv s \<longleftrightarrow> (case tables s of (book, brands) \<Rightarrow> tables_ok book brands \<and> hosts_given book)"
  by (simp add: dom_inv_def dom_ok_tables tables_def)

lemma tables_in_dom: "tables (snd (in_dom m s)) = tables s"
  by (simp add: in_dom_def tables_def split: prod.split)

text \<open>A step on the panel before the rest.\<close>
lemma then_panel: "(\<And>x s'. tables s' = tables s \<Longrightarrow> P (tables (snd (f x s')))) \<Longrightarrow> P (tables s) \<Longrightarrow> P (tables (snd (bnd (in_dom m) f s)))"
  using tables_in_dom [of m s] by (cases "in_dom m s"; cases "fst (in_dom m s)") (auto simp: bnd_def)

lemma then_view: "tables (snd (bnd (in_dom m) (\<lambda>_. gets g) s)) = tables s"
  by (rule then_panel) (simp_all add: gets_def)

text \<open>The record is written, a domain that is no longer asked for goes off, the change is logged.\<close>
lemma write_domain:
  "tables (snd (andthen (save_domains (put_row i r)) (andthen (do_when c (clearLive i)) (andthen (in_dom m) (gets g))) s)) =
    (put_row i r (dm_book s), if c then cleared i (dm_brands s) else dm_brands s)"
proof -
  let ?s = "s\<lparr>dm_book := put_row i r (dm_book s), dm_brands := if c then cleared i (dm_brands s) else dm_brands s\<rparr>"
  have "andthen (save_domains (put_row i r)) (andthen (do_when c (clearLive i)) (andthen (in_dom m) (gets g))) s = bnd (in_dom m) (\<lambda>_. gets g) ?s"
    by (simp add: save_domains_def andthen_def [of "do_when _ _"] bnd_def [of "do_when _ _"] clear_run do_when_def ret_def)
       (simp add: andthen_def bnd_def [of "clearLive i"] clear_run)
  then show ?thesis by (simp only: then_view) (simp add: tables_def)
qed

lemma hosts_put: "hosts_given book \<Longrightarrow> dmn_host r \<noteq> [] \<Longrightarrow> hosts_given (put_row i r book)"
  by (simp add: hosts_given_def map_of_put_row)

text \<open>What \<open>setStoreDomain\<close> leaves in the tables: nothing changed, the same host again, or a new host and the old domain off.\<close>
lemma set_tables:
  assumes keep: "P (tables s)"
    and again: "\<And>r. map_of (dm_book s) i = Some r \<Longrightarrow> P (put_row i (r\<lparr>dmn_lastError := None\<rparr>) (dm_book s), dm_brands s)"
    and new: "\<And>r. dmn_host r \<noteq> [] \<Longrightarrow> (\<And>a v. map_of (dm_book s) a = Some v \<Longrightarrow> dmn_host v = dmn_host r \<Longrightarrow> a = i) \<Longrightarrow>
        P (put_row i r (dm_book s), cleared i (dm_brands s))"
  shows "P (tables (snd (setStoreDomain i inp s)))"
proof -
  define host where "host = normalizeDomain (dm_url_host s) (Some inp)"
  show ?thesis
  proof (cases "host = [] \<or> host = panelHostname s \<or> list_ex (\<lambda>b. br_customDomain b = Some host \<and> br_adminId b \<noteq> i) (dm_brands s) \<or>
      list_ex (\<lambda>(a, r). dmn_host r = host \<and> a \<noteq> i) (dm_book s)")
    case True
    then have "snd (setStoreDomain i inp s) = s"
      by (auto simp: setStoreDomain_def host_def andthen_throw_if throw_def)
    then show ?thesis using keep by simp
  next
    case False
    have other: "a = i" if "map_of (dm_book s) a = Some v" "dmn_host v = host" for a v
      using False map_of_SomeD [OF that(1)] that(2) by (force simp: list_ex_iff)
    define same where "same = (case map_of (dm_book s) i of Some r \<Rightarrow> dmn_host r = host | None \<Rightarrow> False)"
    define fin where "fin = (\<lambda>r. andthen (save_domains (put_row i r)) (andthen (do_when (\<not> same) (clearLive i))
        (andthen (in_dom (audit (Some i) ''store.domain.set'' (JId i) [(''host'', JStr host)] None)) (gets (storeDomainStatus i)))))"
    define mk :: "time \<Rightarrow> string \<Rightarrow> store_domain" where "mk tm tok = \<lparr>dmn_host = host, dmn_token = tok, dmn_createdAt = tm, dmn_verifiedAt = None, dmn_lastError = None\<rparr>" for tm tok
    have run: "setStoreDomain i inp s = bnd (in_dom now) (\<lambda>tm. bnd (if same then ret (the (map_of (dm_book s) i)\<lparr>dmn_lastError := None\<rparr>)
           else bnd (in_dom (randomToken 18)) (\<lambda>tok. ret (mk tm tok))) fin) s"
      unfolding mk_def fin_def
      using False by (simp add: setStoreDomain_def host_def [symmetric] Let_def same_def [symmetric] andthen_throw_if)
    have fin: "tables (snd (fin r s2)) = (put_row i r (dm_book s), if same then dm_brands s else cleared i (dm_brands s))" if "tables s2 = tables s" for r s2
      using that unfolding fin_def write_domain by (auto simp: tables_def)
    show ?thesis
      unfolding run
    proof (rule then_panel [where P = P, OF _ keep])
      fix tm s1 assume s1: "tables s1 = tables s"
      show "P (tables (snd (bnd (if same then ret (the (map_of (dm_book s) i)\<lparr>dmn_lastError := None\<rparr>)
           else bnd (in_dom (randomToken 18)) (\<lambda>tok. ret (mk tm tok))) fin s1)))"
      proof (cases same)
        case True
        then obtain prev where "map_of (dm_book s) i = Some prev" by (auto simp: same_def split: option.splits)
        then show ?thesis using True again fin [OF s1] by simp
      next
        case new_host: False
        have "P (tables (snd (fin (mk tm tok) s2)))" if "tables s2 = tables s1" for tok s2
          using new [of "mk tm tok"] other new_host False fin [of s2 "mk tm tok"] that s1 by (simp add: mk_def)
        moreover have "P (tables s1)" using keep s1 by simp
        ultimately show ?thesis using new_host by (simp add: bnd_assoc) (rule then_panel [where P = P])
      qed
    qed
  qed
qed

lemma inv_set: "dom_inv s \<Longrightarrow> dom_inv (snd (setStoreDomain i inp s))"
proof -
  assume inv: "dom_inv s"
  then have t: "tables_ok (dm_book s) (dm_brands s)" "hosts_given (dm_book s)" by (simp_all add: dom_inv_def dom_ok_tables)
  show ?thesis
    unfolding dom_inv_tables
  proof (rule set_tables)
    show "case tables s of (book, brands) \<Rightarrow> tables_ok book brands \<and> hosts_given book" using inv by (simp add: dom_inv_tables)
  next
    fix r assume row: "map_of (dm_book s) i = Some r"
    then have "dmn_host r \<noteq> []" using t(2) by (simp add: hosts_given_def)
    with row show "case (put_row i (r\<lparr>dmn_lastError := None\<rparr>) (dm_book s), dm_brands s) of (book, brands) \<Rightarrow> tables_ok book brands \<and> hosts_given book"
      using same_host_ok [OF t(1)] by (simp add: hosts_put t(2))
  next
    fix r :: store_domain assume "dmn_host r \<noteq> []" and "\<And>a v. map_of (dm_book s) a = Some v \<Longrightarrow> dmn_host v = dmn_host r \<Longrightarrow> a = i"
    then show "case (put_row i r (dm_book s), cleared i (dm_brands s)) of (book, brands) \<Rightarrow> tables_ok book brands \<and> hosts_given book"
      using t new_host_ok [OF t, of r i] by (simp add: hosts_put)
  qed
qed

lemma remove_tables: "tables (snd (removeStoreDomain i s)) = (filter (\<lambda>(a, v). a \<noteq> i) (dm_book s), cleared i (dm_brands s))"
proof -
  let ?s = "s\<lparr>dm_book := filter (\<lambda>(a, v). a \<noteq> i) (dm_book s), dm_brands := cleared i (dm_brands s)\<rparr>"
  have "\<exists>m :: (world, unit) op. removeStoreDomain i s = bnd (in_dom m) (\<lambda>_. gets (storeDomainStatus i)) ?s"
    by (simp add: removeStoreDomain_def save_domains_def andthen_def [of "clearLive _"] bnd_def [of "clearLive _"] clear_run) (simp only: andthen_def, rule exI, rule refl)
  then show ?thesis by (elim exE) (simp only: then_view, simp add: tables_def)
qed

lemma inv_remove: "dom_inv s \<Longrightarrow> dom_inv (snd (removeStoreDomain i s))"
  unfolding dom_inv_tables remove_tables
  by (auto simp: tables_def removed_ok hosts_given_def map_of_drop)

text \<open>The brands after the check passed.\<close>
lemma go_live_run:
  assumes "\<not> list_ex (\<lambda>b. br_customDomain b = Some host \<and> br_adminId b \<noteq> i) (dm_brands s)"
  shows "\<exists>brands. go_live i host s = (Inr (), s\<lparr>dm_brands := brands\<rparr>) \<and>
    (map br_adminId brands = map br_adminId (dm_brands s) \<or> map br_adminId brands = map br_adminId (dm_brands s) @ [i] \<and> i \<notin> br_adminId ` set (dm_brands s)) \<and>
    (\<forall>a. live_in brands a = (if a = i then Some host else live_in (dm_brands s) a))"
proof (cases "find_brand i s")
  case None
  let ?new = "\<lparr>br_adminId = i, br_name = dm_brandName s, br_primaryColor = ''#8b5cf6'', br_accentColor = ''#22d3ee'',
      br_customDomain = Some host, br_domainVerified = False\<rparr>"
  have "go_live i host s = (Inr (), s\<lparr>dm_brands := dm_brands s @ [?new]\<rparr>)"
    using assms None by (simp add: go_live_def modify_def andthen_throw_if)
  moreover have "live_in (dm_brands s @ [?new]) a = (if a = i then Some host else live_in (dm_brands s) a)" for a
    using None by (auto simp: live_in_def find_row_append find_brand_def split: option.split)
  ultimately show ?thesis using None by (auto simp: find_brand_def find_row_None)
next
  case (Some b)
  have "go_live i host s = (Inr (), s\<lparr>dm_brands := with_custom i (Some host) (dm_brands s)\<rparr>)"
    using assms Some by (simp add: go_live_def set_custom_def with_custom_def modify_def andthen_throw_if)
  then show ?thesis
    using Some by (intro exI [of _ "with_custom i (Some host) (dm_brands s)"]) (simp add: live_with_custom find_brand_def)
qed

text \<open>The clauses of the invariant as rules.\<close>
lemma live_recorded: "tables_ok book brands \<Longrightarrow> live_in brands a = Some h \<Longrightarrow> \<exists>r. map_of book a = Some r \<and> dmn_host r = h \<and> dmn_verifiedAt r \<noteq> None"
  by (simp add: tables_ok_def)

lemma one_host: "tables_ok book brands \<Longrightarrow> map_of book a = Some r \<Longrightarrow> map_of book b = Some v \<Longrightarrow> dmn_host r = dmn_host v \<Longrightarrow> a = b"
  by (simp add: tables_ok_def)

text \<open>What \<open>verifyStoreDomain\<close> leaves in the tables.\<close>
lemma verify_tables:
  assumes inv: "dom_inv s" and row: "map_of (dm_book s) i = Some r"
    and keep: "\<not> list_ex dc_ok (run_checks (dm_world s) r) \<Longrightarrow> P (put_row i (r\<lparr>dmn_lastError := check_error (run_checks (dm_world s) r)\<rparr>) (dm_book s), dm_brands s)"
    and live: "\<And>(r' :: store_domain) brands. list_ex dc_ok (run_checks (dm_world s) r) \<Longrightarrow> dmn_host r' = dmn_host r \<Longrightarrow> dmn_verifiedAt r' \<noteq> None \<Longrightarrow>
       map br_adminId brands = map br_adminId (dm_brands s) \<or> map br_adminId brands = map br_adminId (dm_brands s) @ [i] \<and> i \<notin> br_adminId ` set (dm_brands s) \<Longrightarrow>
       (\<And>a. live_in brands a = (if a = i then Some (dmn_host r) else live_in (dm_brands s) a)) \<Longrightarrow> P (put_row i r' (dm_book s), brands)"
  shows "P (tables (snd (verifyStoreDomain i s)))"
proof -
  have t: "tables_ok (dm_book s) (dm_brands s)" "hosts_given (dm_book s)" using inv by (simp_all add: dom_inv_def dom_ok_tables)
  define checks where "checks = run_checks (dm_world s) r"
  define passed where "passed = list_ex dc_ok checks"
  define r' where "r' = r\<lparr>dmn_verifiedAt := (if passed then Some (clock (dm_world s)) else dmn_verifiedAt r), dmn_lastError := check_error checks\<rparr>"
  define s1 where "s1 = s\<lparr>dm_book := put_row i r' (dm_book s)\<rparr>"
  have run: "\<exists>m :: (world, unit) op. verifyStoreDomain i s = bnd (do_when passed (go_live i (dmn_host r))) (\<lambda>_. bnd (in_dom m) (\<lambda>_. gets (\<lambda>s. (storeDomainStatus i s, checks)))) s1"
    by (simp add: verifyStoreDomain_def row checks_def [symmetric] passed_def [symmetric] Let_def save_domains_def r'_def s1_def) (cases passed; simp; simp only: andthen_def; rule exI; rule refl)
  show ?thesis
  proof (cases passed)
    case False
    then have "tables (snd (verifyStoreDomain i s)) = tables s1" using run by (elim exE) (simp add: then_view)
    then show ?thesis using keep False by (simp add: tables_def s1_def r'_def passed_def checks_def)
  next
    case True
    have "\<not> (br_customDomain b = Some (dmn_host r) \<and> br_adminId b \<noteq> i)" if b: "b \<in> set (dm_brands s)" for b
    proof
      assume c: "br_customDomain b = Some (dmn_host r) \<and> br_adminId b \<noteq> i"
      have "find_row br_adminId (br_adminId b) (dm_brands s) = Some b"
        using t(1) b by (intro find_row_distinct) (simp_all add: tables_ok_def)
      then have "live_in (dm_brands s) (br_adminId b) = Some (dmn_host r)" using c by (simp add: live_in_def)
      then obtain v where "map_of (dm_book s) (br_adminId b) = Some v" "dmn_host v = dmn_host r"
        using live_recorded [OF t(1)] by force
      then have "br_adminId b = i" by (rule one_host [OF t(1) _ row])
      then show False using c by simp
    qed
    then obtain brands where g: "go_live i (dmn_host r) s1 = (Inr (), s1\<lparr>dm_brands := brands\<rparr>)"
      "map br_adminId brands = map br_adminId (dm_brands s) \<or> map br_adminId brands = map br_adminId (dm_brands s) @ [i] \<and> i \<notin> br_adminId ` set (dm_brands s)"
      "\<And>a. live_in brands a = (if a = i then Some (dmn_host r) else live_in (dm_brands s) a)"
      using go_live_run [of "dmn_host r" i s1] by (auto simp: list_ex_iff s1_def)
    have "tables (snd (verifyStoreDomain i s)) = tables (s1\<lparr>dm_brands := brands\<rparr>)"
      using run g(1) True by (elim exE) (simp add: bnd_def [of "go_live _ _"] then_view)
    then show ?thesis using live [of r' brands] g(2,3) True by (simp add: tables_def s1_def r'_def passed_def checks_def)
  qed
qed

lemma verify_none: "map_of (dm_book s) i = None \<Longrightarrow> snd (verifyStoreDomain i s) = s"
  by (simp add: verifyStoreDomain_def throw_def)

lemma inv_verify: "dom_inv s \<Longrightarrow> dom_inv (snd (verifyStoreDomain i s))"
proof (cases "map_of (dm_book s) i")
  case (Some r)
  assume inv: "dom_inv s"
  then have t: "tables_ok (dm_book s) (dm_brands s)" "hosts_given (dm_book s)" by (simp_all add: dom_inv_def dom_ok_tables)
  have given: "dmn_host r \<noteq> []" using t(2) Some by (simp add: hosts_given_def)
  show ?thesis
    unfolding dom_inv_tables
  proof (rule verify_tables [OF inv Some])
    show "case (put_row i (r\<lparr>dmn_lastError := check_error (run_checks (dm_world s) r)\<rparr>) (dm_book s), dm_brands s) of (book, brands) \<Rightarrow> tables_ok book brands \<and> hosts_given book"
      using t(2) given same_host_ok [OF t(1) Some] by (simp add: hosts_put)
  next
    fix r' :: store_domain and brands
    assume h: "dmn_host r' = dmn_host r" "dmn_verifiedAt r' \<noteq> None"
      and ids: "map br_adminId brands = map br_adminId (dm_brands s) \<or> map br_adminId brands = map br_adminId (dm_brands s) @ [i] \<and> i \<notin> br_adminId ` set (dm_brands s)"
      and lv: "\<And>a. live_in brands a = (if a = i then Some (dmn_host r) else live_in (dm_brands s) a)"
    have "tables_ok (put_row i r' (dm_book s)) (dm_brands s)" using same_host_ok [OF t(1) Some] h by simp
    then have "tables_ok (put_row i r' (dm_book s)) brands"
      by (rule live_ok [where r = r' and i = i]) (use h ids lv in \<open>simp_all add: map_of_put_row\<close>)
    then show "case (put_row i r' (dm_book s), brands) of (book, brands) \<Rightarrow> tables_ok book brands \<and> hosts_given book"
      using t(2) given h by (simp add: hosts_put)
  qed
qed (simp add: verify_none)

lemma inv_step: "dom_step s s' \<Longrightarrow> dom_inv s \<Longrightarrow> dom_inv s'"
  by (induction rule: dom_step.induct) (simp_all add: inv_set inv_remove inv_verify, simp add: dom_inv_tables tables_def)

lemma inv_run: "dom_step\<^sup>*\<^sup>* s s' \<Longrightarrow> dom_inv s \<Longrightarrow> dom_inv s'"
  by (induction rule: rtranclp_induct) (auto intro: inv_step)

text \<open>A probe passes only when the answer carries the token of the record.\<close>
lemma probe_answered: "dc_ok (probe w url tok) \<Longrightarrow> \<exists>st b. ext_http_get (svcs w) (clock w) url = HttpReply st b \<and> answer_token b = tok"
  by (auto simp: probe_def Let_def split: http_reply.splits if_splits)

definition answered :: "world \<Rightarrow> store_domain \<Rightarrow> bool" where
  "answered w r \<longleftrightarrow> (\<exists>scheme \<in> {''https://'', ''http://''}. \<exists>st b.
     ext_http_get (svcs w) (clock w) (scheme @ dmn_host r @ CHECK_PATH) = HttpReply st b \<and> answer_token b = dmn_token r)"

lemma passed_answered: "list_ex dc_ok (run_checks w r) \<Longrightarrow> answered w r"
  by (auto simp: run_checks_def Let_def answered_def split: if_splits dest!: probe_answered)

lemma live_of_tables: "live_of a s = (case tables s of (book, brands) \<Rightarrow> live_in brands a)"
  by (simp add: live_of_in tables_def)

lemma cleared_live: "dom_inv s \<Longrightarrow> live_in (cleared i (dm_brands s)) a = Some h \<Longrightarrow> live_in (dm_brands s) a = Some h"
  using cleared_dead [of "dm_book s" "dm_brands s" i a] by (simp add: dom_inv_def dom_ok_tables split: if_splits)

lemma verify_live:
  assumes inv: "dom_inv s" and l: "live_of a (snd (verifyStoreDomain i s)) = Some h"
  shows "live_of a s = Some h \<or> (\<exists>r. map_of (dm_book s) a = Some r \<and> dmn_host r = h \<and> answered (dm_world s) r)"
proof (cases "map_of (dm_book s) i")
  case None
  then show ?thesis using l by (simp add: verify_none)
next
  case (Some r)
  let ?P = "\<lambda>t. case t of (book, brands) \<Rightarrow> live_in brands a = Some h \<longrightarrow>
     live_in (dm_brands s) a = Some h \<or> a = i \<and> h = dmn_host r \<and> list_ex dc_ok (run_checks (dm_world s) r)"
  have "?P (tables (snd (verifyStoreDomain i s)))"
    by (rule verify_tables [OF inv Some]) auto
  then show ?thesis using l Some passed_answered [of "dm_world s" r] by (auto simp: live_of_tables tables_def)
qed

lemma set_live: "dom_inv s \<Longrightarrow> live_of a (snd (setStoreDomain i inp s)) = Some h \<Longrightarrow> live_of a s = Some h"
proof -
  assume inv: "dom_inv s" and l: "live_of a (snd (setStoreDomain i inp s)) = Some h"
  have "case tables (snd (setStoreDomain i inp s)) of (book, brands) \<Rightarrow> live_in brands a = Some h \<longrightarrow> live_in (dm_brands s) a = Some h"
    by (rule set_tables) (simp_all add: tables_def cleared_live [OF inv])
  then show ?thesis using l by (simp add: live_of_tables tables_def)
qed

lemma remove_live: "dom_inv s \<Longrightarrow> live_of a (snd (removeStoreDomain i s)) = Some h \<Longrightarrow> live_of a s = Some h"
  unfolding live_of_tables remove_tables by (simp add: tables_def cleared_live)

definition demo_domains :: dom_state where
  "demo_domains = \<lparr>dm_world = demo_world\<lparr>svcs := demo_services\<lparr>ext_http_get := \<lambda>tm url. HttpReply 200 (Inr (VObj [(''token'', VStr ''tok'')]))\<rparr>\<rparr>,
     dm_book = [], dm_brands = [], dm_brandName = ''panel'', dm_url_host = (\<lambda>u. None)\<rparr>"

definition demo_asked :: dom_state where
  "demo_asked = snd (setStoreDomain 3 '' Shop.Example.com. '' demo_domains)"

lemma demo_asked_inv: "dom_inv demo_asked"
  unfolding demo_asked_def
  by (rule inv_set) (simp add: dom_inv_def dom_ok_tables tables_ok_def hosts_given_def demo_domains_def live_in_def find_row_def)

lemma demo_asked_live: "live_of 3 demo_asked = None"
  by code_simp

lemma demo_verified_live: "live_of 3 (snd (verifyStoreDomain 3 demo_asked)) = Some ''shop.example.com''"
  by code_simp

text \<open>
  C26: a domain goes live for an admin only in a step that finds the admin's own request for exactly this host and an
  answer of the host, over https or http, with the token of that request.
\<close>
theorem live_domain_answered:
  assumes "dom_inv s" and "dom_step s s'" and "live_of a s' = Some h" and "live_of a s \<noteq> Some h"
  shows "\<exists>r. map_of (dm_book s) a = Some r \<and> dmn_host r = h \<and> answered (dm_world s) r"
  using assms(2)
proof cases
  case asked
  then show ?thesis using assms set_live by blast
next
  case removed
  then show ?thesis using assms remove_live by blast
next
  case checked
  then show ?thesis using assms verify_live by blast
next
  case later
  then show ?thesis using assms by (simp add: live_of_tables tables_def)
qed

theorem live_domain_answered_witness:
  "\<exists>r. map_of (dm_book demo_asked) 3 = Some r \<and> dmn_host r = ''shop.example.com'' \<and> answered (dm_world demo_asked) r"
  by (rule live_domain_answered [OF demo_asked_inv dom_step.checked [of demo_asked 3] demo_verified_live]) (simp add: demo_asked_live)

text \<open>
  C25: whatever the admins request, remove and verify, a domain that is live serves one shop: it is the host of a verified
  request of its own admin, no other admin has it live, none has a request for it, and none can place one.
\<close>
theorem shop_domain_exclusive:
  assumes "dom_inv s" and "dom_step\<^sup>*\<^sup>* s s'" and "live_of a s' = Some h"
  shows "(\<exists>r. map_of (dm_book s') a = Some r \<and> dmn_host r = h \<and> dmn_verifiedAt r \<noteq> None) \<and>
    (\<forall>b. live_of b s' = Some h \<longrightarrow> b = a) \<and> (\<forall>b v. map_of (dm_book s') b = Some v \<longrightarrow> dmn_host v = h \<longrightarrow> b = a) \<and>
    (\<forall>b inp. b \<noteq> a \<longrightarrow> normalizeDomain (dm_url_host s') (Some inp) = h \<longrightarrow> (\<exists>e. setStoreDomain b inp s' = (Inl e, s')))"
proof (intro conjI allI impI)
  have t: "tables_ok (dm_book s') (dm_brands s')" using inv_run [OF assms(2,1)] by (simp add: dom_inv_def dom_ok_tables)
  then obtain r where r: "map_of (dm_book s') a = Some r" "dmn_host r = h" "dmn_verifiedAt r \<noteq> None"
    using live_recorded [OF _ assms(3) [unfolded live_of_in]] by blast
  then show "\<exists>r. map_of (dm_book s') a = Some r \<and> dmn_host r = h \<and> dmn_verifiedAt r \<noteq> None" by blast
  show own: "b = a" if "map_of (dm_book s') b = Some v" "dmn_host v = h" for b v
    using one_host [OF t that(1) r(1)] that(2) r(2) by simp
  show "b = a" if "live_of b s' = Some h" for b
    using live_recorded [OF t, of b h] that own by (auto simp: live_of_in)
  show "\<exists>e. setStoreDomain b inp s' = (Inl e, s')" if b: "b \<noteq> a" and host: "normalizeDomain (dm_url_host s') (Some inp) = h" for b inp
  proof -
    have "list_ex (\<lambda>(x, v). dmn_host v = h \<and> x \<noteq> b) (dm_book s')"
      using map_of_SomeD [OF r(1)] r(2) b by (force simp: list_ex_iff)
    then show ?thesis by (simp add: setStoreDomain_def host andthen_throw_if throw_def)
  qed
qed

theorem shop_domain_exclusive_witness:
  "live_of 3 (snd (verifyStoreDomain 3 demo_asked)) = Some ''shop.example.com'' \<and>
   (\<exists>e. setStoreDomain 2 ''SHOP.example.com/x'' (snd (verifyStoreDomain 3 demo_asked)) = (Inl e, snd (verifyStoreDomain 3 demo_asked)))"
proof -
  have "normalizeDomain (dm_url_host (snd (verifyStoreDomain 3 demo_asked))) (Some ''SHOP.example.com/x'') = ''shop.example.com''"
    by code_simp
  moreover have "(2 :: uid) \<noteq> 3" by simp
  ultimately show ?thesis
    using shop_domain_exclusive [OF demo_asked_inv r_into_rtranclp [of dom_step, OF dom_step.checked [of demo_asked 3]] demo_verified_live]
      demo_verified_live by blast
qed

end
