(* ===== verification/AdminAccess.thy ===== *)
theory AdminAccess
  imports Auth Grouped Demo
begin

text \<open>
  The sign-in route of the panel (\<open>api/auth/login/route.ts\<close>: guard, password and second factor, emailed code), the
  owner's actions on many resellers at once (\<open>bulkAdminAction\<close> of \<open>adminAdmin.ts\<close>), and what they guarantee: wrong
  passwords lock an account, a session opens for a proven and active account only, a deactivated reseller is out.
\<close>

section \<open>The sign-in route\<close>

record login_body =
  lb_username :: string
  lb_password :: string
  lb_totp :: "string option"
  lb_emailCode :: "string option"

definition six_digit_code :: "string option \<Rightarrow> bool" where
  "six_digit_code v = (case v of None \<Rightarrow> True | Some t \<Rightarrow> length t = 6 \<and> list_all is_digit t)"

definition login_body_ok :: "login_body \<Rightarrow> bool" where
  "login_body_ok b \<longleftrightarrow> 1 \<le> length (lb_username b) \<and> length (lb_username b) \<le> 64 \<and> 1 \<le> length (lb_password b) \<and> length (lb_password b) \<le> 256 \<and>
     six_digit_code (lb_totp b) \<and> six_digit_code (lb_emailCode b)"

datatype login_answer = LA_ok string admin | LA_locked int | LA_refused login_refusal | LA_code_required | LA_code_invalid

text \<open>The route after the password: what each end leaves.\<close>
definition after_password :: "login_body \<Rightarrow> login_result \<Rightarrow> (world, login_answer) op" where
  "after_password b result = (case result of
        LoginRefused r \<Rightarrow> ret (LA_refused r)
      | LoginOk token a \<Rightarrow>
          bnd (gets loginCodeRequired) (\<lambda>needed.
          if \<not> needed then ret (LA_ok token a)
          else if \<not> truthy (lb_emailCode b) then andthen (revokeSession token) (ret LA_code_required)
          else bnd (consumeLoginCode (lb_username b) (opt_default (lb_emailCode b) [])) (\<lambda>okay.
            if \<not> okay then andthen (revokeSession token) (ret LA_code_invalid)
            else ret (LA_ok token a))))"

definition login_post :: "login_body \<Rightarrow> string option \<Rightarrow> (world, login_answer) op" where
  "login_post b ip =
    andthen (throw_if (\<not> login_body_ok b) (PlainError ''invalid body''))
    (andthen (swallow ensureOwner)
    (bnd (gets (loginGuardState (lb_username b) ip)) (\<lambda>guard.
    if gd_locked guard then andthen (noteLoginLocked (lb_username b) ip guard) (ret (LA_locked (gd_retryAfterSec guard)))
    else
      bnd (loginWithPassword \<lparr>lq_username = lb_username b, lq_password = lb_password b, lq_totp = lb_totp b, lq_ip = ip\<rparr>) (after_password b))))"

section \<open>Many resellers at once\<close>

datatype admin_action = AA_ACTIVATE | AA_DEACTIVATE | AA_EXTEND | AA_QUOTA | AA_CLIENT_LIMIT

record admin_bulk_input =
  abi_ids :: "uid list"
  abi_action :: admin_action
  abi_days :: "rat option"
  abi_quotaGB :: "rat option option"
  abi_clientLimit :: "int option option"

record admin_bulk_result =
  abr_total :: nat
  abr_updated :: nat
  abr_skipped :: "(uid \<times> string \<times> string) list"
  abr_admins :: "admin_usage list"

definition no_change :: admin_input where
  "no_change = \<lparr>ai_username = [], ai_password = None, ai_displayName = None, ai_isActive = None, ai_trafficQuotaGB = None,
     ai_clientLimit = None, ai_expiresAt = None, ai_telegramId = None, ai_serverAccess = None\<rparr>"

definition bulk_days :: "admin_bulk_input \<Rightarrow> int" where
  "bulk_days inp = js_round (opt_default (abi_days inp) 0)"

definition bulk_patch :: "admin_bulk_input \<Rightarrow> time \<Rightarrow> admin \<Rightarrow> admin_input" where
  "bulk_patch inp tm t =
    (case abi_action inp of
       AA_ACTIVATE \<Rightarrow> no_change\<lparr>ai_isActive := Some True\<rparr>
     | AA_DEACTIVATE \<Rightarrow> no_change\<lparr>ai_isActive := Some False\<rparr>
     | AA_EXTEND \<Rightarrow> (let base = (case adm_expiresAt t of Some e \<Rightarrow> if tm < e then e else tm | None \<Rightarrow> tm) in
         no_change\<lparr>ai_expiresAt := Some (Some (base + bulk_days inp * DAY_MS))\<rparr>)
     | AA_QUOTA \<Rightarrow> no_change\<lparr>ai_trafficQuotaGB := Some (opt_default (abi_quotaGB inp) None)\<rparr>
     | AA_CLIENT_LIMIT \<Rightarrow> no_change\<lparr>ai_clientLimit := Some (opt_default (abi_clientLimit inp) None)\<rparr>)"

definition action_name :: "admin_action \<Rightarrow> string" where
  "action_name a = (case a of AA_ACTIVATE \<Rightarrow> ''activate'' | AA_DEACTIVATE \<Rightarrow> ''deactivate'' | AA_EXTEND \<Rightarrow> ''extend''
     | AA_QUOTA \<Rightarrow> ''quota'' | AA_CLIENT_LIMIT \<Rightarrow> ''clientLimit'')"

type_synonym bulk_acc = "uid list \<times> (uid \<times> string \<times> string) list"

definition bulk_admin_one :: "admin \<Rightarrow> admin_bulk_input \<Rightarrow> admin list \<Rightarrow> uid \<Rightarrow> bulk_acc \<Rightarrow> (world, bulk_acc) op" where
  "bulk_admin_one actor inp found i acc =
    (case acc of (touched, skipped) \<Rightarrow>
     case find_row adm_id i found of
       None \<Rightarrow> ret (touched, skipped @ [(i, ''-'', ''not_found'')])
     | Some t \<Rightarrow>
         if adm_role t = OWNER then ret (touched, skipped @ [(i, adm_username t, ''owner'')])
         else bnd now (\<lambda>tm. bnd (attempt (updateAdmin actor i (bulk_patch inp tm t))) (\<lambda>r.
           ret (case r of Inr _ \<Rightarrow> (touched @ [i], skipped) | Inl e \<Rightarrow> (touched, skipped @ [(i, adm_username t, err_message e)])))))"

definition bulkAdminAction :: "admin \<Rightarrow> admin_bulk_input \<Rightarrow> (world, admin_bulk_result) op" where
  "bulkAdminAction actor inp =
    andthen (assertOwner actor)
    (let ids = uniq (abi_ids inp); days = bulk_days inp in
    andthen (throw_if (ids = []) (app_error ''no admin is selected''))
    (andthen (throw_if (100 < length ids) (app_error ''at most 100 admins at once''))
    (andthen (throw_if (abi_action inp = AA_EXTEND \<and> (days = 0 \<or> days < -3650 \<or> 3650 < days)) (app_error ''the number of days is not valid''))
    (bnd (gets (\<lambda>w. filter (\<lambda>a. adm_id a \<in> set ids) (admins w))) (\<lambda>found.
    bnd (fold_op (bulk_admin_one actor inp found) ids ([], [])) (\<lambda>(touched, skipped).
    bnd (listAdmins actor) (\<lambda>rows.
    andthen (audit (Some (adm_id actor)) (''admin.bulk.'' @ action_name (abi_action inp)) JNull
       ([(''updated'', JInt (int (length touched))), (''skipped'', JInt (int (length skipped)))]
        @ (if abi_action inp = AA_EXTEND then [(''days'', JInt days)] else [])) None)
    (ret \<lparr>abr_total = length ids, abr_updated = length touched, abr_skipped = skipped,
       abr_admins = filter (\<lambda>u. adm_id (au_admin u) \<in> set touched) rows\<rparr>))))))))"

section \<open>What one update does\<close>

lemma eo_sign_in:
  assumes "events_only w w'"
  shows "owner_ensured w' = owner_ensured w" "mail_cfg w' = mail_cfg w" "login_codes w' = login_codes w"
proof -
  let ?v = "w'\<lparr>audit_log := audit_log w, notification_log := notification_log w, webhook_deliveries := webhook_deliveries w,
    hook_count_cache := hook_count_cache w, next_id := next_id w\<rparr>"
  have eq: "?v = w" using assms by (simp only: events_only_def)
  have f: "f ?v = f w" for f :: "world \<Rightarrow> 'c" by (simp only: eq)
  show "owner_ensured w' = owner_ensured w" using f [of owner_ensured] by simp
  show "mail_cfg w' = mail_cfg w" using f [of mail_cfg] by simp
  show "login_codes w' = login_codes w" using f [of login_codes] by simp
qed

lemma patched_keys [simp]: "adm_id (patched_admin x inp a) = adm_id a" "adm_role (patched_admin x inp a) = adm_role a"
  by (simp_all add: patched_admin_def Let_def)

lemma insert_access_frame: "insert_access i rows w = (Inr u, w') \<Longrightarrow> \<exists>acc. w' = w\<lparr>server_accesses := acc\<rparr>"
  by (auto simp: insert_access_def andthen_throw_if throw_def split: if_splits)

lemma audit_ran: "audit a act t m ip w = (r, w') \<Longrightarrow> events_only w w'"
  using audit_events [of a act t m ip w] by auto

definition access_part :: "admin \<Rightarrow> uid \<Rightarrow> admin_input \<Rightarrow> (world, unit) op" where
  "access_part t i inp = (case ai_serverAccess inp of
     Some rows \<Rightarrow> if adm_role t = OWNER then ret () else
       andthen (modify (\<lambda>w. w\<lparr>server_accesses := del_rows (\<lambda>r. acc_adminId r = i) (server_accesses w)\<rparr>)) (insert_access i rows)
   | None \<Rightarrow> ret ())"

lemma access_part_frame: "access_part t i inp w = (Inr u, w') \<Longrightarrow> \<exists>acc. w' = w\<lparr>server_accesses := acc\<rparr>"
proof -
  have same: "\<exists>acc. w = w\<lparr>server_accesses := acc\<rparr>" by (rule exI [of _ "server_accesses w"]) simp
  show "access_part t i inp w = (Inr u, w') \<Longrightarrow> \<exists>acc. w' = w\<lparr>server_accesses := acc\<rparr>"
    using same by (auto simp: access_part_def split: option.splits if_splits dest!: insert_access_frame)
qed

lemma updateAdmin_cases:
  assumes "updateAdmin actor i inp w = (Inr a, w')"
  obtains t acc w1 w2 where "find_admin i w = Some t" and "adm_role actor = OWNER"
    and "w1 = w\<lparr>server_accesses := acc, admins := upd_rows (\<lambda>r. adm_id r = i) (patched_admin (svcs w) inp) (admins w)\<rparr>"
    and "a = patched_admin (svcs w) inp t"
    and "w2 = (if ai_isActive inp = Some False \<or> truthy (ai_password inp) then w1\<lparr>admin_sessions := del_rows (\<lambda>s. ads_adminId s = i) (admin_sessions w1)\<rparr> else w1)"
    and "events_only w2 w'"
proof -
  obtain t where t: "find_admin i w = Some t" "adm_role actor = OWNER"
    using assms by (auto simp: updateAdmin_def assertOwner_def andthen_throw_if throw_def split: if_splits) (cases "find_admin i w"; simp)
  obtain w0 acc where w0: "access_part t i inp w = (Inr (), w0)" "w0 = w\<lparr>server_accesses := acc\<rparr>"
    and rest: "bnd (update_admin i (patched_admin (svcs w) inp)) (\<lambda>a. andthen (do_when (ai_isActive inp = Some False \<or> truthy (ai_password inp)) (revokeAllSessions i))
      (andthen (audit (Some (adm_id actor)) ''admin.update'' (JId i)
         ((''fields'', JObj (admin_fields (adm_role t) inp)) # opt_field ''serverAccess'' (\<lambda>rows. JInt (int (length rows))) (ai_serverAccess inp)) None) (ret a))) w0 = (Inr a, w')"
    using assms t access_part_frame
    by (fastforce simp: updateAdmin_def assertOwner_def access_part_def [symmetric] andthen_throw_if bnd_inr andthen_inr transaction_inr split: if_splits)
  show thesis
    using rest t w0 by (intro that [OF t refl])
      (auto simp: update_admin_def find_admin_def revokeAllSessions_def do_when_def andthen_inr ret_inr bnd_inr modify_inr dest!: audit_ran split: if_splits)
qed

text \<open>An update that returns: the row and the sessions after it.\<close>
lemma updateAdmin_done:
  assumes "updateAdmin actor i inp w = (Inr a, w')"
  shows "adm_role actor = OWNER \<and> (\<exists>t. find_admin i w = Some t \<and> a = patched_admin (svcs w) inp t) \<and>
    admins w' = upd_rows (\<lambda>r. adm_id r = i) (patched_admin (svcs w) inp) (admins w) \<and> svcs w' = svcs w \<and> clock w' = clock w \<and> owner_ensured w' = owner_ensured w \<and>
    admin_sessions w' = (if ai_isActive inp = Some False \<or> truthy (ai_password inp) then del_rows (\<lambda>s. ads_adminId s = i) (admin_sessions w) else admin_sessions w)"
proof -
  from assms obtain t acc w1 w2 where t: "find_admin i w = Some t" "adm_role actor = OWNER"
    and w1: "w1 = w\<lparr>server_accesses := acc, admins := upd_rows (\<lambda>r. adm_id r = i) (patched_admin (svcs w) inp) (admins w)\<rparr>"
    and a: "a = patched_admin (svcs w) inp t"
    and w2: "w2 = (if ai_isActive inp = Some False \<or> truthy (ai_password inp) then w1\<lparr>admin_sessions := del_rows (\<lambda>s. ads_adminId s = i) (admin_sessions w1)\<rparr> else w1)"
    and e: "events_only w2 w'"
    by (rule updateAdmin_cases)
  then show ?thesis by (simp add: eo_admins [OF e] eo_svcs [OF e] eo_clock [OF e] events_only_frame [OF e] eo_sign_in [OF e])
qed

lemma updateAdmin_run:
  assumes "adm_role actor = OWNER" and "find_admin i w = Some t" and "ai_password inp = None" and "ai_serverAccess inp = None"
  shows "\<exists>w'. updateAdmin actor i inp w = (Inr (patched_admin (svcs w) inp t), w') \<and>
    admins w' = upd_rows (\<lambda>r. adm_id r = i) (patched_admin (svcs w) inp) (admins w) \<and> svcs w' = svcs w \<and> clock w' = clock w \<and>
    admin_sessions w' = (if ai_isActive inp = Some False then del_rows (\<lambda>s. ads_adminId s = i) (admin_sessions w) else admin_sessions w)"
proof -
  let ?w1 = "w\<lparr>admins := upd_rows (\<lambda>r. adm_id r = i) (patched_admin (svcs w) inp) (admins w)\<rparr>"
  let ?w2 = "if ai_isActive inp = Some False then ?w1\<lparr>admin_sessions := del_rows (\<lambda>s. ads_adminId s = i) (admin_sessions ?w1)\<rparr> else ?w1"
  obtain w3 where a: "audit (Some (adm_id actor)) ''admin.update'' (JId i)
       ((''fields'', JObj (admin_fields (adm_role t) inp)) # opt_field ''serverAccess'' (\<lambda>rows. JInt (int (length rows))) (ai_serverAccess inp)) None ?w2 = (Inr (), w3)"
    and e: "events_only ?w2 w3" using audit_events by blast
  have "updateAdmin actor i inp w = (Inr (patched_admin (svcs w) inp t), w3)"
    using assms a by (cases "ai_isActive inp = Some False")
      (simp_all add: updateAdmin_def assertOwner_def transaction_def update_admin_def bnd_def andthen_def revokeAllSessions_def truthy_def do_when_def ret_def)
  then show ?thesis
    by (intro exI [of _ w3]) (simp add: eo_admins [OF e] eo_svcs [OF e] eo_clock [OF e] events_only_frame [OF e])
qed


section \<open>A bulk action changes the selected resellers and nothing else\<close>

text \<open>What the action means for one account, field by field.\<close>
definition bulk_effect :: "admin_bulk_input \<Rightarrow> time \<Rightarrow> admin \<Rightarrow> admin" where
  "bulk_effect inp tm a =
    (if adm_role a = OWNER then a else
     case abi_action inp of
       AA_ACTIVATE \<Rightarrow> a\<lparr>adm_isActive := True\<rparr>
     | AA_DEACTIVATE \<Rightarrow> a\<lparr>adm_isActive := False\<rparr>
     | AA_EXTEND \<Rightarrow> a\<lparr>adm_expiresAt := Some (max tm (opt_default (adm_expiresAt a) tm) + bulk_days inp * DAY_MS)\<rparr>
     | AA_QUOTA \<Rightarrow> a\<lparr>adm_trafficQuota := map_option gbToBytes (opt_default (abi_quotaGB inp) None)\<rparr>
     | AA_CLIENT_LIMIT \<Rightarrow> a\<lparr>adm_clientLimit := opt_default (abi_clientLimit inp) None\<rparr>)"

lemma bulk_effect_keys [simp]: "adm_id (bulk_effect inp tm a) = adm_id a"
  by (simp add: bulk_effect_def split: admin_action.split)

lemma bulk_effect_patch: "adm_role a \<noteq> OWNER \<Longrightarrow> patched_admin x (bulk_patch inp tm a) a = bulk_effect inp tm a"
  by (cases "adm_expiresAt a"; cases "abi_action inp")
     (simp_all add: bulk_effect_def bulk_patch_def patched_admin_def no_change_def Let_def quota_bytes_def str_or_def max_def split: option.split)

lemma bulk_effect_owner: "adm_role a = OWNER \<Longrightarrow> bulk_effect inp tm a = a"
  by (simp add: bulk_effect_def)

lemma bulk_patch_plain [simp]: "ai_password (bulk_patch inp tm t) = None" "ai_serverAccess (bulk_patch inp tm t) = None"
  by (simp_all add: bulk_patch_def no_change_def Let_def split: admin_action.split)

lemma find_row_filter: "i \<in> S \<Longrightarrow> find_row key i (filter (\<lambda>a. key a \<in> S) rows) = find_row key i rows"
  by (induction rows) auto

lemma find_row_map: "(\<And>a. key (g a) = key a) \<Longrightarrow> find_row key i (map g rows) = map_option g (find_row key i rows)"
  by (induction rows) auto

text \<open>The rows after the ids of \<open>S\<close> have been dealt with.\<close>
definition bulk_rows :: "admin_bulk_input \<Rightarrow> time \<Rightarrow> uid set \<Rightarrow> admin list \<Rightarrow> admin list" where
  "bulk_rows inp tm S rows = map (\<lambda>a. if adm_id a \<in> S then bulk_effect inp tm a else a) rows"

lemma bulk_rows_find: "i \<notin> S \<Longrightarrow> find_row adm_id i (bulk_rows inp tm S rows) = find_row adm_id i rows"
  unfolding bulk_rows_def by (subst find_row_map) (auto split: if_splits dest: find_row_key simp: map_option_case split: option.split)

lemma bulk_rows_skip:
  assumes "distinct (map adm_id rows)" and "\<And>t. find_row adm_id i rows = Some t \<Longrightarrow> adm_role t = OWNER"
  shows "bulk_rows inp tm (insert i S) rows = bulk_rows inp tm S rows"
proof -
  have "bulk_effect inp tm a = a" if "a \<in> set rows" "adm_id a = i" for a
    using assms(2) [of a] find_row_distinct [OF assms(1) that(1)] that(2) by (simp add: bulk_effect_owner)
  then show ?thesis unfolding bulk_rows_def by (intro map_cong refl) auto
qed

lemma bulk_rows_do:
  assumes "distinct (map adm_id rows)" and "find_row adm_id i rows = Some t" and "adm_role t \<noteq> OWNER" and "i \<notin> S"
  shows "upd_rows (\<lambda>r. adm_id r = i) (patched_admin x (bulk_patch inp tm t)) (bulk_rows inp tm S rows) = bulk_rows inp tm (insert i S) rows"
proof -
  have same: "a = t" if "a \<in> set rows" "adm_id a = i" for a
    using assms(2) find_row_distinct [OF assms(1) that(1)] that(2) by simp
  show ?thesis
    unfolding bulk_rows_def upd_rows_def map_map
    by (intro map_cong refl) (use same assms(3,4) in \<open>auto simp: bulk_effect_patch\<close>)
qed

definition bulk_target :: "admin list \<Rightarrow> uid \<Rightarrow> bool" where
  "bulk_target rows i \<longleftrightarrow> (case find_row adm_id i rows of Some t \<Rightarrow> adm_role t \<noteq> OWNER | None \<Rightarrow> False)"

text \<open>The sessions after the ids of \<open>S\<close> have been dealt with: a deactivation revokes those of the resellers among them.\<close>
definition bulk_sessions :: "admin_bulk_input \<Rightarrow> admin list \<Rightarrow> uid set \<Rightarrow> admin_session list \<Rightarrow> admin_session list" where
  "bulk_sessions inp rows S ss =
    (if abi_action inp = AA_DEACTIVATE then filter (\<lambda>s. \<not> (ads_adminId s \<in> S \<and> bulk_target rows (ads_adminId s))) ss else ss)"

lemma bulk_sessions_start: "bulk_sessions inp rows {} ss = ss"
  by (simp add: bulk_sessions_def)

lemma bulk_sessions_skip: "\<not> bulk_target rows i \<Longrightarrow> bulk_sessions inp rows (insert i S) ss = bulk_sessions inp rows S ss"
  by (auto simp: bulk_sessions_def intro: filter_cong)

lemma bulk_patch_deactivates: "ai_isActive (bulk_patch inp tm t) = Some False \<longleftrightarrow> abi_action inp = AA_DEACTIVATE"
  by (simp add: bulk_patch_def no_change_def Let_def split: admin_action.split)

lemma bulk_sessions_do:
  "bulk_target rows i \<Longrightarrow> (if ai_isActive (bulk_patch inp tm t) = Some False then del_rows (\<lambda>s. ads_adminId s = i) (bulk_sessions inp rows S ss)
     else bulk_sessions inp rows S ss) = bulk_sessions inp rows (insert i S) ss"
  by (auto simp: bulk_patch_deactivates bulk_sessions_def del_rows_def intro: filter_cong)

lemma bulk_loop:
  assumes own: "adm_role actor = OWNER" and d: "distinct (map adm_id rows)" and f: "\<And>i. i \<in> set ids \<Longrightarrow> find_row adm_id i found = find_row adm_id i rows"
  shows "distinct ids \<Longrightarrow> S \<inter> set ids = {} \<Longrightarrow> clock w = tm \<Longrightarrow> svcs w = x \<Longrightarrow>
    admins w = bulk_rows inp tm S rows \<and> admin_sessions w = bulk_sessions inp rows S ss \<Longrightarrow>
    \<exists>skipped' w'. fold_op (bulk_admin_one actor inp found) ids (touched, skipped) w = (Inr (touched @ filter (bulk_target rows) ids, skipped'), w') \<and>
      length skipped' = length skipped + length (filter (\<lambda>i. \<not> bulk_target rows i) ids) \<and>
      clock w' = tm \<and> svcs w' = x \<and>
      admins w' = bulk_rows inp tm (S \<union> set ids) rows \<and> admin_sessions w' = bulk_sessions inp rows (S \<union> set ids) ss"
  using f
proof (induction ids arbitrary: S touched skipped w)
  case Nil
  then show ?case by simp
next
  case (Cons i ids)
  have f: "find_row adm_id i found = find_row adm_id i rows" "\<And>j. j \<in> set ids \<Longrightarrow> find_row adm_id j found = find_row adm_id j rows"
    using Cons.prems(6) by auto
  have rest: "distinct ids" "insert i S \<inter> set ids = {}" and i: "i \<notin> S" using Cons.prems(1,2) by auto
  show ?case
  proof (cases "bulk_target rows i")
    case False
    then obtain why where run: "bulk_admin_one actor inp found i (touched, skipped) w = (Inr (touched, skipped @ [why]), w)"
      by (auto simp: bulk_admin_one_def bulk_target_def f(1) split: option.splits)
    have "admins w = bulk_rows inp tm (insert i S) rows \<and> admin_sessions w = bulk_sessions inp rows (insert i S) ss"
      using False Cons.prems(5) by (subst bulk_rows_skip [OF d]) (auto simp: bulk_target_def bulk_sessions_skip)
    from Cons.IH [OF rest Cons.prems(3,4) this f(2), of touched "skipped @ [why]"] show ?thesis
      using False by (auto simp: bnd_def [of "bulk_admin_one _ _ _ _ _"] run)
  next
    case True
    then obtain t where t: "find_row adm_id i rows = Some t" "adm_role t \<noteq> OWNER" by (auto simp: bulk_target_def split: option.splits)
    have "find_admin i w = Some t" using t(1) i Cons.prems(5) by (simp add: find_admin_def bulk_rows_find)
    then obtain a w1 where u: "updateAdmin actor i (bulk_patch inp tm t) w = (Inr a, w1)"
      and w1: "admins w1 = upd_rows (\<lambda>r. adm_id r = i) (patched_admin x (bulk_patch inp tm t)) (admins w)" "svcs w1 = x" "clock w1 = tm"
        "admin_sessions w1 = (if ai_isActive (bulk_patch inp tm t) = Some False then del_rows (\<lambda>s. ads_adminId s = i) (admin_sessions w) else admin_sessions w)"
      using updateAdmin_run [OF own, of i w t "bulk_patch inp tm t"] Cons.prems(3,4) by auto
    have run: "bulk_admin_one actor inp found i (touched, skipped) w = (Inr (touched @ [i], skipped), w1)"
      using t Cons.prems(3) u by (simp add: bulk_admin_one_def f(1) now_def bnd_def [of "attempt _"] attempt_run)
    have "admins w1 = bulk_rows inp tm (insert i S) rows \<and> admin_sessions w1 = bulk_sessions inp rows (insert i S) ss"
      unfolding w1(1,4) Cons.prems(5) [THEN conjunct1] Cons.prems(5) [THEN conjunct2]
      by (intro conjI bulk_rows_do [OF d t i] bulk_sessions_do [OF True])
    from Cons.IH [OF rest w1(3,2) this f(2), of "touched @ [i]" skipped] show ?thesis
      using True by (auto simp: bnd_def [of "bulk_admin_one _ _ _ _ _"] run)
  qed
qed

lemma listAdmins_reads: "listAdmins actor w = (Inr rows, w') \<Longrightarrow> w' = w"
  by (auto simp: listAdmins_def assertOwner_def andthen_throw_if split: if_splits)

text \<open>
  C21: A bulk action does to every selected reseller exactly what a single edit does, and nothing to anyone else (functional).
  When \<open>bulkAdminAction\<close> returns: for each selected reseller the single \<open>updateAdmin\<close> with the same patch, run on the state before, also
  returns, and the reseller's row and his sessions are those that edit leaves; in particular a bulk deactivation revokes every session of
  every selected reseller. Accounts that are not selected and the owner keep their rows and their sessions, no selected reseller is
  skipped, and the counts add up to the selection.
\<close>
theorem bulk_admins_exact:
  assumes "bulkAdminAction actor inp w = (Inr r, w')" and "distinct (map adm_id (admins w))"
  shows "(\<forall>i t. i \<in> set (abi_ids inp) \<and> find_admin i w = Some t \<and> adm_role t \<noteq> OWNER \<longrightarrow>
      (\<exists>a v. updateAdmin actor i (bulk_patch inp (clock w) t) w = (Inr a, v) \<and> find_admin i v = Some a \<and> find_admin i w' = Some a \<and>
        filter (\<lambda>s. ads_adminId s = i) (admin_sessions w') = filter (\<lambda>s. ads_adminId s = i) (admin_sessions v))) \<and>
    admins w' = map (\<lambda>a. if adm_id a \<in> set (abi_ids inp) then bulk_effect inp (clock w) a else a) (admins w) \<and>
    admin_sessions w' = filter (\<lambda>s. \<not> (abi_action inp = AA_DEACTIVATE \<and> ads_adminId s \<in> set (abi_ids inp) \<and>
      bulk_target (admins w) (ads_adminId s))) (admin_sessions w) \<and>
    abr_total r = card (set (abi_ids inp)) \<and> abr_updated r + length (abr_skipped r) = abr_total r \<and>
    abr_updated r = card {i \<in> set (abi_ids inp). bulk_target (admins w) i}"
proof -
  let ?ids = "uniq (abi_ids inp)" and ?found = "filter (\<lambda>a. adm_id a \<in> set (uniq (abi_ids inp))) (admins w)"
  have own: "adm_role actor = OWNER" using assms(1) by (auto simp: bulkAdminAction_def assertOwner_def andthen_throw_if split: if_splits)
  obtain skipped w1 where loop: "fold_op (bulk_admin_one actor inp ?found) ?ids ([], []) w = (Inr (filter (bulk_target (admins w)) ?ids, skipped), w1)"
    and l: "length skipped = length (filter (\<lambda>i. \<not> bulk_target (admins w) i) ?ids)"
    and rows: "admins w1 = bulk_rows inp (clock w) (set ?ids) (admins w)"
    and ses: "admin_sessions w1 = bulk_sessions inp (admins w) (set ?ids) (admin_sessions w)"
    using bulk_loop [OF own assms(2), of ?ids ?found "{}" w "clock w" "svcs w" inp "admin_sessions w" "[]" "[]"]
    by (auto simp: find_row_filter bulk_rows_def bulk_sessions_start)
  obtain us where list: "listAdmins actor w1 = (Inr us, w1)" using own by (auto simp: listAdmins_def assertOwner_def)
  have res: "abr_total r = length ?ids \<and> abr_updated r = length (filter (bulk_target (admins w)) ?ids) \<and> abr_skipped r = skipped \<and> events_only w1 w'"
    using assms(1) own loop list
    by (auto simp: bulkAdminAction_def assertOwner_def andthen_throw_if Let_def bnd_def [of "fold_op _ _ _"] bnd_def [of "listAdmins _"] andthen_quiet quiet_audit
        split: if_splits intro!: quiet_snd quiet_audit)
  then have e: "events_only w1 w'" by simp
  have adm: "admins w' = map (\<lambda>a. if adm_id a \<in> set (abi_ids inp) then bulk_effect inp (clock w) a else a) (admins w)"
    using rows by (simp add: bulk_rows_def eo_admins [OF e])
  have ss: "admin_sessions w' = filter (\<lambda>s. \<not> (abi_action inp = AA_DEACTIVATE \<and> ads_adminId s \<in> set (abi_ids inp) \<and>
      bulk_target (admins w) (ads_adminId s))) (admin_sessions w)"
    using ses by (simp add: events_only_frame [OF e] bulk_sessions_def)
  have single: "\<exists>a v. updateAdmin actor i (bulk_patch inp (clock w) t) w = (Inr a, v) \<and> find_admin i v = Some a \<and> find_admin i w' = Some a \<and>
      filter (\<lambda>s. ads_adminId s = i) (admin_sessions w') = filter (\<lambda>s. ads_adminId s = i) (admin_sessions v)"
    if t: "i \<in> set (abi_ids inp)" "find_admin i w = Some t" "adm_role t \<noteq> OWNER" for i t
  proof -
    let ?a = "patched_admin (svcs w) (bulk_patch inp (clock w) t) t"
    have "bulk_target (admins w) i" using t(2,3) by (simp add: bulk_target_def find_admin_def)
    moreover obtain v where v: "updateAdmin actor i (bulk_patch inp (clock w) t) w = (Inr ?a, v)"
      "admins v = upd_rows (\<lambda>r. adm_id r = i) (patched_admin (svcs w) (bulk_patch inp (clock w) t)) (admins w)"
      "admin_sessions v = (if abi_action inp = AA_DEACTIVATE then del_rows (\<lambda>s. ads_adminId s = i) (admin_sessions w) else admin_sessions w)"
      using updateAdmin_run [OF own t(2), of "bulk_patch inp (clock w) t"] by (auto simp: bulk_patch_deactivates)
    moreover have "find_admin i v = Some ?a"
      using t(2) find_row_key [of adm_id i "admins w" t] unfolding find_admin_def v(2) by (subst find_row_upd) simp_all
    moreover have "find_admin i w' = Some ?a"
      using t find_row_key [of adm_id i "admins w" t] unfolding find_admin_def adm bulk_effect_patch [OF t(3)]
      by (subst find_row_map) auto
    ultimately show ?thesis using t(1) by (auto simp: ss del_rows_def filter_empty_conv intro!: filter_cong)
  qed
  have "length ?ids = card (set (abi_ids inp))" using distinct_card [OF distinct_uniq, of "abi_ids inp"] by simp
  moreover have "length (filter (bulk_target (admins w)) ?ids) = card {i \<in> set (abi_ids inp). bulk_target (admins w) i}"
    using distinct_card [of "filter (bulk_target (admins w)) ?ids"] by (simp add: Collect_conj_eq)
  ultimately have counts: "abr_total r = card (set (abi_ids inp)) \<and> abr_updated r + length (abr_skipped r) = abr_total r \<and>
    abr_updated r = card {i \<in> set (abi_ids inp). bulk_target (admins w) i}"
    using l res sum_length_filter_compl [of "bulk_target (admins w)" ?ids] by auto
  show ?thesis by (intro conjI allI impI single adm ss counts [THEN conjunct1] counts [THEN conjunct2, THEN conjunct1]
      counts [THEN conjunct2, THEN conjunct2]) auto
qed

definition demo_bulk :: admin_bulk_input where
  "demo_bulk = \<lparr>abi_ids = [3, 2, 9, 3], abi_action = AA_EXTEND, abi_days = Some 30, abi_quotaGB = None, abi_clientLimit = None\<rparr>"

theorem bulk_admins_exact_witness:
  "\<exists>r w'. bulkAdminAction (demo_admin 2 OWNER 0) demo_bulk demo_world = (Inr r, w') \<and> abr_total r = 3 \<and> abr_updated r = 1 \<and>
     map adm_expiresAt (admins w') = [None, Some (1000 + 30 * DAY_MS)]"
proof -
  have "isl (fst (bulkAdminAction (demo_admin 2 OWNER 0) demo_bulk demo_world)) = False" by code_simp
  then obtain r w' where r: "bulkAdminAction (demo_admin 2 OWNER 0) demo_bulk demo_world = (Inr r, w')"
    by (cases "bulkAdminAction (demo_admin 2 OWNER 0) demo_bulk demo_world"; cases "fst (bulkAdminAction (demo_admin 2 OWNER 0) demo_bulk demo_world)") auto
  have d: "distinct (map adm_id (admins demo_world))" by code_simp
  have a: "admins demo_world = [demo_admin 2 OWNER 0, demo_admin 3 ADMIN 500]" "clock demo_world = 1000" by (simp_all add: demo_world_def)
  have ids: "set (abi_ids demo_bulk) = {2, 3, 9}" by (auto simp: demo_bulk_def)
  have "{i \<in> set (abi_ids demo_bulk). bulk_target (admins demo_world) i} = {3}"
    by (auto simp: ids a bulk_target_def)
  moreover have "adm_expiresAt (bulk_effect demo_bulk 1000 (demo_admin 3 ADMIN 500)) = Some (1000 + 30 * DAY_MS)"
    and "adm_expiresAt (bulk_effect demo_bulk 1000 (demo_admin 2 OWNER 0)) = None" by code_simp+
  ultimately show ?thesis using bulk_admins_exact [OF r d] r by (simp add: a ids)
qed

section \<open>Signing in\<close>

lemma ensured_owner: "owner_ensured w \<Longrightarrow> ensureOwner w = (Inr (), w)"
  by (simp add: ensureOwner_def)

lemma andthen_ensured: "owner_ensured w \<Longrightarrow> andthen ensureOwner k w = k w"
  by (simp add: andthen_def bnd_def ensured_owner)

definition session_row :: "world \<Rightarrow> admin \<Rightarrow> string option \<Rightarrow> uid \<Rightarrow> admin_session" where
  "session_row w a ip k = \<lparr>ads_id = k, ads_adminId = adm_id a, ads_tokenHash = ext_sha256 (svcs w) (ext_random_token (svcs w) (next_id w) 32),
     ads_ip = ip, ads_expiresAt = daysFromNow (clock w) (of_int SESSION_DAYS), ads_createdAt = clock w\<rparr>"

lemma open_session_run:
  assumes "find_admin (adm_id a) w = Some b"
  shows "\<exists>w2 k. open_session a u ip w = (Inr (LoginOk (ext_random_token (svcs w) (next_id w) 32) a), w2) \<and>
    admins w2 = upd_rows (\<lambda>r. adm_id r = adm_id a) (\<lambda>r. r\<lparr>adm_lastLoginAt := Some (clock w), adm_lastLoginIp := ip\<rparr>) (admins w) \<and>
    admin_sessions w2 = admin_sessions w @ [session_row w a ip k] \<and> svcs w2 = svcs w \<and> clock w2 = clock w \<and>
    mail_cfg w2 = mail_cfg w \<and> login_codes w2 = login_codes w"
proof -
  let ?k = "Suc (next_id w)"
  let ?w1 = "w\<lparr>next_id := Suc ?k, admin_sessions := admin_sessions w @ [session_row w a ip ?k],
    admins := upd_rows (\<lambda>r. adm_id r = adm_id a) (\<lambda>r. r\<lparr>adm_lastLoginAt := Some (clock w), adm_lastLoginIp := ip\<rparr>) (admins w)\<rparr>"
  obtain w2 where a: "audit (Some (adm_id a)) ''auth.login'' (JStr u) [] ip ?w1 = (Inr (), w2)" and e: "events_only ?w1 w2"
    using audit_events by blast
  have "open_session a u ip w = (Inr (LoginOk (ext_random_token (svcs w) (next_id w) 32) a), w2)"
    using assms a by (simp add: open_session_def randomToken_def new_id_def now_def bnd_def andthen_def update_admin_def find_admin_def session_row_def)
  then show ?thesis
    by (intro exI [of _ w2] exI [of _ ?k]) (simp add: events_only_frame [OF e] eo_sign_in [OF e])
qed

text \<open>The two ways a sign-in ends.\<close>
lemma login_cases:
  assumes "loginWithPassword p w = (Inr res, w')" and "owner_ensured w"
  obtains (refused) r where "res = LoginRefused r" and "events_only w w'"
  | (okay) token a where "res = LoginOk token a" and "admin_by_name (to_lower (str_trim (lq_username p))) w = Some a"
      and "ext_verify_password (svcs w) (lq_password p) (adm_passwordHash a)" and "second_check (svcs w) (clock w) a p = None"
      and "open_session a (to_lower (str_trim (lq_username p))) (lq_ip p) w = (Inr (LoginOk token a), w')"
proof -
  let ?u = "to_lower (str_trim (lq_username p))"
  have run: "loginWithPassword p w = (case admin_by_name ?u w of
       None \<Rightarrow> andthen (audit None ''auth.login_failed'' (JStr ?u) [] (lq_ip p)) (ret (LoginRefused LR_invalid)) w
     | Some a \<Rightarrow> if \<not> ext_verify_password (svcs w) (lq_password p) (adm_passwordHash a) then
           andthen (audit None ''auth.login_failed'' (JStr ?u) [] (lq_ip p)) (ret (LoginRefused LR_invalid)) w
         else (case second_check (svcs w) (clock w) a p of Some r \<Rightarrow> ret (LoginRefused r) w | None \<Rightarrow> open_session a ?u (lq_ip p) w))"
    unfolding loginWithPassword_def andthen_ensured [OF assms(2)] Let_def bnd_gets prod.case by (cases "admin_by_name ?u w") (simp_all split: option.split)
  have fail: "events_only w w'" "res = LoginRefused LR_invalid"
    if "andthen (audit None ''auth.login_failed'' (JStr ?u) [] (lq_ip p)) (ret (LoginRefused LR_invalid)) w = (Inr res, w')"
    using that by (auto simp: andthen_inr ret_inr dest: audit_ran)
  show thesis
  proof (cases "admin_by_name ?u w")
    case None
    then show thesis using assms(1) fail refused unfolding run by auto
  next
    case (Some a)
    show thesis
    proof (cases "ext_verify_password (svcs w) (lq_password p) (adm_passwordHash a)")
      case False
      then show thesis using assms(1) Some fail refused unfolding run by auto
    next
      case True
      show thesis
      proof (cases "second_check (svcs w) (clock w) a p")
        case None
        then have o: "open_session a ?u (lq_ip p) w = (Inr res, w')" using assms(1) Some True unfolding run by simp
        have "find_admin (adm_id a) w \<noteq> None"
          using find_row_in [of adm_username ?u "admins w" a] Some by (auto simp: admin_by_name_def find_admin_def find_row_None)
        then obtain token where "res = LoginOk token a" using o open_session_run [of a w _ ?u "lq_ip p"] by auto
        then show thesis using okay Some True None o by blast
      next
        case (Some r)
        then show thesis using assms(1) \<open>admin_by_name ?u w = Some a\<close> True refused unfolding run by auto
      qed
    qed
  qed
qed

text \<open>
  C12: deactivating a reseller puts the account out at once: no session token of any browser belongs to it any more, and no
  sign-in, with whatever password and second factor, opens a session for it.
\<close>
theorem deactivated_locked_out:
  assumes "updateAdmin actor i inp w = (Inr a, w')" and "ai_isActive inp = Some False" and "find_admin i w = Some t" and "adm_role t \<noteq> OWNER"
    and "distinct (map adm_id (admins w))" and "owner_ensured w"
  shows "(\<forall>token b. getSessionAdmin token w' = Some b \<longrightarrow> adm_id b \<noteq> i) \<and>
    (\<forall>p token b w''. loginWithPassword p w' = (Inr (LoginOk token b), w'') \<longrightarrow> adm_id b \<noteq> i)"
proof -
  have d: "admins w' = upd_rows (\<lambda>r. adm_id r = i) (patched_admin (svcs w) inp) (admins w)" "owner_ensured w'"
    using updateAdmin_done [OF assms(1)] assms(6) by auto
  have off: "\<not> adm_isActive b" if b: "b \<in> set (admins w')" "adm_id b = i" for b
  proof -
    obtain r where r0: "r \<in> set (admins w)" "b = (if adm_id r = i then patched_admin (svcs w) inp r else r)"
      using b(1) unfolding d(1) set_upd_rows by blast
    then have r: "r \<in> set (admins w)" "adm_id r = i" "b = patched_admin (svcs w) inp r" using b(2) by (auto split: if_splits)
    have "find_row adm_id (adm_id r) (admins w) = Some r" by (rule find_row_distinct [OF assms(5) r(1)])
    then have "b = patched_admin (svcs w) inp t" using assms(3) r(2,3) by (simp add: find_admin_def)
    then show ?thesis using assms(2,4) by (simp add: patched_admin_def Let_def)
  qed
  have "adm_id b \<noteq> i" if "getSessionAdmin token w' = Some b" for token b
    using that off find_row_in [of adm_id _ "admins w'" b] by (auto simp: getSessionAdmin_def find_admin_def split: if_splits option.splits)
  moreover have "adm_id b \<noteq> i" if "loginWithPassword p w' = (Inr (LoginOk token b), w'')" for p token b w''
    using that d(2)
  proof (cases rule: login_cases)
    case (okay token' c)
    then have "adm_isActive b" "b \<in> set (admins w')"
      using find_row_in by (auto simp: second_check_def admin_by_name_def split: if_splits)
    then show ?thesis using off by blast
  qed simp
  ultimately show ?thesis by blast
qed

theorem deactivated_locked_out_witness:
  "\<exists>a w'. updateAdmin (demo_admin 2 OWNER 0) 3 (no_change\<lparr>ai_isActive := Some False\<rparr>) demo_world = (Inr a, w') \<and>
     (\<forall>p token b w''. loginWithPassword p w' = (Inr (LoginOk token b), w'') \<longrightarrow> adm_id b \<noteq> 3)"
proof -
  have f: "find_admin 3 demo_world = Some (demo_admin 3 ADMIN 500)" by code_simp
  obtain a w' where u: "updateAdmin (demo_admin 2 OWNER 0) 3 (no_change\<lparr>ai_isActive := Some False\<rparr>) demo_world = (Inr a, w')"
    using updateAdmin_run [OF _ f, of "demo_admin 2 OWNER 0" "no_change\<lparr>ai_isActive := Some False\<rparr>"] by (auto simp: no_change_def)
  have "ai_isActive (no_change\<lparr>ai_isActive := Some False\<rparr>) = Some False" "adm_role (demo_admin 3 ADMIN 500) \<noteq> OWNER" by simp_all
  moreover have "distinct (map adm_id (admins demo_world))" "owner_ensured demo_world" by code_simp+
  ultimately show ?thesis using deactivated_locked_out [OF u _ f] u by blast
qed

section \<open>What the sign-in route answers\<close>

lemma quiet_noteLoginLocked: "quiet (noteLoginLocked u ip g)"
  unfolding noteLoginLocked_def by (auto simp: Let_def intro!: quiet_intros)

lemma consume_frame: "admin_sessions (snd (consumeLoginCode u c w)) = admin_sessions w" "admins (snd (consumeLoginCode u c w)) = admins w"
    "svcs (snd (consumeLoginCode u c w)) = svcs w" "clock (snd (consumeLoginCode u c w)) = clock w"
  by (auto simp: consumeLoginCode_def drop_code_def Let_def split: option.split)

text \<open>The emailed code that is good for a sign-in now.\<close>
definition code_good :: "string \<Rightarrow> string \<Rightarrow> world \<Rightarrow> bool" where
  "code_good u c w \<longleftrightarrow> (\<exists>row. map_of (login_codes w) (normUser u) = Some row \<and> lc_hash row = ext_sha256 (svcs w) (str_trim c) \<and>
     clock w \<le> lc_exp row \<and> lc_tries row < 5)"

lemma consume_good: "consumeLoginCode u c w = (Inr True, w') \<Longrightarrow> code_good u c w"
  by (auto simp: consumeLoginCode_def code_good_def Let_def andthen_inr ret_inr split: option.splits if_splits)

lemma consume_returns: "\<exists>x. fst (consumeLoginCode u c w) = Inr x"
  by (auto simp: consumeLoginCode_def Let_def split: option.split)

definition signed_in :: "login_body \<Rightarrow> string option \<Rightarrow> world \<Rightarrow> admin \<Rightarrow> bool" where
  "signed_in b ip w a \<longleftrightarrow> \<not> gd_locked (loginGuardState (lb_username b) ip w) \<and>
     admin_by_name (to_lower (str_trim (lb_username b))) w = Some a \<and> ext_verify_password (svcs w) (lb_password b) (adm_passwordHash a) \<and>
     adm_isActive a \<and> (\<forall>t. adm_expiresAt a = Some t \<longrightarrow> clock w \<le> t) \<and>
     (adm_totpEnabled a \<and> truthy (adm_totpSecret a) \<longrightarrow>
        verifyTotp (svcs w) (clock w) (opt_default (adm_totpSecret a) []) (opt_default (lb_totp b) [])) \<and>
     (loginCodeRequired w \<longrightarrow> code_good (lb_username b) (opt_default (lb_emailCode b) []) w)"

lemma session_opens:
  assumes "admin_sessions w' = admin_sessions w @ [session_row w a ip k]" and "svcs w' = svcs w" and "clock w' = clock w"
    and "admins w' = upd_rows (\<lambda>r. adm_id r = adm_id a) (\<lambda>r. r\<lparr>adm_lastLoginAt := Some (clock w), adm_lastLoginIp := ip\<rparr>) (admins w)"
    and "find_admin (adm_id a) w = Some a" and "adm_isActive a"
    and "ext_random_token (svcs w) (next_id w) 32 \<noteq> []"
    and "ext_sha256 (svcs w) (ext_random_token (svcs w) (next_id w) 32) \<notin> ads_tokenHash ` set (admin_sessions w)"
  shows "\<exists>c. getSessionAdmin (ext_random_token (svcs w) (next_id w) 32) w' = Some c \<and> adm_id c = adm_id a"
proof -
  have row: "find_row ads_tokenHash (ext_sha256 (svcs w) (ext_random_token (svcs w) (next_id w) 32)) (admin_sessions w') = Some (session_row w a ip k)"
    using assms(8) by (simp add: assms(1) find_row_append find_row_None [THEN iffD2]) (simp add: session_row_def)
  have adm: "find_admin (adm_id a) w' = Some (a\<lparr>adm_lastLoginAt := Some (clock w), adm_lastLoginIp := ip\<rparr>)"
    using assms(5) unfolding find_admin_def assms(4) by (subst find_row_upd) simp_all
  have "clock w \<le> daysFromNow (clock w) (of_int SESSION_DAYS)" by (simp add: daysFromNow_def SESSION_DAYS_def DAY_MS_def)
  then show ?thesis
    using row adm assms(2,3,6,7) by (simp add: getSessionAdmin_def session_row_def)
qed

lemma drop_new_session:
  "h \<notin> ads_tokenHash ` set rows \<Longrightarrow> ads_tokenHash r = h \<Longrightarrow> del_rows (\<lambda>s. ads_tokenHash s = h) (rows @ [r]) = rows"
  by (simp add: del_rows_def filter_id_conv) (metis imageI)

lemma login_post_run:
  assumes "owner_ensured w"
  shows "login_post b ip w =
    (if \<not> login_body_ok b then (Inl (PlainError ''invalid body''), w)
     else if gd_locked (loginGuardState (lb_username b) ip w)
       then (Inr (LA_locked (gd_retryAfterSec (loginGuardState (lb_username b) ip w))), snd (noteLoginLocked (lb_username b) ip (loginGuardState (lb_username b) ip w) w))
     else bnd (loginWithPassword \<lparr>lq_username = lb_username b, lq_password = lb_password b, lq_totp = lb_totp b, lq_ip = ip\<rparr>) (after_password b) w)"
proof -
  have "swallow ensureOwner w = (Inr (), w)" by (simp add: swallow_def catch_op_def andthen_ensured [OF assms] ret_def)
  then have s: "andthen (swallow ensureOwner) k w = k w" for k :: "(world, login_answer) op" by (simp add: andthen_def bnd_def)
  show ?thesis
    unfolding login_post_def andthen_throw_if
    by (simp add: s bnd_gets andthen_quiet [OF quiet_noteLoginLocked])
qed

text \<open>
  C10: the sign-in route lets in only who has proven to be the account. Its good answer means that the guard was open,
  the password, the second factor and the emailed code (where they are on) were right, the account is active and has not
  expired, and that the token in the answer now names this account. Every other answer leaves the open sessions as they
  were: a session opened before the emailed code was refused is gone.
\<close>
theorem sign_in_sound:
  assumes "login_post b ip w = (Inr ans, w')" and "owner_ensured w" and "distinct (map adm_id (admins w))"
    and "ext_random_token (svcs w) (next_id w) 32 \<noteq> []"
    and "ext_sha256 (svcs w) (ext_random_token (svcs w) (next_id w) 32) \<notin> ads_tokenHash ` set (admin_sessions w)"
  shows "case ans of
      LA_ok token a \<Rightarrow> signed_in b ip w a \<and> (\<exists>c. getSessionAdmin token w' = Some c \<and> adm_id c = adm_id a)
    | _ \<Rightarrow> admin_sessions w' = admin_sessions w"
proof (cases "gd_locked (loginGuardState (lb_username b) ip w)")
  case True
  then show ?thesis
    using assms(1) quiet_snd [OF quiet_noteLoginLocked] unfolding login_post_run [OF assms(2)] by (auto simp: events_only_frame split: if_splits)
next
  case False
  let ?p = "\<lparr>lq_username = lb_username b, lq_password = lb_password b, lq_totp = lb_totp b, lq_ip = ip\<rparr>"
  obtain res w1 where l: "loginWithPassword ?p w = (Inr res, w1)" and r: "after_password b res w1 = (Inr ans, w')"
    using assms(1) False unfolding login_post_run [OF assms(2)] by (auto simp: bnd_inr split: if_splits)
  show ?thesis
    using l assms(2)
  proof (cases rule: login_cases)
    case (refused x)
    then show ?thesis using r by (auto simp: after_password_def ret_inr events_only_frame)
  next
    case (okay token a)
    have "a \<in> set (admins w)" using okay(2) by (auto simp: admin_by_name_def dest: find_row_in)
    then have a: "find_admin (adm_id a) w = Some a" by (simp add: find_admin_def find_row_distinct [OF assms(3)])
    obtain k where tok: "token = ext_random_token (svcs w) (next_id w) 32"
      and w1: "admins w1 = upd_rows (\<lambda>r. adm_id r = adm_id a) (\<lambda>r. r\<lparr>adm_lastLoginAt := Some (clock w), adm_lastLoginIp := ip\<rparr>) (admins w)"
        "admin_sessions w1 = admin_sessions w @ [session_row w a ip k]" "svcs w1 = svcs w" "clock w1 = clock w"
        "mail_cfg w1 = mail_cfg w" "login_codes w1 = login_codes w"
      using open_session_run [OF a, of "to_lower (str_trim (lb_username b))" ip] okay(5) by auto
    have active: "adm_isActive a" and proven: "loginCodeRequired w \<longrightarrow> code_good (lb_username b) (opt_default (lb_emailCode b) []) w \<Longrightarrow> signed_in b ip w a"
      using False okay(2-4) by (auto simp: second_check_def signed_in_def split: if_splits option.splits)
    have same: "loginCodeRequired w1 = loginCodeRequired w" "code_good u c w1 = code_good u c w" for u c
      by (simp_all add: loginCodeRequired_def code_good_def w1)
    have gone: "admin_sessions (snd (revokeSession token v)) = admin_sessions w" if "admin_sessions v = admin_sessions w1" "svcs v = svcs w" for v
      using drop_new_session [OF assms(5), of "session_row w a ip k"] that by (simp add: revokeSession_def tok w1 session_row_def)
    have opens: "\<exists>c. getSessionAdmin token v = Some c \<and> adm_id c = adm_id a"
      if "admin_sessions v = admin_sessions w1" "admins v = admins w1" "svcs v = svcs w" "clock v = clock w" for v
      unfolding tok by (rule session_opens [OF _ _ _ _ a active assms(4,5)]) (simp_all add: that w1)
    show ?thesis
    proof (cases "loginCodeRequired w")
      case False
      then show ?thesis using r okay(1) proven opens [of w1] w1 by (auto simp: after_password_def same ret_inr)
    next
      case needed: True
      show ?thesis
      proof (cases "truthy (lb_emailCode b)")
        case False
        then show ?thesis using r okay(1) needed gone [of w1] w1(3) by (auto simp: after_password_def same andthen_inr ret_inr revokeSession_def)
      next
        case True
        let ?c = "consumeLoginCode (lb_username b) (opt_default (lb_emailCode b) [])"
        obtain x v where x: "?c w1 = (Inr x, v)" using consume_returns by (metis prod.collapse)
        have v: "admin_sessions v = admin_sessions w1" "admins v = admins w1" "svcs v = svcs w" "clock v = clock w"
          using consume_frame [of "lb_username b" "opt_default (lb_emailCode b) []" w1] by (simp_all add: x w1)
        show ?thesis
        proof (cases x)
          case True
          then have "code_good (lb_username b) (opt_default (lb_emailCode b) []) w1" using x by (auto intro: consume_good)
          then have "signed_in b ip w a" using proven same(2) by simp
          then show ?thesis using r okay(1) needed \<open>truthy (lb_emailCode b)\<close> x True opens [OF v] by (auto simp: after_password_def same bnd_def ret_def)
        next
          case False
          then show ?thesis using r okay(1) needed \<open>truthy (lb_emailCode b)\<close> x gone [OF v(1,3)]
            by (auto simp: after_password_def same bnd_def andthen_def ret_def revokeSession_def)
        qed
      qed
    qed
  qed
qed

definition demo_body :: login_body where
  "demo_body = \<lparr>lb_username = ''Demo'', lb_password = ''pw'', lb_totp = None, lb_emailCode = Some ''123456''\<rparr>"

definition demo_sign_in :: world where
  "demo_sign_in = demo_world\<lparr>login_codes := [(''demo'', \<lparr>lc_hash = ''123456'', lc_exp = 2000, lc_tries = 0\<rparr>)]\<rparr>"

theorem sign_in_sound_witness:
  "\<exists>token a w' c. login_post demo_body (Some ''1.2.3.4'') demo_sign_in = (Inr (LA_ok token a), w') \<and>
     code_good ''Demo'' ''123456'' demo_sign_in \<and> getSessionAdmin token w' = Some c \<and> adm_id c = adm_id a"
proof -
  have "case fst (login_post demo_body (Some ''1.2.3.4'') demo_sign_in) of Inr (LA_ok token a) \<Rightarrow> True | _ \<Rightarrow> False" by code_simp
  then obtain token a w' where r: "login_post demo_body (Some ''1.2.3.4'') demo_sign_in = (Inr (LA_ok token a), w')"
    by (cases "login_post demo_body (Some ''1.2.3.4'') demo_sign_in") (auto split: sum.splits login_answer.splits)
  have "owner_ensured demo_sign_in" "distinct (map adm_id (admins demo_sign_in))" "loginCodeRequired demo_sign_in" by code_simp+
  moreover have "ext_random_token (svcs demo_sign_in) (next_id demo_sign_in) 32 \<noteq> []" "admin_sessions demo_sign_in = []"
    by (simp_all add: demo_sign_in_def demo_world_def demo_services_def)
  ultimately have "signed_in demo_body (Some ''1.2.3.4'') demo_sign_in a \<and> (\<exists>c. getSessionAdmin token w' = Some c \<and> adm_id c = adm_id a)"
    using sign_in_sound [OF r] by simp
  then show ?thesis using r \<open>loginCodeRequired demo_sign_in\<close> by (auto simp: signed_in_def demo_body_def)
qed

section \<open>Wrong passwords lock an account\<close>

lemma emit_log: "audit_log (snd (emitEvent a e p w)) = audit_log w"
  by (auto simp: emitEvent_def bnd_def anyHooks_def queue_deliveries_def Let_def split: option.split)

lemma notify_log: "audit_log (snd (notify_void k key t r w)) = audit_log w"
  by (auto simp: notify_void_def notify_def andthen_def bnd_def Let_def split: prod.split)

lemma on_audit_log: "audit_log (snd (onAuditEvent a act t w)) = audit_log w"
  by (auto simp: onAuditEvent_def Let_def notify_log)

lemma audit_log_audit:
  "audit_log (snd (audit a act t m ip w)) =
    audit_log w @ [\<lparr>aud_at = clock w, aud_adminId = a, aud_action = act, aud_target = t, aud_meta = m, aud_ip = ip\<rparr>]"
proof -
  have q: "quiet (emitEvent a act [(''target'', t), (''meta'', JObj m), (''ip'', opt_json JStr ip)])" by (rule quiet_emitEvent)
  show ?thesis by (simp add: audit_def andthen_quiet [OF q] on_audit_log emit_log)
qed

definition fail_row :: "string \<Rightarrow> string option \<Rightarrow> time \<Rightarrow> audit_row" where
  "fail_row u ip t = \<lparr>aud_at = t, aud_adminId = None, aud_action = ''auth.login_failed'', aud_target = JStr u, aud_meta = [], aud_ip = ip\<rparr>"

lemma fail_row_at: "aud_at (fail_row u ip t) = t" and fail_row_target: "aud_target (fail_row u ip t) = JStr u" and fail_row_ip: "aud_ip (fail_row u ip t) = ip"
  by (simp_all add: fail_row_def)

definition wrong_password :: "login_request \<Rightarrow> world \<Rightarrow> bool" where
  "wrong_password p w \<longleftrightarrow> (\<forall>a. admin_by_name (to_lower (str_trim (lq_username p))) w = Some a \<longrightarrow>
     \<not> ext_verify_password (svcs w) (lq_password p) (adm_passwordHash a))"

lemma wrong_password_step:
  assumes "owner_ensured w" and "wrong_password p w"
  shows "events_only w (snd (loginWithPassword p w)) \<and>
    audit_log (snd (loginWithPassword p w)) = audit_log w @ [fail_row (to_lower (str_trim (lq_username p))) (lq_ip p) (clock w)]"
proof -
  let ?u = "to_lower (str_trim (lq_username p))"
  have "loginWithPassword p w = andthen (audit None ''auth.login_failed'' (JStr ?u) [] (lq_ip p)) (ret (LoginRefused LR_invalid)) w"
    using assms(2) unfolding loginWithPassword_def andthen_ensured [OF assms(1)] Let_def bnd_gets prod.case
    by (cases "admin_by_name ?u w") (simp_all add: wrong_password_def)
  then show ?thesis
    by (simp add: andthen_quiet [OF quiet_audit] audit_log_audit fail_row_def quiet_snd [OF quiet_audit])
qed

text \<open>Sign-in attempts of one request at the times of a list.\<close>
definition burst :: "login_request \<Rightarrow> time list \<Rightarrow> world \<Rightarrow> world" where
  "burst p ts w = fold (\<lambda>t w. snd (loginWithPassword p (w\<lparr>clock := t\<rparr>))) ts w"

lemma burst_run:
  assumes "owner_ensured w" and "wrong_password p w"
  shows "owner_ensured (burst p ts w) \<and> security_cfg (burst p ts w) = security_cfg w \<and>
    audit_log (burst p ts w) = audit_log w @ map (fail_row (to_lower (str_trim (lq_username p))) (lq_ip p)) ts"
  using assms
proof (induction ts arbitrary: w)
  case Nil
  then show ?case by (simp add: burst_def)
next
  case (Cons t ts)
  let ?w = "w\<lparr>clock := t\<rparr>" and ?w1 = "snd (loginWithPassword p (w\<lparr>clock := t\<rparr>))"
  have pre: "owner_ensured ?w" "wrong_password p ?w" using Cons.prems by (simp_all add: wrong_password_def admin_by_name_def)
  note step = wrong_password_step [OF pre]
  have e: "events_only ?w ?w1" using step by simp
  have "owner_ensured ?w1" "wrong_password p ?w1"
    using pre by (simp_all add: eo_sign_in [OF e] wrong_password_def admin_by_name_def events_only_frame [OF e])
  then show ?case
    using Cons.IH [of ?w1] step by (simp add: burst_def eo_sign_in [OF e] events_only_frame [OF e])
qed

lemma sort_key_split:
  fixes f :: "'a \<Rightarrow> int"
  assumes "\<And>a b. a \<in> set xs \<Longrightarrow> b \<in> set ys \<Longrightarrow> f b < f a"
  shows "sort_key f (xs @ ys) = sort_key f ys @ sort_key f xs"
proof (rule properties_for_sort_key)
  show "mset (sort_key f ys @ sort_key f xs) = mset (xs @ ys)" by simp
  show "sorted (map f (sort_key f ys @ sort_key f xs))"
    using assms by (auto simp: sorted_append intro: less_imp_le)
  fix k assume "k \<in> set (sort_key f ys @ sort_key f xs)"
  then have "filter (\<lambda>x. f k = f x) xs = [] \<or> filter (\<lambda>x. f k = f x) ys = []"
    using assms by (auto simp: filter_empty_conv) (metis less_irrefl)+
  moreover have "filter (\<lambda>x. f k = f x) (sort_key f zs) = filter (\<lambda>x. f k = f x) zs" for zs
    using sort_key_stable [of f "f k" zs] by (simp add: eq_commute)
  ultimately show "filter (\<lambda>x. f k = f x) (sort_key f ys @ sort_key f xs) = filter (\<lambda>x. f k = f x) (xs @ ys)" by auto
qed

lemma streak_burst:
  assumes "\<And>r. r \<in> set old \<Longrightarrow> aud_at r < t0" and "\<And>r. r \<in> set fails \<Longrightarrow> t0 \<le> aud_at r \<and> P r \<and> Q r \<and> aud_action r = ''auth.login_failed''"
    and "length fails \<le> 300" and "b \<in> set fails"
  shows "length fails \<le> fst (streak (filter Q (take 300 (sort_key (\<lambda>r. - aud_at r) (filter P (old @ fails)))))) \<and>
    snd (streak (filter Q (take 300 (sort_key (\<lambda>r. - aud_at r) (filter P (old @ fails)))))) = aud_at (hd (sort_key (\<lambda>r. - aud_at r) fails)) \<and>
    aud_at b \<le> aud_at (hd (sort_key (\<lambda>r. - aud_at r) fails))"
proof -
  let ?f = "\<lambda>r :: audit_row. - aud_at r"
  let ?s = "sort_key ?f fails" and ?rest = "filter Q (take (300 - length fails) (sort_key ?f (filter P old)))"
  have "filter P fails = fails" using assms(2) by (simp add: filter_id_conv)
  then have "sort_key ?f (filter P (old @ fails)) = ?s @ sort_key ?f (filter P old)"
    using sort_key_split [of "filter P old" fails ?f] assms(1,2) by force
  then have rows: "filter Q (take 300 (sort_key ?f (filter P (old @ fails)))) = ?s @ ?rest"
    using assms(2,3) by (simp add: filter_id_conv)
  obtain x xs where s: "?s = x # xs" using assms(4) by (cases ?s) (auto simp: set_empty [symmetric] simp del: set_empty)
  have "takeWhile (\<lambda>r. aud_action r = ''auth.login_failed'') (?s @ ?rest) = ?s @ takeWhile (\<lambda>r. aud_action r = ''auth.login_failed'') ?rest"
    using assms(2) by (intro takeWhile_append2) simp
  then have st: "streak (?s @ ?rest) = (length (?s @ takeWhile (\<lambda>r. aud_action r = ''auth.login_failed'') ?rest), aud_at x)"
    by (simp only: streak_def Let_def s append_Cons list.case)
  have "sorted (map ?f (x # xs))" using sorted_sort_key [of ?f fails] by (simp only: s)
  moreover have "b \<in> set (x # xs)" using assms(4) s by (metis set_sort)
  ultimately have "aud_at b \<le> aud_at x" by auto
  moreover have "length fails \<le> length (?s @ takeWhile (\<lambda>r. aud_action r = ''auth.login_failed'') ?rest)" by simp
  moreover have "hd ?s = x" by (simp only: s list.sel)
  ultimately show ?thesis unfolding rows st fst_conv snd_conv by simp
qed

lemma pair_ex: "n \<le> fst x \<and> snd x = m \<and> c \<Longrightarrow> \<exists>k. x = (k, m) \<and> n \<le> k \<and> c"
  by (cases x) auto

lemma guard_locks:
  assumes "sec_lockEnabled (security_cfg w)" and "guard_rows (security_cfg w) (normUser u) ip w = rows" and "rows \<noteq> []"
    and "streak (filter (\<lambda>r. aud_target r = JStr (normUser u)) rows) = (n, m)" and "streak (filter (\<lambda>r. aud_ip r = ip) rows) = (k, m)"
    and "sec_maxFailures (security_cfg w) \<le> int n" and "clock w < m + sec_lockMin (security_cfg w) * 60000"
  shows "gd_locked (loginGuardState u ip w) \<and> 0 < gd_retryAfterSec (loginGuardState u ip w)"
proof -
  have later: "0 < js_ceil (of_int (m + sec_lockMin (security_cfg w) * 60000 - clock w) / 1000)"
    using assms(7) by (simp add: js_ceil_def)
  show ?thesis
  proof (cases "sec_perIp (security_cfg w) \<and> truthy ip \<and> n < k")
    case True
    then have "sec_maxFailures (security_cfg w) \<le> int k" using assms(6) by linarith
    then show ?thesis using True later assms(1,3) by (simp add: loginGuardState_def Let_def assms(2,4,5))
  next
    case False
    then show ?thesis using later assms(1,3,6) by (auto simp: loginGuardState_def Let_def assms(2,4,5))
  qed
qed

text \<open>
  C11: wrong passwords lock an account. After as many failed attempts as the settings allow (any number from there to the 300 rows
  the guard reads), at whatever times inside the window, the sign-in route answers locked to every request for the account from
  the same address, the right password included, until \<open>lockMin\<close> minutes after the last attempt, and opens no session.
\<close>
theorem wrong_passwords_lock:
  assumes "owner_ensured w" and "wrong_password p w" and "sec_lockEnabled (security_cfg w)"
    and "length (to_lower (str_trim (lq_username p))) \<le> 64"
    and "\<And>r. r \<in> set (audit_log w) \<Longrightarrow> aud_at r < t0"
    and "\<And>t. t \<in> set ts \<Longrightarrow> t0 \<le> t \<and> tm - sec_windowMin (security_cfg w) * 60000 \<le> t"
    and "sec_maxFailures (security_cfg w) \<le> int (length ts)" and "length ts \<le> 300"
    and "t \<in> set ts" and "tm < t + sec_lockMin (security_cfg w) * 60000"
    and "login_body_ok b" and "lb_username b = lq_username p"
  shows "\<exists>s w'. login_post b (lq_ip p) ((burst p ts w)\<lparr>clock := tm\<rparr>) = (Inr (LA_locked s), w') \<and> 0 < s \<and> admin_sessions w' = admin_sessions (burst p ts w)"
proof -
  let ?u = "to_lower (str_trim (lq_username p))" and ?w = "(burst p ts w)\<lparr>clock := tm\<rparr>" and ?c = "security_cfg w"
  let ?fails = "map (fail_row ?u (lq_ip p)) ts"
  let ?P = "\<lambda>r. (aud_action r = ''auth.login_failed'' \<or> aud_action r = ''auth.login'') \<and> tm - sec_windowMin ?c * 60000 \<le> aud_at r \<and>
      (aud_target r = JStr ?u \<or> (sec_perIp ?c \<and> truthy (lq_ip p) \<and> aud_ip r = lq_ip p))"
  let ?rows = "take 300 (sort_key (\<lambda>r. - aud_at r) (filter ?P (audit_log w @ ?fails)))"
  let ?m = "aud_at (hd (sort_key (\<lambda>r. - aud_at r) ?fails))"
  have b: "owner_ensured (burst p ts w)" "security_cfg (burst p ts w) = ?c" "audit_log (burst p ts w) = audit_log w @ ?fails"
    using burst_run [OF assms(1,2)] by auto
  have st: "\<exists>n. streak (filter Q ?rows) = (n, ?m) \<and> length ts \<le> n \<and> t \<le> ?m" if "\<And>x. Q (fail_row ?u (lq_ip p) x)" for Q
  proof -
    have "length ?fails \<le> fst (streak (filter Q ?rows)) \<and> snd (streak (filter Q ?rows)) = ?m \<and> aud_at (fail_row ?u (lq_ip p) t) \<le> ?m"
      by (rule streak_burst [where ?t0.0 = t0]) (use assms(5,6,8,9) that in \<open>auto simp: fail_row_def\<close>)
    then show ?thesis unfolding fail_row_at length_map by (rule pair_ex)
  qed
  obtain n where user: "streak (filter (\<lambda>r. aud_target r = JStr ?u) ?rows) = (n, ?m)" "length ts \<le> n" "t \<le> ?m"
    using st [of "\<lambda>r. aud_target r = JStr ?u", OF fail_row_target] by blast
  obtain k where addr: "streak (filter (\<lambda>r. aud_ip r = lq_ip p) ?rows) = (k, ?m)"
    using st [of "\<lambda>r. aud_ip r = lq_ip p", OF fail_row_ip] by blast
  have norm: "normUser (lb_username b) = ?u" using assms(4,12) by (simp add: normUser_def)
  have some: "?rows \<noteq> []"
  proof
    assume "?rows = []"
    then have "streak [] = (n, ?m)" using user(1) by (simp only: filter.simps)
    then show False using user(2) assms(9) by (simp add: streak_def)
  qed
  have "gd_locked (loginGuardState (lb_username b) (lq_ip p) ?w) \<and> 0 < gd_retryAfterSec (loginGuardState (lb_username b) (lq_ip p) ?w)"
  proof (rule guard_locks [OF _ _ some])
    show "guard_rows (security_cfg ?w) (normUser (lb_username b)) (lq_ip p) ?w = ?rows" by (simp add: guard_rows_def b norm)
    show "streak (filter (\<lambda>r. aud_target r = JStr (normUser (lb_username b))) ?rows) = (n, ?m)" unfolding norm by (rule user(1))
    show "clock ?w < ?m + sec_lockMin (security_cfg ?w) * 60000" using user(3) assms(10) by (simp add: b)
    show "sec_maxFailures (security_cfg ?w) \<le> int n" using assms(7) user(2) by (simp add: b)
    show "streak (filter (\<lambda>r. aud_ip r = lq_ip p) ?rows) = (k, ?m)" by (rule addr)
    show "sec_lockEnabled (security_cfg ?w)" using assms(3) by (simp add: b)
  qed
  then show ?thesis
    using assms(11) eo_sign_in quiet_snd [OF quiet_noteLoginLocked [of "lb_username b" "lq_ip p" "loginGuardState (lb_username b) (lq_ip p) ?w"], of ?w]
    by (subst login_post_run) (auto simp: b events_only_frame)
qed

theorem wrong_passwords_lock_witness:
  "\<exists>s w'. login_post demo_body None ((burst \<lparr>lq_username = ''Demo'', lq_password = ''no'', lq_totp = None, lq_ip = None\<rparr> [1000, 2000, 3000, 3000, 4000, 5000, 6000, 7000] demo_world)\<lparr>clock := 60000\<rparr>)
     = (Inr (LA_locked s), w') \<and> 0 < s"
proof -
  let ?p = "\<lparr>lq_username = ''Demo'', lq_password = ''no'', lq_totp = None, lq_ip = None\<rparr>"
  have u: "to_lower (str_trim (lq_username ?p)) = ''demo''" "str_trim ''Demo'' = ''Demo''" by code_simp+
  have own: "owner_ensured demo_world" "sec_lockEnabled (security_cfg demo_world)" "login_body_ok demo_body" by code_simp+
  have wrong: "wrong_password ?p demo_world"
    unfolding wrong_password_def u(1) by (simp add: admin_by_name_def demo_world_def demo_services_def demo_admin_def)
  have cfg: "security_cfg demo_world = demo_security" "audit_log demo_world = []" by (simp_all add: demo_world_def)
  have "\<exists>s w'. login_post demo_body (lq_ip ?p) ((burst ?p [1000, 2000, 3000, 3000, 4000, 5000, 6000, 7000] demo_world)\<lparr>clock := 60000\<rparr>) = (Inr (LA_locked s), w') \<and> 0 < s \<and>
      admin_sessions w' = admin_sessions (burst ?p [1000, 2000, 3000, 3000, 4000, 5000, 6000, 7000] demo_world)"
    by (rule wrong_passwords_lock [where ?t0.0 = 1000 and t = 7000, OF own(1) wrong own(2) _ _ _ _ _ _ _ own(3)])
       (auto simp: u cfg demo_security_def demo_body_def)
  then show ?thesis by auto
qed

end
