(* ===== verification/ShopCatalog.thy ===== *)
theory ShopCatalog
  imports Customers Text Grouped "HOL-Library.Product_Lexorder"
begin

text \<open>
  \<open>storeCatalog.ts\<close>: the catalogue of a shop (categories, and per plan a ribbon, stock, a limit per account, hidden
  plans), the view the storefront gets, and the guard an order passes first. A catalogue is the setting
  \<open>store:catalog:<adminId>\<close>; a JSON object is an association list with distinct keys. The order in which the
  platform's \<open>localeCompare\<close> puts names is a parameter, as a rank.
\<close>

datatype cat_icon = IC_SHIELD | IC_BOLT | IC_GLOBE | IC_HEADSET | IC_INFINITY | IC_LOCK | IC_DEVICE | IC_STAR | IC_CLOCK | IC_WALLET

record store_category =
  cg_id :: string
  cg_name :: string
  cg_description :: string
  cg_icon :: cat_icon
  cg_sortOrder :: int
  cg_isActive :: bool

record plan_options =
  plo_categoryId :: string
  plo_ribbon :: string
  plo_highlight :: bool
  plo_hidden :: bool
  plo_features :: "string list"
  plo_note :: string
  plo_stock :: int
  plo_perCustomer :: int

record store_catalog =
  cat_enabled :: bool
  cat_showCounts :: bool
  cat_categories :: "store_category list"
  cat_items :: "(uid \<times> plan_options) list"

text \<open>What a request may send: fields left out take their default.\<close>
record raw_category =
  rc_id :: string
  rc_name :: string
  rc_description :: "string option"
  rc_icon :: "cat_icon option"
  rc_sortOrder :: "int option"
  rc_isActive :: "bool option"

record raw_options =
  ro_categoryId :: "string option"
  ro_ribbon :: "string option"
  ro_highlight :: "bool option"
  ro_hidden :: "bool option"
  ro_features :: "string list option"
  ro_note :: "string option"
  ro_stock :: "int option"
  ro_perCustomer :: "int option"

record catalog_patch =
  cap_enabled :: "bool option"
  cap_showCounts :: "bool option"
  cap_categories :: "raw_category list option"
  cap_items :: "(uid \<times> raw_options) list option"

record cat_state =
  ca_world :: world
  ca_books :: "(uid \<times> store_catalog) list"
  ca_rank :: "string \<Rightarrow> rat"

definition in_shop_world :: "(world, 'a) op \<Rightarrow> (cat_state, 'a) op" where
  "in_shop_world m s = (case m (ca_world s) of (r, w') \<Rightarrow> (r, s\<lparr>ca_world := w'\<rparr>))"

section \<open>The schema\<close>

definition sized :: "nat \<Rightarrow> nat \<Rightarrow> string \<Rightarrow> string option" where
  "sized lo hi s = (let t = str_trim s in if lo \<le> length t \<and> length t \<le> hi then Some t else None)"

definition in_range :: "int \<Rightarrow> int \<Rightarrow> int option" where
  "in_range hi x = (if 0 \<le> x \<and> x \<le> hi then Some x else None)"

definition parse_category :: "raw_category \<Rightarrow> store_category option" where
  "parse_category c =
    Option.bind (sized 1 40 (rc_id c)) (\<lambda>i. Option.bind (sized 1 40 (rc_name c)) (\<lambda>n.
    Option.bind (sized 0 160 (opt_default (rc_description c) [])) (\<lambda>d. Option.bind (in_range 999 (opt_default (rc_sortOrder c) 0)) (\<lambda>so.
    Some \<lparr>cg_id = i, cg_name = n, cg_description = d, cg_icon = opt_default (rc_icon c) IC_STAR, cg_sortOrder = so,
      cg_isActive = opt_default (rc_isActive c) True\<rparr>))))"

definition parse_features :: "string list \<Rightarrow> string list option" where
  "parse_features fs = (if length fs \<le> 8 then those (map (sized 0 80) fs) else None)"

definition parse_options :: "raw_options \<Rightarrow> plan_options option" where
  "parse_options r =
    Option.bind (sized 0 40 (opt_default (ro_categoryId r) [])) (\<lambda>c. Option.bind (sized 0 24 (opt_default (ro_ribbon r) [])) (\<lambda>rb.
    Option.bind (parse_features (opt_default (ro_features r) [])) (\<lambda>fs. Option.bind (sized 0 200 (opt_default (ro_note r) [])) (\<lambda>n.
    Option.bind (in_range 1000000 (opt_default (ro_stock r) 0)) (\<lambda>st. Option.bind (in_range 1000 (opt_default (ro_perCustomer r) 0)) (\<lambda>pc.
    Some \<lparr>plo_categoryId = c, plo_ribbon = rb, plo_highlight = opt_default (ro_highlight r) False, plo_hidden = opt_default (ro_hidden r) False,
      plo_features = fs, plo_note = n, plo_stock = st, plo_perCustomer = pc\<rparr>))))))"

definition parse_catalog :: "bool \<Rightarrow> bool \<Rightarrow> raw_category list \<Rightarrow> (uid \<times> raw_options) list \<Rightarrow> store_catalog option" where
  "parse_catalog en counts cats items =
    (if length cats \<le> 24 then
       Option.bind (those (map parse_category cats)) (\<lambda>cs.
       Option.bind (those (map (\<lambda>(p, r). map_option (Pair p) (parse_options r)) items)) (\<lambda>its.
       Some \<lparr>cat_enabled = en, cat_showCounts = counts, cat_categories = cs, cat_items = its\<rparr>))
     else None)"

text \<open>A stored value, given to the schema again.\<close>
definition raw_category_of :: "store_category \<Rightarrow> raw_category" where
  "raw_category_of c = \<lparr>rc_id = cg_id c, rc_name = cg_name c, rc_description = Some (cg_description c), rc_icon = Some (cg_icon c),
     rc_sortOrder = Some (cg_sortOrder c), rc_isActive = Some (cg_isActive c)\<rparr>"

definition raw_options_of :: "plan_options \<Rightarrow> raw_options" where
  "raw_options_of p = \<lparr>ro_categoryId = Some (plo_categoryId p), ro_ribbon = Some (plo_ribbon p), ro_highlight = Some (plo_highlight p),
     ro_hidden = Some (plo_hidden p), ro_features = Some (plo_features p), ro_note = Some (plo_note p), ro_stock = Some (plo_stock p),
     ro_perCustomer = Some (plo_perCustomer p)\<rparr>"

definition DEFAULT_PLAN_OPTIONS :: plan_options where
  "DEFAULT_PLAN_OPTIONS = \<lparr>plo_categoryId = [], plo_ribbon = [], plo_highlight = False, plo_hidden = False, plo_features = [],
     plo_note = [], plo_stock = 0, plo_perCustomer = 0\<rparr>"

definition isDefaultOptions :: "plan_options \<Rightarrow> bool" where
  "isDefaultOptions p \<longleftrightarrow> plo_categoryId p = [] \<and> plo_ribbon p = [] \<and> \<not> plo_highlight p \<and> \<not> plo_hidden p \<and> length (plo_features p) = 0 \<and>
     plo_note p = [] \<and> plo_stock p = 0 \<and> plo_perCustomer p = 0"

definition empty_catalog :: store_catalog where
  "empty_catalog = \<lparr>cat_enabled = False, cat_showCounts = True, cat_categories = [], cat_items = []\<rparr>"

definition storeCatalog :: "uid \<Rightarrow> cat_state \<Rightarrow> store_catalog" where
  "storeCatalog i s = opt_default (map_of (ca_books s) i) empty_catalog"

definition planOptionsOf :: "store_catalog \<Rightarrow> uid \<Rightarrow> plan_options" where
  "planOptionsOf c planId = opt_default (map_of (cat_items c) planId) DEFAULT_PLAN_OPTIONS"

section \<open>Saving\<close>

text \<open>The first category of every id, in the order of the shop.\<close>
fun first_by :: "('a \<Rightarrow> 'k) \<Rightarrow> 'k list \<Rightarrow> 'a list \<Rightarrow> 'a list" where
  "first_by key seen [] = []"
| "first_by key seen (x # xs) = (if key x \<in> set seen then first_by key seen xs else x # first_by key (key x # seen) xs)"

definition kept_categories :: "(string \<Rightarrow> rat) \<Rightarrow> store_category list \<Rightarrow> store_category list" where
  "kept_categories rank cats = sort_key (\<lambda>c. (cg_sortOrder c, rank (cg_name c))) (first_by cg_id [] cats)"

definition kept_options :: "string set \<Rightarrow> plan_options \<Rightarrow> plan_options" where
  "kept_options ids r = r\<lparr>plo_categoryId := (if plo_categoryId r \<in> ids then plo_categoryId r else []),
     plo_features := filter (\<lambda>f. 0 < length f) (plo_features r)\<rparr>"

definition kept_items :: "string set \<Rightarrow> (uid \<times> plan_options) list \<Rightarrow> (uid \<times> plan_options) list" where
  "kept_items ids items = filter (\<lambda>(p, r). \<not> isDefaultOptions r) (map (\<lambda>(p, r). (p, kept_options ids r)) items)"

definition invalid_catalog :: err where
  "invalid_catalog = PlainError ''the catalogue does not fit the schema''"

definition saveStoreCatalog :: "uid \<Rightarrow> catalog_patch \<Rightarrow> (cat_state, store_catalog) op" where
  "saveStoreCatalog adminId patch =
    bnd (gets (\<lambda>s. (storeCatalog adminId s, ca_rank s))) (\<lambda>(current, rank).
    bnd (or_throw (parse_catalog (opt_default (cap_enabled patch) (cat_enabled current)) (opt_default (cap_showCounts patch) (cat_showCounts current))
        (opt_default (cap_categories patch) (map raw_category_of (cat_categories current)))
        (opt_default (cap_items patch) (map (\<lambda>(p, r). (p, raw_options_of r)) (cat_items current)))) invalid_catalog) (\<lambda>next_cat.
    let categories = kept_categories rank (cat_categories next_cat);
        items = kept_items (cg_id ` set (cat_categories next_cat)) (cat_items next_cat) in
    bnd (or_throw (parse_catalog (cat_enabled next_cat) (cat_showCounts next_cat) (map raw_category_of categories)
        (map (\<lambda>(p, r). (p, raw_options_of r)) items)) invalid_catalog) (\<lambda>saved.
    andthen (modify (\<lambda>s. s\<lparr>ca_books := put_row adminId saved (ca_books s)\<rparr>))
    (andthen (in_shop_world (audit (Some adminId) ''store.catalog.save'' JNull
        [(''enabled'', JBool (cat_enabled saved)), (''categories'', JInt (int (length categories))), (''plans'', JInt (int (length items)))] None))
    (ret saved)))))"

section \<open>The storefront\<close>

record public_options =
  pbo_categoryId :: string
  pbo_ribbon :: string
  pbo_highlight :: bool
  pbo_features :: "string list"
  pbo_note :: string
  pbo_stockLeft :: "int option"
  pbo_soldOut :: bool
  pbo_perCustomer :: int

record public_category =
  pbc_id :: string
  pbc_name :: string
  pbc_description :: string
  pbc_icon :: cat_icon
  pbc_count :: nat

record public_catalog =
  pbk_enabled :: bool
  pbk_showCounts :: bool
  pbk_categories :: "public_category list"
  pbk_items :: "(uid \<times> public_options) list"
  pbk_hidden :: "uid list"

definition EMPTY_PUBLIC_CATALOG :: public_catalog where
  "EMPTY_PUBLIC_CATALOG = \<lparr>pbk_enabled = False, pbk_showCounts = True, pbk_categories = [], pbk_items = [], pbk_hidden = []\<rparr>"

definition stock_left :: "plan_options \<Rightarrow> int \<Rightarrow> int option" where
  "stock_left r sold = (if 0 < plo_stock r then Some (max 0 (plo_stock r - sold)) else None)"

definition public_options_of :: "plan_options \<Rightarrow> int \<Rightarrow> public_options" where
  "public_options_of r sold = \<lparr>pbo_categoryId = plo_categoryId r, pbo_ribbon = plo_ribbon r, pbo_highlight = plo_highlight r,
     pbo_features = plo_features r, pbo_note = plo_note r, pbo_stockLeft = stock_left r sold, pbo_soldOut = (stock_left r sold = Some 0),
     pbo_perCustomer = plo_perCustomer r\<rparr>"

definition category_count :: "store_catalog \<Rightarrow> (uid \<times> int) list \<Rightarrow> string \<Rightarrow> nat" where
  "category_count c listed i = length (filter (\<lambda>(p, sold). let r = planOptionsOf c p in \<not> plo_hidden r \<and> plo_categoryId r \<noteq> [] \<and> plo_categoryId r = i) listed)"

definition publicStoreCatalog :: "uid \<Rightarrow> (uid \<times> int) list \<Rightarrow> cat_state \<Rightarrow> public_catalog" where
  "publicStoreCatalog adminId listed s =
    (let c = storeCatalog adminId s in
     if \<not> cat_enabled c then EMPTY_PUBLIC_CATALOG\<lparr>pbk_showCounts := cat_showCounts c\<rparr>
     else \<lparr>pbk_enabled = True, pbk_showCounts = cat_showCounts c,
       pbk_categories = filter (\<lambda>x. 0 < pbc_count x) (map (\<lambda>x. \<lparr>pbc_id = cg_id x, pbc_name = cg_name x, pbc_description = cg_description x,
          pbc_icon = cg_icon x, pbc_count = category_count c listed (cg_id x)\<rparr>) (filter cg_isActive (cat_categories c))),
       pbk_items = map (\<lambda>(p, sold). (p, public_options_of (planOptionsOf c p) sold)) listed,
       pbk_hidden = map fst (filter (\<lambda>(p, sold). plo_hidden (planOptionsOf c p)) listed)\<rparr>)"

section \<open>The guard of a purchase\<close>

text \<open>The orders of an account that count against the limit of a plan.\<close>
definition paid_orders :: "uid \<Rightarrow> uid \<Rightarrow> world \<Rightarrow> nat" where
  "paid_orders planId cid w = length (filter (\<lambda>ord. ord_planId ord = Some planId \<and> ord_customerId ord = Some cid \<and>
     (ord_status ord = O_PAID \<or> ord_status ord = O_FULFILLED)) (orders w))"

definition account_needed :: err where
  "account_needed = AppError ''this plan needs a storefront account'' 401 ''login_required''"

definition assertPlanPurchasable :: "string \<Rightarrow> uid \<Rightarrow> uid option \<Rightarrow> (cat_state, unit) op" where
  "assertPlanPurchasable slug planId customerId =
    bnd (gets (\<lambda>s. find (\<lambda>v. sto_slug v = to_lower slug) (stores (ca_world s)))) (\<lambda>found.
    case found of None \<Rightarrow> ret () | Some store \<Rightarrow>
    bnd (gets (storeCatalog (sto_adminId store))) (\<lambda>catalog.
    if \<not> cat_enabled catalog then ret ()
    else (case map_of (cat_items catalog) planId of None \<Rightarrow> ret () | Some r \<Rightarrow>
      andthen
        (if 0 < plo_stock r
         then bnd (gets (\<lambda>s. find (\<lambda>p. pln_id p = planId \<and> pln_adminId p = sto_adminId store) (plans (ca_world s)))) (\<lambda>plan.
           throw_if (case plan of Some p \<Rightarrow> plo_stock r \<le> pln_sold p | None \<Rightarrow> False) (app_error ''the plan is sold out''))
         else ret ())
        (if 0 < plo_perCustomer r
         then (case customerId of None \<Rightarrow> throw account_needed | Some cid \<Rightarrow>
           bnd (gets (\<lambda>s. paid_orders planId cid (ca_world s))) (\<lambda>used.
             throw_if (plo_perCustomer r \<le> int used) (app_error ''the limit of this plan for one account is reached'')))
         else ret ()))))"

section \<open>The normal form of a catalogue\<close>

lemma sized_again: "sized lo hi s = Some t \<Longrightarrow> sized lo hi t = Some t"
  by (auto simp: sized_def Let_def split: if_splits)

lemma in_range_again: "in_range hi x = Some y \<Longrightarrow> in_range hi y = Some y"
  by (auto simp: in_range_def split: if_splits)

lemma those_Some: "those (map f xs) = Some ys \<Longrightarrow> length ys = length xs \<and> (\<forall>y \<in> set ys. \<exists>x \<in> set xs. f x = Some y)"
proof (induction xs arbitrary: ys)
  case (Cons x xs)
  then obtain z zs where "f x = Some z" "those (map f xs) = Some zs" "ys = z # zs" by (auto split: option.splits)
  then show ?case using Cons.IH by auto
qed simp

lemma those_id: "(\<And>x. x \<in> set xs \<Longrightarrow> f x = Some x) \<Longrightarrow> those (map f xs) = Some xs"
  by (induction xs) auto

definition ok_category :: "store_category \<Rightarrow> bool" where
  "ok_category c \<longleftrightarrow> parse_category (raw_category_of c) = Some c"

definition ok_options :: "plan_options \<Rightarrow> bool" where
  "ok_options p \<longleftrightarrow> parse_options (raw_options_of p) = Some p"

lemma parsed_category: "parse_category r = Some c \<Longrightarrow> ok_category c"
proof -
  assume "parse_category r = Some c"
  then obtain i n d so where p: "sized 1 40 (rc_id r) = Some i" "sized 1 40 (rc_name r) = Some n" "sized 0 160 (opt_default (rc_description r) []) = Some d"
      "in_range 999 (opt_default (rc_sortOrder r) 0) = Some so"
    and c: "c = \<lparr>cg_id = i, cg_name = n, cg_description = d, cg_icon = opt_default (rc_icon r) IC_STAR, cg_sortOrder = so, cg_isActive = opt_default (rc_isActive r) True\<rparr>"
    by (auto simp: parse_category_def bind_eq_Some_conv)
  show ?thesis
    by (simp add: c ok_category_def raw_category_of_def parse_category_def sized_again [OF p(1), simplified] sized_again [OF p(2), simplified] sized_again [OF p(3)] in_range_again [OF p(4)])
qed

lemma parsed_features: "parse_features fs = Some gs \<Longrightarrow> parse_features (filter P gs) = Some (filter P gs)"
proof -
  assume p: "parse_features fs = Some gs"
  then have t: "those (map (sized 0 80) fs) = Some gs" and l: "length fs \<le> 8" by (auto simp: parse_features_def split: if_splits)
  have "length (filter P gs) \<le> 8" using those_Some [OF t] l length_filter_le [of P gs] by linarith
  moreover have "those (map (sized 0 80) (filter P gs)) = Some (filter P gs)"
    using those_Some [OF t] sized_again by (intro those_id) force
  ultimately show ?thesis by (simp add: parse_features_def)
qed

lemma parsed_options: "parse_options r = Some p \<Longrightarrow> ok_options (kept_options ids p)"
proof -
  assume "parse_options r = Some p"
  then obtain c rb fs n st pc where q: "sized 0 40 (opt_default (ro_categoryId r) []) = Some c" "sized 0 24 (opt_default (ro_ribbon r) []) = Some rb"
      "parse_features (opt_default (ro_features r) []) = Some fs" "sized 0 200 (opt_default (ro_note r) []) = Some n"
      "in_range 1000000 (opt_default (ro_stock r) 0) = Some st" "in_range 1000 (opt_default (ro_perCustomer r) 0) = Some pc"
    and p: "p = \<lparr>plo_categoryId = c, plo_ribbon = rb, plo_highlight = opt_default (ro_highlight r) False, plo_hidden = opt_default (ro_hidden r) False,
      plo_features = fs, plo_note = n, plo_stock = st, plo_perCustomer = pc\<rparr>"
    by (auto simp: parse_options_def bind_eq_Some_conv)
  have none: "sized 0 40 [] = Some []" by (simp add: sized_def)
  show ?thesis
    by (simp add: p ok_options_def raw_options_of_def kept_options_def parse_options_def none sized_again [OF q(1)] sized_again [OF q(2)] sized_again [OF q(4)]
        in_range_again [OF q(5)] in_range_again [OF q(6)] parsed_features [OF q(3), where P = "\<lambda>f. f \<noteq> []", simplified])
qed

text \<open>A catalogue the schema takes as it is.\<close>
definition ok_catalog :: "store_catalog \<Rightarrow> bool" where
  "ok_catalog c \<longleftrightarrow> length (cat_categories c) \<le> 24 \<and> list_all ok_category (cat_categories c) \<and> list_all (\<lambda>(p, r). ok_options r) (cat_items c)"

lemma parse_again:
  assumes "length cats \<le> 24" and "list_all ok_category cats" and "list_all (\<lambda>(p, r). ok_options r) items"
  shows "parse_catalog en counts (map raw_category_of cats) (map (\<lambda>(p, r). (p, raw_options_of r)) items) =
    Some \<lparr>cat_enabled = en, cat_showCounts = counts, cat_categories = cats, cat_items = items\<rparr>"
proof -
  have "those (map (parse_category \<circ> raw_category_of) cats) = Some cats"
    using assms(2) by (intro those_id) (auto simp: list_all_iff ok_category_def)
  moreover have "those (map ((\<lambda>(p, r). map_option (Pair p) (parse_options r)) \<circ> (\<lambda>(p, r). (p, raw_options_of r))) items) = Some items"
    using assms(3) by (intro those_id) (auto simp: list_all_iff ok_options_def)
  ultimately show ?thesis using assms(1) by (simp add: parse_catalog_def)
qed

lemma first_by_keys: "key ` set (first_by key seen xs) = key ` set xs - set seen"
  by (induction key seen xs rule: first_by.induct) auto

lemma first_by_distinct: "distinct (map key (first_by key seen xs))"
proof (induction key seen xs rule: first_by.induct)
  case (2 key seen x xs)
  then show ?case using first_by_keys [of key "key x # seen" xs] by auto
qed simp

lemma first_by_id: "distinct (map key xs) \<Longrightarrow> key ` set xs \<inter> set seen = {} \<Longrightarrow> first_by key seen xs = xs"
  by (induction key seen xs rule: first_by.induct) auto

lemma first_by_subset: "set (first_by key seen xs) \<subseteq> set xs"
  by (induction key seen xs rule: first_by.induct) auto

lemma first_by_length: "length (first_by key seen xs) \<le> length xs"
  by (induction key seen xs rule: first_by.induct) auto

definition normal_catalog :: "(string \<Rightarrow> rat) \<Rightarrow> store_catalog \<Rightarrow> bool" where
  "normal_catalog rank c \<longleftrightarrow> distinct (map cg_id (cat_categories c)) \<and> sorted (map (\<lambda>x. (cg_sortOrder x, rank (cg_name x))) (cat_categories c)) \<and>
     (\<forall>(p, r) \<in> set (cat_items c). \<not> isDefaultOptions r \<and> [] \<notin> set (plo_features r) \<and>
        (plo_categoryId r = [] \<or> plo_categoryId r \<in> cg_id ` set (cat_categories c)))"

lemma kept_ids: "cg_id ` set (kept_categories rank cats) = cg_id ` set cats"
  by (simp add: kept_categories_def first_by_keys)

lemma kept_normal:
  assumes "cat_categories c = kept_categories rank cats" and "cat_items c = kept_items (cg_id ` set cats) items"
  shows "normal_catalog rank c"
proof -
  have "distinct (map cg_id (kept_categories rank cats))"
    using first_by_distinct [of cg_id "[]" cats] by (simp add: kept_categories_def distinct_map)
  moreover have "sorted (map (\<lambda>x. (cg_sortOrder x, rank (cg_name x))) (kept_categories rank cats))" by (simp add: kept_categories_def)
  ultimately show ?thesis
    using kept_ids [of rank cats] by (auto simp: normal_catalog_def assms kept_items_def kept_options_def split: if_splits)
qed

lemma normal_kept:
  assumes "normal_catalog rank c"
  shows "kept_categories rank (cat_categories c) = cat_categories c" and "kept_items (cg_id ` set (cat_categories c)) (cat_items c) = cat_items c"
proof -
  show "kept_categories rank (cat_categories c) = cat_categories c"
    using assms by (simp add: normal_catalog_def kept_categories_def first_by_id sort_key_id_if_sorted)
  have same: "kept_options (cg_id ` set (cat_categories c)) r = r" if "(p, r) \<in> set (cat_items c)" for p r
  proof -
    have "filter (\<lambda>f. 0 < length f) (plo_features r) = plo_features r" and "plo_categoryId r = [] \<or> plo_categoryId r \<in> cg_id ` set (cat_categories c)"
      using assms that by (auto simp: normal_catalog_def filter_id_conv)
    then show ?thesis by (auto simp: kept_options_def)
  qed
  have "map (\<lambda>(p, r). (p, kept_options (cg_id ` set (cat_categories c)) r)) (cat_items c) = cat_items c"
    by (intro map_idI) (use same in auto)
  then show "kept_items (cg_id ` set (cat_categories c)) (cat_items c) = cat_items c"
    using assms by (auto simp: kept_items_def normal_catalog_def filter_id_conv)
qed

lemma ok_kept:
  assumes "parse_catalog en counts cats items = Some n"
  shows "ok_catalog (n\<lparr>cat_categories := kept_categories rank (cat_categories n), cat_items := kept_items ids (cat_items n)\<rparr>)"
proof -
  obtain cs its where c: "those (map parse_category cats) = Some cs" and i: "those (map (\<lambda>(p, r). map_option (Pair p) (parse_options r)) items) = Some its"
    and n: "cat_categories n = cs" "cat_items n = its" and l: "length cats \<le> 24"
    using assms by (auto simp: parse_catalog_def bind_eq_Some_conv split: if_splits)
  have "length (kept_categories rank cs) \<le> 24"
    using first_by_length [of cg_id "[]" cs] those_Some [OF c] l by (simp add: kept_categories_def)
  moreover have "ok_category x" if "x \<in> set (kept_categories rank cs)" for x
    using those_Some [OF c] first_by_subset [of cg_id "[]" cs] that parsed_category by (fastforce simp: kept_categories_def)
  moreover have "ok_options r" if "(p, r) \<in> set (kept_items ids its)" for p r
    using those_Some [OF i] that by (force simp: kept_items_def dest: parsed_options)
  ultimately show ?thesis by (auto simp: ok_catalog_def list_all_iff n)
qed

lemma put_row_same: "map_of rows k = Some v \<Longrightarrow> put_row k v rows = rows"
  by (induction rows) (auto split: if_splits)

lemma shop_audit: "\<exists>w. in_shop_world (audit a act t m ip) s = (Inr (), s\<lparr>ca_world := w\<rparr>)"
  using audit_events [of a act t m ip "ca_world s"] by (auto simp: in_shop_world_def)

text \<open>What a save stores: the normal form of what the schema made of the request and the current catalogue.\<close>
lemma save_run:
  "saveStoreCatalog i patch s =
    (case parse_catalog (opt_default (cap_enabled patch) (cat_enabled (storeCatalog i s))) (opt_default (cap_showCounts patch) (cat_showCounts (storeCatalog i s)))
        (opt_default (cap_categories patch) (map raw_category_of (cat_categories (storeCatalog i s))))
        (opt_default (cap_items patch) (map (\<lambda>(p, r). (p, raw_options_of r)) (cat_items (storeCatalog i s)))) of
       None \<Rightarrow> (Inl invalid_catalog, s)
     | Some n \<Rightarrow> (let c = n\<lparr>cat_categories := kept_categories (ca_rank s) (cat_categories n), cat_items := kept_items (cg_id ` set (cat_categories n)) (cat_items n)\<rparr> in
         (Inr c, snd (in_shop_world (audit (Some i) ''store.catalog.save'' JNull
            [(''enabled'', JBool (cat_enabled c)), (''categories'', JInt (int (length (cat_categories c)))), (''plans'', JInt (int (length (cat_items c))))] None)
            (s\<lparr>ca_books := put_row i c (ca_books s)\<rparr>)))))"
proof (cases "parse_catalog (opt_default (cap_enabled patch) (cat_enabled (storeCatalog i s))) (opt_default (cap_showCounts patch) (cat_showCounts (storeCatalog i s)))
        (opt_default (cap_categories patch) (map raw_category_of (cat_categories (storeCatalog i s))))
        (opt_default (cap_items patch) (map (\<lambda>(p, r). (p, raw_options_of r)) (cat_items (storeCatalog i s))))")
  case None
  then show ?thesis by (simp add: saveStoreCatalog_def)
next
  case (Some n)
  define c where "c = n\<lparr>cat_categories := kept_categories (ca_rank s) (cat_categories n), cat_items := kept_items (cg_id ` set (cat_categories n)) (cat_items n)\<rparr>"
  have "parse_catalog (cat_enabled n) (cat_showCounts n) (map raw_category_of (cat_categories c)) (map (\<lambda>(p, r). (p, raw_options_of r)) (cat_items c)) = Some c"
    using ok_kept [OF Some, where rank = "ca_rank s" and ids = "cg_id ` set (cat_categories n)"] parse_again [of "cat_categories c" "cat_items c"]
    unfolding c_def [symmetric] by (simp add: ok_catalog_def) (simp add: c_def)
  then show ?thesis
    using shop_audit [of "Some i" "''store.catalog.save''" JNull
      "[(''enabled'', JBool (cat_enabled c)), (''categories'', JInt (int (length (cat_categories c)))), (''plans'', JInt (int (length (cat_items c))))]"
      None "s\<lparr>ca_books := put_row i c (ca_books s)\<rparr>"]
    by (auto simp: saveStoreCatalog_def Some Let_def c_def andthen_def bnd_def)
qed

text \<open>A request that names no field.\<close>
definition keep_all :: catalog_patch where
  "keep_all = \<lparr>cap_enabled = None, cap_showCounts = None, cap_categories = None, cap_items = None\<rparr>"

lemma books_after: "map_of (ca_books s) i = Some c \<Longrightarrow> storeCatalog i s = c"
  by (simp add: storeCatalog_def)

lemma shop_audit_frame: "ca_books (snd (in_shop_world (audit a act t m ip) s)) = ca_books s" "ca_rank (snd (in_shop_world (audit a act t m ip) s)) = ca_rank s"
  using shop_audit [of a act t m ip s] by auto

text \<open>
  C24: whatever a request sends, a catalogue that is saved is in normal form: category ids are distinct and sorted by
  their order and name, every item belongs to one of these categories or to none, has no empty feature and says more than the
  defaults, and the schema takes it as it is. It is read back as saved, and saving it again changes nothing.
\<close>
theorem catalog_saved_normal:
  assumes "saveStoreCatalog i patch s = (Inr c, s')"
  shows "storeCatalog i s' = c \<and> normal_catalog (ca_rank s) c \<and> ok_catalog c \<and>
    (\<exists>s''. saveStoreCatalog i keep_all s' = (Inr c, s'') \<and> ca_books s'' = ca_books s')"
proof -
  obtain n en counts cats items where n: "parse_catalog en counts cats items = Some n"
    and c: "c = n\<lparr>cat_categories := kept_categories (ca_rank s) (cat_categories n), cat_items := kept_items (cg_id ` set (cat_categories n)) (cat_items n)\<rparr>"
    and b: "ca_books s' = put_row i c (ca_books s)" and r: "ca_rank s' = ca_rank s"
    using assms unfolding save_run by (auto simp: Let_def shop_audit_frame split: option.splits)
  have read: "storeCatalog i s' = c" by (simp add: storeCatalog_def b map_of_put_row)
  have normal: "normal_catalog (ca_rank s) c" by (rule kept_normal [of _ _ "cat_categories n" "cat_items n"]) (simp_all add: c)
  have ok: "ok_catalog c" using ok_kept [OF n] by (simp add: c)
  have "parse_catalog (cat_enabled c) (cat_showCounts c) (map raw_category_of (cat_categories c)) (map (\<lambda>(p, r). (p, raw_options_of r)) (cat_items c)) = Some c"
    using parse_again [of "cat_categories c" "cat_items c"] ok by (simp add: ok_catalog_def)
  moreover have "c\<lparr>cat_categories := kept_categories (ca_rank s) (cat_categories c), cat_items := kept_items (cg_id ` set (cat_categories c)) (cat_items c)\<rparr> = c"
    using normal_kept [OF normal] by simp
  ultimately have again: "fst (saveStoreCatalog i keep_all s') = Inr c" "ca_books (snd (saveStoreCatalog i keep_all s')) = put_row i c (ca_books s')"
    unfolding save_run by (simp_all add: read keep_all_def Let_def r shop_audit_frame)
  have "map_of (ca_books s') i = Some c" by (simp add: b map_of_put_row)
  then have "ca_books (snd (saveStoreCatalog i keep_all s')) = ca_books s'" using again(2) by (simp add: put_row_same)
  then have "\<exists>s''. saveStoreCatalog i keep_all s' = (Inr c, s'') \<and> ca_books s'' = ca_books s'"
    using again(1) by (intro exI [of _ "snd (saveStoreCatalog i keep_all s')"]) (simp add: prod_eq_iff)
  then show ?thesis using read normal ok by blast
qed

definition demo_patch :: catalog_patch where
  "demo_patch = \<lparr>cap_enabled = Some True, cap_showCounts = None,
     cap_categories = Some [\<lparr>rc_id = '' b '', rc_name = ''B'', rc_description = None, rc_icon = None, rc_sortOrder = Some 2, rc_isActive = None\<rparr>,
       \<lparr>rc_id = ''a'', rc_name = ''A'', rc_description = None, rc_icon = None, rc_sortOrder = None, rc_isActive = None\<rparr>,
       \<lparr>rc_id = ''b'', rc_name = ''again'', rc_description = None, rc_icon = None, rc_sortOrder = None, rc_isActive = None\<rparr>],
     cap_items = Some [(40, \<lparr>ro_categoryId = Some ''a'', ro_ribbon = None, ro_highlight = None, ro_hidden = None, ro_features = Some [''fast'', '' ''],
         ro_note = None, ro_stock = Some 5, ro_perCustomer = Some 1\<rparr>),
       (41, \<lparr>ro_categoryId = Some ''gone'', ro_ribbon = None, ro_highlight = None, ro_hidden = None, ro_features = None,
         ro_note = None, ro_stock = None, ro_perCustomer = None\<rparr>)]\<rparr>"

definition demo_plan_row :: plan where
  "demo_plan_row = \<lparr>pln_id = 40, pln_adminId = 3, pln_name = ''p'', pln_description = None, pln_badge = None, pln_trafficGB = 10, pln_days = 30,
     pln_ipLimit = 0, pln_price = 100, pln_oldPrice = None, pln_targets = [], pln_isActive = True, pln_sortOrder = 0, pln_sold = 4, pln_createdAt = 0\<rparr>"

definition demo_shop :: cat_state where
  "demo_shop = \<lparr>ca_world = demo_world\<lparr>stores := [demo_store], plans := [demo_plan_row]\<rparr>, ca_books = [], ca_rank = (\<lambda>n. of_nat (length n))\<rparr>"

theorem catalog_saved_normal_witness:
  "\<exists>c s' s''. saveStoreCatalog 3 demo_patch demo_shop = (Inr c, s') \<and> map cg_id (cat_categories c) = [''a'', ''b''] \<and> map fst (cat_items c) = [40] \<and>
     normal_catalog (ca_rank demo_shop) c \<and> saveStoreCatalog 3 keep_all s' = (Inr c, s'')"
proof -
  have "case fst (saveStoreCatalog 3 demo_patch demo_shop) of Inr c \<Rightarrow> map cg_id (cat_categories c) = [''a'', ''b''] \<and> map fst (cat_items c) = [40] | Inl e \<Rightarrow> False"
    by code_simp
  then obtain c where c: "fst (saveStoreCatalog 3 demo_patch demo_shop) = Inr c" "map cg_id (cat_categories c) = [''a'', ''b'']" "map fst (cat_items c) = [40]"
    by (auto split: sum.splits)
  then have "saveStoreCatalog 3 demo_patch demo_shop = (Inr c, snd (saveStoreCatalog 3 demo_patch demo_shop))" by (simp add: prod_eq_iff)
  from catalog_saved_normal [OF this] this c(2,3) show ?thesis by (elim conjE exE) (intro exI conjI)
qed

section \<open>The storefront and the guard agree\<close>

lemma listed_options:
  assumes "map_of (pbk_items (publicStoreCatalog i (map (\<lambda>p. (pln_id p, pln_sold p)) listed) s)) pid = Some v"
    and "distinct (map pln_id (plans w))" and "set listed \<subseteq> set (plans w)" and "p \<in> set (plans w)" and "pln_id p = pid"
    and "cat_enabled (storeCatalog i s)"
  shows "v = public_options_of (planOptionsOf (storeCatalog i s) pid) (pln_sold p)"
proof -
  have "(pid, v) \<in> set (pbk_items (publicStoreCatalog i (map (\<lambda>p. (pln_id p, pln_sold p)) listed) s))" using assms(1) by (rule map_of_SomeD)
  then obtain q where q: "q \<in> set listed" "pln_id q = pid" "v = public_options_of (planOptionsOf (storeCatalog i s) pid) (pln_sold q)"
    using assms(6) by (auto simp: publicStoreCatalog_def Let_def)
  then have "q = p" using assms(2-5) by (metis (no_types, lifting) distinct_map inj_onD subsetD)
  then show ?thesis using q(3) by simp
qed

text \<open>
  C23: the storefront tells the truth about what can be bought. For a plan it lists, an order passes the guard exactly when
  the listing does not say sold out and the limit per account is off or the buyer is a known account with fewer paid orders of
  the plan.
\<close>
theorem storefront_matches_guard:
  assumes "find (\<lambda>v. sto_slug v = to_lower slug) (stores (ca_world s)) = Some store" and "cat_enabled (storeCatalog (sto_adminId store) s)"
    and "distinct (map pln_id (plans (ca_world s)))" and "p \<in> set (plans (ca_world s))" and "pln_adminId p = sto_adminId store"
    and "set listed \<subseteq> set (plans (ca_world s))"
    and "map_of (pbk_items (publicStoreCatalog (sto_adminId store) (map (\<lambda>p. (pln_id p, pln_sold p)) listed) s)) (pln_id p) = Some v"
  shows "assertPlanPurchasable slug (pln_id p) cust s = (Inr (), s) \<longleftrightarrow>
    \<not> pbo_soldOut v \<and> (pbo_perCustomer v \<le> 0 \<or> (\<exists>c. cust = Some c \<and> int (paid_orders (pln_id p) c (ca_world s)) < pbo_perCustomer v))"
proof -
  let ?c = "storeCatalog (sto_adminId store) s"
  have v: "v = public_options_of (planOptionsOf ?c (pln_id p)) (pln_sold p)"
    by (rule listed_options [OF assms(7,3,6,4) refl assms(2)])
  have row: "find (\<lambda>q. pln_id q = pln_id p \<and> pln_adminId q = sto_adminId store) (plans (ca_world s)) = Some p"
  proof -
    have "\<exists>q. find (\<lambda>q. pln_id q = pln_id p \<and> pln_adminId q = sto_adminId store) (plans (ca_world s)) = Some q"
      using assms(4,5) by (cases "find (\<lambda>q. pln_id q = pln_id p \<and> pln_adminId q = sto_adminId store) (plans (ca_world s))") (auto simp: find_None_iff)
    then obtain q where q: "find (\<lambda>q. pln_id q = pln_id p \<and> pln_adminId q = sto_adminId store) (plans (ca_world s)) = Some q" by blast
    then have "q = p" using find_SomeD [OF q] assms(3,4) by (metis (no_types, lifting) distinct_map inj_onD)
    then show ?thesis using q by simp
  qed
  show ?thesis
  proof (cases "map_of (cat_items ?c) (pln_id p)")
    case None
    then show ?thesis
      using assms(1,2) by (simp add: assertPlanPurchasable_def v planOptionsOf_def public_options_of_def stock_left_def DEFAULT_PLAN_OPTIONS_def)
  next
    case (Some r)
    have stock: "pbo_soldOut v \<longleftrightarrow> 0 < plo_stock r \<and> plo_stock r \<le> pln_sold p" and cap: "pbo_perCustomer v = plo_perCustomer r"
      using Some by (auto simp: v planOptionsOf_def public_options_of_def stock_left_def)
    have run: "assertPlanPurchasable slug (pln_id p) cust s =
        (if 0 < plo_stock r \<and> plo_stock r \<le> pln_sold p then (Inl (app_error ''the plan is sold out''), s)
         else if 0 < plo_perCustomer r then (case cust of None \<Rightarrow> (Inl account_needed, s) | Some c \<Rightarrow>
            if plo_perCustomer r \<le> int (paid_orders (pln_id p) c (ca_world s)) then (Inl (app_error ''the limit of this plan for one account is reached''), s) else (Inr (), s))
         else (Inr (), s))"
      using assms(1,2) Some row by (auto simp: assertPlanPurchasable_def andthen_def bnd_def throw_if_def throw_def ret_def gets_def split: option.splits)
    show ?thesis unfolding run stock cap by (auto split: option.splits)
  qed
qed

theorem storefront_matches_guard_witness:
  "\<exists>c s'. saveStoreCatalog 3 demo_patch demo_shop = (Inr c, s') \<and> assertPlanPurchasable ''SHOP'' 40 None s' \<noteq> (Inr (), s') \<and>
     assertPlanPurchasable ''SHOP'' 40 (Some 7) s' = (Inr (), s')"
proof -
  let ?s = "snd (saveStoreCatalog 3 demo_patch demo_shop)"
  let ?v = "public_options_of (planOptionsOf (storeCatalog 3 ?s) 40) 4"
  have r: "isl (fst (saveStoreCatalog 3 demo_patch demo_shop)) = False" by code_simp
  have store: "find (\<lambda>v. sto_slug v = to_lower ''SHOP'') (stores (ca_world ?s)) = Some demo_store" by code_simp
  have en: "cat_enabled (storeCatalog (sto_adminId demo_store) ?s)" by code_simp
  have pl: "plans (ca_world ?s) = [demo_plan_row]" by code_simp
  have v: "map_of (pbk_items (publicStoreCatalog (sto_adminId demo_store) (map (\<lambda>p. (pln_id p, pln_sold p)) [demo_plan_row]) ?s)) (pln_id demo_plan_row) = Some ?v"
    using en by (simp add: publicStoreCatalog_def Let_def) (simp add: demo_plan_row_def demo_store_def)
  have opts: "\<not> pbo_soldOut ?v" "pbo_perCustomer ?v = 1" "paid_orders 40 7 (ca_world ?s) = 0" by code_simp+
  have i: "pln_id demo_plan_row = 40" "pln_adminId demo_plan_row = sto_adminId demo_store" by code_simp+
  have g: "assertPlanPurchasable ''SHOP'' (pln_id demo_plan_row) cust ?s = (Inr (), ?s) \<longleftrightarrow>
      \<not> pbo_soldOut ?v \<and> (pbo_perCustomer ?v \<le> 0 \<or> (\<exists>c. cust = Some c \<and> int (paid_orders (pln_id demo_plan_row) c (ca_world ?s)) < pbo_perCustomer ?v))" for cust
    by (rule storefront_matches_guard [OF store en _ _ _ _ v]) (simp_all add: pl i)
  have "assertPlanPurchasable ''SHOP'' 40 None ?s \<noteq> (Inr (), ?s)" "assertPlanPurchasable ''SHOP'' 40 (Some 7) ?s = (Inr (), ?s)"
    using g [of None] g [of "Some 7"] opts i by simp_all
  moreover obtain c where "saveStoreCatalog 3 demo_patch demo_shop = (Inr c, ?s)"
    using r by (cases "fst (saveStoreCatalog 3 demo_patch demo_shop)") (auto simp: prod_eq_iff)
  ultimately show ?thesis by blast
qed

end
