(* ===== verification/OwnerViews.thy ===== *)
theory OwnerViews
  imports Monitoring Servers Grouped
begin

text \<open>
  What the owner sees and arranges: the health of every service, copies and the order of services (\<open>serviceAdmin.ts\<close>), and
  the detail view of one reseller (\<open>adminDetail\<close> of \<open>adminAdmin.ts\<close>). The status of a server is a column of the table the
  monitoring theory keeps.
\<close>

section \<open>The health of services\<close>

datatype service_issue = SI_SERVER_MISSING | SI_SERVER_INACTIVE | SI_INBOUND_MISSING | SI_INBOUND_DISABLED | SI_SERVER_OFFLINE

definition issueOf :: "(bool \<times> server_status) option \<Rightarrow> inbound option \<Rightarrow> service_issue option" where
  "issueOf srv ib =
    (case srv of None \<Rightarrow> Some SI_SERVER_MISSING
     | Some (active, status) \<Rightarrow>
         if \<not> active then Some SI_SERVER_INACTIVE
         else (case ib of None \<Rightarrow> Some SI_INBOUND_MISSING
           | Some i \<Rightarrow> if \<not> ib_enable i then Some SI_INBOUND_DISABLED
               else if status \<noteq> SRV_ONLINE then Some SI_SERVER_OFFLINE else None))"

definition server_status_text :: "server_status \<Rightarrow> string" where
  "server_status_text s = (case s of SRV_UNKNOWN \<Rightarrow> ''UNKNOWN'' | SRV_ONLINE \<Rightarrow> ''ONLINE'' | SRV_OFFLINE \<Rightarrow> ''OFFLINE'' | SRV_AUTH_ERROR \<Rightarrow> ''AUTH_ERROR'')"

text \<open>A row of the server table: what the panel knows of the server, and its status.\<close>
definition server_of :: "mon_state \<Rightarrow> uid \<Rightarrow> (server \<times> server_status) option" where
  "server_of s i = map_option (\<lambda>v. (v, case find_row wa_id i (mo_servers s) of Some m \<Rightarrow> wa_status m | None \<Rightarrow> SRV_UNKNOWN))
     (find_row srv_id i (servers (mo_world s)))"

record target_health =
  th_serverId :: uid
  th_serverName :: string
  th_serverStatus :: string
  th_inboundId :: int
  th_inboundLabel :: string
  th_ok :: bool
  th_issue :: "service_issue option"
  th_clients :: nat
  th_up :: int
  th_down :: int

definition inbound_label :: "int \<Rightarrow> inbound option \<Rightarrow> string" where
  "inbound_label i ib = (case ib of
     Some b \<Rightarrow> ib_protocol b @ '':'' @ show_int (ib_port b) @ (if ib_remark b = [] then [] else '' - '' @ ib_remark b)
   | None \<Rightarrow> ''#'' @ show_int i)"

definition target_health_of :: "mon_state \<Rightarrow> target \<Rightarrow> target_health" where
  "target_health_of s t =
    (let srv = server_of s (t_serverId t); ib = Option.bind srv (\<lambda>(v, st). find_inbound v (t_inboundId t));
         issue = issueOf (map_option (\<lambda>(v, st). (srv_isActive v, st)) srv) ib;
         links = filter (\<lambda>l. cs_serverId l = t_serverId t \<and> cs_inboundId l = t_inboundId t) (client_servers (mo_world s)) in
     \<lparr>th_serverId = t_serverId t, th_serverName = (case srv of Some (v, st) \<Rightarrow> srv_name v | None \<Rightarrow> ''-''),
      th_serverStatus = (case srv of Some (v, st) \<Rightarrow> server_status_text st | None \<Rightarrow> ''UNKNOWN''),
      th_inboundId = t_inboundId t, th_inboundLabel = inbound_label (t_inboundId t) ib, th_ok = (issue = None), th_issue = issue,
      th_clients = length links, th_up = sum_list (map cs_up links), th_down = sum_list (map cs_down links)\<rparr>)"

record service_overview =
  sov_service :: service
  sov_adminNames :: "string list"
  sov_isPublic :: bool
  sov_targets :: nat
  sov_healthy :: nat
  sov_broken :: nat
  sov_offline :: nat
  sov_servers :: nat
  sov_clients :: nat
  sov_activeClients :: nat
  sov_up :: int
  sov_down :: int
  sov_targetHealth :: "target_health list"

definition admin_name :: "world \<Rightarrow> uid \<Rightarrow> string" where
  "admin_name w i = (case find_admin i w of Some a \<Rightarrow> str_or (adm_displayName a) (adm_username a) id | None \<Rightarrow> ''-'')"

definition service_overview_of :: "mon_state \<Rightarrow> service \<Rightarrow> service_overview" where
  "service_overview_of s v =
    (let w = mo_world s; hs = map (target_health_of s) (svc_targets v); cs = filter (\<lambda>c. cli_serviceId c = Some (svc_id v)) (clients w) in
     \<lparr>sov_service = v, sov_adminNames = map (admin_name w) (svc_adminIds v), sov_isPublic = (svc_adminIds v = []),
      sov_targets = length hs, sov_healthy = length (filter th_ok hs),
      sov_broken = length (filter (\<lambda>h. th_issue h \<noteq> None \<and> th_issue h \<noteq> Some SI_SERVER_OFFLINE) hs),
      sov_offline = length (filter (\<lambda>h. th_issue h = Some SI_SERVER_OFFLINE) hs), sov_servers = length (uniq (map th_serverId hs)),
      sov_clients = length cs, sov_activeClients = length (filter (\<lambda>c. cli_status c = C_ACTIVE) cs),
      sov_up = sum_list (map cli_usedUp cs), sov_down = sum_list (map cli_usedDown cs), sov_targetHealth = hs\<rparr>)"

record services_overview =
  svo_services :: nat
  svo_active :: nat
  svo_broken :: nat
  svo_clients :: nat
  svo_traffic :: int
  svo_rows :: "service_overview list"

definition services_owner_only :: "admin \<Rightarrow> ('w, unit) op" where
  "services_owner_only actor = throw_if (adm_role actor \<noteq> OWNER) (forbidden_error ''only the owner may do this'')"

definition servicesOverview :: "admin \<Rightarrow> (mon_state, services_overview) op" where
  "servicesOverview actor =
    andthen (services_owner_only actor)
    (gets (\<lambda>s. let rows = map (service_overview_of s) (sort_key svc_sortOrder (sort_key svc_createdAt (service_rows (mo_world s)))) in
      \<lparr>svo_services = length rows, svo_active = length (filter (\<lambda>r. svc_isActive (sov_service r)) rows),
       svo_broken = length (filter (\<lambda>r. 0 < sov_broken r \<or> sov_targets r = 0) rows), svo_clients = sum_list (map sov_clients rows),
       svo_traffic = sum_list (map (\<lambda>r. sov_up r + sov_down r) rows), svo_rows = rows\<rparr>))"

text \<open>Every target of a service is healthy, broken or merely offline, and only one of them.\<close>
lemma overview_counts: "sov_healthy (service_overview_of s v) + sov_broken (service_overview_of s v) + sov_offline (service_overview_of s v) = sov_targets (service_overview_of s v)"
proof -
  have parts: "length (filter (\<lambda>h. th_issue h = None) hs) + length (filter (\<lambda>h. th_issue h \<noteq> None \<and> th_issue h \<noteq> Some SI_SERVER_OFFLINE) hs) +
      length (filter (\<lambda>h. th_issue h = Some SI_SERVER_OFFLINE) hs) = length hs" for hs
    by (induction hs) auto
  have okay: "filter th_ok (map (target_health_of s) ts) = filter (\<lambda>h. th_issue h = None) (map (target_health_of s) ts)" for ts
    by (rule filter_cong) (auto simp: target_health_of_def Let_def)
  show ?thesis
    unfolding service_overview_of_def Let_def service_overview.select_convs okay by (rule parts)
qed

section \<open>Copies and the order of services\<close>

definition duplicateService :: "admin \<Rightarrow> uid \<Rightarrow> string option \<Rightarrow> (world, uid \<times> string) op" where
  "duplicateService actor i name =
    andthen (services_owner_only actor)
    (bnd (gets (find_service i)) (\<lambda>found. bnd (or_throw found service_not_found) (\<lambda>src.
     let copyName = (let n = str_trim (opt_default name []) in if n = [] then svc_name src @ '' (copy)'' else n) in
     bnd new_id (\<lambda>k. bnd now (\<lambda>tm.
     andthen (modify (\<lambda>w. w\<lparr>service_rows := service_rows w @ [src\<lparr>svc_id := k, svc_ownerId := adm_id actor, svc_name := copyName,
        svc_isActive := False, svc_sortOrder := svc_sortOrder src + 1, svc_createdAt := tm\<rparr>]\<rparr>))
     (andthen (audit (Some (adm_id actor)) ''service.duplicate'' (JId k)
        [(''from'', JId i), (''name'', JStr copyName), (''targets'', JInt (int (length (svc_targets src))))] None)
     (ret (k, copyName))))))))"

definition set_order :: "uid \<Rightarrow> int \<Rightarrow> (world, unit) op" where
  "set_order i k =
    bnd (gets (find_service i)) (\<lambda>found. andthen (throw_if (found = None) record_not_found)
      (modify (\<lambda>w. w\<lparr>service_rows := upd_rows (\<lambda>s. svc_id s = i) (\<lambda>s. s\<lparr>svc_sortOrder := k\<rparr>) (service_rows w)\<rparr>)))"

definition reorderServices :: "admin \<Rightarrow> uid list \<Rightarrow> (world, (uid \<times> int) list) op" where
  "reorderServices actor ids =
    andthen (services_owner_only actor)
    (let wanted = uniq ids in
     andthen (throw_if (wanted = []) (app_error ''the new order is empty''))
     (bnd (gets (\<lambda>w. filter (\<lambda>i. find_service i w \<noteq> None) wanted)) (\<lambda>ordered.
      andthen (throw_if (ordered = []) (not_found_error ''no service to arrange''))
      (let pairs = map (\<lambda>(k, i). (i, int k)) (enumerate 0 ordered) in
       andthen (transaction (for_each pairs (\<lambda>(i, k). set_order i k)))
       (andthen (audit (Some (adm_id actor)) ''service.reorder'' JNull [(''count'', JInt (int (length ordered)))] None)
       (ret pairs))))))"

section \<open>The detail view of a reseller\<close>

definition pct :: "int \<Rightarrow> int option \<Rightarrow> int option" where
  "pct used whole = (case whole of Some t \<Rightarrow> if 0 < t then Some (min 999 (js_round (of_int used / of_int t * 100))) else None | None \<Rightarrow> None)"

definition days_to :: "time \<Rightarrow> time option \<Rightarrow> int option" where
  "days_to tm e = map_option (\<lambda>t. js_ceil (of_int (t - tm) / of_int DAY_MS)) e"

record admin_client_row =
  acr_client :: client
  acr_used :: int
  acr_usagePct :: "int option"
  acr_daysLeft :: "int option"
  acr_serviceName :: "string option"
  acr_servers :: nat

definition admin_client_row_of :: "world \<Rightarrow> client \<Rightarrow> admin_client_row" where
  "admin_client_row_of w c =
    (let used = cli_usedUp c + cli_usedDown c in
     \<lparr>acr_client = c, acr_used = used, acr_usagePct = pct used (Some (cli_trafficLimit c)), acr_daysLeft = days_to (clock w) (cli_expiresAt c),
      acr_serviceName = Option.bind (cli_serviceId c) (\<lambda>i. map_option svc_name (find_service i w)),
      acr_servers = length (filter (\<lambda>l. cs_clientId l = cli_id c) (client_servers w))\<rparr>)"

record admin_access_row =
  aar_serverId :: uid
  aar_serverName :: string
  aar_serverStatus :: string
  aar_inboundIds :: "int list"
  aar_inboundLabels :: "string list"

definition admin_access_row_of :: "mon_state \<Rightarrow> server_access \<Rightarrow> admin_access_row" where
  "admin_access_row_of s r =
    (let srv = server_of s (acc_serverId r); ibs = (case srv of Some (v, st) \<Rightarrow> srv_inbounds v | None \<Rightarrow> []);
         pick = (if acc_inboundIds r \<noteq> [] then acc_inboundIds r else map ib_id ibs) in
     \<lparr>aar_serverId = acc_serverId r, aar_serverName = (case srv of Some (v, st) \<Rightarrow> srv_name v | None \<Rightarrow> ''-''),
      aar_serverStatus = (case srv of Some (v, st) \<Rightarrow> server_status_text st | None \<Rightarrow> ''UNKNOWN''), aar_inboundIds = acc_inboundIds r,
      aar_inboundLabels = map (\<lambda>i. case find_row ib_id i ibs of Some b \<Rightarrow> ib_protocol b @ '':'' @ show_int (ib_port b) | None \<Rightarrow> ''#'' @ show_int i) pick\<rparr>)"

record admin_detail =
  add_admin :: admin
  add_daysLeft :: "int option"
  add_allocated :: int
  add_used :: int
  add_allocatedPct :: "int option"
  add_usedPct :: "int option"
  add_remaining :: "int option"
  add_total :: nat
  add_byStatus :: "client_status \<Rightarrow> nat"
  add_limitPct :: "int option"
  add_services :: "(service \<times> bool \<times> nat) list"
  add_access :: "admin_access_row list"
  add_topClients :: "admin_client_row list"
  add_recentClients :: "admin_client_row list"
  add_wallet :: "wallet_tx list"
  add_audit :: "audit_row list"

definition adminDetail :: "admin \<Rightarrow> uid \<Rightarrow> (mon_state, admin_detail) op" where
  "adminDetail actor i =
    andthen (services_owner_only actor)
    (bnd (gets (\<lambda>s. find_admin i (mo_world s))) (\<lambda>found. bnd (or_throw found (not_found_error ''admin not found'')) (\<lambda>a.
     gets (\<lambda>s. let w = mo_world s; cs = filter (\<lambda>c. cli_adminId c = i) (clients w);
        allocated = sum_list (map cli_trafficLimit cs); used = sum_list (map cli_usedUp cs) + sum_list (map cli_usedDown cs) in
      \<lparr>add_admin = a, add_daysLeft = days_to (clock w) (adm_expiresAt a), add_allocated = allocated, add_used = used,
       add_allocatedPct = pct allocated (adm_trafficQuota a), add_usedPct = pct used (adm_trafficQuota a),
       add_remaining = map_option (\<lambda>q. q - allocated) (adm_trafficQuota a), add_total = length cs,
       add_byStatus = (\<lambda>st. length (filter (\<lambda>c. cli_status c = st) cs)), add_limitPct = pct (int (length cs)) (adm_clientLimit a),
       add_services = map (\<lambda>v. (v, svc_adminIds v = [], length (svc_targets v)))
          (filter (\<lambda>v. svc_adminIds v = [] \<or> i \<in> set (svc_adminIds v)) (sort_key svc_sortOrder (sort_key svc_createdAt (service_rows w)))),
       add_access = map (admin_access_row_of s) (filter (\<lambda>r. acc_adminId r = i) (server_accesses w)),
       add_topClients = take 10 (sort_key (\<lambda>r. - acr_used r) (map (admin_client_row_of w) (take 25 (sort_key (\<lambda>c. - cli_usedDown c) cs)))),
       add_recentClients = map (admin_client_row_of w) (take 10 (sort_key (\<lambda>c. - cli_createdAt c) cs)),
       add_wallet = take 10 (sort_key (\<lambda>t. - wtx_createdAt t) (filter (\<lambda>t. wtx_adminId t = i) (wallet_txs w))),
       add_audit = take 20 (sort_key (\<lambda>r. - aud_at r) (filter (\<lambda>r. aud_adminId r = Some i) (audit_log w)))\<rparr>))))"

section \<open>The order the owner asked for\<close>

lemma audit_only: "audit a act t m ip w = (r, w') \<Longrightarrow> events_only w w'"
  using audit_events [of a act t m ip w] by auto

text \<open>The rows after the first positions of a list are written.\<close>
definition placed :: "(uid \<times> int) list \<Rightarrow> service list \<Rightarrow> service list" where
  "placed pairs rows = map (\<lambda>s. case map_of pairs (svc_id s) of Some k \<Rightarrow> s\<lparr>svc_sortOrder := k\<rparr> | None \<Rightarrow> s) rows"

lemma placed_ids: "map svc_id (placed pairs rows) = map svc_id rows"
  by (simp add: placed_def split: option.split)

lemma set_order_run: "find_row svc_id i (service_rows w) \<noteq> None \<Longrightarrow>
   set_order i k w = (Inr (), w\<lparr>service_rows := upd_rows (\<lambda>s. svc_id s = i) (\<lambda>s. s\<lparr>svc_sortOrder := k\<rparr>) (service_rows w)\<rparr>)"
  by (auto simp: set_order_def find_service_def andthen_throw_if)

lemma placed_step:
  "i \<notin> fst ` set pairs \<Longrightarrow> placed pairs (upd_rows (\<lambda>s. svc_id s = i) (\<lambda>s. s\<lparr>svc_sortOrder := k\<rparr>) rows) = placed ((i, k) # pairs) rows"
  unfolding placed_def upd_rows_def map_map
  by (intro map_cong refl) (auto simp: map_of_eq_None_iff [symmetric])

lemma place_all:
  "distinct (map fst pairs) \<Longrightarrow> (\<And>i. i \<in> fst ` set pairs \<Longrightarrow> find_row svc_id i (service_rows w) \<noteq> None) \<Longrightarrow>
    for_each pairs (\<lambda>(i, k). set_order i k) w = (Inr (), w\<lparr>service_rows := placed pairs (service_rows w)\<rparr>)"
proof (induction pairs arbitrary: w)
  case Nil
  have "placed [] rows = rows" for rows by (simp add: placed_def)
  then show ?case by simp
next
  case (Cons p pairs)
  obtain i k where p: "p = (i, k)" by (cases p)
  let ?w = "w\<lparr>service_rows := upd_rows (\<lambda>s. svc_id s = i) (\<lambda>s. s\<lparr>svc_sortOrder := k\<rparr>) (service_rows w)\<rparr>"
  have run: "set_order i k w = (Inr (), ?w)" using Cons.prems(2) by (intro set_order_run) (simp add: p)
  have "find_row svc_id j (service_rows ?w) \<noteq> None" if "j \<in> fst ` set pairs" for j
    using Cons.prems(2) that by (simp add: find_row_upd)
  from Cons.IH [OF _ this] Cons.prems(1) run show ?case
    by (simp add: p andthen_def bnd_def placed_step)
qed

lemma pairs_facts:
  "map fst (map (\<lambda>(k, i). (i, int k)) (enumerate 0 xs)) = xs"
  "distinct xs \<Longrightarrow> k < length xs \<Longrightarrow> map_of (map (\<lambda>(k, i). (i, int k)) (enumerate 0 xs)) (xs ! k) = Some (int k)"
proof -
  show fst: "map fst (map (\<lambda>(k, i). (i, int k)) (enumerate 0 xs)) = xs"
    by (rule nth_equalityI) (simp_all add: nth_enumerate_eq)
  assume d: "distinct xs" and k: "k < length xs"
  have "(k, xs ! k) \<in> set (enumerate 0 xs)" using k by (simp add: in_set_enumerate_eq)
  then have "(xs ! k, int k) \<in> set (map (\<lambda>(k, i). (i, int k)) (enumerate 0 xs))" by force
  then show "map_of (map (\<lambda>(k, i). (i, int k)) (enumerate 0 xs)) (xs ! k) = Some (int k)"
    using d by (subst map_of_eq_Some_iff) (simp_all only: fst)
qed

lemma placed_order:
  assumes d: "distinct (map svc_id rows)" and o: "distinct ordered" and sub: "set ordered \<subseteq> svc_id ` set rows"
    and F: "F = filter (\<lambda>s. svc_id s \<in> set ordered) (placed (map (\<lambda>(k, i). (i, int k)) (enumerate 0 ordered)) rows)"
  shows "map svc_id (sort_key svc_sortOrder F) = ordered"
proof -
  let ?pairs = "map (\<lambda>(k, i). (i, int k)) (enumerate 0 ordered)"
  note ids = placed_ids [of ?pairs rows]
  have pos: "\<exists>k < length ordered. svc_id s = ordered ! k \<and> svc_sortOrder s = int k" if s: "s \<in> set F" for s
  proof -
    obtain r where r: "s = (case map_of ?pairs (svc_id r) of Some k \<Rightarrow> r\<lparr>svc_sortOrder := k\<rparr> | None \<Rightarrow> r)" and m: "svc_id s \<in> set ordered"
      using s unfolding F placed_def by auto
    have "svc_id s = svc_id r" unfolding r by (simp split: option.split)
    then obtain k where k: "k < length ordered" "svc_id r = ordered ! k" using m by (auto simp: in_set_conv_nth)
    then have "s = r\<lparr>svc_sortOrder := int k\<rparr>" using r pairs_facts(2) [OF o k(1)] by simp
    then show ?thesis using k by auto
  qed
  have distF: "distinct (map svc_id F)" using d ids unfolding F by (metis distinct_map_filter)
  have "inj_on svc_sortOrder (set F)"
    by (rule inj_onI) (use pos distF in \<open>metis distinct_map inj_onD of_nat_eq_iff\<close>)
  then have distinct_keys: "distinct (map svc_sortOrder (sort_key svc_sortOrder F))"
    using distF by (simp add: distinct_map)
  have "svc_sortOrder ` set F = int ` {..< length ordered}"
  proof (intro equalityI subsetI)
    fix x assume "x \<in> svc_sortOrder ` set F"
    then show "x \<in> int ` {..< length ordered}" using pos by force
  next
    fix x assume "x \<in> int ` {..< length ordered}"
    then obtain k where k: "k < length ordered" "x = int k" by auto
    then obtain r where r: "r \<in> set rows" "svc_id r = ordered ! k" using sub by (metis imageE nth_mem subsetD)
    have "r\<lparr>svc_sortOrder := int k\<rparr> \<in> set (placed ?pairs rows)"
      unfolding placed_def set_map using r pairs_facts(2) [OF o k(1)] by (intro image_eqI [of _ _ r]) simp_all
    then have "r\<lparr>svc_sortOrder := int k\<rparr> \<in> set F" using r(2) k(1) by (simp add: F)
    then show "x \<in> svc_sortOrder ` set F" using k(2) by (intro image_eqI [of _ _ "r\<lparr>svc_sortOrder := int k\<rparr>"]) simp_all
  qed
  then have "map svc_sortOrder (sort_key svc_sortOrder F) = map int [0 ..< length ordered]"
    using distinct_keys
    by (intro sorted_distinct_set_unique [OF sorted_sort_key])
      (simp_all add: atLeast0LessThan distinct_map sorted_wrt_map)
  then have "map nat (map svc_sortOrder (sort_key svc_sortOrder F)) = map nat (map int [0 ..< length ordered])" by (simp only:)
  then have keys: "map (\<lambda>s. nat (svc_sortOrder s)) (sort_key svc_sortOrder F) = [0 ..< length ordered]" by (simp add: comp_def)
  have "map svc_id (sort_key svc_sortOrder F) = map (\<lambda>s. ordered ! nat (svc_sortOrder s)) (sort_key svc_sortOrder F)"
    using pos by (intro map_cong refl) force
  also have "\<dots> = map ((!) ordered) [0 ..< length ordered]" unfolding keys [symmetric] by (simp add: comp_def)
  finally show ?thesis by (simp add: map_nth)
qed

text \<open>
  The services of a list, arranged by \<open>reorderServices\<close> and listed by \<open>sortOrder\<close>, come in the order of the list
  (each once, unknown ones left out); the other services keep their rows.
\<close>
lemma reorder_lists:
  assumes "reorderServices actor ids w = (Inr r, w')" and "distinct (map svc_id (service_rows w))"
  shows "map svc_id (sort_key svc_sortOrder (filter (\<lambda>s. svc_id s \<in> set ids) (service_rows w'))) = filter (\<lambda>i. find_service i w \<noteq> None) (uniq ids) \<and>
    filter (\<lambda>s. svc_id s \<notin> set ids) (service_rows w') = filter (\<lambda>s. svc_id s \<notin> set ids) (service_rows w)"
proof -
  define ordered where "ordered = filter (\<lambda>i. find_service i w \<noteq> None) (uniq ids)"
  let ?pairs = "map (\<lambda>(k, i). (i, int k)) (enumerate 0 ordered)"
  have o: "distinct ordered" by (simp add: ordered_def)
  have mem: "i \<in> set ordered \<longleftrightarrow> i \<in> set ids \<and> i \<in> svc_id ` set (service_rows w)" for i
    by (auto simp: ordered_def find_service_def find_row_None)
  have place: "for_each ?pairs (\<lambda>(i, k). set_order i k) w = (Inr (), w\<lparr>service_rows := placed ?pairs (service_rows w)\<rparr>)"
    using o mem by (intro place_all) (simp_all only: pairs_facts set_map [symmetric], simp_all add: find_row_None)
  have "events_only (w\<lparr>service_rows := placed ?pairs (service_rows w)\<rparr>) w'"
    using assms(1) place
    by (auto simp: reorderServices_def services_owner_only_def andthen_throw_if Let_def ordered_def [symmetric] andthen_inr transaction_inr ret_inr bnd_inr
        simp del: enumerate_simps not_None_eq dest!: audit_only split: if_splits)
  then have rows: "service_rows w' = placed ?pairs (service_rows w)" by (simp add: eo_service_rows)
  have ids: "svc_id ` set (placed ?pairs (service_rows w)) = svc_id ` set (service_rows w)"
    using placed_ids [of ?pairs "service_rows w"] by (metis set_map)
  have "filter (\<lambda>s. svc_id s \<in> set ids) (service_rows w') = filter (\<lambda>s. svc_id s \<in> set ordered) (placed ?pairs (service_rows w))"
    unfolding rows by (rule filter_cong) (use mem ids in auto)
  then have "map svc_id (sort_key svc_sortOrder (filter (\<lambda>s. svc_id s \<in> set ids) (service_rows w'))) = ordered"
    using placed_order [OF assms(2) o] mem by auto
  moreover have "filter (\<lambda>s. svc_id s \<notin> set ids) (placed ?pairs rs) = filter (\<lambda>s. svc_id s \<notin> set ids) rs" for rs
  proof (induction rs)
    case (Cons s rs)
    have "map_of ?pairs (svc_id s) = None" if "svc_id s \<notin> set ids"
      unfolding map_of_eq_None_iff set_map [symmetric] pairs_facts using that mem by simp
    then show ?case using Cons by (auto simp: placed_def split: option.split)
  qed (simp add: placed_def)
  ultimately show ?thesis by (simp add: rows ordered_def)
qed

end
