(* ===== verification/ClientDevices.thy ===== *)
theory ClientDevices
  imports Refunds AutoRenew
begin

text \<open>
  The devices and the connected addresses of a client: \<open>clientHwid.ts\<close> (the device limit and the
  devices the panels remember) and \<open>clientIps.ts\<close> (the addresses they counted). What a panel answers
  to a question is the parameter \<open>read\<close> of a server and a remote name; wiping its list is a call of
  the state's \<open>panel_log\<close>. With them the scope of a reseller is complete: what every
  operation that is given the identifier of a client answers when the client is not his.
\<close>

record device_row =
  dv_serverId :: uid
  dv_serverName :: string
  dv_email :: string
  dv_items :: "string list"
  dv_error :: "string option"

record device_report =
  dp_limit :: int
  dp_total :: nat
  dp_servers :: "device_row list"

text \<open>One remote client per server and remote name, in the order of the first link.\<close>
definition remoteTargets :: "client_server list \<Rightarrow> (uid \<times> string) list" where
  "remoteTargets links = uniq (map (\<lambda>l. (cs_serverId l, cs_remoteEmail l)) links)"

definition serversOf :: "(uid \<times> string) list \<Rightarrow> world \<Rightarrow> server list" where
  "serversOf targets = servers_in (uniq (map fst targets))"

text \<open>The rows of the report: a server that is not found is skipped, a panel that fails is noted.\<close>
definition read_rows :: "(server \<Rightarrow> string \<Rightarrow> string + string list) \<Rightarrow> (uid \<times> string) list \<Rightarrow> world \<Rightarrow> device_row list" where
  "read_rows read targets w = List.map_filter (\<lambda>(i, email). map_option (\<lambda>s.
       \<lparr>dv_serverId = i, dv_serverName = srv_name s, dv_email = email,
         dv_items = (case read s email of Inr xs \<Rightarrow> xs | Inl m \<Rightarrow> []),
         dv_error = (case read s email of Inr xs \<Rightarrow> None | Inl m \<Rightarrow> Some (take 200 m))\<rparr>)
     (find_row srv_id i (serversOf targets w))) targets"

definition report_of :: "int \<Rightarrow> device_row list \<Rightarrow> device_report" where
  "report_of limit rows = \<lparr>dp_limit = limit, dp_total = length (uniq (concat (map dv_items rows))), dp_servers = rows\<rparr>"

definition clientDevices :: "(server \<Rightarrow> string \<Rightarrow> string + string list) \<Rightarrow> admin \<Rightarrow> uid \<Rightarrow> (world, device_report) op" where
  "clientDevices read actor clientId =
    bnd (getClientForActor actor clientId) (\<lambda>(c, links).
    gets (\<lambda>w. report_of (getHwidLimit (cli_id c) w) (read_rows read (remoteTargets links) w)))"

definition clientIps :: "(server \<Rightarrow> string \<Rightarrow> string + string list) \<Rightarrow> admin \<Rightarrow> uid \<Rightarrow> (world, device_report) op" where
  "clientIps read actor clientId =
    bnd (getClientForActor actor clientId) (\<lambda>(c, links).
    gets (\<lambda>w. report_of (cli_ipLimit c) (read_rows read (remoteTargets links) w)))"

text \<open>The limit is saved and pushed to every panel of the client.\<close>
definition setClientHwidLimit :: "admin \<Rightarrow> uid \<Rightarrow> rat \<Rightarrow> (world, int \<times> string list) op" where
  "setClientHwidLimit actor clientId inp =
    bnd (getClientForActor actor clientId) (\<lambda>(c, links).
    bnd (writeHwidLimit (cli_id c) inp) (\<lambda>limit.
    bnd (pushClient (c, links)) (\<lambda>errors.
    andthen (audit (Some (adm_id actor)) ''client.hwid.set'' (JId (cli_id c))
      [(''limit'', JInt limit), (''failed'', JInt (int (length errors)))] None)
    (ret (limit, errors)))))"

definition clear_one :: "(uid \<Rightarrow> string \<Rightarrow> panel_call) \<Rightarrow> server list \<Rightarrow> uid \<times> string \<Rightarrow> nat \<times> string list \<Rightarrow> (world, nat \<times> string list) op" where
  "clear_one call srvs t acc =
    (case (t, acc) of ((i, email), (cleared, errors)) \<Rightarrow>
     case find_row srv_id i srvs of
       None \<Rightarrow> ret (cleared, errors)
     | Some s \<Rightarrow> catch_op (andthen (panel_do (call i email)) (ret (Suc cleared, errors)))
         (\<lambda>e. ret (cleared, errors @ [panel_error s e])))"

definition clear_remote :: "(uid \<Rightarrow> string \<Rightarrow> panel_call) \<Rightarrow> string \<Rightarrow> admin \<Rightarrow> uid \<Rightarrow> (world, nat \<times> string list) op" where
  "clear_remote call action actor clientId =
    bnd (getClientForActor actor clientId) (\<lambda>(c, links).
    bnd (gets (serversOf (remoteTargets links))) (\<lambda>srvs.
    bnd (fold_op (clear_one call srvs) (remoteTargets links) (0, [])) (\<lambda>(cleared, errors).
    andthen (audit (Some (adm_id actor)) action (JId (cli_id c))
      [(''cleared'', JInt (int cleared)), (''failed'', JInt (int (length errors)))] None)
    (ret (cleared, errors)))))"

definition clearClientDevices :: "admin \<Rightarrow> uid \<Rightarrow> (world, nat \<times> string list) op" where
  "clearClientDevices = clear_remote PanelClearDevices ''client.devices.clear''"

definition clearClientIps :: "admin \<Rightarrow> uid \<Rightarrow> (world, nat \<times> string list) op" where
  "clearClientIps = clear_remote PanelClearIps ''client.ips.clear''"

section \<open>The lists and the wipe\<close>

text \<open>Every reachable remote client is either wiped or reported.\<close>
lemma clear_fold:
  "\<exists>n es w'. fold_op (clear_one call srvs) ts (cleared, errors) w = (Inr (cleared + n, errors @ es), w') \<and>
     n + length es = length (filter (\<lambda>(i, e). find_row srv_id i srvs \<noteq> None) ts) \<and>
     map cli_id (clients w') = map cli_id (clients w) \<and> client_servers w' = client_servers w"
proof (induction ts arbitrary: cleared errors w)
  case Nil
  then show ?case by simp
next
  case (Cons t ts)
  obtain i e where t: "t = (i, e)" by force
  show ?case
  proof (cases "find_row srv_id i srvs")
    case None
    then show ?thesis using Cons.IH [of cleared errors w] by (simp add: t clear_one_def)
  next
    case (Some s)
    let ?w = "w\<lparr>panel_log := panel_log w @ [call i e]\<rparr>"
    show ?thesis
    proof (cases "ext_panel (svcs w) (panel_log w) (call i e)")
      case None
      then have "clear_one call srvs t (cleared, errors) w = (Inr (Suc cleared, errors), ?w)"
        by (simp add: t clear_one_def Some panel_do_def catch_op_def andthen_def bnd_def ret_def)
      moreover obtain n es w' where "fold_op (clear_one call srvs) ts (Suc cleared, errors) ?w = (Inr (Suc cleared + n, errors @ es), w')"
        "n + length es = length (filter (\<lambda>(i, e). find_row srv_id i srvs \<noteq> None) ts)"
        "map cli_id (clients w') = map cli_id (clients w)" "client_servers w' = client_servers w"
        using Cons.IH [of "Suc cleared" errors ?w] by auto
      ultimately show ?thesis
        by (intro exI [of _ "Suc n"] exI [of _ es] exI [of _ w']) (simp add: bnd_def t Some)
    next
      case m: (Some m)
      let ?e = "panel_error s (PlainError m)"
      have "clear_one call srvs t (cleared, errors) w = (Inr (cleared, errors @ [?e]), ?w)"
        using m by (simp add: t clear_one_def Some panel_do_def catch_op_def andthen_def bnd_def ret_def)
      moreover obtain n es w' where "fold_op (clear_one call srvs) ts (cleared, errors @ [?e]) ?w = (Inr (cleared + n, (errors @ [?e]) @ es), w')"
        "n + length es = length (filter (\<lambda>(i, e). find_row srv_id i srvs \<noteq> None) ts)"
        "map cli_id (clients w') = map cli_id (clients w)" "client_servers w' = client_servers w"
        using Cons.IH [of cleared "errors @ [?e]" ?w] by auto
      ultimately show ?thesis
        by (intro exI [of _ n] exI [of _ "?e # es"] exI [of _ w']) (simp add: bnd_def t Some)
    qed
  qed
qed

text \<open>A saved limit reads back as the clamped number.\<close>
lemma writeHwidLimit_reads_back:
  "writeHwidLimit i x w = (Inr l, w') \<Longrightarrow> l = clampHwid x \<and> getHwidLimit i w' = clampHwid x"
proof -
  have none: "map_of (filter (\<lambda>(j, l). j \<noteq> i) rows) i = None" for rows :: "(uid \<times> int) list"
    by (induction rows) auto
  have idem: "clampHwid (of_int (clampHwid x)) = clampHwid x" by (simp add: clampHwid_def Let_def HWID_MAX_def min_def)
  assume "writeHwidLimit i x w = (Inr l, w')"
  then show ?thesis
    by (auto simp: writeHwidLimit_def getHwidLimit_def Let_def inr_iffs none map_add_def idem split: if_splits)
qed

section \<open>Other people's clients\<close>

text \<open>
  C33: A reseller neither sees nor touches a client that is not his (safety). For an identifier that
  belongs to nobody, or to another account, the look-up and each of the following operations answer
  \<open>client not found\<close> (the same answer in both cases) and leave the whole state, the log of the calls to
  the remote panels included, as it was: the edit, the reset, the deletion with and without a refund, replacing the
  inbounds, setting and clearing the automatic renewal, the device limit, the devices and the addresses, read
  or wiped. And the list of a reseller shows only clients of his own.
\<close>
theorem foreign_client_untouched:
  assumes "\<forall>c. find_client i w = Some c \<longrightarrow> adm_role actor = ADMIN \<and> cli_adminId c \<noteq> adm_id actor"
  shows "getClientForActor actor i w = (Inl client_not_found, w) \<and>
    updateClient actor i upd w = (Inl client_not_found, w) \<and> resetClientTraffic actor i w = (Inl client_not_found, w) \<and>
    deleteClient actor i w = (Inl client_not_found, w) \<and> deleteClientWithRefund actor i w = (Inl client_not_found, w) \<and>
    setClientTargets actor i ts w = (Inl client_not_found, w) \<and>
    setAutoRenew actor i rule w = (Inl client_not_found, w) \<and> clearAutoRenew actor i w = (Inl client_not_found, w) \<and>
    setClientHwidLimit actor i limit w = (Inl client_not_found, w) \<and>
    clientDevices read actor i w = (Inl client_not_found, w) \<and> clearClientDevices actor i w = (Inl client_not_found, w) \<and>
    clientIps read actor i w = (Inl client_not_found, w) \<and> clearClientIps actor i w = (Inl client_not_found, w) \<and>
    (adm_role actor = ADMIN \<longrightarrow> (\<forall>(c, links) \<in> set (fst (listClients actor q st tk sk w)). cli_adminId c = adm_id actor))"
proof -
  have g: "getClientForActor actor i w = (Inl client_not_found, w)"
    by (rule getClientForActor_foreign) (use assms in \<open>auto simp: in_scope_def\<close>)
  have d: "deleteClient actor i w = (Inl client_not_found, w)"
    unfolding deleteClient_def by (rule bnd_fails) (rule g)
  have quote: "\<exists>r. catch_op (bnd (quoteRefund i) (\<lambda>q. ret (Some q))) (\<lambda>_. ret None) w = (Inr r, w)"
    by (auto simp: catch_op_def bnd_def quoteRefund_def or_throw_def gets_def ret_def throw_def split: option.split sum.split)
  then obtain r where "catch_op (bnd (quoteRefund i) (\<lambda>q. ret (Some q))) (\<lambda>_. ret None) w = (Inr r, w)" by blast
  then have dr: "deleteClientWithRefund actor i w = (Inl client_not_found, w)"
    unfolding deleteClientWithRefund_def bnd_def [of "catch_op _ _"] by (simp add: bnd_fails [of "deleteClient actor i" w, OF d])
  have list: "\<forall>(c, links) \<in> set (fst (listClients actor q st tk sk w)). cli_adminId c = adm_id actor" if "adm_role actor = ADMIN"
    using that by (auto simp: listClients_def Let_def in_scope_def dest!: in_set_takeD in_set_dropD)
  show ?thesis
    unfolding updateClient_def resetClientTraffic_def setClientTargets_def setAutoRenew_def clearAutoRenew_def setClientHwidLimit_def
      clientDevices_def clientIps_def clearClientDevices_def clearClientIps_def clear_remote_def
    by (intro conjI impI bnd_fails g d dr list)
qed

lemma foreign_client_untouched_witness:
  "deleteClientWithRefund (demo_admin 4 ADMIN 0) 7 (demo_world\<lparr>clients := [demo_client 7]\<rparr>) =
     (Inl client_not_found, demo_world\<lparr>clients := [demo_client 7]\<rparr>)"
  using foreign_client_untouched [of 7 "demo_world\<lparr>clients := [demo_client 7]\<rparr>" "demo_admin 4 ADMIN 0"]
  by (simp add: find_client_def)

end
