(* ===== verification/Spec2Isabelle.thy ===== *)
theory Spec2Isabelle
  imports ClientSafety Refunds CardSafety ResellerPlans AutoRenew ClientBulk LicenseSafety Monitoring PluginSafety ApiKeys StoreDomains AdminAccess ShopCatalog OwnerViews ClientDevices
begin

text \<open>
  A verification development for SR-Panel, the control panel of a reseller network of VPN clients. The code modelled is
  the core package of the repository (\<open>src/packages/core/src\<close>), with the tables of
  \<open>src/packages/db/prisma/schema.prisma\<close> it works on and three routes of the web application that add rules of
  their own. File names below are relative to \<open>src/packages/core/src/services\<close> unless they say otherwise.

  \<^bold>\<open>The program.\<close> An owner registers remote panels (servers) with inbounds, bundles inbounds into services, and
  lets resellers sell clients on them. A reseller has a wallet, limits and a storefront; customers of a storefront order
  plans, pay by gateway, card, crypto or from a wallet of their own, and a confirmed payment is settled: an order is
  delivered as a client (or as a sub-panel), or a wallet is topped up. Around this stand sign-in and its guard, webhooks,
  notifications and the audit log, monitoring of the servers, licences that unlock paid sections, keys of the public API
  and the custom domains of shops. The components call each other directly and share the database: delivery calls the client
  operations, those call the wallet; payments, deposits, gateway callbacks and plugins all end in \<open>confirmPayment\<close>.

  \<^bold>\<open>How code becomes definitions.\<close> A function that reads and writes the database is an operation on the state
  \<open>world\<close> (theory \<open>Schema\<close>): one field per table, a list of records in the order of insertion, with the columns the modelled
  code uses. It returns a value or the error it throws together with the state it leaves behind, so rows written before an
  error stay written; only \<open>transaction\<close> takes them back. A missing row in an update, a broken unique or foreign key and
  every \<open>throw\<close> of the source are branches. Identifiers come from a counter, the time is a field, random draws and
  everything outside the repository (Telegram, mail, HTTP answers, hashing, ciphers, date parsing, the remote panels) are the
  functions of the record \<open>services\<close>. Parts of the state that one component owns and no other reads (licences, incidents,
  plugins, API keys, shop domains, catalogues) are fields of a record of that component beside the \<open>world\<close>. Money and byte counts are
  integers as in the source (\<open>bigint\<close>); JavaScript numbers that need not be whole are exact rationals, NaN is \<open>None\<close>;
  where the rounding of a double decides what a buyer is asked to send (\<open>coinAmount\<close>, \<open>usdtAmountFor\<close>, the margin of a rate) each
  operation is followed by the rounding \<open>fl\<close> of theory \<open>Doubles\<close>.
  Texts are lists of ASCII characters; the Persian texts of messages are given as English constants, the
  Persian words the code searches for as their UTF-8 bytes.

  \<^bold>\<open>Theories and the code they model.\<close>
  \<^item> \<open>Prelude\<close> (operations, rows, text), \<open>Grouped\<close>, \<open>Text\<close>, \<open>Bytes\<close> (\<open>util/bytes.ts\<close>), \<open>Doubles\<close> (the rounding of
    numbers), \<open>Naming\<close> (\<open>util/naming.ts\<close>),
    \<open>Totp\<close> (\<open>security/totp.ts\<close>), \<open>Schema\<close>, \<open>Demo\<close> (a concrete state for the witnesses).
  \<^item> \<open>Events\<close>: \<open>webhooks.ts\<close>, \<open>notifications.ts\<close>, \<open>audit.ts\<close>. \<open>ClientSettings\<close>: \<open>pendingStart.ts\<close>, \<open>clientTypes.ts\<close>, device limits.
  \<^item> \<open>Ledger\<close>, \<open>Wallet\<close> (\<open>wallet.ts\<close>), \<open>Customers\<close> (\<open>customers.ts\<close>), \<open>ResellerPlans\<close> (\<open>resellerPlans.ts\<close>).
  \<^item> \<open>Servers\<close> (\<open>servers.ts\<close>, \<open>services.ts\<close>), \<open>ClientPanels\<close>, \<open>Clients\<close>, \<open>ClientTargets\<close> (the directory \<open>clients\<close>),
    \<open>Refunds\<close> (\<open>refunds.ts\<close>), \<open>ClientBulk\<close> (\<open>clientBulk.ts\<close>), \<open>AutoRenew\<close> (\<open>autoRenew.ts\<close>), \<open>ClientDevices\<close> (\<open>clientHwid.ts\<close>,
    \<open>clientIps.ts\<close>, and what every operation answers about a foreign client); \<open>ClientFrame\<close> and
    \<open>ClientSafety\<close> hold what these operations leave alone and what they promise.
  \<^item> \<open>Plans\<close> (\<open>plans.ts\<close>), \<open>StoreSettings\<close>, \<open>ShopCatalog\<close> (\<open>storeCatalog.ts\<close>), \<open>StoreDomains\<close> (\<open>storeDomains.ts\<close>),
    \<open>Store\<close> (\<open>store.ts\<close>, \<open>storeCustomerPay.ts\<close>).
  \<^item> \<open>Fx\<close> (\<open>fx.ts\<close>), \<open>CryptoAssets\<close>, \<open>Gateways\<close> (\<open>zarinpal.ts\<close>, \<open>tron.ts\<close>), \<open>Payments\<close> (\<open>payments.ts\<close>), \<open>Cards\<close>
    (\<open>cardAuto.ts\<close>), \<open>PaymentPlugins\<close> (\<open>paymentPlugins.ts\<close>, \<open>paymentPluginHooks.ts\<close>), \<open>Fulfillment\<close>, \<open>Panels\<close>
    (\<open>panelPlans.ts\<close>, \<open>panelProvision.ts\<close>, \<open>panelHandoff.ts\<close>); \<open>PaymentLife\<close>, \<open>PaymentSafety\<close>, \<open>CardSafety\<close> and
    \<open>PluginSafety\<close> prove what a payment may become and what it settles.
  \<^item> \<open>Auth\<close> (\<open>auth.ts\<close>, \<open>loginGuard.ts\<close>, \<open>bootstrap.ts\<close>, \<open>admins.ts\<close>, the codes of \<open>mailer.ts\<close>), \<open>AdminAccess\<close> (the sign-in
    route \<open>src/apps/web/src/app/api/auth/login/route.ts\<close> and the bulk actions of \<open>adminAdmin.ts\<close>), \<open>ApiKeys\<close> (\<open>apikeys.ts\<close>),
    \<open>OwnerViews\<close> (\<open>serviceAdmin.ts\<close>, the detail view of \<open>adminAdmin.ts\<close>), \<open>Monitoring\<close> (\<open>monitoring.ts\<close>).
  \<^item> \<open>Licensing\<close>, \<open>LicenseVendor\<close>, \<open>LicenseSafety\<close>: \<open>licensing.ts\<close>, \<open>licenseVendor.ts\<close>, the verify endpoint and the
    table of premium paths of the web application.

  \<^bold>\<open>Abstract specifications and interfaces.\<close>
  \<^item> \<open>PaymentLife.book_step\<close> is the life of a payment as an abstract machine; \<open>shop_refines_life\<close> shows that every
    operation of the shop is a sequence of its steps, \<open>confirmed_final\<close> that a confirmed payment is never undone.
  \<^item> \<open>Ledger.ledger\<close> is the contract of a wallet with a ledger; it is interpreted on the reseller wallet (\<open>aw\<close>) and the
    customer wallet (\<open>cw\<close>), and gives that every balance is the sum of its ledger.
  \<^item> \<open>PaymentLife\<close> states as locales what an invariant has to allow for the operations of delivery, money and payments to
    keep it (\<open>delivery_frame\<close>, \<open>money_frame\<close>, \<open>payment_frame\<close>, \<open>payment_law\<close>), \<open>ClientBulk\<close> what a bulk run may touch, \<open>ApiKeys\<close>
    what a property of the keys needs to survive all operations; all are interpreted on the model's own definitions.
  \<^item> \<open>Monitoring\<close> refines the worker's round to one open incident per server and kind; quotes of the wallet and of reseller
    plans are shown equal to what the purchase then does; the storefront's listing is shown to agree with the guard of an order.
  \<^item> \<open>StoreDomains.dom_inv\<close>, the normal form of a catalogue, the frames \<open>events_only\<close>, \<open>store_frame\<close> and \<open>client_frame\<close> are
    invariants or frames that every operation of their component keeps.

  \<^bold>\<open>Groups of lemmas.\<close> \<open>op_simps\<close> unfolds the combinators; \<open>preserves_intros\<close> and \<open>reads_intros\<close> carry invariants through
  them; \<open>inr_iffs\<close> takes a successful run apart; \<open>quiet_intros\<close> and the \<open>eo_\<close> lemmas say that the event plumbing leaves every
  other table alone. The properties proper are the theorems whose text block begins with a claim number, each with a witness
  that applies it to a concrete state where it has hypotheses.

  \<^bold>\<open>Bounds and fuel.\<close> Loops of the source are structural recursions or have a measure. Fuel occurs where the source itself has a
  bound: the search for a rate in the JSON of a price source goes six levels deep and the search for rows eight, a user
  name is tried twelve times, an amount is made unique in at most a thousand steps, all as in the code. Minting licence
  codes has no bound in the source; its fuel exceeds the number of stored codes, and \<open>mint_terminates\<close> shows under which
  random source that is enough.

  \<^bold>\<open>Not modelled, and why.\<close>
  \<^item> The HTTP client of the remote panels (\<open>panels/xui\<close>), SMTP, the Telegram bots and the block explorers' transport: their
    answers are parameters. Password hashing, AES, HMAC and the JSON and URL parsers are library calls and parameters too.
  \<^item> Subscription output (the text formats of client applications), message texts, page contents and read-only views of logs
    and statistics; backups and updates, which run processes and move files; importing clients from a remote panel.
  \<^item> The caches of the settings (30 seconds), and true concurrency: an operation runs to its end before the next begins, so what two
    simultaneous requests do to one row is outside the model.
  \<^item> The pages and most routes of the web application, the worker's timers and the NestJS backend: glue around the services.
\<close>

end
